(* ===== verification/Prelude.thy ===== *)
theory Prelude
  imports Main "HOL-Library.Word"
begin

text \<open>
  Shared ground of the development: the theorem collections the component theories fill, the
  machine types of the program and a few generic facts on lists, options and result values.

  \<^item> \<open>u8\<close>, \<open>u32\<close>, \<open>u64\<close> are the fixed width integers of the code; \<open>hash_digest\<close> is the 32 byte
    digest, here a 256 bit word whose zero is \<open>null_hash\<close>; \<open>double\<close> is the bit pattern of an
    IEEE number (json numbers are passed to the conversions of the system library, which are
    parameters; \<open>Doubles\<close> has the arithmetic on them).
  \<^item> \<open>result_option\<close> forgets which error a fallible operation reports.
\<close>


named_theorems route_defs "the route tables of the target parsers"
named_theorems step_defs "definitions of the operations of a stateful component"

type_synonym u8 = "8 word"
type_synonym u32 = "32 word"
type_synonym u64 = "64 word"
type_synonym hash_digest = "256 word"
type_synonym double = "64 word"

abbreviation null_hash :: hash_digest where
  "null_hash \<equiv> 0"

abbreviation max_size_t :: u64 where
  "max_size_t \<equiv> - 1"

lemma unat_widen [simp]: "unat (ucast (w :: u32) :: u64) = unat w"
  by transfer (simp add: take_bit_eq_mod)

definition result_option :: "'e + 'a \<Rightarrow> 'a option" where
  "result_option r = (case r of Inl _ \<Rightarrow> None | Inr x \<Rightarrow> Some x)"

lemma result_option_simps [simp]:
  "result_option (Inl e) = None"
  "result_option (Inr x) = Some x"
  by (simp_all add: result_option_def)

lemma result_option_eq_Some [simp]: "result_option r = Some x \<longleftrightarrow> r = Inr x"
  by (cases r) auto

lemma result_option_eq_None: "result_option r = None \<longleftrightarrow> (\<exists>e. r = Inl e)"
  by (cases r) auto

lemma result_option_if [simp]:
  "result_option (if b then r else s) = (if b then result_option r else result_option s)"
  by simp

text \<open>Lifting a result through a continuation, the shape of every early return of the code.\<close>

definition sum_bind :: "'e + 'a \<Rightarrow> ('a \<Rightarrow> 'e + 'b) \<Rightarrow> 'e + 'b" where
  "sum_bind r f = (case r of Inl e \<Rightarrow> Inl e | Inr x \<Rightarrow> f x)"

lemma sum_bind_simps [simp]:
  "sum_bind (Inl e) f = Inl e"
  "sum_bind (Inr x) f = f x"
  by (simp_all add: sum_bind_def)

lemma sum_bind_eq_Inr: "sum_bind r f = Inr y \<longleftrightarrow> (\<exists>x. r = Inr x \<and> f x = Inr y)"
  by (cases r) auto

lemma result_option_sum_bind:
  "result_option (sum_bind r f) = Option.bind (result_option r) (\<lambda>x. result_option (f x))"
  by (cases r) auto

text \<open>A property of the value of a result, if it has one; it goes through every branch of the code.\<close>

definition ok_result :: "('a \<Rightarrow> bool) \<Rightarrow> 'e + 'a \<Rightarrow> bool" where
  "ok_result P r = (case r of Inl _ \<Rightarrow> True | Inr x \<Rightarrow> P x)"

lemma ok_result_simps [simp]:
  "ok_result P (Inl e)"
  "ok_result P (Inr x) = P x"
  "ok_result P (if b then r else s) = (if b then ok_result P r else ok_result P s)"
  by (simp_all add: ok_result_def)

lemma ok_result_bind:
  "(\<And>x. r = Inr x \<Longrightarrow> ok_result P (f x)) \<Longrightarrow> ok_result P (sum_bind r f)"
  by (cases r) auto

lemma ok_resultD: "ok_result P r \<Longrightarrow> r = Inr x \<Longrightarrow> P x"
  by simp

text \<open>The first of two optional results.\<close>

definition or_else :: "'a option \<Rightarrow> 'a option \<Rightarrow> 'a option" where
  "or_else x y = (case x of None \<Rightarrow> y | Some _ \<Rightarrow> x)"

lemma or_else_simps [simp]:
  "or_else None y = y"
  "or_else (Some a) y = Some a"
  "or_else x None = x"
  by (auto simp: or_else_def split: option.splits)

lemma or_else_assoc: "or_else (or_else x y) z = or_else x (or_else y z)"
  by (cases x) auto

lemma or_else_eq_Some: "or_else x y = Some a \<longleftrightarrow> x = Some a \<or> x = None \<and> y = Some a"
  by (cases x) auto

lemma or_else_if:
  "or_else (if b then x else y) z = (if b then or_else x z else or_else y z)"
  by simp

lemma upt_split: "i \<le> j \<Longrightarrow> j \<le> k \<Longrightarrow> [i..<k] = [i..<j] @ [j..<k]"
  using upt_add_eq_append [of i j "k - j"] by simp

lemma find_map_eq: "List.find P (map f xs) = map_option f (List.find (P \<circ> f) xs)"
  by (induction xs) auto

text \<open>
  The contract of a stateful component: its operations, as a step relation, keep its
  invariant. Every component proves the two laws for its own operations and gets the invariant of
  all states reached by any sequence of them.
\<close>

locale state_machine =
  fixes init :: "'s \<Rightarrow> bool" and step :: "'s \<Rightarrow> 's \<Rightarrow> bool" and inv :: "'s \<Rightarrow> bool"
  assumes init_inv: "init s \<Longrightarrow> inv s"
    and step_inv: "inv s \<Longrightarrow> step s s' \<Longrightarrow> inv s'"
begin

lemma run_inv: "rtranclp step s s' \<Longrightarrow> inv s \<Longrightarrow> inv s'"
  by (induction rule: rtranclp_induct) (auto intro: step_inv)

lemma reachable_inv: "init s0 \<Longrightarrow> rtranclp step s0 s \<Longrightarrow> inv s"
  by (auto intro: run_inv init_inv)

lemma run_keeps:
  assumes "\<And>s s'. inv s \<Longrightarrow> P s \<Longrightarrow> step s s' \<Longrightarrow> P s'"
  shows "rtranclp step s s' \<Longrightarrow> inv s \<Longrightarrow> P s \<Longrightarrow> P s'"
proof (induction rule: rtranclp_induct)
  case (step y z)
  then show ?case using assms run_inv by blast
qed

end

end
