(* ===== verification/Rpc_Model.thy ===== *)
theory Rpc_Model
  imports Prelude
begin

text \<open>
  The json-rpc data the server components exchange (\<open>network::rpc\<close> values as the code under
  src/ uses them), the server error codes of \<open>error/error_t.hpp\<close>, and the record of text
  functions of the system library the url parsers call.

  The system library is not part of the repository, so its functions are fields of
  \<open>text_lib\<close> and every parser takes such a record. What the code relies on is stated
  by \<open>lib_hash_size\<close> and \<open>lib_numeric\<close>, together \<open>lib_ok\<close>, the named hypothesis of the theorems
  that need it.
  \<open>split_text\<close> returns a first element and the rest, since the code takes \<open>front()\<close> of the
  result and asserts that it is not empty.
\<close>

subsection \<open>Values and requests\<close>

datatype media_type =
    text_html | text_plain | text_css
  | application_json | application_octet_stream | application_javascript
  | font_woff | font_woff2
  | image_png | image_gif | image_jpeg | image_svg_xml | image_x_icon
  | media_unknown

datatype value_t =
    Null
  | Boolean bool
  | Number double
  | String string
  | U8 u8
  | U32 u32
  | U64 u64
  | I64 u64
  | Hash hash_digest
  | Array "value_t list"
  | Object "string \<Rightarrow> value_t option"

type_synonym array_t = "value_t list"
type_synonym object_t = "string \<rightharpoonup> value_t"

datatype params_t = Positional array_t | Named object_t | Single value_t

datatype rpc_version = rpc_v1 | rpc_v2

record request_t =
  jsonrpc :: rpc_version
  request_id :: value_t
  rpc_method :: string
  params :: "params_t option"

text \<open>The request every url parser starts from: json-rpc v2, null id, empty named params.\<close>

definition initial_request :: request_t where
  "initial_request = \<lparr>jsonrpc = rpc_v2, request_id = Null, rpc_method = [], params = Some (Named Map.empty)\<rparr>"

definition make_request :: "string \<Rightarrow> object_t \<Rightarrow> request_t" where
  "make_request m ps = initial_request\<lparr>rpc_method := m, params := Some (Named ps)\<rparr>"

lemma make_request_simps [simp]:
  "jsonrpc (make_request m ps) = rpc_v2"
  "request_id (make_request m ps) = Null"
  "rpc_method (make_request m ps) = m"
  "params (make_request m ps) = Some (Named ps)"
  by (simp_all add: make_request_def initial_request_def)

lemma make_request_inject [simp]:
  "make_request m ps = make_request m' ps' \<longleftrightarrow> m = m' \<and> ps = ps'"
  by (metis make_request_simps(3,4) option.inject params_t.inject(2))

subsection \<open>Server error codes\<close>

datatype error_t =
    success
  | empty_path | invalid_number | invalid_hash | missing_version | missing_target
  | invalid_target | missing_hash | missing_height | missing_position | missing_id_type
  | invalid_id_type | missing_type_id | missing_component | invalid_component
  | invalid_subcomponent | extra_segment
  | not_found | not_implemented | invalid_argument | subscription_limit
  | unsupported_argument | unconfirmable_transaction | argument_overflow | target_overflow
  | maximum_depth | wrong_version | server_error

subsection \<open>Text functions of the system library\<close>

record text_lib =
  split_text :: "string \<Rightarrow> string \<Rightarrow> bool \<Rightarrow> bool \<Rightarrow> string \<times> string list"
  is_ascii_numeric :: "string \<Rightarrow> bool"
  deserialize_u8 :: "string \<Rightarrow> u8 option"
  deserialize_u32 :: "string \<Rightarrow> u32 option"
  deserialize_u64 :: "string \<Rightarrow> u64 option"
  decode_hash :: "string \<Rightarrow> hash_digest option"
  decode_base16 :: "string \<Rightarrow> hash_digest option"
  media_value :: "media_type \<Rightarrow> u8"

text \<open>A base16 digest has 64 characters; a numeric text has only decimal digits.\<close>

definition lib_hash_size :: "text_lib \<Rightarrow> bool" where
  "lib_hash_size L \<longleftrightarrow>
     (\<forall>t h. decode_hash L t = Some h \<longrightarrow> length t = 64) \<and>
     (\<forall>t h. decode_base16 L t = Some h \<longrightarrow> length t = 64)"

definition is_digit_char :: "char \<Rightarrow> bool" where
  "is_digit_char c \<longleftrightarrow> 48 \<le> (of_char c :: nat) \<and> (of_char c :: nat) \<le> 57"

definition lib_numeric :: "text_lib \<Rightarrow> bool" where
  "lib_numeric L \<longleftrightarrow> (\<forall>t. is_ascii_numeric L t \<longleftrightarrow> list_all is_digit_char t)"

definition lib_ok :: "text_lib \<Rightarrow> bool" where
  "lib_ok L \<longleftrightarrow> lib_hash_size L \<and> lib_numeric L"

text \<open>
  The conversions the native, admin and esplora parsers declare for themselves, each with the
  same text: \<open>to_number\<close> refuses the empty text, a text that is not numeric and a
  leading zero before it deserializes.
\<close>

definition number_guard :: "text_lib \<Rightarrow> string \<Rightarrow> bool" where
  "number_guard L token \<longleftrightarrow> token \<noteq> [] \<and> is_ascii_numeric L token \<and>
     (length token = 1 \<or> hd token \<noteq> CHR ''0'')"

definition to_number_u8 :: "text_lib \<Rightarrow> string \<Rightarrow> u8 option" where
  "to_number_u8 L token = (if number_guard L token then deserialize_u8 L token else None)"

definition to_number_u32 :: "text_lib \<Rightarrow> string \<Rightarrow> u32 option" where
  "to_number_u32 L token = (if number_guard L token then deserialize_u32 L token else None)"

definition to_number_u64 :: "text_lib \<Rightarrow> string \<Rightarrow> u64 option" where
  "to_number_u64 L token = (if number_guard L token then deserialize_u64 L token else None)"

definition to_hash :: "text_lib \<Rightarrow> string \<Rightarrow> hash_digest option" where
  "to_hash L token = decode_hash L token"

definition to_scripthash :: "text_lib \<Rightarrow> string \<Rightarrow> hash_digest option" where
  "to_scripthash L token = decode_base16 L token"

definition set_media :: "text_lib \<Rightarrow> object_t \<Rightarrow> media_type \<Rightarrow> object_t" where
  "set_media L ps m = ps(''media'' \<mapsto> U8 (media_value L m))"

lemma to_hash_length: "lib_ok L \<Longrightarrow> to_hash L t = Some h \<Longrightarrow> length t = 64"
  by (simp add: lib_ok_def lib_hash_size_def to_hash_def)

lemma to_hash_short: "lib_ok L \<Longrightarrow> length t \<noteq> 64 \<Longrightarrow> to_hash L t = None"
  using to_hash_length by (cases "to_hash L t") auto

lemma to_scripthash_short: "lib_ok L \<Longrightarrow> length t \<noteq> 64 \<Longrightarrow> to_scripthash L t = None"
  by (cases "to_scripthash L t") (auto simp: lib_ok_def lib_hash_size_def to_scripthash_def)

lemma number_guard_digits:
  "lib_ok L \<Longrightarrow> number_guard L t \<Longrightarrow> t \<noteq> [] \<and> list_all is_digit_char t"
  by (simp add: lib_ok_def number_guard_def lib_numeric_def)

lemma to_number_u32_nondigit:
  "lib_ok L \<Longrightarrow> \<not> list_all is_digit_char t \<Longrightarrow> to_number_u32 L t = None"
  using number_guard_digits by (auto simp: to_number_u32_def)

lemma to_number_u8_nondigit:
  "lib_ok L \<Longrightarrow> \<not> list_all is_digit_char t \<Longrightarrow> to_number_u8 L t = None"
  using number_guard_digits by (auto simp: to_number_u8_def)

end
