(* ===== verification/Routes.thy ===== *)
theory Routes
  imports Rpc_Model
begin

text \<open>
  Declarative route tables, the specification side of the url target parsers. A route is a
  pattern of path segments with the method it selects and, where the interface implies one,
  the media type of the response. \<open>first_route\<close> is the meaning of a table: the first
  route whose pattern matches the whole list of segments decides, and its arguments become
  the named params.

  The locale \<open>rest_parser\<close> is the contract between a target parser and the service that
  dispatches its requests: the parser succeeds exactly as its table says, and every row of
  the table fits the published interface (\<open>row_fits\<close>). What the service may rely on is
  proved once here and obtained for each parser by interpretation.
\<close>

subsection \<open>Patterns and their meaning\<close>

datatype token =
    Lit string
  | VersionAt string
  | HashAt string
  | ScriptHashAt string
  | Num8At string
  | Num32At string
  | TextAt string

type_synonym route = "token list \<times> string \<times> media_type option"

text \<open>The version segment is the letter v followed by an 8 bit decimal.\<close>

definition version_token :: "text_lib \<Rightarrow> string \<Rightarrow> u8 option" where
  "version_token L seg =
     (if seg \<noteq> [] \<and> hd seg = CHR ''v'' then to_number_u8 L (tl seg) else None)"

fun token_value :: "text_lib \<Rightarrow> token \<Rightarrow> string \<Rightarrow> (string \<times> value_t) option option" where
  "token_value L (Lit s) x = (if x = s then Some None else None)"
| "token_value L (VersionAt k) x = map_option (\<lambda>v. Some (k, U8 v)) (version_token L x)"
| "token_value L (HashAt k) x = map_option (\<lambda>v. Some (k, Hash v)) (to_hash L x)"
| "token_value L (ScriptHashAt k) x = map_option (\<lambda>v. Some (k, Hash v)) (to_scripthash L x)"
| "token_value L (Num8At k) x = map_option (\<lambda>v. Some (k, U8 v)) (to_number_u8 L x)"
| "token_value L (Num32At k) x = map_option (\<lambda>v. Some (k, U32 v)) (to_number_u32 L x)"
| "token_value L (TextAt k) x = Some (Some (k, String x))"

definition bind_param :: "object_t \<Rightarrow> (string \<times> value_t) option \<Rightarrow> object_t" where
  "bind_param ps b = (case b of None \<Rightarrow> ps | Some (k, v) \<Rightarrow> ps(k \<mapsto> v))"

lemma bind_param_simps [simp]:
  "bind_param ps None = ps"
  "bind_param ps (Some (k, v)) = ps(k \<mapsto> v)"
  by (simp_all add: bind_param_def)

fun match_tokens ::
  "text_lib \<Rightarrow> token list \<Rightarrow> object_t \<Rightarrow> string list \<Rightarrow> object_t option" where
  "match_tokens L [] ps segs = (if segs = [] then Some ps else None)"
| "match_tokens L (t # ts) ps [] = None"
| "match_tokens L (t # ts) ps (x # xs) =
     Option.bind (token_value L t x) (\<lambda>b. match_tokens L ts (bind_param ps b) xs)"

lemma match_tokens_Cons_Some:
  "match_tokens L (t # ts) ps segs = Some qs \<longleftrightarrow>
     (\<exists>x xs b. segs = x # xs \<and> token_value L t x = Some b \<and>
        match_tokens L ts (bind_param ps b) xs = Some qs)"
  by (cases segs) (auto simp: bind_eq_Some_conv)

definition with_media :: "text_lib \<Rightarrow> media_type option \<Rightarrow> object_t \<Rightarrow> object_t" where
  "with_media L m ps = (case m of None \<Rightarrow> ps | Some x \<Rightarrow> set_media L ps x)"

lemma with_media_simps [simp]:
  "with_media L None ps = ps"
  "with_media L (Some x) ps = set_media L ps x"
  by (simp_all add: with_media_def)

fun first_route :: "text_lib \<Rightarrow> route list \<Rightarrow> object_t \<Rightarrow> string list \<Rightarrow> request_t option" where
  "first_route L [] ps segs = None"
| "first_route L ((ts, m, md) # rs) ps segs =
     or_else (map_option (\<lambda>qs. make_request m (with_media L md qs)) (match_tokens L ts ps segs))
       (first_route L rs ps segs)"

definition under :: "token \<Rightarrow> route list \<Rightarrow> route list" where
  "under t rs = map (\<lambda>(ts, m, md). (t # ts, m, md)) rs"

lemma under_simps [simp]:
  "under t [] = []"
  "under t ((ts, m, md) # rs) = (t # ts, m, md) # under t rs"
  by (simp_all add: under_def)

lemma first_route_append:
  "first_route L (rs @ rs') ps segs =
     or_else (first_route L rs ps segs) (first_route L rs' ps segs)"
  by (induction L rs ps segs rule: first_route.induct) (auto simp: or_else_assoc)

lemma first_route_under_Nil [simp]: "first_route L (under t rs) ps [] = None"
proof (induction rs)
  case (Cons r rs)
  then show ?case by (cases r) simp
qed simp

lemma first_route_under_Cons [simp]:
  "first_route L (under t rs) ps (x # xs) =
     Option.bind (token_value L t x) (\<lambda>b. first_route L rs (bind_param ps b) xs)"
proof (induction rs)
  case Nil
  then show ?case by (cases "token_value L t x") simp_all
next
  case (Cons r rs)
  then show ?case by (cases r; cases "token_value L t x") simp_all
qed

lemma first_route_Some:
  "first_route L rs ps segs = Some q \<Longrightarrow>
   \<exists>ts m md qs. (ts, m, md) \<in> set rs \<and> match_tokens L ts ps segs = Some qs \<and>
     q = make_request m (with_media L md qs)"
  by (induction L rs ps segs rule: first_route.induct) (auto simp: or_else_eq_Some)

subsection \<open>Prologue and epilogue of the parsers\<close>

text \<open>
  Each parser cuts the path at the question mark, refuses an empty rest, splits it into
  segments and at the end refuses segments it has not read.
\<close>

type_synonym parsed = "string \<times> object_t \<times> string list"

definition clean_path :: "text_lib \<Rightarrow> string \<Rightarrow> string" where
  "clean_path L path = fst (split_text L path ''?'' False False)"

definition path_segments :: "text_lib \<Rightarrow> string \<Rightarrow> string list" where
  "path_segments L path =
     (if clean_path L path = [] then []
      else (case split_text L (clean_path L path) ''/'' False True of (x, xs) \<Rightarrow> x # xs))"

definition finish :: "parsed \<Rightarrow> error_t + request_t" where
  "finish r = (case r of (m, ps, rest) \<Rightarrow>
     if rest = [] then Inr (make_request m ps) else Inl extra_segment)"

lemma finish_simps [simp]:
  "finish (m, ps, []) = Inr (make_request m ps)"
  "finish (m, ps, x # xs) = Inl extra_segment"
  by (simp_all add: finish_def)

abbreviation branch_ok :: "text_lib \<Rightarrow> route list \<Rightarrow> object_t \<Rightarrow> string list \<Rightarrow> error_t + parsed \<Rightarrow> bool" where
  "branch_ok L rs ps segs r \<equiv>
     result_option (sum_bind r finish) = first_route L rs ps segs"

lemma first_route_under:
  "first_route L (under t rs) ps segs =
     (case segs of [] \<Rightarrow> None | x # xs \<Rightarrow>
       Option.bind (token_value L t x) (\<lambda>b. first_route L rs (bind_param ps b) xs))"
  by (cases segs) simp_all

lemma match_tokens_Cons:
  "match_tokens L (t # ts) ps segs =
     (case segs of [] \<Rightarrow> None | x # xs \<Rightarrow>
       Option.bind (token_value L t x) (\<lambda>b. match_tokens L ts (bind_param ps b) xs))"
  by (cases segs) simp_all

lemmas branch_simps =
  finish_def Let_def first_route_append first_route_under match_tokens_Cons

subsection \<open>Which params a pattern can bind\<close>

datatype param_type = U8_type | U32_type | U64_type | Hash_type | String_type | Bool_type
  | Array_type

fun has_type :: "value_t \<Rightarrow> param_type \<Rightarrow> bool" where
  "has_type (U8 _) U8_type = True"
| "has_type (U32 _) U32_type = True"
| "has_type (U64 _) U64_type = True"
| "has_type (Hash _) Hash_type = True"
| "has_type (String _) String_type = True"
| "has_type (Boolean _) Bool_type = True"
| "has_type (Array _) Array_type = True"
| "has_type _ _ = False"

fun token_param :: "token \<Rightarrow> (string \<times> param_type) list" where
  "token_param (Lit _) = []"
| "token_param (VersionAt k) = [(k, U8_type)]"
| "token_param (HashAt k) = [(k, Hash_type)]"
| "token_param (ScriptHashAt k) = [(k, Hash_type)]"
| "token_param (Num8At k) = [(k, U8_type)]"
| "token_param (Num32At k) = [(k, U32_type)]"
| "token_param (TextAt k) = [(k, String_type)]"

definition route_params :: "route \<Rightarrow> (string \<times> param_type) list" where
  "route_params r = concat (map token_param (fst r)) @
     (case snd (snd r) of None \<Rightarrow> [] | Some _ \<Rightarrow> [(''media'', U8_type)])"

text \<open>
  \<open>typed_by sig ps\<close>: the params bind exactly the names of the signature, each with a value
  of its type. A signature names each param once.
\<close>

definition typed_by :: "(string \<times> param_type) list \<Rightarrow> object_t \<Rightarrow> bool" where
  "typed_by sig ps \<longleftrightarrow> dom ps = fst ` set sig \<and>
     (\<forall>(k, t) \<in> set sig. \<exists>v. ps k = Some v \<and> has_type v t)"

lemma typed_by_empty: "typed_by [] Map.empty"
  by (simp add: typed_by_def)

lemma typed_by_snoc:
  "typed_by sig ps \<Longrightarrow> k \<notin> fst ` set sig \<Longrightarrow> has_type v t \<Longrightarrow>
   typed_by (sig @ [(k, t)]) (ps(k \<mapsto> v))"
  unfolding typed_by_def by force

text \<open>The params of up to four names, as the parsers and handlers build them.\<close>

lemma typed_by_1: "has_type v t \<Longrightarrow> typed_by [(k, t)] [k \<mapsto> v]"
  using typed_by_snoc [OF typed_by_empty] by simp

lemma typed_by_2:
  "has_type v1 t1 \<Longrightarrow> has_type v2 t2 \<Longrightarrow> distinct [k1, k2] \<Longrightarrow>
   typed_by [(k1, t1), (k2, t2)] [k1 \<mapsto> v1, k2 \<mapsto> v2]"
  using typed_by_snoc [OF typed_by_1 [of v1 t1 k1], of k2 v2 t2] by simp

lemma typed_by_3:
  "has_type v1 t1 \<Longrightarrow> has_type v2 t2 \<Longrightarrow> has_type v3 t3 \<Longrightarrow> distinct [k1, k2, k3] \<Longrightarrow>
   typed_by [(k1, t1), (k2, t2), (k3, t3)] [k1 \<mapsto> v1, k2 \<mapsto> v2, k3 \<mapsto> v3]"
  using typed_by_snoc [OF typed_by_2 [of v1 t1 v2 t2 k1 k2], of k3 v3 t3] by auto

lemma typed_by_4:
  "has_type v1 t1 \<Longrightarrow> has_type v2 t2 \<Longrightarrow> has_type v3 t3 \<Longrightarrow> has_type v4 t4 \<Longrightarrow>
   distinct [k1, k2, k3, k4] \<Longrightarrow>
   typed_by [(k1, t1), (k2, t2), (k3, t3), (k4, t4)]
     [k1 \<mapsto> v1, k2 \<mapsto> v2, k3 \<mapsto> v3, k4 \<mapsto> v4]"
  using typed_by_snoc [OF typed_by_3 [of v1 t1 v2 t2 v3 t3 k1 k2 k3], of k4 v4 t4] by auto

lemma token_value_typed:
  assumes "token_value L t x = Some b" "typed_by sig ps"
    and "distinct (map fst (sig @ token_param t))"
  shows "typed_by (sig @ token_param t) (bind_param ps b)"
  using assms
  by (cases t) (auto split: if_splits intro!: typed_by_snoc)

lemma match_tokens_typed:
  assumes "match_tokens L ts ps segs = Some qs" "typed_by sig ps"
    and "distinct (map fst (sig @ concat (map token_param ts)))"
  shows "typed_by (sig @ concat (map token_param ts)) qs"
  using assms
proof (induction L ts ps segs arbitrary: sig rule: match_tokens.induct)
  case (3 L t ts ps x xs)
  from "3.prems"(1) obtain b where b: "token_value L t x = Some b"
    and m: "match_tokens L ts (bind_param ps b) xs = Some qs"
    by (auto simp: bind_eq_Some_conv)
  have "typed_by (sig @ token_param t) (bind_param ps b)"
    using "3.prems"(3) by (intro token_value_typed [OF b "3.prems"(2)]) auto
  then have "typed_by ((sig @ token_param t) @ concat (map token_param ts)) qs"
    by (rule "3.IH" [OF b m]) (use "3.prems"(3) in simp)
  then show ?case by simp
qed (auto split: if_splits)

lemma route_typed:
  assumes "match_tokens L ts Map.empty segs = Some qs"
    and "distinct (map fst (route_params (ts, m, md)))"
  shows "typed_by (route_params (ts, m, md)) (with_media L md qs)"
proof -
  have "typed_by ([] @ concat (map token_param ts)) qs"
    using assms(2) by (intro match_tokens_typed [OF assms(1) typed_by_empty])
      (simp add: route_params_def)
  then show ?thesis using assms(2)
    by (cases md) (auto simp: route_params_def set_media_def intro!: typed_by_snoc)
qed

subsection \<open>Unambiguous tables\<close>

text \<open>
  Two patterns clash when no path can match both: they differ in length, or at some position
  one asks for a literal the other cannot accept. In a table whose rows clash pairwise the
  order of the rows does not matter.
\<close>

fun refuses :: "token \<Rightarrow> string \<Rightarrow> bool" where
  "refuses (Lit a) s = (a \<noteq> s)"
| "refuses (VersionAt _) s = (s = [] \<or> hd s \<noteq> CHR ''v'')"
| "refuses (HashAt _) s = (length s \<noteq> 64)"
| "refuses (ScriptHashAt _) s = (length s \<noteq> 64)"
| "refuses (Num8At _) s = (\<not> list_all is_digit_char s)"
| "refuses (Num32At _) s = (\<not> list_all is_digit_char s)"
| "refuses (TextAt _) s = False"

fun token_clash :: "token \<Rightarrow> token \<Rightarrow> bool" where
  "token_clash (Lit a) u = refuses u a"
| "token_clash t (Lit b) = refuses t b"
| "token_clash _ _ = False"

fun clash :: "token list \<Rightarrow> token list \<Rightarrow> bool" where
  "clash [] [] = False"
| "clash (t # ts) (u # us) = (token_clash t u \<or> clash ts us)"
| "clash _ _ = True"

fun unambiguous :: "route list \<Rightarrow> bool" where
  "unambiguous [] = True"
| "unambiguous (r # rs) = (list_all (\<lambda>r'. clash (fst r) (fst r')) rs \<and> unambiguous rs)"

lemmas refusal_simps =
  to_hash_short to_scripthash_short version_token_def to_number_u32_nondigit
  to_number_u8_nondigit

lemma token_clash_sound:
  assumes "lib_ok L" "token_clash t u" "token_value L t x \<noteq> None"
  shows "token_value L u x = None"
  using assms by (cases "(t, u)" rule: token_clash.cases)
    (cases u; auto simp: refusal_simps split: if_splits)+

lemma clash_sound:
  "lib_ok L \<Longrightarrow> clash ts us \<Longrightarrow> match_tokens L ts ps segs = Some qs \<Longrightarrow>
   match_tokens L us ps' segs = None"
proof (induction ts us arbitrary: segs ps ps' rule: clash.induct)
  case (2 t ts u us)
  then show ?case
    by (cases segs) (auto simp: bind_eq_Some_conv bind_eq_None_conv dest: token_clash_sound)
qed (auto split: if_splits)

lemma first_route_unambiguous:
  assumes "lib_ok L" "unambiguous rs" "(ts, m, md) \<in> set rs"
    and "match_tokens L ts ps segs = Some qs"
  shows "first_route L rs ps segs = Some (make_request m (with_media L md qs))"
  using assms
proof (induction rs)
  case (Cons r rs)
  obtain ts' m' md' where r: "r = (ts', m', md')" by (cases r)
  show ?case
  proof (cases "(ts, m, md) = r")
    case True
    then show ?thesis using r Cons.prems(4) by simp
  next
    case False
    then have mem: "(ts, m, md) \<in> set rs" using Cons.prems(3) by simp
    then have "clash ts' ts" using Cons.prems(2) r by (auto simp: list_all_iff)
    then have "match_tokens L ts' ps segs = None"
      using clash_sound [OF Cons.prems(1)] Cons.prems(4)
      by (metis option.distinct(1) option.exhaust)
    then show ?thesis using Cons mem r by simp
  qed
qed simp

lemma first_route_iff:
  assumes "lib_ok L" "unambiguous rs"
  shows "first_route L rs ps segs = Some q \<longleftrightarrow>
    (\<exists>ts m md qs. (ts, m, md) \<in> set rs \<and> match_tokens L ts ps segs = Some qs \<and>
      q = make_request m (with_media L md qs))"
  using first_route_Some first_route_unambiguous [OF assms] by metis

subsection \<open>Published interfaces\<close>

text \<open>
  An interface publishes for each method its params: \<open>Required\<close> ones must be present at
  dispatch, \<open>Nullable\<close> and \<open>Defaulted\<close> ones may be missing.
\<close>

datatype presence = Required | Nullable | Defaulted

type_synonym interface = "(string \<times> (string \<times> param_type \<times> presence) list) list"

text \<open>
  A row (more generally, a signature for a method) fits the interface when its method is published, the params it binds are distinct
  and declared with their types, and the required params it does not bind are among the
  names supplied by a later stage (the query string or the request body).
\<close>

definition sig_fits :: "interface \<Rightarrow> string list \<Rightarrow> string \<Rightarrow> (string \<times> param_type) list \<Rightarrow> bool" where
  "sig_fits I later m sig \<longleftrightarrow>
     (case map_of I m of
        None \<Rightarrow> False
      | Some decl \<Rightarrow>
          distinct (map fst sig) \<and>
          list_all (\<lambda>(k, t). List.member (map (\<lambda>(k, t, p). (k, t)) decl) (k, t)) sig \<and>
          list_all (\<lambda>(k, t, p). p = Required \<longrightarrow> List.member (map fst sig @ later) k) decl)"

definition row_fits :: "interface \<Rightarrow> string list \<Rightarrow> route \<Rightarrow> bool" where
  "row_fits I later r \<longleftrightarrow> sig_fits I later (fst (snd r)) (route_params r)"

definition request_fits :: "interface \<Rightarrow> string list \<Rightarrow> request_t \<Rightarrow> bool" where
  "request_fits I later q \<longleftrightarrow>
     (\<exists>decl ps. map_of I (rpc_method q) = Some decl \<and> params q = Some (Named ps) \<and>
        (\<forall>k v. ps k = Some v \<longrightarrow> (\<exists>t p. (k, t, p) \<in> set decl \<and> has_type v t)) \<and>
        (\<forall>(k, t, p) \<in> set decl. p = Required \<longrightarrow> k \<in> dom ps \<union> set later))"

lemma sig_fits_distinct: "sig_fits I later m sig \<Longrightarrow> distinct (map fst sig)"
  by (simp add: sig_fits_def split: option.splits)

lemma sig_fits_request:
  assumes "sig_fits I later m sig" "typed_by sig ps"
  shows "request_fits I later (make_request m ps)"
proof -
  from assms(1) obtain decl where d: "map_of I m = Some decl"
    and decl: "\<forall>(k, t) \<in> set sig. \<exists>p. (k, t, p) \<in> set decl"
    and req: "\<forall>(k, t, p) \<in> set decl. p = Required \<longrightarrow> k \<in> fst ` set sig \<union> set later"
    by (force simp: sig_fits_def list_all_iff split: option.splits)
  have "\<exists>t p. (k, t, p) \<in> set decl \<and> has_type v t" if "ps k = Some v" for k v
  proof -
    from that assms(2) have "k \<in> fst ` set sig" unfolding typed_by_def by blast
    then obtain t where "(k, t) \<in> set sig" by auto
    then show ?thesis using that assms(2) decl by (fastforce simp: typed_by_def)
  qed
  then show ?thesis using d req assms(2)
    by (auto simp: request_fits_def typed_by_def)
qed

lemma row_fits_request:
  "row_fits I later (ts, m, md) \<Longrightarrow> match_tokens L ts Map.empty segs = Some qs \<Longrightarrow>
   request_fits I later (make_request m (with_media L md qs))"
  by (auto simp: row_fits_def intro: sig_fits_request route_typed sig_fits_distinct)

subsection \<open>The parser contract\<close>

locale rest_parser =
  fixes parse :: "text_lib \<Rightarrow> string \<Rightarrow> error_t + request_t"
    and segments :: "text_lib \<Rightarrow> string \<Rightarrow> string list"
    and table :: "route list"
    and published :: interface
    and later :: "string list"
  assumes parse_table: "lib_ok L \<Longrightarrow>
      result_option (parse L path) = first_route L table Map.empty (segments L path)"
    and table_unambiguous: "unambiguous table"
    and table_fits: "list_all (row_fits published later) table"
begin

lemma parse_route:
  "lib_ok L \<Longrightarrow>
   parse L path = Inr q \<longleftrightarrow> first_route L table Map.empty (segments L path) = Some q"
  by (simp flip: parse_table)

lemma parse_iff:
  assumes "lib_ok L"
  shows "parse L path = Inr q \<longleftrightarrow>
   (\<exists>ts m md qs. (ts, m, md) \<in> set table \<and>
      match_tokens L ts Map.empty (segments L path) = Some qs \<and>
      q = make_request m (with_media L md qs))"
  unfolding parse_route [OF assms] by (rule first_route_iff [OF assms table_unambiguous])

lemma parse_fits: "lib_ok L \<Longrightarrow> parse L path = Inr q \<Longrightarrow> request_fits published later q"
  using table_fits by (auto simp: parse_iff list_all_iff intro: row_fits_request)

text \<open>What a service reads off the params of an accepted request: exactly the arguments of its route.\<close>

lemma parse_params:
  assumes "lib_ok L" "parse L path = Inr q"
  obtains ts md ps where "(ts, rpc_method q, md) \<in> set table" "params q = Some (Named ps)"
    and "typed_by (route_params (ts, rpc_method q, md)) ps"
proof -
  from assms obtain ts m md qs where row: "(ts, m, md) \<in> set table"
    and m: "match_tokens L ts Map.empty (segments L path) = Some qs"
    and q: "q = make_request m (with_media L md qs)"
    by (auto simp: parse_iff)
  from row table_fits have "distinct (map fst (route_params (ts, m, md)))"
    by (auto simp: list_all_iff row_fits_def dest: sig_fits_distinct)
  then show thesis using that row q route_typed [OF m] by auto
qed

end

end
