(* ===== verification/Sample_Lib.thy ===== *)
theory Sample_Lib
  imports Rpc_Model
begin

text \<open>
  One concrete \<open>text_lib\<close>, for evaluating the parsers on concrete paths. The library
  itself is not part of the repository; this record only shows that the hypothesis \<open>lib_ok\<close>
  of the parser theorems can be met, and its functions compute.
\<close>

fun cut_on :: "char \<Rightarrow> string \<Rightarrow> string \<Rightarrow> string list" where
  "cut_on d acc [] = [rev acc]"
| "cut_on d acc (c # cs) = (if c = d then rev acc # cut_on d [] cs else cut_on d (c # acc) cs)"

definition sample_split :: "string \<Rightarrow> string \<Rightarrow> bool \<Rightarrow> bool \<Rightarrow> string \<times> string list" where
  "sample_split text delimiter trim compress =
     (case (if compress then filter (\<lambda>s. s \<noteq> []) (cut_on (hd delimiter) [] text)
            else cut_on (hd delimiter) [] text) of
        [] \<Rightarrow> ([], [])
      | x # xs \<Rightarrow> (x, xs))"

definition digit_value :: "char \<Rightarrow> nat" where
  "digit_value c = of_char c - 48"

definition sample_decimal :: "string \<Rightarrow> nat option" where
  "sample_decimal t =
     (if t \<noteq> [] \<and> list_all is_digit_char t
      then Some (foldl (\<lambda>n c. 10 * n + digit_value c) 0 t) else None)"

definition hex_value :: "char \<Rightarrow> nat option" where
  "hex_value c =
     (let n = of_char c in
      if 48 \<le> n \<and> n \<le> 57 then Some (n - 48)
      else if 97 \<le> n \<and> n \<le> 102 then Some (n - 87)
      else None)"

definition sample_base16 :: "string \<Rightarrow> hash_digest option" where
  "sample_base16 t =
     (if length t = 64 \<and> list_all (\<lambda>c. hex_value c \<noteq> None) t
      then Some (word_of_nat (foldl (\<lambda>n c. 16 * n + the (hex_value c)) 0 t)) else None)"

fun swap_pairs :: "'a list \<Rightarrow> 'a list" where
  "swap_pairs (a # b # xs) = swap_pairs xs @ [a, b]"
| "swap_pairs xs = xs"

definition sample_number :: "nat \<Rightarrow> string \<Rightarrow> nat option" where
  "sample_number bits t =
     (case sample_decimal t of
        None \<Rightarrow> None
      | Some n \<Rightarrow> if n < 2 ^ bits then Some n else None)"

definition sample_media :: "media_type \<Rightarrow> u8" where
  "sample_media m = (case m of
     media_unknown \<Rightarrow> 0 | application_json \<Rightarrow> 1 | text_plain \<Rightarrow> 2
   | application_octet_stream \<Rightarrow> 3 | text_html \<Rightarrow> 4 | _ \<Rightarrow> 5)"

definition sample_lib :: text_lib where
  "sample_lib = \<lparr>split_text = sample_split, is_ascii_numeric = list_all is_digit_char,
     deserialize_u8 = (\<lambda>t. map_option word_of_nat (sample_number 8 t)),
     deserialize_u32 = (\<lambda>t. map_option word_of_nat (sample_number 32 t)),
     deserialize_u64 = (\<lambda>t. map_option word_of_nat (sample_number 64 t)),
     decode_hash = (\<lambda>t. sample_base16 (swap_pairs t)),
     decode_base16 = sample_base16, media_value = sample_media\<rparr>"

lemma length_swap_pairs [simp]: "length (swap_pairs xs) = length xs"
  by (induction xs rule: swap_pairs.induct) auto

lemma sample_lib_ok: "lib_ok sample_lib"
  by (auto simp: lib_ok_def lib_hash_size_def lib_numeric_def sample_lib_def sample_base16_def
      split: if_splits)

lemma sample_numbers:
  "to_number_u8 sample_lib ''1'' = Some 1"
  "to_number_u32 sample_lib ''7'' = Some 7"
  by (simp_all add: to_number_u8_def to_number_u32_def number_guard_def sample_lib_def
      sample_number_def sample_decimal_def digit_value_def is_digit_char_def of_char_def)

end
