(* ===== verification/Native_Target.thy ===== *)
theory Native_Target
  imports Routes Sample_Lib
begin

text \<open>
  The url parsers of the native and admin services: \<open>parsers/native_target.cpp\<close> and
  \<open>parsers/admin_target.cpp\<close>. Each branch of the code's chain over the target segment is a
  definition of its own; it takes the params collected so far and the segments that are left,
  and returns the method, the params and the unread segments, or the error code of the early
  return. The final comparison of the segment counter with the number of segments is
  \<open>finish\<close> (of theory Routes). On an error the code leaves its out argument half filled and every caller
  discards it, so the model returns the code alone.
\<close>

subsection \<open>Native targets\<close>

definition native_top :: "object_t \<Rightarrow> string list \<Rightarrow> error_t + parsed" where
  "native_top ps segs =
     (case segs of
        [] \<Rightarrow> Inr (''top'', ps, [])
      | subcomponent # rest \<Rightarrow>
          if subcomponent = ''subscribe'' then Inr (''top_subscribe'', ps, rest)
          else Inl invalid_subcomponent)"

definition native_address :: "text_lib \<Rightarrow> object_t \<Rightarrow> string list \<Rightarrow> error_t + parsed" where
  "native_address L ps segs =
     (case segs of
        [] \<Rightarrow> Inl missing_hash
      | hash # rest \<Rightarrow>
        (case to_hash L hash of
           None \<Rightarrow> Inl invalid_hash
         | Some base16 \<Rightarrow>
           let ps = ps(''hash'' \<mapsto> Hash base16) in
           (case rest of
              [] \<Rightarrow> Inr (''address'', ps, [])
            | subcomponent # rest \<Rightarrow>
                if subcomponent = ''confirmed'' then Inr (''address_confirmed'', ps, rest)
                else if subcomponent = ''unconfirmed'' then Inr (''address_unconfirmed'', ps, rest)
                else if subcomponent = ''balance'' then Inr (''address_balance'', ps, rest)
                else if subcomponent = ''subscribe'' then Inr (''address_subscribe'', ps, rest)
                else Inl invalid_subcomponent)))"

definition native_input :: "text_lib \<Rightarrow> object_t \<Rightarrow> string list \<Rightarrow> error_t + parsed" where
  "native_input L ps segs =
     (case segs of
        [] \<Rightarrow> Inl missing_hash
      | hash # rest \<Rightarrow>
        (case to_hash L hash of
           None \<Rightarrow> Inl invalid_hash
         | Some h \<Rightarrow>
           let ps = ps(''hash'' \<mapsto> Hash h) in
           (case rest of
              [] \<Rightarrow> Inr (''inputs'', ps, [])
            | component # rest \<Rightarrow>
              (case to_number_u32 L component of
                 None \<Rightarrow> Inl invalid_number
               | Some index \<Rightarrow>
                 let ps = ps(''index'' \<mapsto> U32 index) in
                 (case rest of
                    [] \<Rightarrow> Inr (''input'', ps, [])
                  | subcomponent # rest \<Rightarrow>
                      if subcomponent = ''script'' then Inr (''input_script'', ps, rest)
                      else if subcomponent = ''witness'' then Inr (''input_witness'', ps, rest)
                      else Inl invalid_subcomponent)))))"

definition native_output :: "text_lib \<Rightarrow> object_t \<Rightarrow> string list \<Rightarrow> error_t + parsed" where
  "native_output L ps segs =
     (case segs of
        [] \<Rightarrow> Inl missing_hash
      | hash # rest \<Rightarrow>
        (case to_hash L hash of
           None \<Rightarrow> Inl invalid_hash
         | Some h \<Rightarrow>
           let ps = ps(''hash'' \<mapsto> Hash h) in
           (case rest of
              [] \<Rightarrow> Inr (''outputs'', ps, [])
            | component # rest \<Rightarrow>
              (case to_number_u32 L component of
                 None \<Rightarrow> Inl invalid_number
               | Some index \<Rightarrow>
                 let ps = ps(''index'' \<mapsto> U32 index) in
                 (case rest of
                    [] \<Rightarrow> Inr (''output'', ps, [])
                  | subcomponent # rest \<Rightarrow>
                      if subcomponent = ''script'' then Inr (''output_script'', ps, rest)
                      else if subcomponent = ''spender'' then Inr (''output_spender'', ps, rest)
                      else if subcomponent = ''spenders'' then Inr (''output_spenders'', ps, rest)
                      else if subcomponent = ''subscribe'' then Inr (''output_subscribe'', ps, rest)
                      else Inl invalid_subcomponent)))))"

definition native_tx :: "text_lib \<Rightarrow> object_t \<Rightarrow> string list \<Rightarrow> error_t + parsed" where
  "native_tx L ps segs =
     (case segs of
        [] \<Rightarrow> Inl missing_hash
      | next # rest \<Rightarrow>
        if next = ''subscribe'' then Inr (''tx_subscribe'', ps, rest)
        else (case to_hash L next of
           None \<Rightarrow> Inl invalid_hash
         | Some h \<Rightarrow>
           let ps = ps(''hash'' \<mapsto> Hash h) in
           (case rest of
              [] \<Rightarrow> Inr (''tx'', ps, [])
            | component # rest \<Rightarrow>
                if component = ''header'' then Inr (''tx_header'', ps, rest)
                else if component = ''details'' then Inr (''tx_details'', ps, rest)
                else Inl invalid_component)))"

text \<open>The components of a block, once it has been identified.\<close>

definition native_block_component ::
  "text_lib \<Rightarrow> object_t \<Rightarrow> string list \<Rightarrow> error_t + parsed" where
  "native_block_component L ps segs =
     (case segs of
        [] \<Rightarrow> Inr (''block'', ps, [])
      | component # rest \<Rightarrow>
        if component = ''tx'' then
          (case rest of
             [] \<Rightarrow> Inl missing_position
           | token # rest \<Rightarrow>
             (case to_number_u32 L token of
                None \<Rightarrow> Inl invalid_number
              | Some position \<Rightarrow> Inr (''block_tx'', ps(''position'' \<mapsto> U32 position), rest)))
        else if component = ''header'' then
          (case rest of
             [] \<Rightarrow> Inr (''block_header'', ps, [])
           | subcomponent # rest \<Rightarrow>
               if subcomponent = ''context'' then Inr (''block_header_context'', ps, rest)
               else Inl invalid_subcomponent)
        else if component = ''txs'' then Inr (''block_txs'', ps, rest)
        else if component = ''details'' then Inr (''block_details'', ps, rest)
        else if component = ''filter'' then
          (case rest of
             [] \<Rightarrow> Inl missing_type_id
           | token # rest \<Rightarrow>
             (case to_number_u8 L token of
                None \<Rightarrow> Inl invalid_number
              | Some type \<Rightarrow>
                let ps = ps(''type'' \<mapsto> U8 type) in
                (case rest of
                   [] \<Rightarrow> Inr (''block_filter'', ps, [])
                 | subcomponent # rest \<Rightarrow>
                     if subcomponent = ''hash'' then Inr (''block_filter_hash'', ps, rest)
                     else if subcomponent = ''header'' then Inr (''block_filter_header'', ps, rest)
                     else Inl invalid_subcomponent)))
        else Inl invalid_component)"

definition native_block :: "text_lib \<Rightarrow> object_t \<Rightarrow> string list \<Rightarrow> error_t + parsed" where
  "native_block L ps segs =
     (case segs of
        [] \<Rightarrow> Inl missing_id_type
      | by # rest \<Rightarrow>
        if by = ''subscribe'' then Inr (''block_subscribe'', ps, rest)
        else if by = ''hash'' then
          (case rest of
             [] \<Rightarrow> Inl missing_hash
           | token # rest \<Rightarrow>
             (case to_hash L token of
                None \<Rightarrow> Inl invalid_hash
              | Some h \<Rightarrow> native_block_component L (ps(''hash'' \<mapsto> Hash h)) rest))
        else if by = ''height'' then
          (case rest of
             [] \<Rightarrow> Inl missing_height
           | token # rest \<Rightarrow>
             (case to_number_u32 L token of
                None \<Rightarrow> Inl invalid_number
              | Some height \<Rightarrow> native_block_component L (ps(''height'' \<mapsto> U32 height)) rest))
        else Inl invalid_id_type)"

definition native_dispatch :: "text_lib \<Rightarrow> object_t \<Rightarrow> string list \<Rightarrow> error_t + parsed" where
  "native_dispatch L ps segs =
     (case segs of
        [] \<Rightarrow> Inl missing_target
      | target # rest \<Rightarrow>
          if target = ''configuration'' then Inr (''configuration'', ps, rest)
          else if target = ''top'' then native_top ps rest
          else if target = ''address'' then native_address L ps rest
          else if target = ''input'' then native_input L ps rest
          else if target = ''output'' then native_output L ps rest
          else if target = ''tx'' then native_tx L ps rest
          else if target = ''block'' then native_block L ps rest
          else Inl invalid_target)"

definition native_target :: "text_lib \<Rightarrow> string \<Rightarrow> error_t + request_t" where
  "native_target L path =
     (case path_segments L path of
        [] \<Rightarrow> Inl empty_path
      | first # rest \<Rightarrow>
          if first = [] \<or> hd first \<noteq> CHR ''v'' then Inl missing_version
          else (case to_number_u8 L (tl first) of
             None \<Rightarrow> Inl invalid_number
           | Some version \<Rightarrow>
               sum_bind (native_dispatch L [''version'' \<mapsto> U8 version] rest) finish))"

subsection \<open>Admin targets\<close>

definition admin_subscribe :: "string \<Rightarrow> object_t \<Rightarrow> string list \<Rightarrow> error_t + parsed" where
  "admin_subscribe m ps segs =
     (case segs of
        [] \<Rightarrow> Inl invalid_subcomponent
      | s # rest \<Rightarrow> if s = ''subscribe'' then Inr (m, ps, rest) else Inl invalid_subcomponent)"

definition admin_dispatch :: "object_t \<Rightarrow> string list \<Rightarrow> error_t + parsed" where
  "admin_dispatch ps segs =
     (case segs of
        [] \<Rightarrow> Inl missing_target
      | target # rest \<Rightarrow>
          if target = ''log'' then admin_subscribe ''log_subscribe'' ps rest
          else if target = ''event'' then admin_subscribe ''event_subscribe'' ps rest
          else Inl invalid_target)"

definition admin_target :: "text_lib \<Rightarrow> string \<Rightarrow> error_t + request_t" where
  "admin_target L path =
     (case path_segments L path of
        [] \<Rightarrow> Inl empty_path
      | first # rest \<Rightarrow>
          if first = [] \<or> hd first \<noteq> CHR ''v'' then Inl missing_version
          else (case to_number_u8 L (tl first) of
             None \<Rightarrow> Inl invalid_number
           | Some version \<Rightarrow>
               sum_bind (admin_dispatch [''version'' \<mapsto> U8 version] rest) finish))"

subsection \<open>The documented routes\<close>

definition native_top_routes :: "route list" where
  "native_top_routes =
     [([], ''top'', None),
      ([Lit ''subscribe''], ''top_subscribe'', None)]"

definition native_address_routes :: "route list" where
  "native_address_routes = under (HashAt ''hash'')
     [([], ''address'', None),
      ([Lit ''confirmed''], ''address_confirmed'', None),
      ([Lit ''unconfirmed''], ''address_unconfirmed'', None),
      ([Lit ''balance''], ''address_balance'', None),
      ([Lit ''subscribe''], ''address_subscribe'', None)]"

definition native_input_routes :: "route list" where
  "native_input_routes = under (HashAt ''hash'')
     (([], ''inputs'', None) # under (Num32At ''index'')
       [([], ''input'', None),
        ([Lit ''script''], ''input_script'', None),
        ([Lit ''witness''], ''input_witness'', None)])"

definition native_output_routes :: "route list" where
  "native_output_routes = under (HashAt ''hash'')
     (([], ''outputs'', None) # under (Num32At ''index'')
       [([], ''output'', None),
        ([Lit ''script''], ''output_script'', None),
        ([Lit ''spender''], ''output_spender'', None),
        ([Lit ''spenders''], ''output_spenders'', None),
        ([Lit ''subscribe''], ''output_subscribe'', None)])"

definition native_tx_routes :: "route list" where
  "native_tx_routes =
     ([Lit ''subscribe''], ''tx_subscribe'', None) # under (HashAt ''hash'')
       [([], ''tx'', None),
        ([Lit ''header''], ''tx_header'', None),
        ([Lit ''details''], ''tx_details'', None)]"

definition native_block_component_routes :: "route list" where
  "native_block_component_routes =
     [([], ''block'', None),
      ([Lit ''tx'', Num32At ''position''], ''block_tx'', None),
      ([Lit ''header''], ''block_header'', None),
      ([Lit ''header'', Lit ''context''], ''block_header_context'', None),
      ([Lit ''txs''], ''block_txs'', None),
      ([Lit ''details''], ''block_details'', None),
      ([Lit ''filter'', Num8At ''type''], ''block_filter'', None),
      ([Lit ''filter'', Num8At ''type'', Lit ''hash''], ''block_filter_hash'', None),
      ([Lit ''filter'', Num8At ''type'', Lit ''header''], ''block_filter_header'', None)]"

definition native_block_routes :: "route list" where
  "native_block_routes =
     ([Lit ''subscribe''], ''block_subscribe'', None) #
     under (Lit ''hash'') (under (HashAt ''hash'') native_block_component_routes) @
     under (Lit ''height'') (under (Num32At ''height'') native_block_component_routes)"

definition native_routes :: "route list" where
  "native_routes = under (VersionAt ''version'')
     (([Lit ''configuration''], ''configuration'', None) #
      under (Lit ''top'') native_top_routes @
      under (Lit ''address'') native_address_routes @
      under (Lit ''input'') native_input_routes @
      under (Lit ''output'') native_output_routes @
      under (Lit ''tx'') native_tx_routes @
      under (Lit ''block'') native_block_routes)"

definition admin_routes :: "route list" where
  "admin_routes = under (VersionAt ''version'')
     [([Lit ''log'', Lit ''subscribe''], ''log_subscribe'', None),
      ([Lit ''event'', Lit ''subscribe''], ''event_subscribe'', None)]"

subsection \<open>Each branch implements its routes\<close>

lemma native_top_ok: "branch_ok L native_top_routes ps segs (native_top ps segs)"
  by (auto simp: native_top_def native_top_routes_def branch_simps split: list.split option.split)

lemma native_address_ok: "branch_ok L native_address_routes ps segs (native_address L ps segs)"
  by (auto simp: native_address_def native_address_routes_def branch_simps
      split: list.split option.split)

lemma native_input_ok: "branch_ok L native_input_routes ps segs (native_input L ps segs)"
  by (auto simp: native_input_def native_input_routes_def branch_simps
      split: list.split option.split)

lemma native_output_ok: "branch_ok L native_output_routes ps segs (native_output L ps segs)"
  by (auto simp: native_output_def native_output_routes_def branch_simps
      split: list.split option.split)

lemma native_tx_ok:
  "lib_ok L \<Longrightarrow> branch_ok L native_tx_routes ps segs (native_tx L ps segs)"
  by (auto simp: native_tx_def native_tx_routes_def branch_simps to_hash_short
      split: list.split option.split)

lemma native_block_component_ok:
  "branch_ok L native_block_component_routes ps segs (native_block_component L ps segs)"
  by (auto simp: native_block_component_def native_block_component_routes_def branch_simps
      split: list.split option.split)

lemma native_block_ok: "branch_ok L native_block_routes ps segs (native_block L ps segs)"
  by (simp add: native_block_def native_block_routes_def branch_simps native_block_component_ok
      split: list.split option.split)

lemmas native_branches_ok =
  native_top_ok native_address_ok native_input_ok native_output_ok native_tx_ok native_block_ok

lemma native_dispatch_ok:
  "lib_ok L \<Longrightarrow> version_token L seg = Some v \<Longrightarrow>
   result_option (sum_bind (native_dispatch L [''version'' \<mapsto> U8 v] rest) finish) =
     first_route L native_routes Map.empty (seg # rest)"
  by (cases rest) (simp_all add: native_dispatch_def native_routes_def first_route_append
      native_branches_ok finish_def)

lemma native_target_ok:
  assumes "lib_ok L"
  shows "result_option (native_target L path) =
    first_route L native_routes Map.empty (path_segments L path)"
proof (cases "path_segments L path")
  case Nil
  then show ?thesis by (simp add: native_target_def native_routes_def)
next
  case (Cons seg rest)
  show ?thesis
  proof (cases "version_token L seg")
    case None
    then show ?thesis using Cons
      by (auto simp: native_target_def native_routes_def version_token_def split: if_splits)
  next
    case (Some v)
    then have "native_target L path =
        sum_bind (native_dispatch L [''version'' \<mapsto> U8 v] rest) finish"
      using Cons by (auto simp: native_target_def version_token_def split: if_splits)
    then show ?thesis using native_dispatch_ok [OF assms Some] Cons by simp
  qed
qed

lemma admin_target_ok:
  assumes "lib_ok L"
  shows "result_option (admin_target L path) =
    first_route L admin_routes Map.empty (path_segments L path)"
proof (cases "path_segments L path")
  case Nil
  then show ?thesis by (simp add: admin_target_def admin_routes_def)
next
  case (Cons seg rest)
  then show ?thesis
    by (cases "version_token L seg")
      (auto simp: admin_target_def admin_dispatch_def admin_subscribe_def admin_routes_def
        version_token_def branch_simps split: if_splits list.split option.split)
qed

subsection \<open>The published interfaces\<close>

text \<open>
  The method tuples of \<open>interfaces/native.hpp\<close> and \<open>interfaces/admin.hpp\<close>: the name and the
  params with their types, and whether a param may be missing (nullable or with a default).
\<close>

definition native_methods :: interface where
  "native_methods =
     [
      (''configuration'', [(''version'', U8_type, Required), (''media'', U8_type, Required)]),
      (''top'', [(''version'', U8_type, Required), (''media'', U8_type, Required)]),
      (''top_subscribe'', [(''version'', U8_type, Required), (''media'', U8_type, Required),
         (''stop'', Bool_type, Defaulted)]),
      (''block'', [(''version'', U8_type, Required), (''media'', U8_type, Required),
         (''hash'', Hash_type, Nullable), (''height'', U32_type, Nullable),
         (''witness'', Bool_type, Defaulted)]),
      (''block_header'', [(''version'', U8_type, Required), (''media'', U8_type, Required),
         (''hash'', Hash_type, Nullable), (''height'', U32_type, Nullable)]),
      (''block_header_context'', [(''version'', U8_type, Required),
         (''media'', U8_type, Required), (''hash'', Hash_type, Nullable),
         (''height'', U32_type, Nullable)]),
      (''block_details'', [(''version'', U8_type, Required), (''media'', U8_type, Required),
         (''hash'', Hash_type, Nullable), (''height'', U32_type, Nullable)]),
      (''block_txs'', [(''version'', U8_type, Required), (''media'', U8_type, Required),
         (''hash'', Hash_type, Nullable), (''height'', U32_type, Nullable)]),
      (''block_filter'', [(''version'', U8_type, Required), (''media'', U8_type, Required),
         (''type'', U8_type, Required), (''hash'', Hash_type, Nullable),
         (''height'', U32_type, Nullable)]),
      (''block_filter_hash'', [(''version'', U8_type, Required), (''media'', U8_type, Required),
         (''type'', U8_type, Required), (''hash'', Hash_type, Nullable),
         (''height'', U32_type, Nullable)]),
      (''block_filter_header'', [(''version'', U8_type, Required), (''media'', U8_type, Required),
         (''type'', U8_type, Required), (''hash'', Hash_type, Nullable),
         (''height'', U32_type, Nullable)]),
      (''block_tx'', [(''version'', U8_type, Required), (''media'', U8_type, Required),
         (''position'', U32_type, Required), (''hash'', Hash_type, Nullable),
         (''height'', U32_type, Nullable), (''witness'', Bool_type, Defaulted)]),
      (''block_subscribe'', [(''version'', U8_type, Required), (''media'', U8_type, Required),
         (''stop'', Bool_type, Defaulted)]),
      (''tx'', [(''version'', U8_type, Required), (''media'', U8_type, Required),
         (''hash'', Hash_type, Required), (''witness'', Bool_type, Defaulted)]),
      (''tx_header'', [(''version'', U8_type, Required), (''media'', U8_type, Required),
         (''hash'', Hash_type, Required)]),
      (''tx_details'', [(''version'', U8_type, Required), (''media'', U8_type, Required),
         (''hash'', Hash_type, Required)]),
      (''tx_subscribe'', [(''version'', U8_type, Required), (''media'', U8_type, Required),
         (''stop'', Bool_type, Defaulted)]),
      (''inputs'', [(''version'', U8_type, Required), (''media'', U8_type, Required),
         (''hash'', Hash_type, Required), (''witness'', Bool_type, Defaulted)]),
      (''input'', [(''version'', U8_type, Required), (''media'', U8_type, Required),
         (''hash'', Hash_type, Required), (''index'', U32_type, Required),
         (''witness'', Bool_type, Defaulted)]),
      (''input_script'', [(''version'', U8_type, Required), (''media'', U8_type, Required),
         (''hash'', Hash_type, Required), (''index'', U32_type, Required)]),
      (''input_witness'', [(''version'', U8_type, Required), (''media'', U8_type, Required),
         (''hash'', Hash_type, Required), (''index'', U32_type, Required)]),
      (''outputs'', [(''version'', U8_type, Required), (''media'', U8_type, Required),
         (''hash'', Hash_type, Required)]),
      (''output'', [(''version'', U8_type, Required), (''media'', U8_type, Required),
         (''hash'', Hash_type, Required), (''index'', U32_type, Required)]),
      (''output_script'', [(''version'', U8_type, Required), (''media'', U8_type, Required),
         (''hash'', Hash_type, Required), (''index'', U32_type, Required)]),
      (''output_spender'', [(''version'', U8_type, Required), (''media'', U8_type, Required),
         (''hash'', Hash_type, Required), (''index'', U32_type, Required)]),
      (''output_spenders'', [(''version'', U8_type, Required), (''media'', U8_type, Required),
         (''hash'', Hash_type, Required), (''index'', U32_type, Required)]),
      (''output_subscribe'', [(''version'', U8_type, Required), (''media'', U8_type, Required),
         (''hash'', Hash_type, Required), (''index'', U32_type, Required),
         (''stop'', Bool_type, Defaulted)]),
      (''address'', [(''version'', U8_type, Required), (''media'', U8_type, Required),
         (''hash'', Hash_type, Required), (''turbo'', Bool_type, Defaulted)]),
      (''address_confirmed'', [(''version'', U8_type, Required), (''media'', U8_type, Required),
         (''hash'', Hash_type, Required), (''turbo'', Bool_type, Defaulted)]),
      (''address_unconfirmed'', [(''version'', U8_type, Required), (''media'', U8_type, Required),
         (''hash'', Hash_type, Required), (''turbo'', Bool_type, Defaulted)]),
      (''address_balance'', [(''version'', U8_type, Required), (''media'', U8_type, Required),
         (''hash'', Hash_type, Required), (''turbo'', Bool_type, Defaulted)]),
      (''address_subscribe'', [(''version'', U8_type, Required), (''media'', U8_type, Required),
         (''hash'', Hash_type, Required), (''turbo'', Bool_type, Defaulted),
         (''stop'', Bool_type, Defaulted)])
     ]"

definition admin_methods :: interface where
  "admin_methods =
     [
      (''log_subscribe'', [(''version'', U8_type, Required), (''filter'', U64_type, Defaulted)]),
      (''event_subscribe'', [(''version'', U8_type, Required), (''filter'', U64_type, Defaulted)])
     ]"

lemmas native_routes_defs =
  native_top_routes_def native_address_routes_def native_input_routes_def
  native_output_routes_def native_tx_routes_def native_block_component_routes_def
  native_block_routes_def native_routes_def

lemma native_routes_unambiguous: "unambiguous native_routes"
  by code_simp

lemma native_routes_fit: "list_all (row_fits native_methods [''media'']) native_routes"
  by code_simp

interpretation native: rest_parser native_target path_segments native_routes native_methods
    "[''media'']"
  by unfold_locales
    (simp_all add: native_target_ok native_routes_unambiguous native_routes_fit)

interpretation admin: rest_parser admin_target path_segments admin_routes admin_methods "[]"
  by unfold_locales
    (simp_all add: admin_target_ok admin_routes_def admin_methods_def
      row_fits_def sig_fits_def route_params_def)

subsection \<open>Properties\<close>

text \<open>
  C5: The nested branches of native_target accept a path exactly when one row of the documented
  route table matches all its segments, and the request is the method and the arguments of that
  row. No two rows match the same path, so this holds whatever the order of the branches.
\<close>

theorem native_target_accepts:
  assumes "lib_ok L"
  shows "native_target L path = Inr q \<longleftrightarrow>
    (\<exists>ts m md qs. (ts, m, md) \<in> set native_routes \<and>
       match_tokens L ts Map.empty (path_segments L path) = Some qs \<and>
       q = make_request m (with_media L md qs))"
  by (rule native.parse_iff [OF assms])

lemma sample_context_path:
  "path_segments sample_lib ''/v1/block/height/7/header/context?format=json'' =
     [''v1'', ''block'', ''height'', ''7'', ''header'', ''context'']"
  by code_simp

theorem native_target_accepts_witness:
  "native_target sample_lib ''/v1/block/height/7/header/context?format=json'' =
     Inr (make_request ''block_header_context'' [''version'' \<mapsto> U8 1, ''height'' \<mapsto> U32 7])"
proof -
  let ?ts = "[VersionAt ''version'', Lit ''block'', Lit ''height'', Num32At ''height'',
      Lit ''header'', Lit ''context'']"
  have "(?ts, ''block_header_context'', None) \<in> set native_routes" by code_simp
  moreover have "match_tokens sample_lib ?ts Map.empty
      (path_segments sample_lib ''/v1/block/height/7/header/context?format=json'') =
      Some [''version'' \<mapsto> U8 1, ''height'' \<mapsto> U32 7]"
    by (simp add: sample_context_path sample_numbers version_token_def)
  ultimately show ?thesis
    using native_target_accepts [OF sample_lib_ok] by fastforce
qed

text \<open>
  Every request native_target accepts can be dispatched: its method is published by the
  native interface, every param it carries is declared for that method with the type of its
  value, and every required param is there except the media type, which the query parser adds.
\<close>

theorem native_target_fits:
  assumes "lib_ok L" "native_target L path = Inr q"
  shows "request_fits native_methods [''media''] q"
  by (rule native.parse_fits [OF assms])

theorem native_target_fits_witness:
  "request_fits native_methods [''media'']
     (make_request ''block_header_context'' [''version'' \<mapsto> U8 1, ''height'' \<mapsto> U32 7])"
proof -
  have "first_route sample_lib native_routes Map.empty
      (path_segments sample_lib ''/v1/block/height/7/header/context?format=json'') =
      Some (make_request ''block_header_context'' [''version'' \<mapsto> U8 1, ''height'' \<mapsto> U32 7])"
    by (simp add: sample_context_path sample_numbers version_token_def native_routes_defs first_route_append)
  then have "native_target sample_lib ''/v1/block/height/7/header/context?format=json'' =
      Inr (make_request ''block_header_context'' [''version'' \<mapsto> U8 1, ''height'' \<mapsto> U32 7])"
    by (simp add: native.parse_route [OF sample_lib_ok])
  then show ?thesis by (rule native_target_fits [OF sample_lib_ok])
qed

definition block_method :: "string \<Rightarrow> bool" where
  "block_method m \<longleftrightarrow> List.member
     [''block'', ''block_tx'', ''block_header'', ''block_header_context'', ''block_txs'',
      ''block_details'', ''block_filter'', ''block_filter_hash'', ''block_filter_header''] m"

lemma native_block_rows:
  "list_all (\<lambda>r. block_method (fst (snd r)) \<longrightarrow>
     List.member (map fst (route_params r)) ''hash'' \<noteq>
     List.member (map fst (route_params r)) ''height'') native_routes"
  by code_simp

text \<open>
  The native block methods declare both the hash and the height as nullable; the parser
  always supplies exactly one of them, so a handler never sees a block that is unidentified or
  identified twice.
\<close>

theorem native_block_identified:
  assumes "lib_ok L" "native_target L path = Inr q" "block_method (rpc_method q)"
  shows "\<exists>ps. params q = Some (Named ps) \<and> (''hash'' \<in> dom ps) \<noteq> (''height'' \<in> dom ps)"
proof -
  obtain ts md ps where row: "(ts, rpc_method q, md) \<in> set native_routes"
    and ps: "params q = Some (Named ps)"
    and typed: "typed_by (route_params (ts, rpc_method q, md)) ps"
    using native.parse_params [OF assms(1,2)] .
  have "(''hash'' \<in> fst ` set (route_params (ts, rpc_method q, md))) \<noteq>
      (''height'' \<in> fst ` set (route_params (ts, rpc_method q, md)))"
    using native_block_rows row assms(3) by (force simp: list_all_iff)
  then show ?thesis using ps typed by (simp add: typed_by_def)
qed

theorem native_block_identified_witness:
  "\<exists>ps. params (make_request ''block_header_context''
       [''version'' \<mapsto> U8 1, ''height'' \<mapsto> U32 7]) = Some (Named ps) \<and>
     (''hash'' \<in> dom ps) \<noteq> (''height'' \<in> dom ps)"
proof (rule native_block_identified [OF sample_lib_ok])
  show "native_target sample_lib ''/v1/block/height/7/header/context?format=json'' =
      Inr (make_request ''block_header_context'' [''version'' \<mapsto> U8 1, ''height'' \<mapsto> U32 7])"
    by (simp add: native.parse_route [OF sample_lib_ok] sample_context_path sample_numbers version_token_def
        native_routes_defs first_route_append)
  show "block_method (rpc_method (make_request ''block_header_context''
       [''version'' \<mapsto> U8 1, ''height'' \<mapsto> U32 7]))" by (simp add: block_method_def)
qed

lemma versioned_match:
  "match_tokens L [VersionAt k, Lit a, Lit b] Map.empty segs = Some qs \<longleftrightarrow>
     (\<exists>seg v. segs = [seg, a, b] \<and> version_token L seg = Some v \<and> qs = [k \<mapsto> U8 v])"
  by (auto simp: match_tokens_Cons_Some split: if_splits)

text \<open>
  admin_target accepts exactly the two versioned subscription paths, of the log and of the
  events, and its requests carry the version and nothing else, as the admin interface asks
  before the filter is added from the query.
\<close>

theorem admin_target_accepts:
  assumes "lib_ok L"
  shows "admin_target L path = Inr q \<longleftrightarrow>
    (\<exists>seg v. version_token L seg = Some v \<and>
       (path_segments L path = [seg, ''log'', ''subscribe''] \<and>
          q = make_request ''log_subscribe'' [''version'' \<mapsto> U8 v] \<or>
        path_segments L path = [seg, ''event'', ''subscribe''] \<and>
          q = make_request ''event_subscribe'' [''version'' \<mapsto> U8 v]))"
proof -
  have "(ts, m, md) \<in> set admin_routes \<longleftrightarrow> md = None \<and>
      (ts = [VersionAt ''version'', Lit ''log'', Lit ''subscribe''] \<and> m = ''log_subscribe'' \<or>
       ts = [VersionAt ''version'', Lit ''event'', Lit ''subscribe''] \<and> m = ''event_subscribe'')"
    for ts m md by (auto simp: admin_routes_def)
  then show ?thesis
    unfolding admin.parse_iff [OF assms] by (auto simp: versioned_match)
qed

theorem admin_target_accepts_witness:
  "admin_target sample_lib ''/v1/log/subscribe?filter=3'' =
     Inr (make_request ''log_subscribe'' [''version'' \<mapsto> U8 1])"
proof -
  have "path_segments sample_lib ''/v1/log/subscribe?filter=3'' = [''v1'', ''log'', ''subscribe'']"
    by code_simp
  then show ?thesis
    by (subst admin_target_accepts [OF sample_lib_ok])
      (simp add: version_token_def sample_numbers)
qed

end
