(* ===== verification/Esplora_Target.thy ===== *)
theory Esplora_Target
  imports Routes Sample_Lib
begin

text \<open>
  The url parser of the esplora service, \<open>parsers/esplora_target.cpp\<close>, in the style of theory
  Native_Target: one definition per branch of the chain over the target segment. The media
  type of the response is implied by the target, so each branch sets it with \<open>set_media\<close>.
\<close>

definition esplora_tx_component ::
  "text_lib \<Rightarrow> object_t \<Rightarrow> string list \<Rightarrow> error_t + parsed" where
  "esplora_tx_component L ps segs =
     (case segs of
        [] \<Rightarrow> Inr (''tx'', set_media L ps application_json, [])
      | component # rest \<Rightarrow>
        if component = ''hex'' then Inr (''tx'', set_media L ps text_plain, rest)
        else if component = ''raw'' then
          Inr (''tx'', set_media L ps application_octet_stream, rest)
        else if component = ''status'' then
          Inr (''tx_status'', set_media L ps application_json, rest)
        else if component = ''merkleblock-proof'' then
          Inr (''tx_merkleblock_proof'', set_media L ps text_plain, rest)
        else if component = ''merkle-proof'' then
          Inr (''tx_merkle_proof'', set_media L ps application_json, rest)
        else if component = ''outspend'' then
          (case rest of
             [] \<Rightarrow> Inl missing_position
           | token # rest \<Rightarrow>
             (case to_number_u32 L token of
                None \<Rightarrow> Inl invalid_number
              | Some index \<Rightarrow>
                  Inr (''tx_outspend'',
                    set_media L (ps(''index'' \<mapsto> U32 index)) application_json, rest)))
        else if component = ''outspends'' then
          Inr (''tx_outspends'', set_media L ps application_json, rest)
        else Inl invalid_component)"

definition esplora_tx :: "text_lib \<Rightarrow> object_t \<Rightarrow> string list \<Rightarrow> error_t + parsed" where
  "esplora_tx L ps segs =
     (case segs of
        [] \<Rightarrow> Inr (''broadcast'', set_media L ps text_plain, [])
      | token # rest \<Rightarrow>
        (case to_hash L token of
           None \<Rightarrow> Inl invalid_hash
         | Some h \<Rightarrow> esplora_tx_component L (ps(''hash'' \<mapsto> Hash h)) rest))"

definition esplora_txs :: "text_lib \<Rightarrow> object_t \<Rightarrow> string list \<Rightarrow> error_t + parsed" where
  "esplora_txs L ps segs =
     (case segs of
        [] \<Rightarrow> Inl missing_component
      | component # rest \<Rightarrow>
        if component \<noteq> ''package'' then Inl invalid_component
        else Inr (''broadcast_package'', set_media L ps application_json, rest))"

definition esplora_address_txs :: "text_lib \<Rightarrow> object_t \<Rightarrow> string list \<Rightarrow> error_t + parsed" where
  "esplora_address_txs L ps segs =
     (case segs of
        [] \<Rightarrow> Inr (''address_txs'', set_media L ps application_json, [])
      | subcomponent # rest \<Rightarrow>
        if subcomponent = ''chain'' then
          (case rest of
             [] \<Rightarrow> Inr (''address_txs_chain'', set_media L ps application_json, [])
           | token # rest \<Rightarrow>
             (case to_hash L token of
                None \<Rightarrow> Inl invalid_hash
              | Some seen \<Rightarrow>
                  Inr (''address_txs_chain'',
                    set_media L (ps(''last_seen'' \<mapsto> Hash seen)) application_json, rest)))
        else if subcomponent = ''mempool'' then
          Inr (''address_txs_mempool'', set_media L ps application_json, rest)
        else Inl invalid_subcomponent)"

definition esplora_address_component ::
  "text_lib \<Rightarrow> object_t \<Rightarrow> string list \<Rightarrow> error_t + parsed" where
  "esplora_address_component L ps segs =
     (case segs of
        [] \<Rightarrow> Inr (''address'', set_media L ps application_json, [])
      | component # rest \<Rightarrow>
        if component = ''txs'' then esplora_address_txs L ps rest
        else if component = ''utxo'' then
          Inr (''address_utxo'', set_media L ps application_json, rest)
        else Inl invalid_component)"

definition esplora_address ::
  "text_lib \<Rightarrow> string \<Rightarrow> object_t \<Rightarrow> string list \<Rightarrow> error_t + parsed" where
  "esplora_address L target ps segs =
     (case segs of
        [] \<Rightarrow> Inl missing_hash
      | key # rest \<Rightarrow>
        if target = ''scripthash'' then
          (case to_scripthash L key of
             None \<Rightarrow> Inl invalid_hash
           | Some h \<Rightarrow> esplora_address_component L (ps(''hash'' \<mapsto> Hash h)) rest)
        else esplora_address_component L (ps(''address'' \<mapsto> String key)) rest)"

definition esplora_block_component ::
  "text_lib \<Rightarrow> object_t \<Rightarrow> string list \<Rightarrow> error_t + parsed" where
  "esplora_block_component L ps segs =
     (case segs of
        [] \<Rightarrow> Inr (''block'', set_media L ps application_json, [])
      | component # rest \<Rightarrow>
        if component = ''raw'' then
          Inr (''block'', set_media L ps application_octet_stream, rest)
        else if component = ''header'' then
          Inr (''block_header'', set_media L ps text_plain, rest)
        else if component = ''status'' then
          Inr (''block_status'', set_media L ps application_json, rest)
        else if component = ''txs'' then
          (case rest of
             [] \<Rightarrow> Inr (''block_txs'', set_media L ps application_json, [])
           | token # rest \<Rightarrow>
             (case to_number_u32 L token of
                None \<Rightarrow> Inl invalid_number
              | Some start \<Rightarrow>
                  Inr (''block_txs'',
                    set_media L (ps(''start'' \<mapsto> U32 start)) application_json, rest)))
        else if component = ''txids'' then
          Inr (''block_txids'', set_media L ps application_json, rest)
        else if component = ''txid'' then
          (case rest of
             [] \<Rightarrow> Inl missing_position
           | token # rest \<Rightarrow>
             (case to_number_u32 L token of
                None \<Rightarrow> Inl invalid_number
              | Some index \<Rightarrow>
                  Inr (''block_txid'', set_media L (ps(''index'' \<mapsto> U32 index)) text_plain, rest)))
        else Inl invalid_component)"

definition esplora_block :: "text_lib \<Rightarrow> object_t \<Rightarrow> string list \<Rightarrow> error_t + parsed" where
  "esplora_block L ps segs =
     (case segs of
        [] \<Rightarrow> Inl missing_hash
      | token # rest \<Rightarrow>
        (case to_hash L token of
           None \<Rightarrow> Inl invalid_hash
         | Some h \<Rightarrow> esplora_block_component L (ps(''hash'' \<mapsto> Hash h)) rest))"

definition esplora_block_height :: "text_lib \<Rightarrow> object_t \<Rightarrow> string list \<Rightarrow> error_t + parsed" where
  "esplora_block_height L ps segs =
     (case segs of
        [] \<Rightarrow> Inl missing_height
      | token # rest \<Rightarrow>
        (case to_number_u32 L token of
           None \<Rightarrow> Inl invalid_number
         | Some height \<Rightarrow>
             Inr (''block_height'', set_media L (ps(''height'' \<mapsto> U32 height)) text_plain, rest)))"

definition esplora_tip :: "text_lib \<Rightarrow> object_t \<Rightarrow> string list \<Rightarrow> error_t + parsed" where
  "esplora_tip L ps segs =
     (case segs of
        [] \<Rightarrow> Inl missing_component
      | subcomponent # rest \<Rightarrow>
        if subcomponent = ''height'' then Inr (''tip_height'', set_media L ps text_plain, rest)
        else if subcomponent = ''hash'' then Inr (''tip_hash'', set_media L ps text_plain, rest)
        else Inl invalid_subcomponent)"

definition esplora_blocks :: "text_lib \<Rightarrow> object_t \<Rightarrow> string list \<Rightarrow> error_t + parsed" where
  "esplora_blocks L ps segs =
     (case segs of
        [] \<Rightarrow> Inr (''blocks'', set_media L ps application_json, [])
      | token # rest \<Rightarrow>
        if token = ''tip'' then esplora_tip L ps rest
        else (case to_number_u32 L token of
           None \<Rightarrow> Inl invalid_number
         | Some height \<Rightarrow>
             Inr (''blocks'', set_media L (ps(''height'' \<mapsto> U32 height)) application_json, rest)))"

definition esplora_mempool :: "text_lib \<Rightarrow> object_t \<Rightarrow> string list \<Rightarrow> error_t + parsed" where
  "esplora_mempool L ps segs =
     (case segs of
        [] \<Rightarrow> Inr (''mempool'', set_media L ps application_json, [])
      | component # rest \<Rightarrow>
        if component = ''txids'' then
          Inr (''mempool_txids'', set_media L ps application_json, rest)
        else if component = ''recent'' then
          Inr (''mempool_recent'', set_media L ps application_json, rest)
        else Inl invalid_component)"

definition esplora_dispatch :: "text_lib \<Rightarrow> string \<Rightarrow> string list \<Rightarrow> error_t + parsed" where
  "esplora_dispatch L target rest =
     (if target = [] then Inl missing_target
      else if target = ''tx'' then esplora_tx L Map.empty rest
      else if target = ''txs'' then esplora_txs L Map.empty rest
      else if target = ''address'' \<or> target = ''scripthash'' then
        esplora_address L target Map.empty rest
      else if target = ''block'' then esplora_block L Map.empty rest
      else if target = ''block-height'' then esplora_block_height L Map.empty rest
      else if target = ''blocks'' then esplora_blocks L Map.empty rest
      else if target = ''mempool'' then esplora_mempool L Map.empty rest
      else if target = ''fee-estimates'' then
        Inr (''fee_estimates'', set_media L Map.empty application_json, rest)
      else Inl invalid_target)"

definition esplora_target :: "text_lib \<Rightarrow> string \<Rightarrow> error_t + request_t" where
  "esplora_target L path =
     (case path_segments L path of
        [] \<Rightarrow> Inl empty_path
      | target # rest \<Rightarrow> sum_bind (esplora_dispatch L target rest) finish)"

subsection \<open>The documented routes\<close>

definition esplora_tx_routes :: "route list" where
  "esplora_tx_routes = ([], ''broadcast'', Some text_plain) # under (HashAt ''hash'')
     [([], ''tx'', Some application_json),
      ([Lit ''hex''], ''tx'', Some text_plain),
      ([Lit ''raw''], ''tx'', Some application_octet_stream),
      ([Lit ''status''], ''tx_status'', Some application_json),
      ([Lit ''merkleblock-proof''], ''tx_merkleblock_proof'', Some text_plain),
      ([Lit ''merkle-proof''], ''tx_merkle_proof'', Some application_json),
      ([Lit ''outspend'', Num32At ''index''], ''tx_outspend'', Some application_json),
      ([Lit ''outspends''], ''tx_outspends'', Some application_json)]"

definition esplora_address_routes :: "route list" where
  "esplora_address_routes =
     [([], ''address'', Some application_json),
      ([Lit ''txs''], ''address_txs'', Some application_json),
      ([Lit ''txs'', Lit ''chain''], ''address_txs_chain'', Some application_json),
      ([Lit ''txs'', Lit ''chain'', HashAt ''last_seen''], ''address_txs_chain'',
        Some application_json),
      ([Lit ''txs'', Lit ''mempool''], ''address_txs_mempool'', Some application_json),
      ([Lit ''utxo''], ''address_utxo'', Some application_json)]"

definition esplora_block_routes :: "route list" where
  "esplora_block_routes = under (HashAt ''hash'')
     [([], ''block'', Some application_json),
      ([Lit ''raw''], ''block'', Some application_octet_stream),
      ([Lit ''header''], ''block_header'', Some text_plain),
      ([Lit ''status''], ''block_status'', Some application_json),
      ([Lit ''txs''], ''block_txs'', Some application_json),
      ([Lit ''txs'', Num32At ''start''], ''block_txs'', Some application_json),
      ([Lit ''txids''], ''block_txids'', Some application_json),
      ([Lit ''txid'', Num32At ''index''], ''block_txid'', Some text_plain)]"

definition esplora_blocks_routes :: "route list" where
  "esplora_blocks_routes =
     [([], ''blocks'', Some application_json),
      ([Lit ''tip'', Lit ''height''], ''tip_height'', Some text_plain),
      ([Lit ''tip'', Lit ''hash''], ''tip_hash'', Some text_plain),
      ([Num32At ''height''], ''blocks'', Some application_json)]"

definition esplora_mempool_routes :: "route list" where
  "esplora_mempool_routes =
     [([], ''mempool'', Some application_json),
      ([Lit ''txids''], ''mempool_txids'', Some application_json),
      ([Lit ''recent''], ''mempool_recent'', Some application_json)]"

definition esplora_routes :: "route list" where
  "esplora_routes =
     under (Lit ''tx'') esplora_tx_routes @
     ([Lit ''txs'', Lit ''package''], ''broadcast_package'', Some application_json) #
     under (Lit ''address'') (under (TextAt ''address'') esplora_address_routes) @
     under (Lit ''scripthash'') (under (ScriptHashAt ''hash'') esplora_address_routes) @
     under (Lit ''block'') esplora_block_routes @
     ([Lit ''block-height'', Num32At ''height''], ''block_height'', Some text_plain) #
     under (Lit ''blocks'') esplora_blocks_routes @
     under (Lit ''mempool'') esplora_mempool_routes @
     [([Lit ''fee-estimates''], ''fee_estimates'', Some application_json)]"

lemmas [route_defs] =
  esplora_tx_routes_def esplora_address_routes_def esplora_block_routes_def
  esplora_blocks_routes_def esplora_mempool_routes_def esplora_routes_def

subsection \<open>Each branch implements its routes\<close>

lemma esplora_tx_ok: "branch_ok L esplora_tx_routes ps segs (esplora_tx L ps segs)"
  by (auto simp: esplora_tx_def esplora_tx_component_def esplora_tx_routes_def branch_simps
      split: list.split option.split)

lemma esplora_address_ok:
  "branch_ok L esplora_address_routes ps segs (esplora_address_component L ps segs)"
  by (auto simp: esplora_address_component_def esplora_address_txs_def
      esplora_address_routes_def branch_simps split: list.split option.split)

lemma esplora_block_ok: "branch_ok L esplora_block_routes ps segs (esplora_block L ps segs)"
  by (auto simp: esplora_block_def esplora_block_component_def esplora_block_routes_def
      branch_simps split: list.split option.split)

lemma tip_is_no_number: "lib_ok L \<Longrightarrow> to_number_u32 L ''tip'' = None"
  by (rule to_number_u32_nondigit) (auto simp: is_digit_char_def of_char_def)

lemma esplora_blocks_ok:
  "lib_ok L \<Longrightarrow> branch_ok L esplora_blocks_routes ps segs (esplora_blocks L ps segs)"
  by (auto simp: esplora_blocks_def esplora_tip_def esplora_blocks_routes_def branch_simps
      tip_is_no_number split: list.split option.split)

lemma esplora_mempool_ok: "branch_ok L esplora_mempool_routes ps segs (esplora_mempool L ps segs)"
  by (auto simp: esplora_mempool_def esplora_mempool_routes_def branch_simps
      split: list.split option.split)

lemmas esplora_branches_ok =
  esplora_tx_ok esplora_address_ok esplora_block_ok esplora_blocks_ok esplora_mempool_ok

lemma esplora_dispatch_ok:
  "lib_ok L \<Longrightarrow>
   result_option (sum_bind (esplora_dispatch L target rest) finish) =
     first_route L esplora_routes Map.empty (target # rest)"
  by (simp add: esplora_dispatch_def esplora_routes_def first_route_append esplora_branches_ok
      esplora_txs_def esplora_address_def esplora_block_height_def finish_def match_tokens_Cons
      first_route_under split: list.split option.split)

lemma esplora_target_ok:
  assumes "lib_ok L"
  shows "result_option (esplora_target L path) =
    first_route L esplora_routes Map.empty (path_segments L path)"
  by (cases "path_segments L path")
    (simp_all add: esplora_target_def esplora_dispatch_ok [OF assms],
     simp add: esplora_routes_def first_route_append)

subsection \<open>The published interface\<close>

text \<open>The method tuple of \<open>interfaces/esplora.hpp\<close>. The post body supplies the transactions.\<close>

definition esplora_methods :: interface where
  "esplora_methods =
     [
      (''tx'', [(''media'', U8_type, Required), (''hash'', Hash_type, Required)]),
      (''tx_status'', [(''media'', U8_type, Required), (''hash'', Hash_type, Required)]),
      (''tx_merkleblock_proof'', [(''media'', U8_type, Required), (''hash'', Hash_type, Required)]),
      (''tx_merkle_proof'', [(''media'', U8_type, Required), (''hash'', Hash_type, Required)]),
      (''tx_outspend'', [(''media'', U8_type, Required), (''hash'', Hash_type, Required),
         (''index'', U32_type, Required)]),
      (''tx_outspends'', [(''media'', U8_type, Required), (''hash'', Hash_type, Required)]),
      (''broadcast'', [(''media'', U8_type, Required), (''transaction'', String_type, Required)]),
      (''broadcast_package'', [(''media'', U8_type, Required),
         (''transactions'', Array_type, Required)]),
      (''address'', [(''media'', U8_type, Required), (''hash'', Hash_type, Nullable),
         (''address'', String_type, Nullable)]),
      (''address_txs'', [(''media'', U8_type, Required), (''hash'', Hash_type, Nullable),
         (''address'', String_type, Nullable)]),
      (''address_txs_chain'', [(''media'', U8_type, Required), (''hash'', Hash_type, Nullable),
         (''address'', String_type, Nullable), (''last_seen'', Hash_type, Nullable)]),
      (''address_txs_mempool'', [(''media'', U8_type, Required), (''hash'', Hash_type, Nullable),
         (''address'', String_type, Nullable)]),
      (''address_utxo'', [(''media'', U8_type, Required), (''hash'', Hash_type, Nullable),
         (''address'', String_type, Nullable)]),
      (''block'', [(''media'', U8_type, Required), (''hash'', Hash_type, Required)]),
      (''block_header'', [(''media'', U8_type, Required), (''hash'', Hash_type, Required)]),
      (''block_status'', [(''media'', U8_type, Required), (''hash'', Hash_type, Required)]),
      (''block_txs'', [(''media'', U8_type, Required), (''hash'', Hash_type, Required),
         (''start'', U32_type, Defaulted)]),
      (''block_txids'', [(''media'', U8_type, Required), (''hash'', Hash_type, Required)]),
      (''block_txid'', [(''media'', U8_type, Required), (''hash'', Hash_type, Required),
         (''index'', U32_type, Required)]),
      (''block_height'', [(''media'', U8_type, Required), (''height'', U32_type, Required)]),
      (''blocks'', [(''media'', U8_type, Required), (''height'', U32_type, Nullable)]),
      (''tip_height'', [(''media'', U8_type, Required)]),
      (''tip_hash'', [(''media'', U8_type, Required)]),
      (''mempool'', [(''media'', U8_type, Required)]),
      (''mempool_txids'', [(''media'', U8_type, Required)]),
      (''mempool_recent'', [(''media'', U8_type, Required)]),
      (''fee_estimates'', [(''media'', U8_type, Required)])
     ]"

lemma esplora_routes_unambiguous: "unambiguous esplora_routes"
  by code_simp

lemma esplora_routes_fit:
  "list_all (row_fits esplora_methods [''transaction'', ''transactions'']) esplora_routes"
  by code_simp

interpretation esplora: rest_parser esplora_target path_segments esplora_routes esplora_methods
    "[''transaction'', ''transactions'']"
  by unfold_locales
    (simp_all add: esplora_target_ok esplora_routes_unambiguous esplora_routes_fit)

subsection \<open>Properties\<close>

text \<open>
  C6: esplora_target accepts a path exactly when one row of the documented route table matches
  all its segments; the request is the method of that row with its arguments and the media type
  the row implies.
\<close>

theorem esplora_target_accepts:
  assumes "lib_ok L"
  shows "esplora_target L path = Inr q \<longleftrightarrow>
    (\<exists>ts m md qs. (ts, m, md) \<in> set esplora_routes \<and>
       match_tokens L ts Map.empty (path_segments L path) = Some qs \<and>
       q = make_request m (with_media L md qs))"
  by (rule esplora.parse_iff [OF assms])

lemma sample_tip_path:
  "path_segments sample_lib ''/blocks/tip/height'' = [''blocks'', ''tip'', ''height'']"
  "path_segments sample_lib ''/address/1BoatSLRH/utxo'' = [''address'', ''1BoatSLRH'', ''utxo'']"
  by code_simp+

theorem esplora_target_accepts_witness:
  "esplora_target sample_lib ''/blocks/tip/height'' =
     Inr (make_request ''tip_height'' [''media'' \<mapsto> U8 2])"
proof -
  have "([Lit ''blocks'', Lit ''tip'', Lit ''height''], ''tip_height'', Some text_plain)
      \<in> set esplora_routes" by code_simp
  moreover have "match_tokens sample_lib [Lit ''blocks'', Lit ''tip'', Lit ''height''] Map.empty
      (path_segments sample_lib ''/blocks/tip/height'') = Some Map.empty"
    by (simp add: sample_tip_path)
  moreover have "with_media sample_lib (Some text_plain) Map.empty = [''media'' \<mapsto> U8 2]"
    by (simp add: set_media_def sample_lib_def sample_media_def)
  ultimately show ?thesis
    using esplora_target_accepts [OF sample_lib_ok, of "''/blocks/tip/height''"] by metis
qed

text \<open>
  Every request esplora_target accepts fits the published esplora interface: the media type
  and every other required param are there with their declared types, except the transactions
  of a broadcast, which come from the body of the post.
\<close>

theorem esplora_target_fits:
  assumes "lib_ok L" "esplora_target L path = Inr q"
  shows "request_fits esplora_methods [''transaction'', ''transactions''] q"
  by (rule esplora.parse_fits [OF assms])

lemma sample_utxo_request:
  "esplora_target sample_lib ''/address/1BoatSLRH/utxo'' =
     Inr (make_request ''address_utxo'' [''address'' \<mapsto> String ''1BoatSLRH'', ''media'' \<mapsto> U8 1])"
  by (simp add: esplora.parse_route [OF sample_lib_ok] sample_tip_path route_defs
      first_route_append) (simp add: set_media_def sample_lib_def sample_media_def)

theorem esplora_target_fits_witness:
  "request_fits esplora_methods [''transaction'', ''transactions'']
     (make_request ''address_utxo'' [''address'' \<mapsto> String ''1BoatSLRH'', ''media'' \<mapsto> U8 1])"
  by (rule esplora_target_fits [OF sample_lib_ok sample_utxo_request])

definition address_method :: "string \<Rightarrow> bool" where
  "address_method m \<longleftrightarrow> List.member
     [''address'', ''address_txs'', ''address_txs_chain'', ''address_txs_mempool'',
      ''address_utxo''] m"

lemma esplora_address_rows:
  "list_all (\<lambda>r. address_method (fst (snd r)) \<longrightarrow>
     List.member (map fst (route_params r)) ''hash'' \<noteq>
     List.member (map fst (route_params r)) ''address'') esplora_routes"
  by code_simp

text \<open>
  The esplora address methods declare both the script hash and the address as nullable; the
  parser supplies exactly one of them.
\<close>

theorem esplora_address_identified:
  assumes "lib_ok L" "esplora_target L path = Inr q" "address_method (rpc_method q)"
  shows "\<exists>ps. params q = Some (Named ps) \<and> (''hash'' \<in> dom ps) \<noteq> (''address'' \<in> dom ps)"
proof -
  obtain ts md ps where row: "(ts, rpc_method q, md) \<in> set esplora_routes"
    and ps: "params q = Some (Named ps)"
    and typed: "typed_by (route_params (ts, rpc_method q, md)) ps"
    using esplora.parse_params [OF assms(1,2)] .
  have "(''hash'' \<in> fst ` set (route_params (ts, rpc_method q, md))) \<noteq>
      (''address'' \<in> fst ` set (route_params (ts, rpc_method q, md)))"
    using esplora_address_rows row assms(3) by (force simp: list_all_iff)
  then show ?thesis using ps typed by (simp add: typed_by_def)
qed

theorem esplora_address_identified_witness:
  "\<exists>ps. params (make_request ''address_utxo''
       [''address'' \<mapsto> String ''1BoatSLRH'', ''media'' \<mapsto> U8 1]) = Some (Named ps) \<and>
     (''hash'' \<in> dom ps) \<noteq> (''address'' \<in> dom ps)"
  by (rule esplora_address_identified [OF sample_lib_ok sample_utxo_request])
    (simp add: address_method_def)

end
