(* ===== verification/Bitcoind_Target.thy ===== *)
theory Bitcoind_Target
  imports Routes Sample_Lib
begin

text \<open>
  The url parser of the bitcoind REST service, \<open>parsers/bitcoind_target.cpp\<close>. A path ends in a
  leaf of the form name.extension, whose extension selects the media type; segments after the
  leaf are ignored, unlike in the other parsers. Decimal arguments are read by
  \<open>std::from_chars\<close>, modelled by \<open>from_chars\<close> as the standard defines it for an unsigned
  type in base ten: it reads the longest prefix of digits, fails if there is none or the value
  does not fit, and reports what it has not read.
\<close>

subsection \<open>Decimal numbers\<close>

definition digit_of :: "char \<Rightarrow> nat" where
  "digit_of c = of_char c - 48"

definition decimal_value :: "string \<Rightarrow> nat" where
  "decimal_value s = foldl (\<lambda>n c. 10 * n + digit_of c) 0 s"

definition from_chars :: "nat \<Rightarrow> string \<Rightarrow> (nat \<times> string) option" where
  "from_chars width s =
     (let ds = takeWhile is_digit_char s in
      if ds = [] \<or> decimal_value ds \<ge> 2 ^ width then None
      else Some (decimal_value ds, dropWhile is_digit_char s))"

definition to_number :: "nat \<Rightarrow> string \<Rightarrow> nat option" where
  "to_number width token =
     (if token = [] \<or> length token > 1 \<and> hd token = CHR ''0'' then None
      else (case from_chars width token of
         None \<Rightarrow> None
       | Some (n, rest) \<Rightarrow> if rest = [] then Some n else None))"

definition number32 :: "string \<Rightarrow> u32 option" where
  "number32 token = map_option word_of_nat (to_number 32 token)"

subsection \<open>Leaves\<close>

definition to_media :: "text_lib \<Rightarrow> string \<Rightarrow> u8 option" where
  "to_media L extension =
     (if extension = ''bin'' then Some (media_value L application_octet_stream)
      else if extension = ''hex'' then Some (media_value L text_plain)
      else if extension = ''json'' then Some (media_value L application_json)
      else None)"

definition split_leaf :: "text_lib \<Rightarrow> string \<Rightarrow> (string \<times> u8) option" where
  "split_leaf L leaf =
     (case split_text L leaf ''.'' False True of
        (name, [extension]) \<Rightarrow> map_option (\<lambda>media. (name, media)) (to_media L extension)
      | _ \<Rightarrow> None)"

text \<open>A leaf whose name is a hash, the ending most of the targets share.\<close>

definition hash_leaf :: "text_lib \<Rightarrow> string \<Rightarrow> error_t + (u8 \<times> hash_digest)" where
  "hash_leaf L leaf =
     (case split_leaf L leaf of
        None \<Rightarrow> Inl invalid_target
      | Some (name, media) \<Rightarrow>
        (case to_hash L name of
           None \<Rightarrow> Inl invalid_hash
         | Some hash \<Rightarrow> Inr (media, hash)))"

subsection \<open>Targets\<close>

definition rest_block :: "text_lib \<Rightarrow> string list \<Rightarrow> error_t + request_t" where
  "rest_block L segs =
     (case segs of
        [] \<Rightarrow> Inl missing_hash
      | seg # rest \<Rightarrow>
        let rest_method = (if seg = ''notxdetails'' then ''block_txs'' else ''block'');
            left = (if rest_method \<noteq> ''block'' then rest else segs) in
        (case left of
           [] \<Rightarrow> Inl missing_hash
         | leaf # _ \<Rightarrow>
             sum_bind (hash_leaf L leaf) (\<lambda>(media, hash).
               Inr (make_request rest_method [''media'' \<mapsto> U8 media, ''hash'' \<mapsto> Hash hash]))))"

definition rest_deployment :: "text_lib \<Rightarrow> string \<Rightarrow> string list \<Rightarrow> error_t + request_t" where
  "rest_deployment L target segs =
     (if target = ''deploymentinfo'' \<and> segs \<noteq> [] then
        (case split_leaf L (hd segs) of
           None \<Rightarrow> Inl invalid_target
         | Some (name, media) \<Rightarrow>
           if media \<noteq> media_value L application_json then Inl invalid_target
           else (case to_hash L name of
              None \<Rightarrow> Inl invalid_hash
            | Some hash \<Rightarrow> Inr (make_request ''deployment_info'' [''hash'' \<mapsto> Hash hash])))
      else Inr (make_request ''deployment_info'' Map.empty))"

text \<open>The tx, spenttxouts and blockpart targets differ only in the method.\<close>

definition rest_hash_target :: "text_lib \<Rightarrow> string \<Rightarrow> string list \<Rightarrow> error_t + request_t" where
  "rest_hash_target L m segs =
     (case segs of
        [] \<Rightarrow> Inl missing_hash
      | leaf # _ \<Rightarrow>
          sum_bind (hash_leaf L leaf) (\<lambda>(media, hash).
            Inr (make_request m [''media'' \<mapsto> U8 media, ''hash'' \<mapsto> Hash hash])))"

definition rest_tx :: "text_lib \<Rightarrow> string list \<Rightarrow> error_t + request_t" where
  "rest_tx L segs = rest_hash_target L ''tx'' segs"

definition rest_spent_tx_outputs :: "text_lib \<Rightarrow> string list \<Rightarrow> error_t + request_t" where
  "rest_spent_tx_outputs L segs = rest_hash_target L ''block_spent_tx_outputs'' segs"

definition rest_block_part :: "text_lib \<Rightarrow> string list \<Rightarrow> error_t + request_t" where
  "rest_block_part L segs = rest_hash_target L ''block_part'' segs"

definition rest_block_hash :: "text_lib \<Rightarrow> string list \<Rightarrow> error_t + request_t" where
  "rest_block_hash L segs =
     (case segs of
        [] \<Rightarrow> Inl missing_target
      | leaf # _ \<Rightarrow>
        (case split_leaf L leaf of
           None \<Rightarrow> Inl invalid_target
         | Some (name, media) \<Rightarrow>
           (case number32 name of
              None \<Rightarrow> Inl invalid_number
            | Some height \<Rightarrow>
                Inr (make_request ''block_hash'' [''media'' \<mapsto> U8 media, ''height'' \<mapsto> U32 height]))))"

text \<open>The optional leading count of the headers targets: five unless two segments are left.\<close>

definition leading_count :: "string list \<Rightarrow> error_t + (u32 \<times> string list)" where
  "leading_count segs =
     (if length segs > 1 then
        (case number32 (hd segs) of
           None \<Rightarrow> Inl invalid_number
         | Some count \<Rightarrow> Inr (count, tl segs))
      else Inr (5, segs))"

definition rest_headers :: "text_lib \<Rightarrow> string list \<Rightarrow> error_t + request_t" where
  "rest_headers L segs =
     (if segs = [] then Inl missing_target
      else sum_bind (leading_count segs) (\<lambda>(count, left).
        sum_bind (hash_leaf L (hd left)) (\<lambda>(media, hash).
          Inr (make_request ''block_headers''
            [''media'' \<mapsto> U8 media, ''hash'' \<mapsto> Hash hash, ''count'' \<mapsto> U32 count]))))"

definition rest_filter :: "text_lib \<Rightarrow> string list \<Rightarrow> error_t + request_t" where
  "rest_filter L segs =
     (case segs of
        [] \<Rightarrow> Inl missing_target
      | type # rest \<Rightarrow>
        if type \<noteq> ''basic'' then Inl invalid_target
        else (case rest of
           [] \<Rightarrow> Inl missing_hash
         | leaf # _ \<Rightarrow>
             sum_bind (hash_leaf L leaf) (\<lambda>(media, hash).
               Inr (make_request ''block_filter''
                 [''media'' \<mapsto> U8 media, ''hash'' \<mapsto> Hash hash, ''type'' \<mapsto> U8 0]))))"

definition rest_filter_headers :: "text_lib \<Rightarrow> string list \<Rightarrow> error_t + request_t" where
  "rest_filter_headers L segs =
     (case segs of
        [] \<Rightarrow> Inl missing_target
      | type # rest \<Rightarrow>
        if type \<noteq> ''basic'' then Inl invalid_target
        else if rest = [] then Inl missing_hash
        else sum_bind (leading_count rest) (\<lambda>(count, left).
          sum_bind (hash_leaf L (hd left)) (\<lambda>(media, hash).
            Inr (make_request ''block_filter_headers''
              [''media'' \<mapsto> U8 media, ''hash'' \<mapsto> Hash hash, ''type'' \<mapsto> U8 0,
               ''count'' \<mapsto> U32 count]))))"

text \<open>
  The outpoint loop of getutxos. The last segment is a leaf, whose extension gives the media
  value and whose name is the last outpoint; the others are outpoints as they are.
\<close>

definition outpoint_object :: "hash_digest \<Rightarrow> u32 \<Rightarrow> value_t" where
  "outpoint_object hash index = Object [''hash'' \<mapsto> Hash hash, ''index'' \<mapsto> U32 index]"

definition parse_outpoint :: "text_lib \<Rightarrow> string \<Rightarrow> error_t + value_t" where
  "parse_outpoint L token =
     (case split_text L token ''-'' False False of
        (front, [back]) \<Rightarrow>
          (case to_hash L front of
             None \<Rightarrow> Inl invalid_hash
           | Some hash \<Rightarrow>
             (case number32 back of
                None \<Rightarrow> Inl invalid_number
              | Some index \<Rightarrow> Inr (outpoint_object hash index)))
      | _ \<Rightarrow> Inl invalid_hash)"

fun utxo_loop ::
  "text_lib \<Rightarrow> string list \<Rightarrow> u8 \<Rightarrow> array_t \<Rightarrow> error_t + (u8 \<times> array_t)" where
  "utxo_loop L [] media outpoints = Inr (media, outpoints)"
| "utxo_loop L (seg # segs) media outpoints =
     (if segs = [] then
        (case split_leaf L seg of
           None \<Rightarrow> Inl invalid_target
         | Some (token, media) \<Rightarrow>
             sum_bind (parse_outpoint L token) (\<lambda>p. utxo_loop L segs media (outpoints @ [p])))
      else sum_bind (parse_outpoint L seg) (\<lambda>p. utxo_loop L segs media (outpoints @ [p])))"

definition rest_get_utxos :: "text_lib \<Rightarrow> string list \<Rightarrow> error_t + request_t" where
  "rest_get_utxos L segs =
     (case segs of
        [] \<Rightarrow> Inl missing_target
      | seg # rest \<Rightarrow>
        let pool = (seg = ''checkmempool'');
            ps = (if pool then [''mempool'' \<mapsto> Boolean True] else Map.empty);
            left = (if pool then rest else segs) in
        if left = [] then Inl missing_target
        else sum_bind (utxo_loop L left 0 []) (\<lambda>(media, outpoints).
          Inr (make_request ''get_utxos''
            (ps(''media'' \<mapsto> U8 media, ''outpoints'' \<mapsto> Array outpoints)))))"

definition rest_mempool :: "text_lib \<Rightarrow> string list \<Rightarrow> error_t + request_t" where
  "rest_mempool L segs =
     (case segs of
        [] \<Rightarrow> Inl missing_target
      | leaf # _ \<Rightarrow>
        (case split_leaf L leaf of
           None \<Rightarrow> Inl invalid_target
         | Some (name, media) \<Rightarrow>
           if media \<noteq> media_value L application_json then Inl invalid_target
           else if name = ''info'' then Inr (make_request ''mempool_information'' Map.empty)
           else if name \<noteq> ''contents'' then Inl invalid_target
           else Inr (make_request ''mempool'' Map.empty)))"

definition rest_dispatch :: "text_lib \<Rightarrow> string list \<Rightarrow> error_t + request_t" where
  "rest_dispatch L segs =
     (case segs of
        [] \<Rightarrow> Inl invalid_target
      | target # rest \<Rightarrow>
        if target = ''chaininfo'' \<or> target = ''chaininfo.json'' then
          Inr (make_request ''chain_information'' Map.empty)
        else if target = ''block'' then rest_block L rest
        else if target = ''deploymentinfo'' \<or> target = ''deploymentinfo.json'' then
          rest_deployment L target rest
        else if target = ''tx'' then rest_tx L rest
        else if target = ''blockhashbyheight'' then rest_block_hash L rest
        else if target = ''headers'' then rest_headers L rest
        else if target = ''blockfilter'' then rest_filter L rest
        else if target = ''blockfilterheaders'' then rest_filter_headers L rest
        else if target = ''getutxos'' then rest_get_utxos L rest
        else if target = ''mempool'' then rest_mempool L rest
        else if target = ''spenttxouts'' then rest_spent_tx_outputs L rest
        else if target = ''blockpart'' then rest_block_part L rest
        else Inl invalid_target)"

text \<open>An optional leading rest segment is skipped.\<close>

definition bitcoind_target :: "text_lib \<Rightarrow> string \<Rightarrow> error_t + request_t" where
  "bitcoind_target L path =
     (case path_segments L path of
        [] \<Rightarrow> Inl empty_path
      | first # rest \<Rightarrow> rest_dispatch L (if first = ''rest'' then rest else first # rest))"

subsection \<open>The published interface\<close>

text \<open>The method tuple of \<open>interfaces/bitcoind_rest.hpp\<close>.\<close>

definition bitcoind_rest_methods :: interface where
  "bitcoind_rest_methods =
     [(''block'', [(''media'', U8_type, Required), (''hash'', Hash_type, Required)]),
      (''block_hash'', [(''media'', U8_type, Required), (''height'', U32_type, Required)]),
      (''block_txs'', [(''media'', U8_type, Required), (''hash'', Hash_type, Required)]),
      (''block_headers'', [(''media'', U8_type, Required), (''hash'', Hash_type, Required),
         (''count'', U32_type, Required)]),
      (''block_part'', [(''media'', U8_type, Required), (''hash'', Hash_type, Required),
         (''offset'', U32_type, Required), (''size'', U32_type, Required)]),
      (''block_spent_tx_outputs'', [(''media'', U8_type, Required),
         (''hash'', Hash_type, Required)]),
      (''block_filter'', [(''media'', U8_type, Required), (''hash'', Hash_type, Required),
         (''type'', U8_type, Required)]),
      (''block_filter_headers'', [(''media'', U8_type, Required), (''hash'', Hash_type, Required),
         (''type'', U8_type, Required), (''count'', U32_type, Required)]),
      (''get_utxos'', [(''media'', U8_type, Required), (''outpoints'', Array_type, Required),
         (''mempool'', Bool_type, Defaulted)]),
      (''mempool'', [(''verbose'', Bool_type, Defaulted),
         (''mempool_sequence'', Bool_type, Defaulted)]),
      (''chain_information'', []),
      (''mempool_information'', []),
      (''fork_information'', [(''hash'', Hash_type, Nullable)]),
      (''tx'', [(''media'', U8_type, Required), (''hash'', Hash_type, Required)]),
      (''deployment_info'', [(''hash'', Hash_type, Nullable)])]"

subsection \<open>Lemmas\<close>

text \<open>The canonical decimal form of a number.\<close>

fun decimal :: "nat \<Rightarrow> string" where
  "decimal n = (if n < 10 then [char_of (48 + n)]
     else decimal (n div 10) @ [char_of (48 + n mod 10)])"

declare decimal.simps [simp del]

lemma digit_char: "d < 10 \<Longrightarrow> is_digit_char (char_of (48 + d)) \<and> digit_of (char_of (48 + d)) = d"
  by (simp add: is_digit_char_def digit_of_def)

lemma decimal_value_append [simp]:
  "decimal_value (s @ [c]) = 10 * decimal_value s + digit_of c"
  by (simp add: decimal_value_def)

lemma decimal_value_Nil [simp]: "decimal_value [] = 0"
  by (simp add: decimal_value_def)

lemma decimal_props:
  "decimal n \<noteq> [] \<and> list_all is_digit_char (decimal n) \<and> decimal_value (decimal n) = n \<and>
   (n \<noteq> 0 \<longrightarrow> hd (decimal n) \<noteq> CHR ''0'') \<and> (n = 0 \<longrightarrow> length (decimal n) = 1)"
proof (induction n rule: decimal.induct)
  case (1 n)
  show ?case
  proof (cases "n < 10")
    case True
    moreover have "char_of (48 + n) \<noteq> CHR ''0''" if "n \<noteq> 0"
      using digit_char [OF True] that by (auto simp: digit_of_def of_char_def)
    ultimately show ?thesis
      using digit_char [OF True] by (auto simp: decimal.simps [of n] decimal.simps [of 0] decimal_value_def)
  next
    case False
    then have "n div 10 \<noteq> 0" by simp
    with 1 False show ?thesis
      using digit_char [of "n mod 10"] by (simp add: decimal.simps [of n])
  qed
qed

lemma char_of_digit: "is_digit_char c \<Longrightarrow> digit_of c < 10 \<and> char_of (48 + digit_of c) = c"
  by (auto simp: is_digit_char_def digit_of_def)

lemma char_of_zero: "char_of (48 :: nat) = CHR ''0''"
  using char_of_char [of "CHR ''0''"] by (simp add: of_char_def)

lemma decimal_decimal_value:
  "s \<noteq> [] \<Longrightarrow> list_all is_digit_char s \<Longrightarrow> length s = 1 \<or> hd s \<noteq> CHR ''0'' \<Longrightarrow>
   decimal (decimal_value s) = s"
proof (induction s rule: rev_induct)
  case (snoc c s)
  then have c: "digit_of c < 10" "char_of (48 + digit_of c) = c"
    using char_of_digit [of c] by simp_all
  show ?case
  proof (cases "s = []")
    case True
    then show ?thesis using c by (simp add: decimal.simps decimal_value_def)
  next
    case False
    with snoc.prems have hd: "hd s \<noteq> CHR ''0''" by auto
    have IH: "decimal (decimal_value s) = s" using snoc False hd by simp
    have "decimal_value s \<noteq> 0"
    proof
      assume "decimal_value s = 0"
      with IH have "s = ''0''" by (simp add: decimal.simps char_of_zero)
      then show False using hd by simp
    qed
    then show ?thesis
      using IH c by (simp add: decimal.simps [of "10 * decimal_value s + digit_of c"])
  qed
qed simp

lemma from_chars_digits:
  "list_all is_digit_char s \<Longrightarrow> s \<noteq> [] \<Longrightarrow>
   from_chars w s = (if decimal_value s < 2 ^ w then Some (decimal_value s, []) else None)"
  by (simp add: from_chars_def list_all_iff takeWhile_eq_all_conv [THEN iffD2] dropWhile_eq_Nil_conv [THEN iffD2])

lemma to_number_iff: "to_number w s = Some n \<longleftrightarrow> n < 2 ^ w \<and> s = decimal n"
proof
  assume a: "to_number w s = Some n"
  then have s: "s \<noteq> []" "length s = 1 \<or> hd s \<noteq> CHR ''0''"
    by (auto simp: to_number_def not_less length_0_conv le_Suc_eq split: if_splits)
  from a have "dropWhile is_digit_char s = []"
    by (auto simp: to_number_def from_chars_def Let_def split: if_splits)
  then have d: "list_all is_digit_char s" by (simp add: list_all_iff)
  with a s show "n < 2 ^ w \<and> s = decimal n"
    by (auto simp: to_number_def from_chars_digits decimal_decimal_value split: if_splits)
next
  assume "n < 2 ^ w \<and> s = decimal n"
  then show "to_number w s = Some n"
    using decimal_props [of n] by (cases "n = 0") (auto simp: to_number_def from_chars_digits)
qed

subsection \<open>Properties\<close>

abbreviation rest_fits :: "request_t \<Rightarrow> bool" where
  "rest_fits \<equiv> request_fits bitcoind_rest_methods [''offset'', ''size'']"

abbreviation rest_sig :: "string \<Rightarrow> (string \<times> param_type) list \<Rightarrow> bool" where
  "rest_sig \<equiv> sig_fits bitcoind_rest_methods [''offset'', ''size'']"

abbreviation hash_methods :: "string list" where
  "hash_methods \<equiv> [''block'', ''block_txs'', ''tx'', ''block_spent_tx_outputs'', ''block_part'']"

lemma rest_sigs:
  "list_all (\<lambda>m. rest_sig m [(''media'', U8_type), (''hash'', Hash_type)]) hash_methods"
  "list_all (\<lambda>m. rest_sig m [])
     [''chain_information'', ''mempool_information'', ''mempool'', ''deployment_info'']"
  "rest_sig ''deployment_info'' [(''hash'', Hash_type)]"
  "rest_sig ''block_hash'' [(''media'', U8_type), (''height'', U32_type)]"
  "rest_sig ''block_headers'' [(''media'', U8_type), (''hash'', Hash_type), (''count'', U32_type)]"
  "rest_sig ''block_filter'' [(''media'', U8_type), (''hash'', Hash_type), (''type'', U8_type)]"
  "rest_sig ''block_filter_headers'' [(''media'', U8_type), (''hash'', Hash_type),
     (''type'', U8_type), (''count'', U32_type)]"
  "rest_sig ''get_utxos'' [(''media'', U8_type), (''outpoints'', Array_type)]"
  "rest_sig ''get_utxos'' [(''mempool'', Bool_type), (''media'', U8_type),
     (''outpoints'', Array_type)]"
  by code_simp+

lemma hash_request_fits:
  "m \<in> set hash_methods \<Longrightarrow> rest_fits (make_request m [''media'' \<mapsto> U8 media, ''hash'' \<mapsto> Hash hash])"
  by (rule sig_fits_request [OF _ typed_by_2]) (use rest_sigs(1) in \<open>auto simp: list_all_iff\<close>)

lemma rest_requests_fit [simp]:
  "rest_fits (make_request ''block'' [''media'' \<mapsto> U8 media, ''hash'' \<mapsto> Hash hash])"
  "rest_fits (make_request ''block_txs'' [''media'' \<mapsto> U8 media, ''hash'' \<mapsto> Hash hash])"
  "rest_fits (make_request ''chain_information'' Map.empty)"
  "rest_fits (make_request ''mempool_information'' Map.empty)"
  "rest_fits (make_request ''mempool'' Map.empty)"
  "rest_fits (make_request ''deployment_info'' Map.empty)"
  "rest_fits (make_request ''deployment_info'' [''hash'' \<mapsto> Hash hash])"
  "rest_fits (make_request ''block_hash'' [''media'' \<mapsto> U8 media, ''height'' \<mapsto> U32 height])"
  "rest_fits (make_request ''block_headers''
     [''media'' \<mapsto> U8 media, ''hash'' \<mapsto> Hash hash, ''count'' \<mapsto> U32 count])"
  "rest_fits (make_request ''block_filter''
     [''media'' \<mapsto> U8 media, ''hash'' \<mapsto> Hash hash, ''type'' \<mapsto> U8 type])"
  "rest_fits (make_request ''block_filter_headers''
     [''media'' \<mapsto> U8 media, ''hash'' \<mapsto> Hash hash, ''type'' \<mapsto> U8 type, ''count'' \<mapsto> U32 count])"
  "rest_fits (make_request ''get_utxos'' [''media'' \<mapsto> U8 media, ''outpoints'' \<mapsto> Array outs])"
  "rest_fits (make_request ''get_utxos''
     [''mempool'' \<mapsto> Boolean b, ''media'' \<mapsto> U8 media, ''outpoints'' \<mapsto> Array outs])"
  using rest_sigs(2)
  by (auto intro: hash_request_fits sig_fits_request [OF _ typed_by_empty]
      sig_fits_request [OF rest_sigs(3) typed_by_1] sig_fits_request [OF rest_sigs(4) typed_by_2]
      sig_fits_request [OF rest_sigs(5) typed_by_3] sig_fits_request [OF rest_sigs(6) typed_by_3]
      sig_fits_request [OF rest_sigs(7) typed_by_4] sig_fits_request [OF rest_sigs(8) typed_by_2]
      sig_fits_request [OF rest_sigs(9) typed_by_3])

lemma rest_branches_fit [simp]:
  "ok_result rest_fits (rest_block L segs)"
  "ok_result rest_fits (rest_deployment L target segs)"
  "ok_result rest_fits (rest_block_hash L segs)"
  "ok_result rest_fits (rest_headers L segs)"
  "ok_result rest_fits (rest_filter L segs)"
  "ok_result rest_fits (rest_filter_headers L segs)"
  "ok_result rest_fits (rest_get_utxos L segs)"
  "ok_result rest_fits (rest_mempool L segs)"
  by (auto simp: rest_block_def rest_deployment_def rest_block_hash_def rest_headers_def
      rest_filter_def rest_filter_headers_def rest_get_utxos_def rest_mempool_def Let_def
      intro!: ok_result_bind split: list.split option.split)

lemma rest_hash_target_fits:
  "m \<in> set hash_methods \<Longrightarrow> ok_result rest_fits (rest_hash_target L m segs)"
  by (cases segs) (auto simp: rest_hash_target_def simp del: list.set intro!: ok_result_bind
      hash_request_fits)

lemma rest_dispatch_fits: "ok_result rest_fits (rest_dispatch L segs)"
  by (simp add: rest_dispatch_def rest_tx_def rest_spent_tx_outputs_def rest_block_part_def
      rest_hash_target_fits split: list.split)

text \<open>
  C7: Every request bitcoind_target accepts can be dispatched to the published REST interface:
  the method is published, each param is declared with the type of its value, and no required
  param is missing except the offset and size of a block part, which come from the query.
\<close>

theorem bitcoind_target_fits:
  "bitcoind_target L path = Inr q \<Longrightarrow>
   request_fits bitcoind_rest_methods [''offset'', ''size''] q"
  by (auto simp: bitcoind_target_def dest: ok_resultD [OF rest_dispatch_fits] split: list.splits)

theorem bitcoind_target_fits_witness:
  "request_fits bitcoind_rest_methods [''offset'', ''size'']
     (make_request ''block_hash'' [''media'' \<mapsto> U8 1, ''height'' \<mapsto> U32 7])"
proof (rule bitcoind_target_fits)
  have "path_segments sample_lib ''/rest/blockhashbyheight/7.json'' =
      [''rest'', ''blockhashbyheight'', ''7.json'']" by code_simp
  moreover have "split_leaf sample_lib ''7.json'' = Some (''7'', 1)"
    by (simp add: split_leaf_def sample_lib_def sample_split_def to_media_def sample_media_def)
  moreover have "number32 ''7'' = Some 7"
    by (simp add: number32_def to_number_def from_chars_def is_digit_char_def of_char_def
        decimal_value_def digit_of_def)
  ultimately show "bitcoind_target sample_lib ''/rest/blockhashbyheight/7.json'' =
      Inr (make_request ''block_hash'' [''media'' \<mapsto> U8 1, ''height'' \<mapsto> U32 7])"
    by (simp add: bitcoind_target_def rest_dispatch_def rest_block_hash_def)
qed

text \<open>
  A decimal argument of a REST path (a height, a count or an output index) is accepted
  exactly when it is the canonical decimal text of a number of the width, so every number has
  one spelling and none is refused or read as another.
\<close>

theorem rest_number_canonical: "to_number w s = Some n \<longleftrightarrow> n < 2 ^ w \<and> s = decimal n"
  by (rule to_number_iff)

lemma utxo_loop_iff:
  assumes "segs \<noteq> []"
  shows "utxo_loop L segs m outs = Inr (media, outs') \<longleftrightarrow>
    (\<exists>name ps. split_leaf L (last segs) = Some (name, media) \<and>
       list_all2 (\<lambda>s p. parse_outpoint L s = Inr p) (butlast segs @ [name]) ps \<and>
       outs' = outs @ ps)"
  using assms
proof (induction L segs m outs rule: utxo_loop.induct)
  case (2 L seg segs m outs)
  show ?case
  proof (cases "segs = []")
    case True
    then show ?thesis
      by (auto simp: sum_bind_eq_Inr list_all2_Cons1 split: option.splits)
  next
    case False
    have "utxo_loop L (seg # segs) m outs = Inr (media, outs') \<longleftrightarrow>
        (\<exists>p. parse_outpoint L seg = Inr p \<and> utxo_loop L segs m (outs @ [p]) = Inr (media, outs'))"
      using False by (simp add: sum_bind_eq_Inr)
    also have "\<dots> \<longleftrightarrow> (\<exists>p name ps. parse_outpoint L seg = Inr p \<and>
        split_leaf L (last segs) = Some (name, media) \<and>
        list_all2 (\<lambda>s p. parse_outpoint L s = Inr p) (butlast segs @ [name]) ps \<and>
        outs' = outs @ p # ps)"
      using "2.IH"(2) [OF False False] by auto
    finally show ?thesis
      using False by (auto simp: list_all2_Cons1)
  qed
qed simp

text \<open>
  getutxos accepts its segments exactly when the last one is a leaf and every segment (the
  leaf by its name) is an outpoint; the request then carries the media of the leaf and one
  outpoint object per segment, in the order of the path.
\<close>

theorem get_utxos_outpoints:
  assumes "segs \<noteq> []" "hd segs \<noteq> ''checkmempool''"
  shows "rest_get_utxos L segs = Inr q \<longleftrightarrow>
    (\<exists>name media ps. split_leaf L (last segs) = Some (name, media) \<and>
       list_all2 (\<lambda>s p. parse_outpoint L s = Inr p) (butlast segs @ [name]) ps \<and>
       q = make_request ''get_utxos'' [''media'' \<mapsto> U8 media, ''outpoints'' \<mapsto> Array ps])"
proof -
  have "rest_get_utxos L segs = Inr q \<longleftrightarrow>
      (\<exists>media outs. utxo_loop L segs 0 [] = Inr (media, outs) \<and>
        q = make_request ''get_utxos'' [''media'' \<mapsto> U8 media, ''outpoints'' \<mapsto> Array outs])"
    using assms by (cases segs) (auto simp: rest_get_utxos_def sum_bind_eq_Inr)
  then show ?thesis by (auto simp: utxo_loop_iff [OF assms(1)])
qed

theorem get_utxos_outpoints_witness:
  "\<exists>ps. rest_get_utxos sample_lib
     [replicate 64 (CHR ''0'') @ ''-1'', replicate 64 (CHR ''0'') @ ''-2.json''] =
     Inr (make_request ''get_utxos'' [''media'' \<mapsto> U8 1, ''outpoints'' \<mapsto> Array ps]) \<and> length ps = 2"
proof -
  let ?z = "replicate 64 (CHR ''0'')"
  have leaf: "split_leaf sample_lib (?z @ ''-2.json'') = Some (?z @ ''-2'', 1)"
    by (simp add: split_leaf_def sample_lib_def sample_split_def to_media_def sample_media_def
        eval_nat_numeral)
  have hash: "to_hash sample_lib ?z = Some 0"
    by (simp add: to_hash_def sample_lib_def sample_base16_def hex_value_def eval_nat_numeral
        of_char_def)
  have split: "split_text sample_lib (?z @ CHR ''-'' # t) ''-'' False False = (?z, [t])"
    if "t = ''1'' \<or> t = ''2''" for t
    using that by (auto simp: sample_lib_def sample_split_def eval_nat_numeral)
  have n: "number32 ''1'' = Some 1" "number32 ''2'' = Some 2"
    by (simp_all add: number32_def to_number_def from_chars_def is_digit_char_def of_char_def
        decimal_value_def digit_of_def)
  have "parse_outpoint sample_lib (?z @ ''-1'') = Inr (outpoint_object 0 1)"
    "parse_outpoint sample_lib (?z @ ''-2'') = Inr (outpoint_object 0 2)"
    by (simp_all add: parse_outpoint_def split hash n)
  then have "rest_get_utxos sample_lib [?z @ ''-1'', ?z @ ''-2.json''] =
      Inr (make_request ''get_utxos'' [''media'' \<mapsto> U8 1,
        ''outpoints'' \<mapsto> Array [outpoint_object 0 1, outpoint_object 0 2]])"
    using leaf by (subst get_utxos_outpoints) auto
  then show ?thesis by auto
qed

end
