(* ===== verification/Merkle.thy ===== *)
theory Merkle
  imports Prelude
begin

text \<open>
  Partial merkle trees (bip37), \<open>utilities/merkle.cpp\<close>. The arithmetic and bit helpers and the
  sha256 merkle root of the system library are the fields of \<open>merkle_lib\<close>; \<open>merkle_laws\<close> states
  what their names promise. Container access by \<open>at\<close> outside the container throws inside a
  noexcept function and ends the program, so the functions that use it return \<open>None\<close> there,
  and the theorems show that they do not for the inputs of a block.
\<close>

subsection \<open>Definitions\<close>

record merkle_lib =
  ceilinged_divide :: "nat \<Rightarrow> nat \<Rightarrow> nat"
  power2 :: "nat \<Rightarrow> nat"
  merkle_root :: "hash_digest list \<Rightarrow> hash_digest"
  to_floored_bytes :: "nat \<Rightarrow> nat"
  to_ceilinged_bytes :: "nat \<Rightarrow> nat"
  get_right :: "u8 \<Rightarrow> nat \<Rightarrow> bool"
  set_right :: "u8 \<Rightarrow> nat \<Rightarrow> bool \<Rightarrow> u8"

definition merkle_laws :: "merkle_lib \<Rightarrow> bool" where
  "merkle_laws M \<longleftrightarrow>
     (\<forall>a b. 0 < b \<longrightarrow> ceilinged_divide M a b = (a + b - 1) div b) \<and>
     (\<forall>n < 64. power2 M n = 2 ^ n) \<and>
     (\<forall>n. to_floored_bytes M n = n div 8) \<and>
     (\<forall>n. to_ceilinged_bytes M n = (n + 7) div 8) \<and>
     (\<forall>b n. n < 8 \<longrightarrow> get_right M b n = bit b n) \<and>
     (\<forall>b n v. n < 8 \<longrightarrow> set_right M b n v = (if v then set_bit n b else unset_bit n b))"

definition tree_width :: "merkle_lib \<Rightarrow> nat \<Rightarrow> nat \<Rightarrow> nat" where
  "tree_width M txs height = ceilinged_divide M txs (power2 M height)"

definition node_hash :: "merkle_lib \<Rightarrow> hash_digest \<Rightarrow> hash_digest \<Rightarrow> hash_digest" where
  "node_hash M left right = merkle_root M [left, right]"

fun calc_hash :: "merkle_lib \<Rightarrow> nat \<Rightarrow> nat \<Rightarrow> hash_digest list \<Rightarrow> hash_digest option" where
  "calc_hash M 0 pos txids = (if pos < length txids then Some (txids ! pos) else None)"
| "calc_hash M (Suc height) pos txids =
     Option.bind (calc_hash M height (pos * 2) txids) (\<lambda>left.
     Option.bind
       (if pos * 2 + 1 < tree_width M (length txids) height
        then calc_hash M height (pos * 2 + 1) txids else Some left) (\<lambda>right.
     Some (node_hash M left right)))"

text \<open>Whether a leaf of the half open range is matched; reading past the matches is an abort.\<close>

definition any_match :: "bool list \<Rightarrow> nat \<Rightarrow> nat \<Rightarrow> bool option" where
  "any_match match first past =
     (if past \<le> first \<or> past \<le> length match
      then Some (list_ex (\<lambda>leaf. match ! leaf) [first..<past]) else None)"

fun traverse_build ::
  "merkle_lib \<Rightarrow> nat \<Rightarrow> nat \<Rightarrow> hash_digest list \<Rightarrow> bool list \<Rightarrow> bool list \<times> hash_digest list \<Rightarrow>
   (bool list \<times> hash_digest list) option" where
  "traverse_build M height pos txids match (bits, branch) =
     (let width = power2 M height;
          first = pos * width;
          past = min ((pos + 1) * width) (length txids) in
      Option.bind (any_match match first past) (\<lambda>parent_of_match.
      let bits = bits @ [parent_of_match] in
      (case height of
         0 \<Rightarrow> map_option (\<lambda>h. (bits, branch @ [h])) (calc_hash M height pos txids)
       | Suc lower \<Rightarrow>
           if \<not> parent_of_match then
             map_option (\<lambda>h. (bits, branch @ [h])) (calc_hash M height pos txids)
           else
             Option.bind (traverse_build M lower (pos * 2) txids match (bits, branch)) (\<lambda>built.
             if pos * 2 + 1 < tree_width M (length txids) lower
             then traverse_build M lower (pos * 2 + 1) txids match built
             else Some built))))"

record extract_state =
  bit_at :: nat
  used :: nat
  matched :: "hash_digest list"
  positions :: "nat list"
  bad :: bool

fun traverse_extract ::
  "merkle_lib \<Rightarrow> nat \<Rightarrow> nat \<Rightarrow> nat \<Rightarrow> bool list \<Rightarrow> hash_digest list \<Rightarrow> extract_state \<Rightarrow>
   hash_digest \<times> extract_state" where
  "traverse_extract M height pos txs bits branch st =
     (if bit_at st \<ge> length bits then (0, st\<lparr>bad := True\<rparr>)
      else
        let parent_of_match = bits ! bit_at st;
            st = st\<lparr>bit_at := bit_at st + 1\<rparr> in
        if height = 0 \<or> \<not> parent_of_match then
          if used st \<ge> length branch then (0, st\<lparr>bad := True\<rparr>)
          else
            let hash = branch ! used st;
                st = st\<lparr>used := used st + 1\<rparr> in
            (hash,
             if height = 0 \<and> parent_of_match
             then st\<lparr>matched := matched st @ [hash], positions := positions st @ [pos]\<rparr>
             else st)
        else
          let (left, st) = traverse_extract M (height - 1) (pos * 2) txs bits branch st in
          if pos * 2 + 1 < tree_width M txs (height - 1) then
            let (right, st) = traverse_extract M (height - 1) (pos * 2 + 1) txs bits branch st;
                st = (if right = left then st\<lparr>bad := True\<rparr> else st) in
            (node_hash M left right, st)
          else (node_hash M left left, st))"

declare traverse_build.simps [simp del] traverse_extract.simps [simp del]

definition bytes_to_bits :: "merkle_lib \<Rightarrow> u8 list \<Rightarrow> bool list" where
  "bytes_to_bits M bytes =
     map (\<lambda>b. get_right M (bytes ! to_floored_bytes M b) (b mod 8)) [0..<length bytes * 8]"

definition bits_to_bytes :: "merkle_lib \<Rightarrow> bool list \<Rightarrow> u8 list" where
  "bits_to_bytes M bits =
     fold (\<lambda>b bytes. bytes[to_floored_bytes M b :=
             set_right M (bytes ! to_floored_bytes M b) (b mod 8) (bits ! b)])
       [0..<length bits] (replicate (to_ceilinged_bytes M (length bits)) 0)"

text \<open>The loop ends at the first height whose width is at most one.\<close>

partial_function (option) tree_height_from :: "merkle_lib \<Rightarrow> nat \<Rightarrow> nat \<Rightarrow> nat option" where
  "tree_height_from M txs height =
     (if tree_width M txs height > 1 then tree_height_from M txs (height + 1) else Some height)"

definition tree_height :: "merkle_lib \<Rightarrow> nat \<Rightarrow> nat option" where
  "tree_height M txs = tree_height_from M txs 0"

definition build_partial_merkle ::
  "merkle_lib \<Rightarrow> hash_digest list \<Rightarrow> bool list \<Rightarrow> (u8 list \<times> hash_digest list) option" where
  "build_partial_merkle M txids match =
     Option.bind (tree_height M (length txids)) (\<lambda>height.
     map_option (\<lambda>(bits, branch). (bits_to_bytes M bits, branch))
       (traverse_build M height 0 txids match ([], [])))"

text \<open>\<open>None\<close> is the result false, on which the callers ignore the output arguments.\<close>

definition extract_partial_merkle ::
  "merkle_lib \<Rightarrow> nat \<Rightarrow> u8 list \<Rightarrow> hash_digest list \<Rightarrow>
   (hash_digest \<times> hash_digest list \<times> nat list) option" where
  "extract_partial_merkle M txs flags branch =
     (let bits = bytes_to_bits M flags in
      if txs = 0 \<or> length branch > txs \<or> length bits < length branch then None
      else Option.bind (tree_height M txs) (\<lambda>height.
        let (root, st) = traverse_extract M height 0 txs bits branch
              \<lparr>bit_at = 0, used = 0, matched = [], positions = [], bad = False\<rparr> in
        if \<not> bad st \<and> used st = length branch \<and>
           to_ceilinged_bytes M (bit_at st) = to_ceilinged_bytes M (length bits)
        then Some (root, matched st, positions st) else None))"

subsection \<open>Widths and the height of the tree\<close>

lemma merkle_lawsD:
  assumes "merkle_laws M"
  shows "0 < b \<Longrightarrow> ceilinged_divide M a b = (a + b - 1) div b"
    and "n < 64 \<Longrightarrow> power2 M n = 2 ^ n"
    and "to_floored_bytes M k = k div 8"
    and "to_ceilinged_bytes M k = (k + 7) div 8"
    and "n < 8 \<Longrightarrow> get_right M c n = bit c n"
    and "n < 8 \<Longrightarrow> set_right M c n v = (if v then set_bit n c else unset_bit n c)"
  using assms unfolding merkle_laws_def by simp_all

lemma less_ceiling: "0 < (w :: nat) \<Longrightarrow> pos < (n + w - 1) div w \<longleftrightarrow> pos * w < n"
proof -
  assume w: "0 < w"
  have "pos < (n + w - 1) div w \<longleftrightarrow> (pos + 1) * w \<le> n + w - 1"
    using w by (metis Suc_eq_plus1 less_eq_Suc_le less_eq_div_iff_mult_less_eq)
  also have "\<dots> \<longleftrightarrow> pos * w < n" using w by (auto simp: algebra_simps)
  finally show ?thesis .
qed

lemma tree_width_less:
  "merkle_laws M \<Longrightarrow> height < 64 \<Longrightarrow> pos < tree_width M n height \<longleftrightarrow> pos * 2 ^ height < n"
  using less_ceiling [of "2 ^ height" pos n] by (simp add: tree_width_def merkle_lawsD)

lemma tree_height_from_Some:
  assumes "merkle_laws M" "n \<le> 2 ^ 63"
  shows "height \<le> 63 \<Longrightarrow> height = 0 \<or> 2 ^ (height - 1) < n \<Longrightarrow>
    \<exists>h. tree_height_from M n height = Some h \<and> h \<le> 63 \<and> n \<le> 2 ^ h \<and> (h = 0 \<or> 2 ^ (h - 1) < n)"
proof (induction "63 - height" arbitrary: height)
  case 0
  then have "height = 63" by simp
  then have "\<not> 1 < tree_width M n height"
    using assms tree_width_less [of M height 1 n] by simp
  then show ?case
    using \<open>height = 63\<close> assms(2) "0.prems"(2) by (simp add: tree_height_from.simps [of M n])
next
  case (Suc k)
  show ?case
  proof (cases "1 < tree_width M n height")
    case True
    then have "2 ^ height < n" using assms Suc.prems tree_width_less [of M height 1 n] by simp
    moreover have "k = 63 - (height + 1)" "height + 1 \<le> 63" using Suc.hyps(2) by simp_all
    ultimately show ?thesis
      using Suc.hyps(1) [of "height + 1"] True by (simp add: tree_height_from.simps [of M n height])
  next
    case False
    then have "n \<le> 2 ^ height" using assms Suc.prems tree_width_less [of M height 1 n] by simp
    then show ?thesis using False Suc.prems by (simp add: tree_height_from.simps [of M n height])
  qed
qed

lemma tree_height_Some:
  assumes "merkle_laws M" "n \<le> 2 ^ 63"
  obtains h where "tree_height M n = Some h" "h \<le> 63" "n \<le> 2 ^ h" "h = 0 \<or> 2 ^ (h - 1) < n"
  using tree_height_from_Some [OF assms, of 0] by (auto simp: tree_height_def)

lemma calc_hash_Some:
  assumes "merkle_laws M"
  shows "height < 64 \<Longrightarrow> pos * 2 ^ height < length txids \<Longrightarrow> \<exists>h. calc_hash M height pos txids = Some h"
proof (induction height arbitrary: pos)
  case (Suc height)
  have left: "\<exists>h. calc_hash M height (pos * 2) txids = Some h"
    using Suc.prems by (intro Suc.IH) (simp_all add: mult.assoc)
  have right: "\<exists>h. calc_hash M height (pos * 2 + 1) txids = Some h"
    if "pos * 2 + 1 < tree_width M (length txids) height"
    using that Suc.prems(1) by (intro Suc.IH) (simp_all add: tree_width_less [OF assms])
  show ?case using left right by auto
qed simp

subsection \<open>What the traversals write and read\<close>

text \<open>
  The matched leaves below a node, and the flag bits and hashes that the depth first build
  emits for it. The extraction reads the same lists back.
\<close>

definition hits :: "bool list \<Rightarrow> nat \<Rightarrow> nat \<Rightarrow> nat list" where
  "hits match height pos =
     filter (\<lambda>i. match ! i) [pos * 2 ^ height..<min ((pos + 1) * 2 ^ height) (length match)]"

fun emit_bits :: "bool list \<Rightarrow> nat \<Rightarrow> nat \<Rightarrow> bool list" where
  "emit_bits match 0 pos = [hits match 0 pos \<noteq> []]"
| "emit_bits match (Suc h) pos =
     (if hits match (Suc h) pos = [] then [False]
      else True # emit_bits match h (pos * 2) @
        (if (pos * 2 + 1) * 2 ^ h < length match then emit_bits match h (pos * 2 + 1) else []))"

fun emit_hashes :: "(nat \<Rightarrow> nat \<Rightarrow> hash_digest) \<Rightarrow> bool list \<Rightarrow> nat \<Rightarrow> nat \<Rightarrow> hash_digest list" where
  "emit_hashes node match 0 pos = [node 0 pos]"
| "emit_hashes node match (Suc h) pos =
     (if hits match (Suc h) pos = [] then [node (Suc h) pos]
      else emit_hashes node match h (pos * 2) @
        (if (pos * 2 + 1) * 2 ^ h < length match then emit_hashes node match h (pos * 2 + 1)
         else []))"

lemma hits_split:
  assumes "pos * 2 ^ Suc h < length match"
  shows "hits match (Suc h) pos = hits match h (pos * 2) @
    (if (pos * 2 + 1) * 2 ^ h < length match then hits match h (pos * 2 + 1) else [])"
proof -
  let ?n = "length match" and ?a = "pos * 2 * 2 ^ h" and ?b = "(pos * 2 + 1) * 2 ^ h"
    and ?c = "(pos * 2 + 2) * 2 ^ h"
  have eq: "pos * 2 ^ Suc h = ?a" "(pos + 1) * 2 ^ Suc h = ?c" "(pos * 2 + 1 + 1) * 2 ^ h = ?c"
    by (simp_all add: algebra_simps)
  have le: "?a \<le> ?b" "?b \<le> ?c" by (simp_all add: algebra_simps)
  show ?thesis
  proof (cases "?b < ?n")
    case True
    then have "[?a..<min ?c ?n] = [?a..<min ?b ?n] @ [?b..<min ?c ?n]"
      using le upt_split [of ?a ?b "min ?c ?n"] by (simp add: min_def)
    then show ?thesis using True by (simp only: hits_def eq filter_append if_True)
  next
    case False
    then have "min ?c ?n = min ?b ?n" using le by auto
    then show ?thesis using False by (simp only: hits_def eq if_False append_Nil2)
  qed
qed

lemma any_match_hits:
  "any_match match (pos * 2 ^ h) (min ((pos + 1) * 2 ^ h) (length match)) =
     Some (hits match h pos \<noteq> [])"
  by (auto simp: any_match_def hits_def list_ex_iff filter_empty_conv)

lemma traverse_build_emits:
  assumes "merkle_laws M" "length match = length txids"
  defines "node \<equiv> \<lambda>h pos. the (calc_hash M h pos txids)"
  shows "h < 64 \<Longrightarrow> pos * 2 ^ h < length txids \<Longrightarrow>
    traverse_build M h pos txids match (bits, branch) =
      Some (bits @ emit_bits match h pos, branch @ emit_hashes node match h pos)"
proof (induction h arbitrary: pos bits branch)
  case 0
  then have "any_match match pos (Suc pos) = Some (hits match 0 pos \<noteq> [])"
    using any_match_hits [of match pos 0] assms(2) by (simp add: min_def)
  then show ?case using 0 assms by (simp add: traverse_build.simps merkle_lawsD)
next
  case (Suc h)
  have calc: "calc_hash M (Suc h) pos txids = Some (node (Suc h) pos)"
    using calc_hash_Some [OF assms(1) Suc.prems] by (auto simp: node_def)
  have left: "traverse_build M h (pos * 2) txids match (b, c) =
      Some (b @ emit_bits match h (pos * 2), c @ emit_hashes node match h (pos * 2))" for b c
    using Suc.prems by (intro Suc.IH) (simp_all add: mult.assoc)
  have right: "traverse_build M h (pos * 2 + 1) txids match (b, c) =
      Some (b @ emit_bits match h (pos * 2 + 1), c @ emit_hashes node match h (pos * 2 + 1))"
    if "(pos * 2 + 1) * 2 ^ h < length txids" for b c
    using that Suc.prems(1) by (intro Suc.IH) simp_all
  have any: "any_match match (pos * power2 M (Suc h))
      (min (power2 M (Suc h) + pos * power2 M (Suc h)) (length txids)) =
      Some (hits match (Suc h) pos \<noteq> [])"
    using any_match_hits [of match pos "Suc h"] assms(2) Suc.prems(1)
    by (simp add: merkle_lawsD(2) [OF assms(1)])
  show ?case
    using Suc.prems(1)
    by (simp add: traverse_build.simps [of M "Suc h"] any calc left
        right [simplified] assms(2) tree_width_less [OF assms(1)] Let_def del: calc_hash.simps)
qed

subsection \<open>The extraction reads what the build wrote\<close>

text \<open>No two sibling subtrees have the same hash, the condition the extraction tests (bip37).\<close>

definition siblings_differ :: "merkle_lib \<Rightarrow> hash_digest list \<Rightarrow> bool" where
  "siblings_differ M txids \<longleftrightarrow>
     (\<forall>h < 64. \<forall>pos. (pos * 2 + 1) * 2 ^ h < length txids \<longrightarrow>
        calc_hash M h (pos * 2) txids \<noteq> calc_hash M h (pos * 2 + 1) txids)"

lemma siblings_differD:
  "siblings_differ M txids \<Longrightarrow> h < 64 \<Longrightarrow> (pos * 2 + 1) * 2 ^ h < length txids \<Longrightarrow>
     calc_hash M h (pos * 2) txids \<noteq> calc_hash M h (pos * 2 + 1) txids"
  unfolding siblings_differ_def by blast

lemma hits_leaf:
  "pos < length match \<Longrightarrow> hits match 0 pos = (if match ! pos then [pos] else [])"
  by (simp add: hits_def min_def)

lemma hits_bound: "i \<in> set (hits match h pos) \<Longrightarrow> i < length match \<and> match ! i"
  by (auto simp: hits_def)

text \<open>The state after the subtree of a node has been read.\<close>

definition advance :: "nat \<Rightarrow> nat \<Rightarrow> hash_digest list \<Rightarrow> nat list \<Rightarrow> extract_state \<Rightarrow> extract_state" where
  "advance nb nh ms ps st = st\<lparr>bit_at := bit_at st + nb, used := used st + nh,
     matched := matched st @ ms, positions := positions st @ ps\<rparr>"

lemma advance_simps [simp]:
  "bit_at (advance nb nh ms ps st) = bit_at st + nb"
  "used (advance nb nh ms ps st) = used st + nh"
  "matched (advance nb nh ms ps st) = matched st @ ms"
  "positions (advance nb nh ms ps st) = positions st @ ps"
  "bad (advance nb nh ms ps st) = bad st"
  "advance nb nh ms ps (advance nb' nh' ms' ps' st) =
     advance (nb' + nb) (nh' + nh) (ms' @ ms) (ps' @ ps) st"
  by (simp_all add: advance_def)

definition reads :: "'a list \<Rightarrow> nat \<Rightarrow> 'a list \<Rightarrow> bool" where
  "reads xs at ys \<longleftrightarrow> take (length ys) (drop at xs) = ys"

lemma reads_Cons:
  "reads xs at (y # ys) \<longleftrightarrow> at < length xs \<and> xs ! at = y \<and> reads xs (at + 1) ys"
  by (cases "at < length xs") (auto simp: reads_def Cons_nth_drop_Suc [symmetric])

lemma reads_Nil [simp]: "reads xs at []"
  by (simp add: reads_def)

lemma reads_append:
  "reads xs at (ys @ zs) \<longleftrightarrow> reads xs at ys \<and> reads xs (at + length ys) zs"
  by (induction ys arbitrary: at) (auto simp: reads_Cons)

lemma extract_descend:
  "bit_at st < length bits \<Longrightarrow> bits ! bit_at st \<Longrightarrow>
   traverse_extract M (Suc h) pos txs bits branch st =
     (let (left, st1) = traverse_extract M h (pos * 2) txs bits branch (advance 1 0 [] [] st) in
      if pos * 2 + 1 < tree_width M txs h then
        let (right, st2) = traverse_extract M h (pos * 2 + 1) txs bits branch st1 in
        (node_hash M left right, if right = left then st2\<lparr>bad := True\<rparr> else st2)
      else (node_hash M left left, st1))"
  by (simp add: traverse_extract.simps [of M "Suc h"] advance_def Let_def split: prod.split)

lemma traverse_extract_reads:
  assumes "merkle_laws M" "length match = length txids" "siblings_differ M txids"
  defines "node \<equiv> \<lambda>h pos. the (calc_hash M h pos txids)"
  shows "h < 64 \<Longrightarrow> pos * 2 ^ h < length txids \<Longrightarrow>
    reads bits (bit_at st) (emit_bits match h pos) \<Longrightarrow>
    reads branch (used st) (emit_hashes node match h pos) \<Longrightarrow>
    traverse_extract M h pos (length txids) bits branch st =
      (node h pos, advance (length (emit_bits match h pos)) (length (emit_hashes node match h pos))
         (map ((!) txids) (hits match h pos)) (hits match h pos) st)"
proof (induction h arbitrary: pos st)
  case 0
  then show ?case
    using assms(2) by (auto simp: traverse_extract.simps reads_Cons hits_leaf node_def advance_def
        Let_def)
next
  case (Suc h)
  show ?case
  proof (cases "hits match (Suc h) pos = []")
    case True
    then show ?thesis
      using Suc.prems by (simp add: traverse_extract.simps [of M "Suc h"] reads_Cons advance_def)
  next
    case False
    let ?B = "\<lambda>p. emit_bits match h p" and ?H = "\<lambda>p. emit_hashes node match h p"
    let ?adv = "\<lambda>p. advance (length (?B p)) (length (?H p)) (map ((!) txids) (hits match h p))
      (hits match h p)"
    let ?st = "advance 1 0 [] [] st"
    let ?both = "(pos * 2 + 1) * 2 ^ h < length txids"
    have bits: "bit_at st < length bits" "bits ! bit_at st"
      "reads bits (bit_at ?st) (?B (pos * 2))"
      "?both \<Longrightarrow> reads bits (bit_at (?adv (pos * 2) ?st)) (?B (pos * 2 + 1))"
      using Suc.prems(3) False assms(2) by (simp_all add: reads_Cons reads_append add_ac)
    have hashes: "reads branch (used ?st) (?H (pos * 2))"
      "?both \<Longrightarrow> reads branch (used (?adv (pos * 2) ?st)) (?H (pos * 2 + 1))"
      using Suc.prems(4) False assms(2) by (simp_all add: reads_append add_ac)
    have left: "traverse_extract M h (pos * 2) (length txids) bits branch ?st =
        (node h (pos * 2), ?adv (pos * 2) ?st)"
      using Suc.prems bits(3) hashes(1) by (intro Suc.IH) (simp_all add: mult.assoc)
    have right: "traverse_extract M h (pos * 2 + 1) (length txids) bits branch (?adv (pos * 2) ?st) =
        (node h (pos * 2 + 1), ?adv (pos * 2 + 1) (?adv (pos * 2) ?st))" if ?both
      using that Suc.prems bits(4) hashes(2) by (intro Suc.IH) simp_all
    have emit: "emit_bits match (Suc h) pos =
        True # ?B (pos * 2) @ (if ?both then ?B (pos * 2 + 1) else [])"
      "emit_hashes node match (Suc h) pos =
        ?H (pos * 2) @ (if ?both then ?H (pos * 2 + 1) else [])"
      using False assms(2) by simp_all
    have hits: "hits match (Suc h) pos = hits match h (pos * 2) @
        (if ?both then hits match h (pos * 2 + 1) else [])"
      using hits_split [of pos h match] Suc.prems(2) assms(2) by simp
    obtain l where l: "calc_hash M h (pos * 2) txids = Some l"
      using calc_hash_Some [OF assms(1), of h "pos * 2" txids] Suc.prems by (auto simp: mult.assoc)
    have tw: "pos * 2 + 1 < tree_width M (length txids) h \<longleftrightarrow> ?both"
      using Suc.prems(1) by (simp add: tree_width_less [OF assms(1)])
    have node: "node (Suc h) pos =
        node_hash M (node h (pos * 2)) (node h (if ?both then pos * 2 + 1 else pos * 2))"
      using l tw calc_hash_Some [OF assms(1), of h "pos * 2 + 1" txids] Suc.prems(1)
      by (auto simp: node_def)
    show ?thesis
    proof (cases ?both)
      case True
      obtain r where r: "calc_hash M h (pos * 2 + 1) txids = Some r"
        using calc_hash_Some [OF assms(1), of h "pos * 2 + 1" txids] Suc.prems True by auto
      have "calc_hash M h (pos * 2) txids \<noteq> calc_hash M h (pos * 2 + 1) txids"
        using siblings_differD [OF assms(3) _ True] Suc.prems(1) by simp
      then have "l \<noteq> r" using l r by simp
      then show ?thesis
        unfolding extract_descend [OF bits(1,2)] left emit hits node
        using True right [OF True] l r tw by (simp add: node_def)
    next
      case one: False
      then show ?thesis
        unfolding extract_descend [OF bits(1,2)] left emit hits node
        using l tw by (simp add: node_def)
    qed
  qed
qed

lemma length_emit_hashes:
  "pos * 2 ^ h < length match \<Longrightarrow>
     length (emit_hashes node match h pos) + pos * 2 ^ h \<le> length match"
  "length (emit_hashes node match h pos) \<le> length (emit_bits match h pos)"
  "emit_hashes node match h pos \<noteq> []"
proof -
  have bound: "pos * 2 ^ h < length match \<Longrightarrow> length (emit_hashes node match h pos) + pos * 2 ^ h
      \<le> min ((pos + 1) * 2 ^ h) (length match)" for h pos
  proof (induction h arbitrary: pos)
    case (Suc h)
    define w q :: nat where "w = 2 ^ h" and "q = pos * 2 ^ h"
    have w: "0 < w" by (simp add: w_def)
    have eq: "pos * 2 ^ Suc h = 2 * q" "(pos + 1) * 2 ^ Suc h = 2 * q + 2 * w"
      "pos * 2 * 2 ^ h = 2 * q" "(pos * 2 + 1) * 2 ^ h = 2 * q + w"
      "(pos * 2 + 1 + 1) * 2 ^ h = 2 * q + 2 * w"
      by (simp_all add: w_def q_def algebra_simps)
    show ?case
      using Suc.IH [of "pos * 2"] Suc.IH [of "pos * 2 + 1"] Suc.prems w
      unfolding emit_hashes.simps eq
      by (cases "hits match (Suc h) pos = []"; cases "2 * q + w < length match")
        (simp_all del: One_nat_def add_Suc_right)
  qed simp
  show "pos * 2 ^ h < length match \<Longrightarrow>
      length (emit_hashes node match h pos) + pos * 2 ^ h \<le> length match"
    using bound by force
  show "length (emit_hashes node match h pos) \<le> length (emit_bits match h pos)"
    by (induction h arbitrary: pos) (auto intro: le_SucI add_mono)
  show "emit_hashes node match h pos \<noteq> []"
    by (induction h arbitrary: pos) auto
qed

subsection \<open>Flag bits in bytes\<close>

lemma bits_to_bytes_prefix:
  assumes "merkle_laws M" "k \<le> length bits"
  defines "bytes \<equiv> fold (\<lambda>b bytes. bytes[to_floored_bytes M b :=
             set_right M (bytes ! to_floored_bytes M b) (b mod 8) (bits ! b)])
       [0..<k] (replicate (to_ceilinged_bytes M (length bits)) 0)"
  shows "length bytes = (length bits + 7) div 8"
    and "b < length bytes * 8 \<Longrightarrow> bit (bytes ! (b div 8)) (b mod 8) = (b < k \<and> bits ! b)"
proof -
  let ?f = "\<lambda>b bytes. bytes[to_floored_bytes M b :=
             set_right M (bytes ! to_floored_bytes M b) (b mod 8) (bits ! b)]"
  have "length (fold ?f [0..<k] (replicate (to_ceilinged_bytes M (length bits)) 0)) =
      (length bits + 7) div 8 \<and> (\<forall>b < (length bits + 7) div 8 * 8.
        bit (fold ?f [0..<k] (replicate (to_ceilinged_bytes M (length bits)) 0) ! (b div 8)) (b mod 8)
        = (b < k \<and> bits ! b))" using assms(2)
  proof (induction k)
    case 0
    then show ?case by (auto simp: merkle_lawsD [OF assms(1)] less_mult_imp_div_less)
  next
    case (Suc k)
    then have k: "k div 8 < (length bits + 7) div 8" by linarith
    have b: "b div 8 < (length bits + 7) div 8" if "b < (length bits + 7) div 8 * 8" for b
      using that by (simp add: less_mult_imp_div_less)
    show ?case
    proof (intro conjI allI impI)
      fix b assume bb: "b < (length bits + 7) div 8 * 8"
      have "b = k \<longleftrightarrow> b div 8 = k div 8 \<and> b mod 8 = k mod 8"
        by (metis div_mult_mod_eq)
      then show "bit (fold ?f [0..<Suc k] (replicate (to_ceilinged_bytes M (length bits)) 0) ! (b div 8))
          (b mod 8) = (b < Suc k \<and> bits ! b)"
        using Suc k b [OF bb] bb
        by (auto simp: merkle_lawsD [OF assms(1)] nth_list_update bit_set_bit_iff
            bit_unset_bit_iff less_Suc_eq)
    qed (use Suc in simp)
  qed
  then show "length bytes = (length bits + 7) div 8"
    and "b < length bytes * 8 \<Longrightarrow> bit (bytes ! (b div 8)) (b mod 8) = (b < k \<and> bits ! b)"
    by (simp_all add: bytes_def)
qed

lemma bytes_to_bits_to_bytes:
  assumes "merkle_laws M"
  shows "bytes_to_bits M (bits_to_bytes M bits) =
    bits @ replicate ((length bits + 7) div 8 * 8 - length bits) False"
proof (rule nth_equalityI)
  have le: "length bits \<le> (length bits + 7) div 8 * 8" by linarith
  have len: "length (bits_to_bytes M bits) = (length bits + 7) div 8"
    using bits_to_bytes_prefix(1) [OF assms, of "length bits" bits] by (simp add: bits_to_bytes_def)
  then show "length (bytes_to_bits M (bits_to_bytes M bits)) =
      length (bits @ replicate ((length bits + 7) div 8 * 8 - length bits) False)"
    using le by (simp add: bytes_to_bits_def)
  fix i assume "i < length (bytes_to_bits M (bits_to_bytes M bits))"
  then have i: "i < (length bits + 7) div 8 * 8" by (simp add: bytes_to_bits_def len)
  have "bytes_to_bits M (bits_to_bytes M bits) ! i = (i < length bits \<and> bits ! i)"
    using bits_to_bytes_prefix(2) [OF assms, of "length bits" bits i, folded bits_to_bytes_def] i len
    by (simp add: bytes_to_bits_def merkle_lawsD [OF assms])
  then show "bytes_to_bits M (bits_to_bytes M bits) ! i =
      (bits @ replicate ((length bits + 7) div 8 * 8 - length bits) False) ! i"
    using i by (auto simp: nth_append)
qed

subsection \<open>The round trip\<close>

lemma hits_root: "length match \<le> 2 ^ h \<Longrightarrow> hits match h 0 = filter ((!) match) [0..<length match]"
  by (simp add: hits_def min_def)

definition sample_merkle :: merkle_lib where
  "sample_merkle = \<lparr>ceilinged_divide = (\<lambda>a b. (a + b - 1) div b), power2 = (\<lambda>n. 2 ^ n),
     merkle_root = (\<lambda>hs. case hs of [l, r] \<Rightarrow> 3 * l + 5 * r + 1 | _ \<Rightarrow> 0),
     to_floored_bytes = (\<lambda>n. n div 8), to_ceilinged_bytes = (\<lambda>n. (n + 7) div 8),
     get_right = bit, set_right = (\<lambda>b n v. if v then set_bit n b else unset_bit n b)\<rparr>"

lemma sample_merkle_laws [simp]: "merkle_laws sample_merkle"
  by (simp add: merkle_laws_def sample_merkle_def)

lemma sample_siblings_differ: "siblings_differ sample_merkle [1, 2, 4]"
  unfolding siblings_differ_def
proof (intro allI impI)
  fix h pos :: nat
  assume *: "(pos * 2 + 1) * 2 ^ h < length [1, 2, 4 :: hash_digest]"
  have pow: "1 \<le> (2 :: nat) ^ h" by simp
  have "pos = 0"
  proof (rule ccontr)
    assume "pos \<noteq> 0"
    then have "3 * 1 \<le> (pos * 2 + 1) * 2 ^ h" using pow by (intro mult_le_mono) auto
    then show False using * by simp
  qed
  moreover have "h < 2"
  proof (rule ccontr)
    assume "\<not> h < 2"
    then have "(2 :: nat) ^ 2 \<le> 2 ^ h" by (intro power_increasing) auto
    then have "1 * 4 \<le> (pos * 2 + 1) * 2 ^ h" by (intro mult_le_mono) auto
    then show False using * by simp
  qed
  ultimately show "calc_hash sample_merkle h (pos * 2) [1, 2, 4] \<noteq>
      calc_hash sample_merkle h (pos * 2 + 1) [1, 2, 4]"
    by (auto simp: node_hash_def tree_width_def sample_merkle_def less_2_cases_iff)
qed

lemma merkle_round_trip:
  assumes "merkle_laws M" "txids \<noteq> []" "length txids \<le> 2 ^ 63" "length match = length txids"
    "siblings_differ M txids"
  shows "\<exists>height root flags branch.
    tree_height M (length txids) = Some height \<and>
    calc_hash M height 0 txids = Some root \<and>
    build_partial_merkle M txids match = Some (flags, branch) \<and>
    extract_partial_merkle M (length txids) flags branch =
      Some (root, map ((!) txids) (filter ((!) match) [0..<length txids]),
        filter ((!) match) [0..<length txids])"
proof -
  obtain h where h: "tree_height M (length txids) = Some h" "h \<le> 63" "length txids \<le> 2 ^ h"
    using tree_height_Some [OF assms(1,3)] .
  obtain root where root: "calc_hash M h 0 txids = Some root"
    using calc_hash_Some [OF assms(1), of h 0 txids] h(2) assms(2) by auto
  define bits where "bits = emit_bits match h 0"
  define branch where "branch = emit_hashes (\<lambda>h pos. the (calc_hash M h pos txids)) match h 0"
  define pad where "pad = replicate ((length bits + 7) div 8 * 8 - length bits) False"
  have build: "build_partial_merkle M txids match = Some (bits_to_bytes M bits, branch)"
    using traverse_build_emits [OF assms(1,4), of h 0 "[]" "[]"] h assms(2)
    by (simp add: build_partial_merkle_def bits_def branch_def)
  have padded: "bytes_to_bits M (bits_to_bytes M bits) = bits @ pad"
    using bytes_to_bits_to_bytes [OF assms(1)] by (simp add: pad_def)
  let ?ps = "filter ((!) match) [0..<length txids]"
  have "reads (bits @ pad) 0 bits" "reads branch 0 branch" by (simp_all add: reads_def)
  then have run: "traverse_extract M h 0 (length txids) (bits @ pad) branch
      \<lparr>bit_at = 0, used = 0, matched = [], positions = [], bad = False\<rparr> =
      (root, advance (length bits) (length branch) (map ((!) txids) ?ps) ?ps
        \<lparr>bit_at = 0, used = 0, matched = [], positions = [], bad = False\<rparr>)"
    using traverse_extract_reads [OF assms(1,4,5), of h 0 "bits @ pad"
        "\<lparr>bit_at = 0, used = 0, matched = [], positions = [], bad = False\<rparr>" branch]
      h assms(2,4) root hits_root [of match h] by (simp add: bits_def branch_def)
  have len: "length branch \<le> length txids" "length branch \<le> length bits"
    using length_emit_hashes(1) [where pos = 0 and h = h and match = match]
      length_emit_hashes(2) [where pos = 0 and h = h and match = match] assms(2,4)
    by (simp_all add: branch_def bits_def)
  have "(length (bits @ pad) + 7) div 8 = (length bits + 7) div 8"
    by (simp add: pad_def)
  then have "extract_partial_merkle M (length txids) (bits_to_bytes M bits) branch =
      Some (root, map ((!) txids) ?ps, ?ps)"
    using assms(2) len padded run h(1)
    by (simp add: extract_partial_merkle_def merkle_lawsD [OF assms(1)])
  with h(1) root build show ?thesis by blast
qed

text \<open>
  C1: Extraction inverts the build. For the transaction hashes of a non-empty block and one
  match flag per transaction, building the partial merkle tree returns, and extracting from
  its flags and branch succeeds with the merkle root of the block, the positions of exactly the
  matched transactions in block order, and their hashes. The block must not contain two
  identical sibling subtrees, which the extraction rejects by design.
\<close>

theorem partial_merkle_round_trip:
  assumes "merkle_laws M" "txids \<noteq> []" "length txids \<le> 2 ^ 63" "length match = length txids"
    "siblings_differ M txids"
  shows "\<exists>height root flags branch.
    tree_height M (length txids) = Some height \<and>
    calc_hash M height 0 txids = Some root \<and>
    build_partial_merkle M txids match = Some (flags, branch) \<and>
    extract_partial_merkle M (length txids) flags branch =
      Some (root, map ((!) txids) (filter ((!) match) [0..<length txids]),
        filter ((!) match) [0..<length txids])"
  by (rule merkle_round_trip [OF assms])

theorem partial_merkle_round_trip_witness:
  "\<exists>height root flags branch.
    tree_height sample_merkle 3 = Some height \<and>
    calc_hash sample_merkle height 0 [1, 2, 4] = Some root \<and>
    build_partial_merkle sample_merkle [1, 2, 4] [False, True, False] = Some (flags, branch) \<and>
    extract_partial_merkle sample_merkle 3 flags branch = Some (root, [2], [1])"
  using partial_merkle_round_trip [of sample_merkle "[1, 2, 4]" "[False, True, False]"]
    sample_siblings_differ by (simp add: upt_rec numeral_3_eq_3)

subsection \<open>What an extraction proves\<close>

text \<open>
  The part of the output a traversal of the node at \<open>h\<close>, \<open>pos\<close> adds: positions of leaves below the
  node in increasing order with one hash each, taken from the branch.
\<close>

definition adds ::
  "nat \<Rightarrow> hash_digest list \<Rightarrow> nat \<Rightarrow> nat \<Rightarrow> hash_digest list \<Rightarrow> nat list \<Rightarrow>
   extract_state \<Rightarrow> extract_state \<Rightarrow> bool" where
  "adds txs branch lo hi ms ps st st' \<longleftrightarrow>
     matched st' = matched st @ ms \<and> positions st' = positions st @ ps \<and>
     length ms = length ps \<and> set ms \<subseteq> set branch \<and> sorted_wrt (<) ps \<and>
     (\<forall>p \<in> set ps. lo \<le> p \<and> p < hi \<and> p < txs) \<and> (bad st \<longrightarrow> bad st')"

lemma adds_append:
  "adds txs branch lo mid ms ps st st' \<Longrightarrow> adds txs branch mid hi ms' ps' st' st'' \<Longrightarrow>
   lo \<le> mid \<Longrightarrow> mid \<le> hi \<Longrightarrow> adds txs branch lo hi (ms @ ms') (ps @ ps') st st''"
  by (fastforce simp: adds_def sorted_wrt_append)

lemma adds_mono:
  "adds txs branch lo mid ms ps st st' \<Longrightarrow> mid \<le> hi \<Longrightarrow> adds txs branch lo hi ms ps st st'"
  by (fastforce simp: adds_def)

lemma adds_bad: "adds txs branch lo hi ms ps st st' \<Longrightarrow> adds txs branch lo hi ms ps st (st'\<lparr>bad := True\<rparr>)"
  by (simp add: adds_def)

lemma adds_step: "adds txs branch lo hi ms ps (advance nb nh [] [] st) st' = adds txs branch lo hi ms ps st st'"
  by (simp add: adds_def)

text \<open>No pair of hashes other than the children of a node of the tree hashes to that node.\<close>

definition no_second_preimage :: "merkle_lib \<Rightarrow> hash_digest list \<Rightarrow> bool" where
  "no_second_preimage M txids \<longleftrightarrow>
     (\<forall>h pos x y. 2 ^ h < length txids \<longrightarrow> pos * 2 ^ Suc h < length txids \<longrightarrow>
        calc_hash M (Suc h) pos txids = Some (node_hash M x y) \<longrightarrow>
        calc_hash M h (pos * 2) txids = Some x \<and>
        ((pos * 2 + 1) * 2 ^ h < length txids \<longrightarrow> calc_hash M h (pos * 2 + 1) txids = Some y))"

lemma no_second_preimageD:
  "no_second_preimage M txids \<Longrightarrow> 2 ^ h < length txids \<Longrightarrow> pos * 2 ^ Suc h < length txids \<Longrightarrow>
   calc_hash M (Suc h) pos txids = Some (node_hash M x y) \<Longrightarrow>
   calc_hash M h (pos * 2) txids = Some x \<and>
   ((pos * 2 + 1) * 2 ^ h < length txids \<longrightarrow> calc_hash M h (pos * 2 + 1) txids = Some y)"
  unfolding no_second_preimage_def by blast

lemma extract_stop:
  assumes "h = 0 \<or> bit_at st \<ge> length bits \<or> \<not> bits ! bit_at st" "pos * 2 ^ h < txs"
    "traverse_extract M h pos txs bits branch st = (hash, st')"
  shows "\<exists>ms ps. adds txs branch (pos * 2 ^ h) ((pos + 1) * 2 ^ h) ms ps st st' \<and>
    (\<not> bad st' \<longrightarrow> ms = map (\<lambda>_. hash) ps \<and> (h > 0 \<longrightarrow> ps = []))"
proof (cases "h = 0 \<and> bit_at st < length bits \<and> bits ! bit_at st \<and> used st < length branch")
  case True
  then show ?thesis using assms
    by (intro exI [of _ "[hash]"] exI [of _ "[pos]"])
      (auto simp: traverse_extract.simps [of M 0] adds_def Let_def)
next
  case False
  then show ?thesis using assms
    by (intro exI [of _ "[]"])
      (auto simp: traverse_extract.simps [of M h] adds_def Let_def split: if_splits)
qed

lemma traverse_extract_adds:
  "traverse_extract M h pos txs bits branch st = (hash, st') \<Longrightarrow> merkle_laws M \<Longrightarrow> h < 64 \<Longrightarrow>
   pos * 2 ^ h < txs \<Longrightarrow> h = 0 \<or> 2 ^ (h - 1) < txs \<Longrightarrow>
   \<exists>ms ps. adds txs branch (pos * 2 ^ h) ((pos + 1) * 2 ^ h) ms ps st st' \<and>
     (\<forall>txids. length txids = txs \<longrightarrow> no_second_preimage M txids \<longrightarrow> \<not> bad st' \<longrightarrow>
       calc_hash M h pos txids = Some hash \<longrightarrow> ms = map ((!) txids) ps)"
proof (induction h arbitrary: pos st hash st')
  case 0
  obtain ms ps where *: "adds txs branch pos (pos + 1) ms ps st st'"
    "\<not> bad st' \<longrightarrow> ms = map (\<lambda>_. hash) ps"
    using extract_stop [OF _ _ 0(1)] 0 by auto
  then have "p = pos" if "p \<in> set ps" for p using that by (force simp: adds_def)
  with * show ?case by (intro exI [of _ ms] exI [of _ ps]) (auto split: if_splits)
next
  case (Suc h)
  show ?case
  proof (cases "bit_at st \<ge> length bits \<or> \<not> bits ! bit_at st")
    case True
    then show ?thesis using extract_stop [OF _ Suc.prems(4,1)] by fastforce
  next
    case False
    let ?both = "(pos * 2 + 1) * 2 ^ h < txs"
    have less: "2 ^ h < txs" using Suc.prems(5) by simp
    have lower: "h = 0 \<or> 2 ^ (h - 1) < txs"
      using less le_less_trans [OF power_increasing [of "h - 1" h "2 :: nat"]] by auto
    have eq: "pos * 2 ^ Suc h = pos * 2 * 2 ^ h" "(pos + 1) * 2 ^ Suc h = (pos * 2 + 1 + 1) * 2 ^ h"
      by (simp_all add: algebra_simps)
    have le: "pos * 2 * 2 ^ h \<le> (pos * 2 + 1) * 2 ^ h" "(pos * 2 + 1) * 2 ^ h \<le> (pos * 2 + 1 + 1) * 2 ^ h"
      by simp_all
    obtain left st1 where left: "traverse_extract M h (pos * 2) txs bits branch (advance 1 0 [] [] st) =
        (left, st1)" by fastforce
    obtain ms1 ps1 where l: "adds txs branch (pos * 2 * 2 ^ h) ((pos * 2 + 1) * 2 ^ h) ms1 ps1 st st1"
      "\<And>txids. length txids = txs \<Longrightarrow> no_second_preimage M txids \<Longrightarrow> \<not> bad st1 \<Longrightarrow>
        calc_hash M h (pos * 2) txids = Some left \<Longrightarrow> ms1 = map ((!) txids) ps1"
      using Suc.IH [OF left Suc.prems(2) _ _ lower] Suc.prems(3,4) eq(1) unfolding adds_step by auto
    have tw: "pos * 2 + 1 < tree_width M txs h \<longleftrightarrow> ?both"
      using Suc.prems(2,3) by (simp add: tree_width_less)
    have run: "traverse_extract M (Suc h) pos txs bits branch st = (hash, st')" by (rule Suc.prems(1))
    show ?thesis
    proof (cases ?both)
      case True
      obtain right st2 where right:
        "traverse_extract M h (pos * 2 + 1) txs bits branch st1 = (right, st2)" by fastforce
      have hash: "hash = node_hash M left right" "st' = (if right = left then st2\<lparr>bad := True\<rparr> else st2)"
        using run extract_descend [of st bits M h pos txs branch] False tw True left right by auto
      obtain ms2 ps2 where r:
        "adds txs branch ((pos * 2 + 1) * 2 ^ h) ((pos * 2 + 1 + 1) * 2 ^ h) ms2 ps2 st1 st2"
        "\<And>txids. length txids = txs \<Longrightarrow> no_second_preimage M txids \<Longrightarrow> \<not> bad st2 \<Longrightarrow>
          calc_hash M h (pos * 2 + 1) txids = Some right \<Longrightarrow> ms2 = map ((!) txids) ps2"
        using Suc.IH [OF right Suc.prems(2) _ True lower] Suc.prems(3) by auto
      have "adds txs branch (pos * 2 ^ Suc h) ((pos + 1) * 2 ^ Suc h) (ms1 @ ms2) (ps1 @ ps2) st st'"
        using adds_append [OF l(1) r(1) le] adds_bad unfolding eq hash(2) by auto
      moreover have "ms1 @ ms2 = map ((!) txids) (ps1 @ ps2)"
        if txids: "length txids = txs" "no_second_preimage M txids" "\<not> bad st'"
          "calc_hash M (Suc h) pos txids = Some hash" for txids
      proof -
        have "\<not> bad st2" "\<not> bad st1"
          using that(3) hash(2) r(1) by (auto simp: adds_def split: if_splits)
        then show ?thesis
          using l(2) [OF txids(1,2)] r(2) [OF txids(1,2)] True
            no_second_preimageD [OF txids(2), of h pos left right] txids Suc.prems(4) less hash(1) by auto
      qed
      ultimately show ?thesis by blast
    next
      case one: False
      have hash: "hash = node_hash M left left" "st' = st1"
        using run extract_descend [of st bits M h pos txs branch] False tw one left by auto
      have "adds txs branch (pos * 2 ^ Suc h) ((pos + 1) * 2 ^ Suc h) ms1 ps1 st st'"
        using adds_mono [OF l(1) le(2)] unfolding eq hash(2) .
      moreover have "ms1 = map ((!) txids) ps1"
        if "length txids = txs" "no_second_preimage M txids" "\<not> bad st'"
          "calc_hash M (Suc h) pos txids = Some hash" for txids
        using l(2) [OF that(1,2)] no_second_preimageD [OF that(2), of h pos left left]
          that Suc.prems(4) less hash by auto
      ultimately show ?thesis by blast
    qed
  qed
qed

lemma extract_partial_merkle_adds:
  assumes "merkle_laws M" "txs \<le> 2 ^ 63" "tree_height M txs = Some height"
    "extract_partial_merkle M txs flags branch = Some (root, ms, ps)"
  obtains st st' where "adds txs branch 0 (2 ^ height) ms ps st st'" "length branch \<le> txs"
    "\<And>txids. length txids = txs \<Longrightarrow> no_second_preimage M txids \<Longrightarrow>
       calc_hash M height 0 txids = Some root \<Longrightarrow> ms = map ((!) txids) ps"
proof -
  let ?st = "\<lparr>bit_at = 0, used = 0, matched = [], positions = [], bad = False\<rparr>"
  obtain st' where run:
      "traverse_extract M height 0 txs (bytes_to_bits M flags) branch ?st = (root, st')"
    and st': "\<not> bad st'" "matched st' = ms" "positions st' = ps" "0 < txs" "length branch \<le> txs"
    using assms(3,4)
    by (auto simp: extract_partial_merkle_def Let_def split: if_splits prod.splits)
  have "height < 64" "height = 0 \<or> 2 ^ (height - 1) < txs"
    using tree_height_Some [OF assms(1,2)] assms(3) by force+
  then obtain ms' ps' where "adds txs branch 0 (2 ^ height) ms' ps' ?st st'"
    "\<forall>txids. length txids = txs \<longrightarrow> no_second_preimage M txids \<longrightarrow> \<not> bad st' \<longrightarrow>
       calc_hash M height 0 txids = Some root \<longrightarrow> ms' = map ((!) txids) ps'"
    using traverse_extract_adds [OF run assms(1)] st'(4) by auto
  moreover from this have "ms' = ms" "ps' = ps" using st' by (auto simp: adds_def)
  ultimately show thesis using that st' by blast
qed

definition sample_injective :: merkle_lib where
  "sample_injective = sample_merkle\<lparr>merkle_root := (\<lambda>hs. if hs = [1, 2] then 7 else 0)\<rparr>"

lemma sample_injective_laws [simp]: "merkle_laws sample_injective"
  using sample_merkle_laws by (simp add: merkle_laws_def sample_injective_def)

lemma sample_injective_height: "tree_height sample_injective 2 = Some 1"
  by (simp add: tree_height_def tree_height_from.simps tree_width_def sample_injective_def
      sample_merkle_def)

lemma sample_no_second_preimage: "no_second_preimage sample_injective [1, 2]"
  unfolding no_second_preimage_def
proof (intro allI impI)
  fix h pos :: nat and x y :: hash_digest
  assume less: "2 ^ h < length [1, 2 :: hash_digest]" and pos: "pos * 2 ^ Suc h < length [1, 2 :: hash_digest]"
    and eq: "calc_hash sample_injective (Suc h) pos [1, 2] = Some (node_hash sample_injective x y)"
  have "h = 0" using less power_increasing [of 1 h "2 :: nat"] by (cases "h = 0") auto
  moreover have "pos = 0" using pos \<open>h = 0\<close> by simp
  ultimately show "calc_hash sample_injective h (pos * 2) [1, 2] = Some x \<and>
      ((pos * 2 + 1) * 2 ^ h < length [1, 2 :: hash_digest] \<longrightarrow>
       calc_hash sample_injective h (pos * 2 + 1) [1, 2] = Some y)"
    using eq
    by (auto simp: node_hash_def tree_width_def sample_injective_def sample_merkle_def split: if_splits)
qed

lemma sample_extract: "extract_partial_merkle sample_injective 2 [5] [1, 2] = Some (7, [2], [1])"
  unfolding extract_partial_merkle_def sample_injective_height
  by (simp add: bytes_to_bits_def sample_injective_def sample_merkle_def traverse_extract.simps [of _ 0]
      traverse_extract.simps [of _ "Suc 0"] tree_width_def node_hash_def upt_rec nth_append)

lemma sample_root: "calc_hash sample_injective 1 0 [1, 2] = Some 7"
  by (simp add: node_hash_def tree_width_def sample_injective_def sample_merkle_def)

lemma merkle_sound:
  assumes "merkle_laws M" "length txids \<le> 2 ^ 63" "no_second_preimage M txids"
    "tree_height M (length txids) = Some height" "calc_hash M height 0 txids = Some root"
    "extract_partial_merkle M (length txids) flags branch = Some (root, ms, ps)"
  shows "ms = map ((!) txids) ps \<and> sorted_wrt (<) ps \<and> set ps \<subseteq> {..<length txids}"
proof -
  obtain st st' where "adds (length txids) branch 0 (2 ^ height) ms ps st st'"
      "ms = map ((!) txids) ps"
    using extract_partial_merkle_adds [OF assms(1,2,4,6)] assms(3,5) by metis
  then show ?thesis by (auto simp: adds_def)
qed

text \<open>
  C2: A partial merkle tree proves inclusion. Whatever flags and branch a caller supplies, if the
  extraction succeeds and the root it computes is the merkle root of the block, then the hashes
  it reports are the transaction hashes of the block at the reported positions, and the
  positions increase strictly and are inside the block. The only assumption on the hash function
  is that no other pair of hashes hashes to a node of this block's tree.
\<close>

theorem extract_partial_merkle_sound:
  assumes "merkle_laws M" "length txids \<le> 2 ^ 63" "no_second_preimage M txids"
    "tree_height M (length txids) = Some height" "calc_hash M height 0 txids = Some root"
    "extract_partial_merkle M (length txids) flags branch = Some (root, ms, ps)"
  shows "ms = map ((!) txids) ps \<and> sorted_wrt (<) ps \<and> set ps \<subseteq> {..<length txids}"
  by (rule merkle_sound [OF assms])

theorem extract_partial_merkle_sound_witness:
  "[2 :: hash_digest] = map ((!) [1, 2]) [1] \<and> sorted_wrt (<) [1 :: nat] \<and>
   set [1 :: nat] \<subseteq> {..<length [1, 2 :: hash_digest]}"
  using extract_partial_merkle_sound [of sample_injective "[1, 2]" 1 7 "[5]" "[1, 2]" "[2]" "[1]"]
    sample_no_second_preimage sample_injective_height sample_extract sample_root
  by simp

text \<open>
  The extraction never reports more than the caller supplied, whatever the flags and branch
  are: every reported hash is one of the branch, there is one for each position, the positions
  increase strictly and lie inside a tree of \<open>txs\<close> leaves, and the branch has at most \<open>txs\<close>
  hashes.
\<close>

theorem extract_partial_merkle_bounds:
  assumes "merkle_laws M" "txs \<le> 2 ^ 63"
    "extract_partial_merkle M txs flags branch = Some (root, ms, ps)"
  shows "length ms = length ps \<and> set ms \<subseteq> set branch \<and> length branch \<le> txs \<and>
    sorted_wrt (<) ps \<and> set ps \<subseteq> {..<txs}"
proof -
  obtain h where "tree_height M txs = Some h" using tree_height_Some [OF assms(1,2)] .
  then obtain st st' where "adds txs branch 0 (2 ^ h) ms ps st st'" "length branch \<le> txs"
    using extract_partial_merkle_adds [OF assms(1,2) _ assms(3)] by metis
  then show ?thesis by (auto simp: adds_def)
qed

theorem extract_partial_merkle_bounds_witness:
  "length [2 :: hash_digest] = length [1 :: nat] \<and> set [2 :: hash_digest] \<subseteq> set [1, 2] \<and>
   length [1, 2 :: hash_digest] \<le> 2 \<and> sorted_wrt (<) [1 :: nat] \<and> set [1 :: nat] \<subseteq> {..<2}"
  using extract_partial_merkle_bounds [of sample_injective 2 "[5]" "[1, 2]" 7 "[2]" "[1]"]
    sample_extract by simp

text \<open>
  The loop of \<open>tree_height\<close> ends, at the least height at which the leaves reduce to one
  root.
\<close>

theorem tree_height_least:
  assumes "merkle_laws M" "txs \<le> 2 ^ 63"
  shows "\<exists>h. tree_height M txs = Some h \<and> h \<le> 63 \<and> (\<forall>k. txs \<le> 2 ^ k \<longleftrightarrow> h \<le> k)"
proof -
  obtain h where h: "tree_height M txs = Some h" "h \<le> 63" "txs \<le> 2 ^ h" "h = 0 \<or> 2 ^ (h - 1) < txs"
    using tree_height_Some [OF assms] .
  have "h \<le> k" if "txs \<le> 2 ^ k" for k
  proof (rule ccontr)
    assume "\<not> h \<le> k"
    then have "(2 :: nat) ^ k \<le> 2 ^ (h - 1)" by (intro power_increasing) auto
    with h(4) that \<open>\<not> h \<le> k\<close> show False by (metis le_less_trans not_less zero_le)
  qed
  moreover have "txs \<le> 2 ^ k" if "h \<le> k" for k
    using h(3) power_increasing [OF that, of "2 :: nat"] by linarith
  ultimately show ?thesis using h by blast
qed

theorem tree_height_least_witness:
  "\<exists>h. tree_height sample_merkle 5 = Some h \<and> h \<le> 63 \<and> (\<forall>k. (5 :: nat) \<le> 2 ^ k \<longleftrightarrow> h \<le> k)"
  using tree_height_least [of sample_merkle 5] by simp

end
