(* ===== verification/Electrum_Version.thy ===== *)
theory Electrum_Version
  imports Rpc_Model "HOL-Library.Product_Lexorder"
begin

text \<open>
  Electrum protocol versions (\<open>interfaces/electrum.hpp\<close>, \<open>utilities/electrum_version.cpp\<close>) and
  the normalization of requests for the negotiated version
  (\<open>parsers/electrum_request.cpp\<close>).

  The numeric version \<open>config::version\<close> of the system library is a type variable of class
  linorder; its constructors and its text form are the fields of \<open>version_lib\<close>, and
  \<open>version_laws\<close> states that versions are compared component by component.
\<close>

subsection \<open>The defined versions\<close>

datatype electrum_version =
    v0_0 | v0_6 | v0_8 | v0_9 | v0_10 | v1_0 | v1_1 | v1_2 | v1_3
  | v1_4 | v1_4_1 | v1_4_2 | v1_6 | v1_7

text \<open>The underlying value of the enumeration, by which its values are compared.\<close>

primrec enum_value :: "electrum_version \<Rightarrow> nat" where
  "enum_value v0_0 = 0"
| "enum_value v0_6 = 1"
| "enum_value v0_8 = 2"
| "enum_value v0_9 = 3"
| "enum_value v0_10 = 4"
| "enum_value v1_0 = 5"
| "enum_value v1_1 = 6"
| "enum_value v1_2 = 7"
| "enum_value v1_3 = 8"
| "enum_value v1_4 = 9"
| "enum_value v1_4_1 = 10"
| "enum_value v1_4_2 = 11"
| "enum_value v1_6 = 12"
| "enum_value v1_7 = 13"

lemma enum_value_inject [simp]: "enum_value v = enum_value w \<longleftrightarrow> v = w"
  by (cases v; cases w; simp)

instantiation electrum_version :: linorder
begin

definition less_eq_electrum_version :: "electrum_version \<Rightarrow> electrum_version \<Rightarrow> bool" where
  "less_eq_electrum_version v w \<longleftrightarrow> enum_value v \<le> enum_value w"

definition less_electrum_version :: "electrum_version \<Rightarrow> electrum_version \<Rightarrow> bool" where
  "less_electrum_version v w \<longleftrightarrow> enum_value v < enum_value w"

instance
  by standard (auto simp: less_eq_electrum_version_def less_electrum_version_def)

end

lemma version_order_simps: "(v :: electrum_version) \<le> w \<longleftrightarrow> enum_value v \<le> enum_value w"
  "v < w \<longleftrightarrow> enum_value v < enum_value w"
  by (simp_all add: less_eq_electrum_version_def less_electrum_version_def)

lemma v0_0_least [simp]: "v0_0 \<le> v"
  by (simp add: version_order_simps)

record 'v version_lib =
  numeric :: "nat \<Rightarrow> nat \<Rightarrow> nat \<Rightarrow> 'v"
  parse_version :: "string \<Rightarrow> 'v option"
  print_version :: "'v \<Rightarrow> string"
  is_ascii_number :: "char \<Rightarrow> bool"
  is_ascii_character :: "char \<Rightarrow> bool"
  is_ascii_whitespace :: "char \<Rightarrow> bool"

definition version_laws :: "('v :: linorder) version_lib \<Rightarrow> bool" where
  "version_laws V \<longleftrightarrow>
     (\<forall>a b c a' b' c'. max (max a b) (max c (max a' (max b' c'))) < 256 \<longrightarrow>
        (numeric V a b c < numeric V a' b' c' \<longleftrightarrow>
           a < a' \<or> a = a' \<and> (b < b' \<or> b = b' \<and> c < c'))) \<and>
     (\<forall>v. numeric V 0 0 0 \<le> v)"

definition versions :: "'v version_lib \<Rightarrow> (electrum_version \<times> 'v) list" where
  "versions V =
    [(v0_0, numeric V 0 0 0), (v0_6, numeric V 0 6 0), (v0_8, numeric V 0 8 0),
     (v0_9, numeric V 0 9 0), (v0_10, numeric V 0 10 0), (v1_0, numeric V 1 0 0),
     (v1_1, numeric V 1 1 0), (v1_2, numeric V 1 2 0), (v1_3, numeric V 1 3 0),
     (v1_4, numeric V 1 4 0), (v1_4_1, numeric V 1 4 1), (v1_4_2, numeric V 1 4 2),
     (v1_6, numeric V 1 6 0), (v1_7, numeric V 1 7 0)]"

definition version_to_number :: "'v version_lib \<Rightarrow> electrum_version \<Rightarrow> 'v" where
  "version_to_number V v =
     (case List.find (\<lambda>entry. fst entry = v) (versions V) of
        Some entry \<Rightarrow> snd entry
      | None \<Rightarrow> numeric V 0 0 0)"

definition version_to_string :: "'v version_lib \<Rightarrow> electrum_version \<Rightarrow> string" where
  "version_to_string V v = print_version V (version_to_number V v)"

definition version_from_string :: "'v version_lib \<Rightarrow> string \<Rightarrow> 'v option" where
  "version_from_string V s =
     (if s \<noteq> [] \<and> hd s \<noteq> CHR ''.'' \<and> last s \<noteq> CHR ''.'' \<and>
         \<not> list_ex (\<lambda>i. s ! i = CHR ''.'' \<and> s ! (i + 1) = CHR ''.'') [0..<length s - 1] \<and>
         list_all (\<lambda>c. is_ascii_number V c \<or> c = CHR ''.'') s
      then parse_version V s else None)"

definition version_floor :: "('v :: linorder) version_lib \<Rightarrow> 'v \<Rightarrow> electrum_version" where
  "version_floor V value =
     (case List.find (\<lambda>entry. snd entry \<le> value) (rev (versions V)) of
        Some entry \<Rightarrow> fst entry
      | None \<Rightarrow> v0_0)"

definition version_range :: "'v version_lib \<Rightarrow> value_t \<Rightarrow> ('v \<times> 'v) option" where
  "version_range V value =
     (case value of
        String s \<Rightarrow> map_option (\<lambda>v. (v, v)) (version_from_string V s)
      | Array [String low, String high] \<Rightarrow>
          Option.bind (version_from_string V low) (\<lambda>min.
          map_option (\<lambda>max. (min, max)) (version_from_string V high))
      | _ \<Rightarrow> None)"

definition negotiate :: "('v :: linorder) version_lib \<Rightarrow> value_t \<Rightarrow> 'v \<Rightarrow> 'v \<Rightarrow> electrum_version" where
  "negotiate V value minimum maximum =
     (case version_range V value of
        None \<Rightarrow> v0_0
      | Some (lo, hi) \<Rightarrow>
          let lower = max lo minimum;
              upper = min hi maximum;
              floor = version_floor V upper in
          if version_to_number V floor < lower then v0_0 else floor)"

definition restricted_maximum :: electrum_version where
  "restricted_maximum = v1_4_2"

definition maximum_client_name :: nat where
  "maximum_client_name = 1024"

definition escape_client :: "'v version_lib \<Rightarrow> string \<Rightarrow> string" where
  "escape_client V s =
     map (\<lambda>c. if is_ascii_character V c \<and> \<not> is_ascii_whitespace V c then c else CHR ''*'') s"

definition version_result :: "'v version_lib \<Rightarrow> electrum_version \<Rightarrow> string \<Rightarrow> value_t" where
  "version_result V negotiated server_name =
     (if negotiated < v1_1 then String server_name
      else Array [String server_name, String (version_to_string V negotiated)])"

subsection \<open>Normalization of requests\<close>

text \<open>The names of the params of server.version, and the two methods the normalization knows.\<close>

definition server_version_names :: "string list" where
  "server_version_names = [''client_name'', ''protocol_version'']"

definition server_version_method :: string where
  "server_version_method = ''server.version''"

definition transaction_get_method :: string where
  "transaction_get_method = ''blockchain.transaction.get''"

text \<open>
  The params of server.version with the missing ones filled in, and the requested version: a
  single value becomes the client name, and the lowest served version is the default.
\<close>

definition fill_version_params :: "string \<Rightarrow> params_t \<Rightarrow> params_t \<times> value_t" where
  "fill_version_params lowest ps =
     (case ps of
        Single v \<Rightarrow> (Positional [v, String lowest], String lowest)
      | Positional xs \<Rightarrow>
          let xs = (if xs = [] then xs @ [String []] else xs);
              xs = (if length xs = 1 then xs @ [String lowest] else xs) in
          (Positional xs, xs ! 1)
      | Named m \<Rightarrow>
          (case m (server_version_names ! 1) of
             Some v \<Rightarrow> (Named m, v)
           | None \<Rightarrow> (Named (m(server_version_names ! 1 \<mapsto> String lowest)), String lowest)))"

text \<open>
  The purge of extraneous arguments, by the kind the request had on entry (a single value has
  become exactly two and is left alone).
\<close>

definition purge_version_params :: "params_t \<Rightarrow> params_t \<Rightarrow> params_t" where
  "purge_version_params entry ps =
     (case (entry, ps) of
        (Positional _, Positional xs) \<Rightarrow>
          Positional (if length xs > length server_version_names
                      then take (length server_version_names) xs else xs)
      | (Named _, Named m) \<Rightarrow> Named (m |` set server_version_names)
      | _ \<Rightarrow> ps)"

definition electrum_request ::
  "('v :: linorder) version_lib \<Rightarrow> electrum_version \<Rightarrow> 'v \<Rightarrow> 'v \<Rightarrow> request_t \<Rightarrow> request_t" where
  "electrum_request V version minimum maximum message =
     (if params message = None \<and> rpc_method message \<noteq> server_version_method then message
      else
        let entry = (case params message of None \<Rightarrow> Positional [] | Some ps \<Rightarrow> ps) in
        if rpc_method message = server_version_method then
          let (ps, requested) = fill_version_params (print_version V minimum) entry in
          if negotiate V requested minimum maximum < v1_6
          then message\<lparr>params := Some ps\<rparr>
          else message\<lparr>params := Some (purge_version_params entry ps)\<rparr>
        else if rpc_method message = transaction_get_method \<and> version < v1_1 then
          (case entry of
             Positional xs \<Rightarrow>
               message\<lparr>params := Some (Positional (if length xs = 2 then take 1 xs else xs))\<rparr>
           | Named m \<Rightarrow> message\<lparr>params := Some (Named (m(''height'' := None)))\<rparr>
           | Single v \<Rightarrow> message)
        else message)"

subsection \<open>The version table\<close>

lemma find_rev_Some:
  "List.find P (rev xs) = Some x \<Longrightarrow> \<exists>ys zs. xs = ys @ x # zs \<and> P x \<and> (\<forall>z \<in> set zs. \<not> P z)"
proof (induction xs)
  case (Cons a xs)
  have split: "List.find P (us @ vs) = or_else (List.find P us) (List.find P vs)" for us vs
    by (induction us) (auto simp: or_else_def)
  show ?case
  proof (cases "List.find P (rev xs)")
    case None
    then have "x = a" "P a" using Cons.prems by (auto simp: split split: if_splits)
    moreover have "\<forall>z \<in> set xs. \<not> P z" using None by (auto simp: find_None_iff)
    ultimately show ?thesis by fastforce
  next
    case (Some y)
    then obtain ys zs where "xs = ys @ x # zs \<and> P x \<and> (\<forall>z \<in> set zs. \<not> P z)"
      using Cons by (auto simp: split)
    then show ?thesis by (intro exI [of _ "a # ys"] exI [of _ zs]) simp
  qed
qed simp

lemma versions_sorted: "sorted_wrt (\<lambda>x y. fst x < fst y) (versions V)"
  by (simp add: versions_def version_order_simps)

lemma version_to_number_in: "(v, version_to_number V v) \<in> set (versions V)"
  by (cases v) (simp_all add: version_to_number_def versions_def)

lemma version_to_number_unique: "(v, n) \<in> set (versions V) \<Longrightarrow> version_to_number V v = n"
  by (auto simp: version_to_number_def versions_def)

primrec version_parts :: "electrum_version \<Rightarrow> nat \<times> nat \<times> nat" where
  "version_parts v0_0 = (0, 0, 0)"
| "version_parts v0_6 = (0, 6, 0)"
| "version_parts v0_8 = (0, 8, 0)"
| "version_parts v0_9 = (0, 9, 0)"
| "version_parts v0_10 = (0, 10, 0)"
| "version_parts v1_0 = (1, 0, 0)"
| "version_parts v1_1 = (1, 1, 0)"
| "version_parts v1_2 = (1, 2, 0)"
| "version_parts v1_3 = (1, 3, 0)"
| "version_parts v1_4 = (1, 4, 0)"
| "version_parts v1_4_1 = (1, 4, 1)"
| "version_parts v1_4_2 = (1, 4, 2)"
| "version_parts v1_6 = (1, 6, 0)"
| "version_parts v1_7 = (1, 7, 0)"

lemma version_parts_less: "version_parts v < version_parts w \<longleftrightarrow> v < w"
  by (cases v; cases w; simp add: version_order_simps)

lemma version_to_number_less:
  assumes "version_laws V"
  shows "version_to_number V v < version_to_number V w \<longleftrightarrow> v < w"
proof -
  obtain a b c a' b' c' where parts: "version_parts v = (a, b, c)" "version_parts w = (a', b', c')"
    by (metis prod_cases3)
  have num: "version_to_number V u = (case version_parts u of (a, b, c) \<Rightarrow> numeric V a b c)" for u
    by (cases u) (simp_all add: version_to_number_def versions_def)
  have small: "version_parts u = (x, y, z) \<Longrightarrow> x < 256 \<and> y < 256 \<and> z < 256" for u x y z
    by (cases u) auto
  have "numeric V a b c < numeric V a' b' c' \<longleftrightarrow> a < a' \<or> a = a' \<and> (b < b' \<or> b = b' \<and> c < c')"
    using assms small [OF parts(1)] small [OF parts(2)] unfolding version_laws_def by simp
  then show ?thesis using version_parts_less [of v w] parts by (auto simp: num)
qed

lemma version_to_number_le:
  "version_laws V \<Longrightarrow> version_to_number V v \<le> version_to_number V w \<longleftrightarrow> v \<le> w"
  using version_to_number_less by (metis not_le)

lemma version_floor_le:
  assumes "version_laws V"
  shows "w \<le> version_floor V value \<longleftrightarrow> version_to_number V w \<le> value"
proof -
  let ?P = "\<lambda>entry. snd entry \<le> value"
  have zero: "(v0_0, numeric V 0 0 0) \<in> set (versions V)" by (simp add: versions_def)
  then have "List.find ?P (rev (versions V)) \<noteq> None"
    using assms unfolding find_None_iff version_laws_def by fastforce
  then obtain v n where found: "List.find ?P (rev (versions V)) = Some (v, n)" by auto
  then obtain ys zs where split: "versions V = ys @ (v, n) # zs"
      and le: "n \<le> value" and above: "\<forall>z \<in> set zs. \<not> snd z \<le> value"
    using find_rev_Some [OF found] by auto
  have floor: "version_floor V value = v" by (simp add: version_floor_def found)
  have n: "version_to_number V v = n"
    using split by (intro version_to_number_unique) simp
  show ?thesis unfolding floor
  proof
    assume "w \<le> v"
    then show "version_to_number V w \<le> value"
      using version_to_number_le [OF assms, of w v] n le by simp
  next
    assume "version_to_number V w \<le> value"
    then have "(w, version_to_number V w) \<in> set ys \<or> w = v"
      using version_to_number_in [of w V] above unfolding split by auto
    then show "w \<le> v"
      using versions_sorted [of V] unfolding split by (fastforce simp: sorted_wrt_append)
  qed
qed

text \<open>A concrete version library: three components, printed and parsed as three characters.\<close>

definition sample_versions :: "(nat \<times> nat \<times> nat) version_lib" where
  "sample_versions = \<lparr>numeric = (\<lambda>a b c. (a, b, c)),
     parse_version = (\<lambda>s. case s of [a, _, b] \<Rightarrow> Some (of_char a - 48, of_char b - 48, 0) | _ \<Rightarrow> None),
     print_version = (\<lambda>(a, b, c). [char_of (a + 48), CHR ''.'', char_of (b + 48)]),
     is_ascii_number = is_digit_char,
     is_ascii_character = (\<lambda>c. (of_char c :: nat) < 128),
     is_ascii_whitespace = (\<lambda>c. c = CHR '' '')\<rparr>"

lemma sample_version_laws [simp]: "version_laws sample_versions"
  by (auto simp: version_laws_def sample_versions_def)

lemma sample_version_range:
  "version_range sample_versions (Array [String ''1.1'', String ''2.5'']) = Some ((1, 1, 0), (2, 5, 0))"
  by (simp add: version_range_def version_from_string_def sample_versions_def is_digit_char_def)

text \<open>
  \<open>version_floor\<close> is the greatest defined version that does not exceed its argument: a
  defined version is at most the floor of a number exactly when its own number is at most that
  number.
\<close>

theorem version_floor_greatest:
  assumes "version_laws V"
  shows "w \<le> version_floor V value \<longleftrightarrow> version_to_number V w \<le> value"
  using assms by (rule version_floor_le)

theorem version_floor_greatest_witness:
  "v1_4_2 \<le> version_floor sample_versions (1, 5, 0) \<longleftrightarrow>
   version_to_number sample_versions v1_4_2 \<le> (1, 5, 0)"
  by (rule version_floor_greatest) simp

lemma negotiate_range:
  assumes "version_laws V" "version_range V value = Some (lo, hi)"
  shows "negotiate V value minimum maximum \<noteq> v0_0 \<Longrightarrow>
      max lo minimum \<le> version_to_number V (negotiate V value minimum maximum) \<and>
      version_to_number V (negotiate V value minimum maximum) \<le> min hi maximum"
    and "max lo minimum \<le> version_to_number V w \<Longrightarrow> version_to_number V w \<le> min hi maximum \<Longrightarrow>
      w \<le> negotiate V value minimum maximum"
proof -
  let ?f = "version_floor V (min hi maximum)"
  have floor: "version_to_number V ?f \<le> min hi maximum"
    using version_floor_le [OF assms(1)] by blast
  have neg: "negotiate V value minimum maximum =
      (if version_to_number V ?f < max lo minimum then v0_0 else ?f)"
    by (simp add: negotiate_def assms(2))
  {
    assume "negotiate V value minimum maximum \<noteq> v0_0"
    then have "negotiate V value minimum maximum = ?f" "\<not> version_to_number V ?f < max lo minimum"
      unfolding neg by presburger+
    then show "max lo minimum \<le> version_to_number V (negotiate V value minimum maximum) \<and>
        version_to_number V (negotiate V value minimum maximum) \<le> min hi maximum"
      using floor by (simp only: not_less)
  }
  assume w: "max lo minimum \<le> version_to_number V w" "version_to_number V w \<le> min hi maximum"
  then have "w \<le> ?f" using version_floor_le [OF assms(1)] by blast
  moreover from this have "max lo minimum \<le> version_to_number V ?f"
    using w(1) version_to_number_le [OF assms(1)] order_trans by blast
  ultimately show "w \<le> negotiate V value minimum maximum"
    unfolding neg by (simp add: not_less [symmetric] del: max_less_iff_conj)
qed

text \<open>
  C9: Negotiation settles on the greatest defined version in the overlap of the range the
  client requests and the range the server is configured for: every defined version in the
  overlap is at most the result, and a result other than 0.0 lies in the overlap. A request
  without a well formed range negotiates 0.0.
\<close>

theorem negotiate_greatest:
  assumes "version_laws V"
  shows "case version_range V value of
      None \<Rightarrow> negotiate V value minimum maximum = v0_0
    | Some (lo, hi) \<Rightarrow>
        (\<forall>w. max lo minimum \<le> version_to_number V w \<and> version_to_number V w \<le> min hi maximum \<longrightarrow>
           w \<le> negotiate V value minimum maximum) \<and>
        (negotiate V value minimum maximum \<noteq> v0_0 \<longrightarrow>
           max lo minimum \<le> version_to_number V (negotiate V value minimum maximum) \<and>
           version_to_number V (negotiate V value minimum maximum) \<le> min hi maximum)"
proof (cases "version_range V value")
  case None
  then show ?thesis by (simp add: negotiate_def)
next
  case (Some range)
  then show ?thesis using negotiate_range [OF assms] by (cases range) fastforce
qed

theorem negotiate_greatest_witness:
  "negotiate sample_versions (Array [String ''1.1'', String ''2.5'']) (1, 0, 0) (1, 5, 0) = v1_4_2"
proof -
  define n where
    "n = negotiate sample_versions (Array [String ''1.1'', String ''2.5'']) (1, 0, 0) (1, 5, 0)"
  have num: "version_to_number sample_versions v1_4_2 = (1, 4, 2)"
    "version_to_number sample_versions v1_6 = (1, 6, 0)"
    by (simp_all add: version_to_number_def versions_def sample_versions_def)
  have ge: "v1_4_2 \<le> n" and le: "n \<noteq> v0_0 \<Longrightarrow> version_to_number sample_versions n \<le> (1, 5, 0)"
    using negotiate_greatest [of sample_versions "Array [String ''1.1'', String ''2.5'']" "(1, 0, 0)"
        "(1, 5, 0)"] num
    by (auto simp: sample_version_range n_def)
  have "n \<noteq> v0_0" using ge by (auto simp: version_order_simps)
  then have "version_to_number sample_versions n < version_to_number sample_versions v1_6"
    using le num le_less_trans [of "version_to_number sample_versions n" "(1, 5, 0)" "(1, 6, 0)"]
    by simp
  then have "n < v1_6" using version_to_number_less [of sample_versions n v1_6] by simp
  with ge show ?thesis unfolding n_def [symmetric] by (cases n) (auto simp: version_order_simps)
qed

subsection \<open>Properties of the normalization\<close>

text \<open>The version a client requests, as the handshake reads it from the normalized params.\<close>

definition requested_version :: "params_t \<Rightarrow> value_t option" where
  "requested_version ps =
     (case ps of
        Positional xs \<Rightarrow> if 1 < length xs then Some (xs ! 1) else None
      | Named m \<Rightarrow> m ''protocol_version''
      | Single v \<Rightarrow> None)"

definition within_signature :: "params_t \<Rightarrow> bool" where
  "within_signature ps =
     (case ps of
        Positional xs \<Rightarrow> length xs = 2
      | Named m \<Rightarrow> dom m \<subseteq> {''client_name'', ''protocol_version''}
      | Single v \<Rightarrow> False)"

lemmas request_defs = electrum_request_def fill_version_params_def purge_version_params_def
  server_version_names_def requested_version_def within_signature_def

lemma fill_requests:
  "fill_version_params lowest ps = (ps', r) \<Longrightarrow> requested_version ps' = Some r"
  by (auto simp: neq_Nil_conv fill_version_params_def requested_version_def server_version_names_def Let_def
      split: params_t.splits option.splits if_splits)

lemma fill_again:
  "requested_version ps = Some r \<Longrightarrow> fill_version_params lowest ps = (ps, r)"
  by (auto simp: fill_version_params_def requested_version_def server_version_names_def Let_def
      split: params_t.splits option.splits if_splits)

lemma purge_requests:
  assumes "fill_version_params lowest entry = (ps, r)"
  shows "requested_version (purge_version_params entry ps) = Some r"
    "within_signature (purge_version_params entry ps)"
    "purge_version_params (purge_version_params entry ps) (purge_version_params entry ps) =
       purge_version_params entry ps"
  using assms
  by (auto simp: neq_Nil_conv fill_version_params_def purge_version_params_def server_version_names_def
      requested_version_def within_signature_def Let_def
      split: params_t.splits option.splits if_splits) (metis list.exhaust)

lemma electrum_request_version_unfold:
  assumes "rpc_method m = server_version_method"
  obtains entry ps r where "fill_version_params (print_version V minimum) entry = (ps, r)"
    "entry = (case params m of None \<Rightarrow> Positional [] | Some ps \<Rightarrow> ps)"
    "electrum_request V version minimum maximum m =
       m\<lparr>params := Some (if negotiate V r minimum maximum < v1_6 then ps
                         else purge_version_params entry ps)\<rparr>"
  using assms by (cases "fill_version_params (print_version V minimum)
      (case params m of None \<Rightarrow> Positional [] | Some ps \<Rightarrow> ps)") (simp add: electrum_request_def)

text \<open>
  Normalization is idempotent: a request that has been normalized for a version and a
  configured range is not changed by normalizing it again.
\<close>

theorem electrum_request_idempotent:
  "electrum_request V version minimum maximum (electrum_request V version minimum maximum m) =
     electrum_request V version minimum maximum m"
proof (cases "rpc_method m = server_version_method")
  case True
  then obtain entry ps r where fill: "fill_version_params (print_version V minimum) entry = (ps, r)"
    and eq: "electrum_request V version minimum maximum m =
       m\<lparr>params := Some (if negotiate V r minimum maximum < v1_6 then ps
                         else purge_version_params entry ps)\<rparr>"
    using electrum_request_version_unfold by blast
  show ?thesis
    using True fill_again [OF fill_requests [OF fill]] fill_again [OF purge_requests(1) [OF fill]]
      purge_requests(3) [OF fill]
    unfolding eq by (auto simp: electrum_request_def)
next
  case other: False
  show ?thesis
  proof (cases "params m")
    case (Some ps)
    then show ?thesis using other by (cases ps) (simp_all add: electrum_request_def Let_def)
  qed (use other in \<open>simp add: electrum_request_def\<close>)
qed

text \<open>
  A server.version request always reaches the handshake with a requested version, the
  lowest served version when the client gave none; the request stays what the client sent
  otherwise, and when the version it requests negotiates to 1.6 or above no argument outside
  the signature of the method is left, so that extraneous arguments are tolerated.
\<close>

theorem electrum_request_server_version:
  assumes "rpc_method m = server_version_method"
  shows "\<exists>ps r. electrum_request V version minimum maximum m = m\<lparr>params := Some ps\<rparr> \<and>
    requested_version ps = Some r \<and>
    (negotiate V r minimum maximum < v1_6 \<or> within_signature ps) \<and>
    r = (case Option.bind (params m) requested_version of
           None \<Rightarrow> String (print_version V minimum) | Some v \<Rightarrow> v)"
proof -
  obtain entry ps r where fill: "fill_version_params (print_version V minimum) entry = (ps, r)"
    and entry: "entry = (case params m of None \<Rightarrow> Positional [] | Some ps \<Rightarrow> ps)"
    and eq: "electrum_request V version minimum maximum m =
       m\<lparr>params := Some (if negotiate V r minimum maximum < v1_6 then ps
                         else purge_version_params entry ps)\<rparr>"
    using electrum_request_version_unfold [OF assms] by blast
  have "r = (case Option.bind (params m) requested_version of
           None \<Rightarrow> String (print_version V minimum) | Some v \<Rightarrow> v)"
    using fill unfolding entry
    by (auto simp: fill_version_params_def requested_version_def server_version_names_def Let_def
        neq_Nil_conv split: params_t.splits option.splits if_splits)
  then show ?thesis
    using eq fill_requests [OF fill] purge_requests(1,2) [OF fill] by auto
qed

theorem electrum_request_server_version_witness:
  "\<exists>ps r. electrum_request sample_versions v0_0 (1, 0, 0) (1, 6, 0)
        \<lparr>jsonrpc = rpc_v2, request_id = Null, rpc_method = ''server.version'', params = None\<rparr> =
      \<lparr>jsonrpc = rpc_v2, request_id = Null, rpc_method = ''server.version'', params = Some ps\<rparr> \<and>
    requested_version ps = Some r \<and> r = String (print_version sample_versions (1, 0, 0))"
  using electrum_request_server_version [of
      "\<lparr>jsonrpc = rpc_v2, request_id = Null, rpc_method = ''server.version'', params = None\<rparr>"
      sample_versions v0_0 "(1, 0, 0)" "(1, 6, 0)"]
  by (auto simp: server_version_method_def)

end
