(* ===== verification/Electrum_Handshake.thy ===== *)
theory Electrum_Handshake
  imports Electrum_Version
begin

text \<open>
  The electrum handshake: \<open>protocol_electrum_version.cpp\<close> with the version state that
  \<open>channel_electrum.hpp\<close> carries. The handlers are functions on one record, which holds
  the fields of the protocol and of its channel, the messages handed to the channel (each with the
  code its completion passes to \<open>finished\<close>) and the codes the handshake handler was
  invoked with. \<open>hs_step\<close> interleaves the handlers: requests arrive only while the channel
  is not paused, a send completes later and in order, and the session resumes the channel
  after \<open>shake\<close> returns and after the handshake succeeds.
\<close>

subsection \<open>State and handlers\<close>

datatype hs_code = hs_success | hs_operation_failed | hs_bad_request | hs_channel_stopped

datatype hs_reply = Reply_Code hs_code | Reply_Result value_t

record 'v electrum_options =
  protocol_minimum :: 'v
  protocol_maximum :: 'v
  server_name :: string

record channel_electrum =
  ch_version :: electrum_version
  ch_client :: string
  ch_restricted :: bool
  ch_negotiated :: bool

record handshake =
  channel :: channel_electrum
  hs_started :: bool
  hs_handler :: bool
  hs_paused :: bool
  hs_stopped :: bool
  hs_sends :: "(hs_reply \<times> hs_code) list"
  hs_outcome :: "hs_code list"

definition initial_channel :: channel_electrum where
  "initial_channel = \<lparr>ch_version = v0_0, ch_client = [], ch_restricted = False, ch_negotiated = False\<rparr>"

definition initial_handshake :: handshake where
  "initial_handshake = \<lparr>channel = initial_channel, hs_started = False, hs_handler = False,
     hs_paused = True, hs_stopped = False, hs_sends = [], hs_outcome = []\<rparr>"

text \<open>The second component is the code the given handler is invoked with at once.\<close>

definition shake :: "handshake \<Rightarrow> handshake \<times> hs_code option" where
  "shake s =
     (if hs_started s then (s, Some hs_operation_failed)
      else (s\<lparr>hs_handler := True, hs_started := True\<rparr>, None))"

definition finished :: "hs_code \<Rightarrow> hs_code \<Rightarrow> handshake \<Rightarrow> handshake" where
  "finished ec code s =
     (if hs_stopped s \<or> ec \<noteq> hs_success then s
      else if hs_handler s then s\<lparr>hs_outcome := hs_outcome s @ [code], hs_handler := False\<rparr>
      else s)"

definition handle_unclaimed ::
  "('v :: linorder) version_lib \<Rightarrow> 'v electrum_options \<Rightarrow> handshake \<Rightarrow> handshake" where
  "handle_unclaimed V opts s =
     (if \<not> hs_handler s then s
      else finished hs_success hs_success
        (s\<lparr>hs_paused := True,
           channel := (channel s)\<lparr>ch_restricted := True,
             ch_version := version_floor V (protocol_minimum opts)\<rparr>\<rparr>))"

definition set_client :: "'v version_lib \<Rightarrow> string \<Rightarrow> channel_electrum \<Rightarrow> channel_electrum" where
  "set_client V name c = c\<lparr>ch_client := escape_client V (take maximum_client_name name)\<rparr>"

definition set_version ::
  "('v :: linorder) version_lib \<Rightarrow> 'v electrum_options \<Rightarrow> value_t \<Rightarrow> channel_electrum \<Rightarrow>
   channel_electrum option" where
  "set_version V opts version c =
     (let minimum = protocol_minimum opts;
          maximum = (if ch_restricted c
                     then min (protocol_maximum opts) (version_to_number V restricted_maximum)
                     else protocol_maximum opts);
          floor = negotiate V version minimum maximum in
      if floor = v0_0 \<or> ch_negotiated c \<and> floor \<noteq> ch_version c then None
      else Some (c\<lparr>ch_version := floor, ch_negotiated := True\<rparr>))"

definition handle_server_version ::
  "('v :: linorder) version_lib \<Rightarrow> 'v electrum_options \<Rightarrow> hs_code \<Rightarrow> string \<Rightarrow> value_t \<Rightarrow>
   handshake \<Rightarrow> handshake" where
  "handle_server_version V opts ec client_name protocol_version s =
     (if hs_stopped s \<or> ec \<noteq> hs_success then s
      else
        let s = (if hs_handler s then s\<lparr>hs_paused := True\<rparr> else s) in
        if ch_negotiated (channel s) \<and> ch_version (channel s) \<ge> v1_4 then
          s\<lparr>hs_sends := hs_sends s @ [(Reply_Code hs_bad_request, hs_success)]\<rparr>
        else
          let s = s\<lparr>channel := set_client V client_name (channel s)\<rparr> in
          (case set_version V opts protocol_version (channel s) of
             None \<Rightarrow>
               if hs_handler s
               then s\<lparr>hs_sends := hs_sends s @ [(Reply_Code hs_bad_request, hs_bad_request)]\<rparr>
               else s\<lparr>hs_stopped := True\<rparr>
           | Some c \<Rightarrow>
               s\<lparr>channel := c, hs_sends := hs_sends s @
                   [(Reply_Result (version_result V (ch_version c) (server_name opts)), hs_success)]\<rparr>))"

text \<open>The completion of the oldest send; a send that fails stops the channel.\<close>

definition sent :: "hs_code \<Rightarrow> handshake \<Rightarrow> handshake" where
  "sent ec s =
     (case hs_sends s of
        [] \<Rightarrow> s
      | (_, code) # rest \<Rightarrow>
          finished ec code (s\<lparr>hs_sends := rest, hs_stopped := hs_stopped s \<or> ec \<noteq> hs_success\<rparr>))"

inductive hs_step ::
  "('v :: linorder) version_lib \<Rightarrow> 'v electrum_options \<Rightarrow> handshake \<Rightarrow> handshake \<Rightarrow> bool"
  for V opts where
  Shake: "\<not> hs_started s \<Longrightarrow> hs_step V opts s ((fst (shake s))\<lparr>hs_paused := False\<rparr>)"
| Unclaimed: "hs_started s \<Longrightarrow> \<not> hs_paused s \<Longrightarrow> \<not> hs_stopped s \<Longrightarrow>
    hs_step V opts s (handle_unclaimed V opts s)"
| Server_Version: "hs_started s \<Longrightarrow> \<not> hs_paused s \<Longrightarrow>
    hs_step V opts s (handle_server_version V opts ec client_name protocol_version s)"
| Sent: "hs_step V opts s (sent ec s)"
| Resume: "hs_outcome s = [hs_success] \<Longrightarrow> hs_step V opts s (s\<lparr>hs_paused := False\<rparr>)"
| Stop: "hs_step V opts s (s\<lparr>hs_stopped := True\<rparr>)"

lemmas [step_defs] = shake_def finished_def handle_unclaimed_def handle_server_version_def sent_def
  set_client_def

subsection \<open>The invariant\<close>

definition in_range ::
  "('v :: linorder) version_lib \<Rightarrow> 'v electrum_options \<Rightarrow> channel_electrum \<Rightarrow> bool" where
  "in_range V opts c \<longleftrightarrow>
     protocol_minimum opts \<le> version_to_number V (ch_version c) \<and>
     version_to_number V (ch_version c) \<le> protocol_maximum opts \<and>
     ch_version c \<noteq> v0_0 \<and> (ch_restricted c \<longrightarrow> ch_version c \<le> v1_4_2)"

definition hs_inv ::
  "('v :: linorder) version_lib \<Rightarrow> 'v electrum_options \<Rightarrow> handshake \<Rightarrow> bool" where
  "hs_inv V opts s \<longleftrightarrow>
     (hs_handler s \<longleftrightarrow> hs_started s \<and> hs_outcome s = []) \<and>
     length (hs_outcome s) \<le> 1 \<and> (hs_started s \<or> hs_outcome s = []) \<and>
     (ch_negotiated (channel s) \<longrightarrow> in_range V opts (channel s)) \<and>
     (hs_started s \<or> channel s = initial_channel \<and> hs_sends s = []) \<and>
     (hs_handler s \<and> ch_negotiated (channel s) \<longrightarrow> hs_paused s) \<and>
     (hs_handler s \<and> hs_success \<in> snd ` set (hs_sends s) \<longrightarrow> ch_negotiated (channel s)) \<and>
     (hs_success \<in> set (hs_outcome s) \<longrightarrow> ch_negotiated (channel s) \<or>
        ch_restricted (channel s) \<and> ch_version (channel s) = version_floor V (protocol_minimum opts))"

lemma set_version_in_range:
  assumes "version_laws V" "set_version V opts value c = Some c'"
  shows "in_range V opts c' \<and> ch_negotiated c' \<and> ch_restricted c' = ch_restricted c \<and>
    (ch_negotiated c \<longrightarrow> ch_version c' = ch_version c)"
proof -
  define maximum where "maximum = (if ch_restricted c
    then min (protocol_maximum opts) (version_to_number V restricted_maximum) else protocol_maximum opts)"
  define floor where "floor = negotiate V value (protocol_minimum opts) maximum"
  have c': "c' = c\<lparr>ch_version := floor, ch_negotiated := True\<rparr>" "floor \<noteq> v0_0"
    "ch_negotiated c \<longrightarrow> floor = ch_version c"
    using assms(2) by (auto simp: set_version_def maximum_def [symmetric] floor_def [symmetric] Let_def
        split: if_splits)
  obtain lo hi where range: "version_range V value = Some (lo, hi)"
    using c'(2) by (auto simp: floor_def negotiate_def split: option.splits)
  have "protocol_minimum opts \<le> version_to_number V floor" "version_to_number V floor \<le> maximum"
    using negotiate_range(1) [OF assms(1) range] c'(2) by (auto simp: floor_def)
  then show ?thesis
    using c' version_to_number_le [OF assms(1), of floor v1_4_2]
    by (auto simp: in_range_def maximum_def restricted_maximum_def split: if_splits)
qed

lemma hs_inv_finished:
  "hs_inv V opts s \<Longrightarrow> code \<noteq> hs_success \<or> \<not> hs_handler s \<or> ch_negotiated (channel s) \<or>
     ch_restricted (channel s) \<and> ch_version (channel s) = version_floor V (protocol_minimum opts) \<Longrightarrow>
   hs_inv V opts (finished ec code s)"
  by (auto simp: hs_inv_def finished_def)

lemma hs_inv_unclaimed:
  "hs_inv V opts s \<Longrightarrow> \<not> hs_paused s \<Longrightarrow> \<not> hs_stopped s \<Longrightarrow>
   hs_inv V opts (handle_unclaimed V opts s)"
  by (auto simp: hs_inv_def handle_unclaimed_def finished_def)

lemma hs_inv_server_version:
  assumes "version_laws V" "hs_inv V opts s" "hs_started s" "\<not> hs_paused s"
  shows "hs_inv V opts (handle_server_version V opts ec name value s)"
proof (cases "hs_stopped s \<or> ec \<noteq> hs_success \<or>
    ch_negotiated (channel s) \<and> ch_version (channel s) \<ge> v1_4")
  case True
  then show ?thesis using assms(2-4) by (auto simp: hs_inv_def handle_server_version_def Let_def)
next
  case False
  let ?c = "set_client V name (channel s)"
  show ?thesis
  proof (cases "set_version V opts value ?c")
    case None
    then show ?thesis using assms(2-4) False
      by (auto simp: hs_inv_def handle_server_version_def set_client_def in_range_def Let_def)
  next
    case (Some c)
    then show ?thesis using assms(2-4) False set_version_in_range [OF assms(1) Some]
      by (auto simp: hs_inv_def handle_server_version_def Let_def)
  qed
qed

lemma hs_inv_sent: "hs_inv V opts s \<Longrightarrow> hs_inv V opts (sent ec s)"
  unfolding sent_def
  by (auto simp: hs_inv_def finished_def split: list.splits)

lemma hs_inv_step:
  assumes "version_laws V" "hs_inv V opts s" "hs_step V opts s s'"
  shows "hs_inv V opts s'"
  using assms(3)
proof (cases rule: hs_step.cases)
  case Shake
  then show ?thesis using assms(2) by (simp add: hs_inv_def shake_def initial_channel_def)
next
  case Unclaimed
  then show ?thesis using assms(2) hs_inv_unclaimed by blast
next
  case Server_Version
  then show ?thesis using assms(1,2) hs_inv_server_version by blast
next
  case Sent
  then show ?thesis using assms(2) hs_inv_sent by blast
next
  case Resume
  then show ?thesis using assms(2) by (simp add: hs_inv_def)
next
  case Stop
  then show ?thesis using assms(2) by (simp add: hs_inv_def)
qed

lemma hs_inv_initial: "hs_inv V opts initial_handshake"
  by (simp add: hs_inv_def initial_handshake_def initial_channel_def)

interpretation handshake: state_machine "\<lambda>s. s = initial_handshake" "hs_step V opts"
  "\<lambda>s. version_laws V \<longrightarrow> hs_inv V opts s" for V opts
  by unfold_locales (simp add: hs_inv_initial, blast intro: hs_inv_step)

subsection \<open>Version state of the channel\<close>

lemma handle_server_version_channel:
  "channel (handle_server_version V opts ec name req s) = channel s \<or>
   channel (handle_server_version V opts ec name req s) = set_client V name (channel s) \<or>
   set_version V opts req (set_client V name (channel s)) =
     Some (channel (handle_server_version V opts ec name req s))"
  by (cases "set_version V opts req (set_client V name (channel s))")
    (simp_all add: handle_server_version_def Let_def)

text \<open>Once a version is negotiated no handler changes it.\<close>

lemma negotiated_kept:
  assumes "version_laws V" "hs_inv V opts s" "hs_step V opts s s'"
    "ch_negotiated (channel s) \<and> ch_version (channel s) = v"
  shows "ch_negotiated (channel s') \<and> ch_version (channel s') = v"
  using assms(3)
proof (cases rule: hs_step.cases)
  case Shake
  then show ?thesis using assms(2,4) by (simp add: hs_inv_def initial_channel_def)
next
  case Unclaimed
  moreover from this have "\<not> hs_handler s" using assms(2,4) by (auto simp: hs_inv_def)
  ultimately show ?thesis using assms(4) by (simp add: handle_unclaimed_def)
next
  case (Server_Version ec name req)
  have client: "ch_negotiated (set_client V name (channel s))"
    "ch_version (set_client V name (channel s)) = v" using assms(4) by (simp_all add: set_client_def)
  show ?thesis
    using handle_server_version_channel [of V opts ec name req s]
  proof (elim disjE)
    assume "set_version V opts req (set_client V name (channel s)) =
      Some (channel (handle_server_version V opts ec name req s))"
    then show ?thesis using set_version_in_range [OF assms(1)] client Server_Version(1) by metis
  qed (use assms(4) client Server_Version(1) in simp_all)
next
  case (Sent ec)
  then show ?thesis using assms(4) by (simp add: sent_def finished_def split: list.split)
qed (use assms(4) in simp_all)

text \<open>A run for the witnesses: the client opens with server.version for 1.1 to 2.5.\<close>

definition sample_options :: "(nat \<times> nat \<times> nat) electrum_options" where
  "sample_options = \<lparr>protocol_minimum = (1, 0, 0), protocol_maximum = (1, 6, 0), server_name = ''s''\<rparr>"

definition sample_request :: value_t where
  "sample_request = Array [String ''1.1'', String ''2.5'']"

definition sample_opened :: handshake where
  "sample_opened = (fst (shake initial_handshake))\<lparr>hs_paused := False\<rparr>"

definition sample_negotiated :: handshake where
  "sample_negotiated =
     handle_server_version sample_versions sample_options hs_success ''c'' sample_request sample_opened"

lemma sample_negotiate:
  "negotiate sample_versions sample_request (1, 0, 0) (1, 6, 0) = v1_6"
  unfolding sample_request_def negotiate_def sample_version_range
  by (simp add: version_floor_def versions_def version_to_number_def sample_versions_def min_def
      max_def)

lemma sample_negotiated_channel:
  "ch_negotiated (channel sample_negotiated) \<and> ch_version (channel sample_negotiated) = v1_6"
  by (simp add: sample_negotiated_def sample_opened_def step_defs initial_handshake_def
      initial_channel_def set_version_def sample_options_def sample_negotiate [simplified] Let_def)

lemma sample_run:
  "rtranclp (hs_step sample_versions sample_options) initial_handshake sample_negotiated"
proof -
  have "hs_step sample_versions sample_options initial_handshake sample_opened"
    unfolding sample_opened_def by (rule Shake) (simp add: initial_handshake_def)
  moreover have "hs_step sample_versions sample_options sample_opened sample_negotiated"
    unfolding sample_negotiated_def
    by (rule Server_Version) (simp_all add: sample_opened_def shake_def initial_handshake_def)
  ultimately show ?thesis by (meson converse_rtranclp_into_rtranclp rtranclp.rtrancl_refl)
qed

text \<open>
  C4: In every state a channel can reach, by any interleaving of requests, send completions and
  stops, the handshake handler has been invoked at most once, and a successful handshake
  leaves a channel that has negotiated a version or that opened with another method, in which case it is
  restricted and runs at the lowest served version. A negotiated version lies in the
  configured range and, on a restricted channel, below 1.6.
\<close>

theorem handshake_outcome:
  assumes "version_laws V" "rtranclp (hs_step V opts) initial_handshake s"
  shows "length (hs_outcome s) \<le> 1 \<and>
    (hs_outcome s = [hs_success] \<longrightarrow> ch_negotiated (channel s) \<or>
       ch_restricted (channel s) \<and> ch_version (channel s) = version_floor V (protocol_minimum opts)) \<and>
    (ch_negotiated (channel s) \<longrightarrow>
       protocol_minimum opts \<le> version_to_number V (ch_version (channel s)) \<and>
       version_to_number V (ch_version (channel s)) \<le> protocol_maximum opts \<and>
       (ch_restricted (channel s) \<longrightarrow> ch_version (channel s) < v1_6))"
proof -
  have "hs_inv V opts s" using handshake.reachable_inv [OF _ assms(2)] assms(1) by simp
  then show ?thesis by (auto simp: hs_inv_def in_range_def version_order_simps)
qed

theorem handshake_outcome_witness:
  "length (hs_outcome sample_negotiated) \<le> 1 \<and>
   (1, 0, 0) \<le> version_to_number sample_versions (ch_version (channel sample_negotiated))"
  using handshake_outcome [OF sample_version_laws sample_run] sample_negotiated_channel
  by (simp add: sample_options_def)

text \<open>
  A negotiated version is final: once a server.version request has been accepted, no later
  request, accepted or not, changes the version of the channel.
\<close>

theorem negotiated_version_final:
  assumes "version_laws V" "rtranclp (hs_step V opts) initial_handshake s"
    "ch_negotiated (channel s)" "rtranclp (hs_step V opts) s s'"
  shows "ch_negotiated (channel s') \<and> ch_version (channel s') = ch_version (channel s)"
proof (rule handshake.run_keeps [OF _ assms(4)])
  show "version_laws V \<longrightarrow> hs_inv V opts s"
    using handshake.reachable_inv [OF _ assms(2)] by simp
qed (use negotiated_kept assms(1,3) in blast)+

theorem negotiated_version_final_witness:
  "ch_negotiated (channel (sent hs_success sample_negotiated)) \<and>
   ch_version (channel (sent hs_success sample_negotiated)) = ch_version (channel sample_negotiated)"
  using negotiated_version_final [OF sample_version_laws sample_run _ r_into_rtranclp [of
        "hs_step sample_versions sample_options", OF Sent]] sample_negotiated_channel by simp

end
