(* ===== verification/Errors.thy ===== *)
theory Errors
  imports Prelude
begin

text \<open>
  Error codes of the rpc services: \<open>error/electrum_error_t\<close>, \<open>error/btcd_error_t\<close> and
  \<open>error/bitcoind_error_t\<close>, each an enumeration of wire codes with a message map and a
  \<open>translate\<close> of the codes of other components into its own space, and the reject tokens of
  bitcoind (bip22). A \<open>code\<close> is a std::error_code: a value and the category it belongs to,
  and it is false when its value is zero.

  The enumerators of the system and node libraries are not part of the repository: their values
  are the fields of \<open>foreign_codes\<close>, by name.
\<close>

subsection \<open>Codes\<close>

datatype category =
    electrum_category | btcd_category | bitcoind_category | server_category | database_category
  | node_category | network_category | transaction_category | block_category | other_category

record code =
  code_value :: int
  code_category :: category

abbreviation is_error :: "code \<Rightarrow> bool" where
  "is_error ec \<equiv> code_value ec \<noteq> 0"

definition in_category :: "category \<Rightarrow> code \<Rightarrow> bool" where
  "in_category c ec \<longleftrightarrow> code_category ec = c"

definition code_of :: "category \<Rightarrow> int \<Rightarrow> code" where
  "code_of c v = \<lparr>code_value = v, code_category = c\<rparr>"

text \<open>Enumerations: the name and the wire value of each enumerator, in the order of the source.\<close>

definition electrum_errors :: "(string \<times> int) list" where
  "electrum_errors =
   [(''success'', 0), (''bad_request'', 1), (''daemon_error'', 2),
     (''excessive_history'', 10001), (''invalid_request'', - 32600),
     (''method_not_found'', - 32601), (''invalid_args'', - 32602), (''internal_error'', - 32603),
     (''parse_error'', - 32700), (''unavailable'', - 100), (''excessive_resource_usage'', - 101),
     (''server_busy'', - 102)]"

definition btcd_errors :: "(string \<times> int) list" where
  "btcd_errors =
   [(''success'', 0), (''invalid_request'', - 32600), (''method_not_found'', - 32601),
     (''invalid_params'', - 32602), (''internal_error'', - 32603), (''parse_error'', - 32700),
     (''misc_error'', - 1), (''unimplemented'', - 1), (''forbidden_by_safe_mode'', - 2),
     (''type_error'', - 3), (''wallet_error'', - 4), (''invalid_address_or_key'', - 5),
     (''wallet_insufficient_funds'', - 6), (''out_of_memory'', - 7),
     (''invalid_parameter'', - 8), (''client_not_connected'', - 9),
     (''client_in_initial_download'', - 10), (''wallet_invalid_account_name'', - 11),
     (''wallet_keypool_ran_out'', - 12), (''wallet_unlock_needed'', - 13),
     (''wallet_passphrase_incorrect'', - 14), (''wallet_wrong_enc_state'', - 15),
     (''wallet_encryption_failed'', - 16), (''wallet_already_unlocked'', - 17),
     (''wallet_not_found'', - 18), (''wallet_not_specified'', - 19), (''database_error'', - 20),
     (''deserialization_error'', - 22), (''client_node_already_added'', - 23),
     (''client_node_not_added'', - 24), (''verify_error'', - 25), (''verify_rejected'', - 26),
     (''verify_already_in_chain'', - 27), (''in_warmup'', - 28),
     (''client_node_not_connected'', - 29), (''client_invalid_ip_or_subnet'', - 30),
     (''method_deprecated'', - 32), (''client_mempool_disabled'', - 33)]"

definition bitcoind_errors :: "(string \<times> int) list" where
  "bitcoind_errors =
   [(''success'', 0), (''invalid_request'', - 32600), (''method_not_found'', - 32601),
     (''invalid_params'', - 32602), (''internal_error'', - 32603), (''parse_error'', - 32700),
     (''misc_error'', - 1), (''forbidden_by_safe_mode'', - 2), (''type_error'', - 3),
     (''invalid_address_or_key'', - 5), (''out_of_memory'', - 7), (''invalid_parameter'', - 8),
     (''database_error'', - 20), (''deserialization_error'', - 22), (''verify_error'', - 25),
     (''verify_rejected'', - 26), (''verify_already_in_utxo_set'', - 27), (''in_warmup'', - 28),
     (''method_deprecated'', - 32), (''limit_exceeded'', - 37), (''client_not_connected'', - 9),
     (''client_in_initial_download'', - 10), (''client_node_already_added'', - 23),
     (''client_node_not_added'', - 24), (''client_node_not_connected'', - 29),
     (''client_invalid_ip_or_subnet'', - 30), (''client_p2p_disabled'', - 31),
     (''client_node_capacity_reached'', - 34), (''client_mempool_disabled'', - 33),
     (''wallet_error'', - 4), (''wallet_insufficient_funds'', - 6),
     (''wallet_invalid_label_name'', - 11), (''wallet_keypool_ran_out'', - 12),
     (''wallet_unlock_needed'', - 13), (''wallet_passphrase_incorrect'', - 14),
     (''wallet_wrong_enc_state'', - 15), (''wallet_encryption_failed'', - 16),
     (''wallet_already_unlocked'', - 17), (''wallet_not_found'', - 18),
     (''wallet_not_specified'', - 19), (''wallet_already_loaded'', - 35),
     (''wallet_already_exists'', - 36)]"

text \<open>Message maps: every enumerator is published under its own name.\<close>

definition electrum_messages :: "(string \<times> string) list" where
  "electrum_messages =
   [(''success'', ''success''), (''bad_request'', ''bad_request''),
     (''daemon_error'', ''daemon_error''), (''excessive_history'', ''excessive_history''),
     (''invalid_request'', ''invalid_request''), (''method_not_found'', ''method_not_found''),
     (''invalid_args'', ''invalid_args''), (''internal_error'', ''internal_error''),
     (''parse_error'', ''parse_error''), (''unavailable'', ''unavailable''),
     (''excessive_resource_usage'', ''excessive_resource_usage''),
     (''server_busy'', ''server_busy'')]"

definition btcd_messages :: "(string \<times> string) list" where
  "btcd_messages =
   [(''success'', ''success''), (''invalid_request'', ''invalid_request''),
     (''method_not_found'', ''method_not_found''), (''invalid_params'', ''invalid_params''),
     (''internal_error'', ''internal_error''), (''parse_error'', ''parse_error''),
     (''misc_error'', ''misc_error''), (''forbidden_by_safe_mode'', ''forbidden_by_safe_mode''),
     (''type_error'', ''type_error''), (''wallet_error'', ''wallet_error''),
     (''invalid_address_or_key'', ''invalid_address_or_key''),
     (''wallet_insufficient_funds'', ''wallet_insufficient_funds''),
     (''out_of_memory'', ''out_of_memory''), (''invalid_parameter'', ''invalid_parameter''),
     (''client_not_connected'', ''client_not_connected''),
     (''client_in_initial_download'', ''client_in_initial_download''),
     (''wallet_invalid_account_name'', ''wallet_invalid_account_name''),
     (''wallet_keypool_ran_out'', ''wallet_keypool_ran_out''),
     (''wallet_unlock_needed'', ''wallet_unlock_needed''),
     (''wallet_passphrase_incorrect'', ''wallet_passphrase_incorrect''),
     (''wallet_wrong_enc_state'', ''wallet_wrong_enc_state''),
     (''wallet_encryption_failed'', ''wallet_encryption_failed''),
     (''wallet_already_unlocked'', ''wallet_already_unlocked''),
     (''wallet_not_found'', ''wallet_not_found''),
     (''wallet_not_specified'', ''wallet_not_specified''),
     (''database_error'', ''database_error''),
     (''deserialization_error'', ''deserialization_error''),
     (''client_node_already_added'', ''client_node_already_added''),
     (''client_node_not_added'', ''client_node_not_added''),
     (''verify_error'', ''verify_error''), (''verify_rejected'', ''verify_rejected''),
     (''verify_already_in_chain'', ''verify_already_in_chain''), (''in_warmup'', ''in_warmup''),
     (''client_node_not_connected'', ''client_node_not_connected''),
     (''client_invalid_ip_or_subnet'', ''client_invalid_ip_or_subnet''),
     (''method_deprecated'', ''method_deprecated''),
     (''client_mempool_disabled'', ''client_mempool_disabled'')]"

definition bitcoind_messages :: "(string \<times> string) list" where
  "bitcoind_messages =
   [(''success'', ''success''), (''invalid_request'', ''invalid_request''),
     (''method_not_found'', ''method_not_found''), (''invalid_params'', ''invalid_params''),
     (''internal_error'', ''internal_error''), (''parse_error'', ''parse_error''),
     (''misc_error'', ''misc_error''), (''forbidden_by_safe_mode'', ''forbidden_by_safe_mode''),
     (''type_error'', ''type_error''), (''invalid_address_or_key'', ''invalid_address_or_key''),
     (''out_of_memory'', ''out_of_memory''), (''invalid_parameter'', ''invalid_parameter''),
     (''database_error'', ''database_error''),
     (''deserialization_error'', ''deserialization_error''),
     (''verify_error'', ''verify_error''), (''verify_rejected'', ''verify_rejected''),
     (''verify_already_in_utxo_set'', ''verify_already_in_utxo_set''),
     (''in_warmup'', ''in_warmup''), (''method_deprecated'', ''method_deprecated''),
     (''limit_exceeded'', ''limit_exceeded''),
     (''client_not_connected'', ''client_not_connected''),
     (''client_in_initial_download'', ''client_in_initial_download''),
     (''client_node_already_added'', ''client_node_already_added''),
     (''client_node_not_added'', ''client_node_not_added''),
     (''client_node_not_connected'', ''client_node_not_connected''),
     (''client_invalid_ip_or_subnet'', ''client_invalid_ip_or_subnet''),
     (''client_p2p_disabled'', ''client_p2p_disabled''),
     (''client_node_capacity_reached'', ''client_node_capacity_reached''),
     (''client_mempool_disabled'', ''client_mempool_disabled''),
     (''wallet_error'', ''wallet_error''),
     (''wallet_insufficient_funds'', ''wallet_insufficient_funds''),
     (''wallet_invalid_label_name'', ''wallet_invalid_label_name''),
     (''wallet_keypool_ran_out'', ''wallet_keypool_ran_out''),
     (''wallet_unlock_needed'', ''wallet_unlock_needed''),
     (''wallet_passphrase_incorrect'', ''wallet_passphrase_incorrect''),
     (''wallet_wrong_enc_state'', ''wallet_wrong_enc_state''),
     (''wallet_encryption_failed'', ''wallet_encryption_failed''),
     (''wallet_already_unlocked'', ''wallet_already_unlocked''),
     (''wallet_not_found'', ''wallet_not_found''),
     (''wallet_not_specified'', ''wallet_not_specified''),
     (''wallet_already_loaded'', ''wallet_already_loaded''),
     (''wallet_already_exists'', ''wallet_already_exists'')]"

definition enumerator :: "(string \<times> int) list \<Rightarrow> string \<Rightarrow> int" where
  "enumerator table name = (case map_of table name of Some v \<Rightarrow> v | None \<Rightarrow> 0)"

subsection \<open>Translation\<close>

definition translate_electrum :: "code \<Rightarrow> code \<Rightarrow> int \<Rightarrow> code" where
  "translate_electrum depth_limited ec failure =
     (if \<not> is_error ec then code_of electrum_category 0
      else if in_category electrum_category ec then ec
      else if ec = depth_limited
      then code_of electrum_category (enumerator electrum_errors ''excessive_history'')
      else if in_category database_category ec
      then code_of electrum_category (enumerator electrum_errors ''daemon_error'')
      else code_of electrum_category failure)"

definition translate_btcd :: "code \<Rightarrow> int \<Rightarrow> code" where
  "translate_btcd ec failure =
     (if \<not> is_error ec then code_of btcd_category 0
      else if in_category btcd_category ec then ec
      else if in_category database_category ec
      then code_of btcd_category (enumerator btcd_errors ''internal_error'')
      else code_of btcd_category failure)"

definition translate_bitcoind :: "code \<Rightarrow> int \<Rightarrow> code" where
  "translate_bitcoind ec failure =
     (if \<not> is_error ec then code_of bitcoind_category 0
      else if in_category bitcoind_category ec then ec
      else if in_category database_category ec
      then code_of bitcoind_category (enumerator bitcoind_errors ''internal_error'')
      else code_of bitcoind_category failure)"

subsection \<open>Reject tokens\<close>

definition transaction_rejects :: "(string \<times> string) list" where
  "transaction_rejects =
   [(''empty_transaction'', ''bad-txns-vin-empty''),
     (''previous_output_null'', ''bad-txns-prevout-null''),
     (''spend_overflow'', ''bad-txns-txouttotal-toolarge''),
     (''invalid_coinbase_script_size'', ''bad-cb-length''),
     (''coinbase_transaction'', ''coinbase''),
     (''transaction_internal_double_spend'', ''bad-txns-inputs-duplicate''),
     (''transaction_size_limit'', ''bad-txns-oversize''),
     (''transaction_legacy_sigop_limit'', ''bad-txns-too-many-sigops''),
     (''unspent_duplicate'', ''bad-txns-BIP30''),
     (''missing_previous_output'', ''bad-txns-inputs-missingorspent''),
     (''coinbase_maturity'', ''bad-txns-premature-spend-of-coinbase''),
     (''spend_exceeds_value'', ''bad-txns-in-belowout''),
     (''transaction_sigop_limit'', ''bad-txns-too-many-sigops''),
     (''absolute_time_locked'', ''non-final''), (''relative_time_locked'', ''non-BIP68-final''),
     (''transaction_weight_limit'', ''tx-size''),
     (''confirmed_double_spend'', ''bad-txns-inputs-missingorspent'')]"

definition block_rejects :: "(string \<times> string) list" where
  "block_rejects =
   [(''invalid_proof_of_work'', ''high-hash''), (''futuristic_timestamp'', ''time-too-new''),
     (''insufficient_block_version'', ''bad-version''),
     (''anachronistic_timestamp'', ''time-too-old''),
     (''incorrect_proof_of_work'', ''bad-diffbits''), (''early_timestamp'', ''time-too-old''),
     (''orphan_block'', ''prev-blk-not-found''), (''block_size_limit'', ''bad-blk-length''),
     (''empty_block'', ''bad-blk-length''), (''first_not_coinbase'', ''bad-cb-missing''),
     (''extra_coinbases'', ''bad-cb-multiple''),
     (''internal_duplicate'', ''bad-txns-duplicate''),
     (''block_internal_double_spend'', ''bad-txns-inputs-missingorspent''),
     (''forward_reference'', ''bad-txns-inputs-missingorspent''),
     (''invalid_transaction_commitment'', ''bad-txnmrklroot''),
     (''block_legacy_sigop_limit'', ''bad-blk-sigops''),
     (''block_non_final'', ''bad-txns-nonfinal''),
     (''coinbase_height_mismatch'', ''bad-cb-height''),
     (''coinbase_value_limit'', ''bad-cb-amount''), (''block_sigop_limit'', ''bad-blk-sigops''),
     (''invalid_witness_commitment'', ''bad-witness-merkle-match''),
     (''block_weight_limit'', ''bad-blk-weight''),
     (''invalid_signature'', ''mandatory-script-verify-flag-failed''),
     (''unspent_coinbase_collision'', ''bad-txns-BIP30'')]"

record foreign_codes =
  transaction_error :: "string \<Rightarrow> int"
  block_error :: "string \<Rightarrow> int"
  node_error :: "string \<Rightarrow> int"
  code_message :: "code \<Rightarrow> string"

text \<open>The token of the first row whose enumerator has the value.\<close>

definition token :: "(string \<Rightarrow> int) \<Rightarrow> (string \<times> string) list \<Rightarrow> int \<Rightarrow> string option" where
  "token value_of rows v = map_of (map (\<lambda>(name, text). (value_of name, text)) rows) v"

definition is_node :: "foreign_codes \<Rightarrow> code \<Rightarrow> string \<Rightarrow> bool" where
  "is_node F ec name \<longleftrightarrow> ec = code_of node_category (node_error F name)"

definition reject :: "foreign_codes \<Rightarrow> code \<Rightarrow> string" where
  "reject F ec =
     (if is_node F ec ''orphan_block'' \<or> is_node F ec ''orphan_header'' then ''prev-blk-not-found''
      else if is_node F ec ''duplicate_block'' \<or> is_node F ec ''duplicate_header'' then ''duplicate''
      else
        case or_else
            (if in_category transaction_category ec
             then token (transaction_error F) transaction_rejects (code_value ec) else None)
            (if in_category block_category ec
             then token (block_error F) block_rejects (code_value ec) else None) of
          Some text \<Rightarrow> text
        | None \<Rightarrow> code_message F ec)"

subsection \<open>What a translation promises\<close>

text \<open>
  The contract of \<open>translate\<close>: success and the codes of the own category pass, and every other
  code becomes an error of the own category.
\<close>

locale code_translator =
  fixes own :: category and tr :: "code \<Rightarrow> int \<Rightarrow> code"
  assumes tr_success: "\<not> is_error ec \<Longrightarrow> tr ec failure = code_of own 0"
    and tr_own: "in_category own ec \<Longrightarrow> is_error ec \<Longrightarrow> tr ec failure = ec"
    and tr_range: "in_category own (tr ec failure)"
    and tr_error: "is_error ec \<Longrightarrow> failure \<noteq> 0 \<Longrightarrow> is_error (tr ec failure)"
begin

lemma tr_error_iff: "failure \<noteq> 0 \<Longrightarrow> is_error (tr ec failure) \<longleftrightarrow> is_error ec"
  using tr_error tr_success by (auto simp: code_of_def)

lemma tr_idem: "tr (tr ec failure) failure' = tr ec failure"
proof (cases "is_error (tr ec failure)")
  case True
  then show ?thesis using tr_own [OF tr_range] by blast
next
  case False
  then have "tr (tr ec failure) failure' = code_of own 0" by (simp add: tr_success)
  moreover have "tr ec failure = code_of own 0"
    using False tr_range [of ec failure] by (simp add: in_category_def code_of_def)
  ultimately show ?thesis by simp
qed

end

lemma enumerator_simps [simp]:
  "enumerator electrum_errors ''excessive_history'' = 10001"
  "enumerator electrum_errors ''daemon_error'' = 2"
  "enumerator btcd_errors ''internal_error'' = - 32603"
  "enumerator bitcoind_errors ''internal_error'' = - 32603"
  by (simp_all add: enumerator_def electrum_errors_def btcd_errors_def bitcoind_errors_def)

interpretation electrum_code: code_translator electrum_category "translate_electrum depth_limited"
  for depth_limited
  by unfold_locales (auto simp: translate_electrum_def in_category_def code_of_def)

interpretation btcd_code: code_translator btcd_category translate_btcd
  by unfold_locales (auto simp: translate_btcd_def in_category_def code_of_def)

interpretation bitcoind_code: code_translator bitcoind_category translate_bitcoind
  by unfold_locales (auto simp: translate_bitcoind_def in_category_def code_of_def)

text \<open>
  C40: Translating a code into the space of a service always gives a code of that service, which
  is an error exactly when the original is (the callers pass an error as the failure), and
  translating it again changes nothing; for the electrum, the btcd and the bitcoind service.
\<close>

theorem translate_own_space:
  assumes "failure \<noteq> 0"
  shows
    "in_category electrum_category (translate_electrum depth ec failure) \<and>
     is_error (translate_electrum depth ec failure) = is_error ec \<and>
     translate_electrum depth (translate_electrum depth ec failure) failure' =
       translate_electrum depth ec failure \<and>
     in_category btcd_category (translate_btcd ec failure) \<and>
     is_error (translate_btcd ec failure) = is_error ec \<and>
     translate_btcd (translate_btcd ec failure) failure' = translate_btcd ec failure \<and>
     in_category bitcoind_category (translate_bitcoind ec failure) \<and>
     is_error (translate_bitcoind ec failure) = is_error ec \<and>
     translate_bitcoind (translate_bitcoind ec failure) failure' = translate_bitcoind ec failure"
  using assms
  by (intro conjI electrum_code.tr_range electrum_code.tr_error_iff electrum_code.tr_idem
      btcd_code.tr_range btcd_code.tr_error_iff btcd_code.tr_idem
      bitcoind_code.tr_range bitcoind_code.tr_error_iff bitcoind_code.tr_idem)

theorem translate_own_space_witness:
  "is_error (translate_btcd (code_of database_category 7) (- 1)) \<and>
   is_error (translate_electrum (code_of database_category 5) (code_of node_category 7) 2)"
  using translate_own_space [of "- 1" _ "code_of database_category 7"]
    translate_own_space [of 2 "code_of database_category 5" "code_of node_category 7"]
  by (simp add: code_of_def)

text \<open>
  Wire codes are unambiguous: no two enumerators of a service share a value, except the
  documented alias of btcd, and every enumerator but that alias has a message, its own name.
\<close>

theorem wire_codes_distinct:
  "distinct (map snd electrum_errors) \<and> distinct (map snd bitcoind_errors) \<and>
   distinct (map snd (filter (\<lambda>e. fst e \<noteq> ''unimplemented'') btcd_errors)) \<and>
   electrum_messages = map (\<lambda>e. (fst e, fst e)) electrum_errors \<and>
   bitcoind_messages = map (\<lambda>e. (fst e, fst e)) bitcoind_errors \<and>
   btcd_messages = map (\<lambda>e. (fst e, fst e)) (filter (\<lambda>e. fst e \<noteq> ''unimplemented'') btcd_errors)"
  by code_simp

subsection \<open>Reject tokens of validation codes\<close>

definition codes_distinct :: "foreign_codes \<Rightarrow> bool" where
  "codes_distinct F \<longleftrightarrow> distinct (map (transaction_error F \<circ> fst) transaction_rejects) \<and>
     distinct (map (block_error F \<circ> fst) block_rejects)"

lemma token_of_row:
  "distinct (map (value_of \<circ> fst) rows) \<Longrightarrow> (name, text) \<in> set rows \<Longrightarrow>
     token value_of rows (value_of name) = Some text"
  by (induction rows) (auto simp: token_def image_iff)

lemma token_of_none: "v \<notin> value_of ` fst ` set rows \<Longrightarrow> token value_of rows v = None"
  by (force simp: token_def map_of_eq_None_iff)

text \<open>
  A validation code that the tables list is reported as its bip22 token, for transaction and
  for block codes; a validation code that they do not list is reported by its message.
\<close>

theorem reject_tokens:
  assumes "codes_distinct F"
  shows "(\<forall>(name, text) \<in> set transaction_rejects.
       reject F (code_of transaction_category (transaction_error F name)) = text) \<and>
    (\<forall>(name, text) \<in> set block_rejects.
       reject F (code_of block_category (block_error F name)) = text) \<and>
    (\<forall>v. v \<notin> transaction_error F ` fst ` set transaction_rejects \<longrightarrow>
       reject F (code_of transaction_category v) = code_message F (code_of transaction_category v)) \<and>
    (\<forall>v. v \<notin> block_error F ` fst ` set block_rejects \<longrightarrow>
       reject F (code_of block_category v) = code_message F (code_of block_category v))"
proof (intro conjI ballI allI impI)
  fix v assume "v \<notin> transaction_error F ` fst ` set transaction_rejects"
  then have "token (transaction_error F) transaction_rejects v = None"
    by (rule token_of_none)
  then show "reject F (code_of transaction_category v) = code_message F (code_of transaction_category v)"
    by (simp add: reject_def is_node_def in_category_def code_of_def)
next
  fix v assume "v \<notin> block_error F ` fst ` set block_rejects"
  then have "token (block_error F) block_rejects v = None"
    by (rule token_of_none)
  then show "reject F (code_of block_category v) = code_message F (code_of block_category v)"
    by (simp add: reject_def is_node_def in_category_def code_of_def)
qed (use assms in \<open>auto simp: reject_def is_node_def in_category_def code_of_def codes_distinct_def
  token_of_row\<close>)

definition sample_codes :: foreign_codes where
  "sample_codes =
     \<lparr>transaction_error = (\<lambda>name. int (length (takeWhile (\<lambda>row. fst row \<noteq> name) transaction_rejects))),
      block_error = (\<lambda>name. int (length (takeWhile (\<lambda>row. fst row \<noteq> name) block_rejects))),
      node_error = (\<lambda>name. int (length name)), code_message = (\<lambda>_. ''message'')\<rparr>"

lemma sample_codes_distinct: "codes_distinct sample_codes"
  by code_simp

theorem reject_tokens_witness:
  "reject sample_codes (code_of transaction_category
     (transaction_error sample_codes ''coinbase_maturity'')) = ''bad-txns-premature-spend-of-coinbase''"
proof -
  have "(''coinbase_maturity'', ''bad-txns-premature-spend-of-coinbase'') \<in> set transaction_rejects"
    by code_simp
  then show ?thesis using reject_tokens [OF sample_codes_distinct] by fastforce
qed

end
