(* ===== verification/Std_Map.thy ===== *)
theory Std_Map
  imports Prelude "HOL-Library.Product_Lexorder"
begin

text \<open>
  std::map as the code uses it: entries in the order of their keys, \<open>emplace\<close> (and
  \<open>try_emplace\<close>) that keeps an existing entry, \<open>erase\<close> by key, and iteration in key order. The
  components that bound the size of such a map rest on the interface \<open>keyed_store\<close>.
\<close>

text \<open>A chain point, ordered by its hash and then its index.\<close>

type_synonym point = "hash_digest \<times> u32"

fun emplace :: "'k :: linorder \<Rightarrow> 'v \<Rightarrow> ('k \<times> 'v) list \<Rightarrow> ('k \<times> 'v) list" where
  "emplace k v [] = [(k, v)]"
| "emplace k v (e # m) =
     (if k < fst e then (k, v) # e # m
      else if k = fst e then e # m
      else e # emplace k v m)"

definition erase :: "'k \<Rightarrow> ('k \<times> 'v) list \<Rightarrow> ('k \<times> 'v) list" where
  "erase k m = filter (\<lambda>e. fst e \<noteq> k) m"

text \<open>Assignment to the value of a present key, through an iterator.\<close>

definition assign :: "'k \<Rightarrow> 'v \<Rightarrow> ('k \<times> 'v) list \<Rightarrow> ('k \<times> 'v) list" where
  "assign k v m = map (\<lambda>e. if fst e = k then (k, v) else e) m"

definition ordered :: "('k :: linorder \<times> 'v) list \<Rightarrow> bool" where
  "ordered m \<longleftrightarrow> sorted_wrt (<) (map fst m)"

lemma ordered_simps [simp]:
  "ordered []"
  "ordered (e # m) \<longleftrightarrow> (\<forall>k \<in> fst ` set m. fst e < k) \<and> ordered m"
  by (auto simp: ordered_def)

lemma keys_emplace: "fst ` set (emplace k v m) = insert k (fst ` set m)"
  by (induction m) auto

lemma ordered_emplace: "ordered m \<Longrightarrow> ordered (emplace k v m)"
  by (induction m) (force simp: keys_emplace)+

lemma ordered_filter: "ordered m \<Longrightarrow> ordered (filter P m)"
  by (induction m) auto

lemma keys_assign [simp]: "map fst (assign k v m) = map fst m"
  by (induction m) (auto simp: assign_def)

lemma assign_same_keys [simp]: "length (assign k v m) = length m" "ordered (assign k v m) = ordered m"
  by (simp_all add: ordered_def, simp add: assign_def)

lemma ordered_below: "ordered (e # m) \<Longrightarrow> k \<le> fst e \<Longrightarrow> map_of m k = None"
  by (force simp: map_of_eq_None_iff)

lemma map_of_emplace:
  "ordered m \<Longrightarrow>
   map_of (emplace k v m) k' = (if k' = k \<and> map_of m k = None then Some v else map_of m k')"
proof (induction m)
  case (Cons e m)
  then show ?case using ordered_below [OF Cons.prems] by (cases e) auto
qed simp

lemma map_of_erase: "map_of (erase k m) k' = (if k' = k then None else map_of m k')"
  by (induction m) (auto simp: erase_def)

lemma map_of_assign: "map_of (assign k v m) k' =
    (if k' = k then map_option (\<lambda>_. v) (map_of m k) else map_of m k')"
  by (induction m) (auto simp: assign_def)

lemma length_emplace:
  "ordered m \<Longrightarrow> length (emplace k v m) = length m + (if map_of m k = None then 1 else 0)"
proof (induction m)
  case (Cons e m)
  then show ?case using ordered_below [OF Cons.prems] by (cases e) auto
qed simp

lemma erase_absent: "map_of m k = None \<Longrightarrow> erase k m = m"
  by (auto simp: erase_def map_of_eq_None_iff filter_id_conv)

lemma length_erase:
  "ordered m \<Longrightarrow> length (erase k m) + (if map_of m k = None then 0 else 1) = length m"
proof (induction m)
  case (Cons e m)
  have "fst e = k \<Longrightarrow> erase k m = m"
    using ordered_below [OF Cons.prems, of k] by (simp add: erase_absent)
  then show ?case using Cons ordered_below [OF Cons.prems, of k] by (cases e) (auto simp: erase_def)
qed (simp add: erase_def)

lemma erase_emplace_new: "ordered m \<Longrightarrow> map_of m k = None \<Longrightarrow> erase k (emplace k v m) = m"
proof (induction m)
  case (Cons e m)
  then show ?case by (cases e) (force simp: erase_def map_of_eq_None_iff filter_id_conv)
qed (simp add: erase_def)

lemma emplace_nonempty [simp]: "emplace k v m \<noteq> []"
  by (cases m) auto

lemma assign_empty [simp]: "assign k v m = [] \<longleftrightarrow> m = []"
  by (simp add: assign_def)

lemma erase_assign: "erase k (assign k v m) = erase k m"
  by (induction m) (auto simp: erase_def assign_def)

text \<open>
  The interface on which the limits of the services rest: lookup after insertion and removal,
  and how each changes the size.
\<close>

locale keyed_store =
  fixes valid :: "'m \<Rightarrow> bool" and look :: "'m \<Rightarrow> 'k \<Rightarrow> 'v option"
    and put :: "'k \<Rightarrow> 'v \<Rightarrow> 'm \<Rightarrow> 'm" and del :: "'k \<Rightarrow> 'm \<Rightarrow> 'm" and size_of :: "'m \<Rightarrow> nat"
  assumes put_valid: "valid m \<Longrightarrow> valid (put k v m)"
    and del_valid: "valid m \<Longrightarrow> valid (del k m)"
    and look_put: "valid m \<Longrightarrow> look (put k v m) k' =
      (if k' = k \<and> look m k = None then Some v else look m k')"
    and look_del: "valid m \<Longrightarrow> look (del k m) k' = (if k' = k then None else look m k')"
    and size_put: "valid m \<Longrightarrow> size_of (put k v m) = size_of m + (if look m k = None then 1 else 0)"
    and size_del: "valid m \<Longrightarrow> size_of (del k m) + (if look m k = None then 0 else 1) = size_of m"
    and size_zero: "valid m \<Longrightarrow> size_of m = 0 \<longleftrightarrow> (\<forall>k. look m k = None)"
begin

lemma put_limited: "valid m \<Longrightarrow> size_of m < limit \<Longrightarrow> size_of (put k v m) \<le> limit"
  by (simp add: size_put)

lemma del_limited: "valid m \<Longrightarrow> size_of m \<le> limit \<Longrightarrow> size_of (del k m) \<le> limit"
  using size_del [of m k] by (simp split: if_splits)

lemma put_nonempty: "valid m \<Longrightarrow> size_of (put k v m) \<noteq> 0"
  by (auto simp: size_zero [OF put_valid] look_put)

lemma put_present: "valid m \<Longrightarrow> look m k \<noteq> None \<Longrightarrow> look (put k v m) = look m"
  by (auto simp: look_put)

end

interpretation std: keyed_store ordered map_of emplace erase length
proof (unfold_locales)
  show "length m = 0 \<longleftrightarrow> (\<forall>k. map_of m k = None)" for m :: "('a \<times> 'b) list"
    by (cases m) (auto simp: map_of_eq_None_iff)
  show "ordered (erase k m)" if "ordered m" for k and m :: "('a \<times> 'b) list"
    using that by (simp add: erase_def ordered_filter)
qed (rule ordered_emplace map_of_emplace map_of_erase length_emplace length_erase; assumption)+

end
