(* ===== verification/Electrum_Subscribe.thy ===== *)
theory Electrum_Subscribe
  imports Electrum_Version Errors Std_Map
begin

text \<open>
  Subscriptions of the electrum service: \<open>protocol_electrum_subscribe.cpp\<close>,
  \<open>protocol_electrum_outpoints.cpp\<close>, the subscription handlers of
  \<open>protocol_electrum_scriptpubkey.cpp\<close> and the event handler of \<open>protocol_electrum.cpp\<close>.

  A request handler runs on the channel strand and posts a job to the notification strand; the
  job reads the archive, changes the subscription maps and posts its result back, where it is
  sent. The jobs are functions from the state of the protocol to the new state and what
  they post. The archive changes between jobs, so each takes the view it reads; the functions of
  the system and database libraries are the fields of \<open>subscribe_lib\<close>.
\<close>

subsection \<open>Data\<close>

datatype notify_t = notify_address | notify_scripthash | notify_scriptpubkey

record ('m, 'c) address_subscription =
  sub_type :: notify_t
  cursor :: 'c
  status :: hash_digest
  accumulator :: 'm

record 'h outpoint_subscription =
  outpoint :: 'h
  spenders :: "'h list"

record ('h, 'm, 'c) subscribe_lib =
  history_hash :: "'h \<Rightarrow> hash_digest"
  history_height :: "'h \<Rightarrow> u64"
  history_confirmed :: "'h \<Rightarrow> bool"
  history_valid :: "'h \<Rightarrow> bool"
  no_history :: 'h
  difference :: "'h list \<Rightarrow> 'h list \<Rightarrow> 'h list"
  midstate_initial :: 'm
  midstate_write :: "string \<Rightarrow> 'm \<Rightarrow> 'm"
  midstate_flush :: "'m \<Rightarrow> hash_digest"
  cursor_initial :: 'c
  encode_hash :: "hash_digest \<Rightarrow> string"
  encode_base16 :: "hash_digest \<Rightarrow> string"
  signed_text :: "u64 \<Rightarrow> string"
  decode_hash_text :: "string \<Rightarrow> hash_digest option"
  decode_bytes :: "string \<Rightarrow> u8 list option"
  script_valid :: "u8 list \<Rightarrow> bool"
  script_digest :: "u8 list \<Rightarrow> hash_digest"
  to_index :: "double \<Rightarrow> u32 option"
  query_canceled :: code
  depth_limited :: code

record ('h, 'c) archive_view =
  address_enabled :: bool
  get_history :: "'c \<Rightarrow> hash_digest \<Rightarrow> u64 \<Rightarrow> code \<times> 'c \<times> 'h list"
  get_tx_history :: "hash_digest \<Rightarrow> 'h"
  get_spenders_history :: "point \<Rightarrow> 'h list"

record subscribe_options =
  maximum_subscriptions :: u32
  maximum_history :: u32

record ('h, 'm, 'c) electrum_state =
  subscribed_height :: bool
  subscribed_header :: bool
  subscribed_address :: bool
  subscribed_outpoint :: bool
  outpoint_subscriptions :: "(point \<times> 'h outpoint_subscription) list"
  address_subscriptions :: "(hash_digest \<times> ('m, 'c) address_subscription) list"

definition initial_electrum :: "('h, 'm, 'c) electrum_state" where
  "initial_electrum = \<lparr>subscribed_height = False, subscribed_header = False,
     subscribed_address = False, subscribed_outpoint = False,
     outpoint_subscriptions = [], address_subscriptions = []\<rparr>"

abbreviation success_code :: code where
  "success_code \<equiv> code_of electrum_category 0"

abbreviation electrum_error :: "string \<Rightarrow> code" where
  "electrum_error name \<equiv> code_of electrum_category (enumerator electrum_errors name)"

text \<open>What a handler on the channel strand does: nothing, a reply, or a job for the other strand.\<close>

datatype job =
    Do_Scripthash_Subscribe hash_digest notify_t
  | Do_Scripthash_Unsubscribe hash_digest
  | Do_Outpoint_Subscribe point
  | Do_Outpoint_Unsubscribe point
  | Do_Scripthash | Do_Outpoint | Do_Reorganized
  | Do_Height u32 | Do_Header u32

datatype reaction = Ignored | Send_Code code | Send_Result value_t | Post_Job job

datatype 'h posted =
    Complete_Scripthash_Subscribe code hash_digest
  | Complete_Scripthash_Unsubscribe bool
  | Scripthash_Notify hash_digest hash_digest notify_t
  | Complete_Outpoint_Subscribe code "'h outpoint_subscription" point
  | Complete_Outpoint_Unsubscribe bool
  | Outpoint_Notify object_t point

text \<open>A message to the client: an error, a result, or a notification.\<close>

datatype message = Error_Message code | Result_Message value_t | Notification string "value_t list"

subsection \<open>Request handlers\<close>

definition scripthash_subscribe :: "('h, 'c) archive_view \<Rightarrow> hash_digest \<Rightarrow> notify_t \<Rightarrow> reaction" where
  "scripthash_subscribe A hash type =
     (if \<not> address_enabled A then Send_Code (electrum_error ''method_not_found'')
      else Post_Job (Do_Scripthash_Subscribe hash type))"

definition scripthash_unsubscribe :: "('h, 'c) archive_view \<Rightarrow> hash_digest \<Rightarrow> reaction" where
  "scripthash_unsubscribe A hash =
     (if \<not> address_enabled A then Send_Code (electrum_error ''method_not_found'')
      else Post_Job (Do_Scripthash_Unsubscribe hash))"

definition handle_scripthash_subscribe ::
  "('h, 'm, 'c) subscribe_lib \<Rightarrow> ('h, 'c) archive_view \<Rightarrow> electrum_version \<Rightarrow> bool \<Rightarrow> string \<Rightarrow> reaction" where
  "handle_scripthash_subscribe L A version stopped scripthash =
     (if stopped then Ignored
      else if \<not> version \<ge> v1_1 \<or> version \<ge> v1_7 then Send_Code (electrum_error ''bad_request'')
      else case decode_hash_text L scripthash of
          None \<Rightarrow> Send_Code (electrum_error ''bad_request'')
        | Some hash \<Rightarrow> scripthash_subscribe A hash notify_scripthash)"

definition handle_scripthash_unsubscribe ::
  "('h, 'm, 'c) subscribe_lib \<Rightarrow> ('h, 'c) archive_view \<Rightarrow> electrum_version \<Rightarrow> bool \<Rightarrow> string \<Rightarrow> reaction" where
  "handle_scripthash_unsubscribe L A version stopped scripthash =
     (if stopped then Ignored
      else if \<not> version \<ge> v1_4_2 \<or> version \<ge> v1_7 then Send_Code (electrum_error ''bad_request'')
      else case decode_hash_text L scripthash of
          None \<Rightarrow> Send_Code (electrum_error ''bad_request'')
        | Some hash \<Rightarrow> scripthash_unsubscribe A hash)"

text \<open>The hash of the script a base16 text encodes, if it encodes a valid script.\<close>

definition script_hash :: "('h, 'm, 'c) subscribe_lib \<Rightarrow> string \<Rightarrow> hash_digest option" where
  "script_hash L scriptpubkey =
     (case decode_bytes L scriptpubkey of
        None \<Rightarrow> None
      | Some bytes \<Rightarrow> if \<not> script_valid L bytes then None else Some (script_digest L bytes))"

definition handle_scriptpubkey_subscribe ::
  "('h, 'm, 'c) subscribe_lib \<Rightarrow> ('h, 'c) archive_view \<Rightarrow> electrum_version \<Rightarrow> bool \<Rightarrow> string \<Rightarrow> reaction" where
  "handle_scriptpubkey_subscribe L A version stopped scriptpubkey =
     (if stopped then Ignored
      else if \<not> version \<ge> v1_7 then Send_Code (electrum_error ''bad_request'')
      else case script_hash L scriptpubkey of
          None \<Rightarrow> Send_Code (electrum_error ''bad_request'')
        | Some hash \<Rightarrow> scripthash_subscribe A hash notify_scriptpubkey)"

definition handle_scriptpubkey_unsubscribe ::
  "('h, 'm, 'c) subscribe_lib \<Rightarrow> ('h, 'c) archive_view \<Rightarrow> electrum_version \<Rightarrow> bool \<Rightarrow> string \<Rightarrow> reaction" where
  "handle_scriptpubkey_unsubscribe L A version stopped scriptpubkey =
     (if stopped then Ignored
      else if \<not> version \<ge> v1_7 then Send_Code (electrum_error ''bad_request'')
      else case script_hash L scriptpubkey of
          None \<Rightarrow> Send_Code (electrum_error ''bad_request'')
        | Some hash \<Rightarrow> scripthash_unsubscribe A hash)"

definition is_valid_hint :: "('h, 'm, 'c) subscribe_lib \<Rightarrow> string \<Rightarrow> bool" where
  "is_valid_hint L hint =
     (if hint \<noteq> [] then
        (case decode_bytes L hint of None \<Rightarrow> False | Some bytes \<Rightarrow> script_valid L bytes)
      else True)"

definition handle_outpoint_subscribe ::
  "('h, 'm, 'c) subscribe_lib \<Rightarrow> electrum_version \<Rightarrow> bool \<Rightarrow> string \<Rightarrow> double \<Rightarrow> string \<Rightarrow> reaction" where
  "handle_outpoint_subscribe L version stopped tx_hash txout_idx spk_hint =
     (if stopped then Ignored
      else if \<not> version \<ge> v1_7 then Send_Code (electrum_error ''bad_request'')
      else case (to_index L txout_idx, decode_hash_text L tx_hash) of
          (Some index, Some hash) \<Rightarrow>
            if \<not> is_valid_hint L spk_hint then Send_Code (electrum_error ''bad_request'')
            else Post_Job (Do_Outpoint_Subscribe (hash, index))
        | _ \<Rightarrow> Send_Code (electrum_error ''bad_request''))"

definition handle_outpoint_unsubscribe ::
  "('h, 'm, 'c) subscribe_lib \<Rightarrow> electrum_version \<Rightarrow> bool \<Rightarrow> string \<Rightarrow> double \<Rightarrow> reaction" where
  "handle_outpoint_unsubscribe L version stopped tx_hash txout_idx =
     (if stopped then Ignored
      else if \<not> version \<ge> v1_7 then Send_Code (electrum_error ''bad_request'')
      else case (to_index L txout_idx, decode_hash_text L tx_hash) of
          (Some index, Some hash) \<Rightarrow> Post_Job (Do_Outpoint_Unsubscribe (hash, index))
        | _ \<Rightarrow> Send_Code (electrum_error ''bad_request''))"

subsection \<open>Address status\<close>

definition write_status :: "('h, 'm, 'c) subscribe_lib \<Rightarrow> 'h \<Rightarrow> 'm \<Rightarrow> 'm" where
  "write_status L history midstate =
     midstate_write L '':''
       (midstate_write L (signed_text L (history_height L history))
         (midstate_write L '':''
           (midstate_write L (encode_hash L (history_hash L history)) midstate)))"

definition get_scripthash_history ::
  "('h, 'm, 'c) subscribe_lib \<Rightarrow> ('h, 'c) archive_view \<Rightarrow> ('m, 'c) address_subscription \<Rightarrow>
   hash_digest \<Rightarrow> u64 \<Rightarrow> code \<times> ('m, 'c) address_subscription" where
  "get_scripthash_history L A sub hash limit =
     (case get_history A (cursor sub) hash limit of (ec, next, history) \<Rightarrow>
        let sub = sub\<lparr>cursor := next\<rparr> in
        if is_error ec then (ec, sub)
        else if history = [] then (success_code, sub)
        else
          let sub = sub\<lparr>accumulator :=
                fold (write_status L) (takeWhile (history_confirmed L) history) (accumulator sub)\<rparr>;
              copy = fold (write_status L) (dropWhile (history_confirmed L) history) (accumulator sub) in
          (success_code, sub\<lparr>status := midstate_flush L copy\<rparr>))"

definition status_value :: "('h, 'm, 'c) subscribe_lib \<Rightarrow> hash_digest \<Rightarrow> value_t" where
  "status_value L st = (if st = null_hash then Null else String (encode_base16 L st))"

subsection \<open>Jobs of the notification strand: addresses\<close>

definition do_scripthash_subscribe ::
  "('h, 'm, 'c) subscribe_lib \<Rightarrow> subscribe_options \<Rightarrow> ('h, 'c) archive_view \<Rightarrow> hash_digest \<Rightarrow>
   notify_t \<Rightarrow> ('h, 'm, 'c) electrum_state \<Rightarrow> ('h, 'm, 'c) electrum_state \<times> 'h posted" where
  "do_scripthash_subscribe L opts A hash type s =
     (if length (address_subscriptions s) < unat (maximum_subscriptions opts) then
        let fresh = \<lparr>sub_type = type, cursor = cursor_initial L, status = null_hash,
              accumulator = midstate_initial L\<rparr>;
            inserted = (map_of (address_subscriptions s) hash = None);
            subs = emplace hash fresh (address_subscriptions s);
            limit = (if inserted then ucast (maximum_history opts) else max_size_t);
            (ec, sub) = get_scripthash_history L A (the (map_of subs hash)) hash limit;
            subs = assign hash sub subs in
        if is_error ec then
          (s\<lparr>address_subscriptions := if inserted then erase hash subs else subs\<rparr>,
           Complete_Scripthash_Subscribe ec null_hash)
        else
          (s\<lparr>address_subscriptions := subs, subscribed_address := True\<rparr>,
           Complete_Scripthash_Subscribe ec (status sub))
      else (s, Complete_Scripthash_Subscribe (electrum_error ''excessive_resource_usage'') null_hash))"

definition do_scripthash_unsubscribe ::
  "hash_digest \<Rightarrow> ('h, 'm, 'c) electrum_state \<Rightarrow> ('h, 'm, 'c) electrum_state \<times> 'h posted" where
  "do_scripthash_unsubscribe hash s =
     (let found = (map_of (address_subscriptions s) hash \<noteq> None);
          s = s\<lparr>address_subscriptions := erase hash (address_subscriptions s)\<rparr>;
          s = (if length (address_subscriptions s) = 0 then s\<lparr>subscribed_address := False\<rparr> else s) in
      (s, Complete_Scripthash_Unsubscribe found))"

text \<open>The loop over the address subscriptions, which a canceled query ends.\<close>

fun scripthash_loop ::
  "('h, 'm, 'c) subscribe_lib \<Rightarrow> ('h, 'c) archive_view \<Rightarrow>
   (hash_digest \<times> ('m, 'c) address_subscription) list \<Rightarrow>
   (hash_digest \<times> ('m, 'c) address_subscription) list \<times> 'h posted list" where
  "scripthash_loop L A [] = ([], [])"
| "scripthash_loop L A ((key, sub) # rest) =
     (let (ec, next) = get_scripthash_history L A sub key max_size_t in
      if is_error ec \<and> ec = query_canceled L then ((key, next) # rest, [])
      else
        let (subs, posts) = scripthash_loop L A rest in
        ((key, next) # subs,
         (if \<not> is_error ec \<and> status next \<noteq> status sub
          then [Scripthash_Notify (status next) key (sub_type next)] else []) @ posts))"

definition do_scripthash ::
  "('h, 'm, 'c) subscribe_lib \<Rightarrow> ('h, 'c) archive_view \<Rightarrow>
   ('h, 'm, 'c) electrum_state \<Rightarrow> ('h, 'm, 'c) electrum_state \<times> 'h posted list" where
  "do_scripthash L A s =
     (let (subs, posts) = scripthash_loop L A (address_subscriptions s) in
      (s\<lparr>address_subscriptions := subs\<rparr>, posts))"

definition do_reorganized ::
  "('h, 'm, 'c) subscribe_lib \<Rightarrow> ('h, 'm, 'c) electrum_state \<Rightarrow> ('h, 'm, 'c) electrum_state" where
  "do_reorganized L s =
     s\<lparr>address_subscriptions := map (\<lambda>(key, sub). (key, sub\<lparr>accumulator := midstate_initial L,
         status := null_hash, cursor := cursor_initial L\<rparr>)) (address_subscriptions s)\<rparr>"

subsection \<open>Jobs of the notification strand: outpoints\<close>

definition get_outpoint_history ::
  "('h, 'm, 'c) subscribe_lib \<Rightarrow> ('h, 'c) archive_view \<Rightarrow> point \<Rightarrow> bool \<times> 'h outpoint_subscription" where
  "get_outpoint_history L A prevout =
     (let found = get_tx_history A (fst prevout) in
      if \<not> history_valid L found then (False, \<lparr>outpoint = found, spenders = []\<rparr>)
      else (True, \<lparr>outpoint = found, spenders = get_spenders_history A prevout\<rparr>))"

definition funder_status :: "u64 \<Rightarrow> object_t" where
  "funder_status height = [''funder_height'' \<mapsto> I64 height]"

definition spender_status :: "('h, 'm, 'c) subscribe_lib \<Rightarrow> u64 \<Rightarrow> 'h \<Rightarrow> object_t" where
  "spender_status L height history =
     [''funder_height'' \<mapsto> I64 height,
      ''spender_txhash'' \<mapsto> String (encode_hash L (history_hash L history)),
      ''spender_height'' \<mapsto> I64 (history_height L history)]"

definition to_outpoint_status :: "('h, 'm, 'c) subscribe_lib \<Rightarrow> 'h outpoint_subscription \<Rightarrow> object_t" where
  "to_outpoint_status L sub =
     (if \<not> history_valid L (outpoint sub) then Map.empty
      else
        let height = history_height L (outpoint sub) in
        (case spenders sub of
           [] \<Rightarrow> funder_status height
         | first # _ \<Rightarrow> spender_status L height first))"

definition handle_outpoint_get_status ::
  "('h, 'm, 'c) subscribe_lib \<Rightarrow> ('h, 'c) archive_view \<Rightarrow> electrum_version \<Rightarrow> bool \<Rightarrow> string \<Rightarrow>
   double \<Rightarrow> string \<Rightarrow> reaction" where
  "handle_outpoint_get_status L A version stopped tx_hash txout_idx spk_hint =
     (if stopped then Ignored
      else if \<not> version \<ge> v1_7 then Send_Code (electrum_error ''bad_request'')
      else case (to_index L txout_idx, decode_hash_text L tx_hash) of
          (Some index, Some hash) \<Rightarrow>
            if \<not> is_valid_hint L spk_hint then Send_Code (electrum_error ''bad_request'')
            else Send_Result (Object (to_outpoint_status L
                   (snd (get_outpoint_history L A (hash, index)))))
        | _ \<Rightarrow> Send_Code (electrum_error ''bad_request''))"

definition do_outpoint_subscribe ::
  "('h, 'm, 'c) subscribe_lib \<Rightarrow> subscribe_options \<Rightarrow> ('h, 'c) archive_view \<Rightarrow> point \<Rightarrow>
   ('h, 'm, 'c) electrum_state \<Rightarrow> ('h, 'm, 'c) electrum_state \<times> 'h posted" where
  "do_outpoint_subscribe L opts A prevout s =
     (if length (outpoint_subscriptions s) < unat (maximum_subscriptions opts) then
        let sub = snd (get_outpoint_history L A prevout) in
        (s\<lparr>outpoint_subscriptions := emplace prevout sub (outpoint_subscriptions s),
           subscribed_outpoint := True\<rparr>,
         Complete_Outpoint_Subscribe success_code sub prevout)
      else (s, Complete_Outpoint_Subscribe (electrum_error ''excessive_resource_usage'')
              \<lparr>outpoint = no_history L, spenders = []\<rparr> prevout))"

definition do_outpoint_unsubscribe ::
  "point \<Rightarrow> ('h, 'm, 'c) electrum_state \<Rightarrow> ('h, 'm, 'c) electrum_state \<times> 'h posted" where
  "do_outpoint_unsubscribe prevout s =
     (let found = (map_of (outpoint_subscriptions s) prevout \<noteq> None);
          s = s\<lparr>outpoint_subscriptions := erase prevout (outpoint_subscriptions s)\<rparr>;
          s = (if length (outpoint_subscriptions s) = 0 then s\<lparr>subscribed_outpoint := False\<rparr> else s) in
      (s, Complete_Outpoint_Unsubscribe found))"

text \<open>The notifications of one outpoint whose state has changed.\<close>

definition outpoint_changes ::
  "('h, 'm, 'c) subscribe_lib \<Rightarrow> point \<Rightarrow> 'h outpoint_subscription \<Rightarrow> 'h outpoint_subscription \<Rightarrow>
   'h posted list" where
  "outpoint_changes L prevout sub out =
     (let height = history_height L (outpoint out) in
      if \<not> history_valid L (outpoint sub) \<or> height \<noteq> history_height L (outpoint sub) then
        if spenders out = [] then [Outpoint_Notify (funder_status height) prevout]
        else map (\<lambda>spender. Outpoint_Notify (spender_status L height spender) prevout) (spenders out)
      else map (\<lambda>spender. Outpoint_Notify (spender_status L height spender) prevout)
             (difference L (spenders out) (spenders sub)))"

text \<open>The loop; \<open>stopping\<close> is the value of the stop flag read when the loop reaches the entry.\<close>

fun outpoint_loop ::
  "('h, 'm, 'c) subscribe_lib \<Rightarrow> ('h, 'c) archive_view \<Rightarrow> (point \<Rightarrow> bool) \<Rightarrow>
   (point \<times> 'h outpoint_subscription) list \<Rightarrow>
   (point \<times> 'h outpoint_subscription) list \<times> 'h posted list" where
  "outpoint_loop L A stopping [] = ([], [])"
| "outpoint_loop L A stopping ((prevout, sub) # rest) =
     (if stopping prevout then ((prevout, sub) # rest, [])
      else
        let (found, out) = get_outpoint_history L A prevout;
            (subs, posts) = outpoint_loop L A stopping rest in
        if \<not> found \<or> sub = out then ((prevout, sub) # subs, posts)
        else ((prevout, out) # subs, outpoint_changes L prevout sub out @ posts))"

definition do_outpoint ::
  "('h, 'm, 'c) subscribe_lib \<Rightarrow> ('h, 'c) archive_view \<Rightarrow> (point \<Rightarrow> bool) \<Rightarrow>
   ('h, 'm, 'c) electrum_state \<Rightarrow> ('h, 'm, 'c) electrum_state \<times> 'h posted list" where
  "do_outpoint L A stopping s =
     (let (subs, posts) = outpoint_loop L A stopping (outpoint_subscriptions s) in
      (s\<lparr>outpoint_subscriptions := subs\<rparr>, posts))"

subsection \<open>Completions and notifications\<close>

definition to_method_name :: "notify_t \<Rightarrow> string" where
  "to_method_name type =
     (case type of
        notify_address \<Rightarrow> ''blockchain.address.subscribe''
      | notify_scripthash \<Rightarrow> ''blockchain.scripthash.subscribe''
      | notify_scriptpubkey \<Rightarrow> ''blockchain.scriptpubkey.subscribe'')"

definition outpoint_notify :: "('h, 'm, 'c) subscribe_lib \<Rightarrow> object_t \<Rightarrow> point \<Rightarrow> message" where
  "outpoint_notify L st prevout = Notification ''blockchain.outpoint.subscribe''
     [String (encode_hash L (fst prevout)), U32 (snd prevout), Object st]"

definition complete_outpoint_subscribe ::
  "('h, 'm, 'c) subscribe_lib \<Rightarrow> code \<Rightarrow> 'h outpoint_subscription \<Rightarrow> point \<Rightarrow> message list" where
  "complete_outpoint_subscribe L ec sub prevout =
     (if is_error ec then
        [Error_Message (translate_electrum (depth_limited L) ec
           (enumerator electrum_errors ''daemon_error''))]
      else
        Result_Message (Object (to_outpoint_status L sub)) #
        (if spenders sub = [] then []
         else map (\<lambda>spender. outpoint_notify L
                (spender_status L (history_height L (outpoint sub)) spender) prevout)
              (tl (spenders sub))))"

definition complete_scripthash_subscribe ::
  "('h, 'm, 'c) subscribe_lib \<Rightarrow> code \<Rightarrow> hash_digest \<Rightarrow> message list" where
  "complete_scripthash_subscribe L ec st =
     (if is_error ec then
        [Error_Message (translate_electrum (depth_limited L) ec
           (enumerator electrum_errors ''daemon_error''))]
      else [Result_Message (status_value L st)])"

definition scripthash_notify ::
  "('h, 'm, 'c) subscribe_lib \<Rightarrow> hash_digest \<Rightarrow> hash_digest \<Rightarrow> notify_t \<Rightarrow> message" where
  "scripthash_notify L st hash type = Notification (to_method_name type)
     [String (encode_hash L hash), status_value L st]"

text \<open>What a posted completion sends; completions of subscriptions check for a stopped channel.\<close>

definition deliver :: "('h, 'm, 'c) subscribe_lib \<Rightarrow> bool \<Rightarrow> 'h posted \<Rightarrow> message list" where
  "deliver L stopped p =
     (case p of
        Complete_Scripthash_Subscribe ec st \<Rightarrow>
          if stopped then [] else complete_scripthash_subscribe L ec st
      | Complete_Scripthash_Unsubscribe found \<Rightarrow> [Result_Message (Boolean found)]
      | Scripthash_Notify st hash type \<Rightarrow> [scripthash_notify L st hash type]
      | Complete_Outpoint_Subscribe ec sub prevout \<Rightarrow>
          if stopped then [] else complete_outpoint_subscribe L ec sub prevout
      | Complete_Outpoint_Unsubscribe found \<Rightarrow> [Result_Message (Boolean found)]
      | Outpoint_Notify st prevout \<Rightarrow> [outpoint_notify L st prevout])"

subsection \<open>Chain events\<close>

datatype chase_event = Chase_Transaction u32 | Chase_Organized u32 | Chase_Reorganized u32 | Chase_Other

text \<open>
  The jobs an event posts. The result is None when the protocol is stopped, on which the
  subscription to events ends.
\<close>

definition handle_chase ::
  "bool \<Rightarrow> bool \<Rightarrow> chase_event \<Rightarrow> ('h, 'm, 'c) electrum_state \<Rightarrow> job list option" where
  "handle_chase stopped duplex event s =
     (if stopped then None
      else if \<not> duplex then Some []
      else Some (case event of
          Chase_Transaction _ \<Rightarrow>
            (if subscribed_outpoint s then [Do_Outpoint] else []) @
            (if subscribed_address s then [Do_Scripthash] else [])
        | Chase_Organized link \<Rightarrow>
            (if subscribed_height s then [Do_Height link] else []) @
            (if subscribed_header s then [Do_Header link] else []) @
            (if subscribed_outpoint s then [Do_Outpoint] else []) @
            (if subscribed_address s then [Do_Scripthash] else [])
        | Chase_Reorganized _ \<Rightarrow> [Do_Reorganized]
        | Chase_Other \<Rightarrow> []))"

subsection \<open>The state machine\<close>

text \<open>
  Any sequence of jobs, each with the view of the archive it happens to read, and the two
  subscription flags that the header methods set.
\<close>

inductive sub_step ::
  "('h, 'm, 'c) subscribe_lib \<Rightarrow> subscribe_options \<Rightarrow>
   ('h, 'm, 'c) electrum_state \<Rightarrow> ('h, 'm, 'c) electrum_state \<Rightarrow> bool"
  for L opts where
  Scripthash_Subscribe: "sub_step L opts s (fst (do_scripthash_subscribe L opts A hash type s))"
| Scripthash_Unsubscribe: "sub_step L opts s (fst (do_scripthash_unsubscribe hash s))"
| Scripthash: "sub_step L opts s (fst (do_scripthash L A s))"
| Reorganized: "sub_step L opts s (do_reorganized L s)"
| Outpoint_Subscribe: "sub_step L opts s (fst (do_outpoint_subscribe L opts A prevout s))"
| Outpoint_Unsubscribe: "sub_step L opts s (fst (do_outpoint_unsubscribe prevout s))"
| Outpoint: "sub_step L opts s (fst (do_outpoint L A stopping s))"
| Height_Subscribed: "sub_step L opts s (s\<lparr>subscribed_height := True\<rparr>)"
| Header_Subscribed: "sub_step L opts s (s\<lparr>subscribed_header := True\<rparr>)"

definition sub_inv :: "subscribe_options \<Rightarrow> ('h, 'm, 'c) electrum_state \<Rightarrow> bool" where
  "sub_inv opts s \<longleftrightarrow>
     ordered (address_subscriptions s) \<and> ordered (outpoint_subscriptions s) \<and>
     length (address_subscriptions s) \<le> unat (maximum_subscriptions opts) \<and>
     length (outpoint_subscriptions s) \<le> unat (maximum_subscriptions opts) \<and>
     (subscribed_address s \<longleftrightarrow> address_subscriptions s \<noteq> []) \<and>
     (subscribed_outpoint s \<longleftrightarrow> outpoint_subscriptions s \<noteq> [])"

lemma scripthash_loop_keys: "map fst (fst (scripthash_loop L A subs)) = map fst subs"
  by (induction subs) (auto simp: split_def Let_def)

lemma outpoint_loop_keys: "map fst (fst (outpoint_loop L A stopping subs)) = map fst subs"
  by (induction subs) (auto simp: split_def Let_def)

lemma same_keys:
  "map fst m = map fst m' \<Longrightarrow> ordered m = ordered m' \<and> length m = length m' \<and> (m = [] \<longleftrightarrow> m' = [])"
  by (metis ordered_def length_map map_is_Nil_conv)

lemma sub_inv_address:
  "sub_inv opts s \<Longrightarrow> map fst subs = map fst (address_subscriptions s) \<Longrightarrow>
   sub_inv opts (s\<lparr>address_subscriptions := subs\<rparr>)"
  by (drule same_keys) (simp add: sub_inv_def)

lemma sub_inv_outpoint:
  "sub_inv opts s \<Longrightarrow> map fst subs = map fst (outpoint_subscriptions s) \<Longrightarrow>
   sub_inv opts (s\<lparr>outpoint_subscriptions := subs\<rparr>)"
  by (drule same_keys) (simp add: sub_inv_def)

lemma sub_inv_scripthash_subscribe:
  assumes "sub_inv opts s"
  shows "sub_inv opts (fst (do_scripthash_subscribe L opts A hash type s))"
proof (cases "length (address_subscriptions s) < unat (maximum_subscriptions opts)")
  case True
  let ?fresh = "\<lparr>sub_type = type, cursor = cursor_initial L, status = null_hash,
    accumulator = midstate_initial L\<rparr>"
  let ?m = "address_subscriptions s"
  let ?new = "map_of ?m hash = None"
  obtain ec sub where run: "get_scripthash_history L A (the (map_of (emplace hash ?fresh ?m) hash)) hash
      (if ?new then ucast (maximum_history opts) else max_size_t) = (ec, sub)" by fastforce
  let ?subs = "assign hash sub (emplace hash ?fresh ?m)"
  have m: "ordered ?m" using assms by (simp add: sub_inv_def)
  have subs: "ordered ?subs" "length ?subs \<le> unat (maximum_subscriptions opts)" "?subs \<noteq> []"
    using std.put_valid [OF m] std.put_limited [OF m True]
    by simp_all
  have eq: "fst (do_scripthash_subscribe L opts A hash type s) =
      (if is_error ec then s\<lparr>address_subscriptions := if ?new then erase hash ?subs else ?subs\<rparr>
       else s\<lparr>address_subscriptions := ?subs, subscribed_address := True\<rparr>)"
    by (simp only: do_scripthash_subscribe_def True if_True Let_def run prod.case
        if_distrib [of fst] fst_conv)
  have same: "sub_inv opts (s\<lparr>address_subscriptions := erase hash ?subs\<rparr>)" if ?new
    using erase_emplace_new [OF m that] assms by (simp add: erase_assign)
  have old: "?m \<noteq> []" if "\<not> ?new" using that by auto
  show ?thesis
  proof (cases "is_error ec")
    case True
    have "sub_inv opts (s\<lparr>address_subscriptions := ?subs\<rparr>)" if "\<not> ?new"
      using assms subs old [OF that] by (simp add: sub_inv_def)
    then show ?thesis unfolding eq using True same by simp
  next
    case False
    then show ?thesis unfolding eq using assms subs by (simp add: sub_inv_def)
  qed
next
  case False
  then show ?thesis using assms by (simp add: do_scripthash_subscribe_def)
qed

lemma sub_inv_scripthash_unsubscribe:
  "sub_inv opts s \<Longrightarrow> sub_inv opts (fst (do_scripthash_unsubscribe hash s))"
  using std.del_valid [of "address_subscriptions s"] std.del_limited [of "address_subscriptions s"]
  by (auto simp: sub_inv_def do_scripthash_unsubscribe_def Let_def erase_def)

lemma sub_inv_outpoint_subscribe:
  "sub_inv opts s \<Longrightarrow> sub_inv opts (fst (do_outpoint_subscribe L opts A prevout s))"
  using std.put_valid [of "outpoint_subscriptions s"] std.put_limited [of "outpoint_subscriptions s"]
  by (auto simp: sub_inv_def do_outpoint_subscribe_def Let_def)

lemma sub_inv_outpoint_unsubscribe:
  "sub_inv opts s \<Longrightarrow> sub_inv opts (fst (do_outpoint_unsubscribe prevout s))"
  using std.del_valid [of "outpoint_subscriptions s"] std.del_limited [of "outpoint_subscriptions s"]
  by (auto simp: sub_inv_def do_outpoint_unsubscribe_def Let_def erase_def)

lemma sub_inv_step:
  assumes "sub_inv opts s" "sub_step L opts s s'"
  shows "sub_inv opts s'"
  using assms(2)
proof (cases rule: sub_step.cases)
  case (Scripthash A)
  then show ?thesis using sub_inv_address [OF assms(1) scripthash_loop_keys]
    by (simp add: do_scripthash_def split_def Let_def)
next
  case Reorganized
  then show ?thesis using assms(1) by (auto simp: do_reorganized_def split_def intro!: sub_inv_address)
next
  case (Outpoint A stopping)
  then show ?thesis using sub_inv_outpoint [OF assms(1) outpoint_loop_keys]
    by (simp add: do_outpoint_def split_def Let_def)
next
  case Height_Subscribed
  then show ?thesis using assms(1) by (simp add: sub_inv_def)
next
  case Header_Subscribed
  then show ?thesis using assms(1) by (simp add: sub_inv_def)
qed (simp_all add: assms(1) sub_inv_scripthash_subscribe sub_inv_scripthash_unsubscribe
  sub_inv_outpoint_subscribe sub_inv_outpoint_unsubscribe)

lemma sub_inv_initial: "sub_inv opts initial_electrum"
  by (simp add: sub_inv_def initial_electrum_def)

interpretation subscriptions: state_machine "\<lambda>s. s = initial_electrum" "sub_step L opts"
  "sub_inv opts" for L opts
  by unfold_locales (simp add: sub_inv_initial, erule (1) sub_inv_step)

subsection \<open>A library instance for the witnesses\<close>

text \<open>Histories are pairs of a height and a confirmation flag, the cursor counts confirmed entries.\<close>

definition sample_subscribe :: "(nat \<times> bool, nat, nat) subscribe_lib" where
  "sample_subscribe = \<lparr>history_hash = (\<lambda>h. of_nat (fst h)), history_height = (\<lambda>h. of_nat (fst h)),
     history_confirmed = snd, history_valid = (\<lambda>h. fst h \<noteq> 0), no_history = (0, False),
     difference = (\<lambda>xs ys. filter (\<lambda>x. x \<notin> set ys) xs),
     midstate_initial = 1, midstate_write = (\<lambda>t m. m * 3 + length t), midstate_flush = of_nat,
     cursor_initial = 0, encode_hash = (\<lambda>h. replicate (unat h) CHR ''h''), encode_base16 = (\<lambda>h. ''b''),
     signed_text = (\<lambda>n. replicate (unat n) CHR ''n''), decode_hash_text = (\<lambda>t. Some (of_nat (length t))),
     decode_bytes = (\<lambda>t. None), script_valid = (\<lambda>t. True), script_digest = (\<lambda>t. 3), to_index = (\<lambda>d. Some (ucast d)),
     query_canceled = code_of database_category 1, depth_limited = code_of database_category 2\<rparr>"

definition sample_view :: "(nat \<times> bool) list \<Rightarrow> (nat \<times> bool) list \<Rightarrow> (nat \<times> bool, nat) archive_view" where
  "sample_view confirmed unconfirmed = \<lparr>address_enabled = True,
     get_history = (\<lambda>c hash limit. (success_code, length confirmed, drop c confirmed @ unconfirmed)),
     get_tx_history = (\<lambda>hash. (unat hash, True)), get_spenders_history = (\<lambda>p. [(7, True)])\<rparr>"

definition sample_sub_options :: subscribe_options where
  "sample_sub_options = \<lparr>maximum_subscriptions = 1, maximum_history = 10\<rparr>"

definition sample_subscribed :: "(nat \<times> bool, nat, nat) electrum_state" where
  "sample_subscribed = fst (do_scripthash_subscribe sample_subscribe sample_sub_options
     (sample_view [(1, True)] []) 5 notify_scripthash initial_electrum)"

lemma sample_subscribed_run:
  "rtranclp (sub_step sample_subscribe sample_sub_options) initial_electrum sample_subscribed"
  unfolding sample_subscribed_def by (intro r_into_rtranclp Scripthash_Subscribe)

subsection \<open>Limits and flags\<close>

definition notifies :: "chase_event \<Rightarrow> bool" where
  "notifies event \<longleftrightarrow> (case event of Chase_Transaction _ \<Rightarrow> True | Chase_Organized _ \<Rightarrow> True | _ \<Rightarrow> False)"

text \<open>
  C11: In every state the jobs can reach, in any order and whatever they read from the archive,
  neither kind of subscription exceeds the configured maximum, and the flag that lets a chain
  event post the notification job is set exactly while there is a subscription of the kind: both a
  transaction event and an organized event post the job of a kind when and only when there is somebody to
  notify, and no other event posts it. A reorganized event posts the reset of the address
  subscriptions, which no other event does.
\<close>

theorem subscriptions_limited:
  assumes "rtranclp (sub_step L opts) initial_electrum s"
  shows "length (address_subscriptions s) \<le> unat (maximum_subscriptions opts) \<and>
    length (outpoint_subscriptions s) \<le> unat (maximum_subscriptions opts) \<and>
    (\<forall>event. \<exists>jobs. handle_chase False True event s = Some jobs \<and>
       (Do_Scripthash \<in> set jobs \<longleftrightarrow> notifies event \<and> address_subscriptions s \<noteq> []) \<and>
       (Do_Outpoint \<in> set jobs \<longleftrightarrow> notifies event \<and> outpoint_subscriptions s \<noteq> []) \<and>
       (Do_Reorganized \<in> set jobs \<longleftrightarrow> (\<exists>link. event = Chase_Reorganized link)))"
  using subscriptions.reachable_inv [OF refl assms]
  by (auto simp: sub_inv_def handle_chase_def notifies_def split: chase_event.split)

theorem subscriptions_limited_witness:
  "length (address_subscriptions sample_subscribed) \<le> unat (maximum_subscriptions sample_sub_options)"
  using subscriptions_limited [OF sample_subscribed_run] by blast

text \<open>
  At the limit a repeated subscription of an address that is already subscribed is refused
  like a new one: the reply is excessive resource usage and nothing changes.
\<close>

lemma resubscribe_at_limit:
  assumes "length (address_subscriptions s) = unat (maximum_subscriptions opts)"
    "map_of (address_subscriptions s) hash = Some sub"
  shows "do_scripthash_subscribe L opts A hash type s =
    (s, Complete_Scripthash_Subscribe (electrum_error ''excessive_resource_usage'') null_hash)"
  using assms(1) by (simp add: do_scripthash_subscribe_def)

lemma sample_subscribed_entry:
  "address_subscriptions sample_subscribed =
     [(5, \<lparr>sub_type = notify_scripthash, cursor = 1, status = of_nat 121, accumulator = 121\<rparr>)]"
  by (simp add: sample_subscribed_def do_scripthash_subscribe_def get_scripthash_history_def
      sample_subscribe_def sample_view_def sample_sub_options_def initial_electrum_def assign_def
      write_status_def code_of_def)

subsection \<open>The status of an address\<close>

text \<open>The status the electrum protocol defines: the hash of the whole history text.\<close>

definition electrum_status :: "('h, 'm, 'c) subscribe_lib \<Rightarrow> 'h list \<Rightarrow> hash_digest" where
  "electrum_status L histories = midstate_flush L (fold (write_status L) histories (midstate_initial L))"









text \<open>
  An unconfirmed entry that vanishes leaves its status behind: the status read before is the hash of a history
  that no longer exists, and a read of the present one keeps it.
\<close>

lemma vanished_status:
  "status (snd (get_scripthash_history sample_subscribe (sample_view [] [])
     (snd (get_scripthash_history sample_subscribe (sample_view [] [(3, False)])
       \<lparr>sub_type = notify_scripthash, cursor = 0, status = null_hash, accumulator = midstate_initial sample_subscribe\<rparr> 5 9))
     5 9)) = electrum_status sample_subscribe [(3, False)]"
  by (simp add: get_scripthash_history_def sample_view_def sample_subscribe_def electrum_status_def write_status_def
      code_of_def Let_def)

subsection \<open>Notifications\<close>

lemma history_error_keeps_status:
  "get_scripthash_history L A sub hash limit = (ec, sub') \<Longrightarrow>
   sub_type sub' = sub_type sub \<and> (is_error ec \<longrightarrow> status sub' = status sub)"
  by (auto simp: get_scripthash_history_def code_of_def Let_def split: prod.splits if_splits)

lemma scripthash_loop_notifies:
  "ordered subs \<Longrightarrow> scripthash_loop L A subs = (subs', posts) \<Longrightarrow>
   Scripthash_Notify st key type \<in> set posts \<longleftrightarrow>
     (\<exists>sub sub'. map_of subs key = Some sub \<and> map_of subs' key = Some sub' \<and>
        status sub' \<noteq> status sub \<and> st = status sub' \<and> type = sub_type sub)"
proof (induction subs arbitrary: subs' posts)
  case (Cons e rest)
  obtain k sub where e: "e = (k, sub)" by fastforce
  obtain ec n where read: "get_scripthash_history L A sub k max_size_t = (ec, n)" by fastforce
  obtain rest' more where loop: "scripthash_loop L A rest = (rest', more)" by fastforce
  have keep: "sub_type n = sub_type sub" "is_error ec \<Longrightarrow> status n = status sub"
    using history_error_keeps_status [OF read] by blast+
  have keys: "map fst rest' = map fst rest" using scripthash_loop_keys [of L A rest] loop by simp
  have fresh: "map_of rest k = None" using ordered_below [OF Cons.prems(1), of k] e by simp
  then have fresh': "map_of rest' k = None"
    using keys by (metis map_of_eq_None_iff list.set_map)
  have IH: "Scripthash_Notify st key type \<in> set more \<longleftrightarrow>
     (\<exists>sub sub'. map_of rest key = Some sub \<and> map_of rest' key = Some sub' \<and>
        status sub' \<noteq> status sub \<and> st = status sub' \<and> type = sub_type sub)"
    using Cons.IH [OF _ loop] Cons.prems(1) by simp
  show ?case
  proof (cases "is_error ec \<and> ec = query_canceled L")
    case True
    then have "subs' = (k, n) # rest" "posts = []" using Cons.prems(2) e read by auto
    then show ?thesis using True e keep(2) by (cases "key = k") auto
  next
    case False
    then have eq: "subs' = (k, n) # rest'"
      "posts = (if \<not> is_error ec \<and> status n \<noteq> status sub
        then [Scripthash_Notify (status n) k (sub_type n)] else []) @ more"
      using Cons.prems(2) e read loop if_not_P [OF False] by (simp_all add: Let_def del: de_Morgan_conj)
    show ?thesis
    proof (cases "key = k")
      case True
      moreover have "Scripthash_Notify st key type \<notin> set more" using IH fresh True by simp
      ultimately show ?thesis unfolding eq e using keep by auto
    next
      case False
      then show ?thesis unfolding eq e using IH by simp
    qed
  qed
qed simp

text \<open>
  C10: A notification pass tells the client exactly what changed: for every address it posts a
  notification if and only if the stored status of a subscription to it differs after the pass,
  with the new status and under the method of the subscription; also when queries fail or the
  pass is canceled half way.
\<close>

theorem scripthash_notifies_changes:
  assumes "rtranclp (sub_step L opts) initial_electrum s" "do_scripthash L A s = (s', posts)"
  shows "Scripthash_Notify st key type \<in> set posts \<longleftrightarrow>
    (\<exists>sub sub'. map_of (address_subscriptions s) key = Some sub \<and>
       map_of (address_subscriptions s') key = Some sub' \<and>
       status sub' \<noteq> status sub \<and> st = status sub' \<and> type = sub_type sub)"
proof -
  obtain subs where loop: "scripthash_loop L A (address_subscriptions s) = (subs, posts)"
    and s': "s' = s\<lparr>address_subscriptions := subs\<rparr>"
    using assms(2) by (auto simp: do_scripthash_def split: prod.splits)
  have "ordered (address_subscriptions s)"
    using subscriptions.reachable_inv [OF refl assms(1)] by (simp add: sub_inv_def)
  from scripthash_loop_notifies [OF this loop] show ?thesis by (simp add: s')
qed

theorem scripthash_notifies_changes_witness:
  "Scripthash_Notify 0 5 notify_scripthash \<in>
     set (snd (do_scripthash sample_subscribe (sample_view [] []) sample_subscribed)) \<longleftrightarrow> False"
proof -
  have run: "do_scripthash sample_subscribe (sample_view [] []) sample_subscribed =
      (sample_subscribed\<lparr>address_subscriptions :=
         [(5, \<lparr>sub_type = notify_scripthash, cursor = 0, status = of_nat 121, accumulator = 121\<rparr>)]\<rparr>, [])"
    by (simp add: do_scripthash_def sample_subscribed_entry get_scripthash_history_def sample_view_def
        code_of_def)
  show ?thesis
    using scripthash_notifies_changes [OF sample_subscribed_run run, of 0 5 notify_scripthash]
    by (simp add: run sample_subscribed_entry)
qed

text \<open>
  After a reorganization that leaves an address without history, the next pass notifies
  nobody: the reorganization clears the stored status, and a read that returns nothing leaves
  it cleared, so the client keeps the status it was last sent.
\<close>

theorem reorganized_silent:
  assumes "\<And>c hash limit. get_history A c hash limit = (success_code, c, [])"
  shows "snd (do_scripthash L A (do_reorganized L s)) = []"
proof -
  have "snd (scripthash_loop L A subs) = []" for subs
    by (induction subs)
      (auto simp: get_scripthash_history_def assms code_of_def split_def Let_def)
  then show ?thesis by (simp add: do_scripthash_def split_def Let_def)
qed

definition empty_view :: "(nat \<times> bool, nat) archive_view" where
  "empty_view = (sample_view [] [])\<lparr>get_history := (\<lambda>c hash limit. (success_code, c, []))\<rparr>"

theorem reorganized_silent_witness:
  "snd (do_scripthash sample_subscribe empty_view (do_reorganized sample_subscribe sample_subscribed)) = [] \<and>
   map (status \<circ> snd) (address_subscriptions sample_subscribed) = [of_nat 121]"
  using reorganized_silent [of empty_view sample_subscribe sample_subscribed] sample_subscribed_entry
  by (simp add: empty_view_def)

lemma outpoint_loop_once:
  "outpoint_loop L A (\<lambda>_. False) subs = (subs', posts) \<Longrightarrow>
   outpoint_loop L A (\<lambda>_. False) subs' = (subs', []) \<and>
   (\<forall>k. map_of subs' k = map_option (\<lambda>sub. let (found, out) = get_outpoint_history L A k in
      if found then out else sub) (map_of subs k))"
proof (induction subs arbitrary: subs' posts)
  case (Cons e rest)
  obtain k sub where e: "e = (k, sub)" by fastforce
  obtain rest' more where loop: "outpoint_loop L A (\<lambda>_. False) rest = (rest', more)" by fastforce
  show ?case using Cons.prems Cons.IH [OF loop] e loop
    by (auto simp: split_def Let_def split: if_splits)
qed simp

text \<open>
  A pass over the outpoint subscriptions that is not interrupted brings every one whose
  outpoint the archive has to the state of the archive and keeps the others, and a second pass over the
  same archive changes nothing and notifies nobody.
\<close>

theorem outpoint_pass_settles:
  assumes "do_outpoint L A (\<lambda>_. False) s = (s', posts)"
  shows "do_outpoint L A (\<lambda>_. False) s' = (s', []) \<and>
    map_of (outpoint_subscriptions s') prevout =
      map_option (\<lambda>sub. let (found, out) = get_outpoint_history L A prevout in
        if found then out else sub) (map_of (outpoint_subscriptions s) prevout)"
proof -
  obtain subs where loop: "outpoint_loop L A (\<lambda>_. False) (outpoint_subscriptions s) = (subs, posts)"
    and s': "s' = s\<lparr>outpoint_subscriptions := subs\<rparr>"
    using assms by (auto simp: do_outpoint_def split: prod.splits)
  have "outpoint_loop L A (\<lambda>_. False) subs = (subs, [])"
    and "map_of subs prevout =
      map_option (\<lambda>sub. let (found, out) = get_outpoint_history L A prevout in
        if found then out else sub) (map_of (outpoint_subscriptions s) prevout)"
    using outpoint_loop_once [OF loop] by blast+
  then show ?thesis by (simp add: s' do_outpoint_def)
qed

theorem outpoint_pass_settles_witness:
  "do_outpoint sample_subscribe (sample_view [] []) (\<lambda>_. False) initial_electrum = (initial_electrum, [])"
  using outpoint_pass_settles [of sample_subscribe "sample_view [] []" initial_electrum initial_electrum "[]"]
  by (simp add: do_outpoint_def initial_electrum_def)

end
