(* ===== verification/Electrum_Headers.thy ===== *)
theory Electrum_Headers
  imports Electrum_Subscribe
begin

text \<open>
  Header methods of the electrum service, \<open>protocol_electrum_headers.cpp\<close>. Heights and
  counts are 64 bit words, as in the code. The conversions from json numbers and the saturating
  arithmetic of the system library are the fields of \<open>headers_lib\<close> with the laws
  \<open>headers_laws\<close>, and the queries of the archive are the fields of \<open>header_view\<close>.
\<close>

subsection \<open>Definitions\<close>

record headers_lib =
  to_size :: "double \<Rightarrow> u64 option"
  is_zero_number :: "double \<Rightarrow> bool"
  ceilinged_add :: "u64 \<Rightarrow> u64 \<Rightarrow> u64"
  ceilinged_multiply :: "u64 \<Rightarrow> u64 \<Rightarrow> u64"
  floored_subtract :: "u64 \<Rightarrow> u64 \<Rightarrow> u64"
  limit_size :: "u64 \<Rightarrow> u64 \<Rightarrow> u64"
  is_add_overflow :: "u64 \<Rightarrow> u64 \<Rightarrow> bool"
  base16_bytes :: "u8 list \<Rightarrow> string"
  hash_text :: "hash_digest \<Rightarrow> string"
  depth_code :: code

definition headers_laws :: "headers_lib \<Rightarrow> bool" where
  "headers_laws H \<longleftrightarrow>
     (\<forall>a b. unat (ceilinged_add H a b) = min (2 ^ 64 - 1) (unat a + unat b)) \<and>
     (\<forall>a b. unat (ceilinged_multiply H a b) = min (2 ^ 64 - 1) (unat a * unat b)) \<and>
     (\<forall>a b. unat (floored_subtract H a b) = unat a - unat b) \<and>
     (\<forall>a b. limit_size H a b = min a b) \<and>
     (\<forall>a b. is_add_overflow H a b \<longleftrightarrow> 2 ^ 64 \<le> unat a + unat b)"

record header_view =
  get_top_confirmed :: u64
  get_confirmed_headers :: "u64 \<Rightarrow> u64 \<Rightarrow> u32 list"
  to_confirmed :: "u64 \<Rightarrow> u32 option"
  get_wire_header :: "u32 \<Rightarrow> u8 list"
  write_wire_header :: "u32 \<Rightarrow> string option"
  get_merkle_root_and_proof :: "u64 \<Rightarrow> u64 \<Rightarrow> code + hash_digest \<times> hash_digest list"
  get_height :: "u32 \<Rightarrow> u64 option"
  to_top_confirmed :: u32
  electrumx_header :: "u32 \<Rightarrow> object_t option"

text \<open>The number of links a query may return, and that consecutive heights fit the word.\<close>

definition view_laws :: "header_view \<Rightarrow> bool" where
  "view_laws A \<longleftrightarrow> (\<forall>start count. length (get_confirmed_headers A start count) \<le> unat count)"

definition chunk_size :: u64 where
  "chunk_size = 2016"

definition wire_size :: nat where
  "wire_size = 80"

text \<open>
  The headers of the links streamed as base16 into a buffer of the given number of headers, None
  when one of them cannot be written; what is not written stays zero.
\<close>

definition stream_headers :: "header_view \<Rightarrow> nat \<Rightarrow> u32 list \<Rightarrow> string option" where
  "stream_headers A count links =
     (if list_ex (\<lambda>link. write_wire_header A link = None) links then None
      else
        let written = concat (map (\<lambda>link. the (write_wire_header A link)) links) in
        Some (written @ replicate (count * 2 * wire_size - length written) (CHR 0x00)))"

definition number_of_blocks_subscribe ::
  "header_view \<Rightarrow> electrum_version \<Rightarrow> bool \<Rightarrow> ('h, 'm, 'c) electrum_state \<Rightarrow>
   ('h, 'm, 'c) electrum_state \<times> reaction" where
  "number_of_blocks_subscribe A version stopped s =
     (if stopped then (s, Ignored)
      else if version \<ge> v1_1 then (s, Send_Code (electrum_error ''bad_request''))
      else (s\<lparr>subscribed_height := True\<rparr>, Send_Result (U64 (get_top_confirmed A))))"

definition block_get_chunk ::
  "headers_lib \<Rightarrow> header_view \<Rightarrow> electrum_version \<Rightarrow> bool \<Rightarrow> double \<Rightarrow> reaction" where
  "block_get_chunk H A version stopped index =
     (if stopped then Ignored
      else if version \<ge> v1_4 then Send_Code (electrum_error ''bad_request'')
      else case to_size H index of
          None \<Rightarrow> Send_Code (electrum_error ''bad_request'')
        | Some position \<Rightarrow>
            let height = ceilinged_multiply H position chunk_size;
                past = limit_size H (ceilinged_add H height chunk_size) (get_top_confirmed A + 1);
                count = floored_subtract H past height in
            (case stream_headers A (unat count) (get_confirmed_headers A height count) of
               None \<Rightarrow> Send_Code (electrum_error ''daemon_error'')
             | Some headers \<Rightarrow> Send_Result (String headers)))"

definition block_get_header ::
  "headers_lib \<Rightarrow> header_view \<Rightarrow> electrum_version \<Rightarrow> bool \<Rightarrow> double \<Rightarrow> reaction" where
  "block_get_header H A version stopped height =
     (if stopped then Ignored
      else if version \<ge> v1_4 then Send_Code (electrum_error ''bad_request'')
      else case to_size H height of
          None \<Rightarrow> Send_Code (electrum_error ''bad_request'')
        | Some target \<Rightarrow>
            (case to_confirmed A target of
               None \<Rightarrow> Send_Result Null
             | Some link \<Rightarrow>
                 (case stream_headers A 1 [link] of
                    None \<Rightarrow> Send_Code (electrum_error ''daemon_error'')
                  | Some header \<Rightarrow> Send_Result (String header))))"

text \<open>The header fields of the reply: an array of texts from version 1.6, one text before.\<close>

definition header_fields ::
  "headers_lib \<Rightarrow> header_view \<Rightarrow> electrum_version \<Rightarrow> u32 \<Rightarrow> u32 list \<Rightarrow> bool \<Rightarrow> object_t option" where
  "header_fields H A version maximum_headers links single =
     (let counts = [''max'' \<mapsto> U32 maximum_headers, ''count'' \<mapsto> U64 (of_nat (length links))] in
      if version \<ge> v1_6 then
        if list_ex (\<lambda>link. get_wire_header A link = []) links then None
        else
          let headers = map (\<lambda>link. String (base16_bytes H (get_wire_header A link))) links in
          Some (if single then [''header'' \<mapsto> hd headers]
                else counts(''headers'' \<mapsto> Array headers))
      else
        map_option (\<lambda>headers.
            if single then [''header'' \<mapsto> String headers]
            else counts(''hex'' \<mapsto> String headers))
          (stream_headers A (length links) links))"

definition blockchain_block_headers ::
  "headers_lib \<Rightarrow> header_view \<Rightarrow> electrum_version \<Rightarrow> u32 \<Rightarrow> u64 \<Rightarrow> u64 \<Rightarrow> u64 \<Rightarrow> bool \<Rightarrow> reaction" where
  "blockchain_block_headers H A version maximum_headers starting quantity waypoint single =
     (let prove = (quantity \<noteq> 0 \<and> waypoint \<noteq> 0);
          top = get_top_confirmed A in
      if is_add_overflow H starting quantity then Send_Code (electrum_error ''bad_request'')
      else if starting > top \<or> prove \<and> waypoint > top then Send_Code (electrum_error ''bad_request'')
      else
        let count = limit_size H quantity (ucast maximum_headers);
            links = get_confirmed_headers A starting count in
        if single \<and> length links \<noteq> 1 then Send_Code (electrum_error ''daemon_error'')
        else
          let proving = (prove \<and> links \<noteq> []);
              proof_height = (if proving then starting + (of_nat (length links) - 1) else 0) in
          if proving \<and> proof_height > waypoint then Send_Code (electrum_error ''bad_request'')
          else if single \<and> \<not> prove then
            let header = get_wire_header A (hd links) in
            if header = [] then Send_Code (electrum_error ''daemon_error'')
            else Send_Result (String (base16_bytes H header))
          else
            (case header_fields H A version maximum_headers links single of
               None \<Rightarrow> Send_Code (electrum_error ''daemon_error'')
             | Some object \<Rightarrow>
                 if proving then
                   (case get_merkle_root_and_proof A proof_height waypoint of
                      Inl ec \<Rightarrow> Send_Code (translate_electrum (depth_code H) ec
                        (enumerator electrum_errors ''daemon_error''))
                    | Inr (root, merkle) \<Rightarrow>
                        Send_Result (Object (object(
                          ''branch'' \<mapsto> Array (map (\<lambda>hash. String (hash_text H hash)) merkle),
                          ''root'' \<mapsto> String (hash_text H root)))))
                 else Send_Result (Object object)))"

definition block_header ::
  "headers_lib \<Rightarrow> header_view \<Rightarrow> electrum_version \<Rightarrow> bool \<Rightarrow> u32 \<Rightarrow> double \<Rightarrow> double \<Rightarrow> reaction" where
  "block_header H A version stopped maximum_headers height cp_height =
     (if stopped then Ignored
      else if \<not> version \<ge> v1_3 then Send_Code (electrum_error ''bad_request'')
      else case (to_size H height, to_size H cp_height) of
          (Some starting, Some waypoint) \<Rightarrow>
            blockchain_block_headers H A version maximum_headers starting 1 waypoint True
        | _ \<Rightarrow> Send_Code (electrum_error ''bad_request''))"

definition block_headers ::
  "headers_lib \<Rightarrow> header_view \<Rightarrow> electrum_version \<Rightarrow> bool \<Rightarrow> u32 \<Rightarrow> double \<Rightarrow> double \<Rightarrow> double \<Rightarrow> reaction" where
  "block_headers H A version stopped maximum_headers start_height count cp_height =
     (if stopped then Ignored
      else if \<not> version \<ge> v1_2 then Send_Code (electrum_error ''bad_request'')
      else case (to_size H count, to_size H cp_height, to_size H start_height) of
          (Some quantity, Some waypoint, Some starting) \<Rightarrow>
            if \<not> is_zero_number H cp_height \<and> \<not> version \<ge> v1_4
            then Send_Code (electrum_error ''bad_request'')
            else blockchain_block_headers H A version maximum_headers starting quantity waypoint False
        | _ \<Rightarrow> Send_Code (electrum_error ''bad_request''))"

definition headers_subscribe ::
  "headers_lib \<Rightarrow> header_view \<Rightarrow> electrum_version \<Rightarrow> bool \<Rightarrow> bool \<Rightarrow> ('h, 'm, 'c) electrum_state \<Rightarrow>
   ('h, 'm, 'c) electrum_state \<times> reaction" where
  "headers_subscribe H A version stopped raw s =
     (if stopped then (s, Ignored)
      else
        let raw_defined = raw;
            raw = (version \<ge> v1_3 \<or> raw) in
        if \<not> version \<ge> v1_0 \<or> \<not> version \<ge> v1_2 \<and> raw_defined \<or> version \<ge> v1_4 \<and> raw_defined
        then (s, Send_Code (electrum_error ''bad_request''))
        else
          (case get_height A (to_top_confirmed A) of
             None \<Rightarrow> (s, Send_Code (electrum_error ''daemon_error''))
           | Some height \<Rightarrow>
               if raw then
                 let header = get_wire_header A (to_top_confirmed A) in
                 if header = [] then (s, Send_Code (electrum_error ''daemon_error''))
                 else (s\<lparr>subscribed_header := True\<rparr>, Send_Result (Object
                        [''height'' \<mapsto> U64 height, ''hex'' \<mapsto> String (base16_bytes H header)]))
               else
                 (case electrumx_header A (to_top_confirmed A) of
                    None \<Rightarrow> (s, Send_Code (electrum_error ''daemon_error''))
                  | Some object \<Rightarrow> (s\<lparr>subscribed_header := True\<rparr>,
                        Send_Result (Object (object(''block_height'' \<mapsto> U64 height)))))))"

text \<open>Notifications of a new top block; a header that has gone meanwhile is only logged.\<close>

definition do_height :: "header_view \<Rightarrow> u32 \<Rightarrow> message list" where
  "do_height A link =
     (case get_height A link of
        None \<Rightarrow> []
      | Some height \<Rightarrow> [Notification ''blockchain.numblocks.subscribe'' [U64 height]])"

definition do_header :: "headers_lib \<Rightarrow> header_view \<Rightarrow> u32 \<Rightarrow> message list" where
  "do_header H A link =
     (case get_height A link of
        None \<Rightarrow> []
      | Some height \<Rightarrow> [Notification ''blockchain.headers.subscribe''
          [Object [''height'' \<mapsto> U64 height,
            ''hex'' \<mapsto> String (base16_bytes H (get_wire_header A link))]]])"

subsection \<open>Bounds of the replies\<close>

lemma headers_lawsD:
  assumes "headers_laws H"
  shows "unat (ceilinged_add H a b) = min (2 ^ 64 - 1) (unat a + unat b)"
    "unat (ceilinged_multiply H a b) = min (2 ^ 64 - 1) (unat a * unat b)"
    "unat (floored_subtract H a b) = unat a - unat b"
    "limit_size H a b = min a b"
    "is_add_overflow H a b \<longleftrightarrow> 2 ^ 64 \<le> unat a + unat b"
  using assms unfolding headers_laws_def by blast+

lemma header_fields_count:
  "header_fields H A version maximum links False = Some object \<Longrightarrow>
   object ''count'' = Some (U64 (of_nat (length links))) \<and> object ''root'' = None"
  by (auto simp: header_fields_def Let_def split: if_splits)

lemma proof_height_unat:
  fixes start :: u64
  assumes "links \<noteq> []" "unat start + length links < 2 ^ 64"
  shows "start + (of_nat (length links) - 1) = of_nat (unat start + length links - 1)"
    "unat (start + (of_nat (length links) - 1)) = unat start + length links - 1"
proof -
  have one: "1 \<le> length links" using assms(1) by (simp add: Suc_le_eq)
  show eq: "start + (of_nat (length links) - 1) = of_nat (unat start + length links - 1)"
    using one by (simp add: of_nat_diff)
  show "unat (start + (of_nat (length links) - 1)) = unat start + length links - 1"
    unfolding eq using assms(2) by (subst unat_of_nat) simp
qed

text \<open>
  C13: A block.headers reply never holds more headers than requested or than the configured
  maximum, its count is the number of headers it was built from, and it has a merkle proof exactly
  when a checkpoint and at least one header were requested and found. The proof is for the last
  header of the reply, whose height is computed without wrap-around and is at most the
  checkpoint, and the checkpoint is at most the top of the chain.
\<close>

theorem block_headers_reply:
  assumes "headers_laws H" "view_laws A"
    "blockchain_block_headers H A version maximum starting quantity waypoint False =
       Send_Result (Object reply)"
  shows "\<exists>links. links = get_confirmed_headers A starting (min quantity (ucast maximum)) \<and>
    length links \<le> min (unat quantity) (unat maximum) \<and>
    reply ''count'' = Some (U64 (of_nat (length links))) \<and>
    (reply ''root'' = None \<longleftrightarrow> quantity = 0 \<or> waypoint = 0 \<or> links = []) \<and>
    (reply ''root'' \<noteq> None \<longrightarrow>
       (\<exists>root merkle. get_merkle_root_and_proof A (of_nat (unat starting + length links - 1)) waypoint =
            Inr (root, merkle) \<and> reply ''root'' = Some (String (hash_text H root))) \<and>
       unat starting + length links - 1 \<le> unat waypoint \<and> waypoint \<le> get_top_confirmed A)"
proof -
  define links where "links = get_confirmed_headers A starting (min quantity (ucast maximum))"
  define proving where "proving = (quantity \<noteq> 0 \<and> waypoint \<noteq> 0 \<and> links \<noteq> [])"
  define height where "height = starting + (of_nat (length links) - 1)"
  have "length links \<le> unat (min quantity (ucast maximum))"
    using assms(2) by (simp add: view_laws_def links_def)
  also have "\<dots> \<le> min (unat quantity) (unat maximum)"
    by (auto simp: min_def word_le_nat_alt)
  finally have len: "length links \<le> min (unat quantity) (unat maximum)" .
  have overflow: "unat starting + unat quantity < 2 ^ 64"
    and ways: "proving \<Longrightarrow> waypoint \<le> get_top_confirmed A \<and> height \<le> waypoint"
    using assms(3) by (auto simp: blockchain_block_headers_def headers_lawsD [OF assms(1)] Let_def
        links_def [symmetric] height_def [symmetric] proving_def not_le not_less split: if_splits)
  obtain object where object: "header_fields H A version maximum links False = Some object"
    and reply: "\<not> proving \<Longrightarrow> reply = object"
      "proving \<Longrightarrow> \<exists>root merkle. get_merkle_root_and_proof A height waypoint = Inr (root, merkle) \<and>
        reply = object(''branch'' \<mapsto> Array (map (\<lambda>hash. String (hash_text H hash)) merkle),
          ''root'' \<mapsto> String (hash_text H root))"
    using assms(3)
    by (auto simp: blockchain_block_headers_def headers_lawsD [OF assms(1)] Let_def
        links_def [symmetric] height_def [symmetric] proving_def
        split: if_splits option.splits sum.splits)
  have count: "object ''count'' = Some (U64 (of_nat (length links)))" "object ''root'' = None"
    using header_fields_count [OF object] by blast+
  have sum: "unat starting + length links < 2 ^ 64" using len overflow by simp
  have at: "height = of_nat (unat starting + length links - 1)"
    "unat height = unat starting + length links - 1" if proving
    using proof_height_unat [OF _ sum] that by (simp_all add: height_def proving_def)
  show ?thesis
  proof (cases proving)
    case True
    then show ?thesis
      using reply(2) ways at count len
      by (intro exI [of _ links]) (auto simp: links_def [symmetric] proving_def word_le_nat_alt)
  next
    case False
    then show ?thesis
      using reply(1) count len
      by (intro exI [of _ links]) (auto simp: links_def [symmetric] proving_def)
  qed
qed

lemma unat_min_word: "unat (min (a :: u64) b) = min (unat a) (unat b)"
  by (simp add: min_def word_le_nat_alt)

lemma stream_headers_length:
  assumes "\<And>link. \<exists>text. write_wire_header A link = Some text \<and> length text = 2 * wire_size"
    "length links = count"
  shows "\<exists>text. stream_headers A count links = Some text \<and> length text = count * 2 * wire_size"
proof -
  let ?texts = "map (\<lambda>link. the (write_wire_header A link)) links"
  have "write_wire_header A link \<noteq> None" for link using assms(1) [of link] by auto
  then have some: "\<not> list_ex (\<lambda>link. write_wire_header A link = None) links"
    by (simp add: list_ex_iff)
  have "length (the (write_wire_header A link)) = 2 * wire_size" for link
    using assms(1) [of link] by auto
  then have "length (concat ?texts) = length links * (2 * wire_size)"
    by (induction links) simp_all
  then show ?thesis using some assms(2) by (simp add: stream_headers_def Let_def)
qed

lemma chunk_arith:
  "(t :: nat) \<le> m \<Longrightarrow> min (min m (min m x + 2016)) t - min m x = min 2016 (t - x)"
  by (auto simp: min_def)

text \<open>
  A get_chunk reply covers exactly the confirmed part of the chunk: 160 characters for each of
  the at most 2016 headers from the first height of the chunk to the top of the chain, and the empty
  text for a chunk beyond it, for every chunk index, also where the height of the chunk
  saturates.
\<close>

theorem get_chunk_length:
  assumes "headers_laws H" "version < v1_4" "to_size H index = Some position"
    "unat (get_top_confirmed A) + 1 < 2 ^ 64"
    "\<And>link. \<exists>text. write_wire_header A link = Some text \<and> length text = 2 * wire_size"
    "\<And>start count. length (get_confirmed_headers A start count) = unat count"
  shows "\<exists>text. block_get_chunk H A version False index = Send_Result (String text) \<and>
    length text = min 2016 (unat (get_top_confirmed A) + 1 - unat position * 2016) * 160"
proof -
  define height where "height = ceilinged_multiply H position chunk_size"
  define past where
    "past = limit_size H (ceilinged_add H height chunk_size) (get_top_confirmed A + 1)"
  define count where "count = floored_subtract H past height"
  let ?top = "unat (get_top_confirmed A) + 1"
  have top: "unat (get_top_confirmed A + 1) = ?top"
    using assms(4) by (simp add: unat_word_ariths(1))
  have h: "unat height = min (2 ^ 64 - 1) (unat position * 2016)"
    by (simp add: height_def headers_lawsD [OF assms(1)] chunk_size_def)
  have p: "unat past = min (min (2 ^ 64 - 1) (unat height + 2016)) ?top"
    by (simp add: past_def headers_lawsD [OF assms(1)] unat_min_word top chunk_size_def)
  have "unat count = unat past - unat height"
    by (simp add: count_def headers_lawsD [OF assms(1)])
  also have "\<dots> = min 2016 (?top - unat position * 2016)"
    unfolding p h by (rule chunk_arith) (use assms(4) in simp)
  finally have c: "unat count = min 2016 (?top - unat position * 2016)" .
  from stream_headers_length [OF assms(5) assms(6), of count height]
  obtain t where "stream_headers A (unat count) (get_confirmed_headers A height count) = Some t"
    "length t = unat count * 2 * wire_size" by blast
  then show ?thesis
    using assms(2,3)
    by (simp add: block_get_chunk_def Let_def height_def [symmetric] past_def [symmetric]
        count_def [symmetric] c wire_size_def not_le)
qed

subsection \<open>Instances for the witnesses\<close>

definition sample_headers :: headers_lib where
  "sample_headers = \<lparr>to_size = (\<lambda>d. Some d), is_zero_number = (\<lambda>d. d = 0),
     ceilinged_add = (\<lambda>a b. of_nat (min (2 ^ 64 - 1) (unat a + unat b))),
     ceilinged_multiply = (\<lambda>a b. of_nat (min (2 ^ 64 - 1) (unat a * unat b))),
     floored_subtract = (\<lambda>a b. of_nat (unat a - unat b)), limit_size = min,
     is_add_overflow = (\<lambda>a b. 2 ^ 64 \<le> unat a + unat b), base16_bytes = (\<lambda>b. ''b''),
     hash_text = (\<lambda>h. ''h''), depth_code = code_of database_category 2\<rparr>"

definition sample_chain :: header_view where
  "sample_chain = \<lparr>get_top_confirmed = 3,
     get_confirmed_headers = (\<lambda>start count. replicate (unat count) 0),
     to_confirmed = (\<lambda>h. Some 0), get_wire_header = (\<lambda>link. [1]),
     write_wire_header = (\<lambda>link. Some (replicate 160 CHR ''a'')),
     get_merkle_root_and_proof = (\<lambda>height waypoint. Inr (5, [6])), get_height = (\<lambda>link. Some 3),
     to_top_confirmed = 0, electrumx_header = (\<lambda>link. None)\<rparr>"

lemma unat_of_nat_small: "n < 2 ^ 64 \<Longrightarrow> unat (of_nat n :: u64) = n"
  by (simp add: unat_of_nat)

lemma sample_headers_laws: "headers_laws sample_headers"
proof -
  have "unat a - unat b < 2 ^ 64" for a b :: u64
    using unsigned_less [of a, where 'a = nat] by (simp add: less_imp_diff_less)
  then show ?thesis
    by (simp add: headers_laws_def sample_headers_def unat_of_nat_small min_def)
qed

theorem get_chunk_length_witness:
  "\<exists>text. block_get_chunk sample_headers sample_chain v1_0 False 0 = Send_Result (String text) \<and>
     length text = 640"
proof -
  have "\<exists>text. block_get_chunk sample_headers sample_chain v1_0 False 0 = Send_Result (String text) \<and>
      length text = min 2016 (unat (get_top_confirmed sample_chain) + 1 - unat (0 :: u64) * 2016) * 160"
    by (rule get_chunk_length [OF sample_headers_laws])
      (simp_all add: version_order_simps sample_headers_def sample_chain_def wire_size_def)
  then show ?thesis by (simp add: sample_chain_def)
qed

theorem block_headers_reply_witness:
  "\<exists>reply links. blockchain_block_headers sample_headers sample_chain v1_6 2 1 5 3 False =
       Send_Result (Object reply) \<and>
     length (links :: u32 list) \<le> 2 \<and> reply ''count'' = Some (U64 (of_nat (length links)))"
proof -
  have laws: "view_laws sample_chain" by (simp add: view_laws_def sample_chain_def)
  have links: "get_confirmed_headers sample_chain 1 (min 5 (ucast (2 :: u32))) = [0, 0]"
  proof -
    have "min 5 (ucast (2 :: u32)) = (2 :: u64)" "unat (2 :: u64) = Suc (Suc 0)"
      by (simp_all add: min_def)
    then show ?thesis by (simp add: sample_chain_def numeral_2_eq_2)
  qed
  have "\<exists>object. header_fields sample_headers sample_chain v1_6 2 [0, 0] False = Some object"
    by (simp add: header_fields_def sample_chain_def)
  moreover have "\<not> is_add_overflow sample_headers 1 5" "limit_size sample_headers = min"
    by (simp_all add: sample_headers_def)
  moreover have "get_top_confirmed sample_chain = 3"
    "get_merkle_root_and_proof sample_chain 2 3 = Inr (5, [6])"
    by (simp_all add: sample_chain_def)
  ultimately obtain reply where reply:
    "blockchain_block_headers sample_headers sample_chain v1_6 2 1 5 3 False = Send_Result (Object reply)"
    using links by (auto simp: blockchain_block_headers_def Let_def)
  from block_headers_reply [OF sample_headers_laws laws reply] reply show ?thesis by auto
qed

end
