(* ===== verification/Zmq.thy ===== *)
theory Zmq
  imports Prelude "HOL-Library.Sublist"
begin

text \<open>
  bitcoind notifications over zmq, \<open>protocols/bitcoind/protocol_bitcoind_zmq.cpp\<close>. The state
  record holds the subscription flags and the counters of the protocol, the balance of the demands
  it has reported to the node for each kind of wire broadcast, and the messages it has
  published. The archive and the node are the arguments of the handlers.
\<close>

subsection \<open>State\<close>

datatype topic = hash_block | raw_block | hash_tx | raw_tx | sequence_topic

definition topic_text :: "topic \<Rightarrow> string" where
  "topic_text t =
     (case t of
        hash_block \<Rightarrow> ''hashblock''
      | raw_block \<Rightarrow> ''rawblock''
      | hash_tx \<Rightarrow> ''hashtx''
      | raw_tx \<Rightarrow> ''rawtx''
      | sequence_topic \<Rightarrow> ''sequence'')"

datatype label = block_connected | block_disconnected | transaction_accepted | transaction_removed

definition label_value :: "label \<Rightarrow> u8" where
  "label_value l =
     (case l of
        block_connected \<Rightarrow> of_char CHR ''C''
      | block_disconnected \<Rightarrow> of_char CHR ''D''
      | transaction_accepted \<Rightarrow> of_char CHR ''A''
      | transaction_removed \<Rightarrow> of_char CHR ''R'')"

text \<open>A published body: bytes, or the streamed transaction or block the broadcast carries.\<close>

datatype 'w body = Bytes "u8 list" | Wire 'w

record 'w zmq =
  flags :: "topic \<Rightarrow> bool"
  counters :: "topic \<Rightarrow> u32"
  zmq_subscriptions :: u32
  pool :: u64
  zmq_stopped :: bool
  demand_tx :: int
  demand_block :: int
  published :: "(topic \<times> u32 \<times> 'w body) list"

definition initial_zmq :: "'w zmq" where
  "initial_zmq = \<lparr>flags = (\<lambda>_. False), counters = (\<lambda>_. 0), zmq_subscriptions = 0, pool = 0,
     zmq_stopped = False, demand_tx = 0, demand_block = 0, published = []\<rparr>"

subsection \<open>Bodies\<close>

text \<open>The bytes of a digest in the order of the array, the most significant byte of the word first.\<close>

definition hash_bytes :: "hash_digest \<Rightarrow> u8 list" where
  "hash_bytes h = rev (map (\<lambda>i. ucast (drop_bit (8 * i) h)) [0..<32])"

definition little_endian_8 :: "u64 \<Rightarrow> u8 list" where
  "little_endian_8 n = map (\<lambda>i. ucast (drop_bit (8 * i) n)) [0..<8]"

definition sequence_body :: "label \<Rightarrow> hash_digest \<Rightarrow> u64 \<Rightarrow> u8 list" where
  "sequence_body l hash n =
     rev (hash_bytes hash) @ [label_value l] @
     (if l = transaction_accepted \<or> l = transaction_removed then little_endian_8 n else [])"

subsection \<open>Publication\<close>

text \<open>
  A notification carries the sequence number its caller passes. Each caller passes the value of the
  counter of its topic (\<open>hash_txs_++\<close> and its siblings) and leaves the counter incremented.
\<close>

definition publish :: "topic \<Rightarrow> u32 \<Rightarrow> 'w body \<Rightarrow> 'w zmq \<Rightarrow> 'w zmq" where
  "publish t sequence b s = s\<lparr>published := published s @ [(t, sequence, b)]\<rparr>"

definition increment :: "topic \<Rightarrow> 'w zmq \<Rightarrow> 'w zmq" where
  "increment t s = s\<lparr>counters := (counters s)(t := counters s t + 1)\<rparr>"

definition publish_tx :: "hash_digest \<Rightarrow> bool \<Rightarrow> 'w zmq \<Rightarrow> 'w zmq" where
  "publish_tx hash sequenced s =
     (if hash = null_hash then s
      else
        let s = (if flags s hash_tx
                 then publish hash_tx (counters s hash_tx) (Bytes (rev (hash_bytes hash)))
                   (increment hash_tx s)
                 else s) in
        if sequenced \<and> flags s sequence_topic then
          publish sequence_topic (counters s sequence_topic)
            (Bytes (sequence_body transaction_accepted hash (pool s)))
            ((increment sequence_topic s)\<lparr>pool := pool s + 1\<rparr>)
        else s)"

subsection \<open>Handlers\<close>

definition set_subscription :: "topic \<Rightarrow> string \<Rightarrow> bool \<Rightarrow> 'w zmq \<Rightarrow> bool \<times> 'w zmq" where
  "set_subscription t pre cancel s =
     (if prefix pre (topic_text t)
      then (flags s t = cancel, s\<lparr>flags := (flags s)(t := \<not> cancel)\<rparr>)
      else (False, s))"

definition demand_wire_tx :: "bool \<Rightarrow> 'w zmq \<Rightarrow> 'w zmq" where
  "demand_wire_tx demand s = s\<lparr>demand_tx := demand_tx s + (if demand then 1 else - 1)\<rparr>"

definition demand_wire_block :: "bool \<Rightarrow> 'w zmq \<Rightarrow> 'w zmq" where
  "demand_wire_block demand s = s\<lparr>demand_block := demand_block s + (if demand then 1 else - 1)\<rparr>"

definition zmq_subscribe :: "u32 \<Rightarrow> bool \<Rightarrow> string \<Rightarrow> bool \<Rightarrow> 'w zmq \<Rightarrow> 'w zmq" where
  "zmq_subscribe maximum_subscriptions ec pre cancel s =
     (if zmq_stopped s \<or> ec then s
      else
        let s = (if cancel
                 then (if zmq_subscriptions s \<noteq> 0
                       then s\<lparr>zmq_subscriptions := zmq_subscriptions s - 1\<rparr> else s)
                 else s\<lparr>zmq_subscriptions := zmq_subscriptions s + 1\<rparr>) in
        if \<not> cancel \<and> zmq_subscriptions s > maximum_subscriptions then s\<lparr>zmq_stopped := True\<rparr>
        else
          let s = snd (set_subscription hash_block pre cancel s);
              s = snd (set_subscription hash_tx pre cancel s);
              s = snd (set_subscription sequence_topic pre cancel s);
              (changed, s) = set_subscription raw_block pre cancel s;
              s = (if changed then demand_wire_block (\<not> cancel) s else s);
              (changed, s) = set_subscription raw_tx pre cancel s in
          if changed then demand_wire_block (\<not> cancel) (demand_wire_tx (\<not> cancel) s) else s)"

definition zmq_stopping :: "'w zmq \<Rightarrow> 'w zmq" where
  "zmq_stopping s =
     (let s = (if flags s raw_tx
               then demand_wire_block False (demand_wire_tx False (s\<lparr>flags := (flags s)(raw_tx := False)\<rparr>))
               else s);
          s = (if flags s raw_block
               then demand_wire_block False (s\<lparr>flags := (flags s)(raw_block := False)\<rparr>)
               else s) in
      s\<lparr>zmq_stopped := True\<rparr>)"

definition handle_wire_tx :: "bool \<Rightarrow> 'w \<Rightarrow> 'w zmq \<Rightarrow> 'w zmq" where
  "handle_wire_tx ec message s =
     (if zmq_stopped s \<or> ec then s
      else if flags s raw_tx
      then publish raw_tx (counters s raw_tx) (Wire message) (increment raw_tx s)
      else s)"

definition handle_wire_block :: "bool \<Rightarrow> 'w list \<Rightarrow> bool \<Rightarrow> 'w \<Rightarrow> 'w zmq \<Rightarrow> 'w zmq" where
  "handle_wire_block ec transactions organized message s =
     (if zmq_stopped s \<or> ec then s
      else
        let s = (if flags s raw_tx
                 then fold (\<lambda>tx s. publish raw_tx (counters s raw_tx) (Wire tx) (increment raw_tx s))
                   transactions s
                 else s) in
        if organized \<and> flags s raw_block
        then publish raw_block (counters s raw_block) (Wire message) (increment raw_block s)
        else s)"

datatype zmq_event = Organized u32 | Transaction u32 | Reorganized u32 | Other_Event

datatype zmq_job = Zmq_Organized u32 | Zmq_Transaction u32 | Zmq_Reorganized u32

definition blocks :: "'w zmq \<Rightarrow> bool" where
  "blocks s \<longleftrightarrow> flags s hash_block \<or> flags s sequence_topic"

definition transactions :: "'w zmq \<Rightarrow> bool" where
  "transactions s \<longleftrightarrow> flags s hash_tx"

definition sequences :: "'w zmq \<Rightarrow> bool" where
  "sequences s \<longleftrightarrow> flags s sequence_topic"

definition zmq_handle_chase :: "bool \<Rightarrow> zmq_event \<Rightarrow> 'w zmq \<Rightarrow> zmq_job list option" where
  "zmq_handle_chase current ev s =
     (if zmq_stopped s then None
      else Some (case ev of
          Organized link \<Rightarrow>
            if (blocks s \<or> transactions s) \<and> current then [Zmq_Organized link] else []
        | Transaction link \<Rightarrow>
            if transactions s \<or> sequences s then [Zmq_Transaction link] else []
        | Reorganized link \<Rightarrow>
            if (blocks s \<or> transactions s) \<and> current then [Zmq_Reorganized link] else []
        | Other_Event \<Rightarrow> []))"

text \<open>
  The jobs; \<open>hash\<close> is the header or transaction key the archive has for the link (null when it has
  none) and \<open>txs\<close> the keys of the transactions of the block.
\<close>

definition zmq_organized :: "hash_digest \<Rightarrow> hash_digest list \<Rightarrow> 'w zmq \<Rightarrow> 'w zmq" where
  "zmq_organized hash txs s =
     (if zmq_stopped s then s
      else if hash = null_hash then s
      else
        let s = (if transactions s then fold (\<lambda>tx. publish_tx tx False) txs s else s);
            s = (if flags s hash_block
                 then publish hash_block (counters s hash_block) (Bytes (rev (hash_bytes hash)))
                   (increment hash_block s)
                 else s) in
        if flags s sequence_topic
        then publish sequence_topic (counters s sequence_topic)
          (Bytes (sequence_body block_connected hash 0)) (increment sequence_topic s)
        else s)"

definition zmq_reorganized :: "hash_digest \<Rightarrow> hash_digest list \<Rightarrow> 'w zmq \<Rightarrow> 'w zmq" where
  "zmq_reorganized hash txs s =
     (if zmq_stopped s then s
      else if hash = null_hash then s
      else
        let s = (if transactions s then fold (\<lambda>tx. publish_tx tx False) txs s else s) in
        if flags s sequence_topic
        then publish sequence_topic (counters s sequence_topic)
          (Bytes (sequence_body block_disconnected hash 0)) (increment sequence_topic s)
        else s)"

definition zmq_transaction :: "hash_digest \<Rightarrow> 'w zmq \<Rightarrow> 'w zmq" where
  "zmq_transaction hash s = (if zmq_stopped s then s else publish_tx hash True s)"

subsection \<open>The state machine\<close>

inductive zmq_step :: "u32 \<Rightarrow> 'w zmq \<Rightarrow> 'w zmq \<Rightarrow> bool" for maximum where
  Step_Subscribe: "zmq_step maximum s (zmq_subscribe maximum ec pre cancel s)"
| Step_Stopping: "zmq_step maximum s (zmq_stopping s)"
| Step_Wire_Tx: "zmq_step maximum s (handle_wire_tx ec message s)"
| Step_Wire_Block: "zmq_step maximum s (handle_wire_block ec txs organized message s)"
| Step_Do_Organized: "zmq_step maximum s (zmq_organized hash txs s)"
| Step_Do_Reorganized: "zmq_step maximum s (zmq_reorganized hash txs s)"
| Step_Do_Transaction: "zmq_step maximum s (zmq_transaction hash s)"

subsection \<open>Sequence numbers\<close>

definition numbers :: "topic \<Rightarrow> 'w zmq \<Rightarrow> u32 list" where
  "numbers t s = map (fst \<circ> snd) (filter (\<lambda>m. fst m = t) (published s))"

definition gapless :: "'w zmq \<Rightarrow> bool" where
  "gapless s \<longleftrightarrow> (\<forall>t. counters s t = of_nat (length (numbers t s)) \<and>
     numbers t s = map of_nat [0..<length (numbers t s)])"

text \<open>What a publication leaves alone: everything but the counters, the pool count and the messages.\<close>

definition same_subscriptions :: "'w zmq \<Rightarrow> 'w zmq \<Rightarrow> bool" where
  "same_subscriptions s s' \<longleftrightarrow> flags s' = flags s \<and> zmq_subscriptions s' = zmq_subscriptions s \<and>
     zmq_stopped s' = zmq_stopped s \<and> demand_tx s' = demand_tx s \<and> demand_block s' = demand_block s \<and>
     (gapless s \<longrightarrow> gapless s')"

lemma same_refl [simp, intro]: "same_subscriptions s s"
  by (simp add: same_subscriptions_def)

lemma same_trans: "same_subscriptions s s' \<Longrightarrow> same_subscriptions s' s'' \<Longrightarrow> same_subscriptions s s''"
  by (simp add: same_subscriptions_def)

text \<open>A publication under the number the counter had before it was incremented.\<close>

lemma numbers_publish:
  "numbers t (publish t' (counters s t') b (increment t' s)) =
     (if t = t' then numbers t s @ [counters s t] else numbers t s)"
  by (simp add: numbers_def publish_def increment_def)

lemma counters_publish:
  "counters (publish t' n b (increment t' s)) t = (if t = t' then counters s t + 1 else counters s t)"
  by (simp add: publish_def increment_def)

lemma gapless_publish:
  assumes "gapless s"
  shows "gapless (publish t (counters s t) b (increment t s))" (is "gapless ?s")
  unfolding gapless_def
proof
  fix t'
  show "counters ?s t' = of_nat (length (numbers t' ?s)) \<and>
      numbers t' ?s = map of_nat [0..<length (numbers t' ?s)]"
  proof (cases "t' = t")
    case True
    have nums: "numbers t s = map of_nat [0..<length (numbers t s)]"
      and count: "counters s t = of_nat (length (numbers t s))"
      using assms by (auto simp: gapless_def)
    have "numbers t s @ [counters s t] = map of_nat [0..<length (numbers t s) + 1]"
      by (subst nums) (simp add: count)
    then show ?thesis using True count unfolding numbers_publish counters_publish by simp
  next
    case False
    then show ?thesis using assms unfolding numbers_publish counters_publish by (simp add: gapless_def)
  qed
qed

lemma same_publish [intro]: "same_subscriptions s (publish t (counters s t) b (increment t s))"
  using gapless_publish [of s t b]
  by (simp add: same_subscriptions_def) (simp add: publish_def increment_def)

lemma same_pool: "gapless (publish t n b (s\<lparr>pool := k\<rparr>)) \<longleftrightarrow> gapless (publish t n b s)"
  by (simp add: gapless_def numbers_def publish_def)

lemma same_publish_pool [intro]:
  "same_subscriptions s (publish t (counters s t) b ((increment t s)\<lparr>pool := k\<rparr>))"
  using gapless_publish [of s t b]
  by (simp add: same_subscriptions_def same_pool) (simp add: publish_def increment_def)

lemma same_then [intro]:
  "same_subscriptions s s' \<Longrightarrow> same_subscriptions s (publish t (counters s' t) b (increment t s'))"
  "same_subscriptions s s' \<Longrightarrow>
   same_subscriptions s (publish t (counters s' t) b ((increment t s')\<lparr>pool := k\<rparr>))"
  using same_trans by blast+

lemma same_publish_tx [intro]: "same_subscriptions s (publish_tx hash sequenced s)"
  by (auto simp: publish_tx_def Let_def)

lemma same_fold:
  "(\<And>x s. same_subscriptions s (f x s)) \<Longrightarrow> same_subscriptions s (fold f xs s)"
  by (induction xs arbitrary: s) (auto intro: same_trans)

lemma same_handlers:
  "same_subscriptions s (handle_wire_tx ec message s)"
  "same_subscriptions s (handle_wire_block ec txs organized message s)"
  "same_subscriptions s (zmq_organized hash keys s)"
  "same_subscriptions s (zmq_reorganized hash keys s)"
  "same_subscriptions s (zmq_transaction hash s)"
  by (auto simp: handle_wire_tx_def handle_wire_block_def zmq_organized_def zmq_reorganized_def
      zmq_transaction_def Let_def intro: same_fold)

subsection \<open>The invariant\<close>

text \<open>The demands reported to the node are those of the subscribed raw topics.\<close>

definition balanced :: "'w zmq \<Rightarrow> bool" where
  "balanced s \<longleftrightarrow> demand_tx s = of_bool (flags s raw_tx) \<and>
     demand_block s = of_bool (flags s raw_block) + of_bool (flags s raw_tx)"

definition zmq_inv :: "u32 \<Rightarrow> 'w zmq \<Rightarrow> bool" where
  "zmq_inv maximum s \<longleftrightarrow>
     balanced s \<and> (zmq_stopped s \<or> zmq_subscriptions s \<le> maximum) \<and> gapless s"

lemma zmq_inv_same: "zmq_inv maximum s \<Longrightarrow> same_subscriptions s s' \<Longrightarrow> zmq_inv maximum s'"
  by (simp add: zmq_inv_def balanced_def same_subscriptions_def)

lemma gapless_cong:
  "published s' = published s \<Longrightarrow> counters s' = counters s \<Longrightarrow> gapless s' = gapless s"
  by (simp add: gapless_def numbers_def)

text \<open>The balance of the demands after each part of a subscription.\<close>

lemma balanced_cong:
  "balanced s \<Longrightarrow> demand_tx s' = demand_tx s \<Longrightarrow> demand_block s' = demand_block s \<Longrightarrow>
   flags s' = flags s \<Longrightarrow> balanced s'"
  by (simp add: balanced_def)

lemma balanced_hash:
  "balanced s \<Longrightarrow> t \<noteq> raw_block \<Longrightarrow> t \<noteq> raw_tx \<Longrightarrow> balanced (snd (set_subscription t pre cancel s))"
  by (simp add: balanced_def set_subscription_def)

lemma balanced_raw_block:
  "balanced s \<Longrightarrow> balanced (if fst (set_subscription raw_block pre cancel s)
     then demand_wire_block (\<not> cancel) (snd (set_subscription raw_block pre cancel s))
     else snd (set_subscription raw_block pre cancel s))"
  by (cases cancel; cases "flags s raw_block")
    (simp_all add: balanced_def set_subscription_def demand_wire_block_def)

lemma balanced_raw_tx:
  "balanced s \<Longrightarrow> balanced (if fst (set_subscription raw_tx pre cancel s)
     then demand_wire_block (\<not> cancel)
       (demand_wire_tx (\<not> cancel) (snd (set_subscription raw_tx pre cancel s)))
     else snd (set_subscription raw_tx pre cancel s))"
  by (cases cancel; cases "flags s raw_tx")
    (simp_all add: balanced_def set_subscription_def demand_wire_block_def demand_wire_tx_def)

lemma balanced_subscribe:
  assumes "balanced s"
  shows "balanced (zmq_subscribe maximum ec pre cancel s)"
proof -
  have "balanced (if cancel then (if zmq_subscriptions s \<noteq> 0
      then s\<lparr>zmq_subscriptions := zmq_subscriptions s - 1\<rparr> else s)
      else s\<lparr>zmq_subscriptions := zmq_subscriptions s + 1\<rparr>)" (is "balanced ?s")
    using assms by (simp add: balanced_def)
  moreover from this have "balanced (?s\<lparr>zmq_stopped := True\<rparr>)" by (simp add: balanced_def)
  ultimately show ?thesis
    using assms unfolding zmq_subscribe_def Let_def split_def
    by (simp only: balanced_raw_tx balanced_raw_block balanced_hash topic.simps not_False_eq_True
        split: if_split) blast
qed

text \<open>A subscription publishes nothing, and one beyond the limit stops the channel.\<close>

lemma subscribe_keeps [simp]:
  "published (snd (set_subscription t pre cancel s)) = published s"
  "counters (snd (set_subscription t pre cancel s)) = counters s"
  "zmq_subscriptions (snd (set_subscription t pre cancel s)) = zmq_subscriptions s"
  "zmq_stopped (snd (set_subscription t pre cancel s)) = zmq_stopped s"
  by (simp_all add: set_subscription_def)

lemma demand_keeps [simp]:
  "published (demand_wire_tx d s) = published s" "published (demand_wire_block d s) = published s"
  "counters (demand_wire_tx d s) = counters s" "counters (demand_wire_block d s) = counters s"
  "zmq_subscriptions (demand_wire_tx d s) = zmq_subscriptions s"
  "zmq_subscriptions (demand_wire_block d s) = zmq_subscriptions s"
  "zmq_stopped (demand_wire_tx d s) = zmq_stopped s"
  "zmq_stopped (demand_wire_block d s) = zmq_stopped s"
  by (simp_all add: demand_wire_tx_def demand_wire_block_def)

lemma zmq_subscribe_keeps:
  "published (zmq_subscribe maximum ec pre cancel s) = published s"
  "counters (zmq_subscribe maximum ec pre cancel s) = counters s"
  by (simp_all add: zmq_subscribe_def Let_def split_def)

lemma word_decrease: "n \<noteq> 0 \<Longrightarrow> n \<le> m \<Longrightarrow> n - 1 \<le> (m :: u32)"
  by (simp add: word_le_nat_alt unat_minus_one)

lemma zmq_subscribe_limit:
  "zmq_stopped s \<or> zmq_subscriptions s \<le> maximum \<Longrightarrow>
   zmq_stopped (zmq_subscribe maximum ec pre cancel s) \<or>
   zmq_subscriptions (zmq_subscribe maximum ec pre cancel s) \<le> maximum"
  by (auto simp: zmq_subscribe_def Let_def split_def word_decrease not_less)

lemma zmq_inv_step:
  assumes "zmq_inv maximum s" "zmq_step maximum s s'"
  shows "zmq_inv maximum s'"
  using assms(2)
proof (cases rule: zmq_step.cases)
  case (Step_Subscribe ec pre cancel)
  have "gapless s'" using assms(1) gapless_cong zmq_subscribe_keeps Step_Subscribe
    by (metis zmq_inv_def)
  moreover have "balanced s'" using assms(1) Step_Subscribe
    by (auto simp: zmq_inv_def intro: balanced_subscribe)
  moreover have "zmq_stopped s' \<or> zmq_subscriptions s' \<le> maximum"
    using assms(1) unfolding Step_Subscribe by (intro zmq_subscribe_limit) (simp add: zmq_inv_def)
  ultimately show ?thesis by (simp add: zmq_inv_def)
next
  case Step_Stopping
  then have "gapless s'" using assms(1) gapless_cong [of s' s]
    by (simp add: zmq_inv_def zmq_stopping_def Let_def)
  then show ?thesis using assms(1) Step_Stopping
    by (simp add: zmq_inv_def balanced_def zmq_stopping_def demand_wire_tx_def demand_wire_block_def Let_def)
qed (auto intro: zmq_inv_same [OF assms(1)] same_handlers)

lemma zmq_inv_initial: "zmq_inv maximum initial_zmq"
  by (simp add: zmq_inv_def balanced_def initial_zmq_def gapless_def numbers_def)

interpretation zmq: state_machine "\<lambda>s. s = initial_zmq" "zmq_step maximum" "zmq_inv maximum"
  for maximum
  by unfold_locales (simp add: zmq_inv_initial, erule (1) zmq_inv_step)

subsection \<open>Properties\<close>

definition sample_zmq :: "nat zmq" where
  "sample_zmq = handle_wire_tx False 7 (zmq_subscribe 2 False ''raw'' False initial_zmq)"

lemma sample_zmq_run: "rtranclp (zmq_step 2) initial_zmq sample_zmq"
  unfolding sample_zmq_def
  by (rule rtranclp.rtrancl_into_rtrancl [OF r_into_rtranclp [of "zmq_step 2", OF Step_Subscribe]
        Step_Wire_Tx])

text \<open>
  C8: In every reachable state the demands a channel has reported to the node match its
  subscriptions: one for transactions while rawtx is subscribed, and one for blocks for each of rawblock
  and rawtx, so no broadcast is produced without a subscriber and none is missing. A channel that
  is not stopped holds at most the configured number of subscriptions.
\<close>

theorem zmq_demand_balanced:
  assumes "rtranclp (zmq_step maximum) initial_zmq s"
  shows "demand_tx s = of_bool (flags s raw_tx) \<and>
    demand_block s = of_bool (flags s raw_block) + of_bool (flags s raw_tx) \<and>
    (zmq_stopped s \<or> zmq_subscriptions s \<le> maximum)"
  using zmq.reachable_inv [OF refl assms] by (simp add: zmq_inv_def balanced_def)

theorem zmq_demand_balanced_witness:
  "demand_tx sample_zmq = of_bool (flags sample_zmq raw_tx) \<and>
   demand_block sample_zmq = of_bool (flags sample_zmq raw_block) + of_bool (flags sample_zmq raw_tx)"
  using zmq_demand_balanced [OF sample_zmq_run] by blast

text \<open>
  C12: Sequence numbers have no gaps: in every reachable state the numbers of the messages of a
  topic are 0, 1, 2 and so on in the order of publication (modulo the 32 bits of the counter).
\<close>

theorem zmq_sequence_gapless:
  assumes "rtranclp (zmq_step maximum) initial_zmq s"
  shows "map (fst \<circ> snd) (filter (\<lambda>m. fst m = t) (published s)) =
    map of_nat [0..<length (filter (\<lambda>m. fst m = t) (published s))]"
  using zmq.reachable_inv [OF refl assms]
  by (auto simp: zmq_inv_def gapless_def numbers_def dest: spec [of _ t])

theorem zmq_sequence_gapless_witness:
  "map (fst \<circ> snd) (filter (\<lambda>m. fst m = raw_tx) (published sample_zmq)) =
   map of_nat [0..<length (filter (\<lambda>m. fst m = raw_tx) (published sample_zmq))] \<and>
   published sample_zmq \<noteq> []"
  using zmq_sequence_gapless [OF sample_zmq_run, of raw_tx]
  by (simp add: sample_zmq_def handle_wire_tx_def publish_def increment_def zmq_subscribe_def
      set_subscription_def initial_zmq_def topic_text_def demand_wire_tx_def demand_wire_block_def)

text \<open>A stopped state: no demand is left and every handler leaves the state alone.\<close>

definition quiet :: "'w zmq \<Rightarrow> bool" where
  "quiet s \<longleftrightarrow> zmq_stopped s \<and> \<not> flags s raw_tx \<and> \<not> flags s raw_block"

lemma quiet_step: "quiet s \<Longrightarrow> zmq_step maximum s s' \<Longrightarrow> s' = s"
  by (erule zmq_step.cases)
    (simp_all add: quiet_def zmq_subscribe_def zmq_stopping_def handle_wire_tx_def handle_wire_block_def
      zmq_organized_def zmq_reorganized_def zmq_transaction_def)

lemma quiet_run: "rtranclp (zmq_step maximum) s s' \<Longrightarrow> quiet s \<Longrightarrow> s' = s"
  by (induction rule: rtranclp_induct) (auto dest: quiet_step)

text \<open>
  Stopping a channel withdraws all its demands, publishes nothing, and no handler that still
  runs afterwards demands or publishes anything.
\<close>

theorem zmq_stopping_final:
  assumes "rtranclp (zmq_step maximum) initial_zmq s" "rtranclp (zmq_step maximum) (zmq_stopping s) s'"
  shows "demand_tx s' = 0 \<and> demand_block s' = 0 \<and> published s' = published s"
proof -
  have "quiet (zmq_stopping s)"
    by (simp add: quiet_def zmq_stopping_def demand_wire_tx_def demand_wire_block_def Let_def)
  then have "s' = zmq_stopping s" using quiet_run assms(2) by blast
  moreover have "balanced s" using zmq.reachable_inv [OF refl assms(1)] by (simp add: zmq_inv_def)
  ultimately show ?thesis
    by (simp add: zmq_stopping_def balanced_def demand_wire_tx_def demand_wire_block_def Let_def)
qed

theorem zmq_stopping_final_witness:
  "demand_tx (zmq_stopping sample_zmq) = 0 \<and> demand_block (zmq_stopping sample_zmq) = 0"
  using zmq_stopping_final [OF sample_zmq_run rtranclp.rtrancl_refl] by blast

lemma bytes_of_word_inject:
  fixes v w :: "'a :: len word"
  assumes "LENGTH('a) = 8 * n"
    "map (\<lambda>i. ucast (drop_bit (8 * i) v) :: u8) [0..<n] = map (\<lambda>i. ucast (drop_bit (8 * i) w)) [0..<n]"
  shows "v = w"
proof (rule bit_word_eqI)
  fix k assume "k < LENGTH('a)"
  then have k: "k div 8 < n" "k mod 8 < 8" "8 * (k div 8) + k mod 8 = k" using assms(1) by auto
  have "(ucast (drop_bit (8 * (k div 8)) v) :: u8) = ucast (drop_bit (8 * (k div 8)) w)"
    using assms(2) k(1) by (auto simp: list_eq_iff_nth_eq)
  then have "bit (ucast (drop_bit (8 * (k div 8)) v) :: u8) (k mod 8) =
      bit (ucast (drop_bit (8 * (k div 8)) w) :: u8) (k mod 8)" by simp
  then show "bit v k = bit w k" using k by (simp add: bit_simps)
qed

lemma hash_bytes_inject: "hash_bytes h = hash_bytes h' \<longleftrightarrow> h = h'"
  using bytes_of_word_inject [where n = 32 and v = h and w = h'] by (auto simp: hash_bytes_def)

lemma little_endian_inject: "little_endian_8 n = little_endian_8 n' \<longleftrightarrow> n = n'"
  using bytes_of_word_inject [where n = 8 and v = n and w = n'] by (auto simp: little_endian_8_def)

lemma label_value_inject: "label_value l = label_value l' \<longleftrightarrow> l = l'"
  by (cases l; cases l') (simp_all add: label_value_def)

text \<open>
  The body of a sequence message determines the event: its label, the hash, and for a
  transaction the pool sequence. Bodies have 41 bytes for a transaction and 33 for a block.
\<close>

theorem sequence_body_determines:
  "(sequence_body l hash n = sequence_body l' hash' n' \<longleftrightarrow>
      l = l' \<and> hash = hash' \<and> (l = transaction_accepted \<or> l = transaction_removed \<longrightarrow> n = n')) \<and>
   length (sequence_body l hash n) =
     (if l = transaction_accepted \<or> l = transaction_removed then 41 else 33)"
proof -
  have len: "length (hash_bytes h) = 32" "length (little_endian_8 k) = 8" for h k
    by (simp_all add: hash_bytes_def little_endian_8_def)
  have "sequence_body l hash n = sequence_body l' hash' n' \<longleftrightarrow>
      hash_bytes hash = hash_bytes hash' \<and> label_value l = label_value l' \<and>
      (if l = transaction_accepted \<or> l = transaction_removed then little_endian_8 n else []) =
      (if l' = transaction_accepted \<or> l' = transaction_removed then little_endian_8 n' else [])"
    by (simp add: sequence_body_def append_eq_append_conv len)
  then show ?thesis
    using len by (auto simp: hash_bytes_inject label_value_inject little_endian_inject sequence_body_def)
qed

theorem sequence_body_determines_witness:
  "length (sequence_body transaction_accepted 5 6) = 41"
  using sequence_body_determines [of transaction_accepted 5 6 transaction_accepted 5 6] by simp

text \<open>
  Subscriptions are flags and not counts: with two prefixes that cover a topic, canceling one of
  them ends the topic although the other was not canceled.
\<close>

lemma overlapping_cancel:
  "flags (zmq_subscribe 9 False ''hashtx'' True (zmq_subscribe 9 False ''hashtx'' False
     (zmq_subscribe 9 False ''hash'' False initial_zmq))) hash_tx = False \<and>
   zmq_subscriptions (zmq_subscribe 9 False ''hashtx'' True (zmq_subscribe 9 False ''hashtx'' False
     (zmq_subscribe 9 False ''hash'' False initial_zmq))) = 1"
  by (simp add: zmq_subscribe_def set_subscription_def initial_zmq_def topic_text_def
      demand_wire_tx_def demand_wire_block_def)

end
