(* ===== verification/Address.thy ===== *)
theory Address
  imports Rpc_Model Std_Map
begin

text \<open>
  Addresses and the watch-list arguments of the btcd service: \<open>utilities/address.cpp\<close> and
  \<open>parsers/btcd_filter.cpp\<close>. The address and script types of the system library are
  the type parameters \<open>'p\<close> (payment address), \<open>'w\<close> (witness address) and \<open>'s\<close> (script), and
  its functions are the fields of \<open>address_lib\<close>.
\<close>

record ('p, 'w, 's) address_lib =
  payment_address :: "string \<Rightarrow> 'p option"
  payment_prefix :: "'p \<Rightarrow> u8"
  payment_script :: "'p \<Rightarrow> u8 \<Rightarrow> u8 \<Rightarrow> 's"
  payment_encoded :: "'p \<Rightarrow> string"
  extract_output :: "'s \<Rightarrow> u8 \<Rightarrow> u8 \<Rightarrow> 'p option"
  witness_address :: "string \<Rightarrow> 'w option"
  witness_prefix :: "'w \<Rightarrow> string"
  witness_script :: "'w \<Rightarrow> 's"
  script_version :: "'s \<Rightarrow> u8"
  unversioned :: u8
  program_address :: "'s \<Rightarrow> string \<Rightarrow> string"
  script_sha :: "'s \<Rightarrow> hash_digest"
  decode_chunk :: "string \<Rightarrow> u8 list option"
  is_public_key :: "u8 list \<Rightarrow> bool"
  pay_public_key :: "u8 list \<Rightarrow> 's"
  pay_key_hash :: "u8 list \<Rightarrow> 's"
  decode_digest :: "string \<Rightarrow> hash_digest option"
  to_uint32 :: "double \<Rightarrow> u32 option"

record address_prefixes =
  p2kh :: u8
  p2sh :: u8
  witness_hrp :: string

definition output_script ::
  "('p, 'w, 's) address_lib \<Rightarrow> address_prefixes \<Rightarrow> string \<Rightarrow> error_t + 's" where
  "output_script D pre text' =
     (case payment_address D text' of
        Some payment \<Rightarrow>
          if payment_prefix D payment = p2kh pre \<or> payment_prefix D payment = p2sh pre
          then Inr (payment_script D payment (p2kh pre) (p2sh pre))
          else (case witness_address D text' of
              Some payment \<Rightarrow> if witness_prefix D payment = witness_hrp pre
                then Inr (witness_script D payment) else Inl invalid_argument
            | None \<Rightarrow> Inl invalid_argument)
      | None \<Rightarrow>
          (case witness_address D text' of
              Some payment \<Rightarrow> if witness_prefix D payment = witness_hrp pre
                then Inr (witness_script D payment) else Inl invalid_argument
            | None \<Rightarrow> Inl invalid_argument))"

definition to_address :: "('p, 'w, 's) address_lib \<Rightarrow> address_prefixes \<Rightarrow> 's \<Rightarrow> string" where
  "to_address D pre script =
     (if script_version D script \<noteq> unversioned D then program_address D script (witness_hrp pre)
      else case extract_output D script (p2kh pre) (p2sh pre) of
          Some pay \<Rightarrow> payment_encoded D pay
        | None \<Rightarrow> [])"

fun filter_key_items ::
  "('p, 'w, 's) address_lib \<Rightarrow> address_prefixes \<Rightarrow> value_t list \<Rightarrow> error_t + hash_digest list" where
  "filter_key_items D pre [] = Inr []"
| "filter_key_items D pre (item # rest) =
     (case item of
        String text' \<Rightarrow> sum_bind (output_script D pre text') (\<lambda>script.
          sum_bind (filter_key_items D pre rest) (\<lambda>keys. Inr (script_sha D script # keys)))
      | _ \<Rightarrow> Inl invalid_argument)"

definition filter_keys ::
  "('p, 'w, 's) address_lib \<Rightarrow> address_prefixes \<Rightarrow> value_t \<Rightarrow> error_t + hash_digest list" where
  "filter_keys D pre addresses =
     (case addresses of Array items \<Rightarrow> filter_key_items D pre items | _ \<Rightarrow> Inl invalid_argument)"

definition filter_point :: "('p, 'w, 's) address_lib \<Rightarrow> value_t \<Rightarrow> error_t + point" where
  "filter_point D item =
     (case item of
        Object members \<Rightarrow>
          (case (members ''hash'', members ''index'') of
             (Some (String hash_text), Some (Number index_number)) \<Rightarrow>
               (case (decode_digest D hash_text, to_uint32 D index_number) of
                  (Some hash, Some index) \<Rightarrow> Inr (hash, index)
                | _ \<Rightarrow> Inl invalid_argument)
           | _ \<Rightarrow> Inl invalid_argument)
      | _ \<Rightarrow> Inl invalid_argument)"

fun filter_point_items :: "('p, 'w, 's) address_lib \<Rightarrow> value_t list \<Rightarrow> error_t + point list" where
  "filter_point_items D [] = Inr []"
| "filter_point_items D (item # rest) =
     sum_bind (filter_point D item) (\<lambda>prevout.
       sum_bind (filter_point_items D rest) (\<lambda>points. Inr (prevout # points)))"

definition filter_points :: "('p, 'w, 's) address_lib \<Rightarrow> value_t \<Rightarrow> error_t + point list" where
  "filter_points D outpoints =
     (case outpoints of Array items \<Rightarrow> filter_point_items D items | _ \<Rightarrow> Inl invalid_argument)"

definition search_keys ::
  "('p, 'w, 's) address_lib \<Rightarrow> address_prefixes \<Rightarrow> string \<Rightarrow> error_t + hash_digest list" where
  "search_keys D pre address =
     (let parsed = sum_bind (output_script D pre address) (\<lambda>script. Inr [script_sha D script]) in
      case decode_chunk D address of
        Some point' \<Rightarrow>
          if is_public_key D point'
          then Inr [script_sha D (pay_public_key D point'), script_sha D (pay_key_hash D point')]
          else parsed
      | None \<Rightarrow> parsed)"

text \<open>An accepted watch-list has one key per element of the request, in its order.\<close>

lemma filter_key_items_length:
  "filter_key_items D pre items = Inr keys \<Longrightarrow> length keys = length items"
  by (induction items arbitrary: keys) (auto simp: sum_bind_eq_Inr split: value_t.splits)

lemma filter_point_items_length:
  "filter_point_items D items = Inr points \<Longrightarrow> length points = length items"
  by (induction items arbitrary: points) (auto simp: sum_bind_eq_Inr)

text \<open>
  What the system library promises of the two address encodings: the text of an address parses
  to that address, and the script of an address identifies it.
\<close>

definition address_laws :: "('p, 'w, 's) address_lib \<Rightarrow> address_prefixes \<Rightarrow> bool" where
  "address_laws D pre \<longleftrightarrow>
     (\<forall>p. payment_address D (payment_encoded D p) = Some p) \<and>
     (\<forall>p. payment_prefix D p = p2kh pre \<or> payment_prefix D p = p2sh pre \<longrightarrow>
        script_version D (payment_script D p (p2kh pre) (p2sh pre)) = unversioned D \<and>
        extract_output D (payment_script D p (p2kh pre) (p2sh pre)) (p2kh pre) (p2sh pre) = Some p) \<and>
     (\<forall>w. script_version D (witness_script D w) \<noteq> unversioned D \<and>
        payment_address D (program_address D (witness_script D w) (witness_prefix D w)) = None \<and>
        witness_address D (program_address D (witness_script D w) (witness_prefix D w)) = Some w)"

text \<open>The address of an accepted script is accepted again, with the same script.\<close>

lemma output_script_cases:
  assumes "output_script D pre t = Inr script"
  obtains (payment) p where "payment_address D t = Some p"
      "payment_prefix D p = p2kh pre \<or> payment_prefix D p = p2sh pre"
      "script = payment_script D p (p2kh pre) (p2sh pre)"
    | (witness) w where "witness_prefix D w = witness_hrp pre" "script = witness_script D w"
  using assms by (auto simp: output_script_def split: option.splits if_splits)

lemma output_script_to_address:
  assumes laws: "address_laws D pre" and accepted: "output_script D pre t = Inr script"
  shows "output_script D pre (to_address D pre script) = Inr script"
  using accepted
proof (cases rule: output_script_cases)
  case (payment p)
  have "script_version D script = unversioned D" "extract_output D script (p2kh pre) (p2sh pre) = Some p"
    using laws payment(2,3) unfolding address_laws_def by blast+
  then have "to_address D pre script = payment_encoded D p"
    unfolding to_address_def by simp
  then show ?thesis using laws payment(2,3) unfolding address_laws_def output_script_def by simp
next
  case (witness w)
  have "to_address D pre script = program_address D script (witness_hrp pre)"
    using laws witness unfolding address_laws_def to_address_def by simp
  moreover have "payment_address D (program_address D script (witness_hrp pre)) = None"
    "witness_address D (program_address D script (witness_hrp pre)) = Some w"
    using laws witness unfolding address_laws_def by metis+
  ultimately show ?thesis using witness by (simp add: output_script_def)
qed

end
