(* ===== verification/Btcd_Watch.thy ===== *)
theory Btcd_Watch
  imports Address Errors
begin

text \<open>
  Watch-lists and notifications of the btcd service: \<open>protocol_btcd_filter.cpp\<close> and the
  subscription handlers and chase events of \<open>protocol_btcd.cpp\<close>.

  Handlers run on the channel strand and post jobs to the notification strand, which owns the
  four watch maps; a job posts its result back, where it is sent. A job reads the archive (the
  view \<open>btcd_view\<close> it happens to see) and the flag \<open>stopping_\<close>, which the channel strand sets at
  any time: a loop takes a predicate that gives the value it reads with so many elements
  left. A job that ends without posting has the result \<open>None\<close>.
  Functions of the system and database libraries are the fields of \<open>btcd_lib\<close>.
\<close>

subsection \<open>Data\<close>

record ('h, 'c, 'tx, 'hd) btcd_lib =
  entry_confirmed :: "'h \<Rightarrow> bool"
  entry_height :: "'h \<Rightarrow> u64"
  entry_position :: "'h \<Rightarrow> u64"
  entry_hash :: "'h \<Rightarrow> hash_digest"
  new_entries :: "'h list \<Rightarrow> 'h list \<Rightarrow> 'h list"
  sort_and_dedup :: "'h list \<Rightarrow> 'h list"
  first_cursor :: 'c
  sum_sizes :: "nat \<Rightarrow> nat \<Rightarrow> nat"
  clamp_size :: "64 word \<Rightarrow> u64 \<Rightarrow> u64 \<Rightarrow> u64"
  to_int64 :: "double \<Rightarrow> 64 word option"
  digest_text :: "hash_digest \<Rightarrow> string"
  text_digest :: "string \<Rightarrow> hash_digest option"
  tx_text :: "'tx \<Rightarrow> string"
  tx_id :: "'tx \<Rightarrow> hash_digest"
  tx_amount :: "'tx \<Rightarrow> double"
  output_keys :: "'tx \<Rightarrow> hash_digest list"
  header_digest :: "'hd \<Rightarrow> hash_digest"
  header_time :: "'hd \<Rightarrow> u32"
  header_text :: "'hd \<Rightarrow> string"
  canceled :: code

record ('h, 'c, 'tx, 'hd) btcd_view =
  watch_enabled :: bool
  watch_history :: "'c \<Rightarrow> hash_digest \<Rightarrow> u64 \<Rightarrow> code \<times> 'c \<times> 'h list"
  confirmed_history :: "hash_digest \<Rightarrow> u64 \<Rightarrow> code \<times> 'h list"
  spenders_history :: "point \<Rightarrow> 'h list"
  header_link :: "hash_digest \<Rightarrow> u32"
  is_terminal :: "u32 \<Rightarrow> bool"
  link_height :: "u32 \<Rightarrow> u64 option"
  link_header :: "u32 \<Rightarrow> 'hd option"
  tx_link :: "hash_digest \<Rightarrow> u32"
  link_transaction :: "u32 \<Rightarrow> 'tx option"
  search_transaction :: "u32 \<Rightarrow> 'tx \<Rightarrow> string set \<Rightarrow> bool \<Rightarrow> value_t"
  top_link :: u32

record btcd_options =
  maximum_filters :: u32
  btcd_maximum_history :: u32

text \<open>An \<open>address_watch\<close> is its cursor and an \<open>outpoint_watch\<close> its spenders.\<close>

record ('h, 'c) btcd_state =
  address_watches :: "(hash_digest \<times> 'c) list"
  outpoint_watches :: "(point \<times> 'h list) list"
  receive_watches :: "(hash_digest \<times> 'c) list"
  spent_watches :: "(point \<times> 'h list) list"
  watching_legacy :: bool
  subscribed_blocks :: bool
  subscribed_transactions :: bool
  verbose_transactions :: bool

definition initial_btcd :: "('h, 'c) btcd_state" where
  "initial_btcd = \<lparr>address_watches = [], outpoint_watches = [], receive_watches = [],
     spent_watches = [], watching_legacy = False, subscribed_blocks = False,
     subscribed_transactions = False, verbose_transactions = False\<rparr>"

type_synonym matched_txs = "(u64 \<times> hash_digest) list"
type_synonym matches = "(u64 \<times> matched_txs) list"

abbreviation btcd_error :: "string \<Rightarrow> code" where
  "btcd_error name \<equiv> code_of btcd_category (enumerator btcd_errors name)"

abbreviation btcd_success :: code where
  "btcd_success \<equiv> code_of server_category 0"

datatype 'hd btcd_post =
    Complete_Load_Tx_Filter code
  | Complete_Notify_Received code
  | Complete_Notify_Spent code
  | Complete_Rescan_Blocks code array_t
  | Complete_Search_Raw_Transactions code array_t
  | Complete_Overflow code
  | Notify_Connected 'hd u64 array_t "array_t list" "array_t list"
  | Notify_Disconnected 'hd u64
  | Notify_Transaction bool array_t

datatype btcd_job =
    Do_Load_Tx_Filter bool "hash_digest list" "point list"
  | Do_Notify_Received "hash_digest list"
  | Do_Stop_Notify_Received "hash_digest list"
  | Do_Notify_Spent "point list"
  | Do_Stop_Notify_Spent "point list"
  | Do_Rescan_Blocks "hash_digest list"
  | Do_Search_Raw_Transactions "hash_digest list" bool u64 u64 bool bool "string set"
  | Do_Connected u32 | Do_Disconnected u32 | Do_Transaction u32

text \<open>
  What the channel strand does: an error or a result of the request, a notification, a job for
  another strand, or stopping the channel. The result is absent for \<open>send_result({})\<close>.
\<close>

datatype btcd_action =
    Fail code | Reply "value_t option" | Notify string array_t | Run btcd_job | Stop code

subsection \<open>Utilities\<close>

definition watch_count :: "('h, 'c, 'tx, 'hd) btcd_lib \<Rightarrow> ('h, 'c) btcd_state \<Rightarrow> nat" where
  "watch_count L s =
     sum_sizes L (sum_sizes L (sum_sizes L
       (length (address_watches s)) (length (outpoint_watches s)))
       (length (receive_watches s))) (length (spent_watches s))"

definition at_limit ::
  "('h, 'c, 'tx, 'hd) btcd_lib \<Rightarrow> btcd_options \<Rightarrow> ('h, 'c) btcd_state \<Rightarrow> bool" where
  "at_limit L opts s \<longleftrightarrow> watch_count L s \<ge> unat (maximum_filters opts)"

text \<open>\<open>out[height].emplace(position, hash)\<close>: the entry of the height is created when it is absent.\<close>

definition add_match :: "u64 \<Rightarrow> u64 \<Rightarrow> hash_digest \<Rightarrow> matches \<Rightarrow> matches" where
  "add_match height position hash out =
     (let out = emplace height [] out in
      assign height (emplace position hash (the (map_of out height))) out)"

definition add_matches ::
  "('h, 'c, 'tx, 'hd) btcd_lib \<Rightarrow> u64 set \<Rightarrow> 'h list \<Rightarrow> matches \<Rightarrow> matches" where
  "add_matches L heights entries out =
     fold (\<lambda>entry out.
       if entry_confirmed L entry \<and> entry_height L entry \<in> heights
       then add_match (entry_height L entry) (entry_position L entry) (entry_hash L entry) out
       else out) entries out"

definition match_addresses ::
  "('h, 'c, 'tx, 'hd) btcd_lib \<Rightarrow> btcd_options \<Rightarrow> ('h, 'c, 'tx, 'hd) btcd_view \<Rightarrow> u64 set \<Rightarrow>
   hash_digest \<Rightarrow> 'c \<Rightarrow> matches \<Rightarrow> code \<times> 'c \<times> matches" where
  "match_addresses L opts A heights key at out =
     (case watch_history A at key (ucast (btcd_maximum_history opts)) of (ec, at', delta) \<Rightarrow>
        if is_error ec then (ec, at', out)
        else (btcd_success, at', add_matches L heights delta out))"

definition match_outpoints ::
  "('h, 'c, 'tx, 'hd) btcd_lib \<Rightarrow> ('h, 'c, 'tx, 'hd) btcd_view \<Rightarrow> u64 set \<Rightarrow>
   point \<Rightarrow> 'h list \<Rightarrow> matches \<Rightarrow> 'h list \<times> matches" where
  "match_outpoints L A heights prevout sub out =
     (let spent_by = spenders_history A prevout in
      (spent_by, add_matches L heights (new_entries L spent_by sub) out))"

fun serialize_matches ::
  "('h, 'c, 'tx, 'hd) btcd_lib \<Rightarrow> ('h, 'c, 'tx, 'hd) btcd_view \<Rightarrow> (nat \<Rightarrow> bool) \<Rightarrow> matched_txs \<Rightarrow>
   array_t" where
  "serialize_matches L A stopping [] = []"
| "serialize_matches L A stopping ((position, hash) # rest) =
     (if stopping (length rest) then []
      else (case link_transaction A (tx_link A hash) of
              Some tx \<Rightarrow> [String (tx_text L tx)] | None \<Rightarrow> []) @
           serialize_matches L A stopping rest)"

definition serialize_legacy ::
  "('h, 'c, 'tx, 'hd) btcd_lib \<Rightarrow> 'tx \<Rightarrow> 'hd \<Rightarrow> u64 \<Rightarrow> u64 \<Rightarrow> array_t" where
  "serialize_legacy L tx header height position =
     [String (tx_text L tx),
      Object [''height'' \<mapsto> U64 height, ''hash'' \<mapsto> String (digest_text L (header_digest L header)),
        ''index'' \<mapsto> U64 position, ''time'' \<mapsto> U32 (header_time L header)]]"

subsection \<open>Jobs: watch-lists\<close>

fun load_addresses ::
  "('h, 'c, 'tx, 'hd) btcd_lib \<Rightarrow> btcd_options \<Rightarrow> ('h, 'c, 'tx, 'hd) btcd_view \<Rightarrow> (nat \<Rightarrow> bool) \<Rightarrow>
   hash_digest list \<Rightarrow> ('h, 'c) btcd_state \<Rightarrow> ('h, 'c) btcd_state \<times> code option" where
  "load_addresses L opts A stopping [] s = (s, Some btcd_success)"
| "load_addresses L opts A stopping (key # rest) s =
     (if stopping (length rest) then (s, None)
      else if at_limit L opts s then (s, Some (btcd_error ''misc_error''))
      else if map_of (address_watches s) key = None then
        (case watch_history A (first_cursor L) key (ucast (btcd_maximum_history opts)) of
           (fault, at, _) \<Rightarrow>
             let s = s\<lparr>address_watches := assign key at (emplace key (first_cursor L) (address_watches s))\<rparr> in
             if fault = canceled L then (s, None) else load_addresses L opts A stopping rest s)
      else load_addresses L opts A stopping rest s)"

fun load_outpoints ::
  "('h, 'c, 'tx, 'hd) btcd_lib \<Rightarrow> btcd_options \<Rightarrow> ('h, 'c, 'tx, 'hd) btcd_view \<Rightarrow> (nat \<Rightarrow> bool) \<Rightarrow>
   code \<Rightarrow> point list \<Rightarrow> ('h, 'c) btcd_state \<Rightarrow> ('h, 'c) btcd_state \<times> code option" where
  "load_outpoints L opts A stopping ec [] s = (s, Some ec)"
| "load_outpoints L opts A stopping ec (prevout # rest) s =
     (if stopping (length rest) then (s, None)
      else if is_error ec then (s, Some ec)
      else if at_limit L opts s then (s, Some (btcd_error ''misc_error''))
      else load_outpoints L opts A stopping ec rest
        (s\<lparr>outpoint_watches := emplace prevout (spenders_history A prevout) (outpoint_watches s)\<rparr>))"

definition do_load_tx_filter ::
  "('h, 'c, 'tx, 'hd) btcd_lib \<Rightarrow> btcd_options \<Rightarrow> ('h, 'c, 'tx, 'hd) btcd_view \<Rightarrow> (nat \<Rightarrow> bool) \<Rightarrow>
   (nat \<Rightarrow> bool) \<Rightarrow> bool \<Rightarrow> hash_digest list \<Rightarrow> point list \<Rightarrow> ('h, 'c) btcd_state \<Rightarrow>
   ('h, 'c) btcd_state \<times> 'hd btcd_post option" where
  "do_load_tx_filter L opts A stopping stopping' reload keys points s =
     (let s = (if reload then s\<lparr>address_watches := [], outpoint_watches := []\<rparr> else s) in
      case load_addresses L opts A stopping keys s of
        (s, None) \<Rightarrow> (s, None)
      | (s, Some ec) \<Rightarrow>
          (case load_outpoints L opts A stopping' ec points s of
             (s, None) \<Rightarrow> (s, None)
           | (s, Some ec) \<Rightarrow> (s, Some (Complete_Load_Tx_Filter ec))))"

fun load_receives ::
  "('h, 'c, 'tx, 'hd) btcd_lib \<Rightarrow> btcd_options \<Rightarrow> ('h, 'c, 'tx, 'hd) btcd_view \<Rightarrow> (nat \<Rightarrow> bool) \<Rightarrow>
   hash_digest list \<Rightarrow> ('h, 'c) btcd_state \<Rightarrow> ('h, 'c) btcd_state \<times> code option" where
  "load_receives L opts A stopping [] s = (s, Some btcd_success)"
| "load_receives L opts A stopping (key # rest) s =
     (if stopping (length rest) then (s, None)
      else if at_limit L opts s then (s, Some (btcd_error ''misc_error''))
      else if map_of (receive_watches s) key = None then
        (case watch_history A (first_cursor L) key (ucast (btcd_maximum_history opts)) of
           (fault, at, _) \<Rightarrow>
             let s = s\<lparr>receive_watches := assign key at (emplace key (first_cursor L) (receive_watches s)),
                       watching_legacy := True\<rparr> in
             if fault = canceled L then (s, None) else load_receives L opts A stopping rest s)
      else load_receives L opts A stopping rest s)"

definition do_notify_received ::
  "('h, 'c, 'tx, 'hd) btcd_lib \<Rightarrow> btcd_options \<Rightarrow> ('h, 'c, 'tx, 'hd) btcd_view \<Rightarrow> (nat \<Rightarrow> bool) \<Rightarrow>
   hash_digest list \<Rightarrow> ('h, 'c) btcd_state \<Rightarrow> ('h, 'c) btcd_state \<times> 'hd btcd_post option" where
  "do_notify_received L opts A stopping keys s =
     (case load_receives L opts A stopping keys s of
        (s, ec) \<Rightarrow> (s, map_option Complete_Notify_Received ec))"

definition clear_legacy :: "('h, 'c) btcd_state \<Rightarrow> ('h, 'c) btcd_state" where
  "clear_legacy s =
     (if receive_watches s = [] \<and> spent_watches s = [] then s\<lparr>watching_legacy := False\<rparr> else s)"

definition do_stop_notify_received ::
  "hash_digest list \<Rightarrow> ('h, 'c) btcd_state \<Rightarrow> ('h, 'c) btcd_state" where
  "do_stop_notify_received keys s =
     clear_legacy (s\<lparr>receive_watches := fold erase keys (receive_watches s)\<rparr>)"

fun load_spents ::
  "('h, 'c, 'tx, 'hd) btcd_lib \<Rightarrow> btcd_options \<Rightarrow> (nat \<Rightarrow> bool) \<Rightarrow> point list \<Rightarrow>
   ('h, 'c) btcd_state \<Rightarrow> ('h, 'c) btcd_state \<times> code option" where
  "load_spents L opts stopping [] s = (s, Some btcd_success)"
| "load_spents L opts stopping (prevout # rest) s =
     (if stopping (length rest) then (s, None)
      else if at_limit L opts s then (s, Some (btcd_error ''misc_error''))
      else load_spents L opts stopping rest
        (if map_of (spent_watches s) prevout = None
         then s\<lparr>spent_watches := emplace prevout [] (spent_watches s), watching_legacy := True\<rparr>
         else s))"

definition do_notify_spent ::
  "('h, 'c, 'tx, 'hd) btcd_lib \<Rightarrow> btcd_options \<Rightarrow> (nat \<Rightarrow> bool) \<Rightarrow> point list \<Rightarrow>
   ('h, 'c) btcd_state \<Rightarrow> ('h, 'c) btcd_state \<times> 'hd btcd_post option" where
  "do_notify_spent L opts stopping points s =
     (case load_spents L opts stopping points s of
        (s, ec) \<Rightarrow> (s, map_option Complete_Notify_Spent ec))"

definition do_stop_notify_spent :: "point list \<Rightarrow> ('h, 'c) btcd_state \<Rightarrow> ('h, 'c) btcd_state" where
  "do_stop_notify_spent points s =
     clear_legacy (s\<lparr>spent_watches := fold erase points (spent_watches s)\<rparr>)"

subsection \<open>Jobs: matching a connected block\<close>

text \<open>The loops over the watch maps; the flag is set when the loop returned from the matcher.\<close>

fun match_address_watches ::
  "('h, 'c, 'tx, 'hd) btcd_lib \<Rightarrow> btcd_options \<Rightarrow> ('h, 'c, 'tx, 'hd) btcd_view \<Rightarrow> (nat \<Rightarrow> bool) \<Rightarrow>
   u64 set \<Rightarrow> (hash_digest \<times> 'c) list \<Rightarrow> matches \<Rightarrow> bool \<times> (hash_digest \<times> 'c) list \<times> matches" where
  "match_address_watches L opts A stopping heights [] out = (False, [], out)"
| "match_address_watches L opts A stopping heights ((key, at) # rest) out =
     (if stopping (length rest) then (True, (key, at) # rest, out)
      else case match_addresses L opts A heights key at out of (fault, at', out) \<Rightarrow>
        if fault = canceled L then (True, (key, at') # rest, out)
        else case match_address_watches L opts A stopping heights rest out of (quit, rest', out) \<Rightarrow>
          (quit, (key, at') # rest', out))"

fun match_outpoint_watches ::
  "('h, 'c, 'tx, 'hd) btcd_lib \<Rightarrow> ('h, 'c, 'tx, 'hd) btcd_view \<Rightarrow> (nat \<Rightarrow> bool) \<Rightarrow>
   u64 set \<Rightarrow> (point \<times> 'h list) list \<Rightarrow> matches \<Rightarrow> bool \<times> (point \<times> 'h list) list \<times> matches" where
  "match_outpoint_watches L A stopping heights [] out = (False, [], out)"
| "match_outpoint_watches L A stopping heights ((prevout, sub) # rest) out =
     (if stopping (length rest) then (True, (prevout, sub) # rest, out)
      else case match_outpoints L A heights prevout sub out of (sub', out) \<Rightarrow>
        (case match_outpoint_watches L A stopping heights rest out of (quit, rest', out) \<Rightarrow>
          (quit, (prevout, sub') # rest', out)))"

definition match_filters ::
  "('h, 'c, 'tx, 'hd) btcd_lib \<Rightarrow> btcd_options \<Rightarrow> ('h, 'c, 'tx, 'hd) btcd_view \<Rightarrow> (nat \<Rightarrow> bool) \<Rightarrow>
   (nat \<Rightarrow> bool) \<Rightarrow> (nat \<Rightarrow> bool) \<Rightarrow> u64 \<Rightarrow> u64 set \<Rightarrow> ('h, 'c) btcd_state \<Rightarrow>
   ('h, 'c) btcd_state \<times> code \<times> array_t" where
  "match_filters L opts A stopping stopping' stopping'' height heights s =
     (case match_address_watches L opts A stopping heights (address_watches s) [] of
        (quit, subs, matched) \<Rightarrow>
          let s = s\<lparr>address_watches := subs\<rparr> in
          if quit then (s, canceled L, [])
          else (case match_outpoint_watches L A stopping' heights (outpoint_watches s) matched of
            (quit, subs, matched) \<Rightarrow>
              let s = s\<lparr>outpoint_watches := subs\<rparr> in
              if quit then (s, canceled L, [])
              else (s, btcd_success,
                (case map_of matched height of
                   Some txs \<Rightarrow> serialize_matches L A stopping'' txs
                 | None \<Rightarrow> []))))"

text \<open>The index counts the outputs at 32 bits.\<close>

fun arm_outputs ::
  "('h, 'c, 'tx, 'hd) btcd_lib \<Rightarrow> btcd_options \<Rightarrow> hash_digest \<Rightarrow> u32 \<Rightarrow> hash_digest list \<Rightarrow> bool \<Rightarrow>
   ('h, 'c) btcd_state \<Rightarrow> ('h, 'c) btcd_state \<times> code \<times> bool" where
  "arm_outputs L opts hash index [] paid s = (s, btcd_success, paid)"
| "arm_outputs L opts hash index (key # rest) paid s =
     (if map_of (receive_watches s) key \<noteq> None then
        if at_limit L opts s then (s, btcd_error ''misc_error'', True)
        else arm_outputs L opts hash (index + 1) rest True
          (s\<lparr>spent_watches := emplace (hash, index) [] (spent_watches s)\<rparr>)
      else arm_outputs L opts hash (index + 1) rest paid s)"

definition arm_spent_watches ::
  "('h, 'c, 'tx, 'hd) btcd_lib \<Rightarrow> btcd_options \<Rightarrow> 'tx \<Rightarrow> hash_digest \<Rightarrow>
   ('h, 'c) btcd_state \<Rightarrow> ('h, 'c) btcd_state \<times> code \<times> bool" where
  "arm_spent_watches L opts tx hash s = arm_outputs L opts hash 0 (output_keys L tx) False s"

fun receive_txs ::
  "('h, 'c, 'tx, 'hd) btcd_lib \<Rightarrow> btcd_options \<Rightarrow> ('h, 'c, 'tx, 'hd) btcd_view \<Rightarrow> 'hd \<Rightarrow> u64 \<Rightarrow>
   matched_txs \<Rightarrow> ('h, 'c) btcd_state \<Rightarrow> ('h, 'c) btcd_state \<times> code \<times> array_t list" where
  "receive_txs L opts A header height [] s = (s, btcd_success, [])"
| "receive_txs L opts A header height ((position, hash) # rest) s =
     (case link_transaction A (tx_link A hash) of
        None \<Rightarrow> receive_txs L opts A header height rest s
      | Some tx \<Rightarrow>
          (case arm_spent_watches L opts tx hash s of (s, fault, paid) \<Rightarrow>
             if is_error fault then (s, fault, [])
             else case receive_txs L opts A header height rest s of (s, fault, out) \<Rightarrow>
               (s, fault, (if paid then [serialize_legacy L tx header height position] else []) @ out)))"

definition match_receives ::
  "('h, 'c, 'tx, 'hd) btcd_lib \<Rightarrow> btcd_options \<Rightarrow> ('h, 'c, 'tx, 'hd) btcd_view \<Rightarrow> (nat \<Rightarrow> bool) \<Rightarrow>
   'hd \<Rightarrow> u64 \<Rightarrow> u64 set \<Rightarrow> ('h, 'c) btcd_state \<Rightarrow> ('h, 'c) btcd_state \<times> code \<times> array_t list" where
  "match_receives L opts A stopping header height heights s =
     (case match_address_watches L opts A stopping heights (receive_watches s) [] of
        (quit, subs, received) \<Rightarrow>
          let s = s\<lparr>receive_watches := subs\<rparr> in
          if quit then (s, canceled L, [])
          else case map_of received height of
            None \<Rightarrow> (s, btcd_success, [])
          | Some txs \<Rightarrow> receive_txs L opts A header height txs s)"

definition redeeming ::
  "('h, 'c, 'tx, 'hd) btcd_lib \<Rightarrow> ('h, 'c, 'tx, 'hd) btcd_view \<Rightarrow> 'hd \<Rightarrow> u64 \<Rightarrow> matched_txs \<Rightarrow>
   array_t list" where
  "redeeming L A header height txs =
     concat (map (\<lambda>(position, hash).
       (case link_transaction A (tx_link A hash) of
          Some tx \<Rightarrow> [serialize_legacy L tx header height position] | None \<Rightarrow> [])) txs)"

text \<open>A spent watch with a match is erased, every other one keeps the spenders read.\<close>

fun match_spent_watches ::
  "('h, 'c, 'tx, 'hd) btcd_lib \<Rightarrow> ('h, 'c, 'tx, 'hd) btcd_view \<Rightarrow> (nat \<Rightarrow> bool) \<Rightarrow> 'hd \<Rightarrow> u64 \<Rightarrow>
   u64 set \<Rightarrow> (point \<times> 'h list) list \<Rightarrow> bool \<times> (point \<times> 'h list) list \<times> array_t list" where
  "match_spent_watches L A stopping header height heights [] = (False, [], [])"
| "match_spent_watches L A stopping header height heights ((prevout, sub) # rest) =
     (if stopping (length rest) then (True, (prevout, sub) # rest, [])
      else case match_outpoints L A heights prevout sub [] of (sub', spent) \<Rightarrow>
        let txs = (case map_of spent height of None \<Rightarrow> [] | Some txs \<Rightarrow> txs) in
        (case match_spent_watches L A stopping header height heights rest of (quit, rest', out) \<Rightarrow>
          (quit, if txs = [] then (prevout, sub') # rest' else rest',
           redeeming L A header height txs @ out)))"

definition match_spends ::
  "('h, 'c, 'tx, 'hd) btcd_lib \<Rightarrow> ('h, 'c, 'tx, 'hd) btcd_view \<Rightarrow> (nat \<Rightarrow> bool) \<Rightarrow> 'hd \<Rightarrow> u64 \<Rightarrow>
   u64 set \<Rightarrow> ('h, 'c) btcd_state \<Rightarrow> ('h, 'c) btcd_state \<times> code \<times> array_t list" where
  "match_spends L A stopping header height heights s =
     (case match_spent_watches L A stopping header height heights (spent_watches s) of
        (quit, subs, out) \<Rightarrow>
          (s\<lparr>spent_watches := subs\<rparr>, if quit then canceled L else btcd_success, out))"

text \<open>The values of the stop flag that the loops of one job read.\<close>

record stop_reads =
  at_addresses :: "nat \<Rightarrow> bool"
  at_outpoints :: "nat \<Rightarrow> bool"
  at_serialize :: "nat \<Rightarrow> bool"
  at_receives :: "nat \<Rightarrow> bool"
  at_spends :: "nat \<Rightarrow> bool"

definition do_connected ::
  "('h, 'c, 'tx, 'hd) btcd_lib \<Rightarrow> btcd_options \<Rightarrow> ('h, 'c, 'tx, 'hd) btcd_view \<Rightarrow> stop_reads \<Rightarrow> u32 \<Rightarrow>
   ('h, 'c) btcd_state \<Rightarrow> ('h, 'c) btcd_state \<times> 'hd btcd_post option" where
  "do_connected L opts A stops link s =
     (case link_height A link of
        None \<Rightarrow> (s, None)
      | Some height \<Rightarrow>
        (case link_header A link of
           None \<Rightarrow> (s, None)
         | Some header \<Rightarrow>
           (case match_filters L opts A (at_addresses stops) (at_outpoints stops) (at_serialize stops)
                   height {height} s of (s, fault, txs) \<Rightarrow>
              if is_error fault then (s, None)
              else (case match_receives L opts A (at_receives stops) header height {height} s of
                (s, fault, received) \<Rightarrow>
                if is_error fault then
                  (s, if fault \<noteq> canceled L then Some (Complete_Overflow fault) else None)
                else (case match_spends L A (at_spends stops) header height {height} s of
                  (s, fault, redeemed) \<Rightarrow>
                  if is_error fault then (s, None)
                  else (s, Some (Notify_Connected header height txs received redeemed)))))))"

definition do_disconnected ::
  "('h, 'c, 'tx, 'hd) btcd_lib \<Rightarrow> ('h, 'c, 'tx, 'hd) btcd_view \<Rightarrow> u32 \<Rightarrow>
   ('h, 'c) btcd_state \<Rightarrow> ('h, 'c) btcd_state \<times> 'hd btcd_post option" where
  "do_disconnected L A link s =
     (let s = s\<lparr>address_watches := map (\<lambda>(key, _). (key, first_cursor L)) (address_watches s),
                receive_watches := map (\<lambda>(key, _). (key, first_cursor L)) (receive_watches s)\<rparr> in
      case link_height A link of
        None \<Rightarrow> (s, None)
      | Some height \<Rightarrow>
        (case link_header A link of
           None \<Rightarrow> (s, None)
         | Some header \<Rightarrow> (s, Some (Notify_Disconnected header height))))"

definition do_transaction ::
  "('h, 'c, 'tx, 'hd) btcd_lib \<Rightarrow> ('h, 'c, 'tx, 'hd) btcd_view \<Rightarrow> u32 \<Rightarrow>
   ('h, 'c) btcd_state \<Rightarrow> 'hd btcd_post option" where
  "do_transaction L A link s =
     (case link_transaction A link of
        None \<Rightarrow> None
      | Some tx \<Rightarrow>
        if \<not> verbose_transactions s then
          Some (Notify_Transaction False [String (digest_text L (tx_id L tx)), Number (tx_amount L tx)])
        else Some (Notify_Transaction True [search_transaction A link tx {} False]))"

subsection \<open>Queries: rescan and search\<close>

text \<open>The named blocks with their heights, \<open>Inl\<close> the post that ends the job early (None: no post).\<close>

fun resolve_blocks ::
  "('h, 'c, 'tx, 'hd) btcd_view \<Rightarrow> (nat \<Rightarrow> bool) \<Rightarrow> hash_digest list \<Rightarrow>
   'hd btcd_post option + (hash_digest \<times> u64) list" where
  "resolve_blocks A stopping [] = Inr []"
| "resolve_blocks A stopping (hash # rest) =
     (if stopping (length rest) then Inl None
      else case link_height A (header_link A hash) of
          None \<Rightarrow> Inl (Some (Complete_Rescan_Blocks (btcd_error ''invalid_address_or_key'') []))
        | Some height \<Rightarrow> sum_bind (resolve_blocks A stopping rest) (\<lambda>named. Inr ((hash, height) # named)))"

fun discover ::
  "('h, 'c, 'tx, 'hd) btcd_lib \<Rightarrow> ('h, 'c, 'tx, 'hd) btcd_view \<Rightarrow> (nat \<Rightarrow> bool) \<Rightarrow>
   (nat \<Rightarrow> nat \<Rightarrow> bool) \<Rightarrow> matches \<Rightarrow> (hash_digest \<times> u64) list \<Rightarrow> array_t option" where
  "discover L A stopping stopping' matched [] = Some []"
| "discover L A stopping stopping' matched ((hash, height) # rest) =
     (if stopping (length rest) then None
      else map_option (\<lambda>discovered.
        (case map_of matched height of
           Some txs \<Rightarrow> if txs \<noteq> [] then
               [Object [''hash'' \<mapsto> String (digest_text L hash),
                 ''transactions'' \<mapsto> Array (serialize_matches L A (stopping' (length rest)) txs)]]
             else []
         | None \<Rightarrow> []) @ discovered) (discover L A stopping stopping' matched rest))"

record rescan_reads =
  at_resolve :: "nat \<Rightarrow> bool"
  at_keys :: "nat \<Rightarrow> bool"
  at_points :: "nat \<Rightarrow> bool"
  at_named :: "nat \<Rightarrow> bool"
  at_texts :: "nat \<Rightarrow> nat \<Rightarrow> bool"

definition do_rescan_watches ::
  "('h, 'c, 'tx, 'hd) btcd_lib \<Rightarrow> btcd_options \<Rightarrow> ('h, 'c, 'tx, 'hd) btcd_view \<Rightarrow> rescan_reads \<Rightarrow>
   hash_digest list \<Rightarrow> hash_digest list \<Rightarrow> point list \<Rightarrow> 'hd btcd_post option" where
  "do_rescan_watches L opts A stops block_hashes keys points =
     (case resolve_blocks A (at_resolve stops) block_hashes of
        Inl early \<Rightarrow> early
      | Inr named \<Rightarrow>
          let heights = set (map snd named) in
          (case match_address_watches L opts A (at_keys stops) heights
                  (map (\<lambda>key. (key, first_cursor L)) keys) [] of
             (quit, _, matched) \<Rightarrow>
               if quit then None
               else (case match_outpoint_watches L A (at_points stops) heights
                       (map (\<lambda>prevout. (prevout, [])) points) matched of
                 (quit, _, matched) \<Rightarrow>
                   if quit then None
                   else map_option (Complete_Rescan_Blocks btcd_success)
                     (discover L A (at_named stops) (at_texts stops) matched named))))"

text \<open>The watch-list is a snapshot, taken on the notification strand.\<close>

definition do_rescan_blocks ::
  "('h, 'c, 'tx, 'hd) btcd_lib \<Rightarrow> btcd_options \<Rightarrow> ('h, 'c, 'tx, 'hd) btcd_view \<Rightarrow> rescan_reads \<Rightarrow>
   hash_digest list \<Rightarrow> ('h, 'c) btcd_state \<Rightarrow> 'hd btcd_post option" where
  "do_rescan_blocks L opts A stops block_hashes s =
     do_rescan_watches L opts A stops block_hashes
       (map fst (address_watches s)) (map fst (outpoint_watches s))"

fun search_history ::
  "('h, 'c, 'tx, 'hd) btcd_lib \<Rightarrow> btcd_options \<Rightarrow> ('h, 'c, 'tx, 'hd) btcd_view \<Rightarrow>
   hash_digest list \<Rightarrow> 'hd btcd_post option + 'h list" where
  "search_history L opts A [] = Inr []"
| "search_history L opts A (key # rest) =
     (case confirmed_history A key (ucast (btcd_maximum_history opts)) of (fault, part) \<Rightarrow>
        if is_error fault then
          Inl (if fault = canceled L then None else Some (Complete_Search_Raw_Transactions fault []))
        else sum_bind (search_history L opts A rest) (\<lambda>history. Inr (part @ history)))"

fun search_entries ::
  "('h, 'c, 'tx, 'hd) btcd_lib \<Rightarrow> ('h, 'c, 'tx, 'hd) btcd_view \<Rightarrow> (nat \<Rightarrow> bool) \<Rightarrow> bool \<Rightarrow> bool \<Rightarrow>
   string set \<Rightarrow> u64 \<Rightarrow> u64 \<Rightarrow> array_t \<Rightarrow> 'h list \<Rightarrow> 'hd btcd_post option" where
  "search_entries L A stopping verbose prevouts filters skip count found [] =
     Some (Complete_Search_Raw_Transactions btcd_success found)"
| "search_entries L A stopping verbose prevouts filters skip count found (entry # rest) =
     (if stopping (length rest) then None
      else if skip \<noteq> 0 then
        search_entries L A stopping verbose prevouts filters (skip - 1) count found rest
      else if length found = unat count then
        Some (Complete_Search_Raw_Transactions btcd_success found)
      else
        let link = tx_link A (entry_hash L entry) in
        case link_transaction A link of
          None \<Rightarrow> Some (Complete_Search_Raw_Transactions (btcd_error ''internal_error'') [])
        | Some tx \<Rightarrow>
            search_entries L A stopping verbose prevouts filters skip count
              (found @ [if \<not> verbose then String (tx_text L tx)
                        else search_transaction A link tx filters prevouts]) rest)"

definition do_search_raw_transactions ::
  "('h, 'c, 'tx, 'hd) btcd_lib \<Rightarrow> btcd_options \<Rightarrow> ('h, 'c, 'tx, 'hd) btcd_view \<Rightarrow> (nat \<Rightarrow> bool) \<Rightarrow>
   hash_digest list \<Rightarrow> bool \<Rightarrow> u64 \<Rightarrow> u64 \<Rightarrow> bool \<Rightarrow> bool \<Rightarrow> string set \<Rightarrow> 'hd btcd_post option" where
  "do_search_raw_transactions L opts A stopping keys verbose skip count prevouts reverse filters =
     (case search_history L opts A keys of
        Inl early \<Rightarrow> early
      | Inr history \<Rightarrow>
          let history = (if length keys > 1 then sort_and_dedup L history else history);
              history = (if reverse then rev history else history) in
          search_entries L A stopping verbose prevouts filters skip count [] history)"

subsection \<open>Completions on the channel strand\<close>

text \<open>The three completions without a result have the same body.\<close>

definition complete_code :: "bool \<Rightarrow> code \<Rightarrow> btcd_action list" where
  "complete_code stopped ec =
     (if stopped then []
      else if is_error ec then
        [Fail (translate_btcd ec (enumerator btcd_errors ''internal_error''))]
      else [Reply None])"

definition complete_load_tx_filter :: "bool \<Rightarrow> code \<Rightarrow> btcd_action list" where
  "complete_load_tx_filter = complete_code"

definition complete_notify_received :: "bool \<Rightarrow> code \<Rightarrow> btcd_action list" where
  "complete_notify_received = complete_code"

definition complete_notify_spent :: "bool \<Rightarrow> code \<Rightarrow> btcd_action list" where
  "complete_notify_spent = complete_code"

definition complete_rescan_blocks :: "bool \<Rightarrow> code \<Rightarrow> array_t \<Rightarrow> btcd_action list" where
  "complete_rescan_blocks stopped ec discovered =
     (if stopped then []
      else if is_error ec then
        [Fail (translate_btcd ec (enumerator btcd_errors ''internal_error''))]
      else [Reply (Some (Array discovered))])"

definition complete_search_raw_transactions :: "bool \<Rightarrow> code \<Rightarrow> array_t \<Rightarrow> btcd_action list" where
  "complete_search_raw_transactions stopped ec found =
     (if stopped then []
      else if is_error ec then
        [Fail (translate_btcd ec (enumerator btcd_errors ''internal_error''))]
      else if found = [] then [Fail (btcd_error ''invalid_address_or_key'')]
      else [Reply (Some (Array found))])"

definition notify_connected ::
  "('h, 'c, 'tx, 'hd) btcd_lib \<Rightarrow> bool \<Rightarrow> ('h, 'c) btcd_state \<Rightarrow> 'hd \<Rightarrow> u64 \<Rightarrow> array_t \<Rightarrow>
   array_t list \<Rightarrow> array_t list \<Rightarrow> btcd_action list" where
  "notify_connected L stopped s header height txs received redeemed =
     (if stopped then []
      else
        (if subscribed_blocks s then
           [Notify ''blockconnected''
              [String (digest_text L (header_digest L header)), U64 height, U32 (header_time L header)],
            Notify ''filteredblockconnected''
              [U64 height, String (header_text L header), Array txs]]
         else []) @
        map (Notify ''recvtx'') received @ map (Notify ''redeemingtx'') redeemed)"

definition notify_disconnected ::
  "('h, 'c, 'tx, 'hd) btcd_lib \<Rightarrow> bool \<Rightarrow> ('h, 'c) btcd_state \<Rightarrow> 'hd \<Rightarrow> u64 \<Rightarrow> btcd_action list" where
  "notify_disconnected L stopped s header height =
     (if stopped \<or> \<not> subscribed_blocks s then []
      else
        [Notify ''blockdisconnected''
           [String (digest_text L (header_digest L header)), U64 height, U32 (header_time L header)],
         Notify ''filteredblockdisconnected'' [U64 height, String (header_text L header)]])"

definition notify_transaction :: "bool \<Rightarrow> ('h, 'c) btcd_state \<Rightarrow> bool \<Rightarrow> array_t \<Rightarrow> btcd_action list" where
  "notify_transaction stopped s verbose parameters =
     (if stopped \<or> \<not> subscribed_transactions s then []
      else [Notify (if verbose then ''txacceptedverbose'' else ''txaccepted'') parameters])"

definition complete_btcd ::
  "('h, 'c, 'tx, 'hd) btcd_lib \<Rightarrow> bool \<Rightarrow> ('h, 'c) btcd_state \<Rightarrow> 'hd btcd_post \<Rightarrow> btcd_action list" where
  "complete_btcd L stopped s posted =
     (case posted of
        Complete_Load_Tx_Filter ec \<Rightarrow> complete_load_tx_filter stopped ec
      | Complete_Notify_Received ec \<Rightarrow> complete_notify_received stopped ec
      | Complete_Notify_Spent ec \<Rightarrow> complete_notify_spent stopped ec
      | Complete_Rescan_Blocks ec discovered \<Rightarrow> complete_rescan_blocks stopped ec discovered
      | Complete_Search_Raw_Transactions ec found \<Rightarrow> complete_search_raw_transactions stopped ec found
      | Complete_Overflow ec \<Rightarrow> [Stop ec]
      | Notify_Connected header height txs received redeemed \<Rightarrow>
          notify_connected L stopped s header height txs received redeemed
      | Notify_Disconnected header height \<Rightarrow> notify_disconnected L stopped s header height
      | Notify_Transaction verbose parameters \<Rightarrow> notify_transaction stopped s verbose parameters)"

subsection \<open>Request handlers\<close>

definition handle_load_tx_filter ::
  "('p, 'w, 's) address_lib \<Rightarrow> address_prefixes \<Rightarrow> ('h, 'c, 'tx, 'hd) btcd_view \<Rightarrow> bool \<Rightarrow> bool \<Rightarrow>
   value_t \<Rightarrow> value_t \<Rightarrow> btcd_action list" where
  "handle_load_tx_filter D pre A stopped reload addresses outpoints =
     (if stopped then []
      else case filter_keys D pre addresses of
          Inl _ \<Rightarrow> [Fail (btcd_error ''invalid_parameter'')]
        | Inr keys \<Rightarrow>
          (case filter_points D outpoints of
             Inl _ \<Rightarrow> [Fail (btcd_error ''invalid_parameter'')]
           | Inr points \<Rightarrow>
               if keys \<noteq> [] \<and> \<not> watch_enabled A then [Fail (btcd_error ''unimplemented'')]
               else [Run (Do_Load_Tx_Filter reload keys points)]))"

definition handle_notify_received ::
  "('p, 'w, 's) address_lib \<Rightarrow> address_prefixes \<Rightarrow> ('h, 'c, 'tx, 'hd) btcd_view \<Rightarrow> bool \<Rightarrow>
   value_t \<Rightarrow> btcd_action list" where
  "handle_notify_received D pre A stopped addresses =
     (if stopped then []
      else case filter_keys D pre addresses of
          Inl _ \<Rightarrow> [Fail (btcd_error ''invalid_parameter'')]
        | Inr keys \<Rightarrow>
            if keys \<noteq> [] \<and> \<not> watch_enabled A then [Fail (btcd_error ''unimplemented'')]
            else [Run (Do_Notify_Received keys)])"

definition handle_stop_notify_received ::
  "('p, 'w, 's) address_lib \<Rightarrow> address_prefixes \<Rightarrow> bool \<Rightarrow> value_t \<Rightarrow> btcd_action list" where
  "handle_stop_notify_received D pre stopped addresses =
     (if stopped then []
      else case filter_keys D pre addresses of
          Inl _ \<Rightarrow> [Fail (btcd_error ''invalid_parameter'')]
        | Inr keys \<Rightarrow> [Run (Do_Stop_Notify_Received keys), Reply None])"

definition handle_notify_spent ::
  "('p, 'w, 's) address_lib \<Rightarrow> bool \<Rightarrow> value_t \<Rightarrow> btcd_action list" where
  "handle_notify_spent D stopped outpoints =
     (if stopped then []
      else case filter_points D outpoints of
          Inl _ \<Rightarrow> [Fail (btcd_error ''invalid_parameter'')]
        | Inr points \<Rightarrow> [Run (Do_Notify_Spent points)])"

definition handle_stop_notify_spent ::
  "('p, 'w, 's) address_lib \<Rightarrow> bool \<Rightarrow> value_t \<Rightarrow> btcd_action list" where
  "handle_stop_notify_spent D stopped outpoints =
     (if stopped then []
      else case filter_points D outpoints of
          Inl _ \<Rightarrow> [Fail (btcd_error ''invalid_parameter'')]
        | Inr points \<Rightarrow> [Run (Do_Stop_Notify_Spent points), Reply None])"

fun block_hash_items ::
  "('h, 'c, 'tx, 'hd) btcd_lib \<Rightarrow> value_t list \<Rightarrow> hash_digest list option" where
  "block_hash_items L [] = Some []"
| "block_hash_items L (item # rest) =
     (case item of
        String hash_text \<Rightarrow>
          (case text_digest L hash_text of
             None \<Rightarrow> None
           | Some hash \<Rightarrow> map_option (Cons hash) (block_hash_items L rest))
      | _ \<Rightarrow> None)"

definition handle_rescan_blocks ::
  "('h, 'c, 'tx, 'hd) btcd_lib \<Rightarrow> ('h, 'c, 'tx, 'hd) btcd_view \<Rightarrow> bool \<Rightarrow> value_t \<Rightarrow>
   btcd_action list" where
  "handle_rescan_blocks L A stopped blockhashes =
     (if stopped then []
      else case blockhashes of
          Array items \<Rightarrow>
            (case block_hash_items L items of
               None \<Rightarrow> [Fail (btcd_error ''internal_error'')]
             | Some block_hashes \<Rightarrow>
                 if \<not> watch_enabled A then [Fail (btcd_error ''unimplemented'')]
                 else [Run (Do_Rescan_Blocks block_hashes)])
        | _ \<Rightarrow> [Fail (btcd_error ''invalid_params'')])"

fun filter_texts :: "value_t list \<Rightarrow> string set option" where
  "filter_texts [] = Some {}"
| "filter_texts (String t # rest) = map_option (insert t) (filter_texts rest)"
| "filter_texts (_ # rest) = None"

definition handle_search_raw_transactions ::
  "('h, 'c, 'tx, 'hd) btcd_lib \<Rightarrow> ('p, 'w, 's) address_lib \<Rightarrow> address_prefixes \<Rightarrow>
   ('h, 'c, 'tx, 'hd) btcd_view \<Rightarrow> bool \<Rightarrow> string \<Rightarrow> double \<Rightarrow> double \<Rightarrow> double \<Rightarrow> double \<Rightarrow> bool \<Rightarrow>
   value_t list \<Rightarrow> btcd_action list" where
  "handle_search_raw_transactions L D pre A stopped address verbose skip count prevouts reverse
       filteraddrs =
     (if stopped then []
      else if \<not> watch_enabled A then [Fail (btcd_error ''misc_error'')]
      else case search_keys D pre address of
          Inl _ \<Rightarrow> [Fail (btcd_error ''invalid_address_or_key'')]
        | Inr keys \<Rightarrow>
          (case (to_int64 L verbose, to_int64 L skip, to_int64 L count, to_int64 L prevouts) of
             (Some level, Some first, Some requested, Some extra) \<Rightarrow>
               if requested = 0 then [Reply (Some Null)]
               else (case filter_texts filteraddrs of
                   None \<Rightarrow> [Fail (btcd_error ''invalid_params'')]
                 | Some filters \<Rightarrow>
                     [Run (Do_Search_Raw_Transactions keys (level \<noteq> 0)
                        (clamp_size L first 0 max_size_t) (clamp_size L requested 1 max_size_t)
                        (extra \<noteq> 0) reverse filters)])
           | _ \<Rightarrow> [Fail (btcd_error ''invalid_params'')]))"

definition handle_notify_blocks ::
  "bool \<Rightarrow> ('h, 'c) btcd_state \<Rightarrow> ('h, 'c) btcd_state \<times> btcd_action list" where
  "handle_notify_blocks stopped s =
     (if stopped then (s, []) else (s\<lparr>subscribed_blocks := True\<rparr>, [Reply None]))"

definition handle_stop_notify_blocks ::
  "bool \<Rightarrow> ('h, 'c) btcd_state \<Rightarrow> ('h, 'c) btcd_state \<times> btcd_action list" where
  "handle_stop_notify_blocks stopped s =
     (if stopped then (s, []) else (s\<lparr>subscribed_blocks := False\<rparr>, [Reply None]))"

definition handle_notify_new_transactions ::
  "bool \<Rightarrow> bool \<Rightarrow> ('h, 'c) btcd_state \<Rightarrow> ('h, 'c) btcd_state \<times> btcd_action list" where
  "handle_notify_new_transactions stopped verbose s =
     (if stopped then (s, [])
      else (s\<lparr>verbose_transactions := verbose, subscribed_transactions := True\<rparr>, [Reply None]))"

definition handle_stop_notify_new_transactions ::
  "bool \<Rightarrow> ('h, 'c) btcd_state \<Rightarrow> ('h, 'c) btcd_state \<times> btcd_action list" where
  "handle_stop_notify_new_transactions stopped s =
     (if stopped then (s, []) else (s\<lparr>subscribed_transactions := False\<rparr>, [Reply None]))"

definition nonempty_array :: "value_t \<Rightarrow> bool" where
  "nonempty_array v = (case v of Array items \<Rightarrow> items \<noteq> [] | _ \<Rightarrow> False)"

definition handle_rescan ::
  "('h, 'c, 'tx, 'hd) btcd_lib \<Rightarrow> ('h, 'c, 'tx, 'hd) btcd_view \<Rightarrow> bool \<Rightarrow> string \<Rightarrow> value_t \<Rightarrow>
   value_t \<Rightarrow> btcd_action list" where
  "handle_rescan L A stopped beginblock addresses outpoints =
     (if stopped then []
      else case text_digest L beginblock of
          None \<Rightarrow> [Fail (btcd_error ''invalid_address_or_key'')]
        | Some begin_hash \<Rightarrow>
            if is_terminal A (header_link A begin_hash) then
              [Fail (btcd_error ''invalid_address_or_key'')]
            else if nonempty_array addresses \<or> nonempty_array outpoints then
              [Fail (btcd_error ''unimplemented'')]
            else (case (link_header A (top_link A), link_height A (top_link A)) of
                (Some header, Some height) \<Rightarrow>
                  [Reply None, Notify ''rescanfinished''
                     [String (digest_text L (header_digest L header)), U64 height,
                      U32 (header_time L header)]]
              | _ \<Rightarrow> [Fail (btcd_error ''internal_error'')]))"

datatype btcd_event = Organized u32 | Reorganized u32 | Transaction u32 | Other_Event

definition handle_chase :: "bool \<Rightarrow> btcd_event \<Rightarrow> ('h, 'c) btcd_state \<Rightarrow> btcd_action list" where
  "handle_chase stopped event s =
     (if stopped then []
      else case event of
          Organized link \<Rightarrow>
            if subscribed_blocks s \<or> watching_legacy s then [Run (Do_Connected link)] else []
        | Reorganized link \<Rightarrow>
            if subscribed_blocks s \<or> watching_legacy s then [Run (Do_Disconnected link)] else []
        | Transaction link \<Rightarrow>
            if subscribed_transactions s then [Run (Do_Transaction link)] else []
        | Other_Event \<Rightarrow> [])"

end
