(* ===== verification/Btcd_Limits.thy ===== *)
theory Btcd_Limits
  imports Btcd_Watch
begin

text \<open>
  Invariants of the btcd watch-lists: the jobs of \<open>Btcd_Watch\<close> as a step relation, the budget
  shared by the four maps, and the flag that makes chain events reach the legacy watches.
\<close>

subsection \<open>The state machine\<close>

text \<open>Any sequence of jobs and flag handlers, each with the view and the stop flags it reads.\<close>

inductive btcd_step ::
  "('h, 'c, 'tx, 'hd) btcd_lib \<Rightarrow> btcd_options \<Rightarrow> ('h, 'c) btcd_state \<Rightarrow> ('h, 'c) btcd_state \<Rightarrow> bool"
  for L opts where
  Load: "btcd_step L opts s (fst (do_load_tx_filter L opts A stopping stopping' reload keys points s))"
| Receive: "btcd_step L opts s (fst (do_notify_received L opts A stopping keys s))"
| Stop_Receive: "btcd_step L opts s (do_stop_notify_received keys s)"
| Spent: "btcd_step L opts s (fst (do_notify_spent L opts stopping points s))"
| Stop_Spent: "btcd_step L opts s (do_stop_notify_spent points s)"
| Connected: "btcd_step L opts s (fst (do_connected L opts A stops link s))"
| Disconnected: "btcd_step L opts s (fst (do_disconnected L A link s))"
| Blocks: "btcd_step L opts s (fst (handle_notify_blocks stopped s))"
| Stop_Blocks: "btcd_step L opts s (fst (handle_stop_notify_blocks stopped s))"
| Transactions: "btcd_step L opts s (fst (handle_notify_new_transactions stopped verbose s))"
| Stop_Transactions: "btcd_step L opts s (fst (handle_stop_notify_new_transactions stopped s))"

text \<open>Saturating addition of sizes, and that canceling is an error.\<close>

definition btcd_laws :: "('h, 'c, 'tx, 'hd) btcd_lib \<Rightarrow> bool" where
  "btcd_laws L \<longleftrightarrow> (\<forall>a b. sum_sizes L a b = min (2 ^ 64 - 1) (a + b)) \<and> is_error (canceled L)"

definition watch_total :: "('h, 'c) btcd_state \<Rightarrow> nat" where
  "watch_total s = length (address_watches s) + length (outpoint_watches s) +
     length (receive_watches s) + length (spent_watches s)"

definition watch_inv :: "btcd_options \<Rightarrow> ('h, 'c) btcd_state \<Rightarrow> bool" where
  "watch_inv opts s \<longleftrightarrow>
     ordered (address_watches s) \<and> ordered (outpoint_watches s) \<and>
     ordered (receive_watches s) \<and> ordered (spent_watches s) \<and>
     watch_total s \<le> unat (maximum_filters opts) \<and>
     (receive_watches s \<noteq> [] \<or> spent_watches s \<noteq> [] \<longrightarrow> watching_legacy s)"

lemma below_limit:
  assumes "btcd_laws L" "\<not> at_limit L opts s"
  shows "watch_total s < unat (maximum_filters opts)"
proof -
  have "unat (maximum_filters opts) < 2 ^ 32" using unsigned_less [of "maximum_filters opts", where 'a = nat] by simp
  then show ?thesis using assms unfolding btcd_laws_def at_limit_def watch_count_def watch_total_def
    by (simp add: min_def split: if_splits)
qed

lemma watch_inv_put_address:
  "watch_inv opts s \<Longrightarrow> watch_total s < unat (maximum_filters opts) \<Longrightarrow>
   watch_inv opts (s\<lparr>address_watches := assign key at (emplace key c (address_watches s))\<rparr>)"
  using length_emplace [of "address_watches s" key c] ordered_emplace [of "address_watches s" key c]
  by (auto simp: watch_inv_def watch_total_def split: if_splits)

lemma watch_inv_put_outpoint:
  "watch_inv opts s \<Longrightarrow> watch_total s < unat (maximum_filters opts) \<Longrightarrow>
   watch_inv opts (s\<lparr>outpoint_watches := emplace p hs (outpoint_watches s)\<rparr>)"
  using length_emplace [of "outpoint_watches s" p hs] ordered_emplace [of "outpoint_watches s" p hs]
  by (auto simp: watch_inv_def watch_total_def split: if_splits)

lemma watch_inv_put_receive:
  "watch_inv opts s \<Longrightarrow> watch_total s < unat (maximum_filters opts) \<Longrightarrow>
   watch_inv opts (s\<lparr>receive_watches := assign key at (emplace key c (receive_watches s)),
     watching_legacy := True\<rparr>)"
  using length_emplace [of "receive_watches s" key c] ordered_emplace [of "receive_watches s" key c]
  by (auto simp: watch_inv_def watch_total_def split: if_splits)

lemma watch_inv_put_spent:
  "watch_inv opts s \<Longrightarrow> watch_total s < unat (maximum_filters opts) \<Longrightarrow>
   watch_inv opts (s\<lparr>spent_watches := emplace p hs (spent_watches s), watching_legacy := True\<rparr>)"
  using length_emplace [of "spent_watches s" p hs] ordered_emplace [of "spent_watches s" p hs]
  by (auto simp: watch_inv_def watch_total_def split: if_splits)

lemma watch_inv_arm:
  assumes "watch_inv opts s" "watch_total s < unat (maximum_filters opts)" "receive_watches s \<noteq> []"
  shows "watch_inv opts (s\<lparr>spent_watches := emplace p hs (spent_watches s)\<rparr>)"
proof -
  have "s\<lparr>spent_watches := emplace p hs (spent_watches s), watching_legacy := True\<rparr> =
      s\<lparr>spent_watches := emplace p hs (spent_watches s)\<rparr>"
    using assms(1,3) by (simp add: watch_inv_def)
  then show ?thesis using watch_inv_put_spent [OF assms(1,2), of p hs] by simp
qed

subsection \<open>Every job keeps the invariant\<close>

lemma watch_inv_load_addresses:
  "btcd_laws L \<Longrightarrow> watch_inv opts s \<Longrightarrow> watch_inv opts (fst (load_addresses L opts A stopping keys s))"
proof (induction keys arbitrary: s)
  case (Cons key keys)
  note put = watch_inv_put_address [OF Cons.prems(2) below_limit [OF Cons.prems(1)]]
  show ?case using Cons.prems(2) Cons.IH [OF Cons.prems] Cons.IH [OF Cons.prems(1) put] put
    by (auto simp: Let_def split: prod.split)
qed simp

lemma watch_inv_load_outpoints:
  "btcd_laws L \<Longrightarrow> watch_inv opts s \<Longrightarrow>
   watch_inv opts (fst (load_outpoints L opts A stopping ec points s))"
proof (induction points arbitrary: s)
  case (Cons p points)
  note put = watch_inv_put_outpoint [OF Cons.prems(2) below_limit [OF Cons.prems(1)]]
  show ?case using Cons.prems Cons.IH [OF Cons.prems(1) put] by auto
qed simp

lemma watch_inv_reload:
  "watch_inv opts s \<Longrightarrow> watch_inv opts (s\<lparr>address_watches := [], outpoint_watches := []\<rparr>)"
  by (auto simp: watch_inv_def watch_total_def)

lemma watch_inv_load:
  assumes "btcd_laws L" "watch_inv opts s"
  shows "watch_inv opts (fst (do_load_tx_filter L opts A stopping stopping' reload keys points s))"
proof -
  let ?s = "if reload then s\<lparr>address_watches := [], outpoint_watches := []\<rparr> else s"
  have "watch_inv opts ?s" using assms(2) watch_inv_reload by auto
  note keep = watch_inv_load_addresses [OF assms(1) this, of A stopping keys]
  obtain s1 r1 where r1: "load_addresses L opts A stopping keys ?s = (s1, r1)" by fastforce
  show ?thesis
  proof (cases r1)
    case None
    then show ?thesis using keep r1 by (simp add: do_load_tx_filter_def)
  next
    case (Some ec)
    obtain s2 r2 where r2: "load_outpoints L opts A stopping' ec points s1 = (s2, r2)" by fastforce
    have "watch_inv opts s2"
      using watch_inv_load_outpoints [OF assms(1), of opts s1 A stopping' ec points] keep r1 r2 by simp
    then show ?thesis using Some r1 r2 by (cases r2) (simp_all add: do_load_tx_filter_def)
  qed
qed

lemma watch_inv_load_receives:
  "btcd_laws L \<Longrightarrow> watch_inv opts s \<Longrightarrow> watch_inv opts (fst (load_receives L opts A stopping keys s))"
proof (induction keys arbitrary: s)
  case (Cons key keys)
  note put = watch_inv_put_receive [OF Cons.prems(2) below_limit [OF Cons.prems(1)]]
  show ?case using Cons.prems(2) Cons.IH [OF Cons.prems] Cons.IH [OF Cons.prems(1) put] put
    by (auto simp: Let_def split: prod.split)
qed simp

lemma watch_inv_load_spents:
  "btcd_laws L \<Longrightarrow> watch_inv opts s \<Longrightarrow> watch_inv opts (fst (load_spents L opts stopping points s))"
proof (induction points arbitrary: s)
  case (Cons p points)
  note put = watch_inv_put_spent [OF Cons.prems(2) below_limit [OF Cons.prems(1)]]
  show ?case using Cons.IH [OF Cons.prems] Cons.IH [OF Cons.prems(1) put] Cons.prems by auto
qed simp

lemma fold_erase:
  "ordered m \<Longrightarrow> ordered (fold erase ks m) \<and> length (fold erase ks m) \<le> length m"
proof (induction ks arbitrary: m)
  case (Cons k ks)
  have "length (erase k m) \<le> length m" by (simp add: erase_def)
  then show ?case using Cons.IH [OF std.del_valid [OF Cons.prems]] by (auto intro: order_trans)
qed simp

lemma fold_erase_empty: "fold erase ks [] = []"
  by (induction ks) (simp_all add: erase_def)

lemma watch_inv_stop_receives: "watch_inv opts s \<Longrightarrow> watch_inv opts (do_stop_notify_received keys s)"
  using fold_erase [of "receive_watches s" keys] fold_erase_empty [of keys]
  by (auto simp: watch_inv_def watch_total_def do_stop_notify_received_def clear_legacy_def)

lemma watch_inv_stop_spents: "watch_inv opts s \<Longrightarrow> watch_inv opts (do_stop_notify_spent points s)"
  using fold_erase [of "spent_watches s" points] fold_erase_empty [of points]
  by (auto simp: watch_inv_def watch_total_def do_stop_notify_spent_def clear_legacy_def)

subsubsection \<open>Matching\<close>

lemma match_address_watches_keys:
  "map fst (fst (snd (match_address_watches L opts A stopping heights subs out))) = map fst subs"
  by (induction subs arbitrary: out) (auto split: prod.split, (metis fst_conv snd_conv)+)

lemma match_outpoint_watches_keys:
  "map fst (fst (snd (match_outpoint_watches L A stopping heights subs out))) = map fst subs"
  by (induction subs arbitrary: out) (auto split: prod.split, (metis fst_conv snd_conv)+)

lemma match_spent_watches_keys:
  "ordered subs \<Longrightarrow>
   ordered (fst (snd (match_spent_watches L A stopping header height heights subs))) \<and>
   length (fst (snd (match_spent_watches L A stopping header height heights subs))) \<le> length subs \<and>
   fst ` set (fst (snd (match_spent_watches L A stopping header height heights subs))) \<subseteq> fst ` set subs"
proof (induction subs)
  case (Cons e subs)
  obtain prevout sub where e: "e = (prevout, sub)" by fastforce
  obtain quit rest out where r: "match_spent_watches L A stopping header height heights subs = (quit, rest, out)"
    by (metis prod_cases3)
  show ?case using Cons by (auto simp: e r Let_def split: prod.split) (force dest: subsetD)+
qed simp

lemma same_keys_inv:
  assumes "watch_inv opts s" "map fst as = map fst (address_watches s)"
    "map fst ps = map fst (outpoint_watches s)" "map fst rs = map fst (receive_watches s)"
  shows "watch_inv opts (s\<lparr>address_watches := as, outpoint_watches := ps, receive_watches := rs\<rparr>)"
  using assms map_eq_imp_length_eq [OF assms(2)] map_eq_imp_length_eq [OF assms(3)]
    map_eq_imp_length_eq [OF assms(4)]
  by (auto simp: watch_inv_def watch_total_def ordered_def)

lemma watch_inv_arm_outputs:
  "btcd_laws L \<Longrightarrow> watch_inv opts s \<Longrightarrow>
   watch_inv opts (fst (arm_outputs L opts hash index keys paid s))"
proof (induction keys arbitrary: index paid s)
  case (Cons key keys)
  have put: "watch_inv opts (s\<lparr>spent_watches := emplace (hash, index) [] (spent_watches s)\<rparr>)"
    if "\<not> at_limit L opts s" "map_of (receive_watches s) key \<noteq> None"
    using watch_inv_arm [OF Cons.prems(2) below_limit [OF Cons.prems(1) that(1)]] that(2) by force
  show ?case using Cons.prems Cons.IH [OF Cons.prems(1) put] Cons.IH [OF Cons.prems]
    by (auto simp del: fun_upd_apply)
qed simp

lemma watch_inv_receive_txs:
  "btcd_laws L \<Longrightarrow> watch_inv opts s \<Longrightarrow>
   watch_inv opts (fst (receive_txs L opts A header height txs s))"
proof (induction txs arbitrary: s)
  case (Cons e txs)
  obtain position hash where e: "e = (position, hash)" by fastforce
  show ?case
  proof (cases "link_transaction A (tx_link A hash)")
    case None
    then show ?thesis using Cons by (simp add: e)
  next
    case (Some tx)
    obtain s1 fault paid where arm: "arm_spent_watches L opts tx hash s = (s1, fault, paid)"
      by (metis prod_cases3)
    have "watch_inv opts s1"
      using watch_inv_arm_outputs [OF Cons.prems, of hash 0 "output_keys L tx" False] arm
      by (simp add: arm_spent_watches_def)
    then show ?thesis using Cons.IH [OF Cons.prems(1), of s1] Some arm
      by (auto simp: e split: prod.split)
  qed
qed simp

lemma watch_inv_match_filters:
  assumes "watch_inv opts s"
  shows "watch_inv opts (fst (match_filters L opts A st st' st'' height heights s))"
proof -
  obtain quit as m where a: "match_address_watches L opts A st heights (address_watches s) [] = (quit, as, m)"
    by (metis prod_cases3)
  obtain quit' ps m' where p: "match_outpoint_watches L A st' heights (outpoint_watches s) m = (quit', ps, m')"
    by (metis prod_cases3)
  have keys: "map fst as = map fst (address_watches s)" "map fst ps = map fst (outpoint_watches s)"
    using match_address_watches_keys [of L opts A st heights "address_watches s" "[]"] a
      match_outpoint_watches_keys [of L A st' heights "outpoint_watches s" m] p by simp_all
  show ?thesis using same_keys_inv [OF assms keys(1) refl refl] same_keys_inv [OF assms keys refl] a p
    by (simp add: match_filters_def Let_def)
qed

lemma watch_inv_match_receives:
  assumes "btcd_laws L" "watch_inv opts s"
  shows "watch_inv opts (fst (match_receives L opts A st header height heights s))"
proof -
  obtain quit rs m where r: "match_address_watches L opts A st heights (receive_watches s) [] = (quit, rs, m)"
    by (metis prod_cases3)
  have keys: "map fst rs = map fst (receive_watches s)"
    using match_address_watches_keys [of L opts A st heights "receive_watches s" "[]"] r by simp
  have "watch_inv opts (s\<lparr>receive_watches := rs\<rparr>)"
    using same_keys_inv [OF assms(2) refl refl keys] by simp
  then show ?thesis using r watch_inv_receive_txs [OF assms(1)]
    by (auto simp: match_receives_def Let_def split: option.split)
qed

lemma watch_inv_match_spends:
  assumes "watch_inv opts s"
  shows "watch_inv opts (fst (match_spends L A st header height heights s))"
proof -
  obtain quit subs out where r: "match_spent_watches L A st header height heights (spent_watches s) = (quit, subs, out)"
    by (metis prod_cases3)
  have "ordered subs" "length subs \<le> length (spent_watches s)"
    using match_spent_watches_keys [of "spent_watches s" L A st header height heights] assms r
    by (simp_all add: watch_inv_def)
  then show ?thesis using assms r by (auto simp: match_spends_def watch_inv_def watch_total_def)
qed

lemma watch_inv_connected:
  assumes "btcd_laws L" "watch_inv opts s"
  shows "watch_inv opts (fst (do_connected L opts A stops link s))"
proof (cases "link_height A link = None \<or> link_header A link = None")
  case True
  then show ?thesis using assms(2) by (auto simp: do_connected_def split: option.split)
next
  case False
  then obtain height header where h: "link_height A link = Some height" "link_header A link = Some header"
    by auto
  obtain s1 f1 txs where m1: "match_filters L opts A (at_addresses stops) (at_outpoints stops)
      (at_serialize stops) height {height} s = (s1, f1, txs)" by (metis prod_cases3)
  obtain s2 f2 rs where m2: "match_receives L opts A (at_receives stops) header height {height} s1 =
      (s2, f2, rs)" by (metis prod_cases3)
  obtain s3 f3 ds where m3: "match_spends L A (at_spends stops) header height {height} s2 = (s3, f3, ds)"
    by (metis prod_cases3)
  have i1: "watch_inv opts s1" using watch_inv_match_filters [OF assms(2)] m1 by (metis fst_conv)
  have i2: "watch_inv opts s2" using watch_inv_match_receives [OF assms(1) i1] m2 by (metis fst_conv)
  have i3: "watch_inv opts s3" using watch_inv_match_spends [OF i2] m3 by (metis fst_conv)
  show ?thesis using i1 i2 i3 by (simp add: do_connected_def h m1 m2 m3)
qed

lemma watch_inv_disconnected:
  assumes "watch_inv opts s"
  shows "watch_inv opts (fst (do_disconnected L A link s))"
proof -
  let ?reset = "map (\<lambda>(key, _). (key, first_cursor L))"
  have keys: "map fst (?reset m) = map fst m" for m :: "(hash_digest \<times> 'b) list"
    by (simp add: split_def)
  show ?thesis
    using same_keys_inv [OF assms keys refl keys]
    by (simp add: do_disconnected_def Let_def split: option.split)
qed

lemma watch_inv_flags [simp]:
  "watch_inv opts (s\<lparr>subscribed_blocks := b\<rparr>) = watch_inv opts s"
  "watch_inv opts (s\<lparr>subscribed_transactions := b\<rparr>) = watch_inv opts s"
  "watch_inv opts (s\<lparr>verbose_transactions := b\<rparr>) = watch_inv opts s"
  by (simp_all add: watch_inv_def watch_total_def)

lemma watch_inv_step:
  assumes "btcd_laws L" "watch_inv opts s" "btcd_step L opts s s'"
  shows "watch_inv opts s'"
  using assms(3)
proof (cases rule: btcd_step.cases)
  case (Receive A stopping keys)
  then show ?thesis using watch_inv_load_receives [OF assms(1,2)]
    by (simp add: do_notify_received_def split: prod.split) (metis fst_conv)
next
  case (Spent stopping points)
  then show ?thesis using watch_inv_load_spents [OF assms(1,2)]
    by (simp add: do_notify_spent_def split: prod.split) (metis fst_conv)
qed (use assms(2) in \<open>simp_all add: watch_inv_load watch_inv_connected watch_inv_disconnected
  watch_inv_stop_receives watch_inv_stop_spents assms(1) handle_notify_blocks_def
  handle_stop_notify_blocks_def handle_notify_new_transactions_def
  handle_stop_notify_new_transactions_def\<close>)

lemma watch_inv_initial: "watch_inv opts initial_btcd"
  by (simp add: watch_inv_def watch_total_def initial_btcd_def)

interpretation watches: state_machine "\<lambda>s. s = initial_btcd"
  "\<lambda>s s'. btcd_laws L \<and> btcd_step L opts s s'" "watch_inv opts" for L opts
  by unfold_locales (simp add: watch_inv_initial, blast intro: watch_inv_step)

lemma reachable_watch_inv:
  assumes "btcd_laws L" "rtranclp (btcd_step L opts) initial_btcd s"
  shows "watch_inv opts s"
  using watches.reachable_inv [OF refl, of L opts s] assms by simp

subsection \<open>A library instance for the witnesses\<close>

text \<open>
  Entries are confirmed triples of height, position and hash, a transaction is its hash and pays the
  script key 5 (output 0) and a key equal to its hash (output 1), and the header is its link.
\<close>

type_synonym sample_entry = "u64 \<times> u64 \<times> hash_digest"

definition sample_btcd :: "(sample_entry, nat, hash_digest, u32) btcd_lib" where
  "sample_btcd = \<lparr>entry_confirmed = (\<lambda>e. True), entry_height = fst, entry_position = (\<lambda>e. fst (snd e)),
     entry_hash = (\<lambda>e. snd (snd e)), new_entries = (\<lambda>xs ys. filter (\<lambda>x. x \<notin> set ys) xs),
     sort_and_dedup = remdups, first_cursor = 0, sum_sizes = (\<lambda>a b. min (2 ^ 64 - 1) (a + b)),
     clamp_size = (\<lambda>v lo hi. if sint v < uint lo then lo else v), to_int64 = Some,
     digest_text = (\<lambda>h. replicate (unat h) CHR ''h''), text_digest = (\<lambda>t. Some (of_nat (length t))),
     tx_text = (\<lambda>tx. replicate (unat tx) CHR ''t''), tx_id = id, tx_amount = (\<lambda>tx. 0),
     output_keys = (\<lambda>tx. [5, tx]), header_digest = ucast, header_time = (\<lambda>hd. 0),
     header_text = (\<lambda>hd. ''hd''), canceled = code_of database_category 1\<rparr>"

definition sample_btcd_view ::
  "(hash_digest \<Rightarrow> sample_entry list) \<Rightarrow> (point \<Rightarrow> sample_entry list) \<Rightarrow>
   (sample_entry, nat, hash_digest, u32) btcd_view" where
  "sample_btcd_view hs ps = \<lparr>watch_enabled = True,
     watch_history = (\<lambda>at key limit. (btcd_success, length (hs key), drop at (hs key))),
     confirmed_history = (\<lambda>key limit. (btcd_success, hs key)), spenders_history = ps,
     header_link = ucast, is_terminal = (\<lambda>link. link = - 1), link_height = (\<lambda>link. Some (ucast link)),
     link_header = Some, tx_link = ucast, link_transaction = (\<lambda>link. Some (ucast link)),
     search_transaction = (\<lambda>link tx filters prevouts. Null), top_link = 9\<rparr>"

lemma sample_btcd_laws: "btcd_laws sample_btcd"
  by (simp add: btcd_laws_def sample_btcd_def code_of_def)

definition sample_btcd_options :: btcd_options where
  "sample_btcd_options = \<lparr>maximum_filters = 2, btcd_maximum_history = 10\<rparr>"

definition sample_watching :: "(sample_entry, nat) btcd_state" where
  "sample_watching = fst (do_notify_received sample_btcd sample_btcd_options
     (sample_btcd_view (\<lambda>key. []) (\<lambda>p. [])) (\<lambda>n. False) [5] initial_btcd)"

lemma sample_watching_run:
  "rtranclp (btcd_step sample_btcd sample_btcd_options) initial_btcd sample_watching"
  unfolding sample_watching_def by (intro r_into_rtranclp Receive)

subsection \<open>Limits and flags\<close>

text \<open>
  C16: In every state the jobs can reach, in any order, whatever they read from the archive and
  wherever they are stopped, the four watch-lists of a channel together hold at most the configured
  number of watches (a reload, a reorganization and the watches armed by a received output
  included), and the flag that makes a chain event post a job is set whenever a legacy
  watch is armed: a connected block always reaches the matcher while there is one.
\<close>

theorem watches_limited:
  assumes "btcd_laws L" "rtranclp (btcd_step L opts) initial_btcd s"
  shows "length (address_watches s) + length (outpoint_watches s) + length (receive_watches s) +
      length (spent_watches s) \<le> unat (maximum_filters opts) \<and>
    (handle_chase False (Organized link) s = [] \<longrightarrow> receive_watches s = [] \<and> spent_watches s = [])"
  using reachable_watch_inv [OF assms] by (auto simp: watch_inv_def watch_total_def handle_chase_def)

theorem watches_limited_witness:
  "length (address_watches sample_watching) + length (outpoint_watches sample_watching) +
   length (receive_watches sample_watching) + length (spent_watches sample_watching) \<le> 2"
  using watches_limited [OF sample_btcd_laws sample_watching_run] by (simp add: sample_btcd_options_def)

end
