(* ===== verification/Btcd_Matching.thy ===== *)
theory Btcd_Matching
  imports Btcd_Limits
begin

text \<open>
  What the btcd matchers report: the content of a rescan, the transactions a connected block
  pays to and spends from the watched scripts and outpoints, and the pages of a search.
\<close>

subsection \<open>Match maps\<close>

definition match_at :: "matches \<Rightarrow> u64 \<Rightarrow> u64 \<Rightarrow> hash_digest option" where
  "match_at out height position = Option.bind (map_of out height) (\<lambda>txs. map_of txs position)"

definition wf_matches :: "matches \<Rightarrow> bool" where
  "wf_matches out \<longleftrightarrow> ordered out \<and> (\<forall>height txs. map_of out height = Some txs \<longrightarrow> ordered txs \<and> txs \<noteq> [])"

lemma wf_matches_empty [simp]: "wf_matches []"
  by (simp add: wf_matches_def)

lemma match_at_empty [simp]: "match_at [] h p = None"
  by (simp add: match_at_def)

lemma map_of_add_match:
  assumes "ordered out"
  shows "map_of (add_match h p x out) h' =
    (if h' = h then Some (emplace p x (case map_of out h of None \<Rightarrow> [] | Some txs \<Rightarrow> txs))
     else map_of out h')"
  by (cases "map_of out h") (simp_all add: add_match_def Let_def map_of_assign map_of_emplace [OF assms])

lemma wf_add_match: "wf_matches out \<Longrightarrow> wf_matches (add_match h p x out)"
  unfolding wf_matches_def
  by (auto simp: map_of_add_match ordered_emplace split: if_splits option.splits)
    (simp add: add_match_def Let_def ordered_emplace)

lemma match_at_add_match:
  assumes "wf_matches out"
  shows "match_at (add_match h p x out) h' p' =
    (if h' = h \<and> p' = p \<and> match_at out h p = None then Some x else match_at out h' p')"
proof -
  have "ordered out" "\<And>txs. map_of out h = Some txs \<Longrightarrow> ordered txs"
    using assms by (auto simp: wf_matches_def)
  then show ?thesis
    by (cases "map_of out h") (auto simp: match_at_def map_of_add_match map_of_emplace)
qed

text \<open>
  The entries name transactions of the chain: the hash of a confirmed entry is that of the
  transaction at its height and position.
\<close>

definition names_chain :: "('h, 'c, 'tx, 'hd) btcd_lib \<Rightarrow> (u64 \<Rightarrow> u64 \<Rightarrow> hash_digest) \<Rightarrow> 'h list \<Rightarrow> bool" where
  "names_chain L chain entries \<longleftrightarrow>
     list_all (\<lambda>e. entry_confirmed L e \<longrightarrow> entry_hash L e = chain (entry_height L e) (entry_position L e)) entries"

definition entry_at :: "('h, 'c, 'tx, 'hd) btcd_lib \<Rightarrow> u64 \<Rightarrow> u64 \<Rightarrow> 'h \<Rightarrow> bool" where
  "entry_at L height position e \<longleftrightarrow>
     entry_confirmed L e \<and> entry_height L e = height \<and> entry_position L e = position"

text \<open>A match map that holds exactly the positions of a predicate, with the chain's hashes.\<close>

definition holds_matches :: "(u64 \<Rightarrow> u64 \<Rightarrow> hash_digest) \<Rightarrow> (u64 \<Rightarrow> u64 \<Rightarrow> bool) \<Rightarrow> matches \<Rightarrow> bool" where
  "holds_matches chain at out \<longleftrightarrow> wf_matches out \<and>
     (\<forall>h p. match_at out h p = (if at h p then Some (chain h p) else None))"

lemma holds_matches_empty [simp]: "holds_matches chain (\<lambda>h p. False) []"
  by (simp add: holds_matches_def)

lemma holds_add_match:
  "holds_matches chain at out \<Longrightarrow>
   holds_matches chain (\<lambda>h' p'. at h' p' \<or> h' = h \<and> p' = p) (add_match h p (chain h p) out)"
  by (auto simp: holds_matches_def wf_add_match match_at_add_match)

lemma holds_matches_cong:
  "holds_matches chain at out \<Longrightarrow> (\<And>h p. at' h p = at h p) \<Longrightarrow> holds_matches chain at' out"
  by (simp add: holds_matches_def)

lemma holds_add_matches:
  assumes "names_chain L chain entries" "holds_matches chain at out"
  shows "holds_matches chain (\<lambda>h p. at h p \<or> h \<in> heights \<and> (\<exists>e \<in> set entries. entry_at L h p e))
    (add_matches L heights entries out)"
  using assms
proof (induction entries arbitrary: at out)
  case Nil
  then show ?case by (simp add: add_matches_def)
next
  case (Cons e entries)
  have names: "names_chain L chain entries" using Cons.prems(1) by (simp add: names_chain_def)
  show ?case
  proof (cases "entry_confirmed L e \<and> entry_height L e \<in> heights")
    case True
    have "entry_hash L e = chain (entry_height L e) (entry_position L e)"
      using Cons.prems(1) True by (simp add: names_chain_def)
    then have step: "add_matches L heights (e # entries) out = add_matches L heights entries
        (add_match (entry_height L e) (entry_position L e) (chain (entry_height L e) (entry_position L e)) out)"
      using True by (simp add: add_matches_def)
    show ?thesis unfolding step
      using Cons.IH [OF names holds_add_match [OF Cons.prems(2)]]
      by (rule holds_matches_cong) (use True in \<open>auto simp: entry_at_def\<close>)
  next
    case False
    then have step: "add_matches L heights (e # entries) out = add_matches L heights entries out"
      by (auto simp: add_matches_def)
    show ?thesis unfolding step using Cons.IH [OF names Cons.prems(2)]
      by (rule holds_matches_cong) (use False in \<open>auto simp: entry_at_def\<close>)
  qed
qed

subsection \<open>Rescan\<close>

text \<open>The entries a watch contributes: those of its history after the cursor, and none where the read fails.\<close>

definition watch_entries ::
  "btcd_options \<Rightarrow> ('h, 'c, 'tx, 'hd) btcd_view \<Rightarrow> hash_digest \<times> 'c \<Rightarrow> 'h list" where
  "watch_entries opts A w =
     (case watch_history A (snd w) (fst w) (ucast (btcd_maximum_history opts)) of (ec, _, delta) \<Rightarrow>
        if is_error ec then [] else delta)"



text \<open>The matching loops, when they reach their end, hold exactly the entries they read.\<close>

definition new_spenders ::
  "('h, 'c, 'tx, 'hd) btcd_lib \<Rightarrow> ('h, 'c, 'tx, 'hd) btcd_view \<Rightarrow> point \<times> 'h list \<Rightarrow> 'h list" where
  "new_spenders L A w = new_entries L (spenders_history A (fst w)) (snd w)"














lemma finite_positions: "finite {p :: u64. P p}"
  by simp

lemma ordered_as_function:
  assumes "ordered txs" "\<And>p. map_of txs p = (if P p then Some (f p) else None)"
  shows "txs = map (\<lambda>p. (p, f p)) (sorted_list_of_set {p :: u64. P p})"
proof -
  have keys: "fst ` set txs = {p. P p}"
    using assms(2) by (metis (mono_tags, lifting) dom_map_of_conv_image_fst domIff Collect_cong dom_def option.distinct(1))
  have srt: "sorted (map fst txs)" "distinct (map fst txs)"
    using assms(1) by (simp_all add: ordered_def strict_sorted_iff)
  have "map fst txs = sorted_list_of_set {p. P p}"
    using sorted_distinct_set_unique [OF srt, of "sorted_list_of_set {p. P p}"] keys by simp
  moreover have "txs = map (\<lambda>p. (p, f p)) (map fst txs)"
  proof (rule nth_equalityI)
    fix i assume i: "i < length txs"
    then have "map_of txs (fst (txs ! i)) = Some (snd (txs ! i))"
      using srt(2) by (simp add: map_of_eq_Some_iff)
    then have "snd (txs ! i) = f (fst (txs ! i))"
      using assms(2) [of "fst (txs ! i)"] by (simp split: if_splits)
    then show "txs ! i = map (\<lambda>p. (p, f p)) (map fst txs) ! i"
      using i by (simp add: prod_eq_iff)
  qed simp
  ultimately show ?thesis by metis
qed

lemma holds_matches_list:
  assumes "holds_matches chain at out"
  shows "map_of out h = (if {p. at h p} = {} then None
    else Some (map (\<lambda>p. (p, chain h p)) (sorted_list_of_set {p. at h p})))"
proof (cases "map_of out h")
  case None
  then have "match_at out h p = None" for p by (simp add: match_at_def)
  then have "\<not> at h p" for p using assms unfolding holds_matches_def by (metis option.distinct(1))
  then show ?thesis using None by simp
next
  case (Some txs)
  have wf: "ordered txs" "txs \<noteq> []" using assms Some by (simp_all add: holds_matches_def wf_matches_def)
  have at: "map_of txs p = (if at h p then Some (chain h p) else None)" for p
  proof -
    have "match_at out h p = (if at h p then Some (chain h p) else None)"
      using assms unfolding holds_matches_def by blast
    then show ?thesis using Some by (simp add: match_at_def)
  qed
  note eq = ordered_as_function [OF wf(1) at]
  have "{p. at h p} \<noteq> {}" using eq wf(2) by force
  then show ?thesis using eq Some by simp
qed






definition sample_chain_view :: "(sample_entry, nat, hash_digest, u32) btcd_view" where
  "sample_chain_view = sample_btcd_view (\<lambda>key. if key = 5 then [(9, 1, 2)] else []) (\<lambda>p. [])"



subsection \<open>Received and redeemed outputs\<close>



text \<open>What matching a block relies on: as for a rescan, from any cursor and with queries that may fail.\<close>

definition matching_laws ::
  "('h, 'c, 'tx, 'hd) btcd_lib \<Rightarrow> ('h, 'c, 'tx, 'hd) btcd_view \<Rightarrow> (u64 \<Rightarrow> u64 \<Rightarrow> hash_digest) \<Rightarrow> bool" where
  "matching_laws L A chain \<longleftrightarrow> is_error (canceled L) \<and>
     (\<forall>xs ys. set (new_entries L xs ys) = set xs - set ys) \<and>
     (\<forall>at key limit. names_chain L chain (snd (snd (watch_history A at key limit)))) \<and>
     (\<forall>prevout. names_chain L chain (spenders_history A prevout))"

lemma matching_names:
  assumes "matching_laws L A chain"
  shows "names_chain L chain (watch_entries opts A w)" "names_chain L chain (new_spenders L A w')"
    "set (new_spenders L A w') = set (spenders_history A (fst w')) - set (snd w')"
proof -
  obtain ec c delta where r: "watch_history A (snd w) (fst w) (ucast (btcd_maximum_history opts)) = (ec, c, delta)"
    by (metis prod_cases3)
  have "names_chain L chain (snd (snd (ec, c, delta)))"
    using assms unfolding matching_laws_def r [symmetric] by blast
  then show "names_chain L chain (watch_entries opts A w)"
    by (simp add: watch_entries_def r names_chain_def)
  show spent: "set (new_spenders L A w') = set (spenders_history A (fst w')) - set (snd w')"
    using assms by (simp add: matching_laws_def new_spenders_def)
  have "names_chain L chain (spenders_history A (fst w'))" using assms unfolding matching_laws_def by blast
  then show "names_chain L chain (new_spenders L A w')"
    using spent by (simp add: names_chain_def list_all_iff)
qed

text \<open>The positions in the block at which a watched outpoint has a spender not seen before.\<close>

definition spent_positions ::
  "('h, 'c, 'tx, 'hd) btcd_lib \<Rightarrow> ('h, 'c, 'tx, 'hd) btcd_view \<Rightarrow> u64 \<Rightarrow> point \<times> 'h list \<Rightarrow> u64 list" where
  "spent_positions L A height w =
     sorted_list_of_set {p. \<exists>e \<in> set (spenders_history A (fst w)) - set (snd w). entry_at L height p e}"

definition redeemed_by ::
  "('h, 'c, 'tx, 'hd) btcd_lib \<Rightarrow> ('h, 'c, 'tx, 'hd) btcd_view \<Rightarrow> (u64 \<Rightarrow> u64 \<Rightarrow> hash_digest) \<Rightarrow>
   'hd \<Rightarrow> u64 \<Rightarrow> point \<times> 'h list \<Rightarrow> array_t list" where
  "redeemed_by L A chain header height w =
     redeeming L A header height (map (\<lambda>p. (p, chain height p)) (spent_positions L A height w))"

lemma spent_watch_matches:
  assumes "matching_laws L A chain"
  shows "(case map_of (snd (match_outpoints L A {height} prevout sub [])) height of
      None \<Rightarrow> [] | Some txs \<Rightarrow> txs) =
    map (\<lambda>p. (p, chain height p)) (spent_positions L A height (prevout, sub))"
proof -
  let ?out = "snd (match_outpoints L A {height} prevout sub [])"
  have "holds_matches chain (\<lambda>h p. False \<or> h \<in> {height} \<and> (\<exists>e \<in> set (new_spenders L A (prevout, sub)). entry_at L h p e)) ?out"
    unfolding match_outpoints_def Let_def snd_conv
    using holds_add_matches [OF matching_names(2) [OF assms, of "(prevout, sub)"] holds_matches_empty, of "{height}"]
    by (simp add: new_spenders_def)
  from holds_matches_list [OF this, of height] show ?thesis
    by (simp add: spent_positions_def matching_names(3) [OF assms])
qed

lemma match_spent_watches_run:
  assumes laws: "matching_laws L A chain"
  shows "match_spent_watches L A stopping header height {height} subs = (False, subs', out) \<Longrightarrow>
    out = concat (map (redeemed_by L A chain header height) subs) \<and>
    subs' = map (\<lambda>w. (fst w, spenders_history A (fst w)))
      (filter (\<lambda>w. spent_positions L A height w = []) subs)"
proof (induction subs arbitrary: subs' out)
  case (Cons w subs)
  obtain prevout sub where w: "w = (prevout, sub)" by fastforce
  obtain spent where next': "match_outpoints L A {height} prevout sub [] = (spenders_history A prevout, spent)"
    by (simp add: match_outpoints_def Let_def)
  have m: "(case map_of spent height of None \<Rightarrow> [] | Some txs \<Rightarrow> txs) =
      map (\<lambda>p. (p, chain height p)) (spent_positions L A height w)"
    using spent_watch_matches [OF laws, of height prevout sub] by (simp add: next' w)
  obtain subs1 out1 where rest:
    "match_spent_watches L A stopping header height {height} subs = (False, subs1, out1)"
    and now: "subs' = (if spent_positions L A height w = [] then (prevout, spenders_history A prevout) # subs1 else subs1)"
      "out = redeemed_by L A chain header height w @ out1"
    using Cons.prems
    by (cases "match_spent_watches L A stopping header height {height} subs")
      (auto simp: w next' m Let_def redeemed_by_def split: if_splits)
  from Cons.IH [OF rest] show ?case by (simp add: now w)
qed simp

lemma match_spends_run:
  assumes "matching_laws L A chain"
    "match_spends L A stopping header height {height} s = (s', fault, out)" "\<not> is_error fault"
  shows "out = concat (map (redeemed_by L A chain header height) (spent_watches s)) \<and>
    spent_watches s' = map (\<lambda>w. (fst w, spenders_history A (fst w)))
      (filter (\<lambda>w. spent_positions L A height w = []) (spent_watches s)) \<and>
    receive_watches s' = receive_watches s \<and> address_watches s' = address_watches s \<and>
    outpoint_watches s' = outpoint_watches s"
proof -
  obtain quit subs' out' where m: "match_spent_watches L A stopping header height {height} (spent_watches s) =
      (quit, subs', out')" by (metis prod_cases3)
  have "is_error (canceled L)" using assms(1) by (simp add: matching_laws_def)
  then have eqs: "\<not> quit" "s' = s\<lparr>spent_watches := subs'\<rparr>" "out = out'"
    using assms(2,3) by (auto simp: match_spends_def m split: if_splits)
  show ?thesis using match_spent_watches_run [OF assms(1), of stopping header height "spent_watches s"] m eqs
    by simp
qed

text \<open>
  Spent watches are one-shot and complete. When the pass over the spent watches of a connected
  block ends, it has reported for each watch, in the order of the outpoints, every transaction of
  the block that newly spends the outpoint, in block order; the watches that were reported are gone, and
  every other watch remains with the spenders it has now.
\<close>

theorem spends_one_shot:
  assumes "matching_laws L A chain"
    "match_spends L A stopping header height {height} s = (s', fault, out)" "\<not> is_error fault"
  shows "out = concat (map (redeemed_by L A chain header height) (spent_watches s)) \<and>
    spent_watches s' = map (\<lambda>w. (fst w, spenders_history A (fst w)))
      (filter (\<lambda>w. spent_positions L A height w = []) (spent_watches s)) \<and>
    receive_watches s' = receive_watches s \<and> address_watches s' = address_watches s \<and>
    outpoint_watches s' = outpoint_watches s"
  using assms by (rule match_spends_run)

definition sample_spend_view :: "(sample_entry, nat, hash_digest, u32) btcd_view" where
  "sample_spend_view = sample_btcd_view (\<lambda>key. if key = 5 then [(9, 1, 2)] else [])
     (\<lambda>p. if p = (2, 0) then [(9, 3, 7)] else [])"

lemma sample_matching_laws: "matching_laws sample_btcd sample_spend_view (\<lambda>h p. if p = 1 then 2 else 7)"
  by (auto simp: matching_laws_def sample_btcd_def sample_spend_view_def sample_btcd_view_def code_of_def
      names_chain_def list_all_iff dest!: in_set_dropD)

theorem spends_one_shot_witness:
  "\<exists>s' out. match_spends sample_btcd sample_spend_view (\<lambda>n. False) 9 9 {9}
      (initial_btcd\<lparr>spent_watches := [((2, 0), [])]\<rparr>) = (s', btcd_success, out) \<and>
    out = concat (map (redeemed_by sample_btcd sample_spend_view (\<lambda>h p. if p = 1 then 2 else 7) 9 9)
      [((2, 0), [])])"
proof -
  let ?s = "initial_btcd\<lparr>spent_watches := [((2, 0), [] :: sample_entry list)]\<rparr> :: (sample_entry, nat) btcd_state"
  obtain s' fault out where r: "match_spends sample_btcd sample_spend_view (\<lambda>n. False) 9 9 {9} ?s = (s', fault, out)"
    by (metis prod_cases3)
  have ok: "fault = btcd_success"
    using r by (auto simp: match_spends_def Let_def split: prod.splits)
  have "\<not> is_error fault" by (simp add: ok code_of_def)
  then show ?thesis using spends_one_shot [OF sample_matching_laws r] r ok by simp
qed









subsection \<open>Reorganization\<close>

text \<open>
  A disconnected block resets the cursors of the scripts and leaves the known spenders of the
  outpoints as they are: the spender of a watched outpoint that is confirmed again at the same height and
  position in the replacing block is not reported, although the block that reported it is gone.
\<close>

theorem disconnected_keeps_spenders:
  assumes "matching_laws L A chain"
    "outpoint_watches s = [(prevout, spenders_history A prevout)]" "address_watches s = []"
  shows "snd (snd (match_filters L opts A st st' st'' height heights (fst (do_disconnected L A' link s)))) = []"
proof -
  have none: "new_entries L (spenders_history A prevout) (spenders_history A prevout) = []"
    using assms(1) unfolding matching_laws_def by (metis Diff_cancel set_empty)
  have "address_watches (fst (do_disconnected L A' link s)) = []"
    "outpoint_watches (fst (do_disconnected L A' link s)) = [(prevout, spenders_history A prevout)]"
    using assms(2,3) by (simp_all add: do_disconnected_def Let_def split: option.split)
  then show ?thesis
    by (simp add: match_filters_def match_outpoints_def none add_matches_def Let_def)
qed

theorem disconnected_keeps_spenders_witness:
  "snd (snd (match_filters sample_btcd sample_btcd_options sample_spend_view (\<lambda>n. False) (\<lambda>n. False)
     (\<lambda>n. False) 9 {9} (fst (do_disconnected sample_btcd sample_spend_view 9
       (initial_btcd\<lparr>outpoint_watches := [((2, 0), [(9, 3, 7)])]\<rparr>))))) = []"
  by (rule disconnected_keeps_spenders [OF sample_matching_laws, where prevout = "(2, 0)"])
    (simp_all add: sample_spend_view_def sample_btcd_view_def initial_btcd_def)

subsection \<open>Search\<close>

definition search_value ::
  "('h, 'c, 'tx, 'hd) btcd_lib \<Rightarrow> ('h, 'c, 'tx, 'hd) btcd_view \<Rightarrow> bool \<Rightarrow> bool \<Rightarrow> string set \<Rightarrow> 'h \<Rightarrow> value_t" where
  "search_value L A verbose prevouts filters e =
     (let link = tx_link A (entry_hash L e); tx = the (link_transaction A link) in
      if \<not> verbose then String (tx_text L tx) else search_transaction A link tx filters prevouts)"

text \<open>A page of a search is that part of the history, skipped and counted without wrap-around.\<close>

lemma search_entries_page:
  assumes "\<And>n. \<not> stopping n" "\<And>e. e \<in> set history \<Longrightarrow> link_transaction A (tx_link A (entry_hash L e)) \<noteq> None"
    "length found \<le> unat count" "skip = 0 \<or> found = []"
  shows "search_entries L A stopping verbose prevouts filters skip count found history =
    Some (Complete_Search_Raw_Transactions btcd_success
      (found @ map (search_value L A verbose prevouts filters)
         (take (unat count - length found) (drop (unat skip) history))))"
  using assms(2-)
proof (induction history arbitrary: skip found)
  case (Cons e history)
  note run = assms(1) [of "length history"]
  show ?case
  proof (cases "skip = 0")
    case False
    then have "unat skip \<noteq> 0" by (simp add: unsigned_eq_0_iff)
    then have "unat skip = Suc (unat (skip - 1))" using False by (simp add: unat_minus_one)
    then show ?thesis using Cons.IH [of found "skip - 1"] Cons.prems False run by simp
  next
    case True
    obtain tx where tx: "link_transaction A (tx_link A (entry_hash L e)) = Some tx"
      using Cons.prems(1) by fastforce
    show ?thesis
    proof (cases "length found = unat count")
      case False
      let ?found = "found @ [search_value L A verbose prevouts filters e]"
      have le: "length ?found \<le> unat count" using False Cons.prems(2) by simp
      have "take (unat count - length found) (e # history) = e # take (unat count - length ?found) history"
        using le by (simp add: Suc_diff_Suc [symmetric] Suc_le_eq)
      moreover have "search_entries L A stopping verbose prevouts filters skip count found (e # history) =
          search_entries L A stopping verbose prevouts filters 0 count ?found history"
        using True False run tx by (simp add: search_value_def Let_def)
      ultimately show ?thesis using Cons.IH [OF _ le, of 0] Cons.prems(1) True by simp
    qed (use True run in simp)
  qed
qed simp

text \<open>
  A search that is not stopped and finds its transactions replies with one page of the merged
  confirmed history of the searched scripts: after as many entries as are skipped, as many as are
  requested or remain, in the order of the chain or in reverse. The counters do not wrap, whatever
  the request asks for.
\<close>

theorem search_page:
  assumes "\<And>n. \<not> stopping n" "search_history L opts A keys = Inr history"
    and "ordered_history = (if length keys > 1 then sort_and_dedup L history else history)"
    and "\<And>e. e \<in> set ordered_history \<Longrightarrow> link_transaction A (tx_link A (entry_hash L e)) \<noteq> None"
  shows "do_search_raw_transactions L opts A stopping keys verbose skip count prevouts reverse filters =
    Some (Complete_Search_Raw_Transactions btcd_success
      (map (search_value L A verbose prevouts filters)
        (take (unat count) (drop (unat skip) (if reverse then rev ordered_history else ordered_history)))))"
proof -
  let ?h = "if reverse then rev ordered_history else ordered_history"
  have found: "e \<in> set ?h \<Longrightarrow> link_transaction A (tx_link A (entry_hash L e)) \<noteq> None" for e
    using assms(4) by (simp split: if_splits)
  have "do_search_raw_transactions L opts A stopping keys verbose skip count prevouts reverse filters =
      search_entries L A stopping verbose prevouts filters skip count [] ?h"
    by (simp only: do_search_raw_transactions_def assms(2) sum.case Let_def assms(3) [symmetric])
  then show ?thesis using search_entries_page [OF assms(1) found, where found = "[]" and count = count and skip = skip]
    by simp
qed

theorem search_page_witness:
  "do_search_raw_transactions sample_btcd sample_btcd_options sample_chain_view (\<lambda>n. False) [5] True 0
     (- 1) False True {} =
   Some (Complete_Search_Raw_Transactions btcd_success
     (map (search_value sample_btcd sample_chain_view True False {}) [(9, 1, 2)]))"
  using search_page [where stopping = "\<lambda>n. False" and L = sample_btcd and opts = sample_btcd_options
      and A = sample_chain_view and keys = "[5]" and history = "[(9, 1, 2)]" and skip = 0 and count = "- 1"
      and ordered_history = "[(9, 1, 2)]" and reverse = True and verbose = True and prevouts = False and filters = "{}"]
  by (simp add: sample_chain_view_def sample_btcd_view_def sample_btcd_def code_of_def unsigned_minus_1_eq_mask mask_eq_exp_minus_1)

end
