(* ===== verification/Interfaces.thy ===== *)
theory Interfaces
  imports Rpc_Model
begin

text \<open>
  The published json-rpc interfaces, \<open>interfaces/*.hpp\<close>: the method tuple of each service with the
  types, defaults and names of its arguments, and the positions under which the handlers are
  subscribed. The url services declare theirs with their parsers (\<open>Native_Target\<close>,
  \<open>Esplora_Target\<close>, \<open>Bitcoind_Target\<close>). Number literals are kept as the source writes them.
\<close>

subsection \<open>Declarations\<close>

datatype arg_type =
    Boolean_t | String_t | Number_t | Object_t | Array_t | Value_t
  | Uint8_t | Uint16_t | Uint32_t | Hash_t | Chunk_t

datatype arg_default =
    Default_Boolean bool | Default_String string | Default_Number string | Default_Unsigned nat
  | Default_Empty arg_type

datatype method_arg =
    Required_Arg arg_type | Nullable_Arg arg_type | Optional_Arg arg_default | Nullopt_Arg arg_default

record method_t =
  method_name :: string
  implemented :: bool
  method_args :: "method_arg list"
  arg_names :: "string list"

type_synonym rpc_interface = "method_t list"

definition method_decl :: "string \<Rightarrow> bool \<Rightarrow> method_arg list \<Rightarrow> string list \<Rightarrow> method_t" where
  "method_decl n i as ns = \<lparr>method_name = n, implemented = i, method_args = as, arg_names = ns\<rparr>"

subsection \<open>Tables\<close>

definition bitcoind_blockchain_methods :: rpc_interface where
  "bitcoind_blockchain_methods =
    [method_decl ''getbestblockhash'' True [] [],
     method_decl ''getblock'' True [Required_Arg String_t, Nullopt_Arg (Default_Number ''1.0'')]
        [''blockhash'', ''verbosity''],
     method_decl ''getblockchaininfo'' True [] [],
     method_decl ''getblockcount'' True [] [],
     method_decl ''getblockfilter'' True [Required_Arg String_t, Nullopt_Arg (Default_String
        ''basic'')] [''blockhash'', ''filtertype''],
     method_decl ''getblockhash'' True [Required_Arg Number_t] [''height''],
     method_decl ''getblockheader'' True [Required_Arg String_t, Nullopt_Arg (Default_Boolean
        True)] [''blockhash'', ''verbose''],
     method_decl ''getblockstats'' True [Required_Arg Value_t, Nullopt_Arg (Default_Empty
        Array_t)] [''hash_or_height'', ''stats''],
     method_decl ''getchaintxstats'' True [Nullopt_Arg (Default_Number ''-1.0''), Nullopt_Arg
        (Default_String [])] [''nblocks'', ''blockhash''],
     method_decl ''gettxout'' True [Required_Arg String_t, Required_Arg Number_t, Nullopt_Arg
        (Default_Boolean True)] [''txid'', ''n'', ''include_mempool''],
     method_decl ''gettxoutsetinfo'' True [Nullopt_Arg (Default_String ''hash_serialized_3''),
        Nullopt_Arg (Default_Empty Value_t), Nullopt_Arg (Default_Boolean True)] [''hash_type'',
        ''hash_or_height'', ''use_index''],
     method_decl ''pruneblockchain'' False [Required_Arg Number_t] [''height''],
     method_decl ''savemempool'' True [] [],
     method_decl ''scantxoutset'' True [Required_Arg String_t, Nullopt_Arg (Default_Empty
        Array_t)] [''action'', ''scanobjects''],
     method_decl ''verifychain'' True [Nullopt_Arg (Default_Number ''3.0''), Nullopt_Arg
        (Default_Number ''6.0'')] [''checklevel'', ''nblocks''],
     method_decl ''dumptxoutset'' False [Required_Arg String_t, Nullopt_Arg (Default_String []),
        Nullable_Arg Value_t] [''path'', ''type'', ''options''],
     method_decl ''loadtxoutset'' False [Required_Arg String_t] [''path''],
     method_decl ''gettxoutproof'' True [Required_Arg Array_t, Nullopt_Arg (Default_String [])]
        [''txids'', ''blockhash''],
     method_decl ''verifytxoutproof'' True [Required_Arg String_t] [''proof''],
     method_decl ''getblockfrompeer'' False [Required_Arg String_t, Required_Arg Number_t]
        [''blockhash'', ''peer_id''],
     method_decl ''getchainstates'' True [] [],
     method_decl ''getchaintips'' True [] [],
     method_decl ''getdeploymentinfo'' True [Nullopt_Arg (Default_String [])] [''blockhash''],
     method_decl ''getdescriptoractivity'' True [Nullopt_Arg (Default_Empty Array_t),
        Nullopt_Arg (Default_Empty Array_t), Nullopt_Arg (Default_Boolean True)]
        [''blockhashes'', ''scanobjects'', ''include_mempool''],
     method_decl ''getdifficulty'' True [] [],
     method_decl ''preciousblock'' True [Required_Arg String_t] [''blockhash''],
     method_decl ''scanblocks'' True [Required_Arg String_t, Nullopt_Arg (Default_Empty
        Array_t), Nullopt_Arg (Default_Number ''0.0''), Nullopt_Arg (Default_Number ''-1.0''),
        Nullopt_Arg (Default_String ''basic''), Nullopt_Arg (Default_Empty Object_t)]
        [''action'', ''scanobjects'', ''start_height'', ''stop_height'', ''filtertype'',
        ''options''],
     method_decl ''waitforblock'' True [Required_Arg String_t, Nullopt_Arg (Default_Number
        ''0.0'')] [''blockhash'', ''timeout''],
     method_decl ''waitforblockheight'' True [Required_Arg Number_t, Nullopt_Arg (Default_Number
        ''0.0'')] [''height'', ''timeout''],
     method_decl ''waitfornewblock'' True [Nullopt_Arg (Default_Number ''0.0''), Nullopt_Arg
        (Default_String [])] [''timeout'', ''current_tip''],
     method_decl ''getmempoolancestors'' True [Required_Arg String_t, Nullopt_Arg
        (Default_Boolean False)] [''txid'', ''verbose''],
     method_decl ''getmempoolcluster'' False [Required_Arg String_t] [''txid''],
     method_decl ''getmempooldescendants'' True [Required_Arg String_t, Nullopt_Arg
        (Default_Boolean False)] [''txid'', ''verbose''],
     method_decl ''getmempoolentry'' True [Required_Arg String_t] [''txid''],
     method_decl ''getmempoolinfo'' True [] [],
     method_decl ''getrawmempool'' True [Nullopt_Arg (Default_Boolean False), Nullopt_Arg
        (Default_Boolean False)] [''verbose'', ''mempool_sequence''],
     method_decl ''gettxspendingprevout'' True [Required_Arg Array_t, Nullable_Arg Object_t]
        [''outputs'', ''options''],
     method_decl ''importmempool'' True [Required_Arg String_t, Nullable_Arg Object_t]
        [''filepath'', ''options'']]"

definition bitcoind_blockchain_aliases :: "(string \<times> nat) list" where
  "bitcoind_blockchain_aliases =
    [(''get_best_block_hash'', 0), (''get_block'', 1), (''get_block_chain_info'', 2),
     (''get_block_count'', 3), (''get_block_filter'', 4), (''get_block_hash'', 5),
     (''get_block_header'', 6), (''get_block_stats'', 7), (''get_chain_tx_stats'', 8),
     (''get_tx_out'', 9), (''get_tx_out_set_info'', 10), (''prune_block_chain'', 11),
     (''save_mempool'', 12), (''scan_tx_out_set'', 13), (''verify_chain'', 14), (''dump_tx_out_set'',
     15), (''load_tx_out_set'', 16), (''get_tx_out_proof'', 17), (''verify_tx_out_proof'', 18),
     (''get_block_from_peer'', 19), (''get_chain_states'', 20), (''get_chain_tips'', 21),
     (''get_deployment_info'', 22), (''get_descriptor_activity'', 23), (''get_difficulty'', 24),
     (''precious_block'', 25), (''scan_blocks'', 26), (''wait_for_block'', 27),
     (''wait_for_block_height'', 28), (''wait_for_new_block'', 29), (''get_mempool_ancestors'', 30),
     (''get_mempool_cluster'', 31), (''get_mempool_descendants'', 32), (''get_mempool_entry'', 33),
     (''get_mempool_info'', 34), (''get_raw_mempool'', 35), (''get_tx_spending_prevout'', 36),
     (''import_mempool'', 37)]"

definition bitcoind_control_methods :: rpc_interface where
  "bitcoind_control_methods =
    [method_decl ''help'' True [Nullopt_Arg (Default_String [])] [''command''],
     method_decl ''stop'' False [Nullable_Arg Number_t] [''wait''],
     method_decl ''getmemoryinfo'' True [Nullopt_Arg (Default_String ''stats'')] [''mode''],
     method_decl ''getopenrpcinfo'' True [Nullopt_Arg (Default_Boolean False)] [''show_hidden''],
     method_decl ''getrpcinfo'' True [] [],
     method_decl ''logging'' True [Nullopt_Arg (Default_Empty Array_t), Nullopt_Arg
        (Default_Empty Array_t)] [''include'', ''exclude''],
     method_decl ''uptime'' True [] [],
     method_decl ''rpc.discover'' True [Nullopt_Arg (Default_Boolean False)] [''show_hidden'']]"

definition bitcoind_control_aliases :: "(string \<times> nat) list" where
  "bitcoind_control_aliases =
    [(''help'', 0), (''stop'', 1), (''get_memory_info'', 2), (''get_openrpc_info'', 3),
     (''get_rpc_info'', 4), (''logging'', 5), (''uptime'', 6), (''rpc_discover'', 7)]"

definition bitcoind_mining_methods :: rpc_interface where
  "bitcoind_mining_methods =
    [method_decl ''getnetworkhashps'' True [Nullopt_Arg (Default_Number ''120.0''), Nullopt_Arg
        (Default_Number ''-1.0'')] [''nblocks'', ''height''],
     method_decl ''getmininginfo'' True [] [],
     method_decl ''submitblock'' True [Required_Arg String_t, Nullopt_Arg (Default_String [])]
        [''hexdata'', ''dummy''],
     method_decl ''submitheader'' True [Required_Arg String_t] [''hexdata''],
     method_decl ''getblocktemplate'' False [Required_Arg Object_t] [''template_request''],
     method_decl ''getprioritisedtransactions'' False [] [],
     method_decl ''prioritisetransaction'' False [Required_Arg String_t, Nullable_Arg Number_t,
        Nullopt_Arg (Default_Number ''0.0'')] [''txid'', ''dummy'', ''fee_delta'']]"

definition bitcoind_mining_aliases :: "(string \<times> nat) list" where
  "bitcoind_mining_aliases =
    [(''get_network_hash_ps'', 0), (''get_mining_info'', 1), (''submit_block'', 2),
     (''submit_header'', 3), (''get_block_template'', 4), (''get_prioritised_transactions'', 5),
     (''prioritise_transaction'', 6)]"

definition bitcoind_network_methods :: rpc_interface where
  "bitcoind_network_methods =
    [method_decl ''getnetworkinfo'' True [] [],
     method_decl ''clearbanned'' False [] [],
     method_decl ''listbanned'' False [] [],
     method_decl ''setban'' False [Required_Arg String_t, Required_Arg String_t, Nullopt_Arg
        (Default_Number ''0.0''), Nullopt_Arg (Default_Boolean False)] [''subnet'', ''command'',
        ''bantime'', ''absolute''],
     method_decl ''addnode'' True [Required_Arg String_t, Required_Arg String_t, Nullopt_Arg
        (Default_Boolean False)] [''node'', ''command'', ''v2transport''],
     method_decl ''disconnectnode'' True [Nullable_Arg String_t, Nullable_Arg Number_t]
        [''address'', ''nodeid''],
     method_decl ''exportasmap'' True [Required_Arg String_t] [''path''],
     method_decl ''getaddednodeinfo'' True [Nullable_Arg String_t] [''node''],
     method_decl ''getaddrmaninfo'' True [] [],
     method_decl ''getconnectioncount'' True [] [],
     method_decl ''getnettotals'' True [] [],
     method_decl ''getnodeaddresses'' True [Nullopt_Arg (Default_Number ''1.0''), Nullopt_Arg
        (Default_String [])] [''count'', ''network''],
     method_decl ''getpeerinfo'' True [] [],
     method_decl ''ping'' True [] [],
     method_decl ''setnetworkactive'' True [Required_Arg Boolean_t] [''state'']]"

definition bitcoind_network_aliases :: "(string \<times> nat) list" where
  "bitcoind_network_aliases =
    [(''get_network_info'', 0), (''clear_banned'', 1), (''list_banned'', 2), (''set_ban'', 3),
     (''add_node'', 4), (''disconnect_node'', 5), (''export_asmap'', 6), (''get_added_node_info'',
     7), (''get_addrman_info'', 8), (''get_connection_count'', 9), (''get_net_totals'', 10),
     (''get_node_addresses'', 11), (''get_peer_info'', 12), (''ping'', 13), (''set_network_active'',
     14)]"

definition bitcoind_notifications_methods :: rpc_interface where
  "bitcoind_notifications_methods =
    [method_decl ''getzmqnotifications'' True [] []]"

definition bitcoind_notifications_aliases :: "(string \<times> nat) list" where
  "bitcoind_notifications_aliases =
    [(''get_zmq_notifications'', 0)]"

definition bitcoind_test_methods :: rpc_interface where
  "bitcoind_test_methods =
    [method_decl ''addconnection'' False [Required_Arg String_t, Required_Arg String_t,
        Required_Arg Boolean_t] [''address'', ''connection_type'', ''v2transport''],
     method_decl ''addpeeraddress'' False [Required_Arg String_t, Required_Arg Number_t,
        Nullopt_Arg (Default_Boolean False)] [''address'', ''port'', ''tried''],
     method_decl ''echo'' False [Nullable_Arg Value_t, Nullable_Arg Value_t, Nullable_Arg
        Value_t, Nullable_Arg Value_t, Nullable_Arg Value_t, Nullable_Arg Value_t, Nullable_Arg
        Value_t, Nullable_Arg Value_t, Nullable_Arg Value_t, Nullable_Arg Value_t] [''arg0'',
        ''arg1'', ''arg2'', ''arg3'', ''arg4'', ''arg5'', ''arg6'', ''arg7'', ''arg8'',
        ''arg9''],
     method_decl ''echoipc'' False [Required_Arg String_t] [''arg''],
     method_decl ''echojson'' False [Nullable_Arg Value_t, Nullable_Arg Value_t, Nullable_Arg
        Value_t, Nullable_Arg Value_t, Nullable_Arg Value_t, Nullable_Arg Value_t, Nullable_Arg
        Value_t, Nullable_Arg Value_t, Nullable_Arg Value_t, Nullable_Arg Value_t] [''arg0'',
        ''arg1'', ''arg2'', ''arg3'', ''arg4'', ''arg5'', ''arg6'', ''arg7'', ''arg8'',
        ''arg9''],
     method_decl ''estimaterawfee'' False [Required_Arg Number_t, Nullopt_Arg (Default_Number
        ''0.95'')] [''conf_target'', ''threshold''],
     method_decl ''generate'' False [] [],
     method_decl ''generateblock'' False [Required_Arg String_t, Required_Arg Array_t,
        Nullopt_Arg (Default_Boolean True)] [''output'', ''transactions'', ''submit''],
     method_decl ''generatetoaddress'' False [Required_Arg Number_t, Required_Arg String_t,
        Nullopt_Arg (Default_Number ''1000000.0'')] [''nblocks'', ''address'', ''maxtries''],
     method_decl ''generatetodescriptor'' False [Required_Arg Number_t, Required_Arg String_t,
        Nullopt_Arg (Default_Number ''1000000.0'')] [''num_blocks'', ''descriptor'',
        ''maxtries''],
     method_decl ''getmempoolfeeratediagram'' False [] [],
     method_decl ''getorphantxs'' False [Nullopt_Arg (Default_Number ''0.0'')] [''verbosity''],
     method_decl ''getrawaddrman'' False [] [],
     method_decl ''invalidateblock'' False [Required_Arg String_t] [''blockhash''],
     method_decl ''mockscheduler'' False [Required_Arg Number_t] [''delta_time''],
     method_decl ''reconsiderblock'' False [Required_Arg String_t] [''blockhash''],
     method_decl ''sendmsgtopeer'' False [Required_Arg Number_t, Required_Arg String_t,
        Required_Arg String_t] [''peer_id'', ''msg_type'', ''msg''],
     method_decl ''setmocktime'' False [Required_Arg Number_t] [''timestamp''],
     method_decl ''syncwithvalidationinterfacequeue'' False [] []]"

definition bitcoind_test_aliases :: "(string \<times> nat) list" where
  "bitcoind_test_aliases =
    [(''add_connection'', 0), (''add_peer_address'', 1), (''echo'', 2), (''echo_ipc'', 3),
     (''echo_json'', 4), (''estimate_raw_fee'', 5), (''generate'', 6), (''generate_block'', 7),
     (''generate_to_address'', 8), (''generate_to_descriptor'', 9),
     (''get_mempool_fee_rate_diagram'', 10), (''get_orphan_txs'', 11), (''get_raw_addrman'', 12),
     (''invalidate_block'', 13), (''mock_scheduler'', 14), (''reconsider_block'', 15),
     (''send_msg_to_peer'', 16), (''set_mock_time'', 17), (''sync_with_validation_interface_queue'',
     18)]"

definition bitcoind_transaction_methods :: rpc_interface where
  "bitcoind_transaction_methods =
    [method_decl ''createrawtransaction'' True [Required_Arg Array_t, Required_Arg Value_t,
        Nullopt_Arg (Default_Number ''0.0''), Nullopt_Arg (Default_Boolean True), Nullopt_Arg
        (Default_Number ''2.0'')] [''inputs'', ''outputs'', ''locktime'', ''replaceable'',
        ''version''],
     method_decl ''decoderawtransaction'' True [Required_Arg String_t, Nullable_Arg Boolean_t]
        [''hexstring'', ''iswitness''],
     method_decl ''getrawtransaction'' True [Required_Arg String_t, Nullopt_Arg (Default_Number
        ''0.0''), Nullopt_Arg (Default_String [])] [''txid'', ''verbosity'', ''blockhash''],
     method_decl ''sendrawtransaction'' True [Required_Arg String_t, Nullopt_Arg (Default_Number
        ''0.1''), Nullopt_Arg (Default_Number ''0.0'')] [''hexstring'', ''maxfeerate'',
        ''maxburnamount''],
     method_decl ''testmempoolaccept'' True [Required_Arg Array_t, Nullopt_Arg (Default_Number
        ''0.1'')] [''rawtxs'', ''maxfeerate''],
     method_decl ''analyzepsbt'' True [Required_Arg String_t] [''psbt''],
     method_decl ''combinepsbt'' True [Required_Arg Array_t] [''txs''],
     method_decl ''converttopsbt'' True [Required_Arg String_t, Nullopt_Arg (Default_Boolean
        False), Nullable_Arg Boolean_t, Nullopt_Arg (Default_Number ''2.0'')] [''hexstring'',
        ''permitsigdata'', ''iswitness'', ''psbt_version''],
     method_decl ''createpsbt'' True [Required_Arg Array_t, Required_Arg Value_t, Nullopt_Arg
        (Default_Number ''0.0''), Nullopt_Arg (Default_Boolean True), Nullopt_Arg
        (Default_Number ''2.0''), Nullopt_Arg (Default_Number ''2.0'')] [''inputs'',
        ''outputs'', ''locktime'', ''replaceable'', ''version'', ''psbt_version''],
     method_decl ''decodepsbt'' True [Required_Arg String_t] [''psbt''],
     method_decl ''finalizepsbt'' True [Required_Arg String_t, Nullopt_Arg (Default_Boolean
        True)] [''psbt'', ''extract''],
     method_decl ''joinpsbts'' True [Required_Arg Array_t] [''txs''],
     method_decl ''descriptorprocesspsbt'' False [Required_Arg String_t, Required_Arg Array_t,
        Nullable_Arg String_t, Nullopt_Arg (Default_Boolean True), Nullopt_Arg (Default_Boolean
        True)] [''psbt'', ''descriptors'', ''sighashtype'', ''bip32derivs'', ''finalize''],
     method_decl ''utxoupdatepsbt'' True [Required_Arg String_t, Nullopt_Arg (Default_Empty
        Array_t)] [''psbt'', ''descriptors''],
     method_decl ''abortprivatebroadcast'' False [Required_Arg String_t] [''id''],
     method_decl ''getprivatebroadcastinfo'' False [] [],
     method_decl ''submitpackage'' True [Required_Arg Array_t, Nullopt_Arg (Default_Number
        ''0.1''), Nullopt_Arg (Default_Number ''0.0'')] [''package'', ''maxfeerate'',
        ''maxburnamount''],
     method_decl ''combinerawtransaction'' True [Required_Arg Array_t] [''txs''],
     method_decl ''signrawtransactionwithkey'' False [Required_Arg String_t, Required_Arg
        Array_t, Nullable_Arg Array_t, Nullable_Arg String_t] [''hexstring'', ''privkeys'',
        ''prevtxs'', ''sighashtype'']]"

definition bitcoind_transaction_aliases :: "(string \<times> nat) list" where
  "bitcoind_transaction_aliases =
    [(''create_raw_transaction'', 0), (''decode_raw_transaction'', 1), (''get_raw_transaction'', 2),
     (''send_raw_transaction'', 3), (''test_mempool_accept'', 4), (''analyze_psbt'', 5),
     (''combine_psbt'', 6), (''convert_to_psbt'', 7), (''create_psbt'', 8), (''decode_psbt'', 9),
     (''finalize_psbt'', 10), (''join_psbts'', 11), (''descriptor_process_psbt'', 12),
     (''utxo_update_psbt'', 13), (''abort_private_broadcast'', 14), (''get_private_broadcast_info'',
     15), (''submit_package'', 16), (''combine_raw_transaction'', 17),
     (''sign_raw_transaction_with_key'', 18)]"

definition bitcoind_utility_methods :: rpc_interface where
  "bitcoind_utility_methods =
    [method_decl ''decodescript'' True [Required_Arg String_t] [''hexstring''],
     method_decl ''validateaddress'' True [Required_Arg String_t] [''address''],
     method_decl ''createmultisig'' True [Required_Arg Number_t, Required_Arg Array_t,
        Nullopt_Arg (Default_String ''legacy'')] [''nrequired'', ''keys'', ''address_type''],
     method_decl ''deriveaddresses'' True [Required_Arg String_t, Nullable_Arg Value_t]
        [''descriptor'', ''range''],
     method_decl ''getdescriptorinfo'' True [Required_Arg String_t] [''descriptor''],
     method_decl ''verifymessage'' True [Required_Arg String_t, Required_Arg String_t,
        Required_Arg String_t] [''address'', ''signature'', ''message''],
     method_decl ''getindexinfo'' True [Nullopt_Arg (Default_String [])] [''index_name''],
     method_decl ''estimatesmartfee'' True [Required_Arg Number_t, Nullopt_Arg (Default_String
        ''economical''), Nullable_Arg Object_t] [''conf_target'', ''estimate_mode'',
        ''options''],
     method_decl ''signmessagewithprivkey'' False [Required_Arg String_t, Required_Arg String_t]
        [''privkey'', ''message'']]"

definition bitcoind_utility_aliases :: "(string \<times> nat) list" where
  "bitcoind_utility_aliases =
    [(''decode_script'', 0), (''validate_address'', 1), (''create_multisig'', 2),
     (''derive_addresses'', 3), (''get_descriptor_info'', 4), (''verify_message'', 5),
     (''get_index_info'', 6), (''estimate_smart_fee'', 7), (''sign_message_with_priv_key'', 8)]"

definition bitcoind_wallet_methods :: rpc_interface where
  "bitcoind_wallet_methods =
    [method_decl ''enumeratesigners'' False [] [],
     method_decl ''abandontransaction'' False [Required_Arg String_t] [''txid''],
     method_decl ''abortrescan'' False [] [],
     method_decl ''addhdkey'' False [Nullable_Arg String_t] [''hdkey''],
     method_decl ''backupwallet'' False [Required_Arg String_t] [''destination''],
     method_decl ''bumpfee'' False [Required_Arg String_t, Nullable_Arg Object_t] [''txid'',
        ''options''],
     method_decl ''createwallet'' False [Required_Arg String_t, Nullopt_Arg (Default_Boolean
        False), Nullopt_Arg (Default_Boolean False), Nullable_Arg String_t, Nullopt_Arg
        (Default_Boolean False), Nullopt_Arg (Default_Boolean True), Nullable_Arg Boolean_t,
        Nullopt_Arg (Default_Boolean False)] [''wallet_name'', ''disable_private_keys'',
        ''blank'', ''passphrase'', ''avoid_reuse'', ''descriptors'', ''load_on_startup'',
        ''external_signer''],
     method_decl ''createwalletdescriptor'' False [Required_Arg String_t, Nullable_Arg Object_t]
        [''type'', ''options''],
     method_decl ''encryptwallet'' False [Required_Arg String_t] [''passphrase''],
     method_decl ''exportwatchonlywallet'' False [Required_Arg String_t] [''destination''],
     method_decl ''getaddressesbylabel'' False [Required_Arg String_t] [''label''],
     method_decl ''getaddressinfo'' False [Required_Arg String_t] [''address''],
     method_decl ''getbalance'' False [Nullable_Arg String_t, Nullopt_Arg (Default_Number
        ''0.0''), Nullopt_Arg (Default_Boolean False), Nullopt_Arg (Default_Boolean True)]
        [''dummy'', ''minconf'', ''include_watchonly'', ''avoid_reuse''],
     method_decl ''getbalances'' False [] [],
     method_decl ''gethdkeys'' False [Nullable_Arg Object_t] [''options''],
     method_decl ''getnewaddress'' False [Nullopt_Arg (Default_String []), Nullable_Arg
        String_t] [''label'', ''address_type''],
     method_decl ''getrawchangeaddress'' False [Nullable_Arg String_t] [''address_type''],
     method_decl ''getreceivedbyaddress'' False [Required_Arg String_t, Nullopt_Arg
        (Default_Number ''1.0''), Nullopt_Arg (Default_Boolean False)] [''address'',
        ''minconf'', ''include_immature_coinbase''],
     method_decl ''getreceivedbylabel'' False [Required_Arg String_t, Nullopt_Arg
        (Default_Number ''1.0''), Nullopt_Arg (Default_Boolean False)] [''label'', ''minconf'',
        ''include_immature_coinbase''],
     method_decl ''gettransaction'' False [Required_Arg String_t, Nullopt_Arg (Default_Boolean
        False), Nullopt_Arg (Default_Boolean False)] [''txid'', ''include_watchonly'',
        ''verbose''],
     method_decl ''getwalletinfo'' False [] [],
     method_decl ''importdescriptors'' False [Required_Arg Array_t] [''requests''],
     method_decl ''importprunedfunds'' False [Required_Arg String_t, Required_Arg String_t]
        [''rawtransaction'', ''txoutproof''],
     method_decl ''keypoolrefill'' False [Nullable_Arg Number_t] [''newsize''],
     method_decl ''listaddressgroupings'' False [] [],
     method_decl ''listdescriptors'' False [Nullopt_Arg (Default_Boolean False)] [''private''],
     method_decl ''listlabels'' False [Nullable_Arg String_t] [''purpose''],
     method_decl ''listlockunspent'' False [] [],
     method_decl ''listreceivedbyaddress'' False [Nullopt_Arg (Default_Number ''1.0''),
        Nullopt_Arg (Default_Boolean False), Nullopt_Arg (Default_Boolean False), Nullable_Arg
        String_t, Nullopt_Arg (Default_Boolean False)] [''minconf'', ''include_empty'',
        ''include_watchonly'', ''address_filter'', ''include_immature_coinbase''],
     method_decl ''listreceivedbylabel'' False [Nullopt_Arg (Default_Number ''1.0''),
        Nullopt_Arg (Default_Boolean False), Nullopt_Arg (Default_Boolean False), Nullopt_Arg
        (Default_Boolean False)] [''minconf'', ''include_empty'', ''include_watchonly'',
        ''include_immature_coinbase''],
     method_decl ''listsinceblock'' False [Nullable_Arg String_t, Nullopt_Arg (Default_Number
        ''1.0''), Nullopt_Arg (Default_Boolean False), Nullopt_Arg (Default_Boolean True),
        Nullopt_Arg (Default_Boolean False), Nullable_Arg String_t] [''blockhash'',
        ''target_confirmations'', ''include_watchonly'', ''include_removed'',
        ''include_change'', ''label''],
     method_decl ''listtransactions'' False [Nullable_Arg String_t, Nullopt_Arg (Default_Number
        ''10.0''), Nullopt_Arg (Default_Number ''0.0''), Nullopt_Arg (Default_Boolean False)]
        [''label'', ''count'', ''skip'', ''include_watchonly''],
     method_decl ''listunspent'' False [Nullopt_Arg (Default_Number ''1.0''), Nullopt_Arg
        (Default_Number ''9999999.0''), Nullopt_Arg (Default_Empty Array_t), Nullopt_Arg
        (Default_Boolean True), Nullable_Arg Object_t] [''minconf'', ''maxconf'', ''addresses'',
        ''include_unsafe'', ''query_options''],
     method_decl ''listwalletdir'' False [] [],
     method_decl ''listwallets'' False [] [],
     method_decl ''loadwallet'' False [Required_Arg String_t, Nullable_Arg Boolean_t]
        [''filename'', ''load_on_startup''],
     method_decl ''lockunspent'' False [Required_Arg Boolean_t, Nullopt_Arg (Default_Empty
        Array_t), Nullopt_Arg (Default_Boolean False)] [''unlock'', ''transactions'',
        ''persistent''],
     method_decl ''migratewallet'' False [Nullable_Arg String_t, Nullable_Arg String_t,
        Nullopt_Arg (Default_Boolean True)] [''wallet_name'', ''passphrase'', ''load_wallet''],
     method_decl ''psbtbumpfee'' False [Required_Arg String_t, Nullable_Arg Object_t] [''txid'',
        ''options''],
     method_decl ''removeprunedfunds'' False [Required_Arg String_t] [''txid''],
     method_decl ''rescanblockchain'' False [Nullopt_Arg (Default_Number ''0.0''), Nullable_Arg
        Number_t] [''start_height'', ''stop_height''],
     method_decl ''restorewallet'' False [Required_Arg String_t, Required_Arg String_t,
        Nullable_Arg Boolean_t] [''wallet_name'', ''backup_file'', ''load_on_startup''],
     method_decl ''send'' False [Required_Arg Value_t, Nullable_Arg Number_t, Nullopt_Arg
        (Default_String ''unset''), Nullable_Arg Number_t, Nullable_Arg Object_t, Nullopt_Arg
        (Default_Number ''2.0'')] [''outputs'', ''conf_target'', ''estimate_mode'',
        ''fee_rate'', ''options'', ''version''],
     method_decl ''sendall'' False [Required_Arg Array_t, Nullable_Arg Number_t, Nullopt_Arg
        (Default_String ''unset''), Nullable_Arg Number_t, Nullable_Arg Object_t]
        [''recipients'', ''conf_target'', ''estimate_mode'', ''fee_rate'', ''options''],
     method_decl ''sendmany'' False [Nullopt_Arg (Default_String []), Nullopt_Arg (Default_Empty
        Object_t), Nullable_Arg Number_t, Nullable_Arg String_t, Nullable_Arg Array_t,
        Nullable_Arg Boolean_t, Nullable_Arg Number_t, Nullopt_Arg (Default_String ''unset''),
        Nullable_Arg Number_t, Nullopt_Arg (Default_Boolean False)] [''dummy'', ''amounts'',
        ''minconf'', ''comment'', ''subtractfeefrom'', ''replaceable'', ''conf_target'',
        ''estimate_mode'', ''fee_rate'', ''verbose''],
     method_decl ''sendtoaddress'' False [Required_Arg String_t, Required_Arg Number_t,
        Nullable_Arg String_t, Nullable_Arg String_t, Nullopt_Arg (Default_Boolean False),
        Nullable_Arg Boolean_t, Nullable_Arg Number_t, Nullopt_Arg (Default_String ''unset''),
        Nullopt_Arg (Default_Boolean True), Nullable_Arg Number_t, Nullopt_Arg (Default_Boolean
        False)] [''address'', ''amount'', ''comment'', ''comment_to'',
        ''subtractfeefromamount'', ''replaceable'', ''conf_target'', ''estimate_mode'',
        ''avoid_reuse'', ''fee_rate'', ''verbose''],
     method_decl ''setlabel'' False [Required_Arg String_t, Required_Arg String_t] [''address'',
        ''label''],
     method_decl ''setwalletflag'' False [Required_Arg String_t, Nullopt_Arg (Default_Boolean
        True)] [''flag'', ''value''],
     method_decl ''signmessage'' False [Required_Arg String_t, Required_Arg String_t]
        [''address'', ''message''],
     method_decl ''signrawtransactionwithwallet'' False [Required_Arg String_t, Nullable_Arg
        Array_t, Nullable_Arg String_t] [''hexstring'', ''prevtxs'', ''sighashtype''],
     method_decl ''simulaterawtransaction'' False [Nullable_Arg Array_t, Nullable_Arg Object_t]
        [''rawtxs'', ''options''],
     method_decl ''unloadwallet'' False [Nullable_Arg String_t, Nullable_Arg Boolean_t]
        [''wallet_name'', ''load_on_startup''],
     method_decl ''walletcreatefundedpsbt'' False [Nullable_Arg Array_t, Nullopt_Arg
        (Default_Empty Value_t), Nullopt_Arg (Default_Number ''0.0''), Nullable_Arg Object_t,
        Nullopt_Arg (Default_Boolean True), Nullopt_Arg (Default_Number ''2.0''), Nullopt_Arg
        (Default_Number ''2.0'')] [''inputs'', ''outputs'', ''locktime'', ''options'',
        ''bip32derivs'', ''version'', ''psbt_version''],
     method_decl ''walletdisplayaddress'' False [Required_Arg String_t] [''address''],
     method_decl ''walletlock'' False [] [],
     method_decl ''walletpassphrase'' False [Required_Arg String_t, Required_Arg Number_t]
        [''passphrase'', ''timeout''],
     method_decl ''walletpassphrasechange'' False [Required_Arg String_t, Required_Arg String_t]
        [''oldpassphrase'', ''newpassphrase''],
     method_decl ''walletprocesspsbt'' False [Required_Arg String_t, Nullopt_Arg
        (Default_Boolean True), Nullable_Arg String_t, Nullopt_Arg (Default_Boolean True),
        Nullopt_Arg (Default_Boolean True)] [''psbt'', ''sign'', ''sighashtype'',
        ''bip32derivs'', ''finalize'']]"

definition bitcoind_wallet_aliases :: "(string \<times> nat) list" where
  "bitcoind_wallet_aliases =
    [(''enumerate_signers'', 0), (''abandon_transaction'', 1), (''abort_rescan'', 2),
     (''add_hd_key'', 3), (''backup_wallet'', 4), (''bump_fee'', 5), (''create_wallet'', 6),
     (''create_wallet_descriptor'', 7), (''encrypt_wallet'', 8), (''export_watchonly_wallet'', 9),
     (''get_addresses_by_label'', 10), (''get_address_info'', 11), (''get_balance'', 12),
     (''get_balances'', 13), (''get_hd_keys'', 14), (''get_new_address'', 15),
     (''get_raw_change_address'', 16), (''get_received_by_address'', 17), (''get_received_by_label'',
     18), (''get_transaction'', 19), (''get_wallet_info'', 20), (''import_descriptors'', 21),
     (''import_pruned_funds'', 22), (''keypool_refill'', 23), (''list_address_groupings'', 24),
     (''list_descriptors'', 25), (''list_labels'', 26), (''list_lock_unspent'', 27),
     (''list_received_by_address'', 28), (''list_received_by_label'', 29), (''list_since_block'',
     30), (''list_transactions'', 31), (''list_unspent'', 32), (''list_wallet_dir'', 33),
     (''list_wallets'', 34), (''load_wallet'', 35), (''lock_unspent'', 36), (''migrate_wallet'', 37),
     (''psbt_bump_fee'', 38), (''remove_pruned_funds'', 39), (''rescan_block_chain'', 40),
     (''restore_wallet'', 41), (''send'', 42), (''send_all'', 43), (''send_many'', 44),
     (''send_to_address'', 45), (''set_label'', 46), (''set_wallet_flag'', 47), (''sign_message'',
     48), (''sign_raw_transaction_with_wallet'', 49), (''simulate_raw_transaction'', 50),
     (''unload_wallet'', 51), (''wallet_create_funded_psbt'', 52), (''wallet_display_address'', 53),
     (''wallet_lock'', 54), (''wallet_passphrase'', 55), (''wallet_passphrase_change'', 56),
     (''wallet_process_psbt'', 57)]"

definition btcd_methods :: rpc_interface where
  "btcd_methods =
    [method_decl ''authenticate'' True [Required_Arg String_t, Required_Arg String_t]
        [''username'', ''passphrase''],
     method_decl ''node'' True [Required_Arg String_t, Required_Arg String_t, Nullopt_Arg
        (Default_String [])] [''subcmd'', ''target'', ''connectsubcmd''],
     method_decl ''session'' True [] [],
     method_decl ''estimatefee'' True [Required_Arg Number_t] [''numblocks''],
     method_decl ''getbestblock'' True [] [],
     method_decl ''getblockchaininfo'' True [] [],
     method_decl ''getcfilter'' True [Required_Arg String_t, Required_Arg Number_t] [''hash'',
        ''filtertype''],
     method_decl ''getcfilterheader'' True [Required_Arg String_t, Required_Arg Number_t]
        [''hash'', ''filtertype''],
     method_decl ''getcurrentnet'' True [] [],
     method_decl ''getdifficulty'' True [] [],
     method_decl ''getheaders'' True [Required_Arg Array_t, Required_Arg String_t]
        [''blocklocators'', ''hashstop''],
     method_decl ''getinfo'' True [] [],
     method_decl ''getnettotals'' True [] [],
     method_decl ''searchrawtransactions'' True [Required_Arg String_t, Nullopt_Arg
        (Default_Number ''1.0''), Nullopt_Arg (Default_Number ''0.0''), Nullopt_Arg
        (Default_Number ''100.0''), Nullopt_Arg (Default_Number ''0.0''), Nullopt_Arg
        (Default_Boolean False), Nullopt_Arg (Default_Empty Array_t)] [''address'', ''verbose'',
        ''skip'', ''count'', ''vinextra'', ''reverse'', ''filteraddrs''],
     method_decl ''version'' True [] [],
     method_decl ''notifyblocks'' True [] [],
     method_decl ''stopnotifyblocks'' True [] [],
     method_decl ''notifynewtransactions'' True [Nullopt_Arg (Default_Boolean False)]
        [''verbose''],
     method_decl ''stopnotifynewtransactions'' True [] [],
     method_decl ''loadtxfilter'' True [Required_Arg Boolean_t, Required_Arg Value_t,
        Required_Arg Value_t] [''reload'', ''addresses'', ''outpoints''],
     method_decl ''rescanblocks'' True [Required_Arg Value_t] [''blockhashes''],
     method_decl ''notifyreceived'' True [Required_Arg Value_t] [''addresses''],
     method_decl ''stopnotifyreceived'' True [Required_Arg Value_t] [''addresses''],
     method_decl ''notifyspent'' True [Required_Arg Value_t] [''outpoints''],
     method_decl ''stopnotifyspent'' True [Required_Arg Value_t] [''outpoints''],
     method_decl ''rescan'' True [Required_Arg String_t, Required_Arg Value_t, Required_Arg
        Value_t, Nullopt_Arg (Default_String [])] [''beginblock'', ''addresses'', ''outpoints'',
        ''endblock'']]"

definition btcd_aliases :: "(string \<times> nat) list" where
  "btcd_aliases =
    [(''authenticate'', 0), (''node'', 1), (''session'', 2), (''estimate_fee'', 3),
     (''get_best_block'', 4), (''get_block_chain_info'', 5), (''get_cfilter'', 6),
     (''get_cfilter_header'', 7), (''get_current_net'', 8), (''get_difficulty'', 9),
     (''get_headers'', 10), (''get_info'', 11), (''get_net_totals'', 12),
     (''search_raw_transactions'', 13), (''version'', 14), (''notify_blocks'', 15),
     (''stop_notify_blocks'', 16), (''notify_new_transactions'', 17),
     (''stop_notify_new_transactions'', 18), (''load_tx_filter'', 19), (''rescan_blocks'', 20),
     (''notify_received'', 21), (''stop_notify_received'', 22), (''notify_spent'', 23),
     (''stop_notify_spent'', 24), (''rescan'', 25)]"

definition electrum_methods :: rpc_interface where
  "electrum_methods =
    [method_decl ''blockchain.numblocks.subscribe'' True [] [],
     method_decl ''blockchain.block.get_chunk'' True [Required_Arg Number_t] [''index''],
     method_decl ''blockchain.block.get_header'' True [Required_Arg Number_t] [''height''],
     method_decl ''blockchain.block.header'' True [Required_Arg Number_t, Optional_Arg
        (Default_Number ''0.0'')] [''height'', ''cp_height''],
     method_decl ''blockchain.block.headers'' True [Required_Arg Number_t, Required_Arg
        Number_t, Optional_Arg (Default_Number ''0.0'')] [''start_height'', ''count'',
        ''cp_height''],
     method_decl ''blockchain.headers.subscribe'' True [Optional_Arg (Default_Boolean False)]
        [''raw''],
     method_decl ''blockchain.estimatefee'' True [Required_Arg Number_t, Optional_Arg
        (Default_String [])] [''number'', ''mode''],
     method_decl ''blockchain.relayfee'' True [] [],
     method_decl ''blockchain.utxo.get_address'' True [Required_Arg String_t, Required_Arg
        Number_t] [''tx_hash'', ''index''],
     method_decl ''blockchain.outpoint.get_status'' True [Required_Arg String_t, Required_Arg
        Number_t, Optional_Arg (Default_String [])] [''tx_hash'', ''txout_idx'', ''spk_hint''],
     method_decl ''blockchain.outpoint.subscribe'' True [Required_Arg String_t, Required_Arg
        Number_t, Optional_Arg (Default_String [])] [''tx_hash'', ''txout_idx'', ''spk_hint''],
     method_decl ''blockchain.outpoint.unsubscribe'' True [Required_Arg String_t, Required_Arg
        Number_t] [''tx_hash'', ''txout_idx''],
     method_decl ''blockchain.address.get_balance'' True [Required_Arg String_t] [''address''],
     method_decl ''blockchain.address.get_history'' True [Required_Arg String_t] [''address''],
     method_decl ''blockchain.address.get_mempool'' True [Required_Arg String_t] [''address''],
     method_decl ''blockchain.address.listunspent'' True [Required_Arg String_t] [''address''],
     method_decl ''blockchain.address.subscribe'' True [Required_Arg String_t] [''address''],
     method_decl ''blockchain.scripthash.get_balance'' True [Required_Arg String_t]
        [''scripthash''],
     method_decl ''blockchain.scripthash.get_history'' True [Required_Arg String_t]
        [''scripthash''],
     method_decl ''blockchain.scripthash.get_mempool'' True [Required_Arg String_t]
        [''scripthash''],
     method_decl ''blockchain.scripthash.listunspent'' True [Required_Arg String_t]
        [''scripthash''],
     method_decl ''blockchain.scripthash.subscribe'' True [Required_Arg String_t]
        [''scripthash''],
     method_decl ''blockchain.scripthash.unsubscribe'' True [Required_Arg String_t]
        [''scripthash''],
     method_decl ''blockchain.scriptpubkey.get_balance'' True [Required_Arg String_t]
        [''scriptpubkey''],
     method_decl ''blockchain.scriptpubkey.get_history'' True [Required_Arg String_t]
        [''scriptpubkey''],
     method_decl ''blockchain.scriptpubkey.get_mempool'' True [Required_Arg String_t]
        [''scriptpubkey''],
     method_decl ''blockchain.scriptpubkey.listunspent'' True [Required_Arg String_t]
        [''scriptpubkey''],
     method_decl ''blockchain.scriptpubkey.subscribe'' True [Required_Arg String_t]
        [''scriptpubkey''],
     method_decl ''blockchain.scriptpubkey.unsubscribe'' True [Required_Arg String_t]
        [''scriptpubkey''],
     method_decl ''blockchain.transaction.broadcast'' True [Required_Arg String_t] [''raw_tx''],
     method_decl ''blockchain.transaction.broadcast_package'' True [Required_Arg Value_t,
        Optional_Arg (Default_Boolean False)] [''raw_txs'', ''verbose''],
     method_decl ''blockchain.transaction.get'' True [Required_Arg String_t, Optional_Arg
        (Default_Boolean False)] [''tx_hash'', ''verbose''],
     method_decl ''blockchain.transaction.get_merkle'' True [Required_Arg String_t, Required_Arg
        Number_t] [''tx_hash'', ''height''],
     method_decl ''blockchain.transaction.id_from_pos'' True [Required_Arg Number_t,
        Required_Arg Number_t, Optional_Arg (Default_Boolean False)] [''height'', ''tx_pos'',
        ''merkle''],
     method_decl ''blockchain.transaction.testmempoolaccept'' True [Required_Arg Value_t]
        [''raw_txs''],
     method_decl ''server.add_peer'' True [Required_Arg Object_t] [''features''],
     method_decl ''server.banner'' True [] [],
     method_decl ''server.donation_address'' True [] [],
     method_decl ''server.features'' True [] [],
     method_decl ''server.peers.subscribe'' True [] [],
     method_decl ''server.ping'' True [Optional_Arg (Default_Number ''0.0''), Optional_Arg
        (Default_String [])] [''pong_len'', ''data''],
     method_decl ''mempool.get_fee_histogram'' True [] [],
     method_decl ''mempool.get_info'' True [] [],
     method_decl ''mempool.recent'' True [] []]"

definition electrum_aliases :: "(string \<times> nat) list" where
  "electrum_aliases =
    [(''blockchain_number_of_blocks_subscribe'', 0), (''blockchain_block_get_chunk'', 1),
     (''blockchain_block_get_header'', 2), (''blockchain_block_header'', 3),
     (''blockchain_block_headers'', 4), (''blockchain_headers_subscribe'', 5),
     (''blockchain_estimate_fee'', 6), (''blockchain_relay_fee'', 7),
     (''blockchain_utxo_get_address'', 8), (''blockchain_outpoint_get_status'', 9),
     (''blockchain_outpoint_subscribe'', 10), (''blockchain_outpoint_unsubscribe'', 11),
     (''blockchain_address_get_balance'', 12), (''blockchain_address_get_history'', 13),
     (''blockchain_address_get_mempool'', 14), (''blockchain_address_list_unspent'', 15),
     (''blockchain_address_subscribe'', 16), (''blockchain_scripthash_get_balance'', 17),
     (''blockchain_scripthash_get_history'', 18), (''blockchain_scripthash_get_mempool'', 19),
     (''blockchain_scripthash_list_unspent'', 20), (''blockchain_scripthash_subscribe'', 21),
     (''blockchain_scripthash_unsubscribe'', 22), (''blockchain_scriptpubkey_get_balance'', 23),
     (''blockchain_scriptpubkey_get_history'', 24), (''blockchain_scriptpubkey_get_mempool'', 25),
     (''blockchain_scriptpubkey_list_unspent'', 26), (''blockchain_scriptpubkey_subscribe'', 27),
     (''blockchain_scriptpubkey_unsubscribe'', 28), (''blockchain_transaction_broadcast'', 29),
     (''blockchain_transaction_broadcast_package'', 30), (''blockchain_transaction_get'', 31),
     (''blockchain_transaction_get_merkle'', 32), (''blockchain_transaction_id_from_position'', 33),
     (''blockchain_transaction_testmempoolaccept'', 34), (''server_add_peer'', 35),
     (''server_banner'', 36), (''server_donation_address'', 37), (''server_features'', 38),
     (''server_peers_subscribe'', 39), (''server_ping'', 40), (''mempool_get_fee_histogram'', 41),
     (''mempool_get_info'', 42), (''mempool_recent'', 43)]"

definition electrum_handshake_methods :: rpc_interface where
  "electrum_handshake_methods =
    [method_decl ''server.version'' True [Optional_Arg (Default_String []), Optional_Arg
        (Default_Empty Value_t)] [''client_name'', ''protocol_version'']]"

definition sparrow_methods :: rpc_interface where
  "sparrow_methods =
    [method_decl ''blockchain.block.stats'' True [Required_Arg Number_t] [''height''],
     method_decl ''blockchain.silentpayments.subscribe'' True [Required_Arg String_t,
        Required_Arg String_t, Optional_Arg (Default_Empty Value_t), Optional_Arg (Default_Empty
        Array_t)] [''scan_private_key'', ''spend_public_key'', ''start'', ''labels''],
     method_decl ''blockchain.silentpayments.unsubscribe'' True [Required_Arg String_t,
        Required_Arg String_t] [''scan_private_key'', ''spend_public_key'']]"

definition sparrow_aliases :: "(string \<times> nat) list" where
  "sparrow_aliases =
    [(''blockchain_block_stats'', 0), (''blockchain_silent_payments_subscribe'', 1),
     (''blockchain_silent_payments_unsubscribe'', 2)]"

definition stratum_v1_methods :: rpc_interface where
  "stratum_v1_methods =
    [method_decl ''mining.subscribe'' True [Optional_Arg (Default_String []), Optional_Arg
        (Default_Number ''0.0'')] [''user_agent'', ''extranonce1_size''],
     method_decl ''mining.authorize'' True [Required_Arg String_t, Required_Arg String_t]
        [''username'', ''password''],
     method_decl ''mining.submit'' True [Required_Arg String_t, Required_Arg String_t,
        Required_Arg String_t, Required_Arg Number_t, Required_Arg String_t] [''worker_name'',
        ''job_id'', ''extranonce2'', ''ntime'', ''nonce''],
     method_decl ''mining.extranonce.subscribe'' True [] [],
     method_decl ''mining.extranonce.unsubscribe'' True [Required_Arg Number_t] [''id''],
     method_decl ''mining.configure'' True [Required_Arg Object_t] [''extensions''],
     method_decl ''mining.set_difficulty'' True [Optional_Arg (Default_Number ''1.0'')]
        [''difficulty''],
     method_decl ''mining.notify'' True [Required_Arg String_t, Required_Arg String_t,
        Required_Arg String_t, Required_Arg String_t, Required_Arg Array_t, Required_Arg
        Number_t, Required_Arg Number_t, Required_Arg Number_t, Required_Arg Boolean_t,
        Required_Arg Boolean_t, Required_Arg Boolean_t] [''job_id'', ''prevhash'', ''coinb1'',
        ''coinb2'', ''merkle_branch'', ''version'', ''nbits'', ''ntime'', ''clean_jobs'',
        ''hash1'', ''hash2''],
     method_decl ''client.reconnect'' True [Required_Arg String_t, Required_Arg Number_t,
        Required_Arg Number_t] [''url'', ''port'', ''id''],
     method_decl ''client.hello'' True [Required_Arg Object_t] [''protocol''],
     method_decl ''client.rejected'' True [Required_Arg String_t, Required_Arg String_t]
        [''job_id'', ''reject_reason'']]"

definition stratum_v1_aliases :: "(string \<times> nat) list" where
  "stratum_v1_aliases =
    [(''mining_subscribe'', 0), (''mining_authorize'', 1), (''mining_submit'', 2),
     (''mining_extranonce_subscribe'', 3), (''mining_extranonce_unsubscribe'', 4),
     (''mining_configure'', 5), (''mining_set_difficulty'', 6), (''mining_notify'', 7),
     (''client_reconnect'', 8), (''client_hello'', 9), (''client_rejected'', 10)]"

definition stratum_v2_methods :: rpc_interface where
  "stratum_v2_methods =
    [method_decl ''setup_connection'' True [Required_Arg Number_t, Required_Arg Number_t,
        Required_Arg Number_t, Required_Arg Number_t, Required_Arg String_t, Required_Arg
        String_t, Required_Arg String_t] [''min_version'', ''max_version'', ''flags'',
        ''endpoint_port'', ''endpoint_host'', ''vendor'', ''user_agent''],
     method_decl ''setup_connection_success'' True [Required_Arg Number_t, Required_Arg
        Number_t] [''used_version'', ''flags''],
     method_decl ''setup_connection_error'' True [Required_Arg String_t] [''code''],
     method_decl ''open_standard_mining_channel'' True [Required_Arg String_t, Required_Arg
        Number_t, Required_Arg String_t, Required_Arg Number_t] [''user_identity'',
        ''nominal_hash_rate'', ''max_target'', ''min_extranonce_size''],
     method_decl ''open_standard_mining_channel_success'' True [Required_Arg Number_t,
        Required_Arg String_t, Required_Arg String_t, Required_Arg Number_t] [''channel_id'',
        ''target'', ''extranonce_prefix'', ''extranonce_size''],
     method_decl ''open_standard_mining_channel_error'' True [Required_Arg String_t] [''code''],
     method_decl ''open_extended_mining_channel'' True [Required_Arg String_t, Required_Arg
        Number_t, Required_Arg String_t, Required_Arg Number_t] [''user_identity'',
        ''nominal_hash_rate'', ''max_target'', ''min_extranonce_size''],
     method_decl ''open_extended_mining_channel_success'' True [Required_Arg Number_t,
        Required_Arg String_t, Required_Arg String_t, Required_Arg Number_t, Required_Arg
        Number_t, Required_Arg Number_t] [''channel_id'', ''target'', ''extranonce_prefix'',
        ''extranonce_size'', ''max_coinbase_size'', ''coinbase_output_max_additional_size''],
     method_decl ''open_extended_mining_channel_error'' True [Required_Arg String_t] [''code''],
     method_decl ''update_channel'' True [Required_Arg Number_t, Required_Arg Number_t,
        Optional_Arg (Default_String [])] [''channel_id'', ''nominal_hash_rate'',
        ''max_target''],
     method_decl ''update_channel_error'' True [Required_Arg Number_t, Required_Arg String_t]
        [''channel_id'', ''code''],
     method_decl ''close_channel'' True [Required_Arg Number_t, Optional_Arg (Default_String
        [])] [''channel_id'', ''reason''],
     method_decl ''set_target'' True [Required_Arg Number_t, Required_Arg String_t]
        [''channel_id'', ''maximum_target''],
     method_decl ''new_mining_job'' True [Required_Arg Number_t, Required_Arg Boolean_t,
        Required_Arg Number_t, Required_Arg String_t, Required_Arg String_t, Required_Arg
        Number_t] [''job_id'', ''future_job'', ''version'', ''prev_hash'', ''merkle_root'',
        ''ntime_offset''],
     method_decl ''set_new_prev_hash'' True [Required_Arg Number_t, Required_Arg Number_t,
        Required_Arg String_t, Required_Arg Number_t, Required_Arg Number_t] [''channel_id'',
        ''job_id'', ''prev_hash'', ''min_ntime'', ''nbits''],
     method_decl ''new_extended_mining_job'' True [Required_Arg Number_t, Required_Arg
        Boolean_t, Required_Arg Number_t, Required_Arg String_t, Required_Arg String_t,
        Required_Arg Array_t] [''job_id'', ''future_job'', ''version'', ''coinbase_prefix'',
        ''coinbase_suffix'', ''merkle_path''],
     method_decl ''set_custom_mining_job'' True [Required_Arg Number_t, Required_Arg Boolean_t,
        Required_Arg Number_t, Required_Arg String_t, Required_Arg Number_t, Required_Arg
        Number_t, Required_Arg Array_t, Required_Arg Array_t] [''channel_id'', ''future_job'',
        ''job_id'', ''prev_hash'', ''version'', ''ntime'', ''merkle_branch'', ''transactions''],
     method_decl ''set_custom_mining_job_success'' True [Required_Arg Number_t] [''job_id''],
     method_decl ''set_custom_mining_job_error'' True [Required_Arg Number_t, Required_Arg
        String_t] [''job_id'', ''code''],
     method_decl ''submit_shares'' True [Required_Arg Number_t, Required_Arg Number_t,
        Required_Arg Number_t, Required_Arg Number_t, Required_Arg Number_t, Required_Arg
        Number_t] [''channel_id'', ''sequence_number'', ''job_id'', ''nonce'', ''ntime'',
        ''version''],
     method_decl ''submit_shares_success'' True [Required_Arg Number_t, Optional_Arg
        (Default_String [])] [''sequence_number'', ''new_target''],
     method_decl ''submit_shares_error'' True [Required_Arg Number_t, Required_Arg String_t]
        [''sequence_number'', ''code''],
     method_decl ''reconnect'' True [Required_Arg String_t, Required_Arg Number_t]
        [''new_host'', ''new_port'']]"

definition stratum_v2_aliases :: "(string \<times> nat) list" where
  "stratum_v2_aliases =
    [(''setup_connection'', 0), (''setup_connection_success'', 1), (''setup_connection_error'', 2),
     (''open_standard_mining_channel'', 3), (''open_standard_mining_channel_success'', 4),
     (''open_standard_mining_channel_error'', 5), (''open_extended_mining_channel'', 6),
     (''open_extended_mining_channel_success'', 7), (''open_extended_mining_channel_error'', 8),
     (''update_channel'', 9), (''update_channel_error'', 10), (''close_channel'', 11),
     (''set_target'', 12), (''new_mining_job'', 13), (''set_new_prev_hash'', 14),
     (''new_extended_mining_job'', 15), (''set_custom_mining_job'', 16),
     (''set_custom_mining_job_success'', 17), (''set_custom_mining_job_error'', 18),
     (''submit_shares'', 19), (''submit_shares_success'', 20), (''submit_shares_error'', 21),
     (''reconnect'', 22)]"


subsection \<open>Sessions\<close>

text \<open>The interfaces of the bitcoind subgroups, in the order in which the sessions attach them.\<close>

definition bitcoind_subgroups :: "rpc_interface list" where
  "bitcoind_subgroups =
    [bitcoind_blockchain_methods, bitcoind_control_methods, bitcoind_mining_methods,
     bitcoind_network_methods, bitcoind_notifications_methods, bitcoind_test_methods,
     bitcoind_transaction_methods, bitcoind_utility_methods, bitcoind_wallet_methods]"

definition method_names :: "rpc_interface \<Rightarrow> string list" where
  "method_names = map method_name"

subsection \<open>Well-formedness\<close>

text \<open>Method names are compared without the separators of either spelling.\<close>

definition squash :: "string \<Rightarrow> string" where
  "squash t = filter (\<lambda>c. c \<noteq> CHR ''_'' \<and> c \<noteq> CHR ''.'') t"

definition is_required :: "method_arg \<Rightarrow> bool" where
  "is_required a = (case a of Required_Arg _ \<Rightarrow> True | _ \<Rightarrow> False)"

definition is_defaulted :: "method_arg \<Rightarrow> bool" where
  "is_defaulted a = (case a of Optional_Arg _ \<Rightarrow> True | Nullopt_Arg _ \<Rightarrow> True | _ \<Rightarrow> False)"

definition wf_method :: "method_t \<Rightarrow> bool" where
  "wf_method m \<longleftrightarrow> length (method_args m) = length (arg_names m) \<and> distinct (arg_names m) \<and>
     list_all (\<lambda>a. \<not> is_required a) (dropWhile (\<lambda>a. \<not> is_defaulted a) (method_args m))"

definition wf_interface :: "rpc_interface \<Rightarrow> bool" where
  "wf_interface I \<longleftrightarrow> distinct (method_names I) \<and> list_all wf_method I"

text \<open>Every method has one alias, its position, spelled as the method but for the listed exceptions.\<close>

definition wf_aliases :: "(string \<times> string) list \<Rightarrow> rpc_interface \<Rightarrow> (string \<times> nat) list \<Rightarrow> bool" where
  "wf_aliases renamed I as \<longleftrightarrow> map snd as = [0..<length I] \<and>
     list_all2 (\<lambda>a n. squash a = squash n \<or> (a, n) \<in> set renamed) (map fst as) (method_names I)"

definition electrum_renamed :: "(string \<times> string) list" where
  "electrum_renamed =
    [(''blockchain_number_of_blocks_subscribe'', ''blockchain.numblocks.subscribe''),
     (''blockchain_transaction_id_from_position'', ''blockchain.transaction.id_from_pos'')]"

lemma wf_bitcoind_subgroups: "list_all wf_interface bitcoind_subgroups"
  by code_simp

lemma wf_services:
  "wf_interface btcd_methods" "wf_interface electrum_methods" "wf_interface sparrow_methods"
  "wf_interface stratum_v1_methods" "wf_interface stratum_v2_methods"
  by code_simp+

lemma wf_bitcoind_aliases:
  "list_all2 (wf_aliases []) bitcoind_subgroups
    [bitcoind_blockchain_aliases, bitcoind_control_aliases, bitcoind_mining_aliases,
     bitcoind_network_aliases, bitcoind_notifications_aliases, bitcoind_test_aliases,
     bitcoind_transaction_aliases, bitcoind_utility_aliases, bitcoind_wallet_aliases]"
  by code_simp

lemma wf_service_aliases:
  "wf_aliases [] btcd_methods btcd_aliases" "wf_aliases electrum_renamed electrum_methods electrum_aliases"
  "wf_aliases [] sparrow_methods sparrow_aliases"
  "wf_aliases [] stratum_v1_methods stratum_v1_aliases" "wf_aliases [] stratum_v2_methods stratum_v2_aliases"
  by code_simp+

text \<open>
  The published interfaces are well formed: in each, the method names are distinct, each method
  names every argument once and puts no required argument after a defaulted one, and the
  hand-written positions under which the handlers are subscribed number the methods in order and
  are spelled as the method they stand for (but for two abbreviations of electrum), so that no
  handler is wired to the method of a neighbour.
\<close>

theorem interfaces_well_formed:
  "list_all wf_interface (bitcoind_subgroups @ [btcd_methods, electrum_methods, sparrow_methods,
     stratum_v1_methods, stratum_v2_methods]) \<and>
   list_all2 (wf_aliases []) (bitcoind_subgroups @ [btcd_methods, sparrow_methods,
       stratum_v1_methods, stratum_v2_methods])
     [bitcoind_blockchain_aliases, bitcoind_control_aliases, bitcoind_mining_aliases,
      bitcoind_network_aliases, bitcoind_notifications_aliases, bitcoind_test_aliases,
      bitcoind_transaction_aliases, bitcoind_utility_aliases, bitcoind_wallet_aliases,
      btcd_aliases, sparrow_aliases, stratum_v1_aliases, stratum_v2_aliases] \<and>
   wf_aliases electrum_renamed electrum_methods electrum_aliases"
  using wf_bitcoind_subgroups wf_bitcoind_aliases unfolding bitcoind_subgroups_def
  by (simp add: wf_services wf_service_aliases)

end
