(* ===== verification/Rpc_Dispatch.thy ===== *)
theory Rpc_Dispatch
  imports Interfaces Errors
begin

text \<open>
  Dispatch of a json-rpc request through the protocols attached to one channel:
  \<open>protocol_bitcoind_dispatch.cpp\<close> (the subgroups), \<open>protocol_btcd.cpp\<close> (attached first by its session),
  \<open>protocol_bitcoind.cpp\<close> (the terminal responder, attached last), and \<open>protocol_rpc.hpp\<close> with the
  unclaimed handlers of electrum and sparrow. Each attached protocol is offered the request in the
  order of attachment; the channel latch \<open>claimed\<close> tells those that follow.

  The checks of the network library (host, origin, credential, the body of the request) are the
  fields of \<open>gate\<close>, as is what a dispatcher contains and the code of its notification.
\<close>

subsection \<open>State\<close>

record gate =
  allowed_host :: bool
  allowed_origin :: bool
  rpc_body :: "request_t option"
  permitted :: "string \<Rightarrow> bool"
  authorized :: bool
  contains :: "rpc_interface \<Rightarrow> string \<Rightarrow> bool"
  notify_code :: "rpc_interface \<Rightarrow> request_t \<Rightarrow> code"
  unauthorized_code :: code
  invalid_argument_code :: code

datatype answer =
    Dispatched rpc_interface request_t
  | Rpc_Error code
  | Bad_Host | Forbidden | Bad_Request
  | Stopped code

text \<open>The latch of the channel, whether it is stopped, and what was done for the request so far.\<close>

record dispatching =
  claimed :: bool
  channel_stopped :: bool
  answers :: "answer list"

definition fresh_request :: dispatching where
  "fresh_request = \<lparr>claimed = False, channel_stopped = False, answers = []\<rparr>"

definition answer_with :: "answer \<Rightarrow> dispatching \<Rightarrow> dispatching" where
  "answer_with a d = d\<lparr>answers := answers d @ [a]\<rparr>"

definition stop_with :: "code \<Rightarrow> dispatching \<Rightarrow> dispatching" where
  "stop_with ec d = d\<lparr>answers := answers d @ [Stopped ec], channel_stopped := True\<rparr>"

definition claim :: "dispatching \<Rightarrow> dispatching" where
  "claim d = d\<lparr>claimed := True\<rparr>"

text \<open>\<open>if (const auto code = dispatcher.notify(message)) stop(code)\<close>.\<close>

definition notify_dispatcher :: "gate \<Rightarrow> rpc_interface \<Rightarrow> request_t \<Rightarrow> dispatching \<Rightarrow> dispatching" where
  "notify_dispatcher g I q d =
     (let d = answer_with (Dispatched I q) d; ec = notify_code g I q in
      if is_error ec then stop_with ec d else d)"

definition authenticate_name :: string where
  "authenticate_name = ''authenticate''"

abbreviation forbidden_params :: code where
  "forbidden_params \<equiv> code_of btcd_category (enumerator btcd_errors ''invalid_params'')"

abbreviation unknown_method :: code where
  "unknown_method \<equiv> code_of bitcoind_category (enumerator bitcoind_errors ''method_not_found'')"

subsection \<open>The protocols: post\<close>

definition btcd_post :: "gate \<Rightarrow> dispatching \<Rightarrow> dispatching" where
  "btcd_post g d =
     (if channel_stopped d then d
      else if \<not> allowed_host g \<or> \<not> allowed_origin g then d
      else case rpc_body g of
          None \<Rightarrow> d
        | Some q \<Rightarrow>
            if rpc_method q = authenticate_name then d
            else if \<not> contains g btcd_methods (rpc_method q) then d
            else
              let d = claim d in
              if \<not> permitted g (rpc_method q) then answer_with (Rpc_Error forbidden_params) d
              else notify_dispatcher g btcd_methods q d)"

definition subgroup_post :: "gate \<Rightarrow> rpc_interface \<Rightarrow> dispatching \<Rightarrow> dispatching" where
  "subgroup_post g I d =
     (if channel_stopped d then d
      else if claimed d then d
      else if \<not> allowed_host g \<or> \<not> allowed_origin g then d
      else case rpc_body g of
          None \<Rightarrow> d
        | Some q \<Rightarrow>
            if \<not> contains g I (rpc_method q) then d
            else
              let d = claim d in
              if \<not> permitted g (rpc_method q) then answer_with Forbidden d
              else notify_dispatcher g I q d)"

definition terminal_post :: "gate \<Rightarrow> dispatching \<Rightarrow> dispatching" where
  "terminal_post g d =
     (if channel_stopped d then d
      else if claimed d then d
      else if \<not> allowed_host g then answer_with Bad_Host d
      else if \<not> allowed_origin g then answer_with Forbidden d
      else case rpc_body g of
          None \<Rightarrow> answer_with Bad_Request d
        | Some q \<Rightarrow>
            if \<not> permitted g (rpc_method q) then answer_with Forbidden d
            else answer_with (Rpc_Error unknown_method) d)"

subsection \<open>The protocols: websocket frames\<close>

definition btcd_frame :: "gate \<Rightarrow> dispatching \<Rightarrow> dispatching" where
  "btcd_frame g d =
     (if channel_stopped d then d
      else case rpc_body g of
          None \<Rightarrow> d
        | Some q \<Rightarrow>
            let authenticate = (rpc_method q = authenticate_name) in
            if authenticate = authorized g then
              answer_with (Rpc_Error (unauthorized_code g)) (claim d)
            else if \<not> contains g btcd_methods (rpc_method q) then d
            else
              let d = claim d in
              if \<not> authenticate \<and> \<not> permitted g (rpc_method q)
              then answer_with (Rpc_Error forbidden_params) d
              else notify_dispatcher g btcd_methods q d)"

definition subgroup_frame :: "gate \<Rightarrow> rpc_interface \<Rightarrow> dispatching \<Rightarrow> dispatching" where
  "subgroup_frame g I d =
     (if channel_stopped d then d
      else if claimed d then d
      else case rpc_body g of
          None \<Rightarrow> d
        | Some q \<Rightarrow>
            if \<not> authorized g then d
            else if \<not> contains g I (rpc_method q) then d
            else
              let d = claim d in
              if \<not> permitted g (rpc_method q) then stop_with (unauthorized_code g) d
              else notify_dispatcher g I q d)"

definition terminal_frame :: "gate \<Rightarrow> dispatching \<Rightarrow> dispatching" where
  "terminal_frame g d =
     (if channel_stopped d then d
      else if claimed d then d
      else if \<not> authorized g then stop_with (unauthorized_code g) d
      else case rpc_body g of
          None \<Rightarrow> stop_with (invalid_argument_code g) d
        | Some q \<Rightarrow>
            if \<not> permitted g (rpc_method q) then stop_with (unauthorized_code g) d
            else answer_with (Rpc_Error unknown_method) d)"

subsection \<open>Sessions\<close>

text \<open>
  The protocols of \<open>session_bitcoind\<close> and \<open>session_btcd\<close> that are offered a post or a frame, in
  the order of attachment (the rest protocol of the former subscribes to get only).
\<close>

definition session_bitcoind_post :: "gate \<Rightarrow> dispatching \<Rightarrow> dispatching" where
  "session_bitcoind_post g d = terminal_post g (fold (subgroup_post g) bitcoind_subgroups d)"

definition session_btcd_post :: "gate \<Rightarrow> dispatching \<Rightarrow> dispatching" where
  "session_btcd_post g d = terminal_post g (fold (subgroup_post g) bitcoind_subgroups (btcd_post g d))"

definition session_bitcoind_frame :: "gate \<Rightarrow> dispatching \<Rightarrow> dispatching" where
  "session_bitcoind_frame g d = terminal_frame g (fold (subgroup_frame g) bitcoind_subgroups d)"

definition session_btcd_frame :: "gate \<Rightarrow> dispatching \<Rightarrow> dispatching" where
  "session_btcd_frame g d = terminal_frame g (fold (subgroup_frame g) bitcoind_subgroups (btcd_frame g d))"

subsection \<open>The universal rpc protocol\<close>

text \<open>The unclaimed handlers: the handshake leaves the request, electrum answers, sparrow dispatches.\<close>

abbreviation electrum_unknown :: code where
  "electrum_unknown \<equiv> code_of electrum_category (enumerator electrum_errors ''method_not_found'')"

definition electrum_unclaimed :: "gate \<Rightarrow> request_t \<Rightarrow> dispatching \<Rightarrow> dispatching" where
  "electrum_unclaimed g q d = answer_with (Rpc_Error electrum_unknown) d"

definition sparrow_unclaimed :: "gate \<Rightarrow> request_t \<Rightarrow> dispatching \<Rightarrow> dispatching" where
  "sparrow_unclaimed g q d =
     (if \<not> contains g sparrow_methods (rpc_method q) then electrum_unclaimed g q d
      else notify_dispatcher g sparrow_methods q d)"

definition rpc_post ::
  "gate \<Rightarrow> rpc_interface \<Rightarrow> (gate \<Rightarrow> request_t \<Rightarrow> dispatching \<Rightarrow> dispatching) \<Rightarrow> dispatching \<Rightarrow> dispatching" where
  "rpc_post g I unclaimed d =
     (if channel_stopped d then d
      else if claimed d then d
      else if \<not> allowed_host g then answer_with Bad_Host (claim d)
      else if \<not> allowed_origin g then answer_with Forbidden (claim d)
      else case rpc_body g of
          None \<Rightarrow> answer_with Bad_Request (claim d)
        | Some q \<Rightarrow>
            if \<not> contains g I (rpc_method q) then unclaimed g q d
            else
              let d = claim d in
              if \<not> permitted g (rpc_method q) then answer_with Forbidden d
              else notify_dispatcher g I q d)"

definition rpc_frame ::
  "gate \<Rightarrow> rpc_interface \<Rightarrow> (gate \<Rightarrow> request_t \<Rightarrow> dispatching \<Rightarrow> dispatching) \<Rightarrow> dispatching \<Rightarrow> dispatching" where
  "rpc_frame g I unclaimed d =
     (if channel_stopped d then d
      else if claimed d then d
      else if \<not> authorized g then stop_with (unauthorized_code g) d
      else case rpc_body g of
          None \<Rightarrow> stop_with (invalid_argument_code g) d
        | Some q \<Rightarrow>
            if \<not> contains g I (rpc_method q) then unclaimed g q d
            else
              let d = claim d in
              if \<not> permitted g (rpc_method q) then stop_with (unauthorized_code g) d
              else notify_dispatcher g I q d)"

text \<open>After the handshake, which leaves methods other than its own to the service.\<close>

definition session_electrum_post :: "gate \<Rightarrow> dispatching \<Rightarrow> dispatching" where
  "session_electrum_post g d =
     rpc_post g electrum_methods electrum_unclaimed
       (rpc_post g electrum_handshake_methods (\<lambda>g q d. d) d)"

definition session_electrum_frame :: "gate \<Rightarrow> dispatching \<Rightarrow> dispatching" where
  "session_electrum_frame g d =
     rpc_frame g electrum_methods electrum_unclaimed
       (rpc_frame g electrum_handshake_methods (\<lambda>g q d. d) d)"

definition session_sparrow_post :: "gate \<Rightarrow> dispatching \<Rightarrow> dispatching" where
  "session_sparrow_post g d =
     rpc_post g electrum_methods sparrow_unclaimed
       (rpc_post g electrum_handshake_methods (\<lambda>g q d. d) d)"

definition session_sparrow_frame :: "gate \<Rightarrow> dispatching \<Rightarrow> dispatching" where
  "session_sparrow_frame g d =
     rpc_frame g electrum_methods sparrow_unclaimed
       (rpc_frame g electrum_handshake_methods (\<lambda>g q d. d) d)"

text \<open>The json-rpc services by name.\<close>

datatype service = Bitcoind | Btcd | Electrum | Sparrow

definition post_session :: "service \<Rightarrow> gate \<Rightarrow> dispatching \<Rightarrow> dispatching" where
  "post_session v = (case v of Bitcoind \<Rightarrow> session_bitcoind_post | Btcd \<Rightarrow> session_btcd_post
     | Electrum \<Rightarrow> session_electrum_post | Sparrow \<Rightarrow> session_sparrow_post)"

definition frame_session :: "service \<Rightarrow> gate \<Rightarrow> dispatching \<Rightarrow> dispatching" where
  "frame_session v = (case v of Bitcoind \<Rightarrow> session_bitcoind_frame | Btcd \<Rightarrow> session_btcd_frame
     | Electrum \<Rightarrow> session_electrum_frame | Sparrow \<Rightarrow> session_sparrow_frame)"

subsection \<open>Specification\<close>

text \<open>The protocol that owns a method: the first attached one whose interface contains it.\<close>

definition owner :: "gate \<Rightarrow> rpc_interface list \<Rightarrow> request_t \<Rightarrow> rpc_interface option" where
  "owner g Is q = List.find (\<lambda>I. contains g I (rpc_method q)) Is"

text \<open>What dispatching a request to an interface amounts to.\<close>

definition dispatched :: "gate \<Rightarrow> rpc_interface \<Rightarrow> request_t \<Rightarrow> answer list" where
  "dispatched g I q =
     Dispatched I q # (if is_error (notify_code g I q) then [Stopped (notify_code g I q)] else [])"

text \<open>A post on a bitcoind or btcd channel: one answer, by the first check that fails.\<close>

definition post_answer :: "gate \<Rightarrow> bool \<Rightarrow> answer list" where
  "post_answer g btcd =
     (if \<not> allowed_host g then [Bad_Host]
      else if \<not> allowed_origin g then [Forbidden]
      else case rpc_body g of
          None \<Rightarrow> [Bad_Request]
        | Some q \<Rightarrow>
            let method = rpc_method q;
                first = (if btcd \<and> method \<noteq> authenticate_name then [btcd_methods] else []) in
            (case owner g (first @ bitcoind_subgroups) q of
               None \<Rightarrow> if permitted g method then [Rpc_Error unknown_method] else [Forbidden]
             | Some I \<Rightarrow>
                 if permitted g method then dispatched g I q
                 else if first \<noteq> [] \<and> contains g btcd_methods method then [Rpc_Error forbidden_params]
                 else [Forbidden]))"

definition frame_answer :: "gate \<Rightarrow> bool \<Rightarrow> answer list" where
  "frame_answer g btcd =
     (case rpc_body g of
        None \<Rightarrow> [Stopped (if authorized g then invalid_argument_code g else unauthorized_code g)]
      | Some q \<Rightarrow>
          let method = rpc_method q; authenticate = (method = authenticate_name) in
          if btcd \<and> authenticate = authorized g then [Rpc_Error (unauthorized_code g)]
          else if btcd \<and> contains g btcd_methods method then
            (if authenticate \<or> permitted g method then dispatched g btcd_methods q
             else [Rpc_Error forbidden_params])
          else if \<not> authorized g \<or> \<not> permitted g method then [Stopped (unauthorized_code g)]
          else (case owner g bitcoind_subgroups q of
              None \<Rightarrow> [Rpc_Error unknown_method]
            | Some I \<Rightarrow> dispatched g I q))"

subsection \<open>The claim latch\<close>

text \<open>
  The contract of protocols that share a channel: a protocol leaves a request that is claimed or
  whose channel is stopped, leaves one it does not own, and claims one it owns. A list of such
  protocols behaves as the first owner alone.
\<close>

locale latched =
  fixes step :: "'i \<Rightarrow> dispatching \<Rightarrow> dispatching" and owns :: "'i \<Rightarrow> bool"
    and effect :: "'i \<Rightarrow> dispatching \<Rightarrow> dispatching"
  assumes skip: "claimed d \<or> channel_stopped d \<Longrightarrow> step I d = d"
    and pass: "\<not> owns I \<Longrightarrow> step I d = d"
    and take: "owns I \<Longrightarrow> \<not> claimed d \<Longrightarrow> \<not> channel_stopped d \<Longrightarrow> step I d = effect I d"
    and claims: "claimed (effect I d)"
begin

lemma fold_skip: "claimed d \<or> channel_stopped d \<Longrightarrow> fold step Is d = d"
  by (induction Is) (simp_all add: skip)

lemma first_owner:
  assumes "\<not> claimed d" "\<not> channel_stopped d"
  shows "fold step Is d = (case List.find owns Is of None \<Rightarrow> d | Some I \<Rightarrow> effect I d)"
proof (induction Is)
  case (Cons I Is)
  then show ?case using assms by (cases "owns I") (simp_all add: pass take claims fold_skip)
qed simp

end

lemma dispatching_simps [simp]:
  "claimed (claim d)" "channel_stopped (claim d) = channel_stopped d" "answers (claim d) = answers d"
  "claimed (answer_with a d) = claimed d" "channel_stopped (answer_with a d) = channel_stopped d"
  "answers (answer_with a d) = answers d @ [a]"
  "claimed (stop_with ec d) = claimed d" "channel_stopped (stop_with ec d)"
  "answers (stop_with ec d) = answers d @ [Stopped ec]"
  by (simp_all add: claim_def answer_with_def stop_with_def)

lemma notify_dispatcher_simps [simp]:
  "claimed (notify_dispatcher g I q d) = claimed d"
  "answers (notify_dispatcher g I q d) = answers d @ dispatched g I q"
  by (simp_all add: notify_dispatcher_def dispatched_def Let_def)

definition takes_post :: "gate \<Rightarrow> rpc_interface \<Rightarrow> bool" where
  "takes_post g I \<longleftrightarrow> allowed_host g \<and> allowed_origin g \<and>
     (\<exists>q. rpc_body g = Some q \<and> contains g I (rpc_method q))"

definition takes_frame :: "gate \<Rightarrow> rpc_interface \<Rightarrow> bool" where
  "takes_frame g I \<longleftrightarrow> authorized g \<and> (\<exists>q. rpc_body g = Some q \<and> contains g I (rpc_method q))"

definition post_effect :: "gate \<Rightarrow> rpc_interface \<Rightarrow> dispatching \<Rightarrow> dispatching" where
  "post_effect g I d =
     (let q = the (rpc_body g) in
      if permitted g (rpc_method q) then notify_dispatcher g I q (claim d) else answer_with Forbidden (claim d))"

definition frame_effect :: "gate \<Rightarrow> rpc_interface \<Rightarrow> dispatching \<Rightarrow> dispatching" where
  "frame_effect g I d =
     (let q = the (rpc_body g) in
      if permitted g (rpc_method q) then notify_dispatcher g I q (claim d)
      else stop_with (unauthorized_code g) (claim d))"

interpretation post_latch: latched "subgroup_post g" "takes_post g" "post_effect g" for g
  by unfold_locales
    (auto simp: subgroup_post_def takes_post_def post_effect_def Let_def split: option.split)

interpretation frame_latch: latched "subgroup_frame g" "takes_frame g" "frame_effect g" for g
  by unfold_locales
    (auto simp: subgroup_frame_def takes_frame_def frame_effect_def Let_def split: option.split)

lemma find_takes_post:
  "allowed_host g \<Longrightarrow> allowed_origin g \<Longrightarrow> rpc_body g = Some q \<Longrightarrow> List.find (takes_post g) Is = owner g Is q"
  by (simp add: owner_def takes_post_def [abs_def])

lemma find_takes_frame:
  "authorized g \<Longrightarrow> rpc_body g = Some q \<Longrightarrow> List.find (takes_frame g) Is = owner g Is q"
  by (simp add: owner_def takes_frame_def [abs_def])

lemma find_none: "(\<And>I. \<not> P I) \<Longrightarrow> List.find P Is = None"
  by (induction Is) auto

subsection \<open>Every request is answered once, by its owner\<close>

lemma terminal_post_subgroups:
  assumes "\<not> claimed d" "\<not> channel_stopped d"
  shows "answers (terminal_post g (fold (subgroup_post g) bitcoind_subgroups d)) =
    answers d @ post_answer g False"
proof (cases "allowed_host g \<and> allowed_origin g")
  case False
  then have "List.find (takes_post g) bitcoind_subgroups = None" by (auto intro!: find_none simp: takes_post_def)
  then show ?thesis using assms False
    by (auto simp: post_latch.first_owner terminal_post_def post_answer_def)
next
  case True
  show ?thesis
  proof (cases "rpc_body g")
    case None
    then have "List.find (takes_post g) bitcoind_subgroups = None" by (auto intro!: find_none simp: takes_post_def)
    then show ?thesis using assms True None
      by (simp add: post_latch.first_owner terminal_post_def post_answer_def)
  next
    case (Some q)
    note found = find_takes_post [OF conjunct1 [OF True] conjunct2 [OF True] Some, of bitcoind_subgroups]
    show ?thesis using assms True Some
      by (cases "owner g bitcoind_subgroups q")
        (simp_all add: post_latch.first_owner found terminal_post_def post_answer_def post_effect_def Let_def)
  qed
qed

lemma terminal_post_settled:
  "claimed d \<or> channel_stopped d \<Longrightarrow> terminal_post g (fold (subgroup_post g) Is d) = d"
  by (auto simp: post_latch.fold_skip terminal_post_def)

lemma session_btcd_post_answers: "answers (session_btcd_post g fresh_request) = post_answer g True"
proof (cases "allowed_host g \<and> allowed_origin g \<and> (\<exists>q. rpc_body g = Some q \<and>
    rpc_method q \<noteq> authenticate_name \<and> contains g btcd_methods (rpc_method q))")
  case True
  then obtain q where q: "rpc_body g = Some q" "rpc_method q \<noteq> authenticate_name"
    "contains g btcd_methods (rpc_method q)" by blast
  have "claimed (btcd_post g fresh_request)"
    "answers (btcd_post g fresh_request) = post_answer g True"
    using True q by (simp_all add: btcd_post_def post_answer_def owner_def fresh_request_def Let_def)
  then show ?thesis by (simp add: session_btcd_post_def terminal_post_settled)
next
  case False
  then have "btcd_post g fresh_request = fresh_request"
    by (auto simp: btcd_post_def split: option.split)
  moreover have "post_answer g True = post_answer g False"
    using False by (auto simp: post_answer_def owner_def Let_def split: option.split)
  ultimately show ?thesis
    by (simp add: session_btcd_post_def terminal_post_subgroups) (simp add: fresh_request_def terminal_post_subgroups)
qed

lemma terminal_frame_subgroups:
  assumes "\<not> claimed d" "\<not> channel_stopped d"
  shows "answers (terminal_frame g (fold (subgroup_frame g) bitcoind_subgroups d)) =
    answers d @ frame_answer g False"
proof (cases "authorized g \<and> rpc_body g \<noteq> None")
  case False
  then have "List.find (takes_frame g) bitcoind_subgroups = None" by (auto intro!: find_none simp: takes_frame_def)
  then show ?thesis using assms False
    by (auto simp: frame_latch.first_owner terminal_frame_def frame_answer_def Let_def split: option.splits)
next
  case True
  then obtain q where q: "rpc_body g = Some q" by blast
  note found = find_takes_frame [OF conjunct1 [OF True] q, of bitcoind_subgroups]
  show ?thesis using assms True q
    by (cases "owner g bitcoind_subgroups q")
      (simp_all add: frame_latch.first_owner found terminal_frame_def frame_answer_def frame_effect_def Let_def)
qed

lemma terminal_frame_settled:
  "claimed d \<or> channel_stopped d \<Longrightarrow> terminal_frame g (fold (subgroup_frame g) Is d) = d"
  by (auto simp: frame_latch.fold_skip terminal_frame_def)

lemma session_btcd_frame_answers: "answers (session_btcd_frame g fresh_request) = frame_answer g True"
proof (cases "\<exists>q. rpc_body g = Some q \<and> ((rpc_method q = authenticate_name) = authorized g \<or>
    contains g btcd_methods (rpc_method q))")
  case True
  then obtain q where q: "rpc_body g = Some q"
    "(rpc_method q = authenticate_name) = authorized g \<or> contains g btcd_methods (rpc_method q)" by blast
  have "claimed (btcd_frame g fresh_request)"
    "answers (btcd_frame g fresh_request) = frame_answer g True"
    using q by (auto simp: btcd_frame_def frame_answer_def fresh_request_def Let_def)
  then show ?thesis by (simp add: session_btcd_frame_def terminal_frame_settled)
next
  case False
  then have "btcd_frame g fresh_request = fresh_request"
    by (auto simp: btcd_frame_def Let_def split: option.split)
  moreover have "frame_answer g True = frame_answer g False"
    using False by (auto simp: frame_answer_def Let_def split: option.split)
  ultimately show ?thesis
    by (simp add: session_btcd_frame_def) (simp add: fresh_request_def terminal_frame_subgroups)
qed

lemma session_answers:
  "answers (session_bitcoind_post g fresh_request) = post_answer g False"
  "answers (session_btcd_post g fresh_request) = post_answer g True"
  "answers (session_bitcoind_frame g fresh_request) = frame_answer g False"
  "answers (session_btcd_frame g fresh_request) = frame_answer g True"
  using terminal_post_subgroups [of fresh_request g] terminal_frame_subgroups [of fresh_request g]
  by (simp_all add: session_btcd_post_answers session_btcd_frame_answers session_bitcoind_post_def
      session_bitcoind_frame_def) (simp_all add: fresh_request_def)

text \<open>
  C15: A request on a bitcoind or btcd channel, posted or framed, is answered exactly once, by the
  first attached protocol whose interface contains its method, and by the terminal responder when
  there is none; which answer it gets is decided by the host, the origin, the body, the
  authorization, the owner and the permission, in the order the specification functions state.
\<close>

theorem dispatch_first_owner:
  "answers (post_session Bitcoind g fresh_request) = post_answer g False \<and>
   answers (post_session Btcd g fresh_request) = post_answer g True \<and>
   answers (frame_session Bitcoind g fresh_request) = frame_answer g False \<and>
   answers (frame_session Btcd g fresh_request) = frame_answer g True"
  by (simp add: post_session_def frame_session_def session_answers)

lemma owner_contains: "owner g Is q = Some I \<Longrightarrow> contains g I (rpc_method q)"
  by (auto simp: owner_def find_Some_iff)

lemma dispatched_once: "Dispatched I q \<in> set (dispatched g J r) \<longleftrightarrow> I = J \<and> q = r"
  by (auto simp: dispatched_def)

lemma post_answer_safe:
  "Dispatched I q \<in> set (post_answer g btcd) \<Longrightarrow>
   allowed_host g \<and> allowed_origin g \<and> rpc_body g = Some q \<and> contains g I (rpc_method q) \<and>
   permitted g (rpc_method q)"
  by (auto simp: post_answer_def Let_def dispatched_once owner_contains
      split: if_splits option.splits)

lemma frame_answer_safe:
  "Dispatched I q \<in> set (frame_answer g btcd) \<Longrightarrow>
   rpc_body g = Some q \<and> contains g I (rpc_method q) \<and>
   (authorized g \<and> permitted g (rpc_method q) \<or>
    btcd \<and> \<not> authorized g \<and> I = btcd_methods \<and> rpc_method q = authenticate_name)"
  by (auto simp: frame_answer_def Let_def dispatched_once owner_contains
      split: if_splits option.splits)

lemma electrum_post_safe:
  "Dispatched I q \<in> set (answers (session_electrum_post g fresh_request)) \<Longrightarrow>
   allowed_host g \<and> allowed_origin g \<and> rpc_body g = Some q \<and> contains g I (rpc_method q) \<and>
   permitted g (rpc_method q)"
  by (auto simp: session_electrum_post_def rpc_post_def electrum_unclaimed_def fresh_request_def Let_def
      dispatched_once split: if_splits option.splits)

lemma electrum_frame_safe:
  "Dispatched I q \<in> set (answers (session_electrum_frame g fresh_request)) \<Longrightarrow>
   authorized g \<and> rpc_body g = Some q \<and> contains g I (rpc_method q) \<and> permitted g (rpc_method q)"
  by (auto simp: session_electrum_frame_def rpc_frame_def electrum_unclaimed_def fresh_request_def Let_def
      dispatched_once split: if_splits option.splits)

text \<open>
  C14: No request reaches a handler of the bitcoind, btcd or electrum services without passing the
  checks: a dispatched request is the one received, its interface contains the method, a post has an
  allowed host and origin, a frame comes from an authorized channel, and the credential
  permits the method. The one exception is \<open>authenticate\<close> of btcd, which only a frame of a channel
  that is not yet authorized can reach.
\<close>

theorem dispatch_safe:
  assumes "service \<noteq> Sparrow"
  shows "(Dispatched I q \<in> set (answers (post_session service g fresh_request)) \<longrightarrow>
      rpc_body g = Some q \<and> contains g I (rpc_method q) \<and> allowed_host g \<and> allowed_origin g \<and>
      permitted g (rpc_method q)) \<and>
    (Dispatched I q \<in> set (answers (frame_session service g fresh_request)) \<longrightarrow>
      rpc_body g = Some q \<and> contains g I (rpc_method q) \<and>
      (authorized g \<and> permitted g (rpc_method q) \<or>
       service = Btcd \<and> \<not> authorized g \<and> rpc_method q = authenticate_name))"
  using assms post_answer_safe [of I q g] frame_answer_safe [of I q g]
    electrum_post_safe [of I q g] electrum_frame_safe [of I q g]
  by (cases service) (auto simp: post_session_def frame_session_def session_answers)

definition sample_gate :: "string \<Rightarrow> bool \<Rightarrow> gate" where
  "sample_gate m allowed = \<lparr>allowed_host = True, allowed_origin = True, rpc_body = Some (make_request m Map.empty),
     permitted = (\<lambda>n. allowed), authorized = True, contains = (\<lambda>I n. n \<in> set (method_names I)),
     notify_code = (\<lambda>I q. code_of network_category 0), unauthorized_code = code_of network_category 1,
     invalid_argument_code = code_of server_category 1\<rparr>"

theorem dispatch_safe_witness:
  "Dispatched electrum_methods (make_request ''server.ping'' Map.empty) \<in>
     set (answers (frame_session Electrum (sample_gate ''server.ping'' True) fresh_request)) \<and>
   authorized (sample_gate ''server.ping'' True)"
proof -
  have names: "''server.ping'' \<in> set (method_names electrum_methods)"
    "''server.ping'' \<notin> set (method_names electrum_handshake_methods)"
    by code_simp+
  have "Dispatched electrum_methods (make_request ''server.ping'' Map.empty) \<in>
     set (answers (frame_session Electrum (sample_gate ''server.ping'' True) fresh_request))"
    using names by (simp add: frame_session_def session_electrum_frame_def rpc_frame_def sample_gate_def
        fresh_request_def dispatched_once Let_def)
  then show ?thesis
    using dispatch_safe [of Electrum electrum_methods "make_request ''server.ping'' Map.empty"
        "sample_gate ''server.ping'' True"] by blast
qed

text \<open>
  The methods that sparrow adds are dispatched from its unclaimed handler, which does not ask
  whether the credential permits the method: such a request reaches its handler whatever the
  credential is restricted to.
\<close>

theorem sparrow_unpermitted:
  assumes "rpc_body g = Some q" "contains g sparrow_methods (rpc_method q)"
    and "\<not> contains g electrum_methods (rpc_method q)" "\<not> contains g electrum_handshake_methods (rpc_method q)"
  shows "(allowed_host g \<and> allowed_origin g \<longrightarrow>
      Dispatched sparrow_methods q \<in> set (answers (post_session Sparrow g fresh_request))) \<and>
    (authorized g \<longrightarrow> Dispatched sparrow_methods q \<in> set (answers (frame_session Sparrow g fresh_request)))"
  using assms
  by (simp add: post_session_def frame_session_def session_sparrow_post_def session_sparrow_frame_def
      rpc_post_def rpc_frame_def sparrow_unclaimed_def fresh_request_def dispatched_once)

theorem sparrow_unpermitted_witness:
  "Dispatched sparrow_methods (make_request ''blockchain.block.stats'' Map.empty) \<in>
     set (answers (frame_session Sparrow (sample_gate ''blockchain.block.stats'' False) fresh_request))"
proof -
  have "''blockchain.block.stats'' \<in> set (method_names sparrow_methods)"
    "''blockchain.block.stats'' \<notin> set (method_names electrum_methods)"
    "''blockchain.block.stats'' \<notin> set (method_names electrum_handshake_methods)"
    by code_simp+
  then show ?thesis
    using sparrow_unpermitted [of "sample_gate ''blockchain.block.stats'' False"
        "make_request ''blockchain.block.stats'' Map.empty"] by (simp add: sample_gate_def)
qed

end
