(* ===== verification/Rpc_Sender.thy ===== *)
theory Rpc_Sender
  imports Rpc_Model Errors
begin

text \<open>
  Responses of the bitcoind and btcd services, the senders of \<open>protocol_bitcoind.cpp\<close> with the
  request cache of \<open>protocol_http.cpp\<close>, and those of the universal channel, \<open>channel_rpc.hpp\<close>.
  A protocol caches the version, the identity and the http request of the call it handles, and the
  response is framed by them when the handler completes. The json serializer is a parameter.
\<close>

subsection \<open>Context and responses\<close>

record http_call =
  batch :: bool
  changed :: bool
  has_rpc :: bool

record context_t =
  ctx_version :: "rpc_version option"
  ctx_id :: "value_t option"
  ctx_request :: "http_call option"

definition no_context :: context_t where
  "no_context = \<lparr>ctx_version = None, ctx_id = None, ctx_request = None\<rparr>"

record response_t =
  res_version :: "rpc_version option"
  res_id :: "value_t option"
  res_result :: "value_t option"
  res_error :: "(code \<times> value_t option) option"

datatype sending =
    Send_Frame response_t code
  | Send_Http response_t code
  | Send_No_Content code
  | Send_Text string
  | Stop_Channel code

record transport =
  websocket :: bool
  downgraded :: bool

abbreviation full_duplex :: "transport \<Rightarrow> bool" where
  "full_duplex t \<equiv> websocket t \<or> downgraded t"

definition set_rpc_request :: "rpc_version \<Rightarrow> value_t option \<Rightarrow> http_call \<Rightarrow> context_t \<Rightarrow> context_t" where
  "set_rpc_request version ident request c = c\<lparr>ctx_id := ident, ctx_version := Some version, ctx_request := Some request\<rparr>"

definition set_rpc_frame :: "rpc_version \<Rightarrow> value_t option \<Rightarrow> context_t \<Rightarrow> context_t" where
  "set_rpc_frame version ident c = c\<lparr>ctx_id := ident, ctx_version := Some version\<rparr>"

text \<open>An unset request is answered as a default one.\<close>

definition reset_request :: "context_t \<Rightarrow> http_call \<times> context_t" where
  "reset_request c =
     (case ctx_request c of
        Some request \<Rightarrow> (request, c\<lparr>ctx_request := None\<rparr>)
      | None \<Rightarrow> (\<lparr>batch = False, changed = False, has_rpc = False\<rparr>, c))"

definition reset_rpc_request :: "context_t \<Rightarrow> http_call \<times> context_t" where
  "reset_rpc_request c = reset_request (c\<lparr>ctx_id := None, ctx_version := None\<rparr>)"

definition is_notification :: "response_t \<Rightarrow> bool" where
  "is_notification model \<longleftrightarrow> res_version model = Some rpc_v2 \<and> res_id model = None"

definition send_rpc :: "transport \<Rightarrow> response_t \<Rightarrow> code \<Rightarrow> context_t \<Rightarrow> context_t \<times> sending list" where
  "send_rpc t model close_reason c =
     (if full_duplex t then
        (c\<lparr>ctx_id := None, ctx_version := None\<rparr>,
         if is_notification model then
           (if is_error close_reason then [Stop_Channel close_reason] else [])
         else [Send_Frame model close_reason])
      else
        (case reset_rpc_request c of (request, c) \<Rightarrow>
           (c, if is_notification model \<and> \<not> batch request \<and> \<not> changed request
               then [Send_No_Content close_reason] else [Send_Http model close_reason])))"

definition send_error_close :: "transport \<Rightarrow> code \<Rightarrow> code \<Rightarrow> context_t \<Rightarrow> context_t \<times> sending list" where
  "send_error_close t ec close_reason c =
     send_rpc t \<lparr>res_version = ctx_version c, res_id = ctx_id c, res_result = None,
       res_error = Some (ec, None)\<rparr> close_reason c"

definition send_error_data :: "transport \<Rightarrow> code \<Rightarrow> value_t option \<Rightarrow> context_t \<Rightarrow> context_t \<times> sending list" where
  "send_error_data t ec value' c =
     send_rpc t \<lparr>res_version = ctx_version c, res_id = ctx_id c, res_result = None,
       res_error = Some (ec, value')\<rparr> (code_of server_category 0) c"

definition send_error :: "transport \<Rightarrow> code \<Rightarrow> context_t \<Rightarrow> context_t \<times> sending list" where
  "send_error t ec c = send_error_data t ec None c"

definition send_result :: "transport \<Rightarrow> value_t option \<Rightarrow> context_t \<Rightarrow> context_t \<times> sending list" where
  "send_result t result c =
     send_rpc t \<lparr>res_version = ctx_version c, res_id = ctx_id c, res_result = result,
       res_error = None\<rparr> (code_of server_category 0) c"

subsection \<open>Text responses\<close>

text \<open>
  A large hex result is written into its place in the response text. \<open>None\<close> is the empty
  text, on which the result is framed by the model; otherwise the text with a gap of zeros, and its offset.
\<close>

definition tail_text :: string where
  "tail_text = [CHR 0x22, CHR 0x7D]"

definition empty_string_end :: string where
  "empty_string_end = [CHR 0x22, CHR 0x22, CHR 0x7D]"

definition text_response ::
  "(response_t \<Rightarrow> string) \<Rightarrow> transport \<Rightarrow> nat \<Rightarrow> context_t \<Rightarrow> (string \<times> nat) option" where
  "text_response serialize t size' c =
     (case ctx_request c of
        None \<Rightarrow> None
      | Some request \<Rightarrow>
          if full_duplex t \<or> ctx_version c = Some rpc_v2 \<and> ctx_id c = None \<or> \<not> has_rpc request then None
          else if batch request \<or> changed request then None
          else
            let envelope = serialize \<lparr>res_version = ctx_version c, res_id = ctx_id c,
                  res_result = Some (String []), res_error = None\<rparr> in
            if \<not> (length envelope \<ge> 3 \<and> drop (length envelope - 3) envelope = empty_string_end) then None
            else
              let offset = length envelope - length tail_text in
              Some (take offset envelope @ replicate size' (CHR 0x00) @ tail_text, offset))"

text \<open>The writer fills exactly the gap, or fails.\<close>

definition send_hex ::
  "(response_t \<Rightarrow> string) \<Rightarrow> transport \<Rightarrow> nat \<Rightarrow> string option \<Rightarrow> context_t \<Rightarrow>
   bool \<times> context_t \<times> sending list" where
  "send_hex serialize t size' writer c =
     (case text_response serialize t size' c of
        None \<Rightarrow>
          (case writer of
             None \<Rightarrow> (False, c, [])
           | Some out \<Rightarrow> (True, send_result t (Some (String out)) c))
      | Some (text', offset) \<Rightarrow>
          (case writer of
             None \<Rightarrow> (False, c, [])
           | Some out \<Rightarrow>
               (True, snd (reset_rpc_request c),
                [Send_Text (take offset text' @ out @ drop (offset + size') text')])))"

subsection \<open>The universal channel\<close>

record rpc_channel =
  chan_version :: "rpc_version option"
  chan_identity :: "value_t option"

datatype channel_sending = Channel_Response response_t | Channel_Request "rpc_version option" string array_t | Completed

definition channel_dispatch :: "(rpc_version \<times> value_t option) option \<Rightarrow> rpc_channel \<Rightarrow> rpc_channel" where
  "channel_dispatch message ch =
     (case message of
        Some (version, ident) \<Rightarrow> ch\<lparr>chan_version := Some version, chan_identity := ident\<rparr>
      | None \<Rightarrow> ch)"

definition channel_send_error :: "code \<times> value_t option \<Rightarrow> rpc_channel \<Rightarrow> channel_sending" where
  "channel_send_error err ch =
     Channel_Response \<lparr>res_version = chan_version ch, res_id = chan_identity ch, res_result = None,
       res_error = Some err\<rparr>"

definition channel_send_code :: "code \<Rightarrow> rpc_channel \<Rightarrow> channel_sending" where
  "channel_send_code ec ch = channel_send_error (ec, None) ch"

definition channel_send_result :: "value_t \<Rightarrow> rpc_channel \<Rightarrow> channel_sending" where
  "channel_send_result result ch =
     Channel_Response \<lparr>res_version = chan_version ch, res_id = chan_identity ch,
       res_result = Some result, res_error = None\<rparr>"

definition channel_send_notification ::
  "transport \<Rightarrow> string \<Rightarrow> array_t \<Rightarrow> rpc_channel \<Rightarrow> channel_sending" where
  "channel_send_notification t method parameters ch =
     (if \<not> full_duplex t then Completed
      else Channel_Request (chan_version ch) method parameters)"

subsection \<open>Properties\<close>

lemma send_rpc_clears:
  "ctx_version (fst (send_rpc t model close c)) = None \<and> ctx_id (fst (send_rpc t model close c)) = None"
  by (auto simp: send_rpc_def reset_rpc_request_def reset_request_def split: option.split)

definition answers_call :: "transport \<Rightarrow> http_call \<Rightarrow> rpc_version \<Rightarrow> value_t option \<Rightarrow> bool" where
  "answers_call t request version ident \<longleftrightarrow>
     \<not> (version = rpc_v2 \<and> ident = None) \<or> \<not> full_duplex t \<and> (batch request \<or> changed request)"

text \<open>
  The response to a call is framed by the call and uses up its context. One response object
  is sent, with the version and the identity of the request and either its result or its error,
  unless the call is a notification (version 2 without an identity): that gets no object, which is an
  empty http response or nothing at all on a full duplex transport, except as the part of a batch,
  which is answered. Afterwards no context is left for a later sender.
\<close>

theorem response_framed_by_call:
  assumes "c = set_rpc_request version ident request no_context"
  shows "send_result t result c =
      (no_context\<lparr>ctx_request := if full_duplex t then Some request else None\<rparr>,
       if answers_call t request version ident then
         [(if full_duplex t then Send_Frame else Send_Http)
            \<lparr>res_version = Some version, res_id = ident, res_result = result, res_error = None\<rparr>
            (code_of server_category 0)]
       else if full_duplex t then [] else [Send_No_Content (code_of server_category 0)]) \<and>
    send_error t ec c =
      (no_context\<lparr>ctx_request := if full_duplex t then Some request else None\<rparr>,
       if answers_call t request version ident then
         [(if full_duplex t then Send_Frame else Send_Http)
            \<lparr>res_version = Some version, res_id = ident, res_result = None, res_error = Some (ec, None)\<rparr>
            (code_of server_category 0)]
       else if full_duplex t then [] else [Send_No_Content (code_of server_category 0)])"
  unfolding assms
  by (auto simp: send_result_def send_error_def send_error_data_def send_rpc_def set_rpc_request_def
      no_context_def answers_call_def is_notification_def reset_rpc_request_def reset_request_def code_of_def)

theorem response_framed_by_call_witness:
  "snd (send_result \<lparr>websocket = False, downgraded = False\<rparr> (Some Null)
     (set_rpc_request rpc_v2 (Some (U8 7)) \<lparr>batch = False, changed = False, has_rpc = True\<rparr> no_context)) =
   [Send_Http \<lparr>res_version = Some rpc_v2, res_id = Some (U8 7), res_result = Some Null, res_error = None\<rparr>
      (code_of server_category 0)]"
  using response_framed_by_call [OF refl, of "\<lparr>websocket = False, downgraded = False\<rparr>" "Some Null" rpc_v2
      "Some (U8 7)" "\<lparr>batch = False, changed = False, has_rpc = True\<rparr>"]
  by (simp add: answers_call_def)

text \<open>
  What the json serializer promises of a response: the result is its last member, and a text
  without characters that json escapes stands between quotes as it is.
\<close>

definition plain_char :: "char \<Rightarrow> bool" where
  "plain_char ch \<longleftrightarrow> ch \<in> set ''0123456789abcdef''"

definition serializer_law :: "(response_t \<Rightarrow> string) \<Rightarrow> bool" where
  "serializer_law serialize \<longleftrightarrow>
     (\<forall>version ident. \<exists>envelope. \<forall>hex. list_all plain_char hex \<longrightarrow>
        serialize \<lparr>res_version = version, res_id = ident, res_result = Some (String hex), res_error = None\<rparr> =
        envelope @ [CHR 0x22] @ hex @ tail_text)"

text \<open>
  A hex result that is written into its place gives the text the model would have been
  serialized to: the response sent for a call that is not batched is the serialization of the
  response with the version and the identity of the call and the hex as its result, byte for byte.
\<close>

theorem hex_response_is_model:
  assumes "serializer_law serialize" "c = set_rpc_request version ident request no_context"
    and "has_rpc request" "\<not> batch request" "\<not> changed request" "\<not> (version = rpc_v2 \<and> ident = None)"
    and "\<not> full_duplex t" "list_all plain_char hex"
  shows "send_hex serialize t (length hex) (Some hex) c =
    (True, no_context, [Send_Text (serialize \<lparr>res_version = Some version, res_id = ident,
       res_result = Some (String hex), res_error = None\<rparr>)])"
proof -
  obtain envelope where e: "\<And>h. list_all plain_char h \<Longrightarrow>
      serialize \<lparr>res_version = Some version, res_id = ident, res_result = Some (String h), res_error = None\<rparr> =
      envelope @ [CHR 0x22] @ h @ tail_text"
    using assms(1) unfolding serializer_law_def by metis
  have empty: "serialize \<lparr>res_version = Some version, res_id = ident, res_result = Some (String []), res_error = None\<rparr> =
      envelope @ [CHR 0x22] @ tail_text" using e [of "[]"] by simp
  have "text_response serialize t (length hex) c =
      Some ((envelope @ [CHR 0x22]) @ replicate (length hex) (CHR 0x00) @ tail_text, length envelope + 1)"
    using assms(2-7) by (simp add: text_response_def set_rpc_request_def no_context_def empty
        tail_text_def empty_string_end_def Let_def)
  then show ?thesis
    using assms(2) e [OF assms(8)]
    by (simp add: send_hex_def set_rpc_request_def no_context_def reset_rpc_request_def reset_request_def)
qed

definition sample_serialize :: "response_t \<Rightarrow> string" where
  "sample_serialize r = CHR 0x7B # CHR 0x22 #
     (case res_result r of Some (String t) \<Rightarrow> t | _ \<Rightarrow> []) @ tail_text"

lemma sample_serializer_law: "serializer_law sample_serialize"
  unfolding serializer_law_def sample_serialize_def
  by (intro allI exI [of _ "[CHR 0x7B]"]) simp

theorem hex_response_is_model_witness:
  "send_hex sample_serialize \<lparr>websocket = False, downgraded = False\<rparr> (length ''beef'') (Some ''beef'')
     (set_rpc_request rpc_v1 None \<lparr>batch = False, changed = False, has_rpc = True\<rparr> no_context) =
   (True, no_context, [Send_Text (sample_serialize \<lparr>res_version = Some rpc_v1, res_id = None,
      res_result = Some (String ''beef''), res_error = None\<rparr>)])"
  using hex_response_is_model [OF sample_serializer_law refl, of "\<lparr>batch = False, changed = False, has_rpc = True\<rparr>"
      rpc_v1 None "\<lparr>websocket = False, downgraded = False\<rparr>" "''beef''"]
  by (simp add: plain_char_def)

end
