(* ===== verification/Url_Dispatch.thy ===== *)
theory Url_Dispatch
  imports Native_Target Esplora_Target Bitcoind_Target Errors
begin

text \<open>
  Query strings and dispatch of the url services: the query parsers \<open>native_query.cpp\<close>,
  \<open>admin_query.cpp\<close> and \<open>bitcoind_query.cpp\<close>, and the request handlers of
  \<open>protocol_html.cpp\<close>, \<open>protocol_native.cpp\<close>, \<open>protocol_admin.cpp\<close>, \<open>protocol_esplora.cpp\<close> and
  \<open>protocol_bitcoind_rest.cpp\<close> up to the notification of the dispatcher. What the network
  and system libraries decide about a request is a field of \<open>url_call\<close>.
\<close>

subsection \<open>Calls\<close>

record query_lib =
  decode_query :: "string \<Rightarrow> (string \<rightharpoonup> string) option"
  media_of :: "u8 \<Rightarrow> media_type"

record url_call =
  target :: string
  accepts :: "media_type list"
  origin_form :: bool
  url_origin :: bool
  url_host :: bool
  url_permitted :: "string \<Rightarrow> bool"
  url_authorized :: bool
  body_text :: "string option"
  url_notify :: "request_t \<Rightarrow> code"

datatype url_answer =
    Called request_t
  | Sent_Bad_Target | Sent_Forbidden | Sent_Bad_Host | Sent_Bad_Request | Sent_Not_Acceptable
  | Sent_Not_Found | Sent_Not_Allowed | Sent_Not_Implemented | Sent_Server_Error code
  | Sent_File string media_type | Sent_Page media_type
  | Url_Stopped string

subsection \<open>Query parsers\<close>

definition named_params :: "request_t \<Rightarrow> object_t option" where
  "named_params q = (case params q of Some (Named ps) \<Rightarrow> Some ps | _ \<Rightarrow> None)"

text \<open>
  A boolean of the query that is set only when it differs from its default, None when it is neither
  text.
\<close>

definition query_flag :: "(string \<rightharpoonup> string) \<Rightarrow> string \<Rightarrow> bool \<Rightarrow> object_t \<Rightarrow> object_t option" where
  "query_flag query name dflt ps =
     (case query name of
        None \<Rightarrow> Some ps
      | Some value' \<Rightarrow>
          if value' = (if dflt then ''false'' else ''true'') then Some (ps(name \<mapsto> Boolean (\<not> dflt)))
          else if value' \<noteq> (if dflt then ''true'' else ''false'') then None
          else Some ps)"

definition query_format :: "(string \<rightharpoonup> string) \<Rightarrow> string" where
  "query_format query = (case query ''format'' of Some f \<Rightarrow> f | None \<Rightarrow> [])"

text \<open>The format of the query has priority over the accepted media, whose order is fixed.\<close>

definition native_format :: "text_lib \<Rightarrow> string \<Rightarrow> media_type list \<Rightarrow> object_t \<Rightarrow> object_t option" where
  "native_format L format accept ps =
     (if format = ''json'' then Some (set_media L ps application_json)
      else if format = ''text'' then Some (set_media L ps text_plain)
      else if format = ''data'' then Some (set_media L ps application_octet_stream)
      else if format = ''html'' then Some (set_media L ps text_html)
      else if format \<noteq> [] then None
      else if List.member accept application_json then Some (set_media L ps application_json)
      else if List.member accept text_html then Some (set_media L ps text_html)
      else if List.member accept text_plain then Some (set_media L ps text_plain)
      else if List.member accept application_octet_stream
      then Some (set_media L ps application_octet_stream)
      else Some ps)"

definition native_query ::
  "query_lib \<Rightarrow> text_lib \<Rightarrow> request_t \<Rightarrow> string \<Rightarrow> media_type list \<Rightarrow> request_t option" where
  "native_query Q L out tgt accept =
     (case decode_query Q tgt of
        None \<Rightarrow> None
      | Some query \<Rightarrow>
        Option.bind (named_params out) (\<lambda>ps.
        Option.bind (query_flag query ''witness'' True ps) (\<lambda>ps.
        Option.bind (query_flag query ''turbo'' True ps) (\<lambda>ps.
        Option.bind (query_flag query ''stop'' False ps) (\<lambda>ps.
        map_option (\<lambda>ps. out\<lparr>params := Some (Named ps)\<rparr>)
          (native_format L (query_format query) accept ps))))))"

definition maximum_filter :: u64 where
  "maximum_filter = 2 ^ 53 - 1"

definition admin_query ::
  "query_lib \<Rightarrow> text_lib \<Rightarrow> request_t \<Rightarrow> string \<Rightarrow> media_type list \<Rightarrow> request_t option" where
  "admin_query Q L out tgt accept =
     (case decode_query Q tgt of
        None \<Rightarrow> None
      | Some query \<Rightarrow>
        Option.bind (named_params out) (\<lambda>ps.
        Option.bind
          (case query ''filter'' of
             None \<Rightarrow> Some ps
           | Some text' \<Rightarrow>
               (case to_number_u64 L text' of
                  None \<Rightarrow> None
                | Some value' \<Rightarrow>
                    if value' > maximum_filter then None else Some (ps(''filter'' \<mapsto> U64 value')))) (\<lambda>ps.
        let format = query_format query;
            media = (\<lambda>m. Some (out\<lparr>params := Some (Named (set_media L ps m))\<rparr>)) in
        if format = ''json'' then media application_json
        else if format = ''html'' then media text_html
        else if format \<noteq> [] then None
        else if List.member accept application_json then media application_json
        else if List.member accept text_html then media text_html
        else Some (out\<lparr>params := Some (Named ps)\<rparr>))))"

definition query_number :: "(string \<rightharpoonup> string) \<Rightarrow> string \<Rightarrow> object_t option \<Rightarrow> object_t option" where
  "query_number query name ps =
     Option.bind ps (\<lambda>ps.
       case query name of
         None \<Rightarrow> Some ps
       | Some text' \<Rightarrow> map_option (\<lambda>n. ps(name \<mapsto> U32 n)) (number32 text'))"

definition query_boolean :: "(string \<rightharpoonup> string) \<Rightarrow> string \<Rightarrow> object_t option \<Rightarrow> object_t option" where
  "query_boolean query name ps =
     Option.bind ps (\<lambda>ps.
       case query name of
         None \<Rightarrow> Some ps
       | Some text' \<Rightarrow>
           if text' \<noteq> ''true'' \<and> text' \<noteq> ''false'' then None
           else Some (ps(name \<mapsto> Boolean (text' = ''true''))))"

definition bitcoind_query :: "query_lib \<Rightarrow> request_t \<Rightarrow> string \<Rightarrow> request_t option" where
  "bitcoind_query Q out tgt =
     (case decode_query Q tgt of
        None \<Rightarrow> None
      | Some query \<Rightarrow>
        Option.bind (named_params out) (\<lambda>ps.
          map_option (\<lambda>ps. out\<lparr>params := Some (Named ps)\<rparr>)
            (fold (query_boolean query) [''verbose'', ''mempool_sequence'']
              (fold (query_number query) [''count'', ''offset'', ''size''] (Some ps)))))"

definition get_media :: "query_lib \<Rightarrow> request_t \<Rightarrow> media_type" where
  "get_media Q model =
     (case Option.bind (named_params model) (\<lambda>ps. ps ''media'') of
        Some (U8 value') \<Rightarrow>
          if List.member [text_html, text_plain, application_json, application_octet_stream] (media_of Q value')
          then media_of Q value' else media_unknown
      | _ \<Rightarrow> media_unknown)"

text \<open>The media is erased when it is one of those admin serves, and left otherwise.\<close>

definition strip_media :: "query_lib \<Rightarrow> request_t \<Rightarrow> media_type \<times> request_t" where
  "strip_media Q model =
     (case named_params model of
        None \<Rightarrow> (media_unknown, model)
      | Some ps \<Rightarrow>
        (case ps ''media'' of
           Some (U8 value') \<Rightarrow>
             if List.member [text_html, application_json] (media_of Q value')
             then (media_of Q value', model\<lparr>params := Some (Named (ps(''media'' := None)))\<rparr>)
             else (media_unknown, model)
         | _ \<Rightarrow> (media_unknown, model)))"

subsection \<open>Object dispatch\<close>

text \<open>\<open>None\<close>: not handled, so that a page request is tried.\<close>

definition native_try :: "query_lib \<Rightarrow> text_lib \<Rightarrow> url_call \<Rightarrow> url_answer list option" where
  "native_try Q L u =
     (case native_target L (target u) of
        Inl _ \<Rightarrow> None
      | Inr model \<Rightarrow>
        (case native_query Q L model (target u) (accepts u) of
           None \<Rightarrow> Some [Sent_Bad_Request]
         | Some model \<Rightarrow>
             let media = get_media Q model in
             if media = media_unknown then Some [Sent_Not_Acceptable]
             else if media = text_html then None
             else if \<not> url_permitted u (rpc_method model) then Some [Sent_Forbidden]
             else Some (Called model #
               (if is_error (url_notify u model) then [Sent_Bad_Request] else []))))"

definition admin_try :: "query_lib \<Rightarrow> text_lib \<Rightarrow> url_call \<Rightarrow> url_answer list option" where
  "admin_try Q L u =
     (case admin_target L (target u) of
        Inl _ \<Rightarrow> None
      | Inr model \<Rightarrow>
        (case admin_query Q L model (target u) (accepts u) of
           None \<Rightarrow> Some [Sent_Bad_Request]
         | Some model \<Rightarrow>
             (case strip_media Q model of (media, model) \<Rightarrow>
                if media = media_unknown then Some [Sent_Not_Acceptable]
                else if media = text_html then None
                else if \<not> url_permitted u (rpc_method model) then Some [Sent_Forbidden]
                else Some (Called model #
                  (if is_error (url_notify u model) then [Sent_Server_Error (url_notify u model)] else [])))))"

definition takes_body :: "string \<Rightarrow> bool" where
  "takes_body m \<longleftrightarrow> m = ''broadcast'' \<or> m = ''broadcast_package''"

text \<open>The parsed body of a package, a list of items that are texts or not.\<close>

definition package_transactions :: "string option list option \<Rightarrow> value_t list" where
  "package_transactions parsed =
     (case parsed of
        None \<Rightarrow> []
      | Some items \<Rightarrow> if list_all (\<lambda>i. i \<noteq> None) items then map (String \<circ> the) items else [])"

definition set_body ::
  "(string \<Rightarrow> string option list option) \<Rightarrow> request_t \<Rightarrow> string \<Rightarrow> request_t" where
  "set_body parse_array model body =
     (case params model of
        Some (Named ps) \<Rightarrow>
          if rpc_method model = ''broadcast''
          then model\<lparr>params := Some (Named (ps(''transaction'' \<mapsto> String body)))\<rparr>
          else model\<lparr>params := Some (Named (ps(''transactions'' \<mapsto>
            Array (package_transactions (parse_array body)))))\<rparr>
      | _ \<Rightarrow> model)"

definition esplora_try :: "text_lib \<Rightarrow> url_call \<Rightarrow> url_answer list option" where
  "esplora_try L u =
     (case esplora_target L (target u) of
        Inl _ \<Rightarrow> None
      | Inr model \<Rightarrow>
          if takes_body (rpc_method model) then Some [Sent_Not_Allowed]
          else if \<not> url_permitted u (rpc_method model) then Some [Sent_Forbidden]
          else Some (Called model #
            (if is_error (url_notify u model) then [Sent_Server_Error (url_notify u model)] else [])))"

subsection \<open>Pages\<close>

record site =
  site_path :: string
  site_default :: string
  pages_enabled :: bool
  sanitize_origin :: "string \<Rightarrow> string \<Rightarrow> string"
  has_extension :: "string \<Rightarrow> bool"
  default_file :: string
  file_opens :: "string \<Rightarrow> bool"
  file_media_type :: "string \<Rightarrow> media_type \<Rightarrow> media_type"

definition to_path :: "site \<Rightarrow> string \<Rightarrow> string" where
  "to_path W tgt = (if tgt = ''/'' then tgt @ site_default W else tgt)"

definition to_local_path :: "site \<Rightarrow> string \<Rightarrow> string" where
  "to_local_path W tgt = sanitize_origin W (site_path W) (to_path W tgt)"

definition dispatch_embedded :: "site \<Rightarrow> url_call \<Rightarrow> url_answer list" where
  "dispatch_embedded W u =
     (let media = file_media_type W (to_path W (target u)) text_html in
      if List.member [text_html, text_css, application_javascript, font_woff, font_woff2, image_png,
           image_gif, image_jpeg, image_svg_xml, image_x_icon] media
      then [Sent_Page media] else [Sent_Not_Found])"

definition dispatch_file :: "site \<Rightarrow> url_call \<Rightarrow> url_answer list" where
  "dispatch_file W u =
     (let path = to_local_path W (target u) in
      if path = [] then [Sent_Bad_Target]
      else
        let page = (if \<not> has_extension W path then default_file W else path) in
        if page = [] then [Sent_Not_Implemented]
        else if \<not> file_opens W page then [Sent_Not_Found]
        else [Sent_File page (file_media_type W page application_octet_stream)])"

definition html_get :: "site \<Rightarrow> (url_call \<Rightarrow> url_answer list option) \<Rightarrow> bool \<Rightarrow> url_call \<Rightarrow> url_answer list" where
  "html_get W try_object stopped u =
     (if stopped then []
      else if \<not> origin_form u then [Sent_Bad_Target]
      else if \<not> url_origin u then [Sent_Forbidden]
      else if \<not> url_host u then [Sent_Bad_Host]
      else case try_object u of
          Some answers \<Rightarrow> answers
        | None \<Rightarrow>
            if site_path W \<noteq> [] then dispatch_file W u
            else if pages_enabled W then dispatch_embedded W u
            else [Sent_Not_Implemented])"

subsection \<open>Esplora and rest\<close>

definition esplora_get :: "text_lib \<Rightarrow> bool \<Rightarrow> url_call \<Rightarrow> url_answer list" where
  "esplora_get L stopped u =
     (if stopped then []
      else if \<not> origin_form u then [Sent_Bad_Target]
      else if \<not> url_origin u then [Sent_Forbidden]
      else if \<not> url_host u then [Sent_Bad_Host]
      else case esplora_try L u of Some answers \<Rightarrow> answers | None \<Rightarrow> [Sent_Not_Found])"

definition esplora_post ::
  "text_lib \<Rightarrow> (string \<Rightarrow> string option list option) \<Rightarrow> bool \<Rightarrow> url_call \<Rightarrow> url_answer list" where
  "esplora_post L parse_array stopped u =
     (if stopped then []
      else if \<not> origin_form u then [Sent_Bad_Target]
      else if \<not> url_origin u then [Sent_Forbidden]
      else if \<not> url_host u then [Sent_Bad_Host]
      else case esplora_target L (target u) of
          Inl _ \<Rightarrow> [Sent_Not_Found]
        | Inr model \<Rightarrow>
            if \<not> takes_body (rpc_method model) then [Sent_Not_Allowed]
            else (case body_text u of
                None \<Rightarrow> [Sent_Bad_Request]
              | Some body \<Rightarrow>
                  let model = set_body parse_array model body in
                  if \<not> url_permitted u (rpc_method model) then [Sent_Forbidden]
                  else Called model #
                    (if is_error (url_notify u model) then [Sent_Server_Error (url_notify u model)] else [])))"

text \<open>The faults of a rest target that are bad requests, all others are not found.\<close>

definition malformed :: "error_t \<Rightarrow> bool" where
  "malformed fault \<longleftrightarrow>
     List.member [invalid_hash, invalid_number, missing_hash, missing_height, missing_target] fault"

definition rest_get ::
  "query_lib \<Rightarrow> text_lib \<Rightarrow> code \<Rightarrow> bool \<Rightarrow> url_call \<Rightarrow> url_answer list" where
  "rest_get Q L missing_parameter stopped u =
     (if stopped then []
      else if \<not> url_host u then [Sent_Bad_Host]
      else if \<not> url_origin u then [Sent_Forbidden]
      else case bitcoind_target L (target u) of
          Inl fault \<Rightarrow> [if malformed fault then Sent_Bad_Request else Sent_Not_Found]
        | Inr model \<Rightarrow>
          (case bitcoind_query Q model (target u) of
             None \<Rightarrow> [Sent_Bad_Request]
           | Some model \<Rightarrow>
               if \<not> url_permitted u (rpc_method model) then [Sent_Forbidden]
               else Called model #
                 (let fault = url_notify u model in
                  if is_error fault
                  then [if fault = missing_parameter then Sent_Bad_Request else Sent_Not_Found] else [])))"

subsection \<open>Websocket frames\<close>

definition native_frame :: "query_lib \<Rightarrow> text_lib \<Rightarrow> url_call \<Rightarrow> url_answer list" where
  "native_frame Q L u =
     (if \<not> url_authorized u then [Url_Stopped ''unauthorized'']
      else case body_text u of
          None \<Rightarrow> [Url_Stopped ''not_acceptable'']
        | Some tgt \<Rightarrow>
          (case native_target L tgt of
             Inl _ \<Rightarrow> [Url_Stopped ''bad_request'']
           | Inr model \<Rightarrow>
             (case native_query Q L model tgt [application_json] of
                None \<Rightarrow> [Url_Stopped ''bad_request'']
              | Some model \<Rightarrow>
                  if get_media Q model = text_html then [Url_Stopped ''not_acceptable'']
                  else if \<not> url_permitted u (rpc_method model) then [Url_Stopped ''unauthorized'']
                  else Called model #
                    (if is_error (url_notify u model) then [Url_Stopped ''bad_request''] else []))))"

definition admin_frame :: "query_lib \<Rightarrow> text_lib \<Rightarrow> url_call \<Rightarrow> url_answer list" where
  "admin_frame Q L u =
     (if \<not> url_authorized u then [Url_Stopped ''unauthorized'']
      else case body_text u of
          None \<Rightarrow> [Url_Stopped ''not_acceptable'']
        | Some tgt \<Rightarrow>
          (case admin_target L tgt of
             Inl _ \<Rightarrow> []
           | Inr model \<Rightarrow>
             (case admin_query Q L model tgt [application_json] of
                None \<Rightarrow> [Url_Stopped ''bad_request'']
              | Some model \<Rightarrow>
                  (case strip_media Q model of (media, model) \<Rightarrow>
                     if media \<noteq> application_json then [Url_Stopped ''not_acceptable'']
                     else if \<not> url_permitted u (rpc_method model) then [Url_Stopped ''unauthorized'']
                     else Called model #
                       (if is_error (url_notify u model) then [Url_Stopped ''internal_server_error''] else [])))))"

text \<open>The target of an esplora frame ends at the first newline, where its body begins.\<close>

definition esplora_frame ::
  "text_lib \<Rightarrow> (string \<Rightarrow> string option list option) \<Rightarrow> url_call \<Rightarrow> url_answer list" where
  "esplora_frame L parse_array u =
     (if \<not> url_authorized u then [Url_Stopped ''unauthorized'']
      else case body_text u of
          None \<Rightarrow> [Url_Stopped ''not_acceptable'']
        | Some frame \<Rightarrow>
          let head = takeWhile (\<lambda>c. c \<noteq> CHR 0x0A) frame; split = (head \<noteq> frame) in
          (case esplora_target L head of
             Inl _ \<Rightarrow> [Url_Stopped ''bad_request'']
           | Inr model \<Rightarrow>
               if takes_body (rpc_method model) \<and> \<not> split then [Url_Stopped ''bad_request'']
               else
                 let model = (if takes_body (rpc_method model)
                              then set_body parse_array model (drop (length head + 1) frame) else model) in
                 if \<not> url_permitted u (rpc_method model) then [Url_Stopped ''unauthorized'']
                 else Called model #
                   (if is_error (url_notify u model) then [Url_Stopped ''internal_server_error''] else [])))"

subsection \<open>Every call passes the checks\<close>

lemma set_body_method [simp]: "rpc_method (set_body parse_array model body) = rpc_method model"
  by (simp add: set_body_def split: option.split params_t.split)

lemma native_try_called:
  "native_try Q L u = Some as \<Longrightarrow> Called q \<in> set as \<Longrightarrow>
   \<exists>model. native_target L (target u) = Inr model \<and> native_query Q L model (target u) (accepts u) = Some q \<and>
     get_media Q q \<noteq> media_unknown \<and> url_permitted u (rpc_method q)"
  by (auto simp: native_try_def Let_def split: sum.splits option.splits if_splits)

lemma native_frame_called:
  "Called q \<in> set (native_frame Q L u) \<Longrightarrow>
   \<exists>tgt model. native_target L tgt = Inr model \<and> native_query Q L model tgt [application_json] = Some q \<and>
     url_authorized u \<and> url_permitted u (rpc_method q)"
  by (auto simp: native_frame_def split: sum.splits option.splits if_splits)

lemma admin_try_called:
  "admin_try Q L u = Some as \<Longrightarrow> Called q \<in> set as \<Longrightarrow> url_permitted u (rpc_method q)"
  by (auto simp: admin_try_def split: sum.splits option.splits if_splits prod.splits)

lemma admin_frame_called:
  "Called q \<in> set (admin_frame Q L u) \<Longrightarrow> url_authorized u \<and> url_permitted u (rpc_method q)"
  by (auto simp: admin_frame_def split: sum.splits option.splits if_splits prod.splits)

lemma esplora_get_called:
  "Called q \<in> set (esplora_get L stopped u) \<Longrightarrow>
   url_origin u \<and> url_host u \<and> url_permitted u (rpc_method q) \<and>
   esplora_target L (target u) = Inr q \<and> \<not> takes_body (rpc_method q)"
  by (auto simp: esplora_get_def esplora_try_def split: sum.splits option.splits if_splits)

lemma esplora_post_called:
  "Called q \<in> set (esplora_post L parse_array stopped u) \<Longrightarrow>
   url_origin u \<and> url_host u \<and> url_permitted u (rpc_method q) \<and>
   (\<exists>model body. esplora_target L (target u) = Inr model \<and> takes_body (rpc_method q) \<and>
      q = set_body parse_array model body)"
  by (auto simp: esplora_post_def Let_def split: sum.splits option.splits if_splits)

lemma esplora_frame_called:
  "Called q \<in> set (esplora_frame L parse_array u) \<Longrightarrow>
   url_authorized u \<and> url_permitted u (rpc_method q) \<and>
   (\<exists>head model. esplora_target L head = Inr model \<and>
      (if takes_body (rpc_method q) then \<exists>body. q = set_body parse_array model body else q = model))"
  by (auto simp: esplora_frame_def Let_def split: sum.splits option.splits if_splits)

lemma rest_get_called:
  "Called q \<in> set (rest_get Q L missing_parameter stopped u) \<Longrightarrow>
   url_host u \<and> url_origin u \<and> url_permitted u (rpc_method q)"
  by (auto simp: rest_get_def Let_def split: sum.splits option.splits if_splits)

text \<open>The page side of a get calls nothing.\<close>

lemma html_get_called:
  "Called q \<in> set (html_get W try_object stopped u) \<Longrightarrow>
   url_origin u \<and> url_host u \<and> (\<exists>as. try_object u = Some as \<and> Called q \<in> set as)"
  by (auto simp: html_get_def dispatch_file_def dispatch_embedded_def Let_def split: option.splits if_splits)

text \<open>
  C37: No url reaches a handler of the native, admin, esplora or rest service without passing the
  checks: a request over http has an allowed origin and host, a websocket frame comes from an
  authorized channel, and in either case the credential permits the method that is called.
\<close>

theorem url_dispatch_safe:
  shows "(Called q \<in> set (html_get W (native_try Q L) stopped u) \<or>
      Called q \<in> set (html_get W (admin_try Q L) stopped u) \<or>
      Called q \<in> set (esplora_get L stopped u) \<or> Called q \<in> set (esplora_post L parse_array stopped u) \<or>
      Called q \<in> set (rest_get Q L missing_parameter stopped u) \<longrightarrow>
        url_origin u \<and> url_host u \<and> url_permitted u (rpc_method q)) \<and>
    (Called q \<in> set (native_frame Q L u) \<or> Called q \<in> set (admin_frame Q L u) \<or>
      Called q \<in> set (esplora_frame L parse_array u) \<longrightarrow>
        url_authorized u \<and> url_permitted u (rpc_method q))"
  using html_get_called [of q W "native_try Q L" stopped u] html_get_called [of q W "admin_try Q L" stopped u]
    native_try_called [of Q L u _ q] admin_try_called [of Q L u _ q] esplora_get_called [of q L stopped u]
    esplora_post_called [of q L parse_array stopped u] rest_get_called [of q Q L missing_parameter stopped u]
    native_frame_called [of q Q L u] admin_frame_called [of q Q L u] esplora_frame_called [of q L parse_array u]
  by blast

subsection \<open>Calls are complete\<close>

text \<open>A request that carries every required param of its method, with a value of its type.\<close>

definition request_complete :: "interface \<Rightarrow> request_t \<Rightarrow> bool" where
  "request_complete I q \<longleftrightarrow>
     (\<exists>decl ps. map_of I (rpc_method q) = Some decl \<and> params q = Some (Named ps) \<and>
        (\<forall>(k, t, p) \<in> set decl. p = Required \<longrightarrow> (\<exists>v. ps k = Some v \<and> has_type v t)))"

text \<open>Params are declared once, and those a query may set are not required, the media apart.\<close>

definition query_safe :: "interface \<Rightarrow> string list \<Rightarrow> bool" where
  "query_safe I names \<longleftrightarrow>
     list_all (\<lambda>(m, decl). distinct (map fst decl) \<and>
       list_all (\<lambda>(k, t, p). List.member names k \<longrightarrow> p \<noteq> Required) decl \<and>
       list_all (\<lambda>(k, t, p). k = ''media'' \<longrightarrow> t = U8_type) decl) I"

lemma native_query_safe: "query_safe native_methods [''witness'', ''turbo'', ''stop'']"
  by code_simp

lemma query_flag_keeps: "query_flag query name dflt ps = Some ps' \<Longrightarrow> k \<noteq> name \<Longrightarrow> ps' k = ps k"
  by (auto simp: query_flag_def split: option.splits if_splits)

lemma native_query_keeps:
  assumes "native_query Q L out tgt acc = Some q"
  obtains ps ps' where "params out = Some (Named ps)" "params q = Some (Named ps')" "rpc_method q = rpc_method out"
    "\<And>k. k \<notin> {''witness'', ''turbo'', ''stop'', ''media''} \<Longrightarrow> ps' k = ps k"
proof -
  from assms obtain query ps p1 p2 p3 p4 where
    ps: "named_params out = Some ps" "query_flag query ''witness'' True ps = Some p1"
      "query_flag query ''turbo'' True p1 = Some p2" "query_flag query ''stop'' False p2 = Some p3"
      "native_format L (query_format query) acc p3 = Some p4"
    and q: "q = out\<lparr>params := Some (Named p4)\<rparr>"
    by (auto simp: native_query_def bind_eq_Some_conv split: option.splits)
  have "p4 k = p3 k" if "k \<noteq> ''media''" for k
    using ps(5) that by (auto simp: native_format_def set_media_def split: if_splits)
  then have "p4 k = ps k" if "k \<notin> {''witness'', ''turbo'', ''stop'', ''media''}" for k
    using that query_flag_keeps [OF ps(2)] query_flag_keeps [OF ps(3)] query_flag_keeps [OF ps(4)] by simp
  then show thesis using that q ps(1)
    by (auto simp: named_params_def split: option.splits params_t.splits)
qed

lemma get_media_present:
  "get_media Q q \<noteq> media_unknown \<Longrightarrow> params q = Some (Named ps) \<Longrightarrow> \<exists>v. ps ''media'' = Some (U8 v)"
  by (auto simp: get_media_def named_params_def split: option.splits value_t.splits if_splits)

lemma fits_typed:
  assumes "request_fits I later q" "params q = Some (Named ps)" "map_of I (rpc_method q) = Some decl"
    "distinct (map fst decl)" "(k, t, Required) \<in> set decl" "k \<notin> set later"
  shows "\<exists>v. ps k = Some v \<and> has_type v t"
proof -
  from assms(1-3) have bound: "k \<in> dom ps" and decls: "\<And>v. ps k = Some v \<Longrightarrow> \<exists>t p. (k, t, p) \<in> set decl \<and> has_type v t"
    using assms(5,6) by (auto simp: request_fits_def)
  then obtain v t' p where v: "ps k = Some v" "(k, t', p) \<in> set decl" "has_type v t'" by blast
  have "t' = t" using assms(4,5) v(2) by (metis eq_key_imp_eq_value prod.inject)
  then show ?thesis using v by blast
qed

lemma query_safeD:
  assumes "query_safe I names" "map_of I m = Some decl"
  shows "distinct (map fst decl)" "(k, t, Required) \<in> set decl \<Longrightarrow> k \<notin> set names"
    "(''media'', t, p) \<in> set decl \<Longrightarrow> t = U8_type"
  using assms map_of_SomeD [OF assms(2)] unfolding query_safe_def list_all_iff by fastforce+

lemma native_call_complete:
  assumes "lib_ok L" "native_target L tgt = Inr model" "native_query Q L model tgt acc = Some q"
    and media: "\<And>ps. params q = Some (Named ps) \<Longrightarrow> \<exists>v. ps ''media'' = Some (U8 v)"
  shows "request_complete native_methods q"
proof -
  obtain ps ps' where ps: "params model = Some (Named ps)" "params q = Some (Named ps')"
    "rpc_method q = rpc_method model"
    and keep: "\<And>k. k \<notin> {''witness'', ''turbo'', ''stop'', ''media''} \<Longrightarrow> ps' k = ps k"
    using native_query_keeps [OF assms(3)] by metis
  have fits: "request_fits native_methods [''media''] model" by (rule native.parse_fits [OF assms(1,2)])
  then obtain decl where decl: "map_of native_methods (rpc_method model) = Some decl"
    by (auto simp: request_fits_def)
  note safe = query_safeD [OF native_query_safe decl]
  have "\<exists>v. ps' k = Some v \<and> has_type v t" if "(k, t, Required) \<in> set decl" for k t
  proof (cases "k = ''media''")
    case True
    then show ?thesis using media [OF ps(2)] safe(3) that by fastforce
  next
    case False
    then have "ps' k = ps k" using safe(2) [OF that] by (intro keep) auto
    then show ?thesis using fits_typed [OF fits ps(1) decl safe(1) that] False by simp
  qed
  then show ?thesis using decl ps by (auto simp: request_complete_def)
qed

lemma native_query_json_media:
  "native_query Q L model tgt [application_json] = Some q \<Longrightarrow> params q = Some (Named ps) \<Longrightarrow>
   \<exists>v. ps ''media'' = Some (U8 v)"
  by (auto simp: native_query_def native_format_def set_media_def bind_eq_Some_conv
      split: option.splits if_splits)

lemma esplora_query_safe: "query_safe esplora_methods []"
  by code_simp

lemma esplora_bodies:
  "list_all (\<lambda>(m, decl). \<not> takes_body m \<longrightarrow>
     list_all (\<lambda>(k, t, p). p = Required \<longrightarrow> k \<noteq> ''transaction'' \<and> k \<noteq> ''transactions'') decl) esplora_methods"
  "map_of esplora_methods ''broadcast'' =
     Some [(''media'', U8_type, Required), (''transaction'', String_type, Required)]"
  "map_of esplora_methods ''broadcast_package'' =
     Some [(''media'', U8_type, Required), (''transactions'', Array_type, Required)]"
  by code_simp+

lemma esplora_call_complete:
  assumes "lib_ok L" "esplora_target L tgt = Inr model"
    and "if takes_body (rpc_method q) then \<exists>body. q = set_body parse_array model body else q = model"
  shows "request_complete esplora_methods q"
proof -
  have fits: "request_fits esplora_methods [''transaction'', ''transactions''] model"
    by (rule esplora.parse_fits [OF assms(1,2)])
  then obtain decl ps where decl: "map_of esplora_methods (rpc_method model) = Some decl"
    "params model = Some (Named ps)" by (auto simp: request_fits_def)
  note typed = fits_typed [OF fits decl(2,1) query_safeD(1) [OF esplora_query_safe decl(1)]]
  show ?thesis
  proof (cases "takes_body (rpc_method q)")
    case False
    then have q: "q = model" using assms(3) by simp
    have "k \<noteq> ''transaction'' \<and> k \<noteq> ''transactions''" if "(k, t, Required) \<in> set decl" for k t
      using esplora_bodies(1) map_of_SomeD [OF decl(1)] False that q unfolding list_all_iff by fastforce
    then show ?thesis using typed decl q by (fastforce simp: request_complete_def)
  next
    case True
    then obtain body where q: "q = set_body parse_array model body" using assms(3) by auto
    then have m: "rpc_method model = ''broadcast'' \<or> rpc_method model = ''broadcast_package''"
      using True by (simp add: takes_body_def)
    have media: "\<exists>v. ps ''media'' = Some v \<and> has_type v U8_type"
      using typed m decl(1) esplora_bodies(2,3) by auto
    then show ?thesis using m decl esplora_bodies(2,3)
      by (auto simp: request_complete_def q set_body_def)
  qed
qed

text \<open>
  C38: A url that reaches a handler of the native or esplora service carries every argument the
  handler requires, with the type the interface declares: what the path does not supply comes
  from the query string (the media type) or the request body (the transactions of a broadcast).
\<close>

theorem url_calls_complete:
  assumes "lib_ok L"
  shows "(Called q \<in> set (html_get W (native_try Q L) stopped u) \<or> Called q \<in> set (native_frame Q L u) \<longrightarrow>
      request_complete native_methods q) \<and>
    (Called q \<in> set (esplora_get L stopped u) \<or> Called q \<in> set (esplora_post L parse_array stopped u) \<or>
      Called q \<in> set (esplora_frame L parse_array u) \<longrightarrow> request_complete esplora_methods q)"
proof -
  have "request_complete native_methods q" if "Called q \<in> set (html_get W (native_try Q L) stopped u)"
  proof -
    from html_get_called [OF that] obtain as where "native_try Q L u = Some as" "Called q \<in> set as" by blast
    from native_try_called [OF this] obtain model where m: "native_target L (target u) = Inr model"
      "native_query Q L model (target u) (accepts u) = Some q" "get_media Q q \<noteq> media_unknown" by blast
    show ?thesis by (rule native_call_complete [OF assms m(1,2)]) (rule get_media_present [OF m(3)])
  qed
  moreover have "request_complete native_methods q" if "Called q \<in> set (native_frame Q L u)"
    using native_frame_called [OF that] native_call_complete [OF assms] native_query_json_media by metis
  moreover have "request_complete esplora_methods q" if "Called q \<in> set (esplora_get L stopped u)"
    using esplora_get_called [OF that] by (intro esplora_call_complete [OF assms]) auto
  moreover have "request_complete esplora_methods q" if "Called q \<in> set (esplora_post L parse_array stopped u)"
    using esplora_post_called [OF that] esplora_call_complete [OF assms, where parse_array = parse_array] by metis
  moreover have "request_complete esplora_methods q" if "Called q \<in> set (esplora_frame L parse_array u)"
    using esplora_frame_called [OF that] esplora_call_complete [OF assms, where parse_array = parse_array] by metis
  ultimately show ?thesis by blast
qed

definition sample_call :: url_call where
  "sample_call = \<lparr>target = ''/address/1BoatSLRH/utxo'', accepts = [], origin_form = True, url_origin = True,
     url_host = True, url_permitted = (\<lambda>m. True), url_authorized = True, body_text = None,
     url_notify = (\<lambda>q. code_of network_category 0)\<rparr>"

theorem url_calls_complete_witness:
  "request_complete esplora_methods
     (make_request ''address_utxo'' [''address'' \<mapsto> String ''1BoatSLRH'', ''media'' \<mapsto> U8 1])"
proof -
  have "Called (make_request ''address_utxo'' [''address'' \<mapsto> String ''1BoatSLRH'', ''media'' \<mapsto> U8 1]) \<in>
      set (esplora_get sample_lib False sample_call)"
    by (simp add: esplora_get_def esplora_try_def sample_call_def sample_utxo_request takes_body_def code_of_def)
  then show ?thesis using url_calls_complete [OF sample_lib_ok] by blast
qed

theorem url_dispatch_safe_witness:
  "Called (make_request ''address_utxo'' [''address'' \<mapsto> String ''1BoatSLRH'', ''media'' \<mapsto> U8 1]) \<in>
     set (esplora_get sample_lib False sample_call) \<and> url_host sample_call"
proof -
  have "Called (make_request ''address_utxo'' [''address'' \<mapsto> String ''1BoatSLRH'', ''media'' \<mapsto> U8 1]) \<in>
      set (esplora_get sample_lib False sample_call)"
    by (simp add: esplora_get_def esplora_try_def sample_call_def sample_utxo_request takes_body_def code_of_def)
  then show ?thesis
    using url_dispatch_safe [of "make_request ''address_utxo'' [''address'' \<mapsto> String ''1BoatSLRH'', ''media'' \<mapsto> U8 1]"
        _ _ sample_lib False sample_call] by blast
qed

end
