(* ===== verification/Admin_Filter.thy ===== *)
theory Admin_Filter
  imports Url_Dispatch
begin

unbundle bit_operations_syntax

text \<open>
  Log and event subscriptions of the admin service, \<open>protocol_admin.cpp\<close>. A subscription is a
  mask of the levels (or events) to stream, kept in one atomic word whose leftmost bit is a
  sentinel that says whether a handler is registered with the logger. The channel strand updates
  the word; the logger calls the registered handler from its own threads, which reads the
  word and unregisters when the mask has become empty.

  The atomic operations are the steps of the machine: a handler tests that the channel is not stopped
  in one step, loads the word in a second and exchanges it in a third, and any update or stop may come
  between. The logger calls a registered handler one message at a time, and drops it when it returns
  false: when the mask is empty, when the channel is stopped, and when the logger itself has stopped
  and calls it with an error.
\<close>

subsection \<open>The filter word\<close>

text \<open>
  The bit functions of the system library, which index from either end; the sentinel is at offset
  zero from the left.
\<close>

record bit_lib =
  left_bit :: "u64 \<Rightarrow> nat \<Rightarrow> bool"
  with_left :: "u64 \<Rightarrow> nat \<Rightarrow> bool \<Rightarrow> u64"
  right_bit :: "u64 \<Rightarrow> nat \<Rightarrow> bool"

definition bit_laws :: "bit_lib \<Rightarrow> bool" where
  "bit_laws B \<longleftrightarrow>
     (\<forall>w i. i < 64 \<longrightarrow> left_bit B w i = bit w (63 - i) \<and> right_bit B w i = bit w i) \<and>
     (\<forall>w i b n. i < 64 \<longrightarrow> n < 64 \<longrightarrow> bit (with_left B w i b) n = (if n = 63 - i then b else bit w n))"

abbreviation get_left :: "bit_lib \<Rightarrow> u64 \<Rightarrow> bool" where
  "get_left B w \<equiv> left_bit B w 0"

abbreviation set_left :: "bit_lib \<Rightarrow> u64 \<Rightarrow> bool \<Rightarrow> u64" where
  "set_left B w b \<equiv> with_left B w 0 b"

text \<open>Whether to subscribe, the filter reported as the previous one, and the new word.\<close>

definition update_filter :: "bit_lib \<Rightarrow> u64 \<Rightarrow> u64 \<Rightarrow> bool \<times> u64 \<times> u64" where
  "update_filter B new state =
     (let next' = set_left B new True;
          state' = (if new = 0 then state AND next' else next') in
      (new \<noteq> 0 \<and> \<not> get_left B state, set_left B state False, state'))"

text \<open>
  The handler's read, from the word it loaded and the word at the exchange: None to unregister,
  otherwise whether the message passes; and the new word. A failed exchange rereads the word.
\<close>

definition get_filter :: "bit_lib \<Rightarrow> nat \<Rightarrow> u64 \<Rightarrow> u64 \<Rightarrow> bool option \<times> u64" where
  "get_filter B n loaded current =
     (let next' = set_left B loaded False in
      if next' = 0 then
        if current = loaded then (None, next')
        else (Some (right_bit B current n), current)
      else (Some (right_bit B loaded n), current))"

subsection \<open>Handlers\<close>

text \<open>The reply to a subscription, and what a message of the logger posts to the strand, if it stays.\<close>

datatype admin_post = Do_Log u8 u64 string | Do_Event u8 u64 u64

definition subscribe_reply :: "u64 \<Rightarrow> value_t" where
  "subscribe_reply previous = Object [''previous'' \<mapsto> U64 previous]"

definition handle_log ::
  "bool \<Rightarrow> bool \<Rightarrow> bool option \<Rightarrow> u8 \<Rightarrow> u64 \<Rightarrow> string \<Rightarrow> bool \<times> admin_post list" where
  "handle_log stopped websocket filtered level zulu message' =
     (if stopped then (False, [])
      else case filtered of
          None \<Rightarrow> (False, [])
        | Some pass \<Rightarrow>
            (True, if \<not> pass \<or> \<not> websocket then [] else [Do_Log level (zulu * 1000) message']))"

definition handle_event ::
  "bool \<Rightarrow> bool \<Rightarrow> bool option \<Rightarrow> u8 \<Rightarrow> u64 \<Rightarrow> u64 \<Rightarrow> bool \<times> admin_post list" where
  "handle_event stopped websocket filtered event value' zulu =
     (if stopped then (False, [])
      else case filtered of
          None \<Rightarrow> (False, [])
        | Some pass \<Rightarrow>
            (True, if \<not> pass \<or> \<not> websocket then [] else [Do_Event event zulu value']))"

definition do_log :: "bool \<Rightarrow> u8 \<Rightarrow> u64 \<Rightarrow> string \<Rightarrow> value_t list" where
  "do_log stopped level zulu message' =
     (if stopped then []
      else [Object [''level'' \<mapsto> U8 level, ''time'' \<mapsto> U64 zulu, ''message'' \<mapsto> String message']])"

definition do_event :: "bool \<Rightarrow> u8 \<Rightarrow> u64 \<Rightarrow> u64 \<Rightarrow> value_t list" where
  "do_event stopped event zulu value' =
     (if stopped then []
      else [Object [''event'' \<mapsto> U8 event, ''value'' \<mapsto> U64 value', ''time'' \<mapsto> U64 zulu]])"

subsection \<open>The machine\<close>

text \<open>
  \<open>pending\<close> counts the subscriptions the strand has decided on but not yet made, \<open>idle\<close> the
  registered handlers that are not being called, \<open>called\<close> those that found the channel running and have
  not yet read the word, \<open>reading\<close> the loads of those that have.
\<close>

record filter_state =
  filter_word :: u64
  pending :: nat
  idle :: nat
  called :: nat
  reading :: "u64 list"
  passed :: "(nat \<times> bool) list"
  channel_stopped :: bool
  logger_stopped :: bool

definition initial_filter :: filter_state where
  "initial_filter = \<lparr>filter_word = 0, pending = 0, idle = 0, called = 0, reading = [], passed = [],
     channel_stopped = False, logger_stopped = False\<rparr>"

definition handle_subscribe :: "bit_lib \<Rightarrow> u64 \<Rightarrow> filter_state \<Rightarrow> filter_state \<times> u64" where
  "handle_subscribe B new s =
     (case update_filter B new (filter_word s) of (subscribe, previous, state) \<Rightarrow>
        (s\<lparr>filter_word := state, pending := pending s + (if subscribe then 1 else 0)\<rparr>, previous))"

inductive filter_step :: "bit_lib \<Rightarrow> filter_state \<Rightarrow> filter_state \<Rightarrow> bool" for B where
  Update: "\<not> channel_stopped s \<Longrightarrow> new \<le> maximum_filter \<Longrightarrow>
    filter_step B s (fst (handle_subscribe B new s))"
| Register: "pending s > 0 \<Longrightarrow> filter_step B s (s\<lparr>pending := pending s - 1, idle := idle s + 1\<rparr>)"
| Call: "idle s > 0 \<Longrightarrow> \<not> channel_stopped s \<Longrightarrow> \<not> logger_stopped s \<Longrightarrow>
    filter_step B s (s\<lparr>idle := idle s - 1, called := called s + 1\<rparr>)"
| Drop: "idle s > 0 \<Longrightarrow> channel_stopped s \<or> logger_stopped s \<Longrightarrow>
    filter_step B s (s\<lparr>idle := idle s - 1\<rparr>)"
| Load: "called s > 0 \<Longrightarrow>
    filter_step B s (s\<lparr>called := called s - 1, reading := filter_word s # reading s\<rparr>)"
| Exchange: "reading s = xs @ loaded # ys \<Longrightarrow> n < 53 \<Longrightarrow>
    get_filter B n loaded (filter_word s) = (Some pass, w) \<Longrightarrow>
    filter_step B s (s\<lparr>filter_word := w, reading := xs @ ys, idle := idle s + 1, passed := passed s @ [(n, pass)]\<rparr>)"
| Unregister: "reading s = xs @ loaded # ys \<Longrightarrow> n < 53 \<Longrightarrow>
    get_filter B n loaded (filter_word s) = (None, w) \<Longrightarrow>
    filter_step B s (s\<lparr>filter_word := w, reading := xs @ ys\<rparr>)"
| Channel_Stop: "filter_step B s (s\<lparr>channel_stopped := True\<rparr>)"
| Logger_Stop: "filter_step B s (s\<lparr>logger_stopped := True\<rparr>)"

text \<open>
  At most one handler is subscribed or about to be, and while neither end has stopped exactly when the
  sentinel is set; the word holds nothing else than a mask of the published width; a loaded word
  had the sentinel.
\<close>

definition handlers :: "filter_state \<Rightarrow> nat" where
  "handlers s = pending s + idle s + called s + length (reading s)"

definition filter_inv :: "bit_lib \<Rightarrow> filter_state \<Rightarrow> bool" where
  "filter_inv B s \<longleftrightarrow>
     handlers s \<le> (if get_left B (filter_word s) then 1 else 0) \<and>
     (\<not> channel_stopped s \<longrightarrow> \<not> logger_stopped s \<longrightarrow>
        handlers s = (if get_left B (filter_word s) then 1 else 0)) \<and>
     (\<not> get_left B (filter_word s) \<longrightarrow> filter_word s = 0) \<and>
     set_left B (filter_word s) False \<le> maximum_filter \<and> list_all (get_left B) (reading s)"

lemma left_bits:
  assumes "bit_laws B"
  shows "get_left B w = bit w 63" "n < 64 \<Longrightarrow> right_bit B w n = bit w n"
    "n < 64 \<Longrightarrow> bit (set_left B w b) n = (if n = 63 then b else bit w n)"
  using assms by (simp_all add: bit_laws_def)

lemma mask_unset: "w \<le> maximum_filter \<Longrightarrow> \<not> bit w 63"
proof -
  assume "w \<le> maximum_filter"
  then have "unat w < 2 ^ 53" by (simp add: maximum_filter_def word_le_nat_alt)
  then have "\<not> bit (unat w) 63" by (simp add: bit_iff_odd)
  then show ?thesis by (simp add: bit_unsigned_iff)
qed

lemma sentinel:
  assumes "bit_laws B"
  shows "\<not> bit w 63 \<Longrightarrow> set_left B w False = w"
    "set_left B (set_left B w True) False = set_left B w False"
    "set_left B (w AND set_left B 0 True) False = 0"
    "bit (w AND set_left B 0 True) 63 = bit w 63"
    "\<not> bit w 63 \<Longrightarrow> w AND set_left B 0 True = 0"
  using left_bits(3) [OF assms]
  by (auto simp: bit_and_iff split: if_splits intro!: bit_word_eqI)

lemma filter_inv_update:
  assumes laws: "bit_laws B" and inv: "filter_inv B s" and new: "new \<le> maximum_filter"
  shows "filter_inv B (fst (handle_subscribe B new s))"
proof (cases "new = 0")
  case True
  then show ?thesis using inv
    by (auto simp: filter_inv_def handlers_def handle_subscribe_def update_filter_def left_bits(1) [OF laws] Let_def
        sentinel [OF laws])
next
  case False
  have bits: "bit (set_left B new True) 63" "set_left B (set_left B new True) False = new"
    using left_bits(3) [OF laws, of 63] sentinel [OF laws] mask_unset [OF new] by simp_all
  have one: "(if bit (filter_word s) 63 then 1 else 0) + (if \<not> bit (filter_word s) 63 then 1 else 0) = (1 :: nat)"
    by simp
  show ?thesis using inv new False bits
    by (auto simp: filter_inv_def handlers_def handle_subscribe_def update_filter_def left_bits(1) [OF laws] Let_def
        split: if_splits)
qed

lemma filter_inv_step:
  assumes laws: "bit_laws B" and inv: "filter_inv B s" and step: "filter_step B s s'"
  shows "filter_inv B s'"
  using step
proof (cases rule: filter_step.cases)
  case (Update new)
  then show ?thesis using filter_inv_update [OF laws inv] by simp
next
  case (Exchange xs loaded ys n pass w)
  then have "w = filter_word s" by (auto simp: get_filter_def Let_def split: if_splits)
  then show ?thesis using inv Exchange by (auto simp: filter_inv_def handlers_def)
next
  case (Unregister xs loaded ys n w)
  then have "filter_word s = loaded" "w = 0" by (auto simp: get_filter_def Let_def split: if_splits)
  then show ?thesis using inv Unregister
    by (auto simp: filter_inv_def handlers_def left_bits(1) [OF laws] sentinel(1) [OF laws]
        split: if_splits)
qed (use inv in \<open>auto simp: filter_inv_def handlers_def split: if_splits\<close>)

interpretation filters: state_machine "\<lambda>s. s = initial_filter" "\<lambda>s s'. bit_laws B \<and> filter_step B s s'"
  "\<lambda>s. bit_laws B \<longrightarrow> filter_inv B s" for B
proof unfold_locales
  show "s = initial_filter \<Longrightarrow> bit_laws B \<longrightarrow> filter_inv B s" for s
    by (simp add: filter_inv_def handlers_def initial_filter_def left_bits(1) sentinel(1))
  show "bit_laws B \<longrightarrow> filter_inv B s \<Longrightarrow> bit_laws B \<and> filter_step B s s' \<Longrightarrow> bit_laws B \<longrightarrow> filter_inv B s'"
    for s s' using filter_inv_step by blast
qed

text \<open>
  C39: However updates of the filter interleave with the loads and exchanges of the handler and with
  the stop of the channel or the logger, a channel has at most one handler subscribed or about to be,
  and none while the sentinel is clear. Until the channel or the logger stops it has one exactly when the
  sentinel is set: the handler is subscribed again after it unregistered, never twice, and an
  update that finds one does not add another; without a handler the filter is empty. A handler that is
  dropped by a stop leaves the sentinel set.
\<close>

theorem one_log_handler:
  assumes "bit_laws B" "rtranclp (filter_step B) initial_filter s"
  shows "pending s + idle s + called s + length (reading s) \<le> (if get_left B (filter_word s) then 1 else 0) \<and>
    (\<not> channel_stopped s \<and> \<not> logger_stopped s \<longrightarrow>
      pending s + idle s + called s + length (reading s) = (if get_left B (filter_word s) then 1 else 0) \<and>
      (pending s + idle s + called s + length (reading s) = 0 \<longrightarrow> filter_word s = 0))"
proof -
  have "filter_inv B s" using filters.reachable_inv [OF refl, of B s] assms by simp
  then show ?thesis by (auto simp: filter_inv_def handlers_def split: if_splits)
qed

text \<open>A mask that is set while a handler is registered is in effect for its next message.\<close>

lemma filter_in_effect:
  assumes "bit_laws B" "new \<le> maximum_filter" "new \<noteq> 0" "n < 53"
  shows "get_filter B n (filter_word (fst (handle_subscribe B new s))) w = (Some (bit new n), w)"
proof -
  have "set_left B (set_left B new True) False = new" "right_bit B (set_left B new True) n = bit new n"
    using sentinel [OF assms(1)] left_bits [OF assms(1)] mask_unset [OF assms(2)] assms(4) by simp_all
  then show ?thesis using assms(3)
    by (simp add: get_filter_def handle_subscribe_def update_filter_def Let_def)
qed

text \<open>The previous filter that is reported is the mask that was in effect.\<close>

lemma previous_filter:
  assumes "bit_laws B" "new \<le> maximum_filter" "new \<noteq> 0"
  shows "snd (handle_subscribe B new' (fst (handle_subscribe B new s))) = new"
  using assms(3) sentinel [OF assms(1)] mask_unset [OF assms(2)]
  by (simp add: handle_subscribe_def update_filter_def Let_def)

definition sample_bits :: bit_lib where
  "sample_bits = \<lparr>left_bit = (\<lambda>w i. bit w (63 - i)),
     with_left = (\<lambda>w i b. if b then set_bit (63 - i) w else unset_bit (63 - i) w), right_bit = bit\<rparr>"

lemma sample_bit_laws: "bit_laws sample_bits"
  by (auto simp: bit_laws_def sample_bits_def bit_set_bit_iff bit_unset_bit_iff)

theorem one_log_handler_witness:
  "pending (fst (handle_subscribe sample_bits 5 initial_filter)) +
   idle (fst (handle_subscribe sample_bits 5 initial_filter)) +
   called (fst (handle_subscribe sample_bits 5 initial_filter)) +
   length (reading (fst (handle_subscribe sample_bits 5 initial_filter))) = 1"
proof -
  let ?s = "fst (handle_subscribe sample_bits 5 initial_filter)"
  have "(5 :: u64) \<le> maximum_filter" by (simp add: maximum_filter_def)
  then have run: "rtranclp (filter_step sample_bits) initial_filter ?s"
    by (intro r_into_rtranclp Update) (simp_all add: initial_filter_def)
  have "filter_word ?s = set_left sample_bits 5 True"
    by (simp add: handle_subscribe_def update_filter_def Let_def)
  then have "get_left sample_bits (filter_word ?s)"
    by (simp only: left_bits(1) [OF sample_bit_laws] left_bits(3) [OF sample_bit_laws, of 63]) simp
  moreover have "\<not> channel_stopped ?s" "\<not> logger_stopped ?s"
    by (simp_all add: handle_subscribe_def update_filter_def initial_filter_def Let_def)
  ultimately show ?thesis using one_log_handler [OF sample_bit_laws run]
    by (simp only: if_True not_False_eq_True simp_thms)
qed

end
