(* ===== verification/Descriptor.thy ===== *)
theory Descriptor
  imports Address
begin

unbundle bit_operations_syntax

text \<open>
  Output descriptors and their checksum, \<open>utilities/bitcoind_descriptor.cpp\<close>: the bip380 checksum is a
  code over symbols of five bits, kept in the low 40 bits of a 64 bit word. The word operations of the
  system library are the fields of \<open>word_lib\<close> with the laws \<open>word_laws\<close>.
\<close>

subsection \<open>The checksum\<close>

record word_lib =
  bit_xor :: "u64 \<Rightarrow> u64 \<Rightarrow> u64"
  bit_and :: "u64 \<Rightarrow> u64 \<Rightarrow> u64"
  shift_left :: "u64 \<Rightarrow> nat \<Rightarrow> u64"
  shift_right :: "u64 \<Rightarrow> nat \<Rightarrow> u64"
  word_right :: "u64 \<Rightarrow> nat \<Rightarrow> bool"

definition word_laws :: "word_lib \<Rightarrow> bool" where
  "word_laws W \<longleftrightarrow>
     (\<forall>a b. bit_xor W a b = a XOR b) \<and> (\<forall>a b. bit_and W a b = a AND b) \<and>
     (\<forall>a n. n < 64 \<longrightarrow> shift_left W a n = push_bit n a \<and> shift_right W a n = drop_bit n a \<and>
        word_right W a n = bit a n)"

definition poly_mod :: "word_lib \<Rightarrow> u64 \<Rightarrow> u64 \<Rightarrow> u64" where
  "poly_mod W check value' =
     (let out = bit_xor W (shift_left W (bit_and W check 0x00000007ffffffff) 5) value';
          out = (if word_right W check 35 then bit_xor W out 0xf5dee51989 else out);
          out = (if word_right W check 36 then bit_xor W out 0xa9fdca3312 else out);
          out = (if word_right W check 37 then bit_xor W out 0x1bab10e32d else out);
          out = (if word_right W check 38 then bit_xor W out 0x3706b1677a else out);
          out = (if word_right W check 39 then bit_xor W out 0x644d626ffd else out) in
      out)"

definition input_charset :: string where
  "input_charset =
     ''0123456789()[],'' @ [CHR 0x27] @ ''/*abcdefgh@:$%{}'' @
     ''IJKLMNOPQRSTUVWXYZ&+-.;<=>?!^_|~'' @
     ''ijklmnopqrstuvwxyzABCDEFGH'' @ [CHR 0x60] @ ''#'' @ [CHR 0x22, CHR 0x5C, CHR 0x20]"

definition checksum_charset :: string where
  "checksum_charset = ''qpzry9x8gf2tvdw0s3jn54khce6mua7l''"

text \<open>\<open>std::string::find\<close> of a character.\<close>

fun find_char :: "char \<Rightarrow> string \<Rightarrow> nat option" where
  "find_char c [] = None"
| "find_char c (x # xs) = (if x = c then Some 0 else map_option Suc (find_char c xs))"

text \<open>The loop over the characters, from the check, the group and the number grouped so far.\<close>

fun checksum_loop :: "word_lib \<Rightarrow> u64 \<Rightarrow> u64 \<Rightarrow> nat \<Rightarrow> string \<Rightarrow> (u64 \<times> u64 \<times> nat) option" where
  "checksum_loop W check group' grouped [] = Some (check, group', grouped)"
| "checksum_loop W check group' grouped (c # cs) =
     (case find_char c input_charset of
        None \<Rightarrow> None
      | Some position \<Rightarrow>
          let check = poly_mod W check (bit_and W (of_nat position) 31);
              group' = 3 * group' + shift_right W (of_nat position) 5;
              grouped = grouped + 1 in
          if grouped = 3 then checksum_loop W (poly_mod W check group') 0 0 cs
          else checksum_loop W check group' grouped cs)"

definition checksum_text :: "word_lib \<Rightarrow> u64 \<Rightarrow> string" where
  "checksum_text W check =
     map (\<lambda>index. checksum_charset ! unat (bit_and W (shift_right W check (5 * (7 - index))) 31)) [0..<8]"

definition descriptor_checksum :: "word_lib \<Rightarrow> string \<Rightarrow> string" where
  "descriptor_checksum W descriptor =
     (case checksum_loop W 1 0 0 descriptor of
        None \<Rightarrow> []
      | Some (check, group', grouped) \<Rightarrow>
          let check = (if grouped \<noteq> 0 then poly_mod W check group' else check);
              check = ((\<lambda>check. poly_mod W check 0) ^^ 8) check;
              check = bit_xor W check 1 in
          checksum_text W check)"

subsection \<open>Descriptors of scripts\<close>

record 's script_lib =
  public_key :: "'s \<Rightarrow> u8 list"
  multisig_required :: "'s \<Rightarrow> u8"
  multisig_keys :: "'s \<Rightarrow> u8 list list"
  script_data :: "'s \<Rightarrow> u8 list"
  to_base16 :: "u8 list \<Rightarrow> string"
  number_text :: "nat \<Rightarrow> string"
  pay_multisig :: "u8 \<Rightarrow> u8 list list \<Rightarrow> 's"
  is_compressed :: "u8 list \<Rightarrow> bool"
  p2sh_address :: "'s \<Rightarrow> u8 \<Rightarrow> string"
  p2wsh_address :: "'s \<Rightarrow> string \<Rightarrow> string"
  witness_program :: "u8 list \<Rightarrow> 's"
  max_push_data_size :: nat

definition with_checksum :: "word_lib \<Rightarrow> string \<Rightarrow> string" where
  "with_checksum W body = body @ ''#'' @ descriptor_checksum W body"

definition descriptor_body ::
  "('p, 'w, 's) address_lib \<Rightarrow> 's script_lib \<Rightarrow> address_prefixes \<Rightarrow> 's \<Rightarrow> string" where
  "descriptor_body D S pre script =
     (let key = public_key S script; required = multisig_required S script in
      if key \<noteq> [] then ''pk('' @ to_base16 S key @ '')''
      else if required \<noteq> 0 then
        ''multi('' @ number_text S (unat required) @
          concat (map (\<lambda>point'. '','' @ to_base16 S point') (multisig_keys S script)) @ '')''
      else
        let address = to_address D pre script in
        if address = [] then ''raw('' @ to_base16 S (script_data S script) @ '')''
        else ''addr('' @ address @ '')'')"

definition infer_descriptor ::
  "word_lib \<Rightarrow> ('p, 'w, 's) address_lib \<Rightarrow> 's script_lib \<Rightarrow> address_prefixes \<Rightarrow> 's \<Rightarrow> string" where
  "infer_descriptor W D S pre script = with_checksum W (descriptor_body D S pre script)"

text \<open>The points of the keys, None when one is not a public key.\<close>

fun multisig_points :: "('p, 'w, 's) address_lib \<Rightarrow> value_t list \<Rightarrow> u8 list list option" where
  "multisig_points D [] = Some []"
| "multisig_points D (key # rest) =
     (case key of
        String text' \<Rightarrow>
          (case decode_chunk D text' of
             None \<Rightarrow> None
           | Some point' \<Rightarrow>
               if \<not> is_public_key D point' then None
               else map_option (Cons point') (multisig_points D rest))
      | _ \<Rightarrow> None)"

text \<open>The empty object is \<open>None\<close>.\<close>

definition create_multisig ::
  "word_lib \<Rightarrow> ('p, 'w, 's) address_lib \<Rightarrow> 's script_lib \<Rightarrow> (u8 list \<Rightarrow> u8 list) \<Rightarrow> u8 \<Rightarrow> value_t list \<Rightarrow>
   string \<Rightarrow> u8 \<Rightarrow> string \<Rightarrow> object_t option" where
  "create_multisig W D S sha256 required keys address_type p2sh_prefix witness =
     (case multisig_points D keys of
        None \<Rightarrow> None
      | Some points \<Rightarrow>
          let compressed = list_all (is_compressed S) points;
              list' = concat (map (\<lambda>point'. '','' @ to_base16 S point') points);
              multisig = pay_multisig S required points;
              embedded = script_data S multisig;
              type' = (if compressed then address_type else ''legacy'') in
          if type' \<noteq> ''bech32'' \<and> length embedded > max_push_data_size S then None
          else
            let body = ''multi('' @ number_text S (unat required) @ list' @ '')'';
                (address, body) =
                  (if type' = ''legacy'' then (p2sh_address S multisig p2sh_prefix, ''sh('' @ body @ '')'')
                   else if type' = ''bech32'' then (p2wsh_address S multisig witness, ''wsh('' @ body @ '')'')
                   else (p2sh_address S (witness_program S (sha256 embedded)) p2sh_prefix,
                         ''sh(wsh('' @ body @ ''))''));
                result = [''address'' \<mapsto> String address, ''redeemScript'' \<mapsto> String (to_base16 S embedded),
                  ''descriptor'' \<mapsto> String (with_checksum W body)] in
            Some (if type' \<noteq> address_type
                  then result(''warnings'' \<mapsto> Array [String (''Unable to make '' @
                    ''chosen address type, please ensure no uncompressed public keys '' @ ''are present.'')])
                  else result))"

subsection \<open>The code is linear\<close>

definition gate :: "bool \<Rightarrow> u64 \<Rightarrow> u64" where
  "gate b g = (if b then g else 0)"

definition reduction :: "u64 \<Rightarrow> u64" where
  "reduction x = gate (bit x 35) 0xf5dee51989 XOR gate (bit x 36) 0xa9fdca3312 XOR
     gate (bit x 37) 0x1bab10e32d XOR gate (bit x 38) 0x3706b1677a XOR gate (bit x 39) 0x644d626ffd"

definition step :: "u64 \<Rightarrow> u64 \<Rightarrow> u64" where
  "step x v = push_bit 5 (x AND mask 35) XOR v XOR reduction x"

lemma gate_simps [simp]: "gate False g = 0" "gate True g = g"
  by (simp_all add: gate_def)

lemma gate_xor: "gate b g XOR gate c g = gate (b \<noteq> c) g"
  by (cases b; cases c) simp_all

lemma poly_mod_step: "word_laws W \<Longrightarrow> poly_mod W check value' = step check value'"
proof -
  assume laws: "word_laws W"
  have m: "(0x00000007ffffffff :: u64) = mask 35" by (simp add: mask_eq_exp_minus_1)
  have cond: "(if b then x XOR g else x) = x XOR gate b g" for b :: bool and x g :: u64
    by (cases b) simp_all
  show ?thesis
    using laws unfolding poly_mod_def word_laws_def step_def reduction_def m
    by (simp add: cond Let_def ac_simps)
qed

lemma reduction_xor: "reduction (a XOR b) = reduction a XOR reduction b"
proof -
  have "gate (bit (a XOR b) n) g = gate (bit a n) g XOR gate (bit b n) g" for n g
    by (simp add: gate_xor bit_xor_iff)
  then show ?thesis by (simp add: reduction_def ac_simps)
qed

lemma step_xor: "step (a XOR b) (v XOR w) = step a v XOR step b w"
proof -
  have "push_bit 5 ((a XOR b) AND mask 35) =
      push_bit 5 (a AND mask 35) XOR push_bit 5 (b AND mask 35)"
    by (rule bit_word_eqI) (auto simp: bit_simps)
  then show ?thesis by (simp add: step_def reduction_xor ac_simps)
qed

text \<open>A state of the code is a word of 40 bits, a symbol a word of five.\<close>

abbreviation fits :: "nat \<Rightarrow> u64 \<Rightarrow> bool" where
  "fits k x \<equiv> (\<forall>n. bit x n \<longrightarrow> n < k)"

lemma fits_of_nat: "m < 2 ^ k \<Longrightarrow> fits k (of_nat m)"
proof -
  assume "m < 2 ^ k"
  then have "take_bit k m = m" by (simp add: take_bit_nat_eq_self_iff)
  then have "bit m n \<longrightarrow> n < k" for n by (metis bit_take_bit_iff)
  then show ?thesis by (simp add: bit_of_nat_iff)
qed

lemma fits_mono: "fits k x \<Longrightarrow> k \<le> m \<Longrightarrow> fits m x"
  using order.strict_trans2 by blast

lemma fits_gate: "fits 40 g \<Longrightarrow> fits 40 (gate b g)"
  by (simp add: gate_def)

lemma fits_xor: "fits k x \<Longrightarrow> fits k y \<Longrightarrow> fits k (x XOR y)"
  by (auto simp: bit_xor_iff)

lemma fits_reduction: "fits 40 (reduction x)"
proof -
  have g: "fits 40 0xf5dee51989" "fits 40 0xa9fdca3312" "fits 40 0x1bab10e32d" "fits 40 0x3706b1677a"
    "fits 40 0x644d626ffd"
    using fits_of_nat [of "0xf5dee51989" 40] fits_of_nat [of "0xa9fdca3312" 40]
      fits_of_nat [of "0x1bab10e32d" 40] fits_of_nat [of "0x3706b1677a" 40]
      fits_of_nat [of "0x644d626ffd" 40] by simp_all
  show ?thesis unfolding reduction_def by (intro fits_xor fits_gate g)
qed

lemma fits_step: "fits 5 v \<Longrightarrow> fits 40 (step x v)"
  unfolding step_def
  by (intro fits_xor fits_reduction) (auto simp: bit_simps dest: fits_mono [of 5 _ 40])

text \<open>No generator combination vanishes on the five low bits, so a step loses nothing of the state.\<close>

lemma bit_gate: "bit (gate b g) n \<longleftrightarrow> b \<and> bit g n"
  by (simp add: gate_def)

lemma reduction_low:
  assumes "\<And>n. n < 5 \<Longrightarrow> \<not> bit (reduction x) n"
  shows "\<not> bit x 35 \<and> \<not> bit x 36 \<and> \<not> bit x 37 \<and> \<not> bit x 38 \<and> \<not> bit x 39"
proof -
  have bits: "bit x 35 = (bit x 37 \<noteq> bit x 39)" "bit x 36 = bit x 38" "bit x 37 = bit x 39"
    "((bit x 35 \<noteq> bit x 37) \<noteq> bit x 38) = bit x 39" "(bit x 36 \<noteq> bit x 38) = bit x 39"
    using assms [of 0] assms [of 1] assms [of 2] assms [of 3] assms [of 4]
    by (simp_all add: reduction_def bit_xor_iff bit_gate)
  then show ?thesis by blast
qed

lemma step_zero: "fits 40 x \<Longrightarrow> step x 0 = 0 \<Longrightarrow> x = 0"
proof -
  assume f: "fits 40 x" and z: "step x 0 = 0"
  have b: "bit (push_bit 5 (x AND mask 35)) n = bit (reduction x) n" for n
    using arg_cong [OF z, of "\<lambda>w. bit w n"] by (auto simp: step_def bit_xor_iff)
  have hi: "\<not> bit x 35 \<and> \<not> bit x 36 \<and> \<not> bit x 37 \<and> \<not> bit x 38 \<and> \<not> bit x 39"
    by (rule reduction_low) (simp add: b [symmetric] bit_simps)
  then have r: "reduction x = 0" by (simp add: reduction_def)
  have "\<not> bit x n" if "n < 64" for n
  proof (cases "n < 35")
    case True
    then show ?thesis using b [of "n + 5"] r by (simp add: bit_simps)
  next
    case False
    then have "n = 35 \<or> n = 36 \<or> n = 37 \<or> n = 38 \<or> n = 39 \<or> 40 \<le> n" by arith
    then show ?thesis using hi f by auto
  qed
  then show "x = 0" by (intro bit_word_eqI) simp
qed

subsection \<open>Runs of the code\<close>

definition run :: "u64 \<Rightarrow> u64 list \<Rightarrow> u64" where
  "run x vs = fold (\<lambda>v x. step x v) vs x"

lemma run_simps [simp]: "run x [] = x" "run x (v # vs) = run (step x v) vs"
  by (simp_all add: run_def)

lemma run_append [simp]: "run x (vs @ ws) = run (run x vs) ws"
  by (simp add: run_def)

lemma fits_run: "fits 40 x \<Longrightarrow> list_all (fits 5) vs \<Longrightarrow> fits 40 (run x vs)"
proof (induction vs arbitrary: x)
  case (Cons v vs)
  then show ?case using fits_step [of v x] by simp
qed simp

lemma run_xor:
  "length vs = length ws \<Longrightarrow> run x vs XOR run y ws = run (x XOR y) (map2 (XOR) vs ws)"
  by (induction vs ws arbitrary: x y rule: list_induct2) (simp_all add: step_xor)

lemma xor_zeroD: "x XOR y = 0 \<Longrightarrow> x = y" for x y :: u64
proof -
  assume z: "x XOR y = 0"
  have "bit x n = bit y n" for n using arg_cong [OF z, of "\<lambda>w. bit w n"] by (auto simp: bit_xor_iff)
  then show "x = y" by (intro bit_word_eqI) simp
qed

text \<open>States that differ stay different over the same symbols.\<close>

lemma step_inj: "fits 40 x \<Longrightarrow> fits 40 y \<Longrightarrow> step x v = step y v \<Longrightarrow> x = y"
proof -
  assume f: "fits 40 x" "fits 40 y" and e: "step x v = step y v"
  have "step (x XOR y) 0 = 0" using e step_xor [of x y v v] by simp
  then have "x XOR y = 0" using step_zero fits_xor f by blast
  then show ?thesis by (rule xor_zeroD)
qed

lemma run_inj:
  "fits 40 x \<Longrightarrow> fits 40 y \<Longrightarrow> list_all (fits 5) vs \<Longrightarrow> run x vs = run y vs \<Longrightarrow> x = y"
proof (induction vs arbitrary: x y)
  case (Cons v vs)
  then have "step x v = step y v"
    using Cons.IH [of "step x v" "step y v"] fits_step [of v x] fits_step [of v y] by simp
  then show ?case using Cons.prems step_inj by blast
qed simp

text \<open>Up to eight symbols shift into the state without reduction.\<close>

lemma step_shift: "fits 35 x \<Longrightarrow> step x v = push_bit 5 x XOR v"
proof -
  assume f: "fits 35 x"
  then have "x AND mask 35 = x" by (intro bit_word_eqI) (auto simp: bit_simps)
  moreover have "reduction x = 0" using f unfolding reduction_def by (fastforce simp: gate_def)
  ultimately show ?thesis by (simp add: step_def)
qed

lemma run_zero:
  assumes "fits k x" "k + 5 * length vs \<le> 40" "list_all (fits 5) vs" "run x vs = 0"
  shows "x = 0 \<and> (\<forall>v \<in> set vs. v = 0)"
  using assms
proof (induction vs arbitrary: x k)
  case (Cons v vs)
  have f: "fits 35 x" using Cons.prems fits_mono [of x k 35] by simp
  then have st: "step x v = push_bit 5 x XOR v" by (rule step_shift)
  have v: "fits 5 v" using Cons.prems(3) by simp
  have "fits (k + 5) (step x v)"
    using Cons.prems(1) v unfolding st by (fastforce simp: bit_simps)
  then have zero: "step x v = 0" "\<forall>v \<in> set vs. v = 0"
    using Cons.IH [of "step x v" "k + 5"] Cons.prems by simp_all
  have b: "bit (push_bit 5 x) n = bit v n" for n
    using arg_cong [OF zero(1), of "\<lambda>w. bit w n"] by (auto simp: st bit_xor_iff)
  have "\<not> bit v n" for n using b [of n] v by (auto simp: bit_simps)
  moreover have "\<not> bit x n" for n
    using b [of "n + 5"] v f by (auto simp: bit_simps)
  ultimately show ?case using zero(2) by (auto intro: bit_word_eqI)
qed simp

lemma run_distinct:
  assumes "length vs = length ws" "length vs \<le> 8" "list_all (fits 5) vs" "list_all (fits 5) ws"
    and "vs \<noteq> ws"
  shows "run x vs \<noteq> run x ws"
proof
  assume "run x vs = run x ws"
  then have "run 0 (map2 (XOR) vs ws) = 0" using run_xor [OF assms(1), of x x] by simp
  moreover have "list_all (fits 5) (map2 (XOR) vs ws)"
    using assms(1,3,4)
    by (induction vs ws rule: list_induct2) (auto simp: bit_xor_iff)
  ultimately have "\<forall>d \<in> set (map2 (XOR) vs ws). d = 0"
    using run_zero [of 0 0 "map2 (XOR) vs ws"] assms(1,2) by simp
  with assms(1) have "vs = ws"
    by (induction vs ws rule: list_induct2) (auto dest: xor_zeroD)
  with assms(5) show False by contradiction
qed

subsection \<open>The symbols of a descriptor\<close>

text \<open>The symbols that the loop feeds to the code, from the positions of the characters.\<close>

fun symbols :: "nat list \<Rightarrow> nat list" where
  "symbols (a # b # c # ps) =
     a mod 32 # b mod 32 # c mod 32 # (9 * (a div 32) + 3 * (b div 32) + c div 32) # symbols ps"
| "symbols [a, b] = [a mod 32, b mod 32, 3 * (a div 32) + b div 32]"
| "symbols [a] = [a mod 32, a div 32]"
| "symbols [] = []"

definition position :: "char \<Rightarrow> nat" where
  "position c = the (find_char c input_charset)"

lemma find_char_Some: "find_char c xs = Some p \<Longrightarrow> p < length xs \<and> xs ! p = c"
  by (induction xs arbitrary: p) (auto split: if_splits)

lemma find_char_mem: "(\<exists>p. find_char c xs = Some p) \<longleftrightarrow> c \<in> set xs"
  by (induction xs) auto

lemma input_charset_length: "length input_charset = 95"
  by (simp add: input_charset_def)

lemma find_position: "c \<in> set input_charset \<Longrightarrow> find_char c input_charset = Some (position c)"
  unfolding position_def using find_char_mem [of c input_charset] by force

lemma position_bound: "c \<in> set input_charset \<Longrightarrow> position c < 96"
  using find_char_Some [OF find_position] input_charset_length by fastforce

lemma position_inj: "c \<in> set input_charset \<Longrightarrow> d \<in> set input_charset \<Longrightarrow> position c = position d \<Longrightarrow> c = d"
  using find_char_Some [OF find_position] by metis

lemma positions_inj:
  "set cs \<subseteq> set input_charset \<Longrightarrow> set ds \<subseteq> set input_charset \<Longrightarrow> map position cs = map position ds \<Longrightarrow>
   cs = ds"
  by (rule map_inj_on [of position]) (auto simp: inj_on_def intro: position_inj)

lemma symbols_append: "3 dvd length ps \<Longrightarrow> symbols (ps @ qs) = symbols ps @ symbols qs"
proof (induction ps rule: symbols.induct)
  case (1 a b c ps)
  then have "3 dvd length ps" using dvd_add_right_iff [of 3 3 "length ps"] by (simp add: numeral_3_eq_3)
  then show ?case using 1 by simp
qed (auto dest: dvd_imp_le)

lemma symbols_small: "\<forall>p \<in> set ps. p < 96 \<Longrightarrow> s \<in> set (symbols ps) \<Longrightarrow> s < 32"
proof (induction ps rule: symbols.induct)
  case (1 a b c ps)
  then have "a div 32 < 3" "b div 32 < 3" "c div 32 < 3" by auto
  then show ?case using 1 by auto
qed auto

lemma symbols_length: "length ps \<le> 6 \<Longrightarrow> length (symbols ps) \<le> 8"
proof -
  have "3 * length (symbols ps) \<le> 4 * length ps + 2"
    by (induction ps rule: symbols.induct) auto
  then show "length ps \<le> 6 \<Longrightarrow> ?thesis" by simp
qed

lemma length3: "length qs = Suc (Suc (Suc n)) \<Longrightarrow> \<exists>a b c qs'. qs = a # b # c # qs'"
  by (simp add: length_Suc_conv) blast

lemma symbols_length_eq: "length ps = length qs \<Longrightarrow> length (symbols ps) = length (symbols qs)"
proof (induction ps arbitrary: qs rule: symbols.induct)
  case (1 a b c ps)
  then obtain a' b' c' qs' where "qs = a' # b' # c' # qs'"
    using length3 [of qs "length ps"] by force
  then show ?case using 1 by simp
qed (auto simp: length_Suc_conv Suc_length_conv)

lemma quot_eq: "p mod 32 = q mod 32 \<Longrightarrow> p div 32 = q div 32 \<Longrightarrow> p = q" for p q :: nat
  by (metis div_mod_decomp)

lemma digit: "c < 3 \<Longrightarrow> c' < 3 \<Longrightarrow> 3 * m + c = 3 * m' + c' \<Longrightarrow> m = m' \<and> c = c'" for c m :: nat
  by presburger

lemma digits3:
  "a < 3 \<Longrightarrow> b < 3 \<Longrightarrow> c < 3 \<Longrightarrow> a' < 3 \<Longrightarrow> b' < 3 \<Longrightarrow> c' < 3 \<Longrightarrow>
   9 * a + 3 * b + c = 9 * a' + 3 * b' + c' \<Longrightarrow> a = a' \<and> b = b' \<and> c = c'" for a b c :: nat
  using digit [of c c' "3 * a + b" "3 * a' + b'"] digit [of b b' a a'] by simp

lemma symbols_inj:
  "length ps = length qs \<Longrightarrow> \<forall>p \<in> set ps. p < 96 \<Longrightarrow> \<forall>q \<in> set qs. q < 96 \<Longrightarrow> symbols ps = symbols qs \<Longrightarrow>
   ps = qs"
proof (induction ps arbitrary: qs rule: symbols.induct)
  case (1 a b c ps)
  then obtain a' b' c' qs' where q: "qs = a' # b' # c' # qs'"
    using length3 [of qs "length ps"] by force
  have "a div 32 < 3" "b div 32 < 3" "c div 32 < 3" "a' div 32 < 3" "b' div 32 < 3" "c' div 32 < 3"
    using "1.prems"(2,3) q by auto
  moreover have "9 * (a div 32) + 3 * (b div 32) + c div 32 = 9 * (a' div 32) + 3 * (b' div 32) + c' div 32"
    using "1.prems"(4) q by simp
  ultimately have "a div 32 = a' div 32" "b div 32 = b' div 32" "c div 32 = c' div 32"
    using digits3 by blast+
  moreover have "a mod 32 = a' mod 32" "b mod 32 = b' mod 32" "c mod 32 = c' mod 32" "symbols ps = symbols qs'"
    using "1.prems"(4) q by simp_all
  moreover from this have "ps = qs'" using "1.IH" [of qs'] "1.prems"(1-3) q by simp
  ultimately show ?case using q quot_eq by blast
next
  case (2 a b)
  then obtain a' b' where q: "qs = [a', b']" by (auto simp: length_Suc_conv Suc_length_conv)
  have "a div 32 < 3" "b div 32 < 3" "a' div 32 < 3" "b' div 32 < 3"
    using "2.prems"(2,3) q by auto
  moreover have "3 * (a div 32) + b div 32 = 3 * (a' div 32) + b' div 32"
    using "2.prems"(4) q by simp
  ultimately have "a div 32 = a' div 32" "b div 32 = b' div 32" using digit by blast+
  moreover have "a mod 32 = a' mod 32" "b mod 32 = b' mod 32"
    using "2.prems"(4) q by simp_all
  ultimately show ?case using q quot_eq by blast
next
  case (3 a)
  then obtain a' where q: "qs = [a']" by (auto simp: length_Suc_conv Suc_length_conv)
  then show ?case using 3(4) quot_eq [of a a'] by simp
qed simp

subsection \<open>The checksum of the symbols\<close>

lemma symbol_words:
  assumes "word_laws W" "p < 96"
  shows "bit_and W (of_nat p) 31 = of_nat (p mod 32)" "shift_right W (of_nat p) 5 = of_nat (p div 32)"
proof -
  have m: "(31 :: u64) = mask 5" by (simp add: mask_eq_exp_minus_1)
  show "bit_and W (of_nat p) 31 = of_nat (p mod 32)"
    using assms(1) by (simp add: word_laws_def m take_bit_eq_mask [symmetric] take_bit_of_nat)
      (simp add: take_bit_eq_mod)
  have "shift_right W (of_nat p) 5 = drop_bit 5 (of_nat p)" using assms(1) by (simp add: word_laws_def)
  moreover have "unat (drop_bit 5 (of_nat p) :: u64) = p div 32"
    using assms(2) by (simp only: unat_drop_bit_eq) (simp add: unat_of_nat drop_bit_eq_div)
  ultimately show "shift_right W (of_nat p) 5 = of_nat (p div 32)" by (metis of_nat_unat ucast_id)
qed

lemma loop_run:
  assumes "word_laws W" "set d \<subseteq> set input_charset"
  shows "\<exists>check g k. checksum_loop W x 0 0 d = Some (check, g, k) \<and>
    (if k \<noteq> 0 then step check g else check) = run x (map of_nat (symbols (map position d)))"
  using assms(2)
proof (induction "map position d" arbitrary: d x rule: symbols.induct)
  case (1 a b c ps)
  then obtain a' b' c' e where d: "d = a' # b' # c' # e" by (auto simp: map_eq_Cons_conv)
  then show ?case using 1 assms(1)
    by (simp add: find_position symbol_words position_bound poly_mod_step Let_def algebra_simps)
next
  case (2 a b)
  then obtain a' b' where d: "d = [a', b']" by (auto simp: map_eq_Cons_conv)
  then show ?case using 2 assms(1)
    by (simp add: find_position symbol_words position_bound poly_mod_step Let_def algebra_simps)
next
  case (3 a)
  then obtain a' where d: "d = [a']" by (auto simp: map_eq_Cons_conv)
  then show ?case using 3 assms(1)
    by (simp add: find_position symbol_words position_bound poly_mod_step Let_def)
next
  case 4
  then show ?case by simp
qed

definition words_of :: "string \<Rightarrow> u64 list" where
  "words_of d = map of_nat (symbols (map position d))"

definition syndrome :: "string \<Rightarrow> u64" where
  "syndrome d = run 1 (words_of d @ replicate 8 0)"

lemma checksum_syndrome:
  assumes "word_laws W" "set d \<subseteq> set input_charset"
  shows "descriptor_checksum W d = checksum_text W (syndrome d XOR 1)"
proof -
  have pad: "((\<lambda>check. step check 0) ^^ n) x = run x (replicate n 0)" for n x
  proof (induction n arbitrary: x)
    case (Suc n)
    then show ?case by (simp only: funpow_Suc_right o_apply replicate.simps run_simps)
  qed simp
  have x1: "bit_xor W a 1 = a XOR 1" for a using assms(1) by (simp add: word_laws_def)
  obtain check g k where l: "checksum_loop W 1 0 0 d = Some (check, g, k)"
    "(if k \<noteq> 0 then step check g else check) = run 1 (words_of d)"
    using loop_run [OF assms] unfolding words_of_def by blast
  then show ?thesis
    by (simp only: poly_mod_step [OF assms(1)] descriptor_checksum_def syndrome_def pad x1 Let_def option.case prod.case run_append)
qed

lemma checksum_charset_props: "distinct checksum_charset" "length checksum_charset = 32"
  by (simp_all add: checksum_charset_def)

definition chunk :: "u64 \<Rightarrow> nat \<Rightarrow> nat" where
  "chunk x i = unat (take_bit 5 (drop_bit (5 * (7 - i)) x))"

lemma chunk_bound: "chunk x i < 32"
proof -
  have "chunk x i = take_bit 5 (unat (drop_bit (5 * (7 - i)) x))" by (simp add: chunk_def unsigned_take_bit_eq)
  then show ?thesis using take_bit_nat_less_exp [of 5] by simp
qed

lemma checksum_text_chunks:
  "word_laws W \<Longrightarrow> checksum_text W x = map (\<lambda>i. checksum_charset ! chunk x i) [0..<8]"
proof -
  assume laws: "word_laws W"
  have m: "(31 :: u64) = mask 5" by (simp add: mask_eq_exp_minus_1)
  have "unat (bit_and W (shift_right W x (5 * (7 - i))) 31) = chunk x i" for i
    using laws by (simp add: word_laws_def chunk_def m take_bit_eq_mask [symmetric])
  then show ?thesis by (simp add: checksum_text_def)
qed

lemma chunks_inj:
  assumes "fits 40 x" "fits 40 y" "\<And>i. i < 8 \<Longrightarrow> chunk x i = chunk y i"
  shows "x = y"
proof (rule bit_word_eqI)
  fix n assume "n < LENGTH(64)"
  have c: "take_bit 5 (drop_bit (5 * (n div 5)) x) = take_bit 5 (drop_bit (5 * (n div 5)) y)" if "n < 40"
    using assms(3) [of "7 - n div 5"] that by (simp add: chunk_def word_unat_eq_iff)
  have n: "n = 5 * (n div 5) + n mod 5" by simp
  show "bit x n = bit y n"
  proof (cases "n < 40")
    case True
    have "n mod 5 < 5" by simp
    then have "bit x (5 * (n div 5) + n mod 5) = bit y (5 * (n div 5) + n mod 5)"
      using arg_cong [OF c [OF True], of "\<lambda>w. bit w (n mod 5)"] by (simp only: bit_take_bit_iff bit_drop_bit_eq o_apply simp_thms)
    then show ?thesis by simp
  qed (use assms(1,2) in blast)
qed

lemma checksum_text_inj:
  assumes "word_laws W" "fits 40 x" "fits 40 y" "checksum_text W x = checksum_text W y"
  shows "x = y"
proof (rule chunks_inj [OF assms(2,3)])
  fix i :: nat assume i: "i < 8"
  have "checksum_charset ! chunk x i = checksum_charset ! chunk y i"
    using arg_cong [OF assms(4), of "\<lambda>t. t ! i"] i by (simp add: checksum_text_chunks [OF assms(1)])
  then show "chunk x i = chunk y i"
    using nth_eq_iff_index_eq [OF checksum_charset_props(1)] chunk_bound checksum_charset_props(2) by metis
qed

subsection \<open>What the checksum detects\<close>

lemma fits_one: "fits 40 1"
  using fits_of_nat [of 1 40] by simp

lemma positions_small: "set d \<subseteq> set input_charset \<Longrightarrow> \<forall>p \<in> set (map position d). p < 96"
  using position_bound by auto

lemma fits_words: "set d \<subseteq> set input_charset \<Longrightarrow> list_all (fits 5) (words_of d)"
proof -
  assume "set d \<subseteq> set input_charset"
  then have "s < 32" if "s \<in> set (symbols (map position d))" for s
    using symbols_small positions_small that by blast
  then have "fits 5 (of_nat s)" if "s \<in> set (symbols (map position d))" for s
    using fits_of_nat [of s 5] that by simp
  then show ?thesis unfolding list_all_iff words_of_def by fastforce
qed

lemma words_distinct:
  assumes "set g \<subseteq> set input_charset" "set g' \<subseteq> set input_charset" "length g = length g'" "g \<noteq> g'"
  shows "words_of g \<noteq> words_of g'"
proof
  assume eq: "words_of g = words_of g'"
  have "inj_on (of_nat :: nat \<Rightarrow> u64) {..<32}"
    by (rule inj_onI) (simp add: word_of_nat_eq_iff take_bit_nat_eq_self_iff [THEN iffD2])
  moreover have "set (symbols (map position c)) \<subseteq> {..<32}" if "set c \<subseteq> set input_charset" for c
    using symbols_small positions_small that by blast
  ultimately have "symbols (map position g) = symbols (map position g')"
    using eq assms(1,2) unfolding words_of_def by (metis map_inj_on inj_on_subset le_sup_iff)
  then have "map position g = map position g'"
    using symbols_inj assms(3) positions_small assms(1,2) by (metis length_map)
  then show False using positions_inj assms by blast
qed

lemma words_length: "length g \<le> 6 \<Longrightarrow> length (words_of g) \<le> 8"
  using symbols_length [of "map position g"] by (simp add: words_of_def)

lemma words_length_eq: "length g = length g' \<Longrightarrow> length (words_of g) = length (words_of g')"
  using symbols_length_eq [of "map position g" "map position g'"] by (simp add: words_of_def)

lemma fits_syndrome: "set d \<subseteq> set input_charset \<Longrightarrow> fits 40 (syndrome d)"
  unfolding syndrome_def by (rule fits_run [OF fits_one]) (simp add: fits_words [unfolded list_all_iff] list_all_iff)

lemma checksum_eq_syndrome:
  assumes "word_laws W" "set d \<subseteq> set input_charset" "set d' \<subseteq> set input_charset"
    and "descriptor_checksum W d = descriptor_checksum W d'"
  shows "syndrome d = syndrome d'"
proof -
  have "syndrome d XOR 1 = syndrome d' XOR 1"
    using assms checksum_text_inj [OF assms(1)] fits_xor [OF fits_syndrome fits_one] checksum_syndrome
    by (metis (no_types, lifting))
  then show ?thesis by (metis xor.right_neutral xor.assoc xor_self_eq)
qed

text \<open>The symbols of a descriptor, split around two groups of three characters.\<close>

lemma words_split:
  "words_of d = words_of (take (3 * k) d) @ words_of (take 6 (drop (3 * k) d)) @ words_of (drop (3 * k + 6) d)"
proof -
  have split: "words_of c = words_of (take (3 * j) c) @ words_of (drop (3 * j) c)" for j c
  proof (cases "3 * j \<le> length c")
    case True
    then show ?thesis
      using symbols_append [of "map position (take (3 * j) c)" "map position (drop (3 * j) c)"]
      by (simp add: words_of_def min_def flip: map_append)
  qed (simp add: words_of_def)
  show ?thesis using split [of d k] split [of "drop (3 * k) d" 2] by (simp add: add.commute)
qed

lemma outside_equal:
  assumes "length d = length d'" "\<And>i. i < length d \<Longrightarrow> d ! i \<noteq> d' ! i \<Longrightarrow> i div 3 = k \<or> i div 3 = k + 1"
  shows "take (3 * k) d = take (3 * k) d'" "drop (3 * k + 6) d = drop (3 * k + 6) d'"
proof -
  have same: "d ! i = d' ! i" if "i < length d" "i < 3 * k \<or> 3 * k + 6 \<le> i" for i
  proof (rule ccontr)
    assume "d ! i \<noteq> d' ! i"
    then have "i div 3 = k \<or> i div 3 = k + 1" using assms(2) that(1) by blast
    then show False using that(2) by auto
  qed
  show "take (3 * k) d = take (3 * k) d'" by (rule nth_equalityI) (use assms(1) same in auto)
  show "drop (3 * k + 6) d = drop (3 * k + 6) d'" by (rule nth_equalityI) (use assms(1) same in auto)
qed

text \<open>
  C19: A descriptor and its corruption that differ only within two adjacent groups of three
  characters, so any substitution of one character, any swap of neighbours and any burst of up to four
  characters, have different checksums.
\<close>

theorem checksum_detects:
  assumes laws: "word_laws W" and len: "length d = length d'" and ne: "d \<noteq> d'"
    and chars: "set d \<subseteq> set input_charset" "set d' \<subseteq> set input_charset"
    and near: "\<And>i. i < length d \<Longrightarrow> d ! i \<noteq> d' ! i \<Longrightarrow> i div 3 = k \<or> i div 3 = k + 1"
  shows "descriptor_checksum W d \<noteq> descriptor_checksum W d'"
proof
  assume "descriptor_checksum W d = descriptor_checksum W d'"
  then have syn: "syndrome d = syndrome d'" using checksum_eq_syndrome laws chars by blast
  let ?pre = "take (3 * k) d" and ?suf = "drop (3 * k + 6) d"
  let ?g = "take 6 (drop (3 * k) d)" and ?g' = "take 6 (drop (3 * k) d')"
  have sub: "set ?pre \<subseteq> set input_charset" "set ?suf \<subseteq> set input_charset" "set ?g \<subseteq> set input_charset"
    "set ?g' \<subseteq> set input_charset"
    using chars by (meson set_take_subset set_drop_subset order_trans)+
  note out = outside_equal [OF len near]
  have neq: "?g \<noteq> ?g'"
  proof
    assume "?g = ?g'"
    then have "drop (3 * k) d = drop (3 * k) d'"
      using out(2) append_take_drop_id [of 6 "drop (3 * k) d"] append_take_drop_id [of 6 "drop (3 * k) d'"]
      by (simp add: add.commute)
    then show False using out(1) ne append_take_drop_id by metis
  qed
  let ?x = "run 1 (words_of ?pre)"
  have fx: "fits 40 ?x" by (rule fits_run [OF fits_one fits_words [OF sub(1)]])
  have "run (run ?x (words_of ?g)) (words_of ?suf @ replicate 8 0) =
      run (run ?x (words_of ?g')) (words_of ?suf @ replicate 8 0)"
    using syn words_split [of d k] words_split [of d' k] out by (simp add: syndrome_def)
  moreover have "list_all (fits 5) (words_of ?suf @ replicate 8 0)"
    using fits_words [OF sub(2)] by (simp add: list_all_iff)
  ultimately have "run ?x (words_of ?g) = run ?x (words_of ?g')"
    using run_inj fits_run [OF fx fits_words [OF sub(3)]] fits_run [OF fx fits_words [OF sub(4)]] by blast
  moreover have "length ?g = length ?g'" using len by simp
  ultimately show False
    using run_distinct [OF words_length_eq words_length fits_words fits_words words_distinct] sub neq
    by (metis length_take min.cobounded2)
qed

definition std_words :: word_lib where
  "std_words = \<lparr>bit_xor = (XOR), bit_and = (AND), shift_left = (\<lambda>a n. push_bit n a),
     shift_right = (\<lambda>a n. drop_bit n a), word_right = (\<lambda>a n. bit a n)\<rparr>"

lemma std_words_laws: "word_laws std_words"
  by (simp add: word_laws_def std_words_def)

theorem checksum_detects_witness:
  "descriptor_checksum std_words ''raw(51)'' \<noteq> descriptor_checksum std_words ''raw(15)''"
proof (rule checksum_detects [where k = 1])
  show "set ''raw(51)'' \<subseteq> set input_charset" "set ''raw(15)'' \<subseteq> set input_charset"
    by (simp_all add: input_charset_def)
  fix i assume i: "i < length ''raw(51)''" and d: "''raw(51)'' ! i \<noteq> ''raw(15)'' ! i"
  then have "i = 0 \<or> i = 1 \<or> i = 2 \<or> i = 3 \<or> i = 4 \<or> i = 5 \<or> i = 6" by simp arith
  then show "i div 3 = 1 \<or> i div 3 = 1 + 1" using d by (elim disjE) simp_all
qed (simp_all add: std_words_laws)

subsection \<open>The descriptors of the server carry a checksum\<close>

lemma checksum_loop_invalid: "\<not> set d \<subseteq> set input_charset \<Longrightarrow> checksum_loop W x g k d = None"
proof (induction d arbitrary: x g k)
  case (Cons c d)
  then show ?case using find_char_mem [of c input_charset]
    by (cases "find_char c input_charset") (auto simp: Let_def)
qed simp

text \<open>A text with a character outside of the charset has no checksum, any other one of eight characters.\<close>

lemma checksum_empty: "\<not> set d \<subseteq> set input_charset \<Longrightarrow> descriptor_checksum W d = []"
  by (simp add: descriptor_checksum_def checksum_loop_invalid)

lemma checksum_shape:
  assumes "word_laws W" "set d \<subseteq> set input_charset"
  shows "length (descriptor_checksum W d) = 8" "set (descriptor_checksum W d) \<subseteq> set checksum_charset"
proof -
  have c: "descriptor_checksum W d = map (\<lambda>i. checksum_charset ! chunk (syndrome d XOR 1) i) [0..<8]"
    by (simp only: checksum_syndrome [OF assms] checksum_text_chunks [OF assms(1)])
  show "length (descriptor_checksum W d) = 8" unfolding c by simp
  show "set (descriptor_checksum W d) \<subseteq> set checksum_charset"
    unfolding c using chunk_bound checksum_charset_props(2) by (auto simp del: upt_rec_numeral)
qed

text \<open>The texts of the library: lower case base16, decimal numbers and encoded addresses.\<close>

definition base16_charset :: string where
  "base16_charset = ''0123456789abcdef''"

definition text_laws :: "('p, 'w, 's) address_lib \<Rightarrow> 's script_lib \<Rightarrow> address_prefixes \<Rightarrow> bool" where
  "text_laws D S pre \<longleftrightarrow>
     (\<forall>data. set (to_base16 S data) \<subseteq> set base16_charset) \<and>
     (\<forall>n. set (number_text S n) \<subseteq> set ''0123456789'') \<and>
     (\<forall>pay. set (payment_encoded D pay) \<subseteq> set input_charset) \<and>
     (\<forall>script. set (program_address D script (witness_hrp pre)) \<subseteq> set input_charset)"

lemma base16_input: "set base16_charset \<subseteq> set input_charset" "set ''0123456789'' \<subseteq> set input_charset"
  by (simp_all add: base16_charset_def input_charset_def)

lemma body_chars:
  "set ''pk('' \<subseteq> set input_charset" "set ''multi('' \<subseteq> set input_charset" "set ''raw('' \<subseteq> set input_charset"
  "set ''addr('' \<subseteq> set input_charset" "set '')'' \<subseteq> set input_charset" "set '','' \<subseteq> set input_charset"
  by (simp_all add: input_charset_def)

text \<open>
  The descriptor of every script is a body in the descriptor charset, the separator and the
  eight characters of the checksum of that body.
\<close>

theorem inferred_descriptor_checked:
  assumes "word_laws W" "text_laws D S pre"
  shows "\<exists>body. infer_descriptor W D S pre script = body @ ''#'' @ descriptor_checksum W body \<and>
    set body \<subseteq> set input_charset \<and> length (descriptor_checksum W body) = 8"
proof -
  note laws = assms(2) [unfolded text_laws_def]
  have t: "set (to_base16 S data) \<subseteq> set input_charset" "set (number_text S n) \<subseteq> set input_charset" for data n
    using laws base16_input order_trans by metis+
  have address: "set (to_address D pre script) \<subseteq> set input_charset"
    using laws by (cases "extract_output D script (p2kh pre) (p2sh pre)") (simp_all add: to_address_def)
  have list: "set (concat (map (\<lambda>p. '','' @ to_base16 S p) ps)) \<subseteq> set input_charset" for ps
    using t(1) body_chars(6) by (auto simp del: set_simps) (auto simp: subset_iff)
  have "set (descriptor_body D S pre script) \<subseteq> set input_charset"
    unfolding descriptor_body_def Let_def
    by (auto simp only: set_append Un_subset_iff t address list body_chars split: if_split)
  then show ?thesis
    unfolding infer_descriptor_def with_checksum_def using checksum_shape(1) [OF assms(1)] by blast
qed

definition sample_scripts :: "u8 list script_lib" where
  "sample_scripts = \<lparr>public_key = (\<lambda>s. []), multisig_required = (\<lambda>s. 0), multisig_keys = (\<lambda>s. []),
     script_data = (\<lambda>s. s), to_base16 = concat \<circ> map (\<lambda>b. if b = 81 then ''51'' else ''00''),
     number_text = (\<lambda>n. ''0''), pay_multisig = (\<lambda>n keys. n # concat keys), is_compressed = (\<lambda>k. length k = 33),
     p2sh_address = (\<lambda>s p. ''3''), p2wsh_address = (\<lambda>s p. ''bc1''), witness_program = (\<lambda>h. 0 # h),
     max_push_data_size = 520\<rparr>"

definition sample_addresses :: "(nat, nat, u8 list) address_lib" where
  "sample_addresses = \<lparr>payment_address = (\<lambda>t. None), payment_prefix = (\<lambda>p. 0), payment_script = (\<lambda>p a b. []),
     payment_encoded = (\<lambda>p. ''1''), extract_output = (\<lambda>s a b. None), witness_address = (\<lambda>t. None),
     witness_prefix = (\<lambda>w. ''bc''), witness_script = (\<lambda>w. []), script_version = (\<lambda>s. 255), unversioned = 255,
     program_address = (\<lambda>s p. ''bc1''), script_sha = (\<lambda>s. 0), decode_chunk = (\<lambda>t. None),
     is_public_key = (\<lambda>k. True), pay_public_key = (\<lambda>k. k), pay_key_hash = (\<lambda>k. k),
     decode_digest = (\<lambda>t. None), to_uint32 = (\<lambda>d. None)\<rparr>"

definition sample_prefixes :: address_prefixes where
  "sample_prefixes = \<lparr>p2kh = 0, p2sh = 5, witness_hrp = ''bc''\<rparr>"

theorem inferred_descriptor_checked_witness:
  "\<exists>body. infer_descriptor std_words sample_addresses sample_scripts sample_prefixes [81] =
     body @ ''#'' @ descriptor_checksum std_words body \<and> set body \<subseteq> set input_charset \<and>
     length (descriptor_checksum std_words body) = 8"
proof (rule inferred_descriptor_checked [OF std_words_laws])
  show "text_laws sample_addresses sample_scripts sample_prefixes"
    by (auto simp: text_laws_def sample_addresses_def sample_scripts_def sample_prefixes_def base16_charset_def
        input_charset_def)
qed

end
