(* ===== verification/Sparrow.thy ===== *)
theory Sparrow
  imports Electrum_Subscribe "HOL-Library.Char_ord" "HOL-Library.List_Lexorder"
begin

text \<open>
  Silent payment subscriptions of the sparrow service, \<open>protocol_sparrow.cpp\<close>. The archive keeps rows
  of silent payment data that are written behind a frontier; a subscription has a cursor into the
  rows and is scanned up to the frontier when it is made and at every chase event. The functions of the
  system library are the fields of \<open>silent_lib\<close>, with \<open>'k\<close> its scanner; the archive is a
  \<open>silent_view\<close>, read anew by every job of the notification strand.
\<close>

subsection \<open>Data\<close>

record silent_cut =
  cut_start :: u64
  cut_stop :: u64
  cut_time :: bool

definition empty_cut :: silent_cut where
  "empty_cut = \<lparr>cut_start = 0, cut_stop = max_size_t, cut_time = False\<rparr>"

record 'k silent_subscription =
  scanner :: 'k
  subscription :: object_t
  cut :: silent_cut
  silent_cursor :: u64

type_synonym silent_match = "u64 \<times> hash_digest \<times> string"

record 'k silent_lib =
  decode_secret :: "string \<Rightarrow> hash_digest option"
  decode_point :: "string \<Rightarrow> (u8 list) option"
  verify_secret :: "hash_digest \<Rightarrow> bool"
  secret_to_public :: "hash_digest \<Rightarrow> (u8 list) option"
  silent_address :: "u8 list \<Rightarrow> u8 list \<Rightarrow> string"
  silent_scanner :: "hash_digest \<Rightarrow> u8 list \<Rightarrow> u32 list \<Rightarrow> 'k"
  scanner_valid :: "'k \<Rightarrow> bool"
  distinct_labels :: "u32 list \<Rightarrow> u32 list"
  split_dash :: "string \<Rightarrow> string list"
  deserialize_size :: "string \<Rightarrow> u64 option"
  number_to_u32 :: "double \<Rightarrow> u32 option"
  locktime_threshold :: u64
  hash_text :: "hash_digest \<Rightarrow> string"
  ratio :: "nat \<Rightarrow> nat \<Rightarrow> double"
  one_double :: double
  silent_depth_limited :: code

record 'k silent_view =
  silent_enabled :: bool
  get_silent_floor :: "u64 \<Rightarrow> bool \<Rightarrow> u64"
  get_silent_frontier :: "u64 \<Rightarrow> u64"
  get_silent_matches :: "'k \<Rightarrow> u64 \<Rightarrow> u64 \<Rightarrow> silent_cut \<Rightarrow> silent_match list option"

datatype 'k silent_job =
    Do_Silent
  | Do_Silent_Subscribe string "'k silent_subscription"
  | Do_Silent_Unsubscribe string

datatype silent_posted =
    Complete_Silent_Subscribe code object_t
  | Complete_Silent_Unsubscribe value_t
  | Silent_Notify object_t double array_t

record 'k sparrow_state =
  queued_silent :: bool
  subscribed_silent :: bool
  silent_subscriptions :: "(string \<times> 'k silent_subscription) list"

definition initial_sparrow :: "'k sparrow_state" where
  "initial_sparrow = \<lparr>queued_silent = False, subscribed_silent = False, silent_subscriptions = []\<rparr>"

subsection \<open>Arguments\<close>

definition to_cut :: "'k silent_lib \<Rightarrow> value_t \<Rightarrow> silent_cut option" where
  "to_cut L value' =
     (case value' of
        Null \<Rightarrow> Some empty_cut
      | Number number \<Rightarrow>
          (case number_to_u32 L number of
             None \<Rightarrow> None
           | Some height_or_time \<Rightarrow>
               let start = ucast height_or_time in
               Some (empty_cut\<lparr>cut_start := start, cut_time := start \<ge> locktime_threshold L\<rparr>))
      | String text' \<Rightarrow>
          let parts = split_dash L text' in
          if length parts \<noteq> 2 then None
          else (case (deserialize_size L (hd parts), deserialize_size L (last parts)) of
              (Some start, Some stop) \<Rightarrow>
                if start > stop then None
                else
                  let time = (start \<ge> locktime_threshold L) in
                  if time = (stop \<ge> locktime_threshold L)
                  then Some \<lparr>cut_start = start, cut_stop = stop, cut_time = time\<rparr> else None
            | _ \<Rightarrow> None)
      | _ \<Rightarrow> None)"

fun label_values :: "'k silent_lib \<Rightarrow> value_t list \<Rightarrow> u32 list option" where
  "label_values L [] = Some []"
| "label_values L (label # labels) =
     (case label of
        Number number \<Rightarrow>
          (case number_to_u32 L number of
             None \<Rightarrow> None
           | Some v \<Rightarrow> map_option (Cons v) (label_values L labels))
      | _ \<Rightarrow> None)"

definition to_labels :: "'k silent_lib \<Rightarrow> value_t list \<Rightarrow> u32 list option" where
  "to_labels L labels = map_option (\<lambda>vs. distinct_labels L (0 # vs)) (label_values L labels)"

definition sparrow_address :: "'k silent_lib \<Rightarrow> hash_digest \<Rightarrow> u8 list \<Rightarrow> string" where
  "sparrow_address L scan spend =
     (case secret_to_public L scan of None \<Rightarrow> [] | Some key \<Rightarrow> silent_address L key spend)"

subsection \<open>Request handlers\<close>

datatype 'k silent_reaction =
    Silent_Ignored | Silent_Code code | Silent_Post "'k silent_job"

definition handle_blockchain_block_stats :: "bool \<Rightarrow> 'k silent_reaction" where
  "handle_blockchain_block_stats stopped =
     (if stopped then Silent_Ignored else Silent_Code (electrum_error ''method_not_found''))"

definition handle_silent_payments_subscribe ::
  "'k silent_lib \<Rightarrow> 'k silent_view \<Rightarrow> bool \<Rightarrow> string \<Rightarrow> string \<Rightarrow> value_t \<Rightarrow> value_t list \<Rightarrow> 'k silent_reaction" where
  "handle_silent_payments_subscribe L V stopped scan_private_key spend_public_key start labels =
     (if stopped then Silent_Ignored
      else if \<not> silent_enabled V then Silent_Code (electrum_error ''method_not_found'')
      else case (decode_secret L scan_private_key, decode_point L spend_public_key, to_labels L labels, to_cut L start) of
          (Some scan, Some spend, Some scan_labels, Some c) \<Rightarrow>
            let scanner = silent_scanner L scan spend scan_labels in
            if \<not> scanner_valid L scanner then Silent_Code (electrum_error ''bad_request'')
            else
              let address = sparrow_address L scan spend in
              Silent_Post (Do_Silent_Subscribe address
                \<lparr>scanner = scanner,
                 subscription = [''address'' \<mapsto> String address, ''labels'' \<mapsto> Array (map U32 scan_labels),
                   ''start_height'' \<mapsto> U64 (cut_start c)],
                 cut = c, silent_cursor = 0\<rparr>)
        | _ \<Rightarrow> Silent_Code (electrum_error ''bad_request''))"

definition handle_silent_payments_unsubscribe ::
  "'k silent_lib \<Rightarrow> bool \<Rightarrow> string \<Rightarrow> string \<Rightarrow> 'k silent_reaction" where
  "handle_silent_payments_unsubscribe L stopped scan_private_key spend_public_key =
     (if stopped then Silent_Ignored
      else case (decode_secret L scan_private_key, decode_point L spend_public_key) of
          (Some scan, Some spend) \<Rightarrow>
            if \<not> verify_secret L scan then Silent_Code (electrum_error ''bad_request'')
            else Silent_Post (Do_Silent_Unsubscribe (sparrow_address L scan spend))
        | _ \<Rightarrow> Silent_Code (electrum_error ''bad_request''))"

subsection \<open>Scans\<close>

definition page_size :: nat where
  "page_size = 1000"

definition match_object :: "'k silent_lib \<Rightarrow> silent_match \<Rightarrow> value_t" where
  "match_object L m =
     (case m of (height, hash, tweak) \<Rightarrow>
        Object [''height'' \<mapsto> U64 height, ''tx_hash'' \<mapsto> String (hash_text L hash), ''tweak_key'' \<mapsto> String tweak])"

definition silent_page :: "'k silent_lib \<Rightarrow> object_t \<Rightarrow> silent_match list \<Rightarrow> nat \<Rightarrow> nat \<Rightarrow> silent_posted" where
  "silent_page L sub matches pages page =
     (let count = length matches;
          first = page * page_size;
          end' = min (first + page_size) count;
          progress = (if page + 1 = pages then one_double L else ratio L end' count) in
      Silent_Notify sub progress (map (match_object L) (take (end' - first) (drop first matches))))"

definition scan_silent ::
  "'k silent_lib \<Rightarrow> 'k silent_view \<Rightarrow> u64 \<Rightarrow> bool \<Rightarrow> 'k silent_subscription \<Rightarrow>
   'k silent_subscription \<times> silent_posted list" where
  "scan_silent L V last' initial sub =
     (case get_silent_matches V (scanner sub) (silent_cursor sub) last' (cut sub) of
        None \<Rightarrow> (sub, [])
      | Some matches \<Rightarrow>
          let sub = sub\<lparr>silent_cursor := last'\<rparr> in
          if \<not> initial \<and> matches = [] then (sub, [])
          else
            let pages = max 1 ((length matches + page_size - 1) div page_size) in
            (sub, map (silent_page L (subscription sub) matches pages) [0..<pages]))"

subsection \<open>Jobs of the notification strand\<close>

text \<open>The entry of a subscription request, none when a new one is at the limit.\<close>

definition silent_entry ::
  "subscribe_options \<Rightarrow> string \<Rightarrow> 'k silent_subscription \<Rightarrow> 'k sparrow_state \<Rightarrow> 'k silent_subscription option" where
  "silent_entry opts address new s =
     (case map_of (silent_subscriptions s) address of
        None \<Rightarrow>
          if length (silent_subscriptions s) \<ge> unat (maximum_subscriptions opts) then None else Some new
      | Some current \<Rightarrow>
          let same = (cut_time (cut current) = cut_time (cut new));
              start = min (cut_start (cut current)) (cut_start (cut new)) in
          Some (if same
                then new\<lparr>cut := (cut new)\<lparr>cut_start := start\<rparr>,
                  subscription := (subscription new)(''start_height'' \<mapsto> U64 start)\<rparr>
                else new))"

definition do_silent_subscribe ::
  "'k silent_lib \<Rightarrow> subscribe_options \<Rightarrow> 'k silent_view \<Rightarrow> string \<Rightarrow> 'k silent_subscription \<Rightarrow>
   'k sparrow_state \<Rightarrow> 'k sparrow_state \<times> silent_posted list" where
  "do_silent_subscribe L opts V address new s =
     (case silent_entry opts address new s of
        None \<Rightarrow> (s, [Complete_Silent_Subscribe (electrum_error ''excessive_resource_usage'') Map.empty])
      | Some sub \<Rightarrow>
          let sub = sub\<lparr>silent_cursor := get_silent_floor V (cut_start (cut sub)) (cut_time (cut sub))\<rparr>;
              (scanned, posts) = scan_silent L V (get_silent_frontier V (silent_cursor sub)) True sub in
          (s\<lparr>silent_subscriptions := assign address scanned (emplace address scanned (silent_subscriptions s)),
             subscribed_silent := True\<rparr>,
           Complete_Silent_Subscribe success_code (subscription sub) # posts))"

definition do_silent_unsubscribe ::
  "string \<Rightarrow> 'k sparrow_state \<Rightarrow> 'k sparrow_state \<times> silent_posted list" where
  "do_silent_unsubscribe address s =
     (let found = (map_of (silent_subscriptions s) address \<noteq> None);
          subs = erase address (silent_subscriptions s) in
      (s\<lparr>silent_subscriptions := subs, subscribed_silent := (if subs = [] then False else subscribed_silent s)\<rparr>,
       [Complete_Silent_Unsubscribe (if found then String address else Null)]))"

definition lowest_cursor :: "(string \<times> 'k silent_subscription) list \<Rightarrow> u64" where
  "lowest_cursor subs = foldl (\<lambda>low e. min low (silent_cursor (snd e))) max_size_t subs"

definition do_silent ::
  "'k silent_lib \<Rightarrow> 'k silent_view \<Rightarrow> 'k sparrow_state \<Rightarrow> 'k sparrow_state \<times> silent_posted list" where
  "do_silent L V s =
     (let s = s\<lparr>queued_silent := False\<rparr> in
      if silent_subscriptions s = [] then (s, [])
      else
        let last' = get_silent_frontier V (lowest_cursor (silent_subscriptions s));
            scans = map (\<lambda>e. (fst e, scan_silent L V last' False (snd e))) (silent_subscriptions s) in
        (s\<lparr>silent_subscriptions := map (\<lambda>e. (fst e, fst (snd e))) scans\<rparr>,
         concat (map (\<lambda>e. snd (snd e)) scans)))"

definition do_silent_job ::
  "'k silent_lib \<Rightarrow> subscribe_options \<Rightarrow> 'k silent_view \<Rightarrow> 'k silent_job \<Rightarrow>
   'k sparrow_state \<Rightarrow> 'k sparrow_state \<times> silent_posted list" where
  "do_silent_job L opts V job s =
     (case job of
        Do_Silent \<Rightarrow> do_silent L V s
      | Do_Silent_Subscribe address new \<Rightarrow> do_silent_subscribe L opts V address new s
      | Do_Silent_Unsubscribe address \<Rightarrow> do_silent_unsubscribe address s)"

text \<open>What the channel strand sends for a posted value.\<close>

definition silent_message :: "'k silent_lib \<Rightarrow> bool \<Rightarrow> silent_posted \<Rightarrow> message option" where
  "silent_message L stopped posted =
     (if stopped then None
      else Some (case posted of
          Complete_Silent_Subscribe ec result \<Rightarrow>
            if is_error ec then Error_Message (translate_electrum (silent_depth_limited L) ec (enumerator electrum_errors ''daemon_error''))
            else Result_Message (Object result)
        | Complete_Silent_Unsubscribe result \<Rightarrow> Result_Message result
        | Silent_Notify sub progress history \<Rightarrow>
            Notification ''blockchain.silentpayments.subscribe'' [Object sub, Number progress, Array history]))"

subsection \<open>Events\<close>

text \<open>The state and the job posted; None when the subscription to events ends.\<close>

definition silent_chase ::
  "bool \<Rightarrow> bool \<Rightarrow> chase_event \<Rightarrow> 'k sparrow_state \<Rightarrow> ('k sparrow_state \<times> 'k silent_job list) option" where
  "silent_chase stopped duplex event s =
     (if stopped then None
      else if \<not> duplex then Some (s, [])
      else Some (case event of
          Chase_Reorganized _ \<Rightarrow> (s, [])
        | Chase_Other \<Rightarrow> (s, [])
        | _ \<Rightarrow> if subscribed_silent s \<and> \<not> queued_silent s then (s\<lparr>queued_silent := True\<rparr>, [Do_Silent]) else (s, [])))"

subsection \<open>Pages\<close>

lemma chunks_concat: "concat (map (\<lambda>p. take k (drop (p * k) xs)) [0..<m]) = take (m * k) xs"
proof (induction m)
  case (Suc m)
  have "take (m * k) xs @ take k (drop (m * k) xs) = take (m * k + k) xs" by (simp add: take_add)
  then show ?case using Suc by (simp add: add.commute)
qed simp

lemma page_part: "take (min (f + k) (length xs) - f) (drop f xs) = take k (drop f xs)"
  by (cases "f + k \<le> length xs") (simp_all add: min_def)

definition notified :: "string \<Rightarrow> silent_posted list \<Rightarrow> value_t list" where
  "notified address posts =
     concat (map (\<lambda>p. case p of
         Silent_Notify sub progress history \<Rightarrow> if sub ''address'' = Some (String address) then history else []
       | _ \<Rightarrow> []) posts)"

lemma notified_simps [simp]:
  "notified a [] = []"
  "notified a (Complete_Silent_Subscribe ec r # posts) = notified a posts"
  "notified a (Complete_Silent_Unsubscribe v # posts) = notified a posts"
  "notified a (ps @ qs) = notified a ps @ notified a qs"
  by (simp_all add: notified_def)

lemma pages_enough: "length xs \<le> max 1 ((length xs + page_size - 1) div page_size) * page_size"
  unfolding page_size_def by (cases "length xs \<le> 1000") (auto simp: max_def)

lemma notified_pages:
  assumes "pages = max 1 ((length ms + page_size - 1) div page_size)"
  shows "notified a (map (silent_page L sub ms pages) [0..<pages]) =
    (if sub ''address'' = Some (String a) then map (match_object L) ms else [])"
proof (cases "sub ''address'' = Some (String a)")
  case True
  have "notified a (map (silent_page L sub ms pages) [0..<pages]) =
      concat (map (\<lambda>p. map (match_object L) (take page_size (drop (p * page_size) ms))) [0..<pages])"
    using True by (simp add: notified_def silent_page_def Let_def comp_def page_part)
  also have "\<dots> = map (match_object L) (concat (map (\<lambda>p. take page_size (drop (p * page_size) ms)) [0..<pages]))"
    by (simp add: map_concat comp_def)
  also have "\<dots> = map (match_object L) ms"
    using pages_enough [of ms] assms by (simp add: chunks_concat)
  finally show ?thesis using True by simp
next
  case False
  then show ?thesis by (simp add: notified_def silent_page_def Let_def comp_def)
qed

subsection \<open>The notification strand\<close>

text \<open>
  Rows of the archive as a scan reads them: those written before the frontier, each with the matches of
  a scanner under a cut. A read of matches may fail.
\<close>

definition silent_rows :: "('k \<Rightarrow> silent_cut \<Rightarrow> nat \<Rightarrow> silent_match list) \<Rightarrow> u64 \<Rightarrow> 'k silent_view \<Rightarrow> bool" where
  "silent_rows row frontier V \<longleftrightarrow>
     (\<forall>c. get_silent_frontier V c = max c frontier) \<and>
     (\<forall>k c l ct ms. get_silent_matches V k c l ct = Some ms \<longrightarrow> ms = concat (map (row k ct) [unat c..<unat l]))"

definition scan_fails :: "'k silent_view \<Rightarrow> u64 \<Rightarrow> 'k silent_subscription \<Rightarrow> bool" where
  "scan_fails V last' sub \<longleftrightarrow> get_silent_matches V (scanner sub) (silent_cursor sub) last' (cut sub) = None"

text \<open>The jobs posted to the strand, the frontier of the written rows and the part of it that a chase event has
  announced; and for each address the floor of its last subscription, the frontier at that time, the history
  notified since and whether its last scan failed.\<close>

record 'k silent_world =
  world_state :: "'k sparrow_state"
  world_jobs :: "'k silent_job list"
  frontier :: u64
  announced :: u64
  floor_of :: "string \<Rightarrow> nat"
  frontier_of :: "string \<Rightarrow> u64"
  history_of :: "string \<Rightarrow> value_t list"
  failed :: "string \<Rightarrow> bool"

definition initial_world :: "'k silent_world" where
  "initial_world = \<lparr>world_state = initial_sparrow, world_jobs = [], frontier = 0, announced = 0,
     floor_of = (\<lambda>a. 0), frontier_of = (\<lambda>a. 0), history_of = (\<lambda>a. []), failed = (\<lambda>a. False)\<rparr>"

fun requested :: "'k silent_job \<Rightarrow> bool" where
  "requested Do_Silent = False"
| "requested (Do_Silent_Subscribe a sub) = (subscription sub ''address'' = Some (String a))"
| "requested (Do_Silent_Unsubscribe a) = True"

text \<open>A subscription that is accepted starts a history anew, and every scan succeeds or fails.\<close>

definition restarted ::
  "subscribe_options \<Rightarrow> 'k silent_view \<Rightarrow> 'k silent_job \<Rightarrow> 'k silent_world \<Rightarrow> 'k silent_world" where
  "restarted opts V job w =
     (case job of
        Do_Silent_Subscribe a new \<Rightarrow>
          (case silent_entry opts a new (world_state w) of
             None \<Rightarrow> w
           | Some sub \<Rightarrow>
               let c = get_silent_floor V (cut_start (cut sub)) (cut_time (cut sub)) in
               w\<lparr>history_of := (history_of w)(a := []), floor_of := (floor_of w)(a := unat c),
                 frontier_of := (frontier_of w)(a := frontier w),
                 failed := (failed w)(a := scan_fails V (get_silent_frontier V c) (sub\<lparr>silent_cursor := c\<rparr>))\<rparr>)
      | Do_Silent \<Rightarrow>
          let subs = silent_subscriptions (world_state w) in
          w\<lparr>failed := (\<lambda>a. case map_of subs a of
              None \<Rightarrow> failed w a
            | Some sub \<Rightarrow> scan_fails V (get_silent_frontier V (lowest_cursor subs)) sub)\<rparr>
      | Do_Silent_Unsubscribe _ \<Rightarrow> w)"

definition execute ::
  "'k silent_lib \<Rightarrow> subscribe_options \<Rightarrow> 'k silent_view \<Rightarrow> 'k silent_job \<Rightarrow> 'k silent_world \<Rightarrow> 'k silent_world" where
  "execute L opts V job w =
     (let (s, posts) = do_silent_job L opts V job (world_state w); v = restarted opts V job w in
      v\<lparr>world_state := s, history_of := (\<lambda>a. history_of v a @ notified a posts)\<rparr>)"

inductive silent_step ::
  "'k silent_lib \<Rightarrow> subscribe_options \<Rightarrow> ('k \<Rightarrow> silent_cut \<Rightarrow> nat \<Rightarrow> silent_match list) \<Rightarrow>
   'k silent_world \<Rightarrow> 'k silent_world \<Rightarrow> bool"
  for L opts row where
  Request: "requested job \<Longrightarrow> silent_step L opts row w (w\<lparr>world_jobs := world_jobs w @ [job]\<rparr>)"
| Write: "frontier w \<le> f \<Longrightarrow> silent_step L opts row w (w\<lparr>frontier := f\<rparr>)"
| Chase: "event = Chase_Transaction link \<or> event = Chase_Organized link \<Longrightarrow>
    silent_chase False True event (world_state w) = Some (s, jobs) \<Longrightarrow>
    silent_step L opts row w (w\<lparr>world_state := s, world_jobs := world_jobs w @ jobs, announced := frontier w\<rparr>)"
| Execute: "world_jobs w = job # rest \<Longrightarrow> silent_rows row (frontier w) V \<Longrightarrow>
    silent_step L opts row w (execute L opts V job (w\<lparr>world_jobs := rest\<rparr>))"

text \<open>
  What was notified of a subscription: the matches of a range of rows that ends at its cursor and starts at its
  floor, or below at a row that was not yet written when it was made.
\<close>

definition covered ::
  "'k silent_lib \<Rightarrow> ('k \<Rightarrow> silent_cut \<Rightarrow> nat \<Rightarrow> silent_match list) \<Rightarrow> 'k silent_world \<Rightarrow> string \<Rightarrow>
   'k silent_subscription \<Rightarrow> nat \<Rightarrow> bool" where
  "covered L row w a sub lo \<longleftrightarrow>
     min (floor_of w a) (unat (frontier_of w a)) \<le> lo \<and> lo \<le> floor_of w a \<and> lo \<le> unat (silent_cursor sub) \<and>
     history_of w a = map (match_object L) (concat (map (row (scanner sub) (cut sub)) [lo..<unat (silent_cursor sub)]))"

definition queue_inv :: "'k silent_world \<Rightarrow> bool" where
  "queue_inv w \<longleftrightarrow> count_list (world_jobs w) Do_Silent = (if queued_silent (world_state w) then 1 else 0) \<and>
     (\<forall>job \<in> set (world_jobs w). job = Do_Silent \<or> requested job)"

definition subs_inv :: "subscribe_options \<Rightarrow> 'k silent_world \<Rightarrow> bool" where
  "subs_inv opts w \<longleftrightarrow>
     (let subs = silent_subscriptions (world_state w) in
      ordered subs \<and> length subs \<le> unat (maximum_subscriptions opts) \<and>
      subscribed_silent (world_state w) = (subs \<noteq> []) \<and>
      (\<forall>a sub. map_of subs a = Some sub \<longrightarrow> subscription sub ''address'' = Some (String a)))"

definition history_inv ::
  "'k silent_lib \<Rightarrow> ('k \<Rightarrow> silent_cut \<Rightarrow> nat \<Rightarrow> silent_match list) \<Rightarrow> 'k silent_world \<Rightarrow> bool" where
  "history_inv L row w \<longleftrightarrow> announced w \<le> frontier w \<and>
     (\<forall>a sub. map_of (silent_subscriptions (world_state w)) a = Some sub \<longrightarrow>
        (\<exists>lo. covered L row w a sub lo \<and> (silent_cursor sub \<le> frontier w \<or> lo = unat (silent_cursor sub))) \<and>
        frontier_of w a \<le> frontier w \<and>
        (announced w \<le> silent_cursor sub \<or> Do_Silent \<in> set (world_jobs w) \<or> failed w a))"

subsection \<open>What the jobs keep\<close>

lemma entry_some:
  assumes "silent_entry opts a new s = Some sub"
  shows "subscription sub ''address'' = subscription new ''address''"
    and "map_of (silent_subscriptions s) a = None \<Longrightarrow>
      length (silent_subscriptions s) < unat (maximum_subscriptions opts)"
  using assms by (auto simp: silent_entry_def Let_def split: option.splits if_splits)

lemma map_of_replaced:
  "ordered m \<Longrightarrow> map_of (assign a v (emplace a v m)) k = (if k = a then Some v else map_of m k)"
  by (simp add: map_of_assign map_of_emplace)

text \<open>A scan moves the cursor to the end of its range, or leaves it where the read fails.\<close>

definition scanned_to :: "'k silent_view \<Rightarrow> u64 \<Rightarrow> 'k silent_subscription \<Rightarrow> u64" where
  "scanned_to V last' sub = (if scan_fails V last' sub then silent_cursor sub else last')"

lemma same_cursor [simp]: "sub\<lparr>silent_cursor := silent_cursor sub\<rparr> = sub"
  by simp

lemma scan_cursor: "fst (scan_silent L V l initial sub) = sub\<lparr>silent_cursor := scanned_to V l sub\<rparr>"
  by (auto simp: scan_silent_def scanned_to_def scan_fails_def Let_def split: option.split)

lemma scan_history:
  assumes "silent_rows row f V"
  shows "notified a (snd (scan_silent L V l initial sub)) =
    (if subscription sub ''address'' = Some (String a)
     then map (match_object L) (concat (map (row (scanner sub) (cut sub))
       [unat (silent_cursor sub)..<unat (scanned_to V l sub)]))
     else [])"
proof (cases "get_silent_matches V (scanner sub) (silent_cursor sub) l (cut sub)")
  case None
  then show ?thesis by (simp add: scan_silent_def scanned_to_def scan_fails_def)
next
  case (Some ms)
  then have "ms = concat (map (row (scanner sub) (cut sub)) [unat (silent_cursor sub)..<unat l])"
    using assms by (simp add: silent_rows_def)
  then show ?thesis using Some notified_pages [OF refl, of a L "subscription sub" ms]
    by (simp add: scan_silent_def scanned_to_def scan_fails_def Let_def del: upt_Suc)
qed

lemma subscribe_state:
  assumes "silent_entry opts a new s = Some sub" "silent_rows row f V"
    and "c = get_silent_floor V (cut_start (cut sub)) (cut_time (cut sub))"
    and "e = scanned_to V (max c f) (sub\<lparr>silent_cursor := c\<rparr>)"
  shows "fst (do_silent_subscribe L opts V a new s) =
    s\<lparr>silent_subscriptions := assign a (sub\<lparr>silent_cursor := e\<rparr>)
        (emplace a (sub\<lparr>silent_cursor := e\<rparr>) (silent_subscriptions s)), subscribed_silent := True\<rparr>"
    and "notified k (snd (do_silent_subscribe L opts V a new s)) =
      (if subscription sub ''address'' = Some (String k)
       then map (match_object L) (concat (map (row (scanner sub) (cut sub)) [unat c..<unat e])) else [])"
proof -
  have "get_silent_frontier V c = max c f" using assms(2) by (simp add: silent_rows_def)
  then show "fst (do_silent_subscribe L opts V a new s) =
    s\<lparr>silent_subscriptions := assign a (sub\<lparr>silent_cursor := e\<rparr>)
        (emplace a (sub\<lparr>silent_cursor := e\<rparr>) (silent_subscriptions s)), subscribed_silent := True\<rparr>"
    and "notified k (snd (do_silent_subscribe L opts V a new s)) =
      (if subscription sub ''address'' = Some (String k)
       then map (match_object L) (concat (map (row (scanner sub) (cut sub)) [unat c..<unat e])) else [])"
    using assms(1,3,4)
    by (simp_all add: do_silent_subscribe_def Let_def case_prod_beta scan_cursor scan_history [OF assms(2)])
qed

lemma silent_subs:
  assumes "silent_rows row f V" "last' = max (lowest_cursor (silent_subscriptions s)) f"
  shows "silent_subscriptions (fst (do_silent L V s)) =
      map (\<lambda>(k, sub). (k, sub\<lparr>silent_cursor := scanned_to V last' sub\<rparr>)) (silent_subscriptions s)"
    and "subscribed_silent (fst (do_silent L V s)) = subscribed_silent s"
    and "queued_silent (fst (do_silent L V s)) = False"
  using assms by (auto simp: do_silent_def silent_rows_def Let_def scan_cursor)

lemma notified_concat: "notified k (concat pss) = concat (map (notified k) pss)"
  by (induction pss) simp_all

lemma concat_at_key:
  assumes "ordered m" "\<And>a v. map_of m a = Some v \<Longrightarrow> tag v = Some (String a)"
  shows "concat (map (\<lambda>e. if tag (snd e) = Some (String k) then f (snd e) else []) m) =
    (case map_of m k of None \<Rightarrow> [] | Some v \<Rightarrow> f v)"
  using assms
proof (induction m)
  case (Cons e m)
  have tag: "tag (snd e) = Some (String (fst e))" using Cons.prems(2) [of "fst e" "snd e"] by (cases e) simp
  have below: "map_of m (fst e) = None" using ordered_below [OF Cons.prems(1)] by simp
  then have rest: "map_of m a = Some v \<Longrightarrow> tag v = Some (String a)" for a v
    using Cons.prems(2) [of a v] by (cases "a = fst e"; cases e) auto
  have IH: "concat (map (\<lambda>e. if tag (snd e) = Some (String k) then f (snd e) else []) m) =
      (case map_of m k of None \<Rightarrow> [] | Some v \<Rightarrow> f v)"
    using Cons.IH Cons.prems(1) rest by simp
  then show ?case using tag below by (cases e) auto
qed simp

lemma silent_history_posts:
  assumes "silent_rows row f V" "last' = max (lowest_cursor (silent_subscriptions s)) f"
    and "ordered (silent_subscriptions s)"
    and "\<And>a v. map_of (silent_subscriptions s) a = Some v \<Longrightarrow> subscription v ''address'' = Some (String a)"
  shows "notified k (snd (do_silent L V s)) =
    (case map_of (silent_subscriptions s) k of
       None \<Rightarrow> []
     | Some sub \<Rightarrow> map (match_object L)
         (concat (map (row (scanner sub) (cut sub)) [unat (silent_cursor sub)..<unat (scanned_to V last' sub)])))"
proof -
  have "notified k (snd (do_silent L V s)) =
      concat (map (\<lambda>e. if subscription (snd e) ''address'' = Some (String k)
        then map (match_object L) (concat (map (row (scanner (snd e)) (cut (snd e)))
          [unat (silent_cursor (snd e))..<unat (scanned_to V last' (snd e))])) else []) (silent_subscriptions s))"
  proof -
    have "get_silent_frontier V (lowest_cursor (silent_subscriptions s)) = last'"
      using assms(1,2) by (simp add: silent_rows_def)
    then show ?thesis
      by (auto simp: do_silent_def Let_def notified_concat comp_def scan_history [OF assms(1)]
          intro!: arg_cong [of _ _ concat])
  qed
  also have "\<dots> = (case map_of (silent_subscriptions s) k of
       None \<Rightarrow> []
     | Some sub \<Rightarrow> map (match_object L)
         (concat (map (row (scanner sub) (cut sub)) [unat (silent_cursor sub)..<unat (scanned_to V last' sub)])))"
    by (rule concat_at_key [OF assms(3,4)])
  finally show ?thesis .
qed

lemma lowest_cursor_le: "map_of subs a = Some sub \<Longrightarrow> lowest_cursor subs \<le> silent_cursor sub"
proof -
  have fold_le: "foldl (\<lambda>low e. min low (silent_cursor (snd e))) x subs \<le> x" for x and subs :: "(string \<times> 'a silent_subscription) list"
    by (induction subs arbitrary: x) (auto intro: order_trans [OF _ min.cobounded1])
  have "e \<in> set subs \<Longrightarrow> foldl (\<lambda>low e. min low (silent_cursor (snd e))) x subs \<le> silent_cursor (snd e)"
    for x e and subs :: "(string \<times> 'a silent_subscription) list"
    by (induction subs arbitrary: x) (auto intro: order_trans [OF fold_le min.cobounded2])
  then show "map_of subs a = Some sub \<Longrightarrow> ?thesis"
    unfolding lowest_cursor_def using map_of_SomeD by fastforce
qed

subsection \<open>The invariant\<close>

definition silent_inv ::
  "'k silent_lib \<Rightarrow> subscribe_options \<Rightarrow> ('k \<Rightarrow> silent_cut \<Rightarrow> nat \<Rightarrow> silent_match list) \<Rightarrow> 'k silent_world \<Rightarrow> bool" where
  "silent_inv L opts row w \<longleftrightarrow> queue_inv w \<and> subs_inv opts w \<and> history_inv L row w"

lemma silent_inv_initial: "silent_inv L opts row initial_world"
  by (simp add: silent_inv_def queue_inv_def subs_inv_def history_inv_def initial_world_def initial_sparrow_def)

lemma covered_cong:
  "floor_of w a = floor_of w' a \<Longrightarrow> frontier_of w a = frontier_of w' a \<Longrightarrow> history_of w a = history_of w' a \<Longrightarrow>
   covered L row w a sub lo = covered L row w' a sub lo"
  by (simp add: covered_def)

lemma silent_inv_request:
  assumes "silent_inv L opts row w" "requested job"
  shows "silent_inv L opts row (w\<lparr>world_jobs := world_jobs w @ [job]\<rparr>)"
proof -
  have "job \<noteq> Do_Silent" using assms(2) by auto
  then show ?thesis using assms
    by (auto simp: silent_inv_def queue_inv_def subs_inv_def history_inv_def covered_def)
qed

lemma silent_inv_write:
  assumes "silent_inv L opts row w" "frontier w \<le> f"
  shows "silent_inv L opts row (w\<lparr>frontier := f\<rparr>)"
  using assms unfolding silent_inv_def queue_inv_def subs_inv_def history_inv_def covered_def
  by (simp add: Let_def) (meson order_trans)

lemma silent_inv_chase:
  assumes inv: "silent_inv L opts row w" and event: "event = Chase_Transaction link \<or> event = Chase_Organized link"
    and chase: "silent_chase False True event (world_state w) = Some (s, jobs)"
  shows "silent_inv L opts row (w\<lparr>world_state := s, world_jobs := world_jobs w @ jobs, announced := frontier w\<rparr>)"
proof (cases "subscribed_silent (world_state w) \<and> \<not> queued_silent (world_state w)")
  case True
  then have "s = world_state w\<lparr>queued_silent := True\<rparr>" "jobs = [Do_Silent]"
    using chase event by (auto simp: silent_chase_def)
  then show ?thesis using inv True
    by (auto simp: silent_inv_def queue_inv_def subs_inv_def history_inv_def covered_def)
next
  case False
  then have same: "s = world_state w" "jobs = []"
    using chase event by (auto simp: silent_chase_def split: if_splits)
  have "Do_Silent \<in> set (world_jobs w)" if "map_of (silent_subscriptions (world_state w)) a = Some sub" for a sub
  proof -
    have "silent_subscriptions (world_state w) \<noteq> []" using that by auto
    then have "queued_silent (world_state w)" using inv False by (simp add: silent_inv_def subs_inv_def Let_def)
    then show ?thesis using inv unfolding silent_inv_def queue_inv_def
      by (metis count_list_0_iff zero_neq_one)
  qed
  then show ?thesis using inv same
    by (auto simp: silent_inv_def queue_inv_def subs_inv_def history_inv_def covered_def)
qed

lemma queue_pop:
  assumes "queue_inv w" "world_jobs w = job # rest"
  shows "job = Do_Silent \<Longrightarrow> Do_Silent \<notin> set rest" "job \<noteq> Do_Silent \<Longrightarrow> requested job"
    "\<forall>job \<in> set rest. job = Do_Silent \<or> requested job"
    "job \<noteq> Do_Silent \<Longrightarrow> count_list rest Do_Silent = (if queued_silent (world_state w) then 1 else 0)"
  using assms by (auto simp: queue_inv_def count_list_0_iff split: if_splits)

lemma covered_extend:
  assumes "covered L row w a sub lo" "silent_cursor sub \<le> l \<or> lo = unat (silent_cursor sub) \<and> l \<le> silent_cursor sub"
    and "floor_of w' a = floor_of w a" "frontier_of w' a = frontier_of w a"
    and "l < silent_cursor sub \<longrightarrow> frontier_of w a \<le> l"
    and "history_of w' a = history_of w a @
      map (match_object L) (concat (map (row (scanner sub) (cut sub)) [unat (silent_cursor sub)..<unat l]))"
  shows "\<exists>lo'. covered L row w' a (sub\<lparr>silent_cursor := l\<rparr>) lo' \<and>
    (lo = unat (silent_cursor sub) \<and> l \<le> silent_cursor sub \<longrightarrow> lo' = unat l)"
proof (cases "silent_cursor sub \<le> l")
  case True
  then have le: "unat (silent_cursor sub) \<le> unat l" by (simp add: word_le_nat_alt)
  have "lo \<le> unat (silent_cursor sub)" using assms(1) by (simp add: covered_def)
  then have "[lo..<unat l] = [lo..<unat (silent_cursor sub)] @ [unat (silent_cursor sub)..<unat l]"
    using le by (metis le_Suc_ex upt_add_eq_append)
  then have "covered L row w' a (sub\<lparr>silent_cursor := l\<rparr>) lo"
    using assms(1,3,4,6) le by (simp add: covered_def)
  then show ?thesis using True by auto
next
  case False
  then have l: "lo = unat (silent_cursor sub)" "l \<le> silent_cursor sub" using assms(2) by auto
  have "l < silent_cursor sub" using False by simp
  then have "unat l \<le> unat (silent_cursor sub)" "unat (frontier_of w a) \<le> unat l"
    using assms(5) l(2) by (simp_all add: word_le_nat_alt)
  then have "covered L row w' a (sub\<lparr>silent_cursor := l\<rparr>) (unat l)"
    using assms(1,3,4,6) l(1) by (auto simp: covered_def min_le_iff_disj)
  then show ?thesis by blast
qed

lemma silent_inv_scan:
  assumes inv: "silent_inv L opts row w" and jobs: "world_jobs w = Do_Silent # rest"
    and rows: "silent_rows row (frontier w) V"
  shows "silent_inv L opts row (execute L opts V Do_Silent (w\<lparr>world_jobs := rest\<rparr>))"
    (is "silent_inv L opts row ?w'")
proof -
  define subs where "subs = silent_subscriptions (world_state w)"
  define l where "l = max (lowest_cursor subs) (frontier w)"
  have q: "queue_inv w" and si: "subs_inv opts w" and hi: "history_inv L row w"
    using inv by (simp_all add: silent_inv_def)
  note pop = queue_pop [OF q jobs]
  have end': "get_silent_frontier V (lowest_cursor subs) = l" using rows by (simp add: silent_rows_def l_def)
  have state: "world_state ?w' = fst (do_silent L V (world_state w))" "world_jobs ?w' = rest"
    "frontier ?w' = frontier w" "announced ?w' = announced w" "floor_of ?w' = floor_of w" "frontier_of ?w' = frontier_of w"
    and hist: "history_of ?w' a = history_of w a @ notified a (snd (do_silent L V (world_state w)))"
    and fails: "map_of subs a = Some sub \<Longrightarrow> failed ?w' a = scan_fails V l sub" for a sub
    by (simp_all add: execute_def do_silent_job_def restarted_def case_prod_beta Let_def subs_def end' [unfolded subs_def])
  note after = silent_subs [OF rows l_def [unfolded subs_def], of L]
  have ordered: "ordered subs" and address: "map_of subs a = Some v \<Longrightarrow> subscription v ''address'' = Some (String a)" for a v
    using si by (auto simp: subs_inv_def subs_def Let_def)
  have subs': "silent_subscriptions (world_state ?w') =
      map (\<lambda>(k, sub). (k, sub\<lparr>silent_cursor := scanned_to V l sub\<rparr>)) subs"
    using after(1) state(1) by (simp add: subs_def)
  have look: "map_of (silent_subscriptions (world_state ?w')) a =
      map_option (\<lambda>sub. sub\<lparr>silent_cursor := scanned_to V l sub\<rparr>) (map_of subs a)" for a
    unfolding subs' by (simp add: map_of_map)
  have "queue_inv ?w'" using pop state after(3) by (auto simp: queue_inv_def count_list_0_iff)
  moreover have "subs_inv opts ?w'"
  proof -
    have "map fst (silent_subscriptions (world_state ?w')) = map fst subs" unfolding subs' by (induction subs) auto
    then have "ordered (silent_subscriptions (world_state ?w'))" using ordered by (simp add: ordered_def)
    moreover have "subscribed_silent (world_state ?w') = (silent_subscriptions (world_state ?w') \<noteq> [])"
      "length (silent_subscriptions (world_state ?w')) \<le> unat (maximum_subscriptions opts)"
      unfolding subs' using si after(2) state(1) by (simp_all add: subs_inv_def subs_def Let_def)
    ultimately show ?thesis using look address by (auto simp: subs_inv_def Let_def)
  qed
  moreover have "history_inv L row ?w'"
  proof -
    have "(\<exists>lo. covered L row ?w' a (sub\<lparr>silent_cursor := scanned_to V l sub\<rparr>) lo \<and>
        (scanned_to V l sub \<le> frontier w \<or> lo = unat (scanned_to V l sub))) \<and>
        frontier_of w a \<le> frontier w \<and> (announced w \<le> scanned_to V l sub \<or> failed ?w' a)"
      if m: "map_of subs a = Some sub" for a sub
    proof -
      obtain lo where lo: "covered L row w a sub lo" "silent_cursor sub \<le> frontier w \<or> lo = unat (silent_cursor sub)"
        and written: "frontier_of w a \<le> frontier w"
        using hi m unfolding history_inv_def subs_def by blast
      have low: "lowest_cursor subs \<le> silent_cursor sub" by (rule lowest_cursor_le [OF m])
      let ?e = "scanned_to V l sub"
      have cases: "?e = silent_cursor sub \<or> ?e = l" by (simp add: scanned_to_def)
      have "history_of ?w' a = history_of w a @ map (match_object L)
          (concat (map (row (scanner sub) (cut sub)) [unat (silent_cursor sub)..<unat ?e]))"
        using silent_history_posts [OF rows l_def [unfolded subs_def], of a L] ordered address m hist
        by (simp add: subs_def)
      moreover have "silent_cursor sub \<le> ?e \<or> lo = unat (silent_cursor sub) \<and> ?e \<le> silent_cursor sub"
        using lo(2) linear [of l "silent_cursor sub"] cases by (auto simp: l_def le_max_iff_disj)
      moreover have "?e < silent_cursor sub \<longrightarrow> frontier_of w a \<le> ?e"
        using cases written by (auto simp: l_def le_max_iff_disj)
      ultimately obtain lo' where "covered L row ?w' a (sub\<lparr>silent_cursor := ?e\<rparr>) lo'"
        "lo = unat (silent_cursor sub) \<and> ?e \<le> silent_cursor sub \<longrightarrow> lo' = unat ?e"
        using covered_extend [OF lo(1), of ?e ?w'] state(5,6) by metis
      moreover have "?e \<le> frontier w \<or> lo = unat (silent_cursor sub) \<and> ?e \<le> silent_cursor sub"
        using lo(2) low cases by (auto simp: l_def)
      moreover have "announced w \<le> l"
        using hi by (auto simp: history_inv_def l_def le_max_iff_disj)
      then have "announced w \<le> ?e \<or> failed ?w' a" using fails [OF m] by (simp add: scanned_to_def)
      ultimately show ?thesis using written by blast
    qed
    moreover have "announced w \<le> frontier w" using hi by (simp add: history_inv_def)
    ultimately show ?thesis unfolding history_inv_def look state(3,4,6) by (force simp: map_option_case split: option.splits)
  qed
  ultimately show ?thesis by (simp add: silent_inv_def)
qed

lemma silent_inv_subscribe:
  assumes inv: "silent_inv L opts row w" and jobs: "world_jobs w = Do_Silent_Subscribe a new # rest"
    and rows: "silent_rows row (frontier w) V" and entry: "silent_entry opts a new (world_state w) = Some sub"
  shows "silent_inv L opts row (execute L opts V (Do_Silent_Subscribe a new) (w\<lparr>world_jobs := rest\<rparr>))"
    (is "silent_inv L opts row ?w'")
proof -
  define subs where "subs = silent_subscriptions (world_state w)"
  define c where "c = get_silent_floor V (cut_start (cut sub)) (cut_time (cut sub))"
  define e where "e = scanned_to V (max c (frontier w)) (sub\<lparr>silent_cursor := c\<rparr>)"
  define scanned where "scanned = sub\<lparr>silent_cursor := e\<rparr>"
  have q: "queue_inv w" and si: "subs_inv opts w" and hi: "history_inv L row w"
    using inv by (simp_all add: silent_inv_def)
  note pop = queue_pop [OF q jobs]
  note after = subscribe_state [OF entry rows c_def e_def]
  have end': "get_silent_frontier V c = max c (frontier w)" using rows by (simp add: silent_rows_def)
  have e: "e = c \<or> e = max c (frontier w)" by (simp add: e_def scanned_to_def)
  have ordered: "ordered subs" using si by (auto simp: subs_inv_def subs_def Let_def)
  have tag: "subscription sub ''address'' = Some (String a)" using pop(2) entry_some(1) [OF entry] by simp
  have subs': "silent_subscriptions (world_state ?w') = assign a scanned (emplace a scanned subs)"
    and flags: "subscribed_silent (world_state ?w')" "queued_silent (world_state ?w') = queued_silent (world_state w)"
    and same: "world_jobs ?w' = rest" "frontier ?w' = frontier w" "announced ?w' = announced w"
    and hist: "history_of ?w' k = (if k = a then map (match_object L)
        (concat (map (row (scanner sub) (cut sub)) [unat c..<unat e])) else history_of w k)"
    and floors: "floor_of ?w' k = (if k = a then unat c else floor_of w k)"
      "frontier_of ?w' k = (if k = a then frontier w else frontier_of w k)"
    and fails: "failed ?w' k = (if k = a then scan_fails V (max c (frontier w)) (sub\<lparr>silent_cursor := c\<rparr>) else failed w k)"
    for k
    using after tag entry end'
    by (simp_all add: execute_def do_silent_job_def restarted_def case_prod_beta Let_def subs_def scanned_def c_def)
  have look: "map_of (silent_subscriptions (world_state ?w')) k = (if k = a then Some scanned else map_of subs k)" for k
    unfolding subs' by (rule map_of_replaced [OF ordered])
  have "queue_inv ?w'" using pop same flags by (auto simp: queue_inv_def)
  moreover have "subs_inv opts ?w'"
  proof -
    have "length (silent_subscriptions (world_state ?w')) \<le> unat (maximum_subscriptions opts)"
      using si entry_some(2) [OF entry] length_emplace [OF ordered, of a scanned]
      by (auto simp: subs' subs_inv_def subs_def Let_def split: if_splits)
    moreover have "ordered (silent_subscriptions (world_state ?w'))"
      unfolding subs' using ordered_emplace [OF ordered] by simp
    moreover have "silent_subscriptions (world_state ?w') \<noteq> []" using look [of a] by auto
    ultimately show ?thesis using flags(1) look tag si
      by (auto simp: subs_inv_def subs_def scanned_def Let_def split: if_splits)
  qed
  moreover have "history_inv L row ?w'"
  proof -
    have "c \<le> e" using e by auto
    then have "covered L row ?w' a scanned (unat c)"
      by (simp add: covered_def hist floors scanned_def word_le_nat_alt [symmetric])
    moreover have "e \<le> frontier w \<or> unat c = unat e"
      using e by (cases "c \<le> frontier w") (auto simp: max_def)
    moreover have "covered L row ?w' k s lo = covered L row w k s lo" if "k \<noteq> a" for k s lo
      by (rule covered_cong) (simp_all add: floors hist that)
    moreover have "announced w \<le> max c (frontier w)" using hi by (auto simp: history_inv_def intro: le_max_iff_disj [THEN iffD2])
    then have "announced w \<le> e \<or> failed ?w' a" by (simp add: e_def scanned_to_def fails)
    moreover have "Do_Silent \<in> set (world_jobs w) \<longleftrightarrow> Do_Silent \<in> set rest" using jobs by simp
    ultimately show ?thesis using hi unfolding history_inv_def look same
      by (auto simp: subs_def scanned_def floors fails)
  qed
  ultimately show ?thesis by (simp add: silent_inv_def)
qed

lemma silent_inv_refused:
  assumes inv: "silent_inv L opts row w" and jobs: "world_jobs w = Do_Silent_Subscribe a new # rest"
    and entry: "silent_entry opts a new (world_state w) = None"
  shows "silent_inv L opts row (execute L opts V (Do_Silent_Subscribe a new) (w\<lparr>world_jobs := rest\<rparr>))"
  using inv jobs entry
  by (auto simp: silent_inv_def queue_inv_def subs_inv_def history_inv_def covered_def execute_def
      do_silent_job_def do_silent_subscribe_def restarted_def Let_def)

lemma silent_inv_unsubscribe:
  assumes inv: "silent_inv L opts row w" and jobs: "world_jobs w = Do_Silent_Unsubscribe a # rest"
  shows "silent_inv L opts row (execute L opts V (Do_Silent_Unsubscribe a) (w\<lparr>world_jobs := rest\<rparr>))"
    (is "silent_inv L opts row ?w'")
proof -
  define subs where "subs = silent_subscriptions (world_state w)"
  have q: "queue_inv w" and si: "subs_inv opts w" and hi: "history_inv L row w"
    using inv by (simp_all add: silent_inv_def)
  have w': "silent_subscriptions (world_state ?w') = erase a subs" "world_jobs ?w' = rest"
    "subscribed_silent (world_state ?w') = (if erase a subs = [] then False else subscribed_silent (world_state w))"
    "queued_silent (world_state ?w') = queued_silent (world_state w)" "frontier ?w' = frontier w"
    "announced ?w' = announced w" "floor_of ?w' = floor_of w" "history_of ?w' = history_of w"
    "frontier_of ?w' = frontier_of w" "failed ?w' = failed w"
    by (simp_all add: execute_def do_silent_job_def do_silent_unsubscribe_def restarted_def Let_def subs_def)
  have "queue_inv ?w'" using q jobs by (auto simp: queue_inv_def w')
  moreover have "subs_inv opts ?w'"
  proof -
    have "length (erase a subs) \<le> length subs" by (simp add: erase_def)
    moreover have "subs = [] \<Longrightarrow> erase a subs = []" by (simp add: erase_def)
    moreover have "ordered subs \<Longrightarrow> ordered (erase a subs)" by (simp add: erase_def ordered_filter)
    ultimately show ?thesis using si
      by (auto simp: subs_inv_def w' subs_def Let_def map_of_erase split: if_splits)
  qed
  moreover have "history_inv L row ?w'"
    using hi jobs by (auto simp: history_inv_def covered_def w' subs_def map_of_erase split: if_splits)
  ultimately show ?thesis by (simp add: silent_inv_def)
qed

lemma silent_inv_step:
  assumes inv: "silent_inv L opts row w" and step: "silent_step L opts row w w'"
  shows "silent_inv L opts row w'"
  using step
proof (cases rule: silent_step.cases)
  case (Execute job rest V)
  show ?thesis
  proof (cases job)
    case Do_Silent
    then show ?thesis using silent_inv_scan [OF inv] Execute by simp
  next
    case (Do_Silent_Subscribe a new)
    then show ?thesis
      using silent_inv_subscribe [OF inv] silent_inv_refused [OF inv] Execute
      by (cases "silent_entry opts a new (world_state w)") auto
  next
    case (Do_Silent_Unsubscribe a)
    then show ?thesis using silent_inv_unsubscribe [OF inv] Execute by simp
  qed
qed (auto intro: silent_inv_request silent_inv_write silent_inv_chase inv)

lemma silent_inv_reachable:
  "rtranclp (silent_step L opts row) initial_world w \<Longrightarrow> silent_inv L opts row w"
  by (induction rule: rtranclp_induct) (auto intro: silent_inv_initial silent_inv_step)

lemma rows_from_floor:
  assumes "lo \<le> fl" "\<forall>n < fl. row n = []"
  shows "concat (map row [lo..<hi]) = concat (map row [fl..<hi])"
proof (cases "fl \<le> hi")
  case True
  then have "[lo..<hi] = [lo..<fl] @ [fl..<hi]" using assms(1) by (metis le_Suc_ex upt_add_eq_append)
  moreover have "concat (map row [lo..<fl]) = []" using assms(2) by simp
  ultimately show ?thesis by simp
next
  case False
  then show ?thesis using assms(2) by simp
qed

text \<open>
  C20: In every reachable state each subscription has been notified, in order and exactly once, of
  the matches of the rows from a first row to its cursor. The first row is its floor when the rows up to the floor were written at
  the time of the subscription; otherwise it is between the frontier of that time and the floor, since a pass may move the
  cursor of such a subscription back, and where no row before the floor matches the cut the matches are those
  of the rows from the floor in any case. When no scan is queued the cursor is at or past every row that an event has announced, so that
  no event is lost by the coalescing of scans, unless the last scan of the subscription failed to read the matches,
  which leaves the cursor where it was for the scan of the next event.
\<close>

theorem silent_payments_delivered:
  assumes "rtranclp (silent_step L opts row) initial_world w"
    and "map_of (silent_subscriptions (world_state w)) a = Some sub"
  shows "(\<exists>lo. min (floor_of w a) (unat (frontier_of w a)) \<le> lo \<and> lo \<le> floor_of w a \<and> history_of w a =
      map (match_object L) (concat (map (row (scanner sub) (cut sub)) [lo..<unat (silent_cursor sub)]))) \<and>
    ((\<forall>n < floor_of w a. row (scanner sub) (cut sub) n = []) \<longrightarrow> history_of w a =
      map (match_object L) (concat (map (row (scanner sub) (cut sub)) [floor_of w a..<unat (silent_cursor sub)]))) \<and>
    (Do_Silent \<notin> set (world_jobs w) \<and> \<not> failed w a \<longrightarrow> announced w \<le> silent_cursor sub)"
proof -
  have hi: "history_inv L row w" using silent_inv_reachable [OF assms(1)] by (simp add: silent_inv_def)
  then obtain lo where lo: "covered L row w a sub lo" using assms(2) unfolding history_inv_def by blast
  then have "(\<forall>n < floor_of w a. row (scanner sub) (cut sub) n = []) \<longrightarrow> history_of w a =
      map (match_object L) (concat (map (row (scanner sub) (cut sub)) [floor_of w a..<unat (silent_cursor sub)]))"
    using rows_from_floor [of lo "floor_of w a" "row (scanner sub) (cut sub)" "unat (silent_cursor sub)"]
    by (simp add: covered_def)
  then show ?thesis using lo hi assms(2) unfolding history_inv_def covered_def by blast
qed

definition sample_silent :: "nat silent_lib" where
  "sample_silent = \<lparr>decode_secret = (\<lambda>t. Some 1), decode_point = (\<lambda>t. Some [2]), verify_secret = (\<lambda>s. True),
     secret_to_public = (\<lambda>s. Some [3]), silent_address = (\<lambda>k p. ''sp1''), silent_scanner = (\<lambda>s p ls. length ls),
     scanner_valid = (\<lambda>k. True), distinct_labels = remdups, split_dash = (\<lambda>t. [t]), deserialize_size = (\<lambda>t. None),
     number_to_u32 = (\<lambda>d. Some 0), locktime_threshold = 500000000, hash_text = (\<lambda>h. []), ratio = (\<lambda>a b. 0),
     one_double = 0x3FF0000000000000, silent_depth_limited = code_of electrum_category 0\<rparr>"

definition sample_row :: "nat \<Rightarrow> silent_cut \<Rightarrow> nat \<Rightarrow> silent_match list" where
  "sample_row k ct i = [(of_nat i, of_nat k, ''t'')]"

definition sample_silent_view :: "u64 \<Rightarrow> nat silent_view" where
  "sample_silent_view f = \<lparr>silent_enabled = True, get_silent_floor = (\<lambda>start time. start),
     get_silent_frontier = (\<lambda>c. max c f),
     get_silent_matches = (\<lambda>k c l ct. Some (concat (map (sample_row k ct) [unat c..<unat l])))\<rparr>"

definition sample_silent_options :: subscribe_options where
  "sample_silent_options = \<lparr>maximum_subscriptions = 1, maximum_history = 10\<rparr>"

definition sample_silent_job :: "nat silent_job" where
  "sample_silent_job = Do_Silent_Subscribe ''sp1'' \<lparr>scanner = 1, subscription = [''address'' \<mapsto> String ''sp1''],
     cut = empty_cut, silent_cursor = 0\<rparr>"

definition sample_silent_world :: "nat silent_world" where
  "sample_silent_world =
     execute sample_silent sample_silent_options (sample_silent_view 2) sample_silent_job
       (initial_world\<lparr>world_jobs := [], frontier := 2\<rparr>)"

lemma sample_silent_run:
  "rtranclp (silent_step sample_silent sample_silent_options sample_row) initial_world sample_silent_world"
proof -
  let ?w1 = "initial_world\<lparr>world_jobs := [sample_silent_job]\<rparr> :: nat silent_world"
  let ?step = "silent_step sample_silent sample_silent_options sample_row"
  have "?step initial_world ?w1"
    using Request [of sample_silent_job sample_silent sample_silent_options sample_row initial_world] by (simp add: sample_silent_job_def initial_world_def)
  moreover have "?step ?w1 (?w1\<lparr>frontier := 2\<rparr>)" by (rule Write) (simp add: initial_world_def)
  moreover have "?step (?w1\<lparr>frontier := 2\<rparr>) sample_silent_world"
    using Execute [of "?w1\<lparr>frontier := 2\<rparr>" sample_silent_job "[]" sample_row "sample_silent_view 2" sample_silent
        sample_silent_options]
    by (simp add: sample_silent_world_def silent_rows_def sample_silent_view_def initial_world_def)
  ultimately show ?thesis by (meson rtranclp.rtrancl_refl rtranclp.rtrancl_into_rtrancl)
qed

lemma sample_silent_entry:
  "map_of (silent_subscriptions (world_state sample_silent_world)) ''sp1'' =
     Some \<lparr>scanner = 1, subscription = [''address'' \<mapsto> String ''sp1''], cut = empty_cut, silent_cursor = 2\<rparr>"
  by (simp add: sample_silent_world_def execute_def sample_silent_job_def do_silent_job_def do_silent_subscribe_def
      silent_entry_def initial_world_def initial_sparrow_def sample_silent_options_def sample_silent_view_def
      scan_silent_def restarted_def empty_cut_def Let_def assign_def)

lemma sample_silent_floor:
  "floor_of sample_silent_world ''sp1'' = 0" "\<not> failed sample_silent_world ''sp1''"
  "world_jobs sample_silent_world = []"
  by (simp_all add: sample_silent_world_def execute_def sample_silent_job_def do_silent_job_def do_silent_subscribe_def
      silent_entry_def initial_world_def initial_sparrow_def sample_silent_options_def sample_silent_view_def
      scan_silent_def scan_fails_def restarted_def empty_cut_def Let_def assign_def)

theorem silent_payments_delivered_witness:
  "history_of sample_silent_world ''sp1'' =
     map (match_object sample_silent) (concat (map (sample_row 1 empty_cut) [0..<2])) \<and>
   announced sample_silent_world \<le> 2"
  using silent_payments_delivered [OF sample_silent_run sample_silent_entry]
  by (simp add: sample_silent_floor del: upt_Suc)

subsection \<open>Limits and resubscription\<close>

text \<open>The subscriptions are limited and the flag that events read is set exactly while there is one.\<close>

lemma silent_limited:
  assumes "rtranclp (silent_step L opts row) initial_world w"
  shows "length (silent_subscriptions (world_state w)) \<le> unat (maximum_subscriptions opts)"
    "subscribed_silent (world_state w) \<longleftrightarrow> silent_subscriptions (world_state w) \<noteq> []"
  using silent_inv_reachable [OF assms] by (simp_all add: silent_inv_def subs_inv_def Let_def)

text \<open>A resubscription with a start of the same kind never narrows the start, and reports the one it keeps.\<close>

lemma resubscribe_start:
  assumes "map_of (silent_subscriptions s) a = Some current" "cut_time (cut current) = cut_time (cut new)"
    and "silent_entry opts a new s = Some sub"
  shows "cut_start (cut sub) = min (cut_start (cut current)) (cut_start (cut new))"
    "subscription sub ''start_height'' = Some (U64 (cut_start (cut sub)))"
  using assms by (auto simp: silent_entry_def Let_def)

text \<open>
  The scan of an event ends at the frontier seen from the lowest cursor, for every subscription: a cursor
  past that frontier moves back to it.
\<close>

lemma cursor_follows_lowest:
  assumes "silent_rows row f V" "map_of (silent_subscriptions s) a = Some sub"
    and "\<not> scan_fails V (max (lowest_cursor (silent_subscriptions s)) f) sub"
  shows "map_option silent_cursor (map_of (silent_subscriptions (fst (do_silent L V s))) a) =
    Some (max (lowest_cursor (silent_subscriptions s)) f)"
  using assms silent_subs(1) [OF assms(1) refl] by (simp add: map_of_map scanned_to_def)

end
