(* ===== verification/Chain_Util.thy ===== *)
theory Chain_Util
  imports Rpc_Model "HOL-Library.Multiset"
begin

unbundle bit_operations_syntax

text \<open>
  Chain utilities, \<open>utilities/chain.cpp\<close>: the median time of a block, the two fee histograms, and the
  writer and reader of the mempool file of bitcoind. Floating point numbers are a linear order with the operations of
  \<open>float_lib\<close> (the rates compared are never NaN); the byte format of a transaction and of a variable size is
  that of the system library, the fields of \<open>file_lib\<close>.
\<close>

subsection \<open>Median time\<close>

record ('l, 'k) context_view =
  to_confirmed_child :: "'l \<Rightarrow> 'l"
  get_context_mtp :: "'l \<Rightarrow> u32 option"
  get_header_key :: "'l \<Rightarrow> 'k"
  confirmed_chain_state_mtp :: "'k \<Rightarrow> u32 option"

definition median_time :: "('l, 'k) context_view \<Rightarrow> 'l \<Rightarrow> u32" where
  "median_time Q link =
     (case get_context_mtp Q (to_confirmed_child Q link) of
        Some mtp \<Rightarrow> mtp
      | None \<Rightarrow>
          (case confirmed_chain_state_mtp Q (get_header_key Q link) of
             None \<Rightarrow> 0
           | Some mtp \<Rightarrow> mtp))"

subsection \<open>Fee histograms\<close>

record fee_rate =
  bytes :: u64
  fee :: u64

record 'd float_lib =
  zero_rate :: 'd
  quotient :: "u64 \<Rightarrow> u64 \<Rightarrow> 'd"
  to_floating :: "u64 \<Rightarrow> 'd"
  twice :: "'d \<Rightarrow> 'd"
  grow :: "'d \<Rightarrow> 'd"
  tenth :: "u64 \<Rightarrow> 'd"
  ceilinged_add :: "u64 \<Rightarrow> u64 \<Rightarrow> u64"
  ceilinged_multiply :: "u64 \<Rightarrow> u64 \<Rightarrow> u64"

definition tx_rate :: "('d :: linorder) float_lib \<Rightarrow> fee_rate \<Rightarrow> 'd" where
  "tx_rate F tx = (if bytes tx = 0 then zero_rate F else quotient F (fee tx) (bytes tx))"

text \<open>The loop, from the rate and size of the open bin.\<close>

fun histogram_loop ::
  "('d :: linorder) float_lib \<Rightarrow> u64 \<Rightarrow> 'd \<Rightarrow> u64 \<Rightarrow> fee_rate list \<Rightarrow> ('d \<times> u64) list" where
  "histogram_loop F bin last' size' [] = (if size' \<noteq> 0 then [(last', size')] else [])"
| "histogram_loop F bin last' size' (tx # txs) =
     (let current = tx_rate F tx in
      if size' > bin \<and> current \<noteq> last'
      then (last', size') # histogram_loop F bin current (ceilinged_add F 0 (bytes tx)) txs
      else histogram_loop F bin current (ceilinged_add F size' (bytes tx)) txs)"

definition descending :: "('d :: linorder) float_lib \<Rightarrow> fee_rate list \<Rightarrow> bool" where
  "descending F txs \<longleftrightarrow> sorted_wrt (\<ge>) (map (tx_rate F) txs)"

text \<open>\<open>std::ranges::sort\<close> leaves open the order of equal rates; this is one of its results.\<close>

definition sort_rates :: "('d :: linorder) float_lib \<Rightarrow> fee_rate list \<Rightarrow> fee_rate list" where
  "sort_rates F rates = rev (sort_key (tx_rate F) rates)"

definition to_fee_histogram :: "('d :: linorder) float_lib \<Rightarrow> fee_rate list \<Rightarrow> u64 \<Rightarrow> ('d \<times> u64) list" where
  "to_fee_histogram F rates bin = histogram_loop F bin (zero_rate F) 0 (sort_rates F rates)"

text \<open>The sizes of the rates in tenths, in descending order as \<open>std::greater\<close> keeps them.\<close>

fun add_size :: "'d float_lib \<Rightarrow> u64 \<Rightarrow> u64 \<Rightarrow> (u64 \<times> u64) list \<Rightarrow> (u64 \<times> u64) list" where
  "add_size F rate n [] = [(rate, ceilinged_add F 0 n)]"
| "add_size F rate n (e # sizes) =
     (if rate > fst e then (rate, ceilinged_add F 0 n) # e # sizes
      else if rate = fst e then (rate, ceilinged_add F (snd e) n) # sizes
      else e # add_size F rate n sizes)"

definition tenth_rate :: "'d float_lib \<Rightarrow> fee_rate \<Rightarrow> u64" where
  "tenth_rate F tx = (if bytes tx = 0 then 0 else ceilinged_multiply F (fee tx) 10 div bytes tx)"

definition rate_sizes :: "'d float_lib \<Rightarrow> fee_rate list \<Rightarrow> (u64 \<times> u64) list" where
  "rate_sizes F rates = foldl (\<lambda>sizes tx. add_size F (tenth_rate F tx) (bytes tx) sizes) [] rates"

fun compact_loop ::
  "('d :: linorder) float_lib \<Rightarrow> 'd \<Rightarrow> u64 \<Rightarrow> u64 \<Rightarrow> (u64 \<times> u64) list \<Rightarrow> (u64 \<times> u64) list" where
  "compact_loop F limit last' size' [] = []"
| "compact_loop F limit last' size' ((rate, n) # sizes) =
     (let flush = (size' \<noteq> 0 \<and> to_floating F n > twice F limit);
          out1 = (if flush then [(last', size')] else []);
          limit1 = (if flush then grow F limit else limit);
          size1 = ceilinged_add F (if flush then 0 else size') n;
          full = (to_floating F size1 > limit1);
          out2 = (if full then [(rate, size1)] else []);
          limit2 = (if full then grow F limit1 else limit1);
          size2 = (if full then 0 else size1) in
      out1 @ out2 @ compact_loop F limit2 rate size2 sizes)"

definition to_compact_fee_histogram ::
  "('d :: linorder) float_lib \<Rightarrow> fee_rate list \<Rightarrow> u64 \<Rightarrow> ('d \<times> u64) list" where
  "to_compact_fee_histogram F rates bin =
     map (\<lambda>(rate, n). (tenth F rate, n)) (compact_loop F (to_floating F bin) 0 0 (rate_sizes F rates))"

subsection \<open>The mempool file\<close>

record 't file_lib =
  tx_bytes :: "'t \<Rightarrow> u8 list"
  read_tx :: "u8 list \<Rightarrow> ('t \<times> nat) option"
  size_bytes :: "u64 \<Rightarrow> u8 list"
  read_size :: "u8 list \<Rightarrow> (u64 \<times> nat) option"
  write_word :: "u64 \<Rightarrow> u8 list"
  read_word :: "u8 list \<Rightarrow> u64"

record ('t, 'l) pool_view =
  get_confirmable_txs :: "'l list option"
  get_transaction :: "'l \<Rightarrow> 't option"
  get_pooled_time :: "'l \<Rightarrow> u32 option"

definition mempool_unobfuscated :: u64 where
  "mempool_unobfuscated = 1"

definition mempool_obfuscated :: u64 where
  "mempool_obfuscated = 2"

definition mempool_key_size :: nat where
  "mempool_key_size = 8"

definition mempool_key_offset :: nat where
  "mempool_key_offset = 8 + 1"

definition mempool_body_offset :: nat where
  "mempool_body_offset = mempool_key_offset + mempool_key_size"

fun mempool_entries :: "'t file_lib \<Rightarrow> ('t, 'l) pool_view \<Rightarrow> 'l list \<Rightarrow> u8 list option" where
  "mempool_entries L Q [] = Some []"
| "mempool_entries L Q (link # links) =
     (case (get_transaction Q link, get_pooled_time Q link) of
        (Some tx, Some time) \<Rightarrow>
          map_option (\<lambda>rest. tx_bytes L tx @ write_word L (ucast time) @ write_word L 0 @ rest) (mempool_entries L Q links)
      | _ \<Rightarrow> None)"

definition serialize_mempool :: "'t file_lib \<Rightarrow> ('t, 'l) pool_view \<Rightarrow> u8 list option" where
  "serialize_mempool L Q =
     (case get_confirmable_txs Q of
        None \<Rightarrow> None
      | Some links \<Rightarrow>
          (case mempool_entries L Q links of
             None \<Rightarrow> None
           | Some entries \<Rightarrow>
               Some (write_word L mempool_unobfuscated @ write_word L (of_nat (length links)) @ entries @
                 size_bytes L 0 @ size_bytes L 0)))"

text \<open>
  A source is the position of the next byte, None once a read has passed the end; a failed read
  gives zero.
\<close>

definition skip_bytes :: "u8 list \<Rightarrow> nat \<Rightarrow> nat option \<Rightarrow> nat option" where
  "skip_bytes data n source =
     (case source of None \<Rightarrow> None | Some i \<Rightarrow> if i + n \<le> length data then Some (i + n) else None)"

definition read_8_bytes :: "'t file_lib \<Rightarrow> u8 list \<Rightarrow> nat option \<Rightarrow> u64 \<times> nat option" where
  "read_8_bytes L data source =
     (case (source, skip_bytes data 8 source) of
        (Some i, Some j) \<Rightarrow> (read_word L (take 8 (drop i data)), Some j)
      | _ \<Rightarrow> (0, None))"

definition read_size_at :: "'t file_lib \<Rightarrow> u8 list \<Rightarrow> nat option \<Rightarrow> u64 \<times> nat option" where
  "read_size_at L data source =
     (case source of
        None \<Rightarrow> (0, None)
      | Some i \<Rightarrow> (case read_size L (drop i data) of None \<Rightarrow> (0, None) | Some (n, k) \<Rightarrow> (n, Some (i + k))))"

text \<open>Deobfuscation in place: each byte that follows the key, by its position in the file.\<close>

definition deobfuscate :: "u8 list \<Rightarrow> u8 list" where
  "deobfuscate data =
     map (\<lambda>i. if mempool_body_offset \<le> i
               then data ! i XOR data ! (mempool_key_offset + i mod mempool_key_size) else data ! i)
       [0..<length data]"

text \<open>The loop over the transactions, None when the source fails.\<close>

fun read_txs :: "'t file_lib \<Rightarrow> u8 list \<Rightarrow> nat \<Rightarrow> nat option \<Rightarrow> 't list option" where
  "read_txs L data 0 source = (case source of None \<Rightarrow> None | Some i \<Rightarrow> Some [])"
| "read_txs L data (Suc n) source =
     (case source of
        None \<Rightarrow> None
      | Some i \<Rightarrow>
          (case read_tx L (drop i data) of
             None \<Rightarrow> None
           | Some (tx, k) \<Rightarrow> map_option (Cons tx) (read_txs L data n (skip_bytes data (8 + 8) (Some (i + k))))))"

definition parse_mempool :: "'t file_lib \<Rightarrow> u8 list \<Rightarrow> 't list option" where
  "parse_mempool L data =
     (let (version, source) = read_8_bytes L data (Some 0) in
      if version = mempool_obfuscated then
        (let (n, source) = read_size_at L data source in
         if n \<noteq> of_nat mempool_key_size \<or> length data < mempool_body_offset then None
         else
           let source = skip_bytes data mempool_key_size source;
               data = deobfuscate data;
               (count', source) = read_8_bytes L data source in
           read_txs L data (unat count') source)
      else if version \<noteq> mempool_unobfuscated then None
      else
        let (count', source) = read_8_bytes L data source in
        read_txs L data (unat count') source)"

subsection \<open>Reading back a mempool file\<close>

text \<open>A word in little endian bytes.\<close>

definition le_bytes :: "u64 \<Rightarrow> u8 list" where
  "le_bytes w = map (\<lambda>i. ucast (drop_bit (8 * i) w)) [0..<8]"

definition of_le_bytes :: "u8 list \<Rightarrow> u64" where
  "of_le_bytes bs = foldr (\<lambda>b w. ucast b OR push_bit 8 w) bs 0"

lemma le_bytes_length [simp]: "length (le_bytes w) = 8"
  by (simp add: le_bytes_def)

lemma byte_step: "ucast (ucast (drop_bit k w) :: u8) OR push_bit 8 (drop_bit (k + 8) w) = drop_bit k w" for w :: u64
proof (rule bit_word_eqI)
  fix n assume "n < LENGTH(64)"
  then show "bit (ucast (ucast (drop_bit k w) :: u8) OR push_bit 8 (drop_bit (k + 8) w)) n = bit (drop_bit k w) n"
    by (cases "n < 8") (auto simp: bit_simps)
qed

lemma of_le_bytes_le_bytes [simp]: "of_le_bytes (le_bytes w) = w"
proof -
  have "k \<le> 8 \<Longrightarrow> foldr (\<lambda>b w. ucast b OR push_bit 8 w)
      (map (\<lambda>i. ucast (drop_bit (8 * i) w) :: u8) [k..<8]) 0 = drop_bit (8 * k) w" for k
  proof (induction k rule: inc_induct)
    case base
    then show ?case by (auto intro!: bit_word_eqI simp: bit_simps)
  next
    case (step n)
    then show ?case using byte_step [of "8 * n" w] by (simp add: upt_rec [of n] algebra_simps)
  qed
  from this [of 0] show ?thesis by (simp add: of_le_bytes_def le_bytes_def)
qed

text \<open>What the system library promises of its formats: a written transaction is read back whatever follows it.\<close>

definition file_laws :: "'t file_lib \<Rightarrow> bool" where
  "file_laws L \<longleftrightarrow>
     (\<forall>tx rest. read_tx L (tx_bytes L tx @ rest) = Some (tx, length (tx_bytes L tx))) \<and>
     (\<forall>rest. read_size L (8 # rest) = Some (8, 1)) \<and>
     (\<forall>w. write_word L w = le_bytes w) \<and>
     (\<forall>bs. length bs = 8 \<longrightarrow> read_word L bs = of_le_bytes bs)"

text \<open>The transactions of the links, as a file holds them.\<close>

definition pool_txs :: "('t, 'l) pool_view \<Rightarrow> 'l list \<Rightarrow> 't list" where
  "pool_txs Q links = map (\<lambda>link. the (get_transaction Q link)) links"

lemma read_8_bytes_append:
  "file_laws L \<Longrightarrow> read_8_bytes L (pre @ le_bytes w @ suf) (Some (length pre)) = (w, Some (length pre + 8))"
  by (simp add: read_8_bytes_def skip_bytes_def file_laws_def)

lemma read_entries:
  assumes "file_laws L" "mempool_entries L Q links = Some entries"
  shows "read_txs L (pre @ entries @ suf) (length links) (Some (length pre)) = Some (pool_txs Q links)"
  using assms(2)
proof (induction links arbitrary: pre entries)
  case (Cons link links)
  then obtain tx time rest where e: "get_transaction Q link = Some tx" "get_pooled_time Q link = Some time"
    "mempool_entries L Q links = Some rest" "entries = tx_bytes L tx @ le_bytes (ucast time) @ le_bytes 0 @ rest"
    using assms(1) by (auto simp: file_laws_def split: option.splits)
  let ?entry = "tx_bytes L tx @ le_bytes (ucast time) @ le_bytes 0"
  have "read_tx L (drop (length pre) (pre @ entries @ suf)) = Some (tx, length (tx_bytes L tx))"
    using assms(1) e(4) by (simp add: file_laws_def)
  moreover have "skip_bytes (pre @ entries @ suf) (8 + 8) (Some (length pre + length (tx_bytes L tx))) =
      Some (length (pre @ ?entry))"
    by (simp add: skip_bytes_def e(4))
  moreover have "read_txs L (pre @ entries @ suf) (length links) (Some (length (pre @ ?entry))) = Some (pool_txs Q links)"
    using Cons.IH [OF e(3), of "pre @ ?entry"] e(4) by simp
  ultimately show ?case using e(1) by (simp add: pool_txs_def)
qed (simp add: pool_txs_def)

lemma read_body:
  assumes "file_laws L" "mempool_entries L Q links = Some entries" "length links < 2 ^ 64"
  shows "(case read_8_bytes L (pre @ le_bytes (of_nat (length links)) @ entries @ suf) (Some (length pre)) of
      (count', source) \<Rightarrow> read_txs L (pre @ le_bytes (of_nat (length links)) @ entries @ suf) (unat count') source) =
    Some (pool_txs Q links)"
  using read_8_bytes_append [OF assms(1), of pre "of_nat (length links)" "entries @ suf"]
    read_entries [OF assms(1,2), of "pre @ le_bytes (of_nat (length links))" suf] assms(3)
  by (simp add: unat_of_nat)

text \<open>The version 2 file of a body: the key and each byte of the body masked by its position in the file.\<close>

definition obfuscated_file :: "u8 list \<Rightarrow> u8 list \<Rightarrow> u8 list" where
  "obfuscated_file key body =
     le_bytes 2 @ [8] @ key @ map (\<lambda>i. body ! i XOR key ! ((17 + i) mod 8)) [0..<length body]"

lemma deobfuscate_file:
  assumes "length key = 8"
  shows "deobfuscate (obfuscated_file key body) = le_bytes 2 @ [8] @ key @ body"
proof (rule nth_equalityI)
  fix i assume i: "i < length (deobfuscate (obfuscated_file key body))"
  let ?f = "obfuscated_file key body" and ?h = "le_bytes 2 @ [8] @ key"
  have len: "length ?f = 17 + length body" "length ?h = 17" using assms by (simp_all add: obfuscated_file_def)
  have f: "?f = ?h @ map (\<lambda>i. body ! i XOR key ! ((17 + i) mod 8)) [0..<length body]"
    by (simp add: obfuscated_file_def)
  have key: "?f ! (9 + j) = key ! j" if "j < 8" for j
    using that assms by (simp add: obfuscated_file_def nth_append)
  have d: "deobfuscate ?f ! i = (if 17 \<le> i then ?f ! i XOR ?f ! (9 + i mod 8) else ?f ! i)"
    using i by (simp add: deobfuscate_def mempool_body_offset_def mempool_key_offset_def mempool_key_size_def)
  show "deobfuscate ?f ! i = (le_bytes 2 @ [8] @ key @ body) ! i"
  proof (cases "17 \<le> i")
    case True
    then have "i - 17 < length body" using i len by (simp add: deobfuscate_def)
    then have "?f ! i = body ! (i - 17) XOR key ! (i mod 8)"
      using True len(2) unfolding f by (subst nth_append) simp
    moreover have "(?h @ body) ! i = body ! (i - 17)" using True len(2) by (subst nth_append) simp
    ultimately show ?thesis using d key [of "i mod 8"] True by (simp add: xor.assoc)
  next
    case False
    have "?f ! i = ?h ! i" using False len(2) unfolding f by (subst nth_append) simp
    also have "\<dots> = (?h @ body) ! i" using False len(2) by (subst nth_append) simp
    finally show ?thesis using d False by simp
  qed
qed (use assms in \<open>simp add: deobfuscate_def obfuscated_file_def\<close>)

lemma parse_plain:
  assumes "file_laws L" "mempool_entries L Q links = Some entries" "length links < 2 ^ 64"
  shows "parse_mempool L (le_bytes 1 @ le_bytes (of_nat (length links)) @ entries @ suf) = Some (pool_txs Q links)"
  using read_8_bytes_append [OF assms(1), of "[]" 1] read_body [OF assms, of "le_bytes 1" suf]
  by (simp add: parse_mempool_def mempool_obfuscated_def mempool_unobfuscated_def)

lemma serialized_form:
  assumes "file_laws L" "get_confirmable_txs Q = Some links" "serialize_mempool L Q = Some data"
  shows "\<exists>entries. mempool_entries L Q links = Some entries \<and>
    data = le_bytes 1 @ le_bytes (of_nat (length links)) @ entries @ size_bytes L 0 @ size_bytes L 0"
  using assms by (auto simp: file_laws_def serialize_mempool_def mempool_unobfuscated_def split: option.splits)

lemma parse_obfuscated:
  assumes "file_laws L" "mempool_entries L Q links = Some entries" "length links < 2 ^ 64" "length key = 8"
  shows "parse_mempool L (obfuscated_file key (le_bytes (of_nat (length links)) @ entries @ suf)) =
    Some (pool_txs Q links)"
proof -
  let ?body = "le_bytes (of_nat (length links)) @ entries @ suf"
  let ?f = "obfuscated_file key ?body" and ?h = "le_bytes 2 @ [8] @ key"
  have version: "read_8_bytes L ?f (Some 0) = (2, Some 8)"
    using read_8_bytes_append [OF assms(1), of "[]" 2] by (simp add: obfuscated_file_def)
  have size: "read_size_at L ?f (Some 8) = (8, Some 9)"
    using assms(1) by (simp add: read_size_at_def obfuscated_file_def file_laws_def)
  have len: "17 \<le> length ?f" "skip_bytes ?f 8 (Some 9) = Some 17"
    using assms(4) by (simp_all add: obfuscated_file_def skip_bytes_def)
  have body: "(case read_8_bytes L (deobfuscate ?f) (Some 17) of
      (count', source) \<Rightarrow> read_txs L (deobfuscate ?f) (unat count') source) = Some (pool_txs Q links)"
    using read_body [OF assms(1-3), of ?h suf] assms(4) deobfuscate_file [OF assms(4), of ?body] by simp
  show ?thesis using version size len body
    by (simp add: parse_mempool_def mempool_obfuscated_def mempool_body_offset_def mempool_key_offset_def
        mempool_key_size_def)
qed

text \<open>
  A mempool file that the server writes is read back as the transactions of the pool in their order,
  and so is the version 2 file with the same body under any key.
\<close>

theorem mempool_file_round_trip:
  assumes "file_laws L" "get_confirmable_txs Q = Some links" "length links < 2 ^ 64"
    and "serialize_mempool L Q = Some data" "length key = 8"
  shows "parse_mempool L data = Some (pool_txs Q links) \<and>
    parse_mempool L (obfuscated_file key (drop 8 data)) = Some (pool_txs Q links)"
proof -
  obtain entries where e: "mempool_entries L Q links = Some entries"
    "data = le_bytes 1 @ le_bytes (of_nat (length links)) @ entries @ size_bytes L 0 @ size_bytes L 0"
    using serialized_form [OF assms(1,2,4)] by blast
  then have "drop 8 data = le_bytes (of_nat (length links)) @ entries @ size_bytes L 0 @ size_bytes L 0" by simp
  then show ?thesis using parse_plain [OF assms(1) e(1) assms(3)] parse_obfuscated [OF assms(1) e(1) assms(3,5)] e(2)
    by simp
qed

definition sample_file :: "u8 file_lib" where
  "sample_file = \<lparr>tx_bytes = (\<lambda>tx. [tx]), read_tx = (\<lambda>bs. case bs of [] \<Rightarrow> None | b # _ \<Rightarrow> Some (b, 1)),
     size_bytes = (\<lambda>n. [ucast n]), read_size = (\<lambda>bs. case bs of [] \<Rightarrow> None | b # _ \<Rightarrow> Some (ucast b, 1)),
     write_word = le_bytes, read_word = of_le_bytes\<rparr>"

definition sample_pool :: "(u8, nat) pool_view" where
  "sample_pool = \<lparr>get_confirmable_txs = Some [0, 1], get_transaction = (\<lambda>l. Some (of_nat l + 7)),
     get_pooled_time = (\<lambda>l. Some 5)\<rparr>"

theorem mempool_file_round_trip_witness:
  "parse_mempool sample_file (the (serialize_mempool sample_file sample_pool)) = Some [7, 8]"
proof -
  have "file_laws sample_file" by (simp add: file_laws_def sample_file_def)
  moreover have "serialize_mempool sample_file sample_pool = Some (the (serialize_mempool sample_file sample_pool))"
    by (simp add: serialize_mempool_def sample_pool_def)
  moreover have "get_confirmable_txs sample_pool = Some [0, 1]" by (simp add: sample_pool_def)
  moreover have "length [0::nat, 1] < 2 ^ 64" "length (replicate 8 (3 :: u8)) = 8" by simp_all
  ultimately show ?thesis
    using mempool_file_round_trip [of sample_file sample_pool "[0, 1]" _ "replicate 8 3"]
    by (simp add: pool_txs_def) (simp add: sample_pool_def)
qed

subsection \<open>The fee histogram\<close>

text \<open>
  What the histogram promises of descending rates: bins of strictly descending rates that together hold all
  sizes, each but the last one past the bin size.
\<close>

definition total_bytes :: "fee_rate list \<Rightarrow> nat" where
  "total_bytes txs = sum_list (map (\<lambda>tx. unat (bytes tx)) txs)"

definition bin_total :: "('d \<times> u64) list \<Rightarrow> nat" where
  "bin_total bins = sum_list (map (\<lambda>b. unat (snd b)) bins)"

definition saturate :: "nat \<Rightarrow> u64" where
  "saturate n = of_nat (min n (2 ^ 64 - 1))"

text \<open>The addition of the system library stops at the greatest size.\<close>

definition float_laws :: "'d float_lib \<Rightarrow> bool" where
  "float_laws F \<longleftrightarrow> (\<forall>a b. ceilinged_add F a b = saturate (unat a + unat b))"

lemma unat_saturate: "unat (saturate n) = min n (2 ^ 64 - 1)"
  by (simp add: saturate_def unat_of_nat min_def)

lemma ceilinged_add_exact:
  "float_laws F \<Longrightarrow> unat a + unat b < 2 ^ 64 \<Longrightarrow> unat (ceilinged_add F a b) = unat a + unat b"
  by (simp add: float_laws_def unat_saturate)

lemma histogram_total:
  "float_laws F \<Longrightarrow> unat size' + total_bytes txs < 2 ^ 64 \<Longrightarrow>
   bin_total (histogram_loop F bin last' size' txs) = unat size' + total_bytes txs"
proof (induction txs arbitrary: last' size')
  case (Cons tx txs)
  have "unat (ceilinged_add F size' (bytes tx)) = unat size' + unat (bytes tx)"
    "unat (ceilinged_add F 0 (bytes tx)) = unat (bytes tx)"
    using Cons.prems by (simp_all add: ceilinged_add_exact total_bytes_def)
  then show ?case using Cons by (simp add: Let_def bin_total_def total_bytes_def)
qed (simp add: bin_total_def total_bytes_def)

lemma histogram_rates:
  "descending F txs \<Longrightarrow> \<forall>tx \<in> set txs. tx_rate F tx \<le> last' \<Longrightarrow>
   sorted_wrt (>) (map fst (histogram_loop F bin last' size' txs)) \<and>
   (\<forall>b \<in> set (histogram_loop F bin last' size' txs). fst b \<le> last')"
proof (induction txs arbitrary: last' size')
  case (Cons tx txs)
  let ?r = "tx_rate F tx"
  have IH: "sorted_wrt (>) (map fst (histogram_loop F bin ?r n txs)) \<and>
      (\<forall>b \<in> set (histogram_loop F bin ?r n txs). fst b \<le> ?r)" for n
    by (rule Cons.IH) (use Cons.prems(1) in \<open>auto simp: descending_def\<close>)
  have le: "?r \<le> last'" using Cons.prems(2) by simp
  show ?case
  proof (cases "size' > bin \<and> ?r \<noteq> last'")
    case True
    then have "?r < last'" using le by (simp add: order_less_le)
    then show ?thesis using True IH [of "ceilinged_add F 0 (bytes tx)"] by (fastforce simp: Let_def)
  next
    case False
    then show ?thesis using IH [of "ceilinged_add F size' (bytes tx)"] le by (fastforce simp: Let_def)
  qed
qed simp

lemma histogram_bins: "b \<in> set (butlast (histogram_loop F bin last' size' txs)) \<Longrightarrow> snd b > bin"
  by (induction txs arbitrary: last' size') (auto simp: Let_def split: if_splits)

text \<open>A run of equal rates only adds up, so that the order within it is of no account.\<close>

lemma saturate_add: "saturate (unat (saturate n) + m) = saturate (n + m)"
  by (simp add: word_unat_eq_iff unat_saturate min_def)

lemma histogram_run:
  "float_laws F \<Longrightarrow> \<forall>tx \<in> set xs. tx_rate F tx = r \<Longrightarrow>
   histogram_loop F bin r size' (xs @ ys) = histogram_loop F bin r (saturate (unat size' + total_bytes xs)) ys"
proof (induction xs arbitrary: size')
  case Nil
  have "saturate (unat size') = size'"
    using unsigned_less [of size', where ?'a = nat] by (simp add: word_unat_eq_iff unat_saturate min_def)
  then show ?case by (simp add: total_bytes_def)
next
  case (Cons x xs)
  then show ?case
    by (simp add: Let_def float_laws_def saturate_add total_bytes_def add.assoc)
qed

lemma histogram_block:
  assumes "float_laws F" "xs \<noteq> []" "\<forall>tx \<in> set xs. tx_rate F tx = r"
  shows "histogram_loop F bin last' size' (xs @ ys) =
    (if size' > bin \<and> r \<noteq> last' then (last', size') # histogram_loop F bin r (saturate (total_bytes xs)) ys
     else histogram_loop F bin r (saturate (unat size' + total_bytes xs)) ys)"
proof -
  obtain x rest where x: "xs = x # rest" using assms(2) by (cases xs) auto
  then show ?thesis using assms(1,3) histogram_run [of F rest r bin _ ys]
    by (simp add: Let_def float_laws_def saturate_add total_bytes_def add.assoc)
qed

lemma descending_split:
  assumes "descending F (tx # txs)"
  shows "tx # txs = filter (\<lambda>t. tx_rate F t = tx_rate F tx) (tx # txs) @ filter (\<lambda>t. tx_rate F t \<noteq> tx_rate F tx) (tx # txs)"
  using assms
proof (induction txs)
  case (Cons t txs)
  then have d: "descending F (tx # txs)" "tx_rate F t \<le> tx_rate F tx" "\<forall>u \<in> set txs. tx_rate F u \<le> tx_rate F t"
    by (auto simp: descending_def)
  show ?case
  proof (cases "tx_rate F t = tx_rate F tx")
    case True
    then show ?thesis using Cons.IH [OF d(1)] by simp
  next
    case False
    then have "\<forall>u \<in> set txs. tx_rate F u \<noteq> tx_rate F tx" using d by fastforce
    then show ?thesis using False by (simp add: filter_empty_conv)
  qed
qed simp

lemma total_bytes_mset: "mset xs = mset ys \<Longrightarrow> total_bytes xs = total_bytes ys"
  unfolding total_bytes_def by (metis mset_map sum_mset_sum_list)

lemma descending_filter: "descending F txs \<Longrightarrow> descending F (filter P txs)"
  by (induction txs) (auto simp: descending_def)

text \<open>The histogram does not depend on the order that the sort leaves open.\<close>

lemma histogram_order:
  "float_laws F \<Longrightarrow> descending F txs \<Longrightarrow> descending F txs' \<Longrightarrow> mset txs = mset txs' \<Longrightarrow>
   histogram_loop F bin last' size' txs = histogram_loop F bin last' size' txs'"
proof (induction "length txs" arbitrary: txs txs' last' size' rule: less_induct)
  case less
  show ?case
  proof (cases txs)
    case Nil
    then show ?thesis using less.prems(4) by simp
  next
    case (Cons t ts)
    then obtain u us where u: "txs' = u # us" using less.prems(4) by (cases txs') auto
    have sets: "set txs = set txs'" using less.prems(4) by (metis set_mset_mset)
    have "tx_rate F u \<le> tx_rate F t" "tx_rate F t \<le> tx_rate F u"
      using less.prems(2,3) sets unfolding Cons u descending_def by auto
    then have r: "tx_rate F u = tx_rate F t" by simp
    let ?same = "filter (\<lambda>x. tx_rate F x = tx_rate F t)" and ?rest = "filter (\<lambda>x. tx_rate F x \<noteq> tx_rate F t)"
    have split: "txs = ?same txs @ ?rest txs" "txs' = ?same txs' @ ?rest txs'"
      using descending_split [of F t ts] descending_split [of F u us] less.prems(2,3) Cons u r by simp_all
    have m: "mset (?same txs) = mset (?same txs')" "mset (?rest txs) = mset (?rest txs')"
      using less.prems(4) by simp_all
    have ne: "?same txs \<noteq> []" "?same txs' \<noteq> []" using Cons u r by auto
    have len: "length (?rest txs) < length txs"
      using length_filter_less [of t txs "\<lambda>x. tx_rate F x \<noteq> tx_rate F t"] Cons by simp
    have IH: "histogram_loop F bin l n (?rest txs) = histogram_loop F bin l n (?rest txs')" for l n
      by (rule less.hyps [OF len less.prems(1) descending_filter [OF less.prems(2)] descending_filter [OF less.prems(3)] m(2)])
    have "histogram_loop F bin last' size' (?same txs @ ?rest txs) =
        histogram_loop F bin last' size' (?same txs' @ ?rest txs')"
      using histogram_block [OF less.prems(1) ne(1), of "tx_rate F t"] histogram_block [OF less.prems(1) ne(2), of "tx_rate F t"]
        total_bytes_mset [OF m(1)] IH by simp
    then show ?thesis using split by simp
  qed
qed

lemma sort_rates_descending: "descending F (sort_rates F rates)" "mset (sort_rates F rates) = mset rates"
  by (simp_all add: descending_def sort_rates_def rev_map [symmetric] sorted_wrt_rev)

text \<open>
  C34: For any order that the sort may leave the transactions in, the fee histogram has strictly
  descending rates, its bins hold the size of every transaction once, and every bin but the last is past the
  bin size.
\<close>

theorem fee_histogram_partition:
  assumes "float_laws F" "descending F txs" "mset txs = mset rates" "total_bytes rates < 2 ^ 64"
  shows "histogram_loop F bin (zero_rate F) 0 txs = to_fee_histogram F rates bin \<and>
    sorted_wrt (>) (map fst (to_fee_histogram F rates bin)) \<and>
    bin_total (to_fee_histogram F rates bin) = total_bytes rates \<and>
    (\<forall>b \<in> set (butlast (to_fee_histogram F rates bin)). snd b > bin)"
proof -
  note sorted = sort_rates_descending [of F rates]
  have same: "histogram_loop F bin (zero_rate F) 0 txs = to_fee_histogram F rates bin"
    unfolding to_fee_histogram_def using histogram_order [OF assms(1,2) sorted(1)] assms(3) sorted(2) by simp
  have "sorted_wrt (>) (map fst (histogram_loop F bin (zero_rate F) 0 (sort_rates F rates)))"
  proof (cases "sort_rates F rates")
    case (Cons t ts)
    have "histogram_loop F bin (zero_rate F) 0 (t # ts) = histogram_loop F bin (tx_rate F t) 0 (t # ts)"
      by (simp add: Let_def)
    moreover have "\<forall>x \<in> set (t # ts). tx_rate F x \<le> tx_rate F t"
      using sorted(1) unfolding Cons by (auto simp: descending_def)
    ultimately show ?thesis using histogram_rates [of F "t # ts" "tx_rate F t" bin 0] sorted(1) Cons by metis
  qed simp
  moreover have "bin_total (to_fee_histogram F rates bin) = total_bytes rates"
    unfolding to_fee_histogram_def using histogram_total [OF assms(1), of 0 "sort_rates F rates"] total_bytes_mset [OF sorted(2)] assms(4) by simp
  ultimately show ?thesis using same histogram_bins unfolding to_fee_histogram_def by metis
qed

definition sample_float :: "nat float_lib" where
  "sample_float = \<lparr>zero_rate = 0, quotient = (\<lambda>a b. unat a div unat b), to_floating = unat, twice = (\<lambda>n. 2 * n),
     grow = (\<lambda>n. n + n div 10), tenth = (\<lambda>n. unat n div 10),
     ceilinged_add = (\<lambda>a b. saturate (unat a + unat b)), ceilinged_multiply = (\<lambda>a b. saturate (unat a * unat b))\<rparr>"

theorem fee_histogram_partition_witness:
  "bin_total (to_fee_histogram sample_float [\<lparr>bytes = 10, fee = 20\<rparr>, \<lparr>bytes = 5, fee = 50\<rparr>] 4) = 15"
proof -
  let ?rates = "[\<lparr>bytes = 10, fee = 20\<rparr>, \<lparr>bytes = 5, fee = 50\<rparr>]"
  have "float_laws sample_float" by (simp add: float_laws_def sample_float_def)
  moreover have "descending sample_float (rev ?rates)" "mset (rev ?rates) = mset ?rates"
    by (simp_all add: descending_def tx_rate_def sample_float_def)
  moreover have "total_bytes ?rates = 15" by (simp add: total_bytes_def)
  ultimately show ?thesis using fee_histogram_partition [of sample_float "rev ?rates" ?rates 4] by simp
qed

subsection \<open>The compact histogram\<close>

lemma add_size_keys: "fst ` set (add_size F rate n sizes) = insert rate (fst ` set sizes)"
  by (induction sizes) auto

lemma add_size_sorted: "sorted_wrt (>) (map fst sizes) \<Longrightarrow> sorted_wrt (>) (map fst (add_size F rate n sizes))"
proof (induction sizes)
  case (Cons e sizes)
  then have rest: "\<forall>k \<in> fst ` set sizes. k < fst e" by auto
  consider "rate > fst e" | "rate = fst e" | "rate < fst e" by (rule linorder_cases) auto
  then show ?case
  proof cases
    case 3
    then have "\<forall>k \<in> fst ` set (add_size F rate n sizes). k < fst e"
      unfolding add_size_keys using rest by simp
    then show ?thesis using 3 Cons by auto
  qed (use Cons rest in \<open>auto intro: order.strict_trans\<close>)
qed simp

lemma rate_sizes_sorted: "sorted_wrt (>) (map fst (rate_sizes F rates))"
proof -
  have "sorted_wrt (>) (map fst sizes) \<Longrightarrow>
      sorted_wrt (>) (map fst (foldl (\<lambda>sizes tx. add_size F (tenth_rate F tx) (bytes tx) sizes) sizes rates))" for sizes
    by (induction rates arbitrary: sizes) (simp_all add: add_size_sorted)
  then show ?thesis by (simp add: rate_sizes_def)
qed

lemma compact_step:
  "\<exists>flushed full limit2 size2. compact_loop F limit last' size' ((rate, n) # sizes) =
     flushed @ full @ compact_loop F limit2 rate size2 sizes \<and>
     fst ` set flushed \<subseteq> (if size' = 0 then {} else {last'}) \<and> fst ` set full \<subseteq> {rate}"
  unfolding compact_loop.simps Let_def by (intro exI conjI, rule refl) auto

lemma compact_keys:
  "fst ` set (compact_loop F limit last' size' sizes) \<subseteq> (if size' = 0 then {} else {last'}) \<union> fst ` set sizes"
proof (induction sizes arbitrary: limit last' size')
  case (Cons e sizes)
  obtain rate n where e: "e = (rate, n)" by (cases e)
  obtain flushed full limit2 size2 where
    step: "compact_loop F limit last' size' ((rate, n) # sizes) = flushed @ full @ compact_loop F limit2 rate size2 sizes"
    "fst ` set flushed \<subseteq> (if size' = 0 then {} else {last'})" "fst ` set full \<subseteq> {rate}"
    using compact_step [of F limit last' size' rate n sizes] by (elim exE conjE) (rule that)
  have "fst ` set (compact_loop F limit2 rate size2 sizes) \<subseteq> {rate} \<union> fst ` set sizes"
    by (rule order.trans [OF Cons.IH]) (simp add: subset_insertI)
  then show ?case using step(2,3) unfolding e step(1) set_append image_Un list.set image_insert fst_conv by blast
qed simp

text \<open>The rates of the compact histogram, in tenths, are strictly descending: no rate opens two bins.\<close>

lemma compact_rates:
  "sorted_wrt (>) (map fst sizes) \<Longrightarrow> (size' \<noteq> 0 \<Longrightarrow> \<forall>e \<in> set sizes. fst e < last') \<Longrightarrow>
   sorted_wrt (>) (map fst (compact_loop F limit last' size' sizes))"
proof (induction sizes arbitrary: limit last' size')
  case (Cons e sizes)
  obtain rate n where e: "e = (rate, n)" by (cases e)
  have below: "\<forall>e \<in> set sizes. fst e < rate" using Cons.prems(1) e by auto
  have IH: "sorted_wrt (>) (map fst (compact_loop F l rate m sizes))" for l m
    using Cons.IH Cons.prems(1) below by simp
  have keys: "x \<in> set (compact_loop F l rate m sizes) \<Longrightarrow> fst x \<le> rate \<and> (m = 0 \<longrightarrow> fst x < rate)" for x l m
    using compact_keys [of F l rate m sizes] below by (fastforce split: if_splits)
  have "size' \<noteq> 0 \<Longrightarrow> rate < last'" using Cons.prems(2) e by simp
  then show ?case using IH keys unfolding e
    by (auto simp: Let_def sorted_wrt_append) (meson order.strict_trans1 keys)+
qed simp

lemma compact_histogram_rates:
  "sorted_wrt (>) (map fst (compact_loop F limit 0 0 (rate_sizes F rates)))"
  by (rule compact_rates) (simp_all add: rate_sizes_sorted)

end
