(* ===== verification/Electrum_Methods.thy ===== *)
theory Electrum_Methods
  imports Electrum_Headers Interfaces Chain_Util "HOL-Library.Char_ord" "HOL-Library.List_Lexorder"
begin

text \<open>
  The remaining methods of the electrum service: address, script hash and script queries
  (\<open>protocol_electrum_addresses.cpp\<close>, \<open>_scripthash.cpp\<close>, \<open>_scriptpubkey.cpp\<close>), transactions
  (\<open>_transactions.cpp\<close>), fees (\<open>_fees.cpp\<close>), the pool (\<open>_mempool.cpp\<close>), the server (\<open>_server.cpp\<close>) and the
  two outpoint queries of \<open>_outpoints.cpp\<close>; and the service of all methods of the interface.
\<close>

subsection \<open>Data\<close>

datatype fee_mode = basic | geometric | economical | conservative | mode_unknown

text \<open>Work that a handler starts: a parallel job, a submission to the node or a subscription job.\<close>

datatype 't electrum_work =
    Get_Balance hash_digest
  | Get_History hash_digest bool
  | Get_Mempool hash_digest bool
  | List_Unspent hash_digest bool
  | Fee_Histogram
  | Mempool_Recent
  | Submit_Tx 't
  | Submit_Package "'t list"
  | Test_Package "'t list"
  | Estimate u64 fee_mode
  | Subscription job

datatype 't answer = Silent | Code code | Result value_t | Work "'t electrum_work"

fun of_reaction :: "reaction \<Rightarrow> 't answer" where
  "of_reaction Ignored = Silent"
| "of_reaction (Send_Code ec) = Code ec"
| "of_reaction (Send_Result v) = Result v"
| "of_reaction (Post_Job j) = Work (Subscription j)"

abbreviation bad_request :: "'t answer" where
  "bad_request \<equiv> Code (electrum_error ''bad_request'')"

abbreviation daemon_error :: "'t answer" where
  "daemon_error \<equiv> Code (electrum_error ''daemon_error'')"

abbreviation method_not_found :: "'t answer" where
  "method_not_found \<equiv> Code (electrum_error ''method_not_found'')"

record ('t, 'p, 's) methods_lib =
  digest_of :: "string \<Rightarrow> hash_digest option"
  chunk_of :: "string \<Rightarrow> u8 list option"
  output_of :: "u8 list \<Rightarrow> 's option"
  output_hash :: "'s \<Rightarrow> hash_digest"
  payment_of :: "string \<Rightarrow> 'p option"
  payment_output :: "'p \<Rightarrow> 's option"
  output_payment :: "'s \<Rightarrow> 'p option"
  payment_text :: "'p \<Rightarrow> string"
  decode_tx :: "string \<Rightarrow> 't option"
  txid :: "'t \<Rightarrow> hash_digest"
  wtxid :: "'t \<Rightarrow> hash_digest"
  digest_text :: "hash_digest \<Rightarrow> string"
  chunk_text :: "u8 list \<Rightarrow> string"
  message_of :: "code \<Rightarrow> string"
  size_of_number :: "double \<Rightarrow> u64 option"
  index_of_number :: "double \<Rightarrow> u32 option"
  is_base16_char :: "char \<Rightarrow> bool"
  subtract_floor :: "u64 \<Rightarrow> u64 \<Rightarrow> u64"
  merkle_branch :: "nat \<Rightarrow> hash_digest list \<Rightarrow> hash_digest list"
  find_position :: "hash_digest list \<Rightarrow> hash_digest \<Rightarrow> nat option"
  duplicate_transaction :: code
  estimate_false :: code
  estimate_disabled :: code
  estimate_premature :: code
  integrity :: code
  limited_depth :: code
  fee_number :: "u64 \<Rightarrow> double"
  minus_one :: double
  port_text :: "16 word \<Rightarrow> string"

record ('t, 'l, 's) methods_view =
  addresses_enabled :: bool
  to_tx :: "hash_digest \<Rightarrow> 'l option"
  get_wire_tx :: "'l \<Rightarrow> u8 list"
  tx_object :: "'l \<Rightarrow> object_t option option"
  find_strong :: "'l \<Rightarrow> u32 option"
  top_confirmed :: u64
  block_height :: "u32 \<Rightarrow> u64 option"
  header_key :: "u32 \<Rightarrow> hash_digest"
  block_timestamp :: "u32 \<Rightarrow> u32 option"
  confirmed_at :: "u64 \<Rightarrow> u32 option"
  get_tx_keys :: "u32 option \<Rightarrow> hash_digest list"
  get_position_tx :: "u32 option \<Rightarrow> u64 \<Rightarrow> 'l option"
  get_tx_key :: "'l \<Rightarrow> hash_digest"
  get_output_script :: "'l \<Rightarrow> u32 \<Rightarrow> 's option"

type_synonym endpoint = "string \<times> 16 word"

record electrum_options =
  banner_message :: string
  donation_address :: string
  server_name :: string
  minimum_text :: string
  maximum_text :: string
  ping_interval_seconds :: u32
  ping_size :: nat
  self_binds :: "endpoint list"
  self_safes :: "endpoint list"
  more_binds :: "endpoint list"
  more_safes :: "endpoint list"
  minimum_fee_rate :: double
  minimum_bump_rate :: double

subsection \<open>Balances, histories and outputs of a script\<close>

definition get_balance :: "('t, 'l, 's) methods_view \<Rightarrow> hash_digest \<Rightarrow> 't answer" where
  "get_balance V hash = (if \<not> addresses_enabled V then method_not_found else Work (Get_Balance hash))"

definition get_history_of :: "('t, 'l, 's) methods_view \<Rightarrow> hash_digest \<Rightarrow> bool \<Rightarrow> 't answer" where
  "get_history_of V hash wrap = (if \<not> addresses_enabled V then method_not_found else Work (Get_History hash wrap))"

definition get_mempool :: "('t, 'l, 's) methods_view \<Rightarrow> hash_digest \<Rightarrow> bool \<Rightarrow> 't answer" where
  "get_mempool V hash wrap = (if \<not> addresses_enabled V then method_not_found else Work (Get_Mempool hash wrap))"

definition list_unspent :: "('t, 'l, 's) methods_view \<Rightarrow> hash_digest \<Rightarrow> bool \<Rightarrow> 't answer" where
  "list_unspent V hash wrap = (if \<not> addresses_enabled V then method_not_found else Work (List_Unspent hash wrap))"

text \<open>The guards that the four queries of each of the three kinds of argument share.\<close>

definition with_scripthash ::
  "('t, 'p, 's) methods_lib \<Rightarrow> electrum_version \<Rightarrow> string \<Rightarrow> (hash_digest \<Rightarrow> 't answer) \<Rightarrow> 't answer" where
  "with_scripthash L version scripthash query =
     (if \<not> version \<ge> v1_1 \<or> version \<ge> v1_7 then bad_request
      else case digest_of L scripthash of None \<Rightarrow> bad_request | Some hash \<Rightarrow> query hash)"

definition with_scriptpubkey ::
  "('t, 'p, 's) methods_lib \<Rightarrow> electrum_version \<Rightarrow> string \<Rightarrow> (hash_digest \<Rightarrow> 't answer) \<Rightarrow> 't answer" where
  "with_scriptpubkey L version scriptpubkey query =
     (if \<not> version \<ge> v1_7 then bad_request
      else case chunk_of L scriptpubkey of
          None \<Rightarrow> bad_request
        | Some chunk \<Rightarrow> (case output_of L chunk of None \<Rightarrow> bad_request | Some script \<Rightarrow> query (output_hash L script)))"

definition extract_scripthash :: "('t, 'p, 's) methods_lib \<Rightarrow> string \<Rightarrow> hash_digest" where
  "extract_scripthash L address =
     (case payment_of L address of
        None \<Rightarrow> null_hash
      | Some payment \<Rightarrow>
          (case payment_output L payment of None \<Rightarrow> null_hash | Some script \<Rightarrow> output_hash L script))"

definition with_address ::
  "('t, 'p, 's) methods_lib \<Rightarrow> electrum_version \<Rightarrow> string \<Rightarrow> (hash_digest \<Rightarrow> 't answer) \<Rightarrow> 't answer" where
  "with_address L version address query =
     (if version \<ge> v1_3 then bad_request
      else let hash = extract_scripthash L address in
        if hash = null_hash then bad_request else query hash)"

text \<open>The handlers of the queries.\<close>

definition handle_address_get_balance ::
  "('t, 'p, 's) methods_lib \<Rightarrow> ('t, 'l, 's) methods_view \<Rightarrow> electrum_version \<Rightarrow> string \<Rightarrow> 't answer" where
  "handle_address_get_balance L V version address = with_address L version address (get_balance V)"

definition handle_address_get_history ::
  "('t, 'p, 's) methods_lib \<Rightarrow> ('t, 'l, 's) methods_view \<Rightarrow> electrum_version \<Rightarrow> string \<Rightarrow> 't answer" where
  "handle_address_get_history L V version address = with_address L version address (\<lambda>h. get_history_of V h False)"

definition handle_address_get_mempool ::
  "('t, 'p, 's) methods_lib \<Rightarrow> ('t, 'l, 's) methods_view \<Rightarrow> electrum_version \<Rightarrow> string \<Rightarrow> 't answer" where
  "handle_address_get_mempool L V version address = with_address L version address (\<lambda>h. get_mempool V h False)"

definition handle_address_list_unspent ::
  "('t, 'p, 's) methods_lib \<Rightarrow> ('t, 'l, 's) methods_view \<Rightarrow> electrum_version \<Rightarrow> string \<Rightarrow> 't answer" where
  "handle_address_list_unspent L V version address = with_address L version address (\<lambda>h. list_unspent V h False)"

definition handle_scripthash_get_balance ::
  "('t, 'p, 's) methods_lib \<Rightarrow> ('t, 'l, 's) methods_view \<Rightarrow> electrum_version \<Rightarrow> string \<Rightarrow> 't answer" where
  "handle_scripthash_get_balance L V version scripthash = with_scripthash L version scripthash (get_balance V)"

definition handle_scripthash_get_history ::
  "('t, 'p, 's) methods_lib \<Rightarrow> ('t, 'l, 's) methods_view \<Rightarrow> electrum_version \<Rightarrow> string \<Rightarrow> 't answer" where
  "handle_scripthash_get_history L V version scripthash = with_scripthash L version scripthash (\<lambda>h. get_history_of V h False)"

definition handle_scripthash_get_mempool ::
  "('t, 'p, 's) methods_lib \<Rightarrow> ('t, 'l, 's) methods_view \<Rightarrow> electrum_version \<Rightarrow> string \<Rightarrow> 't answer" where
  "handle_scripthash_get_mempool L V version scripthash = with_scripthash L version scripthash (\<lambda>h. get_mempool V h False)"

definition handle_scripthash_list_unspent ::
  "('t, 'p, 's) methods_lib \<Rightarrow> ('t, 'l, 's) methods_view \<Rightarrow> electrum_version \<Rightarrow> string \<Rightarrow> 't answer" where
  "handle_scripthash_list_unspent L V version scripthash = with_scripthash L version scripthash (\<lambda>h. list_unspent V h False)"

definition handle_scriptpubkey_get_balance ::
  "('t, 'p, 's) methods_lib \<Rightarrow> ('t, 'l, 's) methods_view \<Rightarrow> electrum_version \<Rightarrow> string \<Rightarrow> 't answer" where
  "handle_scriptpubkey_get_balance L V version scriptpubkey = with_scriptpubkey L version scriptpubkey (get_balance V)"

definition handle_scriptpubkey_get_history ::
  "('t, 'p, 's) methods_lib \<Rightarrow> ('t, 'l, 's) methods_view \<Rightarrow> electrum_version \<Rightarrow> string \<Rightarrow> 't answer" where
  "handle_scriptpubkey_get_history L V version scriptpubkey = with_scriptpubkey L version scriptpubkey (\<lambda>h. get_history_of V h True)"

definition handle_scriptpubkey_get_mempool ::
  "('t, 'p, 's) methods_lib \<Rightarrow> ('t, 'l, 's) methods_view \<Rightarrow> electrum_version \<Rightarrow> string \<Rightarrow> 't answer" where
  "handle_scriptpubkey_get_mempool L V version scriptpubkey = with_scriptpubkey L version scriptpubkey (\<lambda>h. get_mempool V h True)"

definition handle_scriptpubkey_list_unspent ::
  "('t, 'p, 's) methods_lib \<Rightarrow> ('t, 'l, 's) methods_view \<Rightarrow> electrum_version \<Rightarrow> string \<Rightarrow> 't answer" where
  "handle_scriptpubkey_list_unspent L V version scriptpubkey = with_scriptpubkey L version scriptpubkey (\<lambda>h. list_unspent V h True)"

definition handle_address_subscribe ::
  "('t, 'p, 's) methods_lib \<Rightarrow> ('h, 'c) archive_view \<Rightarrow> electrum_version \<Rightarrow> string \<Rightarrow> 't answer" where
  "handle_address_subscribe L A version address =
     with_address L version address (\<lambda>h. of_reaction (scripthash_subscribe A h notify_address))"

text \<open>The replies of the parallel jobs.\<close>

datatype ('h, 'u) electrum_done =
    Done_Balance code u64 u64
  | Done_History code "'h list" bool
  | Done_Mempool code "'h list" bool
  | Done_Unspent code "'u list" bool
  | Done_Pool code value_t

record ('h, 'u) entry_lib =
  h_height :: "'h \<Rightarrow> u64"
  h_hash :: "'h \<Rightarrow> hash_digest"
  h_confirmed :: "'h \<Rightarrow> bool"
  h_fee :: "'h \<Rightarrow> u64"
  u_hash :: "'u \<Rightarrow> hash_digest"
  u_index :: "'u \<Rightarrow> u32"
  u_height :: "'u \<Rightarrow> u64"
  u_value :: "'u \<Rightarrow> u64"

definition wrapped :: "value_t list \<Rightarrow> string \<Rightarrow> bool \<Rightarrow> value_t" where
  "wrapped out key wrap = (if \<not> wrap then Array out else Object [key \<mapsto> Array out])"

definition transform_history :: "('t, 'p, 's) methods_lib \<Rightarrow> ('h, 'u) entry_lib \<Rightarrow> 'h \<Rightarrow> value_t" where
  "transform_history L E h =
     (let object = [''height'' \<mapsto> I64 (h_height E h), ''tx_hash'' \<mapsto> String (digest_text L (h_hash E h))] in
      Object (if \<not> h_confirmed E h then object(''fee'' \<mapsto> U64 (h_fee E h)) else object))"

definition transform_unspent :: "('t, 'p, 's) methods_lib \<Rightarrow> ('h, 'u) entry_lib \<Rightarrow> 'u \<Rightarrow> value_t" where
  "transform_unspent L E u =
     Object [''tx_hash'' \<mapsto> String (digest_text L (u_hash E u)), ''tx_pos'' \<mapsto> U32 (u_index E u),
       ''height'' \<mapsto> U64 (u_height E u), ''value'' \<mapsto> U64 (u_value E u)]"

definition failed :: "('t, 'p, 's) methods_lib \<Rightarrow> code \<Rightarrow> 't answer" where
  "failed L ec = Code (translate_electrum (limited_depth L) ec (enumerator electrum_errors ''daemon_error''))"

definition complete_electrum ::
  "('t, 'p, 's) methods_lib \<Rightarrow> ('h, 'u) entry_lib \<Rightarrow> bool \<Rightarrow> ('h, 'u) electrum_done \<Rightarrow> 't answer" where
  "complete_electrum L E stopped done' =
     (if stopped then Silent
      else case done' of
          Done_Balance ec confirmed unconfirmed \<Rightarrow>
            if is_error ec then failed L ec
            else Result (Object [''confirmed'' \<mapsto> U64 confirmed, ''unconfirmed'' \<mapsto> I64 unconfirmed])
        | Done_History ec histories wrap \<Rightarrow>
            if is_error ec then failed L ec
            else Result (wrapped (map (transform_history L E) histories) ''history'' wrap)
        | Done_Mempool ec histories wrap \<Rightarrow>
            if is_error ec then failed L ec
            else Result (wrapped (map (transform_history L E) histories) ''history'' wrap)
        | Done_Unspent ec unspents wrap \<Rightarrow>
            if is_error ec then failed L ec
            else Result (wrapped (map (transform_unspent L E) unspents) ''utxos'' wrap)
        | Done_Pool ec result \<Rightarrow> if is_error ec then failed L ec else Result result)"

subsection \<open>The pool\<close>

definition histogram_bin :: u64 where
  "histogram_bin = 30000"

definition recent_count :: nat where
  "recent_count = 10"

record 'l electrum_pool_view =
  confirmable_fees :: "fee_rate list option"
  confirmable_links :: "code + 'l list"
  tx_fee :: "'l \<Rightarrow> u64 option"
  tx_virtual_size :: "'l \<Rightarrow> u64 option"
  tx_key :: "'l \<Rightarrow> hash_digest"

text \<open>The rates and sizes compared are not negative, for which the order of doubles is that of their bits.\<close>

definition do_get_fee_histogram ::
  "('t, 'p, 's) methods_lib \<Rightarrow> double float_lib \<Rightarrow> 'l electrum_pool_view \<Rightarrow> ('h, 'u) electrum_done" where
  "do_get_fee_histogram L F Q =
     (case confirmable_fees Q of
        None \<Rightarrow> Done_Pool (integrity L) Null
      | Some rates \<Rightarrow>
          let bins = to_compact_fee_histogram F rates histogram_bin in
          Done_Pool success_code (Array (map (\<lambda>(rate, n). Array [Number rate, U64 n]) bins)))"

text \<open>The most recent transactions first, None when one has no fee or size.\<close>

fun recent_entries :: "('t, 'p, 's) methods_lib \<Rightarrow> 'l electrum_pool_view \<Rightarrow> 'l list \<Rightarrow> value_t list option" where
  "recent_entries L Q [] = Some []"
| "recent_entries L Q (link # links) =
     (case (tx_fee Q link, tx_virtual_size Q link) of
        (Some fee', Some vsize) \<Rightarrow>
          map_option (Cons (Object [''txid'' \<mapsto> String (digest_text L (tx_key Q link)), ''fee'' \<mapsto> U64 fee',
            ''vsize'' \<mapsto> U64 vsize])) (recent_entries L Q links)
      | _ \<Rightarrow> None)"

definition do_mempool_recent ::
  "('t, 'p, 's) methods_lib \<Rightarrow> 'l electrum_pool_view \<Rightarrow> ('h, 'u) electrum_done" where
  "do_mempool_recent L Q =
     (case confirmable_links Q of
        Inl ec \<Rightarrow> Done_Pool ec Null
      | Inr links \<Rightarrow>
          let count' = min recent_count (length links) in
          (case recent_entries L Q (take count' (rev links)) of
             None \<Rightarrow> Done_Pool (integrity L) Null
           | Some recent \<Rightarrow> Done_Pool success_code (Array recent)))"

definition handle_mempool_get_fee_histogram :: "electrum_version \<Rightarrow> 't answer" where
  "handle_mempool_get_fee_histogram version = (if \<not> version \<ge> v1_2 then bad_request else Work Fee_Histogram)"

definition handle_mempool_recent :: "electrum_version \<Rightarrow> 't answer" where
  "handle_mempool_recent version = (if \<not> version \<ge> v1_7 then bad_request else Work Mempool_Recent)"

definition handle_mempool_get_info :: "electrum_options \<Rightarrow> electrum_version \<Rightarrow> 't answer" where
  "handle_mempool_get_info O' version =
     (if \<not> version \<ge> v1_6 then bad_request
      else Result (Object [''mempoolminfee'' \<mapsto> Number (minimum_fee_rate O'),
        ''minrelaytxfee'' \<mapsto> Number (minimum_fee_rate O'),
        ''incrementalrelayfee'' \<mapsto> Number (minimum_bump_rate O')]))"

subsection \<open>Fees\<close>

definition mode_from_string :: "string \<Rightarrow> fee_mode" where
  "mode_from_string mode =
     (if mode = [] then basic
      else if mode = ''basic'' then basic
      else if mode = ''geometric'' then geometric
      else if mode = ''economical'' then economical
      else if mode = ''conservative'' then conservative
      else mode_unknown)"

definition handle_blockchain_estimate_fee ::
  "('t, 'p, 's) methods_lib \<Rightarrow> electrum_version \<Rightarrow> double \<Rightarrow> string \<Rightarrow> 't answer" where
  "handle_blockchain_estimate_fee L version number mode =
     (if \<not> version \<ge> v1_0 then bad_request
      else case size_of_number L number of
          None \<Rightarrow> bad_request
        | Some target \<Rightarrow>
            if mode \<noteq> [] \<and> \<not> version \<ge> v1_6 then bad_request
            else let mode' = mode_from_string mode in
              if mode' = mode_unknown then bad_request else Work (Estimate target mode'))"

definition complete_estimate_fee :: "('t, 'p, 's) methods_lib \<Rightarrow> bool \<Rightarrow> code \<Rightarrow> u64 \<Rightarrow> 't answer" where
  "complete_estimate_fee L stopped ec fee' =
     (if stopped then Silent
      else
        let disabled = (ec = estimate_false L \<or> ec = estimate_disabled L \<or> ec = estimate_premature L) in
        if \<not> disabled \<and> is_error ec then daemon_error
        else if disabled then Result (I64 (- 1))
        else Result (Number (fee_number L fee')))"

definition handle_blockchain_relay_fee :: "electrum_options \<Rightarrow> electrum_version \<Rightarrow> 't answer" where
  "handle_blockchain_relay_fee O' version =
     (if \<not> version \<ge> v1_0 \<or> version \<ge> v1_6 then bad_request else Result (Number (minimum_fee_rate O')))"

subsection \<open>Transactions\<close>

definition maximum_test_txs :: nat where
  "maximum_test_txs = 25"

definition handle_transaction_broadcast ::
  "('t, 'p, 's) methods_lib \<Rightarrow> electrum_version \<Rightarrow> string \<Rightarrow> 't answer" where
  "handle_transaction_broadcast L version raw_tx =
     (if \<not> version \<ge> v1_0 then bad_request
      else case decode_tx L raw_tx of None \<Rightarrow> bad_request | Some tx \<Rightarrow> Work (Submit_Tx tx))"

definition complete_submit_tx ::
  "('t, 'p, 's) methods_lib \<Rightarrow> electrum_version \<Rightarrow> bool \<Rightarrow> code \<Rightarrow> 't \<Rightarrow> 't answer" where
  "complete_submit_tx L version stopped ec tx =
     (if stopped then Silent
      else if \<not> is_error ec \<or> ec = duplicate_transaction L then Result (String (digest_text L (txid L tx)))
      else if \<not> version \<ge> v1_1 then Result (String (message_of L ec))
      else failed L ec)"

text \<open>The transactions of an array of texts, None when an element is not one.\<close>

fun decode_txs :: "('t, 'p, 's) methods_lib \<Rightarrow> value_t list \<Rightarrow> 't list option" where
  "decode_txs L [] = Some []"
| "decode_txs L (tx_hex # rest) =
     (case tx_hex of
        String text' \<Rightarrow>
          (case decode_tx L text' of
             None \<Rightarrow> None
           | Some tx \<Rightarrow> map_option (Cons tx) (decode_txs L rest))
      | _ \<Rightarrow> None)"

definition handle_transaction_broadcast_package ::
  "('t, 'p, 's) methods_lib \<Rightarrow> electrum_version \<Rightarrow> value_t \<Rightarrow> bool \<Rightarrow> 't answer" where
  "handle_transaction_broadcast_package L version raw_txs verbose =
     (if \<not> version \<ge> v1_6 then bad_request
      else if verbose then bad_request
      else case raw_txs of
          Array txs_hex \<Rightarrow>
            if txs_hex = [] then bad_request
            else (case decode_txs L txs_hex of None \<Rightarrow> bad_request | Some txs \<Rightarrow> Work (Submit_Package txs))
        | _ \<Rightarrow> bad_request)"

definition handle_transaction_testmempoolaccept ::
  "('t, 'p, 's) methods_lib \<Rightarrow> electrum_version \<Rightarrow> value_t \<Rightarrow> 't answer" where
  "handle_transaction_testmempoolaccept L version raw_txs =
     (if \<not> version \<ge> v1_7 then bad_request
      else case raw_txs of
          Array txs_hex \<Rightarrow>
            if txs_hex = [] \<or> length txs_hex > maximum_test_txs then bad_request
            else (case decode_txs L txs_hex of None \<Rightarrow> bad_request | Some txs \<Rightarrow> Work (Test_Package txs))
        | _ \<Rightarrow> bad_request)"

definition test_entry :: "('t, 'p, 's) methods_lib \<Rightarrow> code \<Rightarrow> 't \<Rightarrow> value_t" where
  "test_entry L ec tx =
     (let object = [''txid'' \<mapsto> String (digest_text L (txid L tx)), ''wtxid'' \<mapsto> String (digest_text L (wtxid L tx)),
        ''allowed'' \<mapsto> Boolean (\<not> is_error ec)] in
      Object (if is_error ec then object(''reason'' \<mapsto> String (message_of L ec)) else object))"

definition complete_test_package ::
  "('t, 'p, 's) methods_lib \<Rightarrow> bool \<Rightarrow> code \<Rightarrow> 't list \<Rightarrow> 't answer" where
  "complete_test_package L stopped ec txs =
     (if stopped then Silent else Result (Array (map (test_entry L ec) txs)))"

text \<open>The index of the failed transaction is that of the node; reading past the package aborts, the value None.\<close>

definition complete_submit_package ::
  "('t, 'p, 's) methods_lib \<Rightarrow> bool \<Rightarrow> code \<Rightarrow> nat \<Rightarrow> 't list \<Rightarrow> 't answer option" where
  "complete_submit_package L stopped ec index txs =
     (if stopped then Some Silent
      else
        let failed' = (is_error ec \<and> ec \<noteq> duplicate_transaction L) in
        if failed' \<and> index \<ge> length txs then None
        else
          let errors = (if failed'
            then [Object [''txid'' \<mapsto> String (digest_text L (txid L (txs ! index))),
              ''error'' \<mapsto> String (message_of L ec)]] else []) in
          Some (Result (Object [''success'' \<mapsto> Boolean (\<not> failed'), ''errors'' \<mapsto> Array errors])))"

definition handle_transaction_get ::
  "('t, 'p, 's) methods_lib \<Rightarrow> ('t, 'l, 's) methods_view \<Rightarrow> electrum_version \<Rightarrow> string \<Rightarrow> bool \<Rightarrow> 't answer" where
  "handle_transaction_get L V version tx_hash verbose =
     (if \<not> version \<ge> v1_0 \<or> \<not> version \<ge> v1_2 \<and> verbose then bad_request
      else case digest_of L tx_hash of
          None \<Rightarrow> bad_request
        | Some hash \<Rightarrow>
            (case to_tx V hash of
               None \<Rightarrow> daemon_error
             | Some link \<Rightarrow>
                 if \<not> verbose then
                   let tx = get_wire_tx V link in
                   if tx = [] then daemon_error else Result (String (chunk_text L tx))
                 else
                   (case tx_object V link of
                      None \<Rightarrow> daemon_error
                    | Some None \<Rightarrow> daemon_error
                    | Some (Some object) \<Rightarrow>
                        (case find_strong V link of
                           None \<Rightarrow> Result (Object object)
                         | Some block \<Rightarrow>
                             (case (block_height V block, block_timestamp V block) of
                                (Some height, Some timestamp) \<Rightarrow>
                                  if header_key V block = null_hash then daemon_error
                                  else
                                    let confirms = subtract_floor L (top_confirmed V) height + 1 in
                                    Result (Object (object(
                                      ''in_active_chain'' \<mapsto> Boolean True,
                                      ''blockhash'' \<mapsto> String (digest_text L (header_key V block)),
                                      ''confirmations'' \<mapsto> U64 confirms,
                                      ''blocktime'' \<mapsto> U32 timestamp,
                                      ''time'' \<mapsto> U32 timestamp)))
                              | _ \<Rightarrow> daemon_error)))))"

definition branch_texts :: "('t, 'p, 's) methods_lib \<Rightarrow> hash_digest list \<Rightarrow> value_t" where
  "branch_texts L branch = Array (map (\<lambda>hash. String (digest_text L hash)) branch)"

definition handle_transaction_get_merkle ::
  "('t, 'p, 's) methods_lib \<Rightarrow> ('t, 'l, 's) methods_view \<Rightarrow> electrum_version \<Rightarrow> string \<Rightarrow> double \<Rightarrow> 't answer" where
  "handle_transaction_get_merkle L V version tx_hash height =
     (if \<not> version \<ge> v1_4 then bad_request
      else case (size_of_number L height, digest_of L tx_hash) of
          (Some height', Some hash) \<Rightarrow>
            (case confirmed_at V height' of
               None \<Rightarrow> bad_request
             | Some block \<Rightarrow>
                 let hashes = get_tx_keys V (Some block) in
                 if hashes = [] then daemon_error
                 else (case find_position L hashes hash of
                     None \<Rightarrow> bad_request
                   | Some index \<Rightarrow>
                       Result (Object [''merkle'' \<mapsto> branch_texts L (merkle_branch L index hashes),
                         ''block_height'' \<mapsto> U64 height', ''pos'' \<mapsto> U64 (of_nat index)])))
        | _ \<Rightarrow> bad_request)"

definition handle_transaction_id_from_position ::
  "('t, 'p, 's) methods_lib \<Rightarrow> ('t, 'l, 's) methods_view \<Rightarrow> electrum_version \<Rightarrow> double \<Rightarrow> double \<Rightarrow> bool \<Rightarrow>
   't answer" where
  "handle_transaction_id_from_position L V version height tx_pos merkle =
     (if \<not> version \<ge> v1_4 then bad_request
      else case (size_of_number L height, size_of_number L tx_pos) of
          (Some height', Some position) \<Rightarrow>
            let block = confirmed_at V height' in
            (case get_position_tx V block position of
               None \<Rightarrow> bad_request
             | Some tx \<Rightarrow>
                 let hash = get_tx_key V tx in
                 if hash = null_hash then daemon_error
                 else if \<not> merkle then Result (String (digest_text L hash))
                 else
                   let hashes = get_tx_keys V block in
                   if hashes = [] then daemon_error
                   else if unat position \<ge> length hashes then bad_request
                   else Result (Object [''tx_hash'' \<mapsto> String (digest_text L hash),
                     ''merkle'' \<mapsto> branch_texts L (merkle_branch L (unat position) hashes)]))
        | _ \<Rightarrow> bad_request)"

subsection \<open>Outpoints\<close>

definition handle_utxo_get_address ::
  "('t, 'p, 's) methods_lib \<Rightarrow> ('t, 'l, 's) methods_view \<Rightarrow> electrum_version \<Rightarrow> string \<Rightarrow> double \<Rightarrow> 't answer" where
  "handle_utxo_get_address L V version tx_hash index =
     (if version \<ge> v1_1 then bad_request
      else case (index_of_number L index, digest_of L tx_hash) of
          (Some offset, Some hash) \<Rightarrow>
            (case to_tx V hash of
               None \<Rightarrow> Result Null
             | Some tx \<Rightarrow>
                 (case get_output_script V tx offset of
                    None \<Rightarrow> daemon_error
                  | Some script \<Rightarrow>
                      (case output_payment L script of
                         None \<Rightarrow> Result Null
                       | Some address \<Rightarrow> Result (String (payment_text L address)))))
        | _ \<Rightarrow> bad_request)"

definition handle_outpoint_get_status ::
  "('h, 'm, 'c) subscribe_lib \<Rightarrow> ('h, 'c) archive_view \<Rightarrow> electrum_version \<Rightarrow> string \<Rightarrow> double \<Rightarrow> string \<Rightarrow>
   't answer" where
  "handle_outpoint_get_status S A version tx_hash txout_idx spk_hint =
     (if \<not> version \<ge> v1_7 then bad_request
      else case (to_index S txout_idx, decode_hash_text S tx_hash) of
          (Some index, Some hash) \<Rightarrow>
            if \<not> is_valid_hint S spk_hint then bad_request
            else Result (Object (to_outpoint_status S (snd (get_outpoint_history S A (hash, index)))))
        | _ \<Rightarrow> bad_request)"

subsection \<open>The server\<close>

definition maximum_pong :: u64 where
  "maximum_pong = 1024"

definition handle_server_add_peer :: "electrum_version \<Rightarrow> 't answer" where
  "handle_server_add_peer version = (if \<not> version \<ge> v1_1 then bad_request else method_not_found)"

definition handle_server_banner :: "electrum_options \<Rightarrow> electrum_version \<Rightarrow> 't answer" where
  "handle_server_banner O' version =
     (if \<not> version \<ge> v1_0 then bad_request else Result (String (banner_message O')))"

definition handle_server_donation_address :: "electrum_options \<Rightarrow> electrum_version \<Rightarrow> 't answer" where
  "handle_server_donation_address O' version =
     (if \<not> version \<ge> v1_0 then bad_request else Result (String (donation_address O')))"

text \<open>\<open>std::map\<close> with \<open>operator[]\<close>: the entry of the key, made when absent, is updated.\<close>

definition upsert :: "'k :: linorder \<Rightarrow> 'v \<Rightarrow> ('v \<Rightarrow> 'v) \<Rightarrow> ('k \<times> 'v) list \<Rightarrow> ('k \<times> 'v) list" where
  "upsert k new f m =
     (let m = emplace k new m in assign k (f (the (map_of m k))) m)"

definition host_port :: "string \<Rightarrow> endpoint \<Rightarrow> (string \<times> object_t) list \<Rightarrow> (string \<times> object_t) list" where
  "host_port key e hosts =
     (if fst e \<noteq> [] then upsert (fst e) Map.empty (\<lambda>object. object(key \<mapsto> U32 (ucast (snd e)))) hosts else hosts)"

definition self_hosts :: "electrum_options \<Rightarrow> object_t" where
  "self_hosts O' =
     (let hosts = fold (host_port ''tcp_port'') (self_binds O') [];
          hosts = fold (host_port ''ssl_port'') (self_safes O') hosts in
      if hosts = [] then [[] \<mapsto> Object [''tcp_port'' \<mapsto> Null, ''ssl_port'' \<mapsto> Null]]
      else map_option Object \<circ> map_of hosts)"

record ports =
  tcp :: "16 word option"
  ssl :: "16 word option"

definition defaulted :: "('t, 'p, 's) methods_lib \<Rightarrow> 16 word \<Rightarrow> string" where
  "defaulted L port = (if port = 0 then [] else port_text L port)"

definition host_features :: "('t, 'p, 's) methods_lib \<Rightarrow> ports \<Rightarrow> string list" where
  "host_features L ports =
     (case tcp ports of None \<Rightarrow> [] | Some port \<Rightarrow> [''t'' @ defaulted L port]) @
     (case ssl ports of None \<Rightarrow> [] | Some port \<Rightarrow> [''s'' @ defaulted L port])"

definition more_hosts :: "('t, 'p, 's) methods_lib \<Rightarrow> electrum_options \<Rightarrow> value_t list" where
  "more_hosts L O' =
     (let none = \<lparr>tcp = None, ssl = None\<rparr>;
          hosts = fold (\<lambda>e. upsert (fst e) none (\<lambda>p. p\<lparr>tcp := Some (snd e)\<rparr>)) (more_binds O') [];
          hosts = fold (\<lambda>e. upsert (fst e) none (\<lambda>p. p\<lparr>ssl := Some (snd e)\<rparr>)) (more_safes O') hosts in
      concat (map (\<lambda>(host, ports).
        let features = host_features L ports in
        if features \<noteq> [] then [Array [String host, String host, Array (map String features)]] else []) hosts))"

definition handle_server_features ::
  "('t, 'p, 's) methods_lib \<Rightarrow> ('t, 'l, 's) methods_view \<Rightarrow> electrum_options \<Rightarrow> (object_t \<Rightarrow> object_t) \<Rightarrow>
   electrum_version \<Rightarrow> 't answer" where
  "handle_server_features L V O' add_features version =
     (if \<not> version \<ge> v1_0 then bad_request
      else case confirmed_at V 0 of
          None \<Rightarrow> daemon_error
        | Some genesis \<Rightarrow>
            let hash = header_key V genesis in
            if hash = null_hash then daemon_error
            else
              let object = [''genesis_hash'' \<mapsto> String (digest_text L hash), ''hosts'' \<mapsto> Object (self_hosts O'),
                    ''server_version'' \<mapsto> String (server_name O'), ''protocol_min'' \<mapsto> String (minimum_text O'),
                    ''protocol_max'' \<mapsto> String (maximum_text O'), ''pruning'' \<mapsto> Null];
                  object = (if version \<ge> v1_7
                    then object(''method_flavours'' \<mapsto> Object [''blockchain.transaction.broadcast_package'' \<mapsto>
                      Object [''supports_verbose_true'' \<mapsto> Boolean False]])
                    else object(''hash_function'' \<mapsto> String ''sha256'')) in
              Result (Object (add_features object)))"

text \<open>What the base and the sparrow service add to the features.\<close>

definition electrum_add_features :: "object_t \<Rightarrow> object_t" where
  "electrum_add_features features = features"

definition sparrow_add_features :: "object_t \<Rightarrow> object_t" where
  "sparrow_add_features features = features(''silent_payments'' \<mapsto> Array [U32 0])"

definition handle_server_peers_subscribe ::
  "('t, 'p, 's) methods_lib \<Rightarrow> electrum_options \<Rightarrow> electrum_version \<Rightarrow> 't answer" where
  "handle_server_peers_subscribe L O' version =
     (if \<not> version \<ge> v1_0 then bad_request else Result (Array (more_hosts L O')))"

definition handle_server_ping ::
  "('t, 'p, 's) methods_lib \<Rightarrow> electrum_version \<Rightarrow> double \<Rightarrow> string \<Rightarrow> 't answer" where
  "handle_server_ping L version pong_len data =
     (if \<not> version \<ge> v1_2 then bad_request
      else if \<not> version \<ge> v1_7 then Result Null
      else if \<not> list_all (is_base16_char L) data then bad_request
      else case size_of_number L pong_len of
          None \<Rightarrow> bad_request
        | Some length' \<Rightarrow>
            Result (Object [''data'' \<mapsto> String (replicate (unat (min length' maximum_pong)) (CHR ''0''))]))"

text \<open>The ping timer: whether it is started, and what its expiry does.\<close>

definition start_ping :: "electrum_options \<Rightarrow> electrum_version \<Rightarrow> bool \<Rightarrow> bool \<Rightarrow> bool" where
  "start_ping O' version stopped duplex \<longleftrightarrow>
     \<not> (stopped \<or> ping_interval_seconds O' = 0 \<or> \<not> version \<ge> v1_7 \<or> \<not> duplex)"

datatype ping_action = Ping_Nothing | Ping_Stop code | Ping_Send message bool

definition handle_ping ::
  "electrum_options \<Rightarrow> electrum_version \<Rightarrow> bool \<Rightarrow> bool \<Rightarrow> code \<Rightarrow> code \<Rightarrow> ping_action" where
  "handle_ping O' version stopped duplex operation_canceled ec =
     (if stopped \<or> ec = operation_canceled then Ping_Nothing
      else if is_error ec then Ping_Stop ec
      else Ping_Send (Notification ''server.ping'' [String (replicate (ping_size O') (CHR ''0''))])
        (start_ping O' version stopped duplex))"

subsection \<open>The service\<close>

text \<open>A call of each method of the interface, with its arguments as the dispatcher passes them.\<close>

datatype electrum_request =
    Numblocks_Subscribe
  | Get_Chunk double
  | Get_Header double
  | Block_Header double double
  | Block_Headers double double double
  | Headers_Subscribe bool
  | Estimate_Fee double string
  | Relay_Fee
  | Utxo_Get_Address string double
  | Outpoint_Get_Status string double string
  | Outpoint_Subscribe string double string
  | Outpoint_Unsubscribe string double
  | Address_Get_Balance string
  | Address_Get_History string
  | Address_Get_Mempool string
  | Address_List_Unspent string
  | Address_Subscribe string
  | Scripthash_Get_Balance string
  | Scripthash_Get_History string
  | Scripthash_Get_Mempool string
  | Scripthash_List_Unspent string
  | Scripthash_Subscribe string
  | Scripthash_Unsubscribe string
  | Scriptpubkey_Get_Balance string
  | Scriptpubkey_Get_History string
  | Scriptpubkey_Get_Mempool string
  | Scriptpubkey_List_Unspent string
  | Scriptpubkey_Subscribe string
  | Scriptpubkey_Unsubscribe string
  | Broadcast string
  | Broadcast_Package value_t bool
  | Transaction_Get string bool
  | Get_Merkle string double
  | Id_From_Pos double double bool
  | Test_Accept value_t
  | Add_Peer object_t
  | Banner
  | Donation
  | Features
  | Peers
  | Ping double string
  | Fee_Histogram_Request
  | Pool_Info
  | Pool_Recent

fun request_method :: "electrum_request \<Rightarrow> string" where
  "request_method Numblocks_Subscribe = ''blockchain.numblocks.subscribe''"
| "request_method (Get_Chunk _) = ''blockchain.block.get_chunk''"
| "request_method (Get_Header _) = ''blockchain.block.get_header''"
| "request_method (Block_Header _ _) = ''blockchain.block.header''"
| "request_method (Block_Headers _ _ _) = ''blockchain.block.headers''"
| "request_method (Headers_Subscribe _) = ''blockchain.headers.subscribe''"
| "request_method (Estimate_Fee _ _) = ''blockchain.estimatefee''"
| "request_method Relay_Fee = ''blockchain.relayfee''"
| "request_method (Utxo_Get_Address _ _) = ''blockchain.utxo.get_address''"
| "request_method (Outpoint_Get_Status _ _ _) = ''blockchain.outpoint.get_status''"
| "request_method (Outpoint_Subscribe _ _ _) = ''blockchain.outpoint.subscribe''"
| "request_method (Outpoint_Unsubscribe _ _) = ''blockchain.outpoint.unsubscribe''"
| "request_method (Address_Get_Balance _) = ''blockchain.address.get_balance''"
| "request_method (Address_Get_History _) = ''blockchain.address.get_history''"
| "request_method (Address_Get_Mempool _) = ''blockchain.address.get_mempool''"
| "request_method (Address_List_Unspent _) = ''blockchain.address.listunspent''"
| "request_method (Address_Subscribe _) = ''blockchain.address.subscribe''"
| "request_method (Scripthash_Get_Balance _) = ''blockchain.scripthash.get_balance''"
| "request_method (Scripthash_Get_History _) = ''blockchain.scripthash.get_history''"
| "request_method (Scripthash_Get_Mempool _) = ''blockchain.scripthash.get_mempool''"
| "request_method (Scripthash_List_Unspent _) = ''blockchain.scripthash.listunspent''"
| "request_method (Scripthash_Subscribe _) = ''blockchain.scripthash.subscribe''"
| "request_method (Scripthash_Unsubscribe _) = ''blockchain.scripthash.unsubscribe''"
| "request_method (Scriptpubkey_Get_Balance _) = ''blockchain.scriptpubkey.get_balance''"
| "request_method (Scriptpubkey_Get_History _) = ''blockchain.scriptpubkey.get_history''"
| "request_method (Scriptpubkey_Get_Mempool _) = ''blockchain.scriptpubkey.get_mempool''"
| "request_method (Scriptpubkey_List_Unspent _) = ''blockchain.scriptpubkey.listunspent''"
| "request_method (Scriptpubkey_Subscribe _) = ''blockchain.scriptpubkey.subscribe''"
| "request_method (Scriptpubkey_Unsubscribe _) = ''blockchain.scriptpubkey.unsubscribe''"
| "request_method (Broadcast _) = ''blockchain.transaction.broadcast''"
| "request_method (Broadcast_Package _ _) = ''blockchain.transaction.broadcast_package''"
| "request_method (Transaction_Get _ _) = ''blockchain.transaction.get''"
| "request_method (Get_Merkle _ _) = ''blockchain.transaction.get_merkle''"
| "request_method (Id_From_Pos _ _ _) = ''blockchain.transaction.id_from_pos''"
| "request_method (Test_Accept _) = ''blockchain.transaction.testmempoolaccept''"
| "request_method (Add_Peer _) = ''server.add_peer''"
| "request_method Banner = ''server.banner''"
| "request_method Donation = ''server.donation_address''"
| "request_method Features = ''server.features''"
| "request_method Peers = ''server.peers.subscribe''"
| "request_method (Ping _ _) = ''server.ping''"
| "request_method Fee_Histogram_Request = ''mempool.get_fee_histogram''"
| "request_method Pool_Info = ''mempool.get_info''"
| "request_method Pool_Recent = ''mempool.recent''"

text \<open>The versions of the protocol that have a method: from the first to before the second, if given.\<close>

type_synonym version_window = "electrum_version option \<times> electrum_version option"

definition method_windows :: "(string \<times> version_window) list" where
  "method_windows =
    [(''blockchain.numblocks.subscribe'', None, Some v1_1),
     (''blockchain.block.get_chunk'', None, Some v1_4),
     (''blockchain.block.get_header'', None, Some v1_4),
     (''blockchain.block.header'', Some v1_3, None),
     (''blockchain.block.headers'', Some v1_2, None),
     (''blockchain.headers.subscribe'', Some v1_0, None),
     (''blockchain.estimatefee'', Some v1_0, None),
     (''blockchain.relayfee'', Some v1_0, Some v1_6),
     (''blockchain.utxo.get_address'', None, Some v1_1),
     (''blockchain.outpoint.get_status'', Some v1_7, None),
     (''blockchain.outpoint.subscribe'', Some v1_7, None),
     (''blockchain.outpoint.unsubscribe'', Some v1_7, None),
     (''blockchain.address.get_balance'', None, Some v1_3),
     (''blockchain.address.get_history'', None, Some v1_3),
     (''blockchain.address.get_mempool'', None, Some v1_3),
     (''blockchain.address.listunspent'', None, Some v1_3),
     (''blockchain.address.subscribe'', None, Some v1_3),
     (''blockchain.scripthash.get_balance'', Some v1_1, Some v1_7),
     (''blockchain.scripthash.get_history'', Some v1_1, Some v1_7),
     (''blockchain.scripthash.get_mempool'', Some v1_1, Some v1_7),
     (''blockchain.scripthash.listunspent'', Some v1_1, Some v1_7),
     (''blockchain.scripthash.subscribe'', Some v1_1, Some v1_7),
     (''blockchain.scripthash.unsubscribe'', Some v1_4_2, Some v1_7),
     (''blockchain.scriptpubkey.get_balance'', Some v1_7, None),
     (''blockchain.scriptpubkey.get_history'', Some v1_7, None),
     (''blockchain.scriptpubkey.get_mempool'', Some v1_7, None),
     (''blockchain.scriptpubkey.listunspent'', Some v1_7, None),
     (''blockchain.scriptpubkey.subscribe'', Some v1_7, None),
     (''blockchain.scriptpubkey.unsubscribe'', Some v1_7, None),
     (''blockchain.transaction.broadcast'', Some v1_0, None),
     (''blockchain.transaction.broadcast_package'', Some v1_6, None),
     (''blockchain.transaction.get'', Some v1_0, None),
     (''blockchain.transaction.get_merkle'', Some v1_4, None),
     (''blockchain.transaction.id_from_pos'', Some v1_4, None),
     (''blockchain.transaction.testmempoolaccept'', Some v1_7, None),
     (''server.add_peer'', Some v1_1, None),
     (''server.banner'', Some v1_0, None),
     (''server.donation_address'', Some v1_0, None),
     (''server.features'', Some v1_0, None),
     (''server.peers.subscribe'', Some v1_0, None),
     (''server.ping'', Some v1_2, None),
     (''mempool.get_fee_histogram'', Some v1_2, None),
     (''mempool.get_info'', Some v1_6, None),
     (''mempool.recent'', Some v1_7, None)]"

definition in_window :: "electrum_version \<Rightarrow> version_window \<Rightarrow> bool" where
  "in_window version w \<longleftrightarrow>
     (case fst w of None \<Rightarrow> True | Some first \<Rightarrow> version \<ge> first) \<and>
     (case snd w of None \<Rightarrow> True | Some past \<Rightarrow> \<not> version \<ge> past)"

record ('t, 'p, 's, 'l, 'h, 'm, 'c) electrum_env =
  env_methods :: "('t, 'p, 's) methods_lib"
  env_headers :: headers_lib
  env_subscribe :: "('h, 'm, 'c) subscribe_lib"
  env_view :: "('t, 'l, 's) methods_view"
  env_header_view :: header_view
  env_archive :: "('h, 'c) archive_view"
  env_options :: electrum_options
  env_maximum_headers :: u32
  env_add_features :: "object_t \<Rightarrow> object_t"

definition serve_state ::
  "('h, 'm, 'c) electrum_state \<times> reaction \<Rightarrow> ('h, 'm, 'c) electrum_state \<times> 't answer" where
  "serve_state r = (fst r, of_reaction (snd r))"

text \<open>Every handler returns at once when stopped, and otherwise answers.\<close>

definition serve ::
  "('t, 'p, 's, 'l, 'h, 'm, 'c) electrum_env \<Rightarrow> electrum_version \<Rightarrow> bool \<Rightarrow> electrum_request \<Rightarrow>
   ('h, 'm, 'c) electrum_state \<Rightarrow> ('h, 'm, 'c) electrum_state \<times> 't answer" where
  "serve E version stopped request s =
     (let L = env_methods E; H = env_headers E; S = env_subscribe E; V = env_view E; HV = env_header_view E;
          A = env_archive E; O' = env_options E; maximum = env_maximum_headers E in
      if stopped then (s, Silent)
      else case request of
          Numblocks_Subscribe \<Rightarrow> serve_state (number_of_blocks_subscribe HV version False s)
        | Get_Chunk index \<Rightarrow> (s, of_reaction (block_get_chunk H HV version False index))
        | Get_Header height \<Rightarrow> (s, of_reaction (block_get_header H HV version False height))
        | Block_Header height cp \<Rightarrow> (s, of_reaction (block_header H HV version False maximum height cp))
        | Block_Headers start n cp \<Rightarrow> (s, of_reaction (block_headers H HV version False maximum start n cp))
        | Headers_Subscribe raw \<Rightarrow> serve_state (headers_subscribe H HV version False raw s)
        | Estimate_Fee number mode \<Rightarrow> (s, handle_blockchain_estimate_fee L version number mode)
        | Relay_Fee \<Rightarrow> (s, handle_blockchain_relay_fee O' version)
        | Utxo_Get_Address hash index \<Rightarrow> (s, handle_utxo_get_address L V version hash index)
        | Outpoint_Get_Status hash index hint \<Rightarrow> (s, handle_outpoint_get_status S A version hash index hint)
        | Outpoint_Subscribe hash index hint \<Rightarrow> (s, of_reaction (handle_outpoint_subscribe S version False hash index hint))
        | Outpoint_Unsubscribe hash index \<Rightarrow> (s, of_reaction (handle_outpoint_unsubscribe S version False hash index))
        | Address_Get_Balance address \<Rightarrow> (s, handle_address_get_balance L V version address)
        | Address_Get_History address \<Rightarrow> (s, handle_address_get_history L V version address)
        | Address_Get_Mempool address \<Rightarrow> (s, handle_address_get_mempool L V version address)
        | Address_List_Unspent address \<Rightarrow> (s, handle_address_list_unspent L V version address)
        | Address_Subscribe address \<Rightarrow> (s, handle_address_subscribe L A version address)
        | Scripthash_Get_Balance hash \<Rightarrow> (s, handle_scripthash_get_balance L V version hash)
        | Scripthash_Get_History hash \<Rightarrow> (s, handle_scripthash_get_history L V version hash)
        | Scripthash_Get_Mempool hash \<Rightarrow> (s, handle_scripthash_get_mempool L V version hash)
        | Scripthash_List_Unspent hash \<Rightarrow> (s, handle_scripthash_list_unspent L V version hash)
        | Scripthash_Subscribe hash \<Rightarrow> (s, of_reaction (handle_scripthash_subscribe S A version False hash))
        | Scripthash_Unsubscribe hash \<Rightarrow> (s, of_reaction (handle_scripthash_unsubscribe S A version False hash))
        | Scriptpubkey_Get_Balance script \<Rightarrow> (s, handle_scriptpubkey_get_balance L V version script)
        | Scriptpubkey_Get_History script \<Rightarrow> (s, handle_scriptpubkey_get_history L V version script)
        | Scriptpubkey_Get_Mempool script \<Rightarrow> (s, handle_scriptpubkey_get_mempool L V version script)
        | Scriptpubkey_List_Unspent script \<Rightarrow> (s, handle_scriptpubkey_list_unspent L V version script)
        | Scriptpubkey_Subscribe script \<Rightarrow> (s, of_reaction (handle_scriptpubkey_subscribe S A version False script))
        | Scriptpubkey_Unsubscribe script \<Rightarrow> (s, of_reaction (handle_scriptpubkey_unsubscribe S A version False script))
        | Broadcast raw_tx \<Rightarrow> (s, handle_transaction_broadcast L version raw_tx)
        | Broadcast_Package raw_txs verbose \<Rightarrow> (s, handle_transaction_broadcast_package L version raw_txs verbose)
        | Transaction_Get hash verbose \<Rightarrow> (s, handle_transaction_get L V version hash verbose)
        | Get_Merkle hash height \<Rightarrow> (s, handle_transaction_get_merkle L V version hash height)
        | Id_From_Pos height pos merkle \<Rightarrow> (s, handle_transaction_id_from_position L V version height pos merkle)
        | Test_Accept raw_txs \<Rightarrow> (s, handle_transaction_testmempoolaccept L version raw_txs)
        | Add_Peer features \<Rightarrow> (s, handle_server_add_peer version)
        | Banner \<Rightarrow> (s, handle_server_banner O' version)
        | Donation \<Rightarrow> (s, handle_server_donation_address O' version)
        | Features \<Rightarrow> (s, handle_server_features L V O' (env_add_features E) version)
        | Peers \<Rightarrow> (s, handle_server_peers_subscribe L O' version)
        | Ping n data \<Rightarrow> (s, handle_server_ping L version n data)
        | Fee_Histogram_Request \<Rightarrow> (s, handle_mempool_get_fee_histogram version)
        | Pool_Info \<Rightarrow> (s, handle_mempool_get_info O' version)
        | Pool_Recent \<Rightarrow> (s, handle_mempool_recent version))"

subsection \<open>Versions\<close>

lemmas query_defs = with_address_def with_scripthash_def with_scriptpubkey_def get_balance_def get_history_of_def
  get_mempool_def list_unspent_def
  handle_address_get_balance_def handle_address_get_history_def handle_address_get_mempool_def
  handle_address_list_unspent_def handle_scripthash_get_balance_def handle_scripthash_get_history_def
  handle_scripthash_get_mempool_def handle_scripthash_list_unspent_def handle_scriptpubkey_get_balance_def
  handle_scriptpubkey_get_history_def handle_scriptpubkey_get_mempool_def handle_scriptpubkey_list_unspent_def
  handle_address_subscribe_def

lemmas reaction_defs = number_of_blocks_subscribe_def block_get_chunk_def block_get_header_def block_header_def
  block_headers_def headers_subscribe_def handle_outpoint_subscribe_def handle_outpoint_unsubscribe_def
  handle_scripthash_subscribe_def handle_scripthash_unsubscribe_def handle_scriptpubkey_subscribe_def
  handle_scriptpubkey_unsubscribe_def

lemmas handler_defs = handle_blockchain_estimate_fee_def handle_blockchain_relay_fee_def handle_utxo_get_address_def
  handle_outpoint_get_status_def handle_transaction_broadcast_def handle_transaction_broadcast_package_def
  handle_transaction_get_def handle_transaction_get_merkle_def handle_transaction_id_from_position_def
  handle_transaction_testmempoolaccept_def handle_server_add_peer_def handle_server_banner_def
  handle_server_donation_address_def handle_server_features_def handle_server_peers_subscribe_def
  handle_server_ping_def handle_mempool_get_fee_histogram_def handle_mempool_get_info_def handle_mempool_recent_def

lemma windows_published: "map fst method_windows = map method_name electrum_methods"
  by (simp add: method_windows_def electrum_methods_def method_decl_def)

definition request_window :: "electrum_request \<Rightarrow> version_window" where
  "request_window r = the (map_of method_windows (request_method r))"

text \<open>
  C35: The windows cover exactly the published methods, and a request whose version is outside of the
  window of its method is refused as a bad request: it reads nothing, starts no work and changes no
  subscription.
\<close>

theorem electrum_versioned:
  assumes "\<not> in_window version (request_window request)"
  shows "map fst method_windows = map method_name electrum_methods \<and>
    serve E version False request s = (s, bad_request)"
proof -
  have "serve E version False request s = (s, bad_request)"
    using assms unfolding request_window_def
    by (cases request)
      (simp_all add: serve_def Let_def serve_state_def reaction_defs handler_defs query_defs method_windows_def
        in_window_def)
  then show ?thesis using windows_published by blast
qed

theorem electrum_versioned_witness:
  "\<forall>E s. serve E v1_3 False (Get_Merkle ''00'' 0) s = (s, bad_request)"
proof (intro allI)
  fix E and s
  have "\<not> in_window v1_3 (request_window (Get_Merkle ''00'' 0))"
    by (simp add: request_window_def method_windows_def in_window_def less_eq_electrum_version_def)
  then show "serve E v1_3 False (Get_Merkle ''00'' 0) s = (s, bad_request)"
    using electrum_versioned by blast
qed

subsection \<open>Merkle proofs of transactions\<close>

text \<open>
  The reference: a level of the tree pairs its hashes, the last one with itself when their number is
  odd, and the branch of a position is its sibling at each level.
\<close>

fun pair_level :: "(hash_digest \<Rightarrow> hash_digest \<Rightarrow> hash_digest) \<Rightarrow> hash_digest list \<Rightarrow> hash_digest list" where
  "pair_level f (a # b # hs) = f a b # pair_level f hs"
| "pair_level f [a] = [f a a]"
| "pair_level f [] = []"

lemma length_pair_level [simp]: "length (pair_level f hs) = (length hs + 1) div 2"
  by (induction f hs rule: pair_level.induct) auto

function tree_root :: "(hash_digest \<Rightarrow> hash_digest \<Rightarrow> hash_digest) \<Rightarrow> hash_digest list \<Rightarrow> hash_digest" where
  "tree_root f hs = (if length hs \<le> 1 then (case hs of [] \<Rightarrow> null_hash | h # _ \<Rightarrow> h) else tree_root f (pair_level f hs))"
  by auto
termination by (relation "measure (length \<circ> snd)") auto

definition sibling :: "nat \<Rightarrow> hash_digest list \<Rightarrow> hash_digest" where
  "sibling i hs = (if odd i then hs ! (i - 1) else if i + 1 < length hs then hs ! (i + 1) else hs ! i)"

function tree_branch :: "(hash_digest \<Rightarrow> hash_digest \<Rightarrow> hash_digest) \<Rightarrow> nat \<Rightarrow> hash_digest list \<Rightarrow> hash_digest list" where
  "tree_branch f i hs = (if length hs \<le> 1 then [] else sibling i hs # tree_branch f (i div 2) (pair_level f hs))"
  by auto
termination by (relation "measure (length \<circ> snd \<circ> snd)") auto

declare tree_root.simps [simp del] tree_branch.simps [simp del]

text \<open>What a client computes from a transaction, its position and the branch.\<close>

fun fold_branch :: "(hash_digest \<Rightarrow> hash_digest \<Rightarrow> hash_digest) \<Rightarrow> hash_digest \<Rightarrow> nat \<Rightarrow> hash_digest list \<Rightarrow> hash_digest" where
  "fold_branch f h i [] = h"
| "fold_branch f h i (b # bs) = fold_branch f (if odd i then f b h else f h b) (i div 2) bs"

lemma pair_level_nth:
  "i < length hs \<Longrightarrow> pair_level f hs ! (i div 2) = (if odd i then f (sibling i hs) (hs ! i) else f (hs ! i) (sibling i hs))"
proof (induction f hs arbitrary: i rule: pair_level.induct)
  case (1 f a b hs)
  show ?case
  proof (cases "i < 2")
    case True
    then have "i = 0 \<or> i = 1" by auto
    then show ?thesis by (auto simp: sibling_def)
  next
    case False
    then obtain j where j: "i = Suc (Suc j)" by (metis add_2_eq_Suc le_add_diff_inverse not_less)
    then have "pair_level f hs ! (j div 2) = (if odd j then f (sibling j hs) (hs ! j) else f (hs ! j) (sibling j hs))"
      using 1 by simp
    moreover have "sibling i (a # b # hs) = sibling j hs"
      by (cases j) (auto simp: sibling_def j)
    ultimately show ?thesis using j by simp
  qed
qed (auto simp: sibling_def)

lemma fold_branch_root: "i < length hs \<Longrightarrow> fold_branch f (hs ! i) i (tree_branch f i hs) = tree_root f hs"
proof (induction f hs arbitrary: i rule: tree_root.induct)
  case (1 f hs)
  show ?case
  proof (cases "length hs \<le> 1")
    case True
    then show ?thesis using "1.prems" by (cases hs) (auto simp: tree_root.simps tree_branch.simps)
  next
    case False
    have "i div 2 < length (pair_level f hs)" using "1.prems" by simp
    then have "fold_branch f (pair_level f hs ! (i div 2)) (i div 2) (tree_branch f (i div 2) (pair_level f hs)) =
        tree_root f (pair_level f hs)"
      using "1.IH" False by blast
    then show ?thesis using False pair_level_nth [OF "1.prems", of f]
      by (auto simp: tree_root.simps [of f hs] tree_branch.simps [of f i hs])
  qed
qed

text \<open>
  What the system library promises: the position found is one of the hash, the branch of a position is
  that of the tree.
\<close>

definition methods_laws :: "(hash_digest \<Rightarrow> hash_digest \<Rightarrow> hash_digest) \<Rightarrow> ('t, 'p, 's) methods_lib \<Rightarrow> bool" where
  "methods_laws f L \<longleftrightarrow>
     (\<forall>hs h i. find_position L hs h = Some i \<longrightarrow> i < length hs \<and> hs ! i = h) \<and>
     (\<forall>i hs. i < length hs \<longrightarrow> merkle_branch L i hs = tree_branch f i hs)"

text \<open>
  C36: The reply of a merkle query is a position and the texts of a branch that lead from the
  requested transaction to the root of the confirmed block at the requested height.
\<close>

theorem merkle_reply_verifies:
  assumes "methods_laws f L"
    and "handle_transaction_get_merkle L V version tx_hash height = Result (Object reply)"
  shows "\<exists>hash block height' index branch.
    digest_of L tx_hash = Some hash \<and> size_of_number L height = Some height' \<and>
    confirmed_at V height' = Some block \<and> get_tx_keys V (Some block) ! index = hash \<and>
    reply ''pos'' = Some (U64 (of_nat index)) \<and> reply ''merkle'' = Some (branch_texts L branch) \<and>
    reply ''block_height'' = Some (U64 height') \<and>
    fold_branch f hash index branch = tree_root f (get_tx_keys V (Some block))"
proof -
  obtain height' hash block index where h: "size_of_number L height = Some height'" "digest_of L tx_hash = Some hash"
    "confirmed_at V height' = Some block" "find_position L (get_tx_keys V (Some block)) hash = Some index"
    and r: "reply = [''merkle'' \<mapsto> branch_texts L (merkle_branch L index (get_tx_keys V (Some block))),
      ''block_height'' \<mapsto> U64 height', ''pos'' \<mapsto> U64 (of_nat index)]"
    using assms(2) by (auto simp: handle_transaction_get_merkle_def Let_def split: if_splits option.splits)
  let ?hs = "get_tx_keys V (Some block)"
  have i: "index < length ?hs" "?hs ! index = hash" "merkle_branch L index ?hs = tree_branch f index ?hs"
    using assms(1) h(4) unfolding methods_laws_def by blast+
  have "fold_branch f hash index (merkle_branch L index ?hs) = tree_root f ?hs"
    using fold_branch_root [OF i(1), of f] i by simp
  then show ?thesis using h i r by auto
qed

definition sample_methods :: "(nat, nat, nat) methods_lib" where
  "sample_methods = \<lparr>digest_of = (\<lambda>t. if t = ''b'' then Some 11 else None), chunk_of = (\<lambda>t. None), output_of = (\<lambda>b. None),
     output_hash = (\<lambda>s. 0), payment_of = (\<lambda>t. None), payment_output = (\<lambda>p. None), output_payment = (\<lambda>s. None),
     payment_text = (\<lambda>p. []), decode_tx = (\<lambda>t. Some (length t)), txid = of_nat, wtxid = of_nat,
     digest_text = (\<lambda>h. []), chunk_text = (\<lambda>b. []), message_of = (\<lambda>c. []), size_of_number = Some,
     index_of_number = (\<lambda>d. Some (ucast d)), is_base16_char = (\<lambda>c. True), subtract_floor = (\<lambda>a b. a - b),
     merkle_branch = tree_branch (+), find_position = (\<lambda>hs h. List.find (\<lambda>i. hs ! i = h) [0..<length hs]),
     duplicate_transaction = code_of electrum_category 1, estimate_false = code_of electrum_category 2,
     estimate_disabled = code_of electrum_category 3, estimate_premature = code_of electrum_category 4,
     integrity = code_of electrum_category 5, limited_depth = code_of electrum_category 6, fee_number = (\<lambda>f. f),
     minus_one = 0, port_text = (\<lambda>p. [])\<rparr>"

definition sample_methods_view :: "(nat, nat, nat) methods_view" where
  "sample_methods_view = \<lparr>addresses_enabled = True, to_tx = (\<lambda>h. None), get_wire_tx = (\<lambda>l. []), tx_object = (\<lambda>l. None),
     find_strong = (\<lambda>l. None), top_confirmed = 7, block_height = (\<lambda>b. None), header_key = (\<lambda>b. 0),
     block_timestamp = (\<lambda>b. None), confirmed_at = (\<lambda>h. Some 7), get_tx_keys = (\<lambda>b. [10, 11, 12]),
     get_position_tx = (\<lambda>b p. None), get_tx_key = (\<lambda>l. 0), get_output_script = (\<lambda>l i. None)\<rparr>"

lemma sample_methods_laws: "methods_laws (+) sample_methods"
  by (auto simp: methods_laws_def sample_methods_def find_Some_iff)

definition sample_merkle_reply :: object_t where
  "sample_merkle_reply = [''merkle'' \<mapsto> branch_texts sample_methods (tree_branch (+) 1 [10, 11, 12]),
     ''block_height'' \<mapsto> U64 5, ''pos'' \<mapsto> U64 1]"

lemma sample_merkle_query:
  "handle_transaction_get_merkle sample_methods sample_methods_view v1_4 ''b'' 5 = Result (Object sample_merkle_reply)"
  by (simp add: handle_transaction_get_merkle_def sample_methods_def sample_methods_view_def sample_merkle_reply_def
      branch_texts_def less_eq_electrum_version_def upt_rec)

theorem merkle_reply_verifies_witness:
  "\<exists>index branch. sample_merkle_reply ''pos'' = Some (U64 (of_nat index)) \<and>
     sample_merkle_reply ''merkle'' = Some (branch_texts sample_methods branch) \<and>
     fold_branch (+) 11 index branch = tree_root (+) [10, 11, 12]"
proof -
  have "digest_of sample_methods ''b'' = Some 11" "get_tx_keys sample_methods_view b = [10, 11, 12]" for b
    by (simp_all add: sample_methods_def sample_methods_view_def)
  then show ?thesis using merkle_reply_verifies [OF sample_methods_laws sample_merkle_query] by auto
qed

subsection \<open>Other replies\<close>

text \<open>A pong is at most as long as the limit, and the number of tested transactions is limited.\<close>

lemma pong_bounded:
  assumes "handle_server_ping L version n data = Result (Object reply)"
  shows "\<exists>k \<le> 1024. reply ''data'' = Some (String (replicate k (CHR ''0'')))"
proof -
  obtain m where "reply = [''data'' \<mapsto> String (replicate (unat (min m maximum_pong)) (CHR ''0''))]"
    using assms by (auto simp: handle_server_ping_def split: if_splits option.splits)
  moreover have "unat (min m maximum_pong) \<le> 1024"
    by (simp add: maximum_pong_def min_def word_le_nat_alt)
  ultimately show ?thesis by auto
qed

lemma decode_txs_length: "decode_txs L vs = Some txs \<Longrightarrow> length txs = length vs"
  by (induction vs arbitrary: txs) (auto split: value_t.splits option.splits)

lemma test_package_bounded:
  "handle_transaction_testmempoolaccept L version raw_txs = Work (Test_Package txs) \<Longrightarrow>
   0 < length txs \<and> length txs \<le> 25"
  by (auto simp: handle_transaction_testmempoolaccept_def maximum_test_txs_def dest!: decode_txs_length
      split: if_splits value_t.splits option.splits)

text \<open>At most ten transactions are recent, the last of the pool first.\<close>

lemma recent_entries_length: "recent_entries L Q links = Some entries \<Longrightarrow> length entries = length links"
  by (induction links arbitrary: entries) (auto split: option.splits)

lemma recent_bounded:
  "do_mempool_recent L Q = Done_Pool ec (Array entries) \<Longrightarrow> length entries \<le> 10"
  by (auto simp: do_mempool_recent_def recent_count_def Let_def dest!: recent_entries_length
      split: sum.splits option.splits)

end
