(* ===== verification/Bitcoind_Proof.thy ===== *)
theory Bitcoind_Proof
  imports Merkle Errors Rpc_Model
begin

text \<open>
  The transaction proofs of the bitcoind service: \<open>gettxoutproof\<close> and \<open>verifytxoutproof\<close> of
  \<open>protocol_bitcoind_blockchain.cpp\<close>, over the partial merkle trees of theory \<open>Merkle\<close>. The merkle block
  message and its serialization belong to the network library, the header type is \<open>'d\<close>.
\<close>

subsection \<open>Definitions\<close>

abbreviation bitcoind_error :: "string \<Rightarrow> code" where
  "bitcoind_error name \<equiv> code_of bitcoind_category (enumerator bitcoind_errors name)"

text \<open>A reply of a bitcoind handler: none when stopped, an error, a value or a hex text.\<close>

datatype bitcoind_reply =
    No_Reply
  | Send_Error code
  | Reply value_t
  | Reply_Hex string

record 'd merkle_block =
  block_header :: 'd
  transactions :: u32
  flags :: "u8 list"
  hashes :: "hash_digest list"

record 'd proof_lib =
  hash_of_text :: "string \<Rightarrow> hash_digest option"
  text_of_hash :: "hash_digest \<Rightarrow> string"
  encode_bytes :: "u8 list \<Rightarrow> string"
  decode_bytes :: "string \<Rightarrow> u8 list option"
  serialize_merkle :: "'d merkle_block \<Rightarrow> u8 list option"
  deserialize_merkle :: "u8 list \<Rightarrow> 'd merkle_block option"
  header_root :: "'d \<Rightarrow> hash_digest"
  header_hash :: "'d \<Rightarrow> hash_digest"
  set_begin :: "hash_digest list \<Rightarrow> hash_digest"

record ('d, 'l) proof_view =
  find_confirmed_block :: "hash_digest \<Rightarrow> 'l"
  to_header :: "hash_digest \<Rightarrow> 'l"
  is_associated :: "'l \<Rightarrow> bool"
  is_confirmed_block :: "'l \<Rightarrow> bool"
  tx_keys :: "'l \<Rightarrow> hash_digest list"
  get_header :: "'l \<Rightarrow> 'd option"
  tx_count :: "'l \<Rightarrow> nat"

text \<open>The set of targets, in the order of insertion; None when one is not a hash or is repeated.\<close>

fun proof_targets :: "'d proof_lib \<Rightarrow> hash_digest list \<Rightarrow> value_t list \<Rightarrow> hash_digest list option" where
  "proof_targets L targets [] = Some targets"
| "proof_targets L targets (item # items) =
     (case item of
        String text' \<Rightarrow>
          (case hash_of_text L text' of
             None \<Rightarrow> None
           | Some hash \<Rightarrow> if hash \<in> set targets then None else proof_targets L (targets @ [hash]) items)
      | _ \<Rightarrow> None)"

text \<open>
  The block of the proof: the one given, or the confirmed block of the element that the iteration of the
  hash set begins with.
\<close>

definition proof_block ::
  "'d proof_lib \<Rightarrow> ('d, 'l) proof_view \<Rightarrow> hash_digest list \<Rightarrow> string \<Rightarrow> 'l option" where
  "proof_block L Q targets blockhash =
     (if blockhash \<noteq> [] then map_option (to_header Q) (hash_of_text L blockhash)
      else Some (find_confirmed_block Q (set_begin L targets)))"

definition handle_get_tx_out_proof ::
  "merkle_lib \<Rightarrow> 'd proof_lib \<Rightarrow> ('d, 'l) proof_view \<Rightarrow> bool \<Rightarrow> value_t list \<Rightarrow> string \<Rightarrow> bitcoind_reply option" where
  "handle_get_tx_out_proof M L Q stopped txids blockhash =
     (if stopped then Some No_Reply
      else if txids = [] then Some (Send_Error (bitcoind_error ''invalid_parameter''))
      else case proof_targets L [] txids of
          None \<Rightarrow> Some (Send_Error (bitcoind_error ''invalid_parameter''))
        | Some targets \<Rightarrow>
            (case proof_block L Q targets blockhash of
               None \<Rightarrow> Some (Send_Error (bitcoind_error ''invalid_parameter''))
             | Some link \<Rightarrow>
                 if \<not> is_associated Q link then Some (Send_Error (bitcoind_error ''invalid_address_or_key''))
                 else
                   let keys = tx_keys Q link in
                   if keys = [] then Some (Send_Error (bitcoind_error ''internal_error''))
                   else
                     let match = map (\<lambda>key. key \<in> set targets) keys in
                     if length (filter id match) \<noteq> length targets
                     then Some (Send_Error (bitcoind_error ''invalid_address_or_key''))
                     else (case get_header Q link of
                         None \<Rightarrow> Some (Send_Error (bitcoind_error ''internal_error''))
                       | Some header \<Rightarrow>
                           map_option (\<lambda>(bits, branch).
                             case serialize_merkle L \<lparr>block_header = header, transactions = of_nat (length keys),
                                flags = bits, hashes = branch\<rparr> of
                               None \<Rightarrow> Send_Error (bitcoind_error ''internal_error'')
                             | Some data \<Rightarrow> Reply_Hex (encode_bytes L data))
                           (build_partial_merkle M keys match))))"

definition handle_verify_tx_out_proof ::
  "merkle_lib \<Rightarrow> 'd proof_lib \<Rightarrow> ('d, 'l) proof_view \<Rightarrow> bool \<Rightarrow> string \<Rightarrow> bitcoind_reply" where
  "handle_verify_tx_out_proof M L Q stopped text' =
     (if stopped then No_Reply
      else case decode_bytes L text' of
          None \<Rightarrow> Send_Error (bitcoind_error ''invalid_parameter'')
        | Some data \<Rightarrow>
            (case deserialize_merkle L data of
               None \<Rightarrow> Send_Error (bitcoind_error ''misc_error'')
             | Some merkle \<Rightarrow>
                 (case extract_partial_merkle M (unat (transactions merkle)) (flags merkle) (hashes merkle) of
                    None \<Rightarrow> Reply (Array [])
                  | Some (root, matched', positions') \<Rightarrow>
                      if root \<noteq> header_root L (block_header merkle) then Reply (Array [])
                      else
                        let link = to_header Q (header_hash L (block_header merkle)) in
                        if \<not> is_confirmed_block Q link \<or> tx_count Q link \<noteq> unat (transactions merkle)
                        then Send_Error (bitcoind_error ''invalid_address_or_key'')
                        else Reply (Array (map (\<lambda>hash. String (text_of_hash L hash)) matched')))))"

subsection \<open>What the parts promise\<close>

text \<open>Formats are read back as written, and the element a set begins with is one of its elements.\<close>

definition proof_laws :: "'d proof_lib \<Rightarrow> bool" where
  "proof_laws L \<longleftrightarrow>
     (\<forall>data. decode_bytes L (encode_bytes L data) = Some data) \<and>
     (\<forall>m data. serialize_merkle L m = Some data \<longrightarrow> deserialize_merkle L data = Some m)"

text \<open>
  A block of the archive: its header is found by the hash of the header, has the merkle root of the
  transactions, these are distinct, and their number is that of the archive.
\<close>

definition archived_block ::
  "merkle_lib \<Rightarrow> 'd proof_lib \<Rightarrow> ('d, 'l) proof_view \<Rightarrow> 'l \<Rightarrow> 'd \<Rightarrow> bool" where
  "archived_block M L Q link header \<longleftrightarrow>
     get_header Q link = Some header \<and> to_header Q (header_hash L header) = link \<and>
     tx_count Q link = length (tx_keys Q link) \<and> distinct (tx_keys Q link) \<and> 0 < length (tx_keys Q link) \<and> length (tx_keys Q link) < 2 ^ 32 \<and>
     (\<forall>height. tree_height M (length (tx_keys Q link)) = Some height \<longrightarrow>
        calc_hash M height 0 (tx_keys Q link) = Some (header_root L header))"

lemma proof_targets_set:
  "proof_targets L ts items = Some targets \<Longrightarrow> distinct ts \<Longrightarrow> distinct targets \<and> set ts \<subseteq> set targets"
proof (induction L ts items rule: proof_targets.induct)
  case (2 L ts item items)
  then show ?case by (fastforce split: value_t.splits option.splits if_splits)
qed simp

lemma match_filter: "map ((!) keys) (filter ((!) (map P keys)) [0..<length keys]) = filter P keys"
proof -
  have "filter ((!) (map P keys)) [0..<length keys] = filter (\<lambda>i. P (keys ! i)) [0..<length keys]"
    by (rule filter_cong) auto
  then have "map ((!) keys) (filter ((!) (map P keys)) [0..<length keys]) = filter P (map ((!) keys) [0..<length keys])"
    by (simp add: filter_map comp_def)
  then show ?thesis by (simp add: map_nth)
qed

subsection \<open>A sample archive\<close>

text \<open>One confirmed block (link True) of two transactions, whose header is its own hash and merkle root.\<close>

definition sample_message :: "hash_digest merkle_block" where
  "sample_message = \<lparr>block_header = 7, transactions = 2, flags = [5], hashes = [1, 2]\<rparr>"

definition sample_proof_lib :: "hash_digest proof_lib" where
  "sample_proof_lib = \<lparr>hash_of_text = (\<lambda>t. if t = ''b'' then Some 2 else None), text_of_hash = (\<lambda>h. if h = 2 then ''b'' else ''a''),
     encode_bytes = map (char_of \<circ> unat), decode_bytes = (\<lambda>t. Some (map (of_nat \<circ> of_char) t)),
     serialize_merkle = (\<lambda>m. if m = sample_message then Some [1] else None),
     deserialize_merkle = (\<lambda>d. if d = [1] then Some sample_message else None),
     header_root = (\<lambda>h. h), header_hash = (\<lambda>h. h), set_begin = hd\<rparr>"

definition sample_proof_view :: "(hash_digest, bool) proof_view" where
  "sample_proof_view = \<lparr>find_confirmed_block = (\<lambda>h. True), to_header = (\<lambda>h. h = 7), is_associated = (\<lambda>l. l),
     is_confirmed_block = (\<lambda>l. l), tx_keys = (\<lambda>l. if l then [1, 2] else []),
     get_header = (\<lambda>l. if l then Some 7 else None), tx_count = (\<lambda>l. if l then 2 else 0)\<rparr>"

lemma sample_proof_laws: "proof_laws sample_proof_lib"
proof -
  have "(of_nat (unat x mod 256) :: u8) = x" for x
    using unsigned_less [of x, where ?'a = nat] by simp
  then show ?thesis by (simp add: proof_laws_def sample_proof_lib_def comp_def of_char_of map_idI)
qed

lemma sample_archived: "archived_block sample_injective sample_proof_lib sample_proof_view True 7"
  using sample_injective_height sample_root
  by (simp add: archived_block_def sample_proof_view_def sample_proof_lib_def numeral_2_eq_2 [symmetric] del: calc_hash.simps)

lemma sample_build: "build_partial_merkle sample_injective [1, 2] [False, True] = Some ([5], [1, 2])"
proof -
  have h: "tree_height sample_injective (length [1, 2 :: hash_digest]) = Some (Suc 0)"
    using sample_injective_height by (simp add: numeral_2_eq_2)
  show ?thesis
    unfolding build_partial_merkle_def h
    by (simp add: traverse_build.simps [of _ 0] traverse_build.simps [of _ "Suc 0"] sample_injective_def
        sample_merkle_def tree_width_def bits_to_bytes_def upt_rec any_match_def set_bit_eq unset_bit_eq)
qed

lemma sample_siblings: "siblings_differ sample_injective [1, 2]"
  unfolding siblings_differ_def
proof (intro allI impI)
  fix h pos :: nat
  assume *: "(pos * 2 + 1) * 2 ^ h < length [1, 2 :: hash_digest]"
  have "pos = 0"
    using * mult_le_mono [of 3 "pos * 2 + 1" 1 "2 ^ h"] by (cases pos) auto
  moreover have "h = 0"
    using * mult_le_mono [of 1 "pos * 2 + 1" 2 "2 ^ h"] power_increasing [of 1 h "2 :: nat"] by (cases h) auto
  ultimately show "calc_hash sample_injective h (pos * 2) [1, 2] \<noteq> calc_hash sample_injective h (pos * 2 + 1) [1, 2]"
    by simp
qed

lemma sample_tx_out_proof:
  "handle_get_tx_out_proof sample_injective sample_proof_lib sample_proof_view False [String ''b''] [] =
     Some (Reply_Hex [char_of (1 :: nat)])"
  using sample_build
  by (simp add: handle_get_tx_out_proof_def sample_proof_lib_def sample_proof_view_def proof_block_def sample_message_def)

text \<open>
  A proof that gettxoutproof returns for a confirmed block is accepted by verifytxoutproof, which
  returns the requested transactions, all of them and no other, in the order of the block.
\<close>

theorem tx_out_proof_round_trip:
  assumes "merkle_laws M" "proof_laws L"
    and targets: "proof_targets L [] txids = Some targets" "proof_block L Q targets blockhash = Some link"
    and block: "archived_block M L Q link header" "is_confirmed_block Q link" "siblings_differ M (tx_keys Q link)"
    and reply: "handle_get_tx_out_proof M L Q False txids blockhash = Some (Reply_Hex answer)"
  shows "handle_verify_tx_out_proof M L Q False answer =
      Reply (Array (map (\<lambda>hash. String (text_of_hash L hash)) (filter (\<lambda>key. key \<in> set targets) (tx_keys Q link)))) \<and>
    set (filter (\<lambda>key. key \<in> set targets) (tx_keys Q link)) = set targets"
proof -
  let ?keys = "tx_keys Q link"
  let ?match = "map (\<lambda>key. key \<in> set targets) ?keys"
  have b: "get_header Q link = Some header" "to_header Q (header_hash L header) = link"
    "tx_count Q link = length ?keys" "?keys \<noteq> []" "length ?keys < 2 ^ 32" "distinct ?keys"
    using block(1) by (auto simp: archived_block_def)
  obtain bits branch data where build: "build_partial_merkle M ?keys ?match = Some (bits, branch)"
    and data: "serialize_merkle L \<lparr>block_header = header, transactions = of_nat (length ?keys), flags = bits,
      hashes = branch\<rparr> = Some data" "answer = encode_bytes L data"
    and all: "length (filter id ?match) = length targets"
    using reply targets b(1)
    by (auto simp: handle_get_tx_out_proof_def Let_def split: if_splits option.splits)
  obtain height root where root: "tree_height M (length ?keys) = Some height" "calc_hash M height 0 ?keys = Some root"
    and read: "extract_partial_merkle M (length ?keys) bits branch =
      Some (root, map ((!) ?keys) (filter ((!) ?match) [0..<length ?keys]), filter ((!) ?match) [0..<length ?keys])"
    using merkle_round_trip [OF assms(1) b(4) _ _ block(3), of ?match] build b(5) by auto
  have rooted: "root = header_root L header" using root block(1) by (simp add: archived_block_def)
  have n: "unat (of_nat (length ?keys) :: u32) = length ?keys" using b(5) by (simp add: unat_of_nat)
  have "deserialize_merkle L data = Some \<lparr>block_header = header, transactions = of_nat (length ?keys), flags = bits,
      hashes = branch\<rparr>" "decode_bytes L answer = Some data"
    using assms(2) data by (simp_all add: proof_laws_def)
  then have "handle_verify_tx_out_proof M L Q False answer =
      Reply (Array (map (\<lambda>hash. String (text_of_hash L hash)) (filter (\<lambda>key. key \<in> set targets) ?keys)))"
    using read b block(2) rooted n match_filter [of ?keys "\<lambda>key. key \<in> set targets"]
    by (simp add: handle_verify_tx_out_proof_def)
  moreover have "set (filter (\<lambda>key. key \<in> set targets) ?keys) = set targets"
  proof (rule card_subset_eq)
    have "length (filter (\<lambda>key. key \<in> set targets) ?keys) = length targets"
      using all by (simp add: filter_map comp_def)
    moreover have "distinct targets" using proof_targets_set [OF targets(1)] by simp
    ultimately show "card (set (filter (\<lambda>key. key \<in> set targets) ?keys)) = card (set targets)"
      using b(6) by (metis distinct_card distinct_filter)
  qed auto
  ultimately show ?thesis by blast
qed

theorem tx_out_proof_round_trip_witness:
  "handle_verify_tx_out_proof sample_injective sample_proof_lib sample_proof_view False [char_of (1 :: nat)] =
     Reply (Array [String ''b'']) \<and> {2 :: hash_digest} = set [2]"
  using tx_out_proof_round_trip [OF sample_injective_laws sample_proof_laws _ _ sample_archived _ _ sample_tx_out_proof, of "[2]"]
    sample_siblings
  by (simp add: sample_proof_lib_def sample_proof_view_def proof_block_def)

text \<open>
  C22: Whatever proof a client submits, the transactions that verifytxoutproof returns are transactions of a
  confirmed block, in strictly increasing positions, unless the hash function has a second preimage in the
  tree of that block.
\<close>

theorem tx_out_proof_sound:
  assumes "merkle_laws M" "handle_verify_tx_out_proof M L Q False answer = Reply (Array (t # ts))"
    and "\<And>link. is_confirmed_block Q link \<Longrightarrow> \<exists>header. archived_block M L Q link header \<and>
      no_second_preimage M (tx_keys Q link)"
    and "\<And>header link. to_header Q (header_hash L header) = link \<Longrightarrow> is_confirmed_block Q link \<Longrightarrow>
      get_header Q link = Some header"
  shows "\<exists>link ps. is_confirmed_block Q link \<and> sorted_wrt (<) ps \<and> set ps \<subseteq> {..<length (tx_keys Q link)} \<and>
    t # ts = map (\<lambda>p. String (text_of_hash L (tx_keys Q link ! p))) ps"
proof -
  obtain data merkle root ms ps where v: "deserialize_merkle L data = Some merkle"
    "extract_partial_merkle M (unat (transactions merkle)) (flags merkle) (hashes merkle) = Some (root, ms, ps)"
    "root = header_root L (block_header merkle)" "t # ts = map (\<lambda>hash. String (text_of_hash L hash)) ms"
    and link: "is_confirmed_block Q (to_header Q (header_hash L (block_header merkle)))"
      "tx_count Q (to_header Q (header_hash L (block_header merkle))) = unat (transactions merkle)"
    using assms(2) by (auto simp: handle_verify_tx_out_proof_def Let_def split: option.splits if_splits)
  define link where "link = to_header Q (header_hash L (block_header merkle))"
  obtain header where h: "archived_block M L Q link header" "no_second_preimage M (tx_keys Q link)"
    using assms(3) link(1) by (auto simp: link_def)
  have "get_header Q link = Some (block_header merkle)" using assms(4) link(1) by (simp add: link_def)
  then have header: "header = block_header merkle" using h(1) by (simp add: archived_block_def)
  have n: "unat (transactions merkle) = length (tx_keys Q link)" "length (tx_keys Q link) \<le> 2 ^ 63"
    using h(1) link(2) by (simp_all add: archived_block_def link_def)
  obtain height where height: "tree_height M (length (tx_keys Q link)) = Some height"
    using tree_height_Some [OF assms(1) n(2)] by blast
  then have "calc_hash M height 0 (tx_keys Q link) = Some root"
    using h(1) header v(3) by (simp add: archived_block_def)
  then have "ms = map ((!) (tx_keys Q link)) ps \<and> sorted_wrt (<) ps \<and> set ps \<subseteq> {..<length (tx_keys Q link)}"
    using merkle_sound [OF assms(1) n(2) h(2) height] v(2) n(1) by simp
  then show ?thesis using v(4) link(1) unfolding link_def [symmetric] by (metis (no_types, lifting) map_map comp_apply map_eq_conv)
qed


theorem tx_out_proof_sound_witness:
  "\<exists>link ps. is_confirmed_block sample_proof_view link \<and> sorted_wrt (<) ps \<and>
     set ps \<subseteq> {..<length (tx_keys sample_proof_view link)} \<and>
     [String ''b''] = map (\<lambda>p. String (text_of_hash sample_proof_lib (tx_keys sample_proof_view link ! p))) ps"
proof (rule tx_out_proof_sound [OF sample_injective_laws, of sample_proof_lib sample_proof_view "[char_of (1 :: nat)]"])
  show "handle_verify_tx_out_proof sample_injective sample_proof_lib sample_proof_view False [char_of (1 :: nat)] =
      Reply (Array [String ''b''])"
    using sample_extract
    by (simp add: sample_proof_lib_def sample_proof_view_def handle_verify_tx_out_proof_def sample_message_def)
  show "\<exists>header. archived_block sample_injective sample_proof_lib sample_proof_view link header \<and>
      no_second_preimage sample_injective (tx_keys sample_proof_view link)" if "is_confirmed_block sample_proof_view link" for link
    using that sample_archived sample_no_second_preimage by (auto simp: sample_proof_view_def)
qed (simp add: sample_proof_lib_def sample_proof_view_def)

end
