(* ===== verification/Bitcoind_Wait.thy ===== *)
theory Bitcoind_Wait
  imports Bitcoind_Proof
begin

text \<open>
  The long polls of the bitcoind service: \<open>waitforblock\<close>, \<open>waitforblockheight\<close> and
  \<open>waitfornewblock\<close> of \<open>protocol_bitcoind_blockchain.cpp\<close>. A wait that is not satisfied when it is
  requested is kept by the protocol with a timer, and is answered by the first of a chain event that satisfies
  it and the expiry of the timer. The archive is read anew by every job of the strand.
\<close>

subsection \<open>Data\<close>

record 'l wait_view =
  top_height :: u64
  top_hash :: hash_digest
  top_link :: 'l
  link_height :: "'l \<Rightarrow> u64 option"
  link_key :: "'l \<Rightarrow> hash_digest"
  hash_link :: "hash_digest \<Rightarrow> 'l"
  link_terminal :: "'l \<Rightarrow> bool"
  link_confirmed :: "'l \<Rightarrow> bool"

record wait_lib =
  text_hash :: "string \<Rightarrow> hash_digest option"
  hash_text :: "hash_digest \<Rightarrow> string"
  number_u64 :: "double \<Rightarrow> u64 option"

datatype wait = Wait_New_Block | Wait_Block | Wait_Height

text \<open>The number of a waiter is the identity of its shared pointer.\<close>

record waiter =
  wait_type :: wait
  wait_height :: u64
  wait_hash :: hash_digest
  wait_number :: nat

text \<open>The codes a race finishes with: an expiry, a canceled timer, a race released without a winner.\<close>

datatype timer_code = Timer_Success | Operation_Canceled | Operation_Failed

text \<open>
  The waiter, the handler of the running timer, the handlers that the timer has posted to the strand, and
  the races that have a winner.
\<close>

record wait_state =
  current_waiter :: "waiter option"
  wait_timer :: "waiter option"
  expiries :: "(timer_code \<times> waiter) list"
  finished :: "nat list"

subsection \<open>Operations\<close>

definition wait_done :: "'l wait_view \<Rightarrow> waiter \<Rightarrow> bool" where
  "wait_done Q waiting =
     (case wait_type waiting of
        Wait_Block \<Rightarrow> \<not> link_terminal Q (hash_link Q (wait_hash waiting)) \<and> link_confirmed Q (hash_link Q (wait_hash waiting))
      | _ \<Rightarrow> top_height Q \<ge> wait_height waiting)"

definition send_top :: "wait_lib \<Rightarrow> 'l wait_view \<Rightarrow> bitcoind_reply" where
  "send_top L Q =
     (case link_height Q (top_link Q) of
        None \<Rightarrow> Send_Error (bitcoind_error ''internal_error'')
      | Some height \<Rightarrow>
          Reply (Object [''hash'' \<mapsto> String (hash_text L (link_key Q (top_link Q))), ''height'' \<mapsto> U64 height]))"

text \<open>Stopping a timer posts its handler as canceled, and starting one stops it first.\<close>

definition timer_stop :: "wait_state \<Rightarrow> wait_state" where
  "timer_stop s =
     (case wait_timer s of
        None \<Rightarrow> s
      | Some waiting \<Rightarrow> s\<lparr>wait_timer := None, expiries := expiries s @ [(Operation_Canceled, waiting)]\<rparr>)"

definition timer_start :: "waiter \<Rightarrow> wait_state \<Rightarrow> wait_state" where
  "timer_start waiting s = (timer_stop s)\<lparr>wait_timer := Some waiting\<rparr>"

definition complete_wait ::
  "wait_lib \<Rightarrow> 'l wait_view \<Rightarrow> bool \<Rightarrow> timer_code \<Rightarrow> wait_state \<Rightarrow> wait_state \<times> bitcoind_reply list" where
  "complete_wait L Q stopped ec s =
     (timer_stop s, if stopped \<or> ec = Operation_Failed then [] else [send_top L Q])"

text \<open>The first finish of a race invokes its handler, a later one does nothing.\<close>

definition race_finish ::
  "wait_lib \<Rightarrow> 'l wait_view \<Rightarrow> bool \<Rightarrow> waiter \<Rightarrow> timer_code \<Rightarrow> wait_state \<Rightarrow> wait_state \<times> bitcoind_reply list" where
  "race_finish L Q stopped waiting ec s =
     (if wait_number waiting \<in> set (finished s) then (s, [])
      else complete_wait L Q stopped ec (s\<lparr>finished := wait_number waiting # finished s\<rparr>))"

text \<open>A zero timeout waits indefinitely.\<close>

definition arm_wait ::
  "wait_lib \<Rightarrow> 'l wait_view \<Rightarrow> waiter \<Rightarrow> double \<Rightarrow> wait_state \<Rightarrow> wait_state \<times> bitcoind_reply list" where
  "arm_wait L Q waiting timeout s =
     (if wait_done Q waiting then (s, [send_top L Q])
      else case number_u64 L timeout of
          None \<Rightarrow> (s, [Send_Error (bitcoind_error ''misc_error'')])
        | Some span \<Rightarrow>
            let s = s\<lparr>current_waiter := Some waiting\<rparr> in
            (if span \<noteq> 0 then timer_start waiting s else s, []))"

definition do_wait_event ::
  "wait_lib \<Rightarrow> 'l wait_view \<Rightarrow> bool \<Rightarrow> wait_state \<Rightarrow> wait_state \<times> bitcoind_reply list" where
  "do_wait_event L Q stopped s =
     (case current_waiter s of
        None \<Rightarrow> (s, [])
      | Some waiting \<Rightarrow>
          if \<not> wait_done Q waiting then (s, [])
          else race_finish L Q stopped waiting Timer_Success (s\<lparr>current_waiter := None\<rparr>))"

definition handle_wait_timeout ::
  "wait_lib \<Rightarrow> 'l wait_view \<Rightarrow> bool \<Rightarrow> timer_code \<Rightarrow> waiter \<Rightarrow> wait_state \<Rightarrow> wait_state \<times> bitcoind_reply list" where
  "handle_wait_timeout L Q stopped ec waiting s =
     (if current_waiter s = Some waiting
      then race_finish L Q stopped waiting ec (s\<lparr>current_waiter := None\<rparr>)
      else (s, []))"

subsection \<open>Requests and events\<close>

datatype wait_request =
    Wait_For_Block string double
  | Wait_For_Block_Height double double
  | Wait_For_New_Block double string

definition handle_wait_for_block ::
  "wait_lib \<Rightarrow> 'l wait_view \<Rightarrow> bool \<Rightarrow> nat \<Rightarrow> string \<Rightarrow> double \<Rightarrow> wait_state \<Rightarrow> wait_state \<times> bitcoind_reply list" where
  "handle_wait_for_block L Q stopped number blockhash timeout s =
     (if stopped then (s, [])
      else case text_hash L blockhash of
          None \<Rightarrow> (s, [Send_Error (bitcoind_error ''invalid_parameter'')])
        | Some hash \<Rightarrow>
            arm_wait L Q \<lparr>wait_type = Wait_Block, wait_height = 0, wait_hash = hash, wait_number = number\<rparr> timeout s)"

definition handle_wait_for_block_height ::
  "wait_lib \<Rightarrow> 'l wait_view \<Rightarrow> bool \<Rightarrow> nat \<Rightarrow> double \<Rightarrow> double \<Rightarrow> wait_state \<Rightarrow> wait_state \<times> bitcoind_reply list" where
  "handle_wait_for_block_height L Q stopped number height timeout s =
     (if stopped then (s, [])
      else case number_u64 L height of
          None \<Rightarrow> (s, [Send_Error (bitcoind_error ''invalid_parameter'')])
        | Some target \<Rightarrow>
            arm_wait L Q \<lparr>wait_type = Wait_Height, wait_height = target, wait_hash = 0, wait_number = number\<rparr> timeout s)"

definition handle_wait_for_new_block ::
  "wait_lib \<Rightarrow> 'l wait_view \<Rightarrow> bool \<Rightarrow> nat \<Rightarrow> double \<Rightarrow> string \<Rightarrow> wait_state \<Rightarrow> wait_state \<times> bitcoind_reply list" where
  "handle_wait_for_new_block L Q stopped number timeout current_tip s =
     (if stopped then (s, [])
      else if current_tip \<noteq> [] \<and> (case text_hash L current_tip of None \<Rightarrow> False | Some given \<Rightarrow> given \<noteq> top_hash Q)
      then (s, [send_top L Q])
      else arm_wait L Q \<lparr>wait_type = Wait_New_Block, wait_height = top_height Q + 1, wait_hash = 0,
             wait_number = number\<rparr> timeout s)"

definition handle_wait ::
  "wait_lib \<Rightarrow> 'l wait_view \<Rightarrow> bool \<Rightarrow> nat \<Rightarrow> wait_request \<Rightarrow> wait_state \<Rightarrow> wait_state \<times> bitcoind_reply list" where
  "handle_wait L Q stopped number request s =
     (case request of
        Wait_For_Block blockhash timeout \<Rightarrow> handle_wait_for_block L Q stopped number blockhash timeout s
      | Wait_For_Block_Height height timeout \<Rightarrow> handle_wait_for_block_height L Q stopped number height timeout s
      | Wait_For_New_Block timeout current_tip \<Rightarrow> handle_wait_for_new_block L Q stopped number timeout current_tip s)"

datatype wait_chase = Wait_Organized | Wait_Reorganized | Wait_Other

text \<open>Whether the subscription to events goes on, and the number of event jobs posted.\<close>

definition wait_handle_chase :: "bool \<Rightarrow> wait_chase \<Rightarrow> bool \<times> nat" where
  "wait_handle_chase stopped event =
     (if stopped then (False, 0)
      else case event of Wait_Organized \<Rightarrow> (True, 1) | Wait_Reorganized \<Rightarrow> (True, 1) | Wait_Other \<Rightarrow> (True, 0))"

definition wait_stopping :: "wait_state \<Rightarrow> wait_state" where
  "wait_stopping s = s\<lparr>current_waiter := None\<rparr>"

subsection \<open>The strand\<close>

text \<open>
  The channel with the archive: whether the node has still to announce a change of the chain, the event jobs
  that are posted and, for the statements, the requests taken so far and the replies by request.
\<close>

record 'l wait_system =
  chain :: "'l wait_view"
  wstate :: wait_state
  announcing :: bool
  events :: nat
  wait_stopped :: bool
  requests :: "wait_request list"
  answers :: "(nat \<times> bitcoind_reply) list"

definition answered :: "nat \<Rightarrow> wait_state \<times> bitcoind_reply list \<Rightarrow> 'l wait_system \<Rightarrow> 'l wait_system" where
  "answered number result S =
     S\<lparr>wstate := fst result, answers := answers S @ map (Pair number) (snd result)\<rparr>"

text \<open>
  A waiter holds the gate of its channel, so that the next request is taken when there is none. A change of the
  chain is announced after it is made.
\<close>

inductive wait_step :: "wait_lib \<Rightarrow> 'l wait_system \<Rightarrow> 'l wait_system \<Rightarrow> bool" for L where
  request: "current_waiter (wstate S) = None \<Longrightarrow> \<not> wait_stopped S \<Longrightarrow>
    wait_step L S (answered (length (requests S)) (handle_wait L (chain S) False (length (requests S)) r (wstate S)) S
      \<lparr>requests := requests S @ [r]\<rparr>)"
| advance: "wait_step L S (S\<lparr>chain := Q, announcing := True\<rparr>)"
| chase: "wait_step L S (S\<lparr>announcing := (announcing S \<and> event = Wait_Other),
    events := events S + snd (wait_handle_chase (wait_stopped S) event)\<rparr>)"
| event: "0 < events S \<Longrightarrow> current_waiter (wstate S) = None \<Longrightarrow>
    wait_step L S (S\<lparr>wstate := fst (do_wait_event L (chain S) (wait_stopped S) (wstate S)), events := events S - 1\<rparr>)"
| wake: "0 < events S \<Longrightarrow> current_waiter (wstate S) = Some waiting \<Longrightarrow>
    wait_step L S (answered (wait_number waiting) (do_wait_event L (chain S) (wait_stopped S) (wstate S)) S
      \<lparr>events := events S - 1\<rparr>)"
| expire: "wait_timer (wstate S) = Some waiting \<Longrightarrow>
    wait_step L S (S\<lparr>wstate := (wstate S)\<lparr>wait_timer := None, expiries := expiries (wstate S) @ [(Timer_Success, waiting)]\<rparr>\<rparr>)"
| timeout: "expiries (wstate S) = (ec, waiting) # rest \<Longrightarrow>
    wait_step L S (answered (wait_number waiting)
      (handle_wait_timeout L (chain S) (wait_stopped S) ec waiting ((wstate S)\<lparr>expiries := rest\<rparr>)) S)"
| stop: "wait_step L S (S\<lparr>wstate := wait_stopping (wstate S), wait_stopped := True\<rparr>)"
| release: "wait_stopped S \<Longrightarrow>
    wait_step L S (S\<lparr>wstate := fst (complete_wait L (chain S) True Operation_Failed (wstate S))\<rparr>)"

inductive wait_reachable :: "wait_lib \<Rightarrow> 'l wait_system \<Rightarrow> bool" for L where
  initial: "wait_reachable L \<lparr>chain = Q, wstate = \<lparr>current_waiter = None, wait_timer = None, expiries = [], finished = []\<rparr>,
    announcing = False, events = 0, wait_stopped = False, requests = [], answers = []\<rparr>"
| step: "wait_reachable L S \<Longrightarrow> wait_step L S S' \<Longrightarrow> wait_reachable L S'"

subsection \<open>Every wait is answered once\<close>

definition wait_span :: "wait_lib \<Rightarrow> wait_request \<Rightarrow> u64 option" where
  "wait_span L r = (case r of Wait_For_Block _ t \<Rightarrow> number_u64 L t | Wait_For_Block_Height _ t \<Rightarrow> number_u64 L t
     | Wait_For_New_Block t _ \<Rightarrow> number_u64 L t)"

text \<open>What a request waits for.\<close>

definition waits_for :: "wait_lib \<Rightarrow> wait_request \<Rightarrow> waiter \<Rightarrow> bool" where
  "waits_for L r w = (case r of
       Wait_For_Block blockhash _ \<Rightarrow> wait_type w = Wait_Block \<and> text_hash L blockhash = Some (wait_hash w)
     | Wait_For_Block_Height height _ \<Rightarrow> wait_type w = Wait_Height \<and> number_u64 L height = Some (wait_height w)
     | Wait_For_New_Block _ _ \<Rightarrow> wait_type w = Wait_New_Block)"

text \<open>A wait that is not answered yet, with its timer.\<close>

definition armed_by :: "wait_lib \<Rightarrow> wait_request list \<Rightarrow> (nat \<times> bitcoind_reply) list \<Rightarrow> wait_state \<Rightarrow> waiter \<Rightarrow> bool" where
  "armed_by L rs as s w \<longleftrightarrow>
     wait_number w < length rs \<and> wait_number w \<notin> fst ` set as \<and>
     wait_number w \<notin> set (finished s) \<and> waits_for L (rs ! wait_number w) w \<and>
     (\<forall>ec. (ec, w) \<in> set (expiries s) \<longrightarrow> ec = Timer_Success) \<and>
     (\<exists>span. wait_span L (rs ! wait_number w) = Some span \<and>
        (if span = 0 then wait_timer s = None \<and> w \<notin> snd ` set (expiries s)
         else wait_timer s = Some w \<or> (Timer_Success, w) \<in> set (expiries s)))"

definition wait_book :: "wait_lib \<Rightarrow> wait_request list \<Rightarrow> (nat \<times> bitcoind_reply) list \<Rightarrow> bool \<Rightarrow> wait_state \<Rightarrow> bool" where
  "wait_book L rs as stopped s \<longleftrightarrow>
     distinct (map fst as) \<and>
     (\<forall>w \<in> snd ` set (expiries s) \<union> set_option (wait_timer s). wait_number w < length rs) \<and>
     set (finished s) \<subseteq> {..<length rs} \<and> fst ` set as \<subseteq> {..<length rs} \<and>
     (if stopped then current_waiter s = None
      else (\<forall>w. wait_timer s = Some w \<longrightarrow> current_waiter s = Some w) \<and>
        (case current_waiter s of
           None \<Rightarrow> fst ` set as = {..<length rs}
         | Some w \<Rightarrow> armed_by L rs as s w \<and> insert (wait_number w) (fst ` set as) = {..<length rs}))"

text \<open>A wait that the chain satisfies has an event on the way.\<close>

definition wait_inv :: "wait_lib \<Rightarrow> 'l wait_system \<Rightarrow> bool" where
  "wait_inv L S \<longleftrightarrow>
     wait_book L (requests S) (answers S) (wait_stopped S) (wstate S) \<and>
     (\<forall>w. current_waiter (wstate S) = Some w \<and> events S = 0 \<and> \<not> announcing S \<longrightarrow> \<not> wait_done (chain S) w)"

text \<open>A request replies at once, or leaves the wait armed.\<close>

lemma arm_wait_result:
  assumes "wait_timer s = None"
  shows "(\<exists>reply. arm_wait L Q w t s = (s, [reply])) \<or>
    (\<exists>span. number_u64 L t = Some span \<and> \<not> wait_done Q w \<and>
       arm_wait L Q w t s = (s\<lparr>current_waiter := Some w, wait_timer := (if span = 0 then None else Some w)\<rparr>, []))"
  using assms by (cases "number_u64 L t"; cases s) (auto simp: arm_wait_def timer_start_def timer_stop_def Let_def)

lemma handle_wait_result:
  assumes "wait_timer s = None"
  shows "(\<exists>reply. handle_wait L Q False n r s = (s, [reply])) \<or>
    (\<exists>w span. wait_number w = n \<and> waits_for L r w \<and> wait_span L r = Some span \<and> \<not> wait_done Q w \<and>
       handle_wait L Q False n r s = (s\<lparr>current_waiter := Some w, wait_timer := (if span = 0 then None else Some w)\<rparr>, []))"
proof (cases "\<exists>reply. handle_wait L Q False n r s = (s, [reply])")
  case False
  note defs = handle_wait_def handle_wait_for_block_def handle_wait_for_block_height_def handle_wait_for_new_block_def
    waits_for_def wait_span_def
  have "\<exists>w t. handle_wait L Q False n r s = arm_wait L Q w t s \<and> wait_number w = n \<and> waits_for L r w \<and>
    wait_span L r = number_u64 L t"
  proof (cases r)
    case (Wait_For_Block b t)
    then obtain hash where "text_hash L b = Some hash" using False by (cases "text_hash L b") (auto simp: defs)
    then show ?thesis using Wait_For_Block
      by (intro exI [of _ "\<lparr>wait_type = Wait_Block, wait_height = 0, wait_hash = hash, wait_number = n\<rparr>"] exI [of _ t])
        (simp add: defs)
  next
    case (Wait_For_Block_Height h t)
    then obtain target where "number_u64 L h = Some target" using False by (cases "number_u64 L h") (auto simp: defs)
    then show ?thesis using Wait_For_Block_Height
      by (intro exI [of _ "\<lparr>wait_type = Wait_Height, wait_height = target, wait_hash = 0, wait_number = n\<rparr>"] exI [of _ t])
        (simp add: defs)
  next
    case (Wait_For_New_Block t c)
    then show ?thesis using False
      by (intro exI [of _ "\<lparr>wait_type = Wait_New_Block, wait_height = top_height Q + 1, wait_hash = 0, wait_number = n\<rparr>"]
          exI [of _ t]) (auto simp: defs)
  qed
  then show ?thesis using arm_wait_result [OF assms] False by metis
qed blast

lemma book_request:
  assumes book: "wait_book L rs as False s" and none: "current_waiter s = None"
    and h: "handle_wait L Q False (length rs) r s = (s', out)"
  shows "wait_book L (rs @ [r]) (as @ map (Pair (length rs)) out) False s' \<and>
    (\<forall>w. current_waiter s' = Some w \<longrightarrow> \<not> wait_done Q w)"
proof -
  have timer: "wait_timer s = None"
    using book none by (cases "wait_timer s") (auto simp: wait_book_def)
  have old: "distinct (map fst as)" "fst ` set as = {..<length rs}" "set (finished s) \<subseteq> {..<length rs}"
    "\<And>ec w. (ec, w) \<in> set (expiries s) \<Longrightarrow> wait_number w < length rs"
    using book none by (force simp: wait_book_def)+
  note grow = lessThan_Suc [of "length rs"]
  from handle_wait_result [OF timer, of L Q "length rs" r, unfolded h] show ?thesis
  proof (elim disjE exE conjE)
    fix reply assume "(s', out) = (s, [reply])"
    then show ?thesis using old timer none grow by (auto simp: wait_book_def less_SucI)
  next
    fix w span
    assume w: "wait_number w = length rs" "waits_for L r w" "wait_span L r = Some span" "\<not> wait_done Q w"
      "(s', out) = (s\<lparr>current_waiter := Some w, wait_timer := (if span = 0 then None else Some w)\<rparr>, [])"
    have "w \<notin> snd ` set (expiries s)" using old(4) w(1) by force
    moreover have "length rs \<notin> set (finished s)" using old(3) by auto
    ultimately show ?thesis using old timer none grow w
      by (auto simp: wait_book_def armed_by_def nth_append less_SucI image_iff)
  qed
qed

lemma finish_armed:
  "wait_number w \<notin> set (finished s) \<Longrightarrow> ec \<noteq> Operation_Failed \<Longrightarrow>
   race_finish L Q False w ec s = (timer_stop (s\<lparr>finished := wait_number w # finished s\<rparr>), [send_top L Q])"
  by (simp add: race_finish_def complete_wait_def)

lemma timer_stop_simps [simp]:
  "current_waiter (timer_stop s) = current_waiter s"
  "wait_timer (timer_stop s) = None"
  "finished (timer_stop s) = finished s"
  "set (expiries (timer_stop s)) = set (expiries s) \<union> (\<lambda>w. (Operation_Canceled, w)) ` set_option (wait_timer s)"
  by (auto simp: timer_stop_def split: option.split)

lemma armed_now:
  "wait_book L rs as stopped s \<Longrightarrow> current_waiter s = Some w \<Longrightarrow>
   \<not> stopped \<and> armed_by L rs as s w \<and> insert (wait_number w) (fst ` set as) = {..<length rs}"
  by (auto simp: wait_book_def split: if_splits)

lemma book_answer:
  assumes book: "wait_book L rs as stopped s" and w: "current_waiter s = Some w" and xs: "set xs \<subseteq> set (expiries s)"
  shows "wait_book L rs (as @ [(wait_number w, reply)]) stopped
    (timer_stop (s\<lparr>expiries := xs, current_waiter := None, finished := wait_number w # finished s\<rparr>))"
proof -
  have all: "\<not> stopped" "armed_by L rs as s w" "insert (wait_number w) (fst ` set as) = {..<length rs}"
    using armed_now [OF book w] by auto
  then have fresh: "wait_number w \<notin> fst ` set as" "wait_number w < length rs" by (auto simp: armed_by_def)
  have old: "distinct (map fst as)" "set (finished s) \<subseteq> {..<length rs}"
    "\<And>ec v. (ec, v) \<in> set (expiries s) \<Longrightarrow> wait_number v < length rs"
    "\<And>v. wait_timer s = Some v \<Longrightarrow> wait_number v < length rs"
    using book unfolding wait_book_def by force+
  show ?thesis
    unfolding wait_book_def using old fresh all xs by (auto simp: image_iff)
qed

lemma book_expire:
  assumes book: "wait_book L rs as stopped s" and w: "wait_timer s = Some w"
  shows "wait_book L rs as stopped (s\<lparr>wait_timer := None, expiries := expiries s @ [(Timer_Success, w)]\<rparr>)"
proof (cases stopped)
  case True
  then show ?thesis using book w by (auto simp: wait_book_def)
next
  case False
  then have c: "current_waiter s = Some w" using book w by (simp add: wait_book_def)
  then have "armed_by L rs as (s\<lparr>wait_timer := None, expiries := expiries s @ [(Timer_Success, w)]\<rparr>) w"
    using armed_now [OF book c] w by (auto simp: armed_by_def split: if_splits)
  then show ?thesis using book w c False by (auto simp: wait_book_def)
qed

lemma book_stale:
  assumes book: "wait_book L rs as stopped s" and e: "expiries s = (ec, w) # rest" and "current_waiter s \<noteq> Some w"
  shows "wait_book L rs as stopped (s\<lparr>expiries := rest\<rparr>)"
proof -
  have "armed_by L rs as (s\<lparr>expiries := rest\<rparr>) v" if "current_waiter s = Some v" for v
    using armed_now [OF book that] assms(3) e that by (auto simp: armed_by_def split: if_splits)
  then show ?thesis using book e by (auto simp: wait_book_def split: option.splits if_splits)
qed

lemma wait_inv_event:
  assumes inv: "wait_inv L S" and w: "current_waiter (wstate S) = Some w"
  shows "wait_inv L (answered (wait_number w) (do_wait_event L (chain S) (wait_stopped S) (wstate S)) S
      \<lparr>events := events S - 1\<rparr>)"
proof -
  have book: "wait_book L (requests S) (answers S) (wait_stopped S) (wstate S)" using inv by (simp add: wait_inv_def)
  have "\<not> wait_stopped S" "wait_number w \<notin> set (finished (wstate S))"
    using armed_now [OF book w] by (auto simp: armed_by_def)
  then show ?thesis
    using book_answer [OF book w, of "expiries (wstate S)"] book w
    by (cases "wait_done (chain S) w") (simp_all add: wait_inv_def answered_def do_wait_event_def finish_armed)
qed

lemma wait_inv_timeout:
  assumes inv: "wait_inv L S" and e: "expiries (wstate S) = (ec, w) # rest"
  shows "wait_inv L (answered (wait_number w)
      (handle_wait_timeout L (chain S) (wait_stopped S) ec w ((wstate S)\<lparr>expiries := rest\<rparr>)) S)"
proof -
  have book: "wait_book L (requests S) (answers S) (wait_stopped S) (wstate S)" using inv by (simp add: wait_inv_def)
  show ?thesis
  proof (cases "current_waiter (wstate S) = Some w")
    case True
    have armed: "\<not> wait_stopped S" "wait_number w \<notin> set (finished (wstate S))" "ec = Timer_Success"
      using armed_now [OF book True] e by (auto simp: armed_by_def)
    then show ?thesis
      using book_answer [OF book True, of rest] True e
      by (simp add: wait_inv_def answered_def handle_wait_timeout_def finish_armed subset_insertI)
  next
    case False
    then show ?thesis
      using book_stale [OF book e False] inv by (simp add: wait_inv_def answered_def handle_wait_timeout_def)
  qed
qed

lemma wait_inv_request:
  assumes "wait_inv L S" "current_waiter (wstate S) = None" "\<not> wait_stopped S"
  shows "wait_inv L (answered (length (requests S)) (handle_wait L (chain S) False (length (requests S)) r (wstate S)) S
      \<lparr>requests := requests S @ [r]\<rparr>)"
  using assms book_request [of L "requests S" "answers S" "wstate S" "chain S" r, OF _ _ prod.collapse [symmetric]]
  by (simp add: wait_inv_def answered_def)

lemma wait_inv_step: "wait_step L S S' \<Longrightarrow> wait_inv L S \<Longrightarrow> wait_inv L S'"
proof (induction rule: wait_step.induct)
  case (chase S event)
  then show ?case by (cases event) (auto simp: wait_inv_def wait_handle_chase_def dest: armed_now)
next
  case (expire S w)
  then show ?case using book_expire [of L _ _ _ "wstate S"] by (simp add: wait_inv_def)
next
  case (stop S)
  then show ?case by (auto simp: wait_inv_def wait_book_def wait_stopping_def split: if_splits)
next
  case (release S)
  then show ?case by (auto simp: wait_inv_def wait_book_def complete_wait_def)
next
  case (event S)
  then show ?case by (simp add: wait_inv_def do_wait_event_def)
next
  case (advance S Q)
  then show ?case by (simp add: wait_inv_def)
qed (blast intro: wait_inv_event wait_inv_timeout wait_inv_request)+

lemma wait_inv_reachable: "wait_reachable L S \<Longrightarrow> wait_inv L S"
proof (induction rule: wait_reachable.induct)
  case (initial Q)
  show ?case by (simp add: wait_inv_def wait_book_def)
qed (rule wait_inv_step)

subsection \<open>A sample run\<close>

text \<open>A wait for a new block at height 5 with a timeout, and the block at height 6 before its event is handled.\<close>

definition sample_wait_lib :: wait_lib where
  "sample_wait_lib = \<lparr>text_hash = (\<lambda>t. None), hash_text = (\<lambda>h. ''h''), number_u64 = (\<lambda>d. Some 1000)\<rparr>"

definition sample_top :: "u64 \<Rightarrow> unit wait_view" where
  "sample_top n = \<lparr>top_height = n, top_hash = 1, top_link = (), link_height = (\<lambda>l. Some n), link_key = (\<lambda>l. 1),
     hash_link = (\<lambda>h. ()), link_terminal = (\<lambda>l. False), link_confirmed = (\<lambda>l. True)\<rparr>"

definition sample_waiter :: waiter where
  "sample_waiter = \<lparr>wait_type = Wait_New_Block, wait_height = 6, wait_hash = 0, wait_number = 0\<rparr>"

definition sample_wait_request :: wait_request where
  "sample_wait_request = Wait_For_New_Block 0 []"

definition sample_waiting :: "unit wait_system" where
  "sample_waiting = \<lparr>chain = sample_top 6,
     wstate = \<lparr>current_waiter = Some sample_waiter, wait_timer = Some sample_waiter, expiries = [], finished = []\<rparr>,
     announcing = False, events = 1, wait_stopped = False, requests = [sample_wait_request], answers = []\<rparr>"

definition sample_woken :: "unit wait_system" where
  "sample_woken = \<lparr>chain = sample_top 6,
     wstate = \<lparr>current_waiter = None, wait_timer = None, expiries = [(Operation_Canceled, sample_waiter)], finished = [0]\<rparr>,
     announcing = False, events = 0, wait_stopped = False, requests = [sample_wait_request],
     answers = [(0, send_top sample_wait_lib (sample_top 6))]\<rparr>"

lemma sample_waiting_reachable: "wait_reachable sample_wait_lib sample_waiting"
  using wait_reachable.step [OF wait_reachable.step [OF wait_reachable.step
        [OF wait_reachable.initial [of sample_wait_lib "sample_top 5"]
          wait_step.request [of _ sample_wait_lib sample_wait_request]]
        wait_step.advance [of sample_wait_lib _ "sample_top 6"]]
      wait_step.chase [of sample_wait_lib _ Wait_Organized]]
  by (simp add: sample_waiting_def sample_wait_request_def sample_waiter_def answered_def handle_wait_def
      handle_wait_for_new_block_def arm_wait_def wait_done_def timer_start_def timer_stop_def wait_handle_chase_def
      sample_wait_lib_def sample_top_def)

lemma sample_wake: "wait_step sample_wait_lib sample_waiting sample_woken"
  using wait_step.wake [of sample_waiting sample_waiter sample_wait_lib]
  by (simp add: sample_waiting_def sample_woken_def answered_def do_wait_event_def wait_done_def race_finish_def
      complete_wait_def timer_stop_def sample_waiter_def sample_top_def)

text \<open>
  C21: A wait request is answered at most once; while the channel runs every request is answered but the one
  that is waiting. That one waits for what its request says; with no chain event on the way the chain does
  not satisfy it; and its timer is running or its expiry is posted unless its timeout is zero, in which case
  it has no timer.
\<close>

theorem wait_answered_once:
  assumes "wait_reachable L S"
  shows "distinct (map fst (answers S)) \<and>
    (\<not> wait_stopped S \<longrightarrow>
      (\<forall>n. n < length (requests S) \<longleftrightarrow>
        n \<in> fst ` set (answers S) \<or> n \<in> wait_number ` set_option (current_waiter (wstate S))) \<and>
      (\<forall>w. current_waiter (wstate S) = Some w \<longrightarrow>
        wait_number w \<notin> fst ` set (answers S) \<and> waits_for L (requests S ! wait_number w) w \<and>
        (events S = 0 \<and> \<not> announcing S \<longrightarrow> \<not> wait_done (chain S) w) \<and>
        (wait_span L (requests S ! wait_number w) \<noteq> Some 0 \<longleftrightarrow>
           wait_timer (wstate S) = Some w \<or> (Timer_Success, w) \<in> set (expiries (wstate S)))))"
proof -
  have inv: "wait_inv L S" using assms by (rule wait_inv_reachable)
  then have book: "wait_book L (requests S) (answers S) (wait_stopped S) (wstate S)" by (simp add: wait_inv_def)
  show ?thesis
  proof (cases "current_waiter (wstate S)")
    case None
    then show ?thesis using book by (auto simp: wait_book_def)
  next
    case (Some w)
    note a = armed_now [OF book Some]
    have "n < length (requests S) \<longleftrightarrow> n \<in> insert (wait_number w) (fst ` set (answers S))" for n using a by simp
    moreover have "distinct (map fst (answers S))" using book by (simp add: wait_book_def)
    moreover have "events S = 0 \<and> \<not> announcing S \<longrightarrow> \<not> wait_done (chain S) w" using inv Some by (simp add: wait_inv_def)
    moreover have "wait_span L (requests S ! wait_number w) \<noteq> Some 0 \<longleftrightarrow>
        wait_timer (wstate S) = Some w \<or> (Timer_Success, w) \<in> set (expiries (wstate S))"
      using a by (auto simp: armed_by_def image_iff split: if_splits)
    ultimately show ?thesis using Some a by (auto simp: armed_by_def)
  qed
qed

theorem wait_answered_once_witness:
  "distinct (map fst (answers sample_waiting)) \<and>
   waits_for sample_wait_lib (requests sample_waiting ! 0) sample_waiter \<and>
   0 \<notin> fst ` set (answers sample_waiting) \<and>
   (wait_timer (wstate sample_waiting) = Some sample_waiter \<or>
     (Timer_Success, sample_waiter) \<in> set (expiries (wstate sample_waiting)))"
  using wait_answered_once [OF sample_waiting_reachable]
  by (simp add: sample_waiting_def sample_waiter_def)

text \<open>
  No wait is answered early: a step that answers the wait of the channel replies with the top of the
  chain, ends the wait, and takes place when the chain satisfies the wait or when its nonzero timeout has
  expired.
\<close>

theorem wait_not_early:
  assumes "wait_reachable L S" "wait_step L S S'" "current_waiter (wstate S) = Some w" "answers S' \<noteq> answers S"
  shows "answers S' = answers S @ [(wait_number w, send_top L (chain S))] \<and> current_waiter (wstate S') = None \<and>
    wait_timer (wstate S') = None \<and>
    (wait_done (chain S) w \<or>
      (\<exists>span. wait_span L (requests S ! wait_number w) = Some span \<and> span \<noteq> 0) \<and>
      (\<exists>rest. expiries (wstate S) = (Timer_Success, w) # rest))"
proof -
  have book: "wait_book L (requests S) (answers S) (wait_stopped S) (wstate S)"
    using wait_inv_reachable [OF assms(1)] by (simp add: wait_inv_def)
  have a: "\<not> wait_stopped S" "armed_by L (requests S) (answers S) (wstate S) w" using armed_now [OF book assms(3)] by auto
  from assms(2) show ?thesis
  proof cases
    case (wake waiting)
    then show ?thesis using assms(3,4) a
      by (auto simp: answered_def do_wait_event_def finish_armed armed_by_def split: if_splits)
  next
    case (timeout ec waiting rest)
    then have w: "waiting = w" using assms(3,4) by (auto simp: answered_def handle_wait_timeout_def split: if_splits)
    then have ec: "ec = Timer_Success" using a timeout by (auto simp: armed_by_def)
    have "\<exists>span. wait_span L (requests S ! wait_number w) = Some span \<and> span \<noteq> 0"
      using a(2) timeout(2) w by (fastforce simp: armed_by_def split: if_splits)
    then show ?thesis using timeout w ec assms(3) a
      by (simp add: answered_def handle_wait_timeout_def finish_armed armed_by_def)
  qed (use assms(3,4) in auto)
qed

theorem wait_not_early_witness:
  "answers sample_woken = answers sample_waiting @ [(0, send_top sample_wait_lib (chain sample_waiting))] \<and>
   current_waiter (wstate sample_woken) = None \<and> wait_done (chain sample_waiting) sample_waiter"
  using wait_not_early [OF sample_waiting_reachable sample_wake, of sample_waiter]
  by (simp add: sample_waiting_def sample_woken_def sample_waiter_def)

end
