(* ===== verification/Bitcoind_Unspent.thy ===== *)
theory Bitcoind_Unspent
  imports Bitcoind_Proof Descriptor "HOL-Library.Product_Lexorder" "HOL-Library.List_Lexorder"
begin

text \<open>
  Queries of the set of unspent outputs of the bitcoind service: the scan objects of
  \<open>parsers/bitcoind_scan.cpp\<close>, the results of \<open>serializers/bitcoind_coin.cpp\<close>, and
  \<open>scantxoutset\<close> and \<open>gettxoutsetinfo\<close> of \<open>protocol_bitcoind_blockchain.cpp\<close>. A scan runs off the strand; the
  archive it ends with, read for the check that the pinned top is still confirmed, may differ from the one it
  starts with. Descriptors are parsed and derived by the system library.
\<close>

subsection \<open>Scan objects\<close>

text \<open>
  A descriptor \<open>'p\<close> and the signings \<open>'g\<close> it derives at an index; the conversions of json numbers; whether the
  top bit of an index is set.
\<close>

record ('p, 'g) derive_lib =
  parse_descriptor :: "string \<Rightarrow> 'p option"
  ranged :: "'p \<Rightarrow> bool"
  signings :: "'p \<Rightarrow> u32 \<Rightarrow> 'g list"
  scan_u32 :: "double \<Rightarrow> u32 option"

definition default_range :: u32 where
  "default_range = 1000"

definition maximum_range :: u32 where
  "maximum_range = 1000000"

definition parse_scan_range :: "('p, 'g) derive_lib \<Rightarrow> u32 \<Rightarrow> value_t \<Rightarrow> (u32 \<times> u32) option" where
  "parse_scan_range L begin' span =
     (case span of
        Number number \<Rightarrow> map_option (\<lambda>end'. (begin', end')) (scan_u32 L number)
      | Array [Number first, Number last'] \<Rightarrow>
          (case (scan_u32 L first, scan_u32 L last') of
             (Some begin', Some end') \<Rightarrow> if end' \<ge> begin' then Some (begin', end') else None
           | _ \<Rightarrow> None)
      | _ \<Rightarrow> None)"

text \<open>
  The loop over the indexes with its 32 bit counter. The result is None where it does not end; otherwise it is the
  signings, or None when an index derives none.
\<close>

partial_function (option) signing_loop :: "(u32 \<Rightarrow> 'g list) \<Rightarrow> u32 \<Rightarrow> u32 \<Rightarrow> 'g list \<Rightarrow> 'g list option option" where
  [code]: "signing_loop derive index end' out =
     (if index \<le> end' then
        (if derive index = [] then Some None
         else signing_loop derive (index + 1) end' (out @ derive index))
      else Some (Some out))"

definition scan_fields :: "('p, 'g) derive_lib \<Rightarrow> value_t \<Rightarrow> (string \<times> u32 \<times> u32) option" where
  "scan_fields L item =
     (case item of
        String expression \<Rightarrow> Some (expression, 0, default_range)
      | Object members \<Rightarrow>
          (case members ''desc'' of
             Some (String expression) \<Rightarrow>
               (case members ''range'' of
                  None \<Rightarrow> Some (expression, 0, default_range)
                | Some span \<Rightarrow> map_option (\<lambda>(begin', end'). (expression, begin', end')) (parse_scan_range L 0 span))
           | _ \<Rightarrow> None)
      | _ \<Rightarrow> None)"

definition expand_scan_signings :: "('p, 'g) derive_lib \<Rightarrow> value_t \<Rightarrow> 'g list \<Rightarrow> 'g list option option" where
  "expand_scan_signings L item out =
     (case scan_fields L item of
        None \<Rightarrow> Some None
      | Some (expression, begin', end') \<Rightarrow>
          (case parse_descriptor L expression of
             None \<Rightarrow> Some None
           | Some parsed \<Rightarrow>
               if bit end' 31 \<or> (if end' < begin' then 0 else end' - begin') \<ge> maximum_range then Some None
               else signing_loop (signings L parsed) begin' (if ranged L parsed then end' else begin') out))"

definition expand_scan_object ::
  "('p, 'g) derive_lib \<Rightarrow> ('g \<Rightarrow> 's) \<Rightarrow> value_t \<Rightarrow> 's list \<Rightarrow> 's list option option" where
  "expand_scan_object L script_of item out =
     map_option (map_option (\<lambda>signed. out @ map script_of signed)) (expand_scan_signings L item [])"

fun expand_scan_objects ::
  "('p, 'g) derive_lib \<Rightarrow> ('g \<Rightarrow> 's) \<Rightarrow> value_t list \<Rightarrow> 's list \<Rightarrow> 's list option option" where
  "expand_scan_objects L script_of [] out = Some (Some out)"
| "expand_scan_objects L script_of (item # items) out =
     (case expand_scan_object L script_of item out of
        Some (Some out) \<Rightarrow> expand_scan_objects L script_of items out
      | failed \<Rightarrow> failed)"

text \<open>What an item derives: the signings of its indexes in order.\<close>

definition scan_indexes :: "('p, 'g) derive_lib \<Rightarrow> 'p \<Rightarrow> u32 \<Rightarrow> u32 \<Rightarrow> u32 list" where
  "scan_indexes L parsed begin' end' =
     map of_nat [unat begin'..<Suc (unat (if ranged L parsed then end' else begin'))]"

lemma signing_loop_runs:
  assumes "unat end' < 2 ^ 32 - 1" "n = Suc (unat end') - unat index"
  shows "signing_loop derive index end' out =
    Some (if \<forall>i \<in> set [unat index..<Suc (unat end')]. derive (of_nat i) \<noteq> []
          then Some (out @ concat (map (\<lambda>i. derive (of_nat i)) [unat index..<Suc (unat end')]))
          else None)"
  using assms
proof (induction n arbitrary: index out)
  case 0
  then show ?case by (subst signing_loop.simps) (simp add: word_le_nat_alt)
next
  case (Suc n)
  then have le: "index \<le> end'" by (simp add: word_le_nat_alt)
  then have next': "unat (index + 1) = Suc (unat index)"
    using Suc.prems(1) by (simp add: unat_word_ariths word_le_nat_alt)
  have split: "[unat index..<Suc (unat end')] = unat index # [unat (index + 1)..<Suc (unat end')]"
    using le next' by (simp add: upt_rec word_le_nat_alt)
  have "signing_loop derive index end' out =
      (if derive index = [] then Some None else signing_loop derive (index + 1) end' (out @ derive index))"
    using le by (subst signing_loop.simps) simp
  then show ?case
    using Suc.IH [of "index + 1" "out @ derive index"] Suc.prems next' split by (simp del: upt_Suc)
qed

lemma scan_fields_ordered: "scan_fields L item = Some (expression, begin', end') \<Longrightarrow> begin' \<le> end'"
  by (auto simp: scan_fields_def parse_scan_range_def default_range_def split: value_t.splits option.splits list.splits if_splits)

lemma top_bit_clear: "\<not> bit (w :: u32) 31 \<longleftrightarrow> unat w < 2 ^ 31"
proof -
  have "bit w 31 \<longleftrightarrow> odd (unat w div 2 ^ 31)"
    by (metis bit_iff_odd bit_unsigned_iff possible_bit_nat Bit_Operations.bit_iff_odd)
  moreover have "unat w div 2 ^ 31 < 2" using unsigned_less [of w, where ?'a = nat] by (simp add: less_mult_imp_div_less)
  ultimately show ?thesis by (auto simp: less_2_cases_iff div_eq_0_iff)
qed

lemma scan_span:
  assumes "begin' \<le> (end' :: u32)"
  shows "\<not> (if end' < begin' then 0 else end' - begin') \<ge> maximum_range \<longleftrightarrow> unat end' < unat begin' + 1000000"
proof -
  have "unat (end' - begin') = unat end' - unat begin'" using assms by (rule unat_sub)
  then show ?thesis using assms by (auto simp: maximum_range_def word_le_nat_alt word_less_nat_alt)
qed

text \<open>
  C31: A scan object is expanded in finitely many steps whatever the client sends: to the signings of its indexes
  from the begin to the end of its range in order, at most a million indexes, or it is refused.
\<close>

theorem scan_object_expands:
  "\<exists>result. expand_scan_signings L item [] = Some result \<and>
    (\<forall>out. result = Some out \<longleftrightarrow>
      (\<exists>expression begin' end' parsed. scan_fields L item = Some (expression, begin', end') \<and>
         parse_descriptor L expression = Some parsed \<and> unat end' < 2 ^ 31 \<and> unat end' < unat begin' + 1000000 \<and>
         (\<forall>index \<in> set (scan_indexes L parsed begin' end'). signings L parsed index \<noteq> []) \<and>
         length (scan_indexes L parsed begin' end') \<le> 1000000 \<and>
         out = concat (map (signings L parsed) (scan_indexes L parsed begin' end'))))"
proof (cases "scan_fields L item")
  case None
  then show ?thesis by (simp add: expand_scan_signings_def)
next
  case (Some f)
  obtain expression begin' end' where f: "scan_fields L item = Some (expression, begin', end')" using Some by (cases f) auto
  note le = scan_fields_ordered [OF f]
  show ?thesis
  proof (cases "parse_descriptor L expression")
    case None
    then show ?thesis using f by (simp add: expand_scan_signings_def)
  next
    case (Some parsed)
    show ?thesis
    proof (cases "unat end' < 2 ^ 31 \<and> unat end' < unat begin' + 1000000")
      case False
      then have "expand_scan_signings L item [] = Some None"
        using f Some top_bit_clear [of end'] scan_span [OF le] by (auto simp: expand_scan_signings_def)
      then show ?thesis using f Some False by auto
    next
      case True
      define to where "to = (if ranged L parsed then end' else begin')"
      have to: "unat to < 2 ^ 32 - 1" "unat to < unat begin' + 1000000" using True le by (auto simp: to_def word_le_nat_alt)
      have idx: "scan_indexes L parsed begin' end' = map of_nat [unat begin'..<Suc (unat to)]"
        by (simp add: scan_indexes_def to_def)
      have "expand_scan_signings L item [] = signing_loop (signings L parsed) begin' to []"
        using f Some True top_bit_clear [of end'] scan_span [OF le] by (simp add: expand_scan_signings_def to_def)
      then have "expand_scan_signings L item [] =
          Some (if \<forall>index \<in> set (scan_indexes L parsed begin' end'). signings L parsed index \<noteq> []
            then Some (concat (map (signings L parsed) (scan_indexes L parsed begin' end'))) else None)"
        using signing_loop_runs [OF to(1) refl, of "signings L parsed" begin' "[]"] unfolding idx by (simp add: comp_def del: upt_Suc)
      moreover have "length (scan_indexes L parsed begin' end') \<le> 1000000" using to(2) by (simp add: idx del: upt_Suc)
      ultimately show ?thesis using f Some True by (auto simp del: upt_Suc)
    qed
  qed
qed

subsection \<open>The archive\<close>

record unspent =
  uo_hash :: hash_digest
  uo_index :: u32
  uo_value :: u64
  uo_height :: u64
  uo_position :: u64

record coin =
  coin_hash :: hash_digest
  coin_index :: u32
  coin_value :: u64
  coin_height :: u64
  coin_coinbase :: bool
  coin_script :: "u8 list"

record unspent_totals =
  set_transactions :: u64
  set_outputs :: u64
  set_script_bytes :: u64
  set_coin_bytes :: u64
  set_value :: u64

record block_amounts =
  amount_prevouts :: u64
  amount_outputs :: u64
  amount_coinbase :: u64
  amount_unspendable :: u64
  amount_bip30 :: u64

text \<open>The queries that fail with a code have no result here.\<close>

record 'l unspent_view =
  best_height :: u64
  best_link :: 'l
  confirmed_link :: "u64 \<Rightarrow> 'l"
  header_link :: "hash_digest \<Rightarrow> 'l"
  is_confirmed_link :: "'l \<Rightarrow> bool"
  height_of_link :: "'l \<Rightarrow> u64 option"
  key_of_link :: "'l \<Rightarrow> hash_digest"
  ancestry :: "'l \<Rightarrow> u64 \<Rightarrow> 'l list option"
  address_enabled :: bool
  fork_bip30 :: bool
  get_confirmed_unspent :: "hash_digest \<Rightarrow> unspent list option"
  get_unspent_matches :: "hash_digest set \<Rightarrow> 'l list \<Rightarrow> (coin list \<times> u64) option"
  get_unspent_totals :: "'l list \<Rightarrow> unspent_totals option"
  get_unspent_muhash :: "'l list \<Rightarrow> (unspent_totals \<times> hash_digest) option"
  get_unspent_serialized :: "'l list \<Rightarrow> (unspent_totals \<times> hash_digest) option"
  get_block_amounts :: "'l \<Rightarrow> block_amounts option"

text \<open>The library with the settings: hashes, texts, coin amounts as numbers, and the subsidy of a height.\<close>

record 's coin_lib =
  sha256 :: "u8 list \<Rightarrow> hash_digest"
  digest_bytes :: "hash_digest \<Rightarrow> u8 list"
  digest_text :: "hash_digest \<Rightarrow> string"
  text_digest :: "string \<Rightarrow> hash_digest option"
  to_coins :: "u64 \<Rightarrow> double"
  integer_u64 :: "double \<Rightarrow> u64 option"
  subsidy_at :: "u64 \<Rightarrow> u64"
  out_data :: "'s \<Rightarrow> u8 list"
  out_unspendable :: "'s \<Rightarrow> bool"
  out_base16 :: "u8 list \<Rightarrow> string"

abbreviation floored :: "u64 \<Rightarrow> u64 \<Rightarrow> u64" where
  "floored a b \<equiv> (if a < b then 0 else a - b)"

subsection \<open>Results\<close>

definition total_subsidy :: "'s coin_lib \<Rightarrow> u64 \<Rightarrow> u64" where
  "total_subsidy L height = foldl (\<lambda>n index. n + subsidy_at L (of_nat index)) 0 [0..<Suc (unat height)]"

definition block_info :: "'s coin_lib \<Rightarrow> 'l unspent_view \<Rightarrow> 'l \<Rightarrow> u64 \<Rightarrow> object_t option" where
  "block_info L Q link height =
     map_option (\<lambda>amounts.
       let fees = floored (amount_prevouts amounts) (amount_outputs amounts);
           reward = subsidy_at L height + fees;
           unclaimed = floored reward (amount_coinbase amounts);
           unspendable' = unclaimed + amount_unspendable amounts + amount_bip30 amounts in
       [''prevout_spent'' \<mapsto> Number (to_coins L (amount_prevouts amounts)),
        ''coinbase'' \<mapsto> Number (to_coins L (amount_coinbase amounts)),
        ''new_outputs_ex_coinbase'' \<mapsto> Number (to_coins L (amount_outputs amounts)),
        ''unspendable'' \<mapsto> Number (to_coins L unspendable'),
        ''unspendables'' \<mapsto> Object
          [''genesis_block'' \<mapsto> U64 0,
           ''bip30'' \<mapsto> Number (to_coins L (amount_bip30 amounts)),
           ''scripts'' \<mapsto> Number (to_coins L (amount_unspendable amounts)),
           ''unclaimed_rewards'' \<mapsto> Number (to_coins L unclaimed)]])
     (get_block_amounts Q link)"

text \<open>The first script of a hash is the needle of it.\<close>

fun needles :: "'s coin_lib \<Rightarrow> ('s \<Rightarrow> string) \<Rightarrow> 's list \<Rightarrow> hash_digest \<Rightarrow> (string \<times> string) option" where
  "needles L describe [] = Map.empty"
| "needles L describe (script # rest) =
     (if out_unspendable L script then needles L describe rest
      else (needles L describe rest)(sha256 L (out_data L script) \<mapsto>
        (out_base16 L (out_data L script), describe script)))"

definition coin_order :: "'s coin_lib \<Rightarrow> coin \<Rightarrow> u8 list \<times> u32" where
  "coin_order L coin = (digest_bytes L (coin_hash coin), coin_index coin)"

definition reported_height :: "bool \<Rightarrow> coin \<Rightarrow> u64" where
  "reported_height bip30 coin =
     (if bip30 \<and> coin_coinbase coin
      then (if coin_height coin = 91812 then 91842 else if coin_height coin = 91722 then 91880 else coin_height coin)
      else coin_height coin)"

definition coin_entry ::
  "'s coin_lib \<Rightarrow> 'l unspent_view \<Rightarrow> u64 \<Rightarrow> bool \<Rightarrow> string \<times> string \<Rightarrow> coin \<Rightarrow> value_t" where
  "coin_entry L Q top' bip30 found coin =
     (let height = reported_height bip30 coin in
      Object [''txid'' \<mapsto> String (digest_text L (coin_hash coin)),
        ''vout'' \<mapsto> U32 (coin_index coin),
        ''scriptPubKey'' \<mapsto> String (fst found),
        ''desc'' \<mapsto> String (snd found),
        ''amount'' \<mapsto> Number (to_coins L (coin_value coin)),
        ''coinbase'' \<mapsto> Boolean (coin_coinbase coin),
        ''height'' \<mapsto> U64 height,
        ''blockhash'' \<mapsto> String (digest_text L (key_of_link Q (confirmed_link Q height))),
        ''confirmations'' \<mapsto> U64 (floored top' height + 1)])"

fun coin_loop ::
  "'s coin_lib \<Rightarrow> 'l unspent_view \<Rightarrow> u64 \<Rightarrow> bool \<Rightarrow> (hash_digest \<Rightarrow> (string \<times> string) option) \<Rightarrow> coin list \<Rightarrow>
   u64 \<times> value_t list \<Rightarrow> u64 \<times> value_t list" where
  "coin_loop L Q top' bip30 needles' [] acc = acc"
| "coin_loop L Q top' bip30 needles' (coin # rest) acc =
     (case needles' (sha256 L (coin_script coin)) of
        None \<Rightarrow> coin_loop L Q top' bip30 needles' rest acc
      | Some found \<Rightarrow>
          coin_loop L Q top' bip30 needles' rest
            (fst acc + coin_value coin, snd acc @ [coin_entry L Q top' bip30 found coin]))"

definition scan_result ::
  "'s coin_lib \<Rightarrow> ('s \<Rightarrow> string) \<Rightarrow> 'l unspent_view \<Rightarrow> coin list \<Rightarrow> 's list \<Rightarrow> u64 \<Rightarrow> u64 \<Rightarrow> bool \<Rightarrow> object_t" where
  "scan_result L describe Q coins scripts top' txouts bip30 =
     (let (amount, unspents) = coin_loop L Q top' bip30 (needles L describe scripts) (sort_key (coin_order L) coins) (0, []) in
      [''success'' \<mapsto> Boolean True,
       ''txouts'' \<mapsto> U64 txouts,
       ''height'' \<mapsto> U64 top',
       ''bestblock'' \<mapsto> String (digest_text L (key_of_link Q (confirmed_link Q top'))),
       ''unspents'' \<mapsto> Array unspents,
       ''total_amount'' \<mapsto> Number (to_coins L amount)])"

subsection \<open>scantxoutset\<close>

text \<open>The keys of the spendable scripts.\<close>

definition script_keys :: "'s coin_lib \<Rightarrow> 's list \<Rightarrow> hash_digest set" where
  "script_keys L scripts = (\<lambda>script. sha256 L (out_data L script)) ` {script \<in> set scripts. \<not> out_unspendable L script}"

text \<open>The coins of the unspent outputs of a script, without the output of the genesis block.\<close>

definition indexed_coins :: "u8 list \<Rightarrow> unspent list \<Rightarrow> coin list" where
  "indexed_coins data outs =
     map (\<lambda>utxo. \<lparr>coin_hash = uo_hash utxo, coin_index = uo_index utxo, coin_value = uo_value utxo,
         coin_height = uo_height utxo, coin_coinbase = (uo_position utxo = 0), coin_script = data\<rparr>)
       (filter (\<lambda>utxo. \<not> (uo_height utxo = 0 \<and> uo_position utxo = 0)) outs)"

text \<open>The loop over the scripts, each key read once; None when a query fails.\<close>

fun indexed_loop ::
  "'s coin_lib \<Rightarrow> 'l unspent_view \<Rightarrow> hash_digest set \<Rightarrow> coin list \<times> u64 \<Rightarrow> 's list \<Rightarrow> (coin list \<times> u64) option" where
  "indexed_loop L Q keys acc [] = Some acc"
| "indexed_loop L Q keys acc (script # rest) =
     (let data = out_data L script; key = sha256 L data in
      if key \<notin> keys then indexed_loop L Q keys acc rest
      else (case get_confirmed_unspent Q key of
          None \<Rightarrow> None
        | Some outs \<Rightarrow>
            let coins = indexed_coins data outs in
            indexed_loop L Q (keys - {key}) (fst acc @ coins, snd acc + of_nat (length coins)) rest))"

definition scan_coins ::
  "'s coin_lib \<Rightarrow> 'l unspent_view \<Rightarrow> 's list \<Rightarrow> u64 \<Rightarrow> (coin list \<times> u64) option" where
  "scan_coins L Q scripts top' =
     (if address_enabled Q then indexed_loop L Q (script_keys L scripts) ([], 0) scripts
      else (case ancestry Q (best_link Q) top' of
          None \<Rightarrow> None
        | Some branch \<Rightarrow> get_unspent_matches Q (script_keys L scripts) branch))"

text \<open>The outer None is a scan that does not end; \<open>Q'\<close> is the archive when it has ended.\<close>

definition do_scan_tx_out_set ::
  "('p, 'g) derive_lib \<Rightarrow> ('g \<Rightarrow> 's) \<Rightarrow> 's coin_lib \<Rightarrow> ('s \<Rightarrow> string) \<Rightarrow> 'l unspent_view \<Rightarrow> 'l unspent_view \<Rightarrow>
   value_t list \<Rightarrow> bitcoind_reply option" where
  "do_scan_tx_out_set D script_of L describe Q Q' objects =
     map_option (\<lambda>expanded.
       case expanded of
         None \<Rightarrow> Send_Error (bitcoind_error ''invalid_address_or_key'')
       | Some scripts \<Rightarrow>
           (case height_of_link Q (best_link Q) of
              None \<Rightarrow> Send_Error (bitcoind_error ''internal_error'')
            | Some top' \<Rightarrow>
                (case scan_coins L Q scripts top' of
                   None \<Rightarrow> Send_Error (bitcoind_error ''internal_error'')
                 | Some (coins, txouts) \<Rightarrow>
                     if \<not> is_confirmed_link Q' (best_link Q) then Send_Error (bitcoind_error ''internal_error'')
                     else Reply (Object (scan_result L describe Q' coins scripts top' txouts (fork_bip30 Q))))))
     (expand_scan_objects D script_of objects [])"

text \<open>The descriptors are those of theory \<open>Descriptor\<close>.\<close>

definition scan_tx_out_set ::
  "word_lib \<Rightarrow> ('a, 'w, 's) address_lib \<Rightarrow> 's script_lib \<Rightarrow> address_prefixes \<Rightarrow> ('p, 'g) derive_lib \<Rightarrow> ('g \<Rightarrow> 's) \<Rightarrow>
   's coin_lib \<Rightarrow> 'l unspent_view \<Rightarrow> 'l unspent_view \<Rightarrow> value_t list \<Rightarrow> bitcoind_reply option" where
  "scan_tx_out_set W A S pre D script_of L = do_scan_tx_out_set D script_of L (infer_descriptor W A S pre)"

datatype deferred = Immediate bitcoind_reply | Scan_Tx_Out_Set "value_t list"

definition handle_scan_tx_out_set :: "bool \<Rightarrow> string \<Rightarrow> value_t list \<Rightarrow> deferred" where
  "handle_scan_tx_out_set stopped action scanobjects =
     (if stopped then Immediate No_Reply
      else if action = ''status'' then Immediate (Reply Null)
      else if action = ''abort'' then Immediate (Reply (Boolean False))
      else if action \<noteq> ''start'' then Immediate (Send_Error (bitcoind_error ''invalid_parameter''))
      else Scan_Tx_Out_Set scanobjects)"

subsection \<open>gettxoutsetinfo\<close>

datatype set_hash = Set_None | Set_Muhash | Set_Serialized

definition to_set_hash :: "string \<Rightarrow> set_hash option" where
  "to_set_hash hash_type =
     (if hash_type = ''hash_serialized_3'' then Some Set_Serialized
      else if hash_type = ''muhash'' then Some Set_Muhash
      else if hash_type = ''none'' then Some Set_None
      else None)"

text \<open>The hash type and height of the scan, or the error of the request.\<close>

definition handle_get_tx_out_set_info ::
  "'s coin_lib \<Rightarrow> 'l unspent_view \<Rightarrow> bool \<Rightarrow> string \<Rightarrow> value_t \<Rightarrow> bool \<Rightarrow> bitcoind_reply + set_hash \<times> u64" where
  "handle_get_tx_out_set_info L Q stopped hash_type hash_or_height use_index =
     (if stopped then Inl No_Reply
      else case to_set_hash hash_type of
        None \<Rightarrow> Inl (Send_Error (bitcoind_error ''invalid_parameter''))
      | Some type' \<Rightarrow>
          if hash_or_height = Null then Inr (type', best_height Q)
          else if \<not> use_index then Inl (Send_Error (bitcoind_error ''invalid_parameter''))
          else
            sum_bind (case hash_or_height of
                String text' \<Rightarrow>
                  (case text_digest L text' of
                     None \<Rightarrow> Inl (Send_Error (bitcoind_error ''invalid_parameter''))
                   | Some hash \<Rightarrow> Inr (header_link Q hash))
              | Number number \<Rightarrow>
                  (case integer_u64 L number of
                     None \<Rightarrow> Inl (Send_Error (bitcoind_error ''misc_error''))
                   | Some height \<Rightarrow> Inr (confirmed_link Q height))
              | _ \<Rightarrow> Inl (Send_Error (bitcoind_error ''type_error'')))
            (\<lambda>link.
              if \<not> is_confirmed_link Q link then Inl (Send_Error (bitcoind_error ''invalid_address_or_key''))
              else (case height_of_link Q link of
                  None \<Rightarrow> Inl (Send_Error (bitcoind_error ''internal_error''))
                | Some height \<Rightarrow> Inr (type', height))))"

definition set_totals :: "'l unspent_view \<Rightarrow> set_hash \<Rightarrow> 'l list \<Rightarrow> (unspent_totals \<times> hash_digest) option" where
  "set_totals Q type' branch =
     (case type' of
        Set_None \<Rightarrow> map_option (\<lambda>totals. (totals, 0)) (get_unspent_totals Q branch)
      | Set_Muhash \<Rightarrow> get_unspent_muhash Q branch
      | Set_Serialized \<Rightarrow> get_unspent_serialized Q branch)"

definition do_get_tx_out_set_info ::
  "'s coin_lib \<Rightarrow> 'l unspent_view \<Rightarrow> 'l unspent_view \<Rightarrow> set_hash \<Rightarrow> u64 \<Rightarrow> bitcoind_reply" where
  "do_get_tx_out_set_info L Q Q' type' height =
     (let link = confirmed_link Q height in
      case Option.bind (ancestry Q link height) (set_totals Q type') of
        None \<Rightarrow> Send_Error (bitcoind_error ''internal_error'')
      | Some (totals, digest) \<Rightarrow>
          if \<not> is_confirmed_link Q' link then Send_Error (bitcoind_error ''internal_error'')
          else
            let result =
              [''height'' \<mapsto> U64 height,
               ''bestblock'' \<mapsto> String (digest_text L (key_of_link Q' link)),
               ''transactions'' \<mapsto> U64 (set_transactions totals),
               ''txouts'' \<mapsto> U64 (set_outputs totals),
               ''bogosize'' \<mapsto> U64 (50 * set_outputs totals + set_script_bytes totals),
               ''disk_size'' \<mapsto> U64 (set_coin_bytes totals),
               ''total_amount'' \<mapsto> Number (to_coins L (set_value totals)),
               ''total_unspendable_amount'' \<mapsto>
                 Number (to_coins L (floored (total_subsidy L height) (set_value totals)))];
              result = (case block_info L Q' link height of None \<Rightarrow> result | Some amounts \<Rightarrow> result(''block_info'' \<mapsto> Object amounts)) in
            Reply (Object (case type' of
                Set_None \<Rightarrow> result
              | Set_Serialized \<Rightarrow> result(''hash_serialized_3'' \<mapsto> String (digest_text L digest))
              | Set_Muhash \<Rightarrow> result(''muhash'' \<mapsto> String (digest_text L digest)))))"

subsection \<open>The index and the full scan agree\<close>

text \<open>
  The unspent outputs of the confirmed chain with their scripts. The index returns those of a script hash, the full
  scan those of a set of script hashes but the output of the genesis block, each once.
\<close>

abbreviation nongenesis :: "unspent \<Rightarrow> bool" where
  "nongenesis u \<equiv> \<not> (uo_height u = 0 \<and> uo_position u = 0)"

definition coin_facts :: "'s coin_lib \<Rightarrow> coin \<Rightarrow> (hash_digest \<times> u32) \<times> u64 \<times> u64 \<times> bool \<times> hash_digest" where
  "coin_facts L c = ((coin_hash c, coin_index c), coin_value c, coin_height c, coin_coinbase c, sha256 L (coin_script c))"

definition utxo_facts :: "'s coin_lib \<Rightarrow> unspent \<times> u8 list \<Rightarrow> (hash_digest \<times> u32) \<times> u64 \<times> u64 \<times> bool \<times> hash_digest" where
  "utxo_facts L u = ((uo_hash (fst u), uo_index (fst u)), uo_value (fst u), uo_height (fst u), uo_position (fst u) = 0,
     sha256 L (snd u))"

definition matching :: "'s coin_lib \<Rightarrow> (unspent \<times> u8 list) set \<Rightarrow> hash_digest set \<Rightarrow> (unspent \<times> u8 list) set" where
  "matching L utxos keys = {u \<in> utxos. nongenesis (fst u) \<and> sha256 L (snd u) \<in> keys}"

definition unspent_laws :: "'s coin_lib \<Rightarrow> 'l unspent_view \<Rightarrow> (unspent \<times> u8 list) set \<Rightarrow> bool" where
  "unspent_laws L Q utxos \<longleftrightarrow>
     inj (digest_bytes L) \<and>
     inj_on (\<lambda>u. (uo_hash (fst u), uo_index (fst u))) utxos \<and>
     (\<forall>key. \<exists>outs. get_confirmed_unspent Q key = Some outs \<and> distinct outs \<and>
        set outs = fst ` {u \<in> utxos. sha256 L (snd u) = key}) \<and>
     (\<forall>keys branch top'. ancestry Q (best_link Q) top' = Some branch \<longrightarrow>
        (\<exists>coins n. get_unspent_matches Q keys branch = Some (coins, n) \<and> distinct (map (fst \<circ> coin_facts L) coins) \<and>
           coin_facts L ` set coins = utxo_facts L ` matching L utxos keys))"

lemma coin_loop_facts:
  assumes "map (coin_facts L) cs = map (coin_facts L) ds"
  shows "coin_loop L Q t b ns cs acc = coin_loop L Q t b ns ds acc"
  using assms
proof (induction cs arbitrary: ds acc)
  case (Cons c cs)
  then obtain d ds' where ds: "ds = d # ds'" "coin_facts L c = coin_facts L d" "map (coin_facts L) cs = map (coin_facts L) ds'"
    by (auto simp: Cons_eq_map_conv)
  have "sha256 L (coin_script c) = sha256 L (coin_script d)" and same: "coin_value c = coin_value d"
    "coin_hash c = coin_hash d" "coin_index c = coin_index d" "coin_height c = coin_height d" "coin_coinbase c = coin_coinbase d"
    using ds(2) by (simp_all add: coin_facts_def)
  moreover have "coin_entry L Q t b found c = coin_entry L Q t b found d" for found
    unfolding coin_entry_def reported_height_def by (simp only: same)
  ultimately show ?case using Cons.IH [OF ds(3)] ds(1) by (simp split: option.split)
qed simp

definition facts_order :: "'s coin_lib \<Rightarrow> (hash_digest \<times> u32) \<times> u64 \<times> u64 \<times> bool \<times> hash_digest \<Rightarrow> u8 list \<times> u32" where
  "facts_order L f = (digest_bytes L (fst (fst f)), snd (fst f))"

lemma coin_order_facts: "coin_order L c = facts_order L (coin_facts L c)"
  by (simp add: coin_order_def facts_order_def coin_facts_def)

lemma coin_order_comp: "facts_order L \<circ> coin_facts L = coin_order L"
  by (simp add: fun_eq_iff coin_order_facts)

lemma sorted_coins_facts:
  assumes "inj (digest_bytes L)" "coin_facts L ` set cs = coin_facts L ` set ds"
    and "distinct (map (fst \<circ> coin_facts L) cs)" "distinct (map (fst \<circ> coin_facts L) ds)"
  shows "map (coin_facts L) (sort_key (coin_order L) cs) = map (coin_facts L) (sort_key (coin_order L) ds)"
proof -
  have inj: "inj_on (facts_order L) (coin_facts L ` set cs)"
  proof (rule inj_onI)
    fix x y assume xy: "x \<in> coin_facts L ` set cs" "y \<in> coin_facts L ` set cs" "facts_order L x = facts_order L y"
    then have "fst x = fst y" using assms(1) by (auto simp: facts_order_def prod_eq_iff dest: injD)
    then show "x = y" using xy(1,2) assms(3) by (auto simp: distinct_map inj_on_def)
  qed
  have dist: "distinct (map (coin_order L) xs)" if "distinct (map (fst \<circ> coin_facts L) xs)" for xs
    using that assms(1) by (auto simp: distinct_map inj_on_def coin_order_def coin_facts_def dest: injD)
  have "coin_order L ` set cs = coin_order L ` set ds"
    using assms(2) by (metis coin_order_facts image_cong image_image)
  then have "map (coin_order L) (sort_key (coin_order L) cs) = map (coin_order L) (sort_key (coin_order L) ds)"
    using dist [OF assms(3)] dist [OF assms(4)]
    by (intro sorted_distinct_set_unique) (auto simp: distinct_map distinct_sort)
  then have "map (facts_order L) (map (coin_facts L) (sort_key (coin_order L) cs)) =
      map (facts_order L) (map (coin_facts L) (sort_key (coin_order L) ds))"
    by (simp only: map_map coin_order_comp)
  then show ?thesis using inj assms(2) by (intro map_inj_on [of "facts_order L"]) auto
qed

lemma unspent_lawsD:
  assumes "unspent_laws L Q utxos"
  shows "inj (digest_bytes L)" "inj_on (\<lambda>u. (uo_hash (fst u), uo_index (fst u))) utxos"
    "\<exists>outs. get_confirmed_unspent Q key = Some outs \<and> distinct outs \<and> set outs = fst ` {u \<in> utxos. sha256 L (snd u) = key}"
    "ancestry Q (best_link Q) t = Some branch \<Longrightarrow> \<exists>coins n. get_unspent_matches Q keys branch = Some (coins, n) \<and>
       distinct (map (fst \<circ> coin_facts L) coins) \<and> coin_facts L ` set coins = utxo_facts L ` matching L utxos keys"
  using assms unfolding unspent_laws_def by blast+

lemma indexed_coins_facts:
  assumes "unspent_laws L Q utxos" "set outs = fst ` {u \<in> utxos. sha256 L (snd u) = sha256 L data}" "distinct outs"
  shows "coin_facts L ` set (indexed_coins data outs) = utxo_facts L ` matching L utxos {sha256 L data}"
    "distinct (map (fst \<circ> coin_facts L) (indexed_coins data outs))"
proof -
  define g where "g u = ((uo_hash u, uo_index u), uo_value u, uo_height u, uo_position u = 0, sha256 L data)" for u :: unspent
  have "coin_facts L ` set (indexed_coins data outs) = g ` {u \<in> set outs. nongenesis u}"
    by (simp add: indexed_coins_def image_image coin_facts_def g_def)
  also have "{u \<in> set outs. nongenesis u} = fst ` matching L utxos {sha256 L data}"
    using assms(2) by (force simp: matching_def)
  also have "g ` fst ` matching L utxos {sha256 L data} = utxo_facts L ` matching L utxos {sha256 L data}"
    unfolding image_image by (rule image_cong) (auto simp: g_def utxo_facts_def matching_def)
  finally show "coin_facts L ` set (indexed_coins data outs) = utxo_facts L ` matching L utxos {sha256 L data}" .
  have "inj_on (\<lambda>u. (uo_hash u, uo_index u)) (set outs)"
  proof (rule inj_onI)
    fix a b assume ab: "a \<in> set outs" "b \<in> set outs" "(uo_hash a, uo_index a) = (uo_hash b, uo_index b)"
    then obtain u v where "u \<in> utxos" "a = fst u" "v \<in> utxos" "b = fst v" using assms(2) by auto
    then show "a = b" using inj_onD [OF unspent_lawsD(2) [OF assms(1)], of u v] ab(3) by simp
  qed
  then show "distinct (map (fst \<circ> coin_facts L) (indexed_coins data outs))"
    using assms(3) by (auto simp: indexed_coins_def coin_facts_def comp_def distinct_map inj_on_def)
qed

lemma facts_of_point:
  assumes "unspent_laws L Q utxos" "x \<in> utxo_facts L ` matching L utxos A" "y \<in> utxo_facts L ` matching L utxos B" "fst x = fst y"
  shows "A \<inter> B \<noteq> {}"
proof -
  obtain u v where uv: "u \<in> matching L utxos A" "v \<in> matching L utxos B" "x = utxo_facts L u" "y = utxo_facts L v"
    using assms(2,3) by blast
  then have "u = v"
    using assms(4) unspent_lawsD(2) [OF assms(1)] by (auto simp: utxo_facts_def matching_def dest!: inj_onD)
  then show ?thesis using uv(1,2) by (auto simp: matching_def)
qed

lemma matching_union: "matching L utxos (A \<union> B) = matching L utxos A \<union> matching L utxos B"
  by (auto simp: matching_def)

abbreviation key_set :: "'s coin_lib \<Rightarrow> 's list \<Rightarrow> hash_digest set" where
  "key_set L scripts \<equiv> (\<lambda>script. sha256 L (out_data L script)) ` set scripts"

lemma indexed_loop_facts:
  assumes "unspent_laws L Q utxos"
  shows "\<exists>cs n. indexed_loop L Q keys acc scripts = Some (fst acc @ cs, n) \<and> distinct (map (fst \<circ> coin_facts L) cs) \<and>
    coin_facts L ` set cs = utxo_facts L ` matching L utxos (keys \<inter> key_set L scripts)"
proof (induction scripts arbitrary: keys acc)
  case Nil
  show ?case by (cases acc) (simp add: matching_def)
next
  case (Cons script rest)
  let ?data = "out_data L script"
  let ?key = "sha256 L ?data"
  show ?case
  proof (cases "?key \<in> keys")
    case False
    then have "keys \<inter> key_set L (script # rest) = keys \<inter> key_set L rest" by auto
    then show ?thesis using Cons.IH [of keys acc] False by (simp add: Let_def)
  next
    case True
    obtain outs where outs: "get_confirmed_unspent Q ?key = Some outs" "distinct outs"
      "set outs = fst ` {u \<in> utxos. sha256 L (snd u) = ?key}"
      using unspent_lawsD(3) [OF assms] by blast
    let ?new = "indexed_coins ?data outs"
    obtain cs n where cs: "indexed_loop L Q (keys - {?key}) (fst acc @ ?new, snd acc + of_nat (length ?new)) rest =
        Some ((fst acc @ ?new) @ cs, n)" "distinct (map (fst \<circ> coin_facts L) cs)"
      "coin_facts L ` set cs = utxo_facts L ` matching L utxos ((keys - {?key}) \<inter> key_set L rest)"
      using Cons.IH [of "keys - {?key}" "(fst acc @ ?new, snd acc + of_nat (length ?new))"] unfolding fst_conv by blast
    note new = indexed_coins_facts [OF assms outs(3,2)]
    have "distinct (map (fst \<circ> coin_facts L) (?new @ cs))"
    proof -
      have "(fst \<circ> coin_facts L) x \<noteq> (fst \<circ> coin_facts L) y" if "x \<in> set ?new" "y \<in> set cs" for x y
        using facts_of_point [OF assms, of "coin_facts L x" "{?key}" "coin_facts L y" "(keys - {?key}) \<inter> key_set L rest"]
          that new(1) cs(3) by auto
      then have "set (map (fst \<circ> coin_facts L) ?new) \<inter> set (map (fst \<circ> coin_facts L) cs) = {}" by fastforce
      then show ?thesis using new(2) cs(2) by (simp only: map_append distinct_append)
    qed
    moreover have "keys \<inter> key_set L (script # rest) = {?key} \<union> ((keys - {?key}) \<inter> key_set L rest)"
      using True by auto
    then have "coin_facts L ` set (?new @ cs) = utxo_facts L ` matching L utxos (keys \<inter> key_set L (script # rest))"
      using new(1) cs(3) by (simp only: matching_union image_Un set_append)
    moreover have "indexed_loop L Q keys acc (script # rest) = Some (fst acc @ (?new @ cs), n)"
      using cs(1) outs(1) True by (simp add: Let_def)
    ultimately show ?thesis by blast
  qed
qed

text \<open>
  C26: The address index changes nothing in the reply of scantxoutset but the number of examined outputs: the
  unspent outputs that are found through the index and by the scan of the whole set are the same, in the same order and
  with the same total amount.
\<close>

theorem scan_index_equivalent:
  assumes "unspent_laws L Q utxos" "address_enabled Q"
    and "expand_scan_objects D script_of objects [] = Some (Some scripts)"
    and "height_of_link Q (best_link Q) = Some top'" "ancestry Q (best_link Q) top' = Some branch"
    and "is_confirmed_link Q' (best_link Q)"
  shows "\<exists>indexed scanned.
    do_scan_tx_out_set D script_of L describe Q Q' objects = Some (Reply (Object indexed)) \<and>
    do_scan_tx_out_set D script_of L describe (Q\<lparr>address_enabled := False\<rparr>) Q' objects = Some (Reply (Object scanned)) \<and>
    indexed(''txouts'' := None) = scanned(''txouts'' := None)"
proof -
  obtain cs n where cs: "scan_coins L Q scripts top' = Some (cs, n)" "distinct (map (fst \<circ> coin_facts L) cs)"
    "coin_facts L ` set cs = utxo_facts L ` matching L utxos (script_keys L scripts \<inter> key_set L scripts)"
    using indexed_loop_facts [OF assms(1), of "script_keys L scripts" "([], 0)" scripts] assms(2) by (auto simp: scan_coins_def)
  obtain ds m where ds': "get_unspent_matches Q (script_keys L scripts) branch = Some (ds, m)"
    and ds: "distinct (map (fst \<circ> coin_facts L) ds)" "coin_facts L ` set ds = utxo_facts L ` matching L utxos (script_keys L scripts)"
    using unspent_lawsD(4) [OF assms(1,5), of "script_keys L scripts"] by blast
  have ds'': "scan_coins L (Q\<lparr>address_enabled := False\<rparr>) scripts top' = Some (ds, m)"
    using ds' assms(5) by (simp add: scan_coins_def)
  have "script_keys L scripts \<inter> key_set L scripts = script_keys L scripts" by (auto simp: script_keys_def)
  then have "map (coin_facts L) (sort_key (coin_order L) cs) = map (coin_facts L) (sort_key (coin_order L) ds)"
    using sorted_coins_facts [OF unspent_lawsD(1) [OF assms(1)], of cs ds] cs ds by simp
  then have "coin_loop L Q' top' b (needles L describe scripts) (sort_key (coin_order L) cs) (0, []) =
      coin_loop L Q' top' b (needles L describe scripts) (sort_key (coin_order L) ds) (0, [])" for b
    by (rule coin_loop_facts)
  then have "(scan_result L describe Q' cs scripts top' n b)(''txouts'' := None) =
      (scan_result L describe Q' ds scripts top' m b)(''txouts'' := None)" for b
    by (simp add: scan_result_def fun_upd_twist split: prod.split)
  then show ?thesis using assms cs(1) ds'' by (simp add: do_scan_tx_out_set_def)
qed

subsection \<open>A sample archive\<close>

text \<open>Three unspent outputs: that of the genesis block and two of the script 5, of which the second has the lower hash.\<close>

definition sample_derive :: "(unit, u8 list) derive_lib" where
  "sample_derive = \<lparr>parse_descriptor = (\<lambda>t. Some ()), ranged = (\<lambda>p. False), signings = (\<lambda>p i. [[5]]), scan_u32 = (\<lambda>d. None)\<rparr>"

definition sample_coin_lib :: "u8 list coin_lib" where
  "sample_coin_lib = \<lparr>sha256 = (\<lambda>d. of_nat (length d)), digest_bytes = (\<lambda>h. map (\<lambda>i. of_bool (bit h i)) [0..<256]),
     digest_text = (\<lambda>h. ''h''), text_digest = (\<lambda>t. None), to_coins = (\<lambda>v. v), integer_u64 = (\<lambda>d. None),
     subsidy_at = (\<lambda>h. 50), out_data = (\<lambda>s. s), out_unspendable = (\<lambda>s. False), out_base16 = (\<lambda>d. ''05'')\<rparr>"

definition sample_unspent :: "hash_digest \<Rightarrow> u64 \<Rightarrow> unspent" where
  "sample_unspent h height = \<lparr>uo_hash = h, uo_index = 0, uo_value = 10, uo_height = height, uo_position = 0\<rparr>"

definition sample_utxos :: "(unspent \<times> u8 list) set" where
  "sample_utxos = {(sample_unspent 1 0, [5]), (sample_unspent 3 1, [5]), (sample_unspent 2 2, [5])}"

definition sample_coin :: "hash_digest \<Rightarrow> u64 \<Rightarrow> coin" where
  "sample_coin h height = \<lparr>coin_hash = h, coin_index = 0, coin_value = 10, coin_height = height, coin_coinbase = True,
     coin_script = [5]\<rparr>"

definition sample_unspent_view :: "u64 unspent_view" where
  "sample_unspent_view = \<lparr>best_height = 2, best_link = 2, confirmed_link = (\<lambda>h. h), header_link = (\<lambda>h. 0),
     is_confirmed_link = (\<lambda>l. l \<le> 2), height_of_link = Some, key_of_link = (\<lambda>l. 1), ancestry = (\<lambda>l n. Some [2, 1]),
     address_enabled = True, fork_bip30 = False,
     get_confirmed_unspent = (\<lambda>key. Some (if key = 1 then [sample_unspent 1 0, sample_unspent 3 1, sample_unspent 2 2] else [])),
     get_unspent_matches = (\<lambda>keys branch. Some (if 1 \<in> keys then [sample_coin 2 2, sample_coin 3 1] else [], 7)),
     get_unspent_totals = (\<lambda>b. None), get_unspent_muhash = (\<lambda>b. None), get_unspent_serialized = (\<lambda>b. None),
     get_block_amounts = (\<lambda>l. None)\<rparr>"

lemma sample_unspent_laws: "unspent_laws sample_coin_lib sample_unspent_view sample_utxos"
proof -
  have inj: "inj (digest_bytes sample_coin_lib)"
  proof (rule injI)
    fix x y :: hash_digest
    assume "digest_bytes sample_coin_lib x = digest_bytes sample_coin_lib y"
    then have "bit x i = bit y i" if "i < 256" for i using that by (auto simp: sample_coin_lib_def list_eq_iff_nth_eq)
    then show "x = y" by (intro bit_word_eqI) simp
  qed
  have outs: "fst ` {u \<in> sample_utxos. sha256 sample_coin_lib (snd u) = key} =
      (if key = 1 then fst ` sample_utxos else {})" for key
    by (force simp: sample_utxos_def sample_coin_lib_def)
  have coins: "utxo_facts sample_coin_lib ` matching sample_coin_lib sample_utxos keys =
      (if 1 \<in> keys then coin_facts sample_coin_lib ` {sample_coin 2 2, sample_coin 3 1} else {})" for keys
  proof -
    have "matching sample_coin_lib sample_utxos keys =
        (if 1 \<in> keys then {(sample_unspent 2 2, [5]), (sample_unspent 3 1, [5])} else {})"
      by (auto simp: matching_def sample_utxos_def sample_unspent_def sample_coin_lib_def)
    then show ?thesis by (simp add: sample_unspent_def sample_coin_def utxo_facts_def coin_facts_def)
  qed
  show ?thesis
    unfolding unspent_laws_def
  proof (intro conjI allI impI)
    show "inj_on (\<lambda>u. (uo_hash (fst u), uo_index (fst u))) sample_utxos"
      by (simp add: sample_utxos_def sample_unspent_def inj_on_def)
    show "\<exists>outs. get_confirmed_unspent sample_unspent_view key = Some outs \<and> distinct outs \<and>
        set outs = fst ` {u \<in> sample_utxos. sha256 sample_coin_lib (snd u) = key}" for key
      unfolding outs by (auto simp: sample_unspent_view_def sample_utxos_def sample_unspent_def)
    show "\<exists>coins n. get_unspent_matches sample_unspent_view keys branch = Some (coins, n) \<and>
        distinct (map (fst \<circ> coin_facts sample_coin_lib) coins) \<and>
        coin_facts sample_coin_lib ` set coins = utxo_facts sample_coin_lib ` matching sample_coin_lib sample_utxos keys"
      for keys and branch :: "u64 list"
      unfolding coins by (cases "1 \<in> keys")
        (simp_all add: sample_unspent_view_def, simp add: coin_facts_def sample_coin_def)
  qed (fact inj)
qed

lemma sample_expand: "expand_scan_objects sample_derive (\<lambda>g. g) [String ''pk''] [] = Some (Some [[5]])"
proof -
  have "signing_loop (\<lambda>i. [[5]]) 0 0 [] = Some (Some [[5 :: u8]])"
    using signing_loop_runs [of 0 1 0 "\<lambda>i. [[5 :: u8]]" "[]"] by simp
  then show ?thesis
    by (simp add: expand_scan_object_def expand_scan_signings_def scan_fields_def sample_derive_def default_range_def
        maximum_range_def bit_numeral_rec)
qed

theorem scan_index_equivalent_witness:
  "\<exists>indexed scanned.
    do_scan_tx_out_set sample_derive (\<lambda>g. g) sample_coin_lib (\<lambda>s. ''d'') sample_unspent_view sample_unspent_view [String ''pk''] =
      Some (Reply (Object indexed)) \<and>
    do_scan_tx_out_set sample_derive (\<lambda>g. g) sample_coin_lib (\<lambda>s. ''d'') (sample_unspent_view\<lparr>address_enabled := False\<rparr>)
      sample_unspent_view [String ''pk''] = Some (Reply (Object scanned)) \<and>
    indexed(''txouts'' := None) = scanned(''txouts'' := None)"
  by (rule scan_index_equivalent [OF sample_unspent_laws _ sample_expand, where top' = 2 and branch = "[2, 1]"])
    (simp_all add: sample_unspent_view_def)

theorem scan_object_expands_witness:
  "\<exists>result. expand_scan_signings sample_derive (String ''pk'') [] = Some result"
  using scan_object_expands [of sample_derive "String ''pk''"] by blast

end
