(* ===== verification/Doubles.thy ===== *)
theory Doubles
  imports Prelude Complex_Main "HOL-Library.Log_Nat"
begin

text \<open>
  The floating point arithmetic of the program's language: values of doubles are rational numbers, and
  an operation rounds its exact result to the nearest value with a significand of 53 bits, ties to even, as
  IEEE 754 does. A double that is passed around is its bit pattern, of which \<open>double_times\<close> gives the
  product.
\<close>

subsection \<open>Rounding\<close>

definition round_even :: "rat \<Rightarrow> int" where
  "round_even x =
     (let low = \<lfloor>x\<rfloor>; part = x - of_int low in
      if part < 1 / 2 \<or> part = 1 / 2 \<and> even low then low else low + 1)"

text \<open>The exponent of a positive number: the greatest power of two that is not above it.\<close>

definition rat_exponent :: "rat \<Rightarrow> int" where
  "rat_exponent x =
     (let (n, d) = quotient_of x;
          e = int (floorlog 2 (nat n)) - int (floorlog 2 (nat d)) in
      if 2 powi e \<le> x then e else e - 1)"

text \<open>The exponent of the last place, which is bounded below for subnormal numbers.\<close>

definition last_place :: "rat \<Rightarrow> int" where
  "last_place x = max (- 1074) (rat_exponent x - 52)"

text \<open>The value of a non negative result below the overflow of the exponent.\<close>

definition to_double :: "rat \<Rightarrow> rat" where
  "to_double x =
     (if x = 0 then 0 else of_int (round_even (x / 2 powi last_place x)) * 2 powi last_place x)"

subsection \<open>Bit patterns\<close>

definition exponent_bits :: "double \<Rightarrow> nat" where
  "exponent_bits w = unat (take_bit 11 (drop_bit 52 w))"

definition fraction_bits :: "double \<Rightarrow> nat" where
  "fraction_bits w = unat (take_bit 52 w)"

definition is_nan :: "double \<Rightarrow> bool" where
  "is_nan w \<longleftrightarrow> exponent_bits w = 2047 \<and> fraction_bits w \<noteq> 0"

definition is_infinite :: "double \<Rightarrow> bool" where
  "is_infinite w \<longleftrightarrow> exponent_bits w = 2047 \<and> fraction_bits w = 0"

definition magnitude :: "double \<Rightarrow> rat" where
  "magnitude w =
     (if exponent_bits w = 0 then of_nat (fraction_bits w) * 2 powi (- 1074)
      else of_nat (2 ^ 52 + fraction_bits w) * 2 powi (int (exponent_bits w) - 1075))"

definition infinity_bits :: nat where
  "infinity_bits = 2047 * 2 ^ 52"

text \<open>
  The bits of a magnitude. The significand is added to the exponent field so that its leading bit counts
  one there, and a subnormal number has none.
\<close>

definition magnitude_bits :: "rat \<Rightarrow> nat" where
  "magnitude_bits x =
     (if x = 0 then 0
      else min infinity_bits
        (nat ((last_place x + 1074) * 2 ^ 52 + round_even (x / 2 powi last_place x))))"

text \<open>The conversion of an unsigned integer.\<close>

definition double_of :: "u64 \<Rightarrow> double" where
  "double_of n = of_nat (magnitude_bits (of_nat (unat n)))"

definition nan_double :: double where
  "nan_double = 0x7ff8000000000000"

definition double_times :: "double \<Rightarrow> double \<Rightarrow> double" where
  "double_times v w =
     (if is_nan v \<or> is_nan w \<or> is_infinite v \<and> magnitude w = 0 \<or> magnitude v = 0 \<and> is_infinite w
      then nan_double
      else
        (if bit v 63 = bit w 63 then 0 else 2 ^ 63) +
        of_nat (if is_infinite v \<or> is_infinite w then infinity_bits
                else magnitude_bits (magnitude v * magnitude w)))"

subsection \<open>Exact and near results\<close>

lemma round_even_int [simp]: "round_even (of_int n) = n"
  by (simp add: round_even_def)

lemma round_even_near: "\<bar>of_int (round_even x) - x\<bar> \<le> 1 / 2"
proof (cases "round_even x = \<lfloor>x\<rfloor>")
  case True
  then have "x - of_int \<lfloor>x\<rfloor> \<le> 1 / 2" by (auto simp: round_even_def Let_def split: if_splits)
  then show ?thesis using True floor_correct [of x] by (simp only: abs_le_iff) linarith
next
  case False
  then have "round_even x = \<lfloor>x\<rfloor> + 1" "\<not> x - of_int \<lfloor>x\<rfloor> < 1 / 2"
    by (auto simp: round_even_def Let_def split: if_splits)
  then show ?thesis using floor_correct [of x] by (simp only: abs_le_iff of_int_add of_int_1) linarith
qed

lemma floorlog_rat:
  assumes "0 < n"
  shows "2 powi (int (floorlog 2 n) - 1) \<le> (of_nat n :: rat)" "(of_nat n :: rat) < 2 powi int (floorlog 2 n)"
proof -
  have "1 \<le> floorlog 2 n" using assms by (simp add: floorlog_def)
  then obtain k where k: "floorlog 2 n = Suc k" by (cases "floorlog 2 n") auto
  have "2 ^ k \<le> n" "n < 2 ^ Suc k" using floorlog_bounds [of n 2] assms k by auto
  then have "of_nat (2 ^ k) \<le> (of_nat n :: rat)" "(of_nat n :: rat) < of_nat (2 ^ Suc k)"
    by (simp_all only: of_nat_le_iff of_nat_less_iff)
  moreover have "int (floorlog 2 n) - 1 = int k" "int (floorlog 2 n) = int (Suc k)" using k by simp_all
  ultimately show "2 powi (int (floorlog 2 n) - 1) \<le> (of_nat n :: rat)"
    "(of_nat n :: rat) < 2 powi int (floorlog 2 n)"
    by (simp_all only: power_int_of_nat of_nat_power of_nat_numeral)
qed

lemma rat_exponent_bounds:
  assumes "0 < x"
  shows "2 powi rat_exponent x \<le> x \<and> x < 2 powi (rat_exponent x + 1)"
proof -
  obtain n d where q: "quotient_of x = (n, d)" by (cases "quotient_of x")
  then have d: "0 < d" and x: "x = of_int n / of_int d"
    using quotient_of_denom_pos quotient_of_div by auto
  then have n: "0 < n" using assms by (simp add: zero_less_divide_iff)
  let ?a = "int (floorlog 2 (nat n))" and ?b = "int (floorlog 2 (nat d))"
  have N: "2 powi (?a - 1) \<le> (of_int n :: rat)" "(of_int n :: rat) < 2 powi ?a"
    and D: "2 powi (?b - 1) \<le> (of_int d :: rat)" "(of_int d :: rat) < 2 powi ?b"
    using floorlog_rat [of "nat n"] floorlog_rat [of "nat d"] n d by simp_all
  have split: "(2 :: rat) powi (?a - ?b - 1) = 2 powi (?a - 1) / 2 powi ?b"
    "(2 :: rat) powi (?a - ?b + 1) = 2 powi ?a / 2 powi (?b - 1)"
    by (simp_all add: power_int_diff power_int_add field_simps)
  have "2 powi (?a - ?b - 1) \<le> x"
    unfolding split x using N D d n by (intro frac_le) auto
  moreover have "x < 2 powi (?a - ?b + 1)"
    unfolding split x using N D d n by (intro frac_less) auto
  ultimately show ?thesis by (simp add: rat_exponent_def q Let_def)
qed

lemma rat_exponent_less:
  assumes "0 < x" "x < 2 ^ k"
  shows "rat_exponent x < int k"
proof (rule ccontr)
  assume "\<not> rat_exponent x < int k"
  then have "(2 :: rat) powi int k \<le> 2 powi rat_exponent x" by (intro power_int_increasing) auto
  then show False using rat_exponent_bounds [OF assms(1)] assms(2) by simp
qed

text \<open>Integers of 53 bits are exact.\<close>

lemma to_double_exact:
  assumes "n < 2 ^ 53"
  shows "to_double (of_nat n) = of_nat n"
proof (cases "n = 0")
  case False
  define e where "e = last_place (of_nat n)"
  have "of_nat n < (of_nat (2 ^ 53) :: rat)" using assms by (simp only: of_nat_less_iff)
  then have "of_nat n < (2 ^ 53 :: rat)" by (simp only: of_nat_power of_nat_numeral)
  then have "rat_exponent (of_nat n) < int 53" using False by (intro rat_exponent_less) simp_all
  then have "e \<le> 0" by (simp add: e_def last_place_def)
  then obtain k where "e = - int k" by (metis nonneg_int_cases neg_0_le_iff_le minus_minus)
  then have "(of_nat n :: rat) / 2 powi e = of_int (int n * 2 ^ k)"
    by (simp add: power_int_minus divide_inverse)
  then have "of_int (round_even ((of_nat n :: rat) / 2 powi e)) = (of_nat n :: rat) / 2 powi e"
    by (simp only: round_even_int)
  then show ?thesis using False by (simp add: to_double_def e_def)
qed (simp add: to_double_def)

text \<open>A result below \<open>2 ^ 50\<close> is within a sixteenth of the exact one.\<close>

lemma to_double_near:
  assumes "0 < x" "x < 2 ^ 50"
  shows "\<bar>to_double x - x\<bar> \<le> 1 / 16"
proof -
  define u :: rat where "u = 2 powi last_place x"
  have u: "0 < u" by (simp add: u_def)
  have "last_place x \<le> - 3" using rat_exponent_less [OF assms] by (simp add: last_place_def)
  then have "u \<le> 2 powi (- 3)" unfolding u_def by (intro power_int_increasing) auto
  then have small: "u \<le> 1 / 8" by (simp add: power_int_minus)
  have "\<bar>to_double x - x\<bar> = \<bar>of_int (round_even (x / u)) - x / u\<bar> * u"
  proof -
    have "to_double x - x = (of_int (round_even (x / u)) - x / u) * u"
      using assms(1) u by (simp add: to_double_def left_diff_distrib flip: u_def)
    then show ?thesis using u by (simp add: abs_mult)
  qed
  also have "\<dots> \<le> 1 / 2 * (1 / 8)"
    using round_even_near [of "x / u"] small u by (intro mult_mono) auto
  finally show ?thesis by simp
qed

text \<open>
  A rounded quotient with a small divisor compares with an integer as the exact one: it is that
  integer, or it is at least a tenth away from it.
\<close>

lemma to_double_quotient_le:
  assumes "0 < q" "q \<le> 10" "n < q * 2 ^ 50"
  shows "to_double (of_nat n / of_nat q) \<le> of_nat c \<longleftrightarrow> n \<le> q * c"
proof (cases "n = 0")
  case False
  let ?x = "of_nat n / of_nat q :: rat"
  have "(of_nat n :: rat) < of_nat (q * 2 ^ 50)" using assms(3) by (simp only: of_nat_less_iff)
  then have x: "0 < ?x" "?x < 2 ^ 50" using assms(1) False by (simp_all add: field_simps)
  have near: "\<bar>to_double ?x - ?x\<bar> \<le> 1 / 16" by (rule to_double_near [OF x])
  consider "n = q * c" | "n + 1 \<le> q * c" | "q * c + 1 \<le> n" by linarith
  then show ?thesis
  proof cases
    case 1
    then have "c < 2 ^ 53" using assms by simp
    then show ?thesis using 1 assms(1) to_double_exact [of c] by simp
  next
    case 2
    then have "(of_nat n + 1 :: rat) \<le> of_nat q * of_nat c" by (simp flip: of_nat_mult of_nat_Suc)
    then have "(of_nat n + 1) / of_nat q \<le> (of_nat q * of_nat c / of_nat q :: rat)" by (rule divide_right_mono) simp
    then have "?x + 1 / of_nat q \<le> of_nat c" using assms(1) by (simp add: add_divide_distrib)
    moreover have "1 / 10 \<le> (1 / of_nat q :: rat)" using assms(1,2) by (simp add: field_simps)
    ultimately have "to_double ?x \<le> of_nat c" using near by linarith
    then show ?thesis using 2 by simp
  next
    case 3
    then have "of_nat q * of_nat c + 1 \<le> (of_nat n :: rat)" by (simp flip: of_nat_mult of_nat_Suc)
    then have "(of_nat q * of_nat c + 1) / of_nat q \<le> ?x" by (rule divide_right_mono) simp
    then have "of_nat c + 1 / of_nat q \<le> ?x" using assms(1) by (simp add: add_divide_distrib)
    moreover have "1 / 10 \<le> (1 / of_nat q :: rat)" using assms(1,2) by (simp add: field_simps)
    ultimately have "\<not> to_double ?x \<le> of_nat c" using near by linarith
    then show ?thesis using 3 by simp
  qed
qed (simp add: to_double_def)

end
