(* ===== verification/Block_Stats.thy ===== *)
theory Block_Stats
  imports Rpc_Model Doubles "HOL-Library.Product_Lexorder" "HOL-Library.Multiset"
begin

text \<open>
  The statistics of a block, \<open>serializers/bitcoind_block_stats.cpp\<close>: one pass over the transactions with 64 bit
  counters, medians, and fee rate percentiles weighted by transaction weight. The properties of a transaction that
  the system library computes are the fields of \<open>stat_tx\<close>. The percentile cuts are doubles, computed and
  compared with the rounding of \<open>Doubles\<close>.
\<close>

subsection \<open>Data\<close>

record stat_output =
  out_value :: u64
  unspendable :: bool

text \<open>The inputs of a transaction are the values of their previous outputs.\<close>

record stat_tx =
  tx_outs :: "stat_output list"
  tx_ins :: "u64 list"
  tx_coinbase :: bool
  tx_size :: u64
  tx_weight :: u64
  tx_segregated :: bool

record stat_block =
  block_txs :: "stat_tx list"
  block_text :: string
  block_time :: u32

record stat_lib =
  light_weight_factor :: u64
  delta :: "u64 \<Rightarrow> u64 \<Rightarrow> u64"

text \<open>The counters of the pass.\<close>

record stat_totals =
  total_output :: u64
  total_fee :: u64
  max_fee :: u64
  max_fee_rate :: u64
  min_fee :: u64
  min_fee_rate :: u64
  inputs :: u64
  outputs :: u64
  utxos :: u64
  max_tx_size :: u64
  min_tx_size :: u64
  total_size :: u64
  total_weight :: u64
  witness_txs :: u64
  witness_size :: u64
  witness_weight :: u64
  fees :: "u64 list"
  sizes :: "u64 list"
  rates :: "(u64 \<times> u64) list"

abbreviation max_uint64 :: u64 where
  "max_uint64 \<equiv> - 1"

definition no_totals :: stat_totals where
  "no_totals = \<lparr>total_output = 0, total_fee = 0, max_fee = 0, max_fee_rate = 0, min_fee = max_uint64,
     min_fee_rate = max_uint64, inputs = 0, outputs = 0, utxos = 0, max_tx_size = 0, min_tx_size = max_uint64,
     total_size = 0, total_weight = 0, witness_txs = 0, witness_size = 0, witness_weight = 0,
     fees = [], sizes = [], rates = []\<rparr>"

subsection \<open>Medians and percentiles\<close>

definition truncated_median :: "u64 list \<Rightarrow> u64" where
  "truncated_median values =
     (if values = [] then 0
      else
        let sorted' = sort values;
            middle = length values div 2 in
        if even (length values) then (sorted' ! (middle - 1) + sorted' ! middle) div 2
        else sorted' ! middle)"

text \<open>The total is converted to a double, and each operation on it rounds.\<close>

definition cuts :: "u64 \<Rightarrow> rat list" where
  "cuts total' =
     (let w = to_double (of_nat (unat total')) in
      [to_double (w / 10), to_double (w / 4), to_double (w / 2),
       to_double (to_double (3 * w) / 4), to_double (to_double (9 * w) / 10)])"

text \<open>The comparison \<open>cumulative >= cuts.at(next)\<close>.\<close>

definition reached :: "rat list \<Rightarrow> u64 \<Rightarrow> nat \<Rightarrow> bool" where
  "reached cs cumulative next' \<longleftrightarrow> to_double (of_nat (unat cumulative)) \<ge> cs ! next'"

text \<open>The inner loop assigns the rate to every further cut that the weight reaches.\<close>

function fill_cuts :: "rat list \<Rightarrow> u64 \<Rightarrow> u64 \<Rightarrow> nat \<times> u64 list \<Rightarrow> nat \<times> u64 list" where
  "fill_cuts cs cumulative rate (next', out) =
     (if next' < length cs \<and> reached cs cumulative next'
      then fill_cuts cs cumulative rate (next' + 1, out[next' := rate])
      else (next', out))"
  by pat_completeness auto
termination by (relation "measure (\<lambda>(cs, _, _, next', _). length cs - next')") auto

fun rate_loop :: "rat list \<Rightarrow> u64 \<Rightarrow> nat \<times> u64 list \<Rightarrow> (u64 \<times> u64) list \<Rightarrow> nat \<times> u64 list" where
  "rate_loop cs cumulative st [] = st"
| "rate_loop cs cumulative st ((rate, weight) # rest) =
     rate_loop cs (cumulative + weight) (fill_cuts cs (cumulative + weight) rate st) rest"

text \<open>Cuts that no weight reached take the greatest rate.\<close>

function fill_rest :: "rat list \<Rightarrow> u64 \<Rightarrow> nat \<times> u64 list \<Rightarrow> u64 list" where
  "fill_rest cs rate (next', out) =
     (if next' < length cs then fill_rest cs rate (next' + 1, out[next' := rate]) else out)"
  by pat_completeness auto
termination by (relation "measure (\<lambda>(cs, _, next', _). length cs - next')") auto

definition fee_rate_percentiles :: "(u64 \<times> u64) list \<Rightarrow> u64 \<Rightarrow> u64 list" where
  "fee_rate_percentiles rates' total' =
     (if rates' = [] then replicate 5 0
      else
        let sorted' = sort rates';
            cs = cuts total' in
        fill_rest cs (fst (last sorted')) (rate_loop cs 0 (0, replicate 5 0) sorted'))"

subsection \<open>The pass\<close>

text \<open>The total of the outputs of a transaction, and the counted outputs.\<close>

fun output_loop :: "u64 \<Rightarrow> u64 \<Rightarrow> u64 \<Rightarrow> stat_output list \<Rightarrow> u64 \<times> u64" where
  "output_loop height total' utxos' [] = (total', utxos')"
| "output_loop height total' utxos' (out # rest) =
     output_loop height (total' + out_value out)
       (if height = 0 \<or> unspendable out then utxos' else utxos' + 1) rest"

definition stat_fee :: "stat_tx \<Rightarrow> u64" where
  "stat_fee tx =
     (let input = foldl (+) 0 (tx_ins tx);
          output = foldl (\<lambda>n out. n + out_value out) 0 (tx_outs tx) in
      if input < output then 0 else input - output)"

definition stat_rate :: "stat_lib \<Rightarrow> stat_tx \<Rightarrow> u64" where
  "stat_rate L tx = (if tx_weight tx = 0 then 0 else (light_weight_factor L * stat_fee tx) div tx_weight tx)"

definition stat_step :: "stat_lib \<Rightarrow> u64 \<Rightarrow> stat_totals \<Rightarrow> stat_tx \<Rightarrow> stat_totals" where
  "stat_step L height s tx =
     (let (total', utxos') = output_loop height 0 (utxos s) (tx_outs tx);
          s = s\<lparr>utxos := utxos', outputs := outputs s + of_nat (length (tx_outs tx))\<rparr> in
      if tx_coinbase tx then s
      else
        let s = s\<lparr>inputs := inputs s + of_nat (length (tx_ins tx)), total_output := total_output s + total',
              max_tx_size := max (max_tx_size s) (tx_size tx), min_tx_size := min (min_tx_size s) (tx_size tx),
              sizes := sizes s @ [tx_size tx], total_size := total_size s + tx_size tx,
              total_weight := total_weight s + tx_weight tx\<rparr>;
            s = (if tx_segregated tx
              then s\<lparr>witness_txs := witness_txs s + 1, witness_size := witness_size s + tx_size tx,
                     witness_weight := witness_weight s + tx_weight tx\<rparr>
              else s);
            fee = stat_fee tx;
            rate = stat_rate L tx in
        s\<lparr>fees := fees s @ [fee], max_fee := max (max_fee s) fee, min_fee := min (min_fee s) fee,
          total_fee := total_fee s + fee, rates := rates s @ [(rate, tx_weight tx)],
          max_fee_rate := max (max_fee_rate s) rate, min_fee_rate := min (min_fee_rate s) rate\<rparr>)"

definition block_stats :: "stat_lib \<Rightarrow> stat_block \<Rightarrow> u64 \<Rightarrow> u32 \<Rightarrow> u64 \<Rightarrow> object_t" where
  "block_stats L block height median_time subsidy =
     (let txs = block_txs block;
          s = foldl (stat_step L height) no_totals txs;
          percentiles = fee_rate_percentiles (rates s) (total_weight s);
          paying = of_nat (length txs) - 1 in
      [''avgfee'' \<mapsto> U64 (if paying = 0 then 0 else total_fee s div paying),
       ''avgfeerate'' \<mapsto> U64 (if total_weight s = 0 then 0 else (light_weight_factor L * total_fee s) div total_weight s),
       ''avgtxsize'' \<mapsto> U64 (if paying = 0 then 0 else total_size s div paying),
       ''blockhash'' \<mapsto> String (block_text block),
       ''feerate_percentiles'' \<mapsto> Array (map U64 percentiles),
       ''height'' \<mapsto> U64 height,
       ''ins'' \<mapsto> U64 (inputs s),
       ''maxfee'' \<mapsto> U64 (max_fee s),
       ''maxfeerate'' \<mapsto> U64 (max_fee_rate s),
       ''maxtxsize'' \<mapsto> U64 (max_tx_size s),
       ''medianfee'' \<mapsto> U64 (truncated_median (fees s)),
       ''mediantime'' \<mapsto> U32 median_time,
       ''mediantxsize'' \<mapsto> U64 (truncated_median (sizes s)),
       ''minfee'' \<mapsto> U64 (if min_fee s = max_uint64 then 0 else min_fee s),
       ''minfeerate'' \<mapsto> U64 (if min_fee_rate s = max_uint64 then 0 else min_fee_rate s),
       ''mintxsize'' \<mapsto> U64 (if min_tx_size s = max_uint64 then 0 else min_tx_size s),
       ''outs'' \<mapsto> U64 (outputs s),
       ''subsidy'' \<mapsto> U64 subsidy,
       ''swtotal_size'' \<mapsto> U64 (witness_size s),
       ''swtotal_weight'' \<mapsto> U64 (witness_weight s),
       ''swtxs'' \<mapsto> U64 (witness_txs s),
       ''time'' \<mapsto> U32 (block_time block),
       ''total_out'' \<mapsto> U64 (total_output s),
       ''total_size'' \<mapsto> U64 (total_size s),
       ''total_weight'' \<mapsto> U64 (total_weight s),
       ''totalfee'' \<mapsto> U64 (total_fee s),
       ''txs'' \<mapsto> U64 (of_nat (length txs)),
       ''utxo_increase'' \<mapsto> I64 (delta L (outputs s) (inputs s)),
       ''utxo_increase_actual'' \<mapsto> I64 (delta L (utxos s) (inputs s))])"

subsection \<open>Percentiles\<close>

declare fill_cuts.simps [simp del] fill_rest.simps [simp del]

definition cut_share :: "nat \<Rightarrow> nat \<times> nat" where
  "cut_share k = [(1, 10), (1, 4), (1, 2), (3, 4), (9, 10)] ! k"

text \<open>The least rate up to which the weight reaches a cut.\<close>

definition weight_upto :: "(u64 \<times> u64) list \<Rightarrow> u64 \<Rightarrow> nat" where
  "weight_upto rs r = sum_list (map (\<lambda>e. unat (snd e)) (filter (\<lambda>e. fst e \<le> r) rs))"

definition is_percentile :: "(u64 \<times> u64) list \<Rightarrow> nat \<Rightarrow> u64 \<Rightarrow> bool" where
  "is_percentile rs k r \<longleftrightarrow>
     (let total' = sum_list (map (\<lambda>e. unat (snd e)) rs) in
      r \<in> fst ` set rs \<and> fst (cut_share k) * total' \<le> snd (cut_share k) * weight_upto rs r \<and>
      (\<forall>r' < r. snd (cut_share k) * weight_upto rs r' < fst (cut_share k) * total'))"

text \<open>Cut \<open>k\<close> of a total weight is reached by a weight.\<close>

definition share_reached :: "nat \<Rightarrow> nat \<Rightarrow> nat \<Rightarrow> bool" where
  "share_reached t k c \<longleftrightarrow> fst (cut_share k) * t \<le> snd (cut_share k) * c"

lemma cut_index: "k < 5 \<Longrightarrow> k = 0 \<or> k = 1 \<or> k = 2 \<or> k = 3 \<or> k = (4 :: nat)"
  by arith

lemma share_reached_all: "k < 5 \<Longrightarrow> share_reached t k t"
  by (drule cut_index) (auto simp: share_reached_def cut_share_def)

lemma share_not_reached: "0 < t \<Longrightarrow> \<not> share_reached t 0 0"
  by (simp add: share_reached_def cut_share_def)

lemma share_reached_antitone: "share_reached t k c \<Longrightarrow> j \<le> k \<Longrightarrow> k < 5 \<Longrightarrow> share_reached t j c"
  using cut_index [of k] cut_index [of j] by (auto simp: share_reached_def cut_share_def)

lemma share_reached_mono: "share_reached t k c \<Longrightarrow> c \<le> d \<Longrightarrow> share_reached t k d"
  unfolding share_reached_def by (meson le_trans mult_le_mono2)

text \<open>
  Comparisons of a weight with a cut are exact while nine times the total is an exact double; the
  weight of a block is far below.
\<close>

lemma length_cuts [simp]: "length (cuts t) = 5"
  by (simp add: cuts_def Let_def)

lemma to_double_multiple: "m * n < 2 ^ 53 \<Longrightarrow> to_double (of_nat m * of_nat n) = of_nat (m * n)"
  using to_double_exact [of "m * n"] by simp

lemma reached_share:
  assumes "9 * unat t < 2 ^ 53" "k < 5" "c \<le> t"
  shows "reached (cuts t) c k \<longleftrightarrow> share_reached (unat t) k (unat c)"
proof -
  have c: "unat c \<le> unat t" using assms(3) by (simp add: word_le_nat_alt)
  have "to_double (of_nat (unat t)) = of_nat (unat t)" "to_double (of_nat (unat c)) = of_nat (unat c)"
    using assms(1) c by - (rule to_double_exact, linarith)+
  moreover have "to_double (3 * of_nat (unat t)) = of_nat (3 * unat t)"
    "to_double (9 * of_nat (unat t)) = of_nat (9 * unat t)"
    using to_double_multiple [of 3 "unat t"] to_double_multiple [of 9 "unat t"] assms(1) by (simp_all del: of_nat_unat)
  ultimately have "cuts t = [to_double (of_nat (unat t) / of_nat 10), to_double (of_nat (unat t) / of_nat 4),
      to_double (of_nat (unat t) / of_nat 2), to_double (of_nat (3 * unat t) / of_nat 4),
      to_double (of_nat (9 * unat t) / of_nat 10)]"
    and "reached (cuts t) c k \<longleftrightarrow> cuts t ! k \<le> of_nat (unat c)"
    by (simp_all only: cuts_def Let_def reached_def of_nat_numeral)
  then show ?thesis using cut_index [OF assms(2)] assms(1)
    by (auto simp: share_reached_def cut_share_def to_double_quotient_le simp del: of_nat_numeral of_nat_mult of_nat_unat)
qed

lemma fill_cuts_spec:
  assumes "fill_cuts cs c r (n, out) = (n', out')" "length cs = 5" "n \<le> 5" "length out = 5"
  shows "n \<le> n' \<and> n' \<le> 5 \<and> length out' = 5 \<and> (\<forall>k < n. out' ! k = out ! k) \<and>
    (\<forall>k. n \<le> k \<and> k < n' \<longrightarrow> reached cs c k \<and> out' ! k = r) \<and> (n' < 5 \<longrightarrow> \<not> reached cs c n')"
  using assms
proof (induction "5 - n" arbitrary: n out)
  case 0
  then show ?case by (auto simp: fill_cuts.simps [of cs c r 5])
next
  case (Suc m)
  show ?case
  proof (cases "n < 5 \<and> reached cs c n")
    case True
    then have "fill_cuts cs c r (n + 1, out[n := r]) = (n', out')"
      using Suc.prems(1,2) by (simp add: fill_cuts.simps [of cs c r n])
    then have *: "n + 1 \<le> n' \<and> n' \<le> 5 \<and> length out' = 5 \<and> (\<forall>k < n + 1. out' ! k = out[n := r] ! k) \<and>
        (\<forall>k. n + 1 \<le> k \<and> k < n' \<longrightarrow> reached cs c k \<and> out' ! k = r) \<and> (n' < 5 \<longrightarrow> \<not> reached cs c n')"
      using True Suc by (intro Suc.hyps(1)) auto
    have "reached cs c k \<and> out' ! k = r" if "n \<le> k" "k < n'" for k
      using * True Suc.prems(4) that by (cases "k = n") auto
    then show ?thesis using * by auto
  next
    case False
    then have "n' = n \<and> out' = out"
      using Suc.prems(1,2) by (auto simp: fill_cuts.simps [of cs c r n] split: if_splits)
    then show ?thesis using False Suc.prems by auto
  qed
qed

abbreviation weights :: "(u64 \<times> u64) list \<Rightarrow> nat" where
  "weights rs \<equiv> sum_list (map (\<lambda>e. unat (snd e)) rs)"

text \<open>The rate at which the weight of a list first reaches a cut.\<close>

definition crosses :: "(u64 \<times> u64) list \<Rightarrow> nat \<Rightarrow> u64 \<Rightarrow> bool" where
  "crosses rs k r \<longleftrightarrow> (\<exists>ps e qs. rs = ps @ e # qs \<and> r = fst e \<and>
     share_reached (weights rs) k (weights (ps @ [e])) \<and> \<not> share_reached (weights rs) k (weights ps))"

lemma crosses_percentile:
  assumes "crosses rs k r" "sorted (map fst rs)"
  shows "is_percentile rs k r"
proof -
  obtain ps e qs where rs: "rs = ps @ e # qs" "r = fst e"
    and c: "share_reached (weights rs) k (weights (ps @ [e]))" "\<not> share_reached (weights rs) k (weights ps)"
    using assms(1) unfolding crosses_def by blast
  have low: "fst d \<le> r" if "d \<in> set ps" for d using assms(2) rs that by (auto simp: sorted_append)
  have high: "r \<le> fst d" if "d \<in> set (e # qs)" for d using assms(2) rs that by (auto simp: sorted_append)
  have "filter (\<lambda>d. fst d \<le> r) rs = ps @ [e] @ filter (\<lambda>d. fst d \<le> r) qs"
    using low rs by (simp add: filter_True)
  then have "weights (ps @ [e]) \<le> weight_upto rs r" by (simp add: weight_upto_def)
  then have "share_reached (weights rs) k (weight_upto rs r)" using c(1) share_reached_mono by blast
  moreover have "\<not> share_reached (weights rs) k (weight_upto rs r')" if "r' < r" for r'
  proof -
    have "filter (\<lambda>d. fst d \<le> r') (e # qs) = []"
      using high that by (meson filter_False leD le_less_trans)
    then have "weight_upto rs r' = weights (filter (\<lambda>d. fst d \<le> r') ps)"
      using rs by (simp add: weight_upto_def)
    also have "\<dots> \<le> weights ps" by (rule sum_list_filter_le_nat [of "\<lambda>d. unat (snd d)" "\<lambda>d. fst d \<le> r'" ps])
    finally show ?thesis using c(2) share_reached_mono by blast
  qed
  ultimately show ?thesis
    unfolding is_percentile_def Let_def share_reached_def not_le using rs(1,2) by simp
qed

lemma rate_loop_crosses:
  assumes "\<And>c k. k < 5 \<Longrightarrow> unat c \<le> weights rs \<Longrightarrow> reached cs c k \<longleftrightarrow> share_reached (weights rs) k (unat c)"
    and "weights rs < 2 ^ 64" and "rs = ps @ qs" and "unat c = weights ps"
    and "length out = 5" "n \<le> 5" "\<forall>k < n. crosses rs k (out ! k)" "n < 5 \<longrightarrow> \<not> share_reached (weights rs) n (weights ps)"
    and "length cs = 5" and "rate_loop cs c (n, out) qs = (n', out')"
  shows "length out' = 5 \<and> n' = 5 \<and> (\<forall>k < 5. crosses rs k (out' ! k))"
  using assms
proof (induction qs arbitrary: ps c n out)
  case Nil
  then have "n = 5" using share_reached_all [of n "weights rs"] by (cases "n < 5") auto
  then show ?case using Nil by auto
next
  case (Cons e qs)
  obtain r w where e: "e = (r, w)" by (cases e)
  obtain m out1 where f: "fill_cuts cs (c + w) r (n, out) = (m, out1)"
    by (cases "fill_cuts cs (c + w) r (n, out)")
  have sum: "weights rs = weights ps + unat w + weights qs" using Cons.prems(3) e by simp
  then have "unat c + unat w < 2 ^ 64" using Cons.prems(2,4) by linarith
  then have cw: "unat (c + w) = weights (ps @ [e])" using Cons.prems(4) e by (simp add: unat_word_ariths)
  note spec = fill_cuts_spec [OF f Cons.prems(9,6,5)]
  have reach: "reached cs (c + w) k \<longleftrightarrow> share_reached (weights rs) k (weights (ps @ [e]))" if "k < 5" for k
    using Cons.prems(1) [OF that, of "c + w"] cw sum e by simp
  have "crosses rs k (out1 ! k)" if "k < m" for k
  proof (cases "k < n")
    case False
    then have k: "reached cs (c + w) k" "out1 ! k = r" "k < 5" using spec that by auto
    have "\<not> share_reached (weights rs) k (weights ps)"
      using Cons.prems(8) False k(3) share_reached_antitone [of "weights rs" k "weights ps" n] by auto
    then show ?thesis using k reach Cons.prems(3) e unfolding crosses_def by auto
  qed (use spec Cons.prems(7) in auto)
  moreover have "m < 5 \<longrightarrow> \<not> share_reached (weights rs) m (weights (ps @ [e]))" using spec reach by auto
  moreover have "rate_loop cs (c + w) (m, out1) qs = (n', out')" using Cons.prems(10) e f by simp
  ultimately show ?case
    using Cons.IH [of "ps @ [e]" "c + w" out1 m] Cons.prems(1,2,3,9) spec cw by auto
qed

lemma weights_sort: "weights (sort rs) = weights rs"
proof -
  have "sum_mset (mset (map (\<lambda>e. unat (snd e)) (sort rs))) = sum_mset (mset (map (\<lambda>e. unat (snd e)) rs))"
    by (simp only: mset_map mset_sort)
  then show ?thesis by (simp only: sum_mset_sum_list)
qed

lemma is_percentile_sort: "is_percentile (sort rs) k r \<longleftrightarrow> is_percentile rs k r"
proof -
  have "weight_upto (sort rs) r' = weight_upto rs r'" for r'
    unfolding weight_upto_def filter_sort by (rule weights_sort)
  then show ?thesis by (simp add: is_percentile_def weights_sort)
qed

lemma percentiles_correct:
  assumes "0 < weights rs" "9 * weights rs < 2 ^ 53"
  shows "length (fee_rate_percentiles rs (of_nat (weights rs))) = 5 \<and>
    (\<forall>k < 5. is_percentile rs k (fee_rate_percentiles rs (of_nat (weights rs)) ! k))"
proof -
  let ?rs = "sort rs" and ?t = "of_nat (weights rs) :: u64"
  have t: "unat ?t = weights rs" using assms(2) by (simp add: unat_of_nat)
  obtain n out where loop: "rate_loop (cuts ?t) 0 (0, replicate 5 0) ?rs = (n, out)"
    by (cases "rate_loop (cuts ?t) 0 (0, replicate 5 0) ?rs")
  have "reached (cuts ?t) c k \<longleftrightarrow> share_reached (weights ?rs) k (unat c)" if "k < 5" "unat c \<le> weights ?rs" for c k
    using reached_share [of ?t k c] assms(2) that t by (simp add: weights_sort word_le_nat_alt)
  then have done': "length out = 5 \<and> n = 5 \<and> (\<forall>k < 5. crosses ?rs k (out ! k))"
    using loop assms(2) share_not_reached [OF assms(1)]
    by (intro rate_loop_crosses [of ?rs "cuts ?t" "[]" ?rs 0 "replicate 5 0" 0 n out]) (auto simp: weights_sort)
  have "sorted (map fst ?rs)"
    unfolding sorted_map by (rule sorted_wrt_mono_rel [OF _ sorted_sort [of rs]]) (auto simp: less_eq_prod_def)
  then have "\<forall>k < 5. is_percentile rs k (out ! k)"
    using done' crosses_percentile is_percentile_sort by blast
  moreover have "rs \<noteq> []" using assms(1) by auto
  ultimately show ?thesis
    using loop done' by (simp add: fee_rate_percentiles_def fill_rest.simps [of _ _ 5] Let_def)
qed

subsection \<open>The pass over a block\<close>

abbreviation paying :: "stat_tx list \<Rightarrow> stat_tx list" where
  "paying txs \<equiv> filter (\<lambda>tx. \<not> tx_coinbase tx) txs"

lemma stat_step_fields:
  "fees (stat_step L h s tx) = fees s @ (if tx_coinbase tx then [] else [stat_fee tx])"
  "rates (stat_step L h s tx) = rates s @ (if tx_coinbase tx then [] else [(stat_rate L tx, tx_weight tx)])"
  "total_weight (stat_step L h s tx) = (if tx_coinbase tx then total_weight s else total_weight s + tx_weight tx)"
  "total_fee (stat_step L h s tx) = (if tx_coinbase tx then total_fee s else total_fee s + stat_fee tx)"
  "max_fee (stat_step L h s tx) = (if tx_coinbase tx then max_fee s else max (max_fee s) (stat_fee tx))"
  "min_fee (stat_step L h s tx) = (if tx_coinbase tx then min_fee s else min (min_fee s) (stat_fee tx))"
  by (simp_all add: stat_step_def Let_def split: prod.split)

lemma stat_pass:
  "fees (foldl (stat_step L h) s txs) = fees s @ map stat_fee (paying txs)"
  "rates (foldl (stat_step L h) s txs) = rates s @ map (\<lambda>tx. (stat_rate L tx, tx_weight tx)) (paying txs)"
  "total_weight (foldl (stat_step L h) s txs) = total_weight s + sum_list (map tx_weight (paying txs))"
  "total_fee (foldl (stat_step L h) s txs) = total_fee s + sum_list (map stat_fee (paying txs))"
  "max_fee (foldl (stat_step L h) s txs) = fold max (map stat_fee (paying txs)) (max_fee s)"
  "min_fee (foldl (stat_step L h) s txs) = fold min (map stat_fee (paying txs)) (min_fee s)"
  by (induction txs arbitrary: s) (simp_all add: stat_step_fields max.commute min.commute add.assoc)

lemma no_totals_fields [simp]:
  "fees no_totals = []" "rates no_totals = []" "total_weight no_totals = 0" "total_fee no_totals = 0"
  "max_fee no_totals = 0" "min_fee no_totals = max_uint64"
  by (simp_all add: no_totals_def)

lemma unat_sum_words: "sum_list (map unat xs) < 2 ^ LENGTH('a :: len) \<Longrightarrow> unat (sum_list (xs :: 'a word list)) = sum_list (map unat xs)"
  by (induction xs) (simp_all add: unat_word_ariths)

subsection \<open>A sample block\<close>

definition sample_stat_lib :: stat_lib where
  "sample_stat_lib = \<lparr>light_weight_factor = 4, delta = (\<lambda>a b. a - b)\<rparr>"

definition sample_stat_tx :: "bool \<Rightarrow> u64 \<Rightarrow> u64 \<Rightarrow> stat_tx" where
  "sample_stat_tx coinbase input weight = \<lparr>tx_outs = [\<lparr>out_value = 100, unspendable = False\<rparr>], tx_ins = [input],
     tx_coinbase = coinbase, tx_size = 200, tx_weight = weight, tx_segregated = False\<rparr>"

definition sample_stat_block :: stat_block where
  "sample_stat_block = \<lparr>block_txs = [sample_stat_tx True 0 400, sample_stat_tx False 1100 800, sample_stat_tx False 500 800],
     block_text = ''h'', block_time = 7\<rparr>"

text \<open>
  C30: The fee rate percentiles of a block are weighted by transaction weight: each is the least fee rate of a
  paying transaction such that the transactions up to that rate have the share of the cut in the total weight. The cuts are computed in doubles, which decide every comparison exactly while nine
  times the total weight is below \<open>2 ^ 53\<close>.
\<close>

theorem block_percentiles:
  assumes "rs = map (\<lambda>tx. (stat_rate L tx, tx_weight tx)) (paying (block_txs block))"
    and "0 < weights rs" "9 * weights rs < 2 ^ 53"
  shows "\<exists>ps. block_stats L block height median subsidy ''feerate_percentiles'' = Some (Array (map U64 ps)) \<and>
    length ps = 5 \<and> (\<forall>k < 5. is_percentile rs k (ps ! k))"
proof -
  have "map unat (map tx_weight (paying (block_txs block))) = map (\<lambda>e. unat (snd e)) rs" using assms(1) by simp
  then have "unat (sum_list (map tx_weight (paying (block_txs block)))) = weights rs"
    using assms(3) unat_sum_words [of "map tx_weight (paying (block_txs block))"] by (simp del: map_map)
  then have "sum_list (map tx_weight (paying (block_txs block))) = of_nat (weights rs)"
    by (metis of_nat_unat ucast_id)
  then have "block_stats L block height median subsidy ''feerate_percentiles'' =
      Some (Array (map U64 (fee_rate_percentiles rs (of_nat (weights rs)))))"
    using assms(1) by (simp add: block_stats_def Let_def stat_pass)
  then show ?thesis using percentiles_correct [OF assms(2,3)] by blast
qed

theorem block_percentiles_witness:
  "\<exists>ps. block_stats sample_stat_lib sample_stat_block 1 5 50 ''feerate_percentiles'' = Some (Array (map U64 ps)) \<and>
    length ps = 5 \<and> is_percentile [(5, 800), (2, 800)] 0 (ps ! 0) \<and> is_percentile [(5, 800), (2, 800)] 4 (ps ! 4)"
  using block_percentiles [of "[(5, 800), (2, 800)]" sample_stat_lib sample_stat_block 1 5 50]
  by (auto simp: sample_stat_block_def sample_stat_tx_def stat_rate_def stat_fee_def sample_stat_lib_def)

lemma adjacent_sum: "Suc i < length xs \<Longrightarrow> xs ! i + xs ! Suc i \<le> sum_list (xs :: nat list)"
proof (induction xs arbitrary: i)
  case (Cons x xs)
  then show ?case by (cases i; cases xs) (auto intro: trans_le_add2)
qed simp

lemma median_between:
  assumes "vs \<noteq> []" "sum_list (map unat vs) < 2 ^ 64"
  shows "sort vs ! ((length vs - 1) div 2) \<le> truncated_median vs \<and> truncated_median vs \<le> sort vs ! (length vs div 2)"
proof (cases "even (length vs)")
  case True
  define i where "i = length vs div 2 - 1"
  have "0 < length vs div 2" using True assms(1) by (cases vs; cases "tl vs") auto
  then have i: "length vs div 2 = Suc i" "(length vs - 1) div 2 = i" "Suc i < length (sort vs)"
    using True by (auto simp: i_def elim!: evenE)
  let ?a = "sort vs ! i" and ?b = "sort vs ! Suc i"
  have "sum_mset (mset (map unat (sort vs))) = sum_mset (mset (map unat vs))" by (simp only: mset_map mset_sort)
  then have "unat ?a + unat ?b < 2 ^ 64"
    using adjacent_sum [of i "map unat (sort vs)"] i(3) assms(2) by (simp only: sum_mset_sum_list) simp
  then have u: "unat ((?a + ?b) div 2) = (unat ?a + unat ?b) div 2" by (simp add: unat_div unat_word_ariths)
  have "?a \<le> ?b" using i(3) by (simp add: sorted_nth_mono)
  then have "?a \<le> (?a + ?b) div 2 \<and> (?a + ?b) div 2 \<le> ?b" unfolding word_le_nat_alt u by auto
  then show ?thesis using True assms(1) i by (simp add: truncated_median_def Let_def)
next
  case False
  then have "(length vs - 1) div 2 = length vs div 2" by (auto elim!: oddE)
  then show ?thesis using False assms(1) by (simp add: truncated_median_def Let_def)
qed

lemma of_nat_div_word:
  "a < 2 ^ LENGTH('a) \<Longrightarrow> b < 2 ^ LENGTH('a) \<Longrightarrow> (of_nat a div of_nat b :: 'a :: len word) = of_nat (a div b)"
  by (simp add: word_unat_eq_iff unat_div unat_of_nat le_less_trans [OF div_le_dividend])

text \<open>
  The fees of a block: when the fees of its transactions do not overflow, the total fee is their sum, the
  average its quotient, the extremes are the least and the greatest fee, and the median lies between the
  two middle fees.
\<close>

theorem block_fees:
  assumes fs: "fs = map stat_fee (paying (block_txs block))" "fs \<noteq> []" "sum_list (map unat fs) < 2 ^ 64 - 1"
    and coinbase: "length (block_txs block) = length fs + 1" "length fs < 2 ^ 63"
    and stats: "stats = block_stats L block height median subsidy"
  shows "stats ''totalfee'' = Some (U64 (of_nat (sum_list (map unat fs)))) \<and>
    stats ''avgfee'' = Some (U64 (of_nat (sum_list (map unat fs) div length fs))) \<and>
    stats ''maxfee'' = Some (U64 (Max (set fs))) \<and> stats ''minfee'' = Some (U64 (Min (set fs))) \<and>
    (\<exists>m. stats ''medianfee'' = Some (U64 m) \<and> sort fs ! ((length fs - 1) div 2) \<le> m \<and> m \<le> sort fs ! (length fs div 2))"
proof -
  have S: "sum_list (map unat fs) < 2 ^ LENGTH(64)" using fs(3) by simp
  have sum: "sum_list fs = of_nat (sum_list (map unat fs))"
    using unat_sum_words [OF S] by (metis of_nat_unat ucast_id)
  have small: "f < max_uint64" if "f \<in> set fs" for f
  proof -
    have "unat f \<le> sum_list (map unat fs)" using that by (simp add: member_le_sum_list)
    moreover have "unat max_uint64 = 2 ^ 64 - 1" by (simp add: unsigned_minus_1_eq_mask mask_eq_exp_minus_1)
    ultimately show ?thesis using fs(3) by (simp add: word_less_nat_alt)
  qed
  have "fold max fs 0 = Max (set fs)"
    using Max.set_eq_fold [of 0 fs] fs(2) by (simp add: max_def)
  moreover have "fold min fs max_uint64 = Min (set fs)"
    using Min.set_eq_fold [of max_uint64 fs] fs(2) by (simp add: min_absorb2 del: Min_eq_iff Min_gr_iff)
  moreover have "Min (set fs) \<noteq> max_uint64" using small [of "Min (set fs)"] fs(2) by auto
  moreover have "of_nat (length fs) \<noteq> (0 :: u64)"
    using fs(2) coinbase(2) by (simp add: word_unat_eq_iff unat_of_nat)
  moreover have "of_nat (sum_list (map unat fs)) div of_nat (length fs) = (of_nat (sum_list (map unat fs) div length fs) :: u64)"
    using S coinbase(2) by (intro of_nat_div_word) auto
  moreover have "sum_list (map unat fs) < 2 ^ 64" using fs(3) by simp
  ultimately show ?thesis
    unfolding stats using coinbase(1) sum median_between [OF fs(2)]
    by (simp add: block_stats_def Let_def stat_pass fs(1) [symmetric])
qed

theorem block_fees_witness:
  "block_stats sample_stat_lib sample_stat_block 1 5 50 ''totalfee'' = Some (U64 1400) \<and>
   block_stats sample_stat_lib sample_stat_block 1 5 50 ''maxfee'' = Some (U64 1000)"
proof -
  have fs: "[1000, 400] = map stat_fee (paying (block_txs sample_stat_block))"
    by (simp add: sample_stat_block_def sample_stat_tx_def stat_fee_def)
  have "length (block_txs sample_stat_block) = length [1000, 400 :: u64] + 1" by (simp add: sample_stat_block_def)
  then show ?thesis
    using block_fees [OF fs, OF _ _ _ _ refl, of sample_stat_lib 1 5 50] by (simp add: max_def)
qed

end
