(* ===== verification/Bitcoind_Chain.thy ===== *)
theory Bitcoind_Chain
  imports Bitcoind_Unspent Chain_Util Block_Stats
begin

text \<open>
  The block queries of the bitcoind service, the handlers of \<open>protocol_bitcoind_blockchain.cpp\<close> with the objects of
  \<open>serializers/bitcoind_json.cpp\<close>. The archive is a \<open>chain_view\<close>; the texts and json objects that the system library
  makes of a header, script, block or transaction are fields of the records.
\<close>

subsection \<open>Data\<close>

record header_info =
  timestamp :: u32
  previous_hash :: hash_digest
  bits_text :: string
  target_text :: string
  difficulty :: double

text \<open>Outputs and inputs of a transaction: values with scripts, and the previous output of an input.\<close>

record 's put =
  put_value :: u64
  put_script :: 's

record 's spend =
  spend_hash :: hash_digest
  spend_index :: u32
  spend_prevout :: "'s put"
  spend_parent :: "u64 option"
  spend_coinbase :: bool

record 's tx_info =
  txid :: hash_digest
  tx_puts :: "'s put list"
  tx_spends :: "'s spend list"
  is_coinbase :: bool
  paid_fee :: u64
  tx_object :: object_t

record 's block_info' =
  block_tx_list :: "'s tx_info list"
  block_head :: header_info
  hashed_object :: object_t
  verbose_object :: object_t
  stat_view :: stat_block

record ('l, 's) chain_view =
  top_confirmed :: u64
  top_candidate :: u64
  to_top_confirmed :: 'l
  to_top_candidate :: 'l
  top_confirmed_key :: hash_digest
  fork_height :: u64
  is_coalesced :: bool
  validated_fork :: "u64 \<times> nat"
  to_confirmed :: "u64 \<Rightarrow> 'l"
  to_header' :: "hash_digest \<Rightarrow> 'l"
  is_terminal :: "'l \<Rightarrow> bool"
  confirmed_block :: "'l \<Rightarrow> bool"
  associated_block :: "'l \<Rightarrow> bool"
  get_height :: "'l \<Rightarrow> u64 option"
  header_key :: "'l \<Rightarrow> hash_digest"
  header_of :: "'l \<Rightarrow> header_info option"
  get_tx_count :: "'l \<Rightarrow> u64"
  branch_tx_count :: "'l \<Rightarrow> u64"
  get_ancestry :: "'l \<Rightarrow> u64 \<Rightarrow> 'l list option"
  branch_work :: "'l \<Rightarrow> string option"
  filter_enabled :: bool
  filter_body :: "'l \<Rightarrow> u8 list option"
  filter_head :: "'l \<Rightarrow> hash_digest option"
  context_of :: "('l, hash_digest) context_view"
  get_block :: "'l \<Rightarrow> 's block_info' option"
  populated :: "'l \<Rightarrow> bool"
  block_hex :: "'l \<Rightarrow> (u64 \<times> string option) option"
  header_hex :: "'l \<Rightarrow> string option"
  unconfirmed_history :: "hash_digest \<Rightarrow> hash_digest list option"
  pooled_tx :: "hash_digest \<Rightarrow> 's tx_info option"
  indexed_addresses :: bool
  store_size :: u64
  taproot_active :: "'l \<Rightarrow> bool option"
  tx_confirmed_at :: "hash_digest \<Rightarrow> u64 option"

record 's chain_lib =
  hash_of :: "string \<Rightarrow> hash_digest option"
  text_of :: "hash_digest \<Rightarrow> string"
  as_i64 :: "double \<Rightarrow> int option"
  as_u64 :: "double \<Rightarrow> u64 option"
  negative :: "double \<Rightarrow> bool"
  coins_of :: "u64 \<Rightarrow> double"
  rate_of :: "u64 \<Rightarrow> u32 \<Rightarrow> double"
  progress_of :: "u64 \<Rightarrow> u64 \<Rightarrow> double"
  one_of :: double
  base16_of :: "u8 list \<Rightarrow> string"
  key_of :: "u8 list \<Rightarrow> hash_digest"
  script_bytes :: "'s \<Rightarrow> u8 list"
  script_object :: "'s \<Rightarrow> object_t"
  script_descriptor :: "'s \<Rightarrow> string"
  script_address :: "'s \<Rightarrow> string"
  filter_matches :: "u8 list \<Rightarrow> hash_digest \<Rightarrow> 's list \<Rightarrow> bool"
  month_blocks :: u64
  subsidy_of :: "u64 \<Rightarrow> u64"
  stats_lib :: stat_lib

text \<open>The descriptor and address texts of a script are those of theories \<open>Descriptor\<close> and \<open>Address\<close>.\<close>

definition with_descriptors ::
  "word_lib \<Rightarrow> ('a, 'w, 's) address_lib \<Rightarrow> 's script_lib \<Rightarrow> address_prefixes \<Rightarrow> 's chain_lib \<Rightarrow> 's chain_lib" where
  "with_descriptors W A S pre L =
     L\<lparr>script_descriptor := infer_descriptor W A S pre, script_address := to_address A pre\<rparr>"

abbreviation fails :: "string \<Rightarrow> bitcoind_reply" where
  "fails name \<equiv> Send_Error (bitcoind_error name)"

abbreviation hash_value :: "'s chain_lib \<Rightarrow> hash_digest \<Rightarrow> value_t" where
  "hash_value L hash \<equiv> String (text_of L hash)"

subsection \<open>Objects\<close>

definition progress :: "'s chain_lib \<Rightarrow> u64 \<Rightarrow> u64 \<Rightarrow> double" where
  "progress L blocks headers = (if headers = 0 then one_of L else progress_of L blocks headers)"

definition chain_states_entry :: "'s chain_lib \<Rightarrow> ('l, 's) chain_view \<Rightarrow> 'l \<Rightarrow> double \<Rightarrow> bool \<Rightarrow> object_t option" where
  "chain_states_entry L Q link done' validated =
     (case (header_of Q link, get_height Q link) of
        (Some header, Some height) \<Rightarrow> Some
          [''blocks'' \<mapsto> U64 height,
           ''bestblockhash'' \<mapsto> hash_value L (header_key Q link),
           ''bits'' \<mapsto> String (bits_text header),
           ''target'' \<mapsto> String (target_text header),
           ''difficulty'' \<mapsto> Number (difficulty header),
           ''verificationprogress'' \<mapsto> Number done',
           ''coins_db_cache_bytes'' \<mapsto> U64 0,
           ''coins_tip_cache_bytes'' \<mapsto> U64 0,
           ''validated'' \<mapsto> Boolean validated]
      | _ \<Rightarrow> None)"

definition put_if :: "bool \<Rightarrow> string \<Rightarrow> value_t \<Rightarrow> object_t \<Rightarrow> object_t" where
  "put_if condition name item out = (if condition then out(name \<mapsto> item) else out)"

definition inject_block_context ::
  "'s chain_lib \<Rightarrow> ('l, 's) chain_view \<Rightarrow> 'l \<Rightarrow> header_info \<Rightarrow> object_t \<Rightarrow> object_t" where
  "inject_block_context L Q link header out =
     (case get_height Q link of
        None \<Rightarrow> out
      | Some height \<Rightarrow>
          let top' = top_confirmed Q;
              confirmed = confirmed_block Q link;
              out = out(''height'' \<mapsto> U64 height,
                ''confirmations'' \<mapsto> I64 (if confirmed then floored top' height + 1 else - 1),
                ''mediantime'' \<mapsto> U32 (median_time (context_of Q) link));
              out = (case branch_work Q link of None \<Rightarrow> out | Some work \<Rightarrow> out(''chainwork'' \<mapsto> String work));
              out = put_if (previous_hash header \<noteq> null_hash) ''previousblockhash'' (hash_value L (previous_hash header)) out in
          put_if (confirmed \<and> height < top') ''nextblockhash'' (hash_value L (header_key Q (to_confirmed Q (height + 1)))) out)"

text \<open>The context of a transaction by its hash.\<close>

definition inject_tx_context :: "'s chain_lib \<Rightarrow> ('l, 's) chain_view \<Rightarrow> hash_digest \<Rightarrow> object_t \<Rightarrow> object_t" where
  "inject_tx_context L Q hash out =
     (case tx_confirmed_at Q hash of
        None \<Rightarrow> out(''confirmations'' \<mapsto> U64 0)
      | Some height \<Rightarrow>
          let block = to_confirmed Q height;
              out = out(''blockhash'' \<mapsto> hash_value L (header_key Q block),
                ''confirmations'' \<mapsto> U64 (floored (top_confirmed Q) height + 1), ''in_active_chain'' \<mapsto> Boolean True) in
          (case header_of Q block of
             None \<Rightarrow> out
           | Some header \<Rightarrow> out(''blocktime'' \<mapsto> U32 (timestamp header), ''time'' \<mapsto> U32 (timestamp header))))"

text \<open>The chain by the hash of its genesis block, and its summary; the networks are settings of the system library.\<close>

definition chain_name :: "(hash_digest \<times> string) list \<Rightarrow> ('l, 's) chain_view \<Rightarrow> string" where
  "chain_name networks Q =
     (case map_of networks (header_key Q (to_confirmed Q 0)) of Some name \<Rightarrow> name | None \<Rightarrow> ''unknown'')"

definition chain_info ::
  "'s chain_lib \<Rightarrow> (hash_digest \<times> string) list \<Rightarrow> u64 \<Rightarrow> ('l, 's) chain_view \<Rightarrow> bool \<Rightarrow> bool \<Rightarrow> object_t option" where
  "chain_info L networks since Q pruned current =
     (let link = to_top_confirmed Q in
      case (header_of Q link, get_height Q link, branch_work Q link, taproot_active Q link) of
        (Some header, Some blocks, Some work, Some active) \<Rightarrow> Some
          [''chain'' \<mapsto> String (chain_name networks Q),
           ''blocks'' \<mapsto> U64 blocks,
           ''headers'' \<mapsto> U64 (top_candidate Q),
           ''bestblockhash'' \<mapsto> hash_value L (header_key Q link),
           ''bits'' \<mapsto> String (bits_text header),
           ''target'' \<mapsto> String (target_text header),
           ''difficulty'' \<mapsto> Number (difficulty header),
           ''time'' \<mapsto> U32 (timestamp header),
           ''mediantime'' \<mapsto> U32 (median_time (context_of Q) link),
           ''verificationprogress'' \<mapsto> Number (progress L blocks (top_candidate Q)),
           ''initialblockdownload'' \<mapsto> Boolean (\<not> current),
           ''chainwork'' \<mapsto> String work,
           ''size_on_disk'' \<mapsto> U64 (store_size Q),
           ''pruned'' \<mapsto> Boolean pruned,
           ''warnings'' \<mapsto> Array [],
           ''bip9_softforks'' \<mapsto> Object (if active
             then [''taproot'' \<mapsto> Object
               [''status'' \<mapsto> String ''active'', ''bit'' \<mapsto> I64 2, ''startTime'' \<mapsto> I64 (- 1), ''timeout'' \<mapsto> I64 (- 1),
                ''since'' \<mapsto> U64 since, ''min_activation_height'' \<mapsto> I64 0]]
             else Map.empty)]
      | _ \<Rightarrow> None)"

definition inject_script_context :: "'s chain_lib \<Rightarrow> 's \<Rightarrow> object_t \<Rightarrow> object_t" where
  "inject_script_context L script out =
     put_if (script_address L script \<noteq> []) ''address'' (String (script_address L script))
       (out(''desc'' \<mapsto> String (script_descriptor L script)))"

definition to_script_public_key :: "'s chain_lib \<Rightarrow> 's \<Rightarrow> value_t" where
  "to_script_public_key L script = Object (inject_script_context L script (script_object L script))"

text \<open>The script objects in the outputs of a transaction object, by position.\<close>

definition inject_output :: "'s chain_lib \<Rightarrow> 's put \<Rightarrow> value_t \<Rightarrow> value_t" where
  "inject_output L p entry =
     (case entry of
        Object members \<Rightarrow>
          (case members ''scriptPubKey'' of
             Some (Object script) \<Rightarrow> Object (members(''scriptPubKey'' \<mapsto> Object (inject_script_context L (put_script p) script)))
           | _ \<Rightarrow> entry)
      | _ \<Rightarrow> entry)"

definition inject_tx_scripts :: "'s chain_lib \<Rightarrow> 's tx_info \<Rightarrow> object_t \<Rightarrow> object_t" where
  "inject_tx_scripts L tx out =
     (case out ''vout'' of
        Some (Array entries) \<Rightarrow> out(''vout'' \<mapsto> Array (map2 (inject_output L) (tx_puts tx) entries))
      | _ \<Rightarrow> out)"

text \<open>The previous output of an input whose transaction is in the chain.\<close>

definition inject_prevout :: "'s chain_lib \<Rightarrow> 's spend \<Rightarrow> value_t \<Rightarrow> value_t" where
  "inject_prevout L s entry =
     (case (spend_parent s, entry) of
        (Some height, Object members) \<Rightarrow>
          Object (members(''prevout'' \<mapsto> Object
            [''generated'' \<mapsto> Boolean (spend_coinbase s),
             ''height'' \<mapsto> U64 height,
             ''value'' \<mapsto> Number (coins_of L (put_value (spend_prevout s))),
             ''scriptPubKey'' \<mapsto> to_script_public_key L (put_script (spend_prevout s))]))
      | _ \<Rightarrow> entry)"

definition inject_tx_prevouts :: "'s chain_lib \<Rightarrow> 's tx_info \<Rightarrow> object_t \<Rightarrow> object_t" where
  "inject_tx_prevouts L tx out =
     (case out ''vin'' of
        Some (Array entries) \<Rightarrow> out(''vin'' \<mapsto> Array (map2 (inject_prevout L) (tx_spends tx) entries))
      | _ \<Rightarrow> out)"

subsection \<open>Activity\<close>

definition located :: "object_t \<Rightarrow> object_t \<Rightarrow> value_t" where
  "located location entry = Object (location ++ entry)"

fun receive_loop :: "'s chain_lib \<Rightarrow> string set \<Rightarrow> object_t \<Rightarrow> hash_digest \<Rightarrow> u32 \<Rightarrow> 's put list \<Rightarrow> value_t list" where
  "receive_loop L watch location hash index [] = []"
| "receive_loop L watch location hash index (p # rest) =
     (if base16_of L (script_bytes L (put_script p)) \<in> watch
      then [located location
             [''type'' \<mapsto> String ''receive'',
              ''amount'' \<mapsto> Number (coins_of L (put_value p)),
              ''txid'' \<mapsto> hash_value L hash,
              ''vout'' \<mapsto> U32 index,
              ''output_spk'' \<mapsto> to_script_public_key L (put_script p)]]
      else []) @ receive_loop L watch location hash (index + 1) rest"

fun spend_loop :: "'s chain_lib \<Rightarrow> string set \<Rightarrow> object_t \<Rightarrow> hash_digest \<Rightarrow> u32 \<Rightarrow> 's spend list \<Rightarrow> value_t list" where
  "spend_loop L watch location hash index [] = []"
| "spend_loop L watch location hash index (s # rest) =
     (if base16_of L (script_bytes L (put_script (spend_prevout s))) \<in> watch
      then [located location
             [''type'' \<mapsto> String ''spend'',
              ''amount'' \<mapsto> Number (coins_of L (put_value (spend_prevout s))),
              ''spend_txid'' \<mapsto> hash_value L hash,
              ''spend_vin'' \<mapsto> U32 index,
              ''prevout_txid'' \<mapsto> hash_value L (spend_hash s),
              ''prevout_vout'' \<mapsto> U32 (spend_index s),
              ''prevout_spk'' \<mapsto> to_script_public_key L (put_script (spend_prevout s))]]
      else []) @ spend_loop L watch location hash (index + 1) rest"

definition inject_activity :: "'s chain_lib \<Rightarrow> string set \<Rightarrow> object_t \<Rightarrow> 's tx_info \<Rightarrow> value_t list" where
  "inject_activity L watch location tx =
     receive_loop L watch location (txid tx) 0 (tx_puts tx) @
     (if is_coinbase tx then [] else spend_loop L watch location (txid tx) 0 (tx_spends tx))"

definition inject_block_activity :: "'s chain_lib \<Rightarrow> string set \<Rightarrow> u64 \<Rightarrow> string \<Rightarrow> 's block_info' \<Rightarrow> value_t list" where
  "inject_block_activity L watch height blockhash block =
     concat (map (inject_activity L watch [''blockhash'' \<mapsto> String blockhash, ''height'' \<mapsto> U64 height]) (block_tx_list block))"

subsection \<open>Queries of one value\<close>

text \<open>Every handler returns at once when the channel is stopped.\<close>

abbreviation unless :: "bool \<Rightarrow> bitcoind_reply \<Rightarrow> bitcoind_reply" where
  "unless stopped reply \<equiv> (if stopped then No_Reply else reply)"

definition handle_get_best_block_hash :: "'s chain_lib \<Rightarrow> ('l, 's) chain_view \<Rightarrow> bool \<Rightarrow> bitcoind_reply" where
  "handle_get_best_block_hash L Q stopped = unless stopped (Reply (hash_value L (top_confirmed_key Q)))"

definition handle_get_block_count :: "('l, 's) chain_view \<Rightarrow> bool \<Rightarrow> bitcoind_reply" where
  "handle_get_block_count Q stopped = unless stopped (Reply (U64 (top_confirmed Q)))"

definition handle_get_block_hash :: "'s chain_lib \<Rightarrow> ('l, 's) chain_view \<Rightarrow> bool \<Rightarrow> double \<Rightarrow> bitcoind_reply" where
  "handle_get_block_hash L Q stopped height =
     unless stopped (case as_u64 L height of
         None \<Rightarrow> fails ''invalid_parameter''
       | Some block_height \<Rightarrow>
           let link = to_confirmed Q block_height in
           if is_terminal Q link then fails ''invalid_parameter'' else Reply (hash_value L (header_key Q link)))"

definition handle_get_block_filter ::
  "'s chain_lib \<Rightarrow> ('l, 's) chain_view \<Rightarrow> bool \<Rightarrow> string \<Rightarrow> string \<Rightarrow> bitcoind_reply" where
  "handle_get_block_filter L Q stopped blockhash filtertype =
     unless stopped
       (if filtertype \<noteq> ''basic'' then fails ''invalid_address_or_key''
        else case hash_of L blockhash of
            None \<Rightarrow> fails ''invalid_parameter''
          | Some hash \<Rightarrow>
              if \<not> filter_enabled Q then fails ''misc_error''
              else (case (filter_body Q (to_header' Q hash), filter_head Q (to_header' Q hash)) of
                  (Some body, Some head) \<Rightarrow>
                    Reply (Object [''filter'' \<mapsto> String (base16_of L body), ''header'' \<mapsto> hash_value L head])
                | _ \<Rightarrow> fails ''invalid_address_or_key''))"

definition handle_get_block_header ::
  "'s chain_lib \<Rightarrow> ('l, 's) chain_view \<Rightarrow> (header_info \<Rightarrow> object_t) \<Rightarrow> bool \<Rightarrow> string \<Rightarrow> bool \<Rightarrow> bitcoind_reply" where
  "handle_get_block_header L Q header_object stopped blockhash verbose =
     unless stopped (case hash_of L blockhash of
         None \<Rightarrow> fails ''invalid_parameter''
       | Some hash \<Rightarrow>
           let link = to_header' Q hash in
           if \<not> verbose
           then (case header_hex Q link of None \<Rightarrow> fails ''invalid_address_or_key'' | Some text' \<Rightarrow> Reply_Hex text')
           else (case header_of Q link of
               None \<Rightarrow> fails ''invalid_address_or_key''
             | Some header \<Rightarrow>
                 Reply (Object (inject_block_context L Q link header
                   ((header_object header)(''nTx'' \<mapsto> U64 (get_tx_count Q link)))))))"

definition handle_get_block_chain_info ::
  "'s chain_lib \<Rightarrow> (hash_digest \<times> string) list \<Rightarrow> u64 \<Rightarrow> ('l, 's) chain_view \<Rightarrow> bool \<Rightarrow> bool \<Rightarrow> bool \<Rightarrow> bitcoind_reply" where
  "handle_get_block_chain_info L networks since Q stopped pruned current =
     unless stopped (case chain_info L networks since Q pruned current of
         None \<Rightarrow> fails ''internal_error''
       | Some out \<Rightarrow> Reply (Object out))"

definition handle_get_difficulty :: "('l, 's) chain_view \<Rightarrow> bool \<Rightarrow> bitcoind_reply" where
  "handle_get_difficulty Q stopped =
     unless stopped (case header_of Q (to_top_confirmed Q) of
         None \<Rightarrow> fails ''internal_error''
       | Some header \<Rightarrow> Reply (Number (difficulty header)))"

subsection \<open>Blocks\<close>

text \<open>The verbosity of a block: hex, hashed, verbose and prevouts; out of range levels are clamped.\<close>

definition block_level :: "int \<Rightarrow> nat" where
  "block_level requested = nat (max 0 (min 3 requested))"

definition inject_tx_entry :: "'s chain_lib \<Rightarrow> nat \<Rightarrow> bool \<Rightarrow> 's tx_info \<Rightarrow> value_t \<Rightarrow> value_t" where
  "inject_tx_entry L level populated' tx entry =
     (case entry of
        Object members \<Rightarrow>
          let members = inject_tx_scripts L tx members in
          if populated' \<and> \<not> is_coinbase tx
          then Object ((if level = 3 then inject_tx_prevouts L tx members else members)
                 (''fee'' \<mapsto> Number (coins_of L (paid_fee tx))))
          else Object members
      | _ \<Rightarrow> entry)"

definition handle_get_block ::
  "'s chain_lib \<Rightarrow> ('l, 's) chain_view \<Rightarrow> bool \<Rightarrow> string \<Rightarrow> double \<Rightarrow> bitcoind_reply" where
  "handle_get_block L Q stopped blockhash verbosity =
     unless stopped (case hash_of L blockhash of
         None \<Rightarrow> fails ''invalid_parameter''
       | Some hash \<Rightarrow>
           (case as_i64 L verbosity of
              None \<Rightarrow> fails ''misc_error''
            | Some requested \<Rightarrow>
                let level = block_level requested; link = to_header' Q hash in
                if level = 0
                then (case block_hex Q link of
                    None \<Rightarrow> fails ''invalid_address_or_key''
                  | Some (size', None) \<Rightarrow> fails ''misc_error''
                  | Some (size', Some text') \<Rightarrow> Reply_Hex text')
                else (case get_block Q link of
                    None \<Rightarrow> fails ''invalid_address_or_key''
                  | Some block \<Rightarrow>
                      let model = inject_block_context L Q link (block_head block)
                            (if level = 1 then hashed_object block else verbose_object block) in
                      Reply (Object
                        (if level \<ge> 2
                         then (case model ''tx'' of
                             Some (Array entries) \<Rightarrow> model(''tx'' \<mapsto>
                               Array (map2 (inject_tx_entry L level (populated Q link)) (block_tx_list block) entries))
                           | _ \<Rightarrow> model)
                         else model)))))"

text \<open>The link of a hash or height argument.\<close>

definition hash_or_height_link :: "'s chain_lib \<Rightarrow> ('l, 's) chain_view \<Rightarrow> value_t \<Rightarrow> bitcoind_reply + 'l" where
  "hash_or_height_link L Q argument =
     (case argument of
        String text' \<Rightarrow> (case hash_of L text' of None \<Rightarrow> Inl (fails ''invalid_parameter'') | Some hash \<Rightarrow> Inr (to_header' Q hash))
      | Number number \<Rightarrow> (case as_u64 L number of None \<Rightarrow> Inl (fails ''invalid_parameter'') | Some height \<Rightarrow> Inr (to_confirmed Q height))
      | _ \<Rightarrow> Inl (fails ''type_error''))"

text \<open>The selected statistics; None with the error of the first bad name.\<close>

fun select_stats :: "object_t \<Rightarrow> value_t list \<Rightarrow> object_t \<Rightarrow> bitcoind_reply + object_t" where
  "select_stats result [] selected = Inr selected"
| "select_stats result (stat # stats) selected =
     (case stat of
        String name \<Rightarrow>
          (case result name of
             None \<Rightarrow> Inl (fails ''invalid_parameter'')
           | Some item \<Rightarrow> select_stats result stats (if selected name = None then selected(name \<mapsto> item) else selected))
      | _ \<Rightarrow> Inl (fails ''type_error''))"

definition reply_of :: "bitcoind_reply + object_t \<Rightarrow> bitcoind_reply" where
  "reply_of result = (case result of Inl reply \<Rightarrow> reply | Inr out \<Rightarrow> Reply (Object out))"

definition handle_get_block_stats ::
  "'s chain_lib \<Rightarrow> ('l, 's) chain_view \<Rightarrow> bool \<Rightarrow> value_t \<Rightarrow> value_t list \<Rightarrow> bitcoind_reply" where
  "handle_get_block_stats L Q stopped hash_or_height stats =
     unless stopped (reply_of (sum_bind (hash_or_height_link L Q hash_or_height) (\<lambda>link.
       if \<not> confirmed_block Q link then Inl (fails ''invalid_address_or_key'')
       else (case get_height Q link of
           None \<Rightarrow> Inl (fails ''internal_error'')
         | Some height \<Rightarrow>
             (case get_block Q link of
                None \<Rightarrow> Inl (fails ''internal_error'')
              | Some block \<Rightarrow>
                  if \<not> populated Q link then Inl (fails ''internal_error'')
                  else
                    let result = block_stats (stats_lib L) (stat_view block) height
                          (median_time (context_of Q) link) (subsidy_of L height) in
                    if stats = [] then Inr result else select_stats result stats Map.empty)))))"

subsection \<open>Chain statistics\<close>

text \<open>The window of blocks; None when it is refused.\<close>

definition stats_window :: "'s chain_lib \<Rightarrow> u64 \<Rightarrow> double \<Rightarrow> u64 option" where
  "stats_window L height nblocks =
     (if negative L nblocks then Some (min (month_blocks L) (floored height 1))
      else case as_u64 L nblocks of
          None \<Rightarrow> None
        | Some window \<Rightarrow> if window \<noteq> 0 \<and> window \<ge> height then None else Some window)"

definition window_txs :: "('l, 's) chain_view \<Rightarrow> 'l list \<Rightarrow> u64 \<Rightarrow> u64" where
  "window_txs Q branch window = foldl (\<lambda>txs index. txs + get_tx_count Q (branch ! index)) 0 [0..<unat window]"

definition handle_get_chain_tx_stats ::
  "'s chain_lib \<Rightarrow> ('l, 's) chain_view \<Rightarrow> bool \<Rightarrow> double \<Rightarrow> string \<Rightarrow> bitcoind_reply" where
  "handle_get_chain_tx_stats L Q stopped nblocks blockhash =
     unless stopped (reply_of (sum_bind
       (if blockhash = [] then Inr (to_top_confirmed Q)
        else case hash_of L blockhash of None \<Rightarrow> Inl (fails ''invalid_parameter'') | Some hash \<Rightarrow> Inr (to_header' Q hash))
       (\<lambda>link.
         if \<not> confirmed_block Q link then Inl (fails ''invalid_address_or_key'')
         else (case get_height Q link of
             None \<Rightarrow> Inl (fails ''internal_error'')
           | Some height \<Rightarrow>
               (case stats_window L height nblocks of
                  None \<Rightarrow> Inl (fails ''invalid_parameter'')
                | Some window \<Rightarrow>
                    (case header_of Q link of
                       None \<Rightarrow> Inl (fails ''internal_error'')
                     | Some header \<Rightarrow>
                         let result = [''time'' \<mapsto> U32 (timestamp header), ''txcount'' \<mapsto> U64 (branch_tx_count Q link),
                               ''window_final_block_hash'' \<mapsto> hash_value L (header_key Q link),
                               ''window_final_block_height'' \<mapsto> U64 height, ''window_block_count'' \<mapsto> U64 window] in
                         if window = 0 then Inr result
                         else (case get_ancestry Q link (window + 1) of
                             None \<Rightarrow> Inl (fails ''internal_error'')
                           | Some branch \<Rightarrow>
                               let start' = median_time (context_of Q) (last branch);
                                   end' = median_time (context_of Q) link;
                                   interval = (if end' < start' then 0 else end' - start');
                                   txs = window_txs Q branch window;
                                   result = result(''window_interval'' \<mapsto> U32 interval, ''window_tx_count'' \<mapsto> U64 txs) in
                               Inr (put_if (interval \<noteq> 0) ''txrate'' (Number (rate_of L txs interval)) result))))))))"

subsection \<open>Chain tips and states\<close>

definition handle_get_chain_states :: "'s chain_lib \<Rightarrow> ('l, 's) chain_view \<Rightarrow> bool \<Rightarrow> bitcoind_reply" where
  "handle_get_chain_states L Q stopped =
     unless stopped (case get_height Q (to_top_candidate Q) of
         None \<Rightarrow> fails ''internal_error''
       | Some candidate \<Rightarrow>
           (case chain_states_entry L Q (to_top_confirmed Q) (one_of L) True of
              None \<Rightarrow> fails ''internal_error''
            | Some entry \<Rightarrow>
                let answer = (\<lambda>states. Reply (Object [''headers'' \<mapsto> U64 candidate, ''chainstates'' \<mapsto> Array states])) in
                if is_coalesced Q then answer [Object entry]
                else
                  let (fork, span) = validated_fork Q in
                  (case chain_states_entry L Q (to_top_candidate Q) (progress L (fork + of_nat span) candidate) False of
                     None \<Rightarrow> fails ''internal_error''
                   | Some second \<Rightarrow> answer [Object entry, Object second])))"

definition tip_entry :: "'s chain_lib \<Rightarrow> ('l, 's) chain_view \<Rightarrow> 'l \<Rightarrow> u64 \<Rightarrow> value_t \<Rightarrow> string \<Rightarrow> value_t" where
  "tip_entry L Q link height branchlen state =
     Object [''height'' \<mapsto> U64 height, ''hash'' \<mapsto> hash_value L (header_key Q link), ''branchlen'' \<mapsto> branchlen,
       ''status'' \<mapsto> String state]"

definition handle_get_chain_tips :: "'s chain_lib \<Rightarrow> ('l, 's) chain_view \<Rightarrow> bool \<Rightarrow> bitcoind_reply" where
  "handle_get_chain_tips L Q stopped =
     unless stopped (case get_height Q (to_top_confirmed Q) of
         None \<Rightarrow> fails ''internal_error''
       | Some confirmed \<Rightarrow>
           let active = tip_entry L Q (to_top_confirmed Q) confirmed (I64 0) ''active'' in
           (case get_height Q (to_top_candidate Q) of
              None \<Rightarrow> fails ''internal_error''
            | Some candidate \<Rightarrow>
                let branchlen = floored candidate (fork_height Q) in
                if branchlen = 0 then Reply (Array [active])
                else (case get_ancestry Q (to_top_candidate Q) branchlen of
                    None \<Rightarrow> Reply (Array [active])
                  | Some branch \<Rightarrow>
                      Reply (Array [active, tip_entry L Q (to_top_candidate Q) candidate (U64 branchlen)
                        (if list_all (associated_block Q) branch then ''valid-headers'' else ''headers-only'')]))))"

definition handle_get_deployment_info ::
  "'s chain_lib \<Rightarrow> ('l, 's) chain_view \<Rightarrow> ('l \<Rightarrow> u64 \<Rightarrow> object_t) \<Rightarrow> bool \<Rightarrow> string \<Rightarrow> bitcoind_reply" where
  "handle_get_deployment_info L Q deployment_info stopped blockhash =
     unless stopped (reply_of (sum_bind
       (if blockhash = [] then Inr (to_top_confirmed Q)
        else case hash_of L blockhash of
            None \<Rightarrow> Inl (fails ''invalid_parameter'')
          | Some hash \<Rightarrow>
              if is_terminal Q (to_header' Q hash) then Inl (fails ''invalid_address_or_key'') else Inr (to_header' Q hash))
       (\<lambda>link. case get_height Q link of
           None \<Rightarrow> Inl (fails ''internal_error'')
         | Some height \<Rightarrow> Inr (deployment_info link height))))"

subsection \<open>Scans\<close>

definition handle_get_descriptor_activity :: "('l, 's) chain_view \<Rightarrow> bool \<Rightarrow> bool \<Rightarrow> bitcoind_reply option" where
  "handle_get_descriptor_activity Q stopped include_mempool =
     (if stopped then Some No_Reply
      else if include_mempool \<and> \<not> indexed_addresses Q then Some (fails ''misc_error'')
      else None)"

fun activity_loop ::
  "'s chain_lib \<Rightarrow> ('l, 's) chain_view \<Rightarrow> string set \<Rightarrow> value_t list \<Rightarrow> value_t list \<Rightarrow> bitcoind_reply + value_t list" where
  "activity_loop L Q watch [] activity = Inr activity"
| "activity_loop L Q watch (item # items) activity =
     (case item of
        String text' \<Rightarrow>
          (case hash_of L text' of
             None \<Rightarrow> Inl (fails ''invalid_parameter'')
           | Some hash \<Rightarrow>
               let link = to_header' Q hash in
               (case get_block Q link of
                  None \<Rightarrow> Inl (fails ''invalid_address_or_key'')
                | Some block \<Rightarrow>
                    (case get_height Q link of
                       None \<Rightarrow> Inl (fails ''internal_error'')
                     | Some height \<Rightarrow>
                         if \<not> populated Q link then Inl (fails ''internal_error'')
                         else activity_loop L Q watch items
                           (activity @ inject_block_activity L watch height (text_of L hash) block))))
      | _ \<Rightarrow> Inl (fails ''invalid_parameter''))"

text \<open>The transactions of the unconfirmed histories of the scripts, each once.\<close>

fun pooled_links :: "'s chain_lib \<Rightarrow> ('l, 's) chain_view \<Rightarrow> 's list \<Rightarrow> hash_digest list \<Rightarrow> hash_digest list option" where
  "pooled_links L Q [] links = Some links"
| "pooled_links L Q (script # rest) links =
     (case unconfirmed_history Q (key_of L (script_bytes L script)) of
        None \<Rightarrow> None
      | Some history \<Rightarrow>
          pooled_links L Q rest (foldl (\<lambda>links link. if link \<in> set links then links else links @ [link]) links history))"

fun pooled_activity ::
  "'s chain_lib \<Rightarrow> ('l, 's) chain_view \<Rightarrow> string set \<Rightarrow> hash_digest list \<Rightarrow> value_t list \<Rightarrow> bitcoind_reply + value_t list" where
  "pooled_activity L Q watch [] activity = Inr activity"
| "pooled_activity L Q watch (link # links) activity =
     (case pooled_tx Q link of
        None \<Rightarrow> Inl (fails ''internal_error'')
      | Some tx \<Rightarrow> pooled_activity L Q watch links (activity @ inject_activity L watch Map.empty tx))"

definition do_get_descriptor_activity ::
  "('p, 'g) derive_lib \<Rightarrow> ('g \<Rightarrow> 's) \<Rightarrow> 's chain_lib \<Rightarrow> ('l, 's) chain_view \<Rightarrow> value_t list \<Rightarrow> value_t list \<Rightarrow> bool \<Rightarrow>
   bitcoind_reply option" where
  "do_get_descriptor_activity D script_of L Q blockhashes scanobjects include_mempool =
     map_option (\<lambda>expanded. case expanded of
         None \<Rightarrow> fails ''invalid_address_or_key''
       | Some derived \<Rightarrow>
           let watch = (\<lambda>script. base16_of L (script_bytes L script)) ` set derived in
           reply_of (sum_bind (activity_loop L Q watch blockhashes []) (\<lambda>activity.
             map_sum id (\<lambda>activity. [''activity'' \<mapsto> Array activity])
               (if \<not> include_mempool then Inr activity
                else case pooled_links L Q derived [] of
                    None \<Rightarrow> Inl (fails ''internal_error'')
                  | Some links \<Rightarrow> pooled_activity L Q watch links activity))))
     (expand_scan_objects D script_of scanobjects [])"




text \<open>The completion of a preference for a block.\<close>

datatype prioritized = Prioritized | Not_Found | Not_Prioritized

definition handle_precious_block :: "'s chain_lib \<Rightarrow> bool \<Rightarrow> string \<Rightarrow> bitcoind_reply + hash_digest" where
  "handle_precious_block L stopped blockhash =
     (if stopped then Inl No_Reply
      else case hash_of L blockhash of None \<Rightarrow> Inl (fails ''invalid_parameter'') | Some hash \<Rightarrow> Inr hash)"

definition do_precious_block :: "bool \<Rightarrow> prioritized \<Rightarrow> bitcoind_reply" where
  "do_precious_block stopped result =
     unless stopped (case result of
         Not_Found \<Rightarrow> fails ''invalid_address_or_key''
       | Not_Prioritized \<Rightarrow> fails ''internal_error''
       | Prioritized \<Rightarrow> Reply Null)"

text \<open>Methods with a constant reply.\<close>

definition constant_reply :: "string \<Rightarrow> bitcoind_reply option" where
  "constant_reply name = map_of
     [(''pruneblockchain'', fails ''misc_error''), (''verifychain'', Reply (Boolean True)),
      (''dumptxoutset'', fails ''method_not_found''), (''loadtxoutset'', fails ''method_not_found''),
      (''getblockfrompeer'', fails ''method_not_found''), (''getmempoolcluster'', fails ''client_mempool_disabled'')] name"

subsection \<open>What the archive promises\<close>

text \<open>
  Heights are below \<open>2 ^ 32\<close>, the ancestry of a confirmed block is the confirmed chain downwards from it, and a
  confirmed block is the one of its height.
\<close>

definition chain_laws :: "('l, 's) chain_view \<Rightarrow> bool" where
  "chain_laws Q \<longleftrightarrow>
     unat (top_confirmed Q) < 2 ^ 32 \<and>
     (\<forall>h n. h \<le> top_confirmed Q \<and> unat n \<le> Suc (unat h) \<longrightarrow>
        get_ancestry Q (to_confirmed Q h) n = Some (map (\<lambda>i. to_confirmed Q (of_nat (unat h - i))) [0..<unat n])) \<and>
     (\<forall>link height. confirmed_block Q link \<and> get_height Q link = Some height \<longrightarrow>
        height \<le> top_confirmed Q \<and> to_confirmed Q height = link)"

lemma chain_lawsD:
  assumes "chain_laws Q"
  shows "h \<le> top_confirmed Q \<Longrightarrow> unat n \<le> Suc (unat h) \<Longrightarrow>
      get_ancestry Q (to_confirmed Q h) n = Some (map (\<lambda>i. to_confirmed Q (of_nat (unat h - i))) [0..<unat n])"
    and "confirmed_block Q link \<Longrightarrow> get_height Q link = Some height \<Longrightarrow> height \<le> top_confirmed Q \<and> to_confirmed Q height = link"
    and "unat (top_confirmed Q) < 2 ^ 32"
  using assms by (auto simp: chain_laws_def)

abbreviation confirmed_span :: "('l, 's) chain_view \<Rightarrow> nat \<Rightarrow> nat \<Rightarrow> 'l list" where
  "confirmed_span Q from to \<equiv> map (\<lambda>h. to_confirmed Q (of_nat h)) [from..<Suc to]"

lemma rev_descending: "k \<le> to \<Longrightarrow> rev (map (\<lambda>i. f (to - i)) [0..<Suc k]) = map f [to - k..<Suc to]"
  by (rule nth_equalityI) (auto simp: rev_nth nth_append simp del: upt_Suc)



lemma stats_window_less:
  assumes "stats_window L height nblocks = Some window" "window \<noteq> 0"
  shows "unat window < unat height"
proof (cases "negative L nblocks")
  case True
  then have "window = min (month_blocks L) (floored height 1)" using assms(1) by (simp add: stats_window_def)
  then have w: "window \<le> floored height 1" by simp
  then have "height \<noteq> 0" using assms(2) by auto
  then have "unat (height - 1) < unat height" using unat_sub [of 1 height] by (simp add: unat_gt_0 word_le_nat_alt Suc_le_eq)
  then show ?thesis using w \<open>height \<noteq> 0\<close> assms(2) by (auto simp: word_le_nat_alt split: if_splits)
next
  case False
  then show ?thesis using assms
    by (auto simp: stats_window_def word_le_nat_alt split: if_splits option.splits)
qed

lemma foldl_add_sum: "foldl (\<lambda>n i. n + f i) (a :: u64) xs = a + sum_list (map f xs)"
  by (induction xs arbitrary: a) (simp_all add: add.assoc)

lemma window_txs_span:
  assumes "chain_laws Q" "h \<le> top_confirmed Q" "unat w < unat h" "w \<noteq> 0"
  shows "\<exists>branch. get_ancestry Q (to_confirmed Q h) (w + 1) = Some branch \<and>
    window_txs Q branch w = sum_list (map (get_tx_count Q) (confirmed_span Q (Suc (unat h - unat w)) (unat h)))"
proof -
  let ?f = "\<lambda>h. get_tx_count Q (to_confirmed Q (of_nat h))"
  have n: "unat (w + 1) = Suc (unat w)" using assms(3) unsigned_less [of h, where ?'a = nat] by (simp add: unat_word_ariths)
  obtain k where k: "unat w = Suc k" using assms(4) by (cases "unat w") (auto simp: unat_eq_0)
  have "get_ancestry Q (to_confirmed Q h) (w + 1) = Some (map (\<lambda>i. to_confirmed Q (of_nat (unat h - i))) [0..<Suc (unat w)])"
    using chain_lawsD(1) [OF assms(1,2), of "w + 1"] assms(3) n by simp
  moreover have "window_txs Q (map (\<lambda>i. to_confirmed Q (of_nat (unat h - i))) [0..<Suc (unat w)]) w =
      sum_list (map (\<lambda>i. ?f (unat h - i)) [0..<unat w])"
    unfolding window_txs_def foldl_add_sum add_0_left
    by (intro arg_cong [where f = sum_list] map_cong refl) (simp del: upt_Suc)
  moreover have "sum_list (map (\<lambda>i. ?f (unat h - i)) [0..<unat w]) = sum_list (rev (map (\<lambda>i. ?f (unat h - i)) [0..<Suc k]))"
    by (simp only: k sum_list_rev)
  moreover have "rev (map (\<lambda>i. ?f (unat h - i)) [0..<Suc k]) = map ?f [Suc (unat h - unat w)..<Suc (unat h)]"
    using rev_descending [of k "unat h" ?f] assms(3) k by (simp add: Suc_diff_Suc del: upt_Suc)
  ultimately show ?thesis by (simp add: comp_def del: upt_Suc)
qed

text \<open>
  A reply of getchaintxstats is about a confirmed block; its window has fewer blocks than the height of that
  block, and counts the transactions of exactly the blocks of the window, the last ones up to that height.
\<close>

theorem chain_tx_window:
  assumes "chain_laws Q" and reply: "handle_get_chain_tx_stats L Q False nblocks blockhash = Reply (Object out)"
  shows "\<exists>height window. height \<le> top_confirmed Q \<and>
    out ''window_final_block_hash'' = Some (hash_value L (header_key Q (to_confirmed Q height))) \<and>
    out ''window_final_block_height'' = Some (U64 height) \<and> out ''window_block_count'' = Some (U64 window) \<and>
    (if window = 0 then out ''window_tx_count'' = None
     else unat window < unat height \<and>
       out ''window_tx_count'' = Some (U64 (sum_list (map (get_tx_count Q)
         (confirmed_span Q (Suc (unat height - unat window)) (unat height))))))"
proof -
  obtain link height window header where l: "confirmed_block Q link" "get_height Q link = Some height"
    "stats_window L height nblocks = Some window" "header_of Q link = Some header"
    and out: "out ''window_final_block_hash'' = Some (hash_value L (header_key Q link))"
      "out ''window_final_block_height'' = Some (U64 height)" "out ''window_block_count'' = Some (U64 window)"
      "window = 0 \<longrightarrow> out ''window_tx_count'' = None"
      "window \<noteq> 0 \<longrightarrow> (\<exists>branch. get_ancestry Q link (window + 1) = Some branch \<and>
         out ''window_tx_count'' = Some (U64 (window_txs Q branch window)))"
    using reply
    by (auto simp: handle_get_chain_tx_stats_def reply_of_def sum_bind_def Let_def put_if_def
        split: sum.splits if_splits option.splits)
  have h: "height \<le> top_confirmed Q" "to_confirmed Q height = link" using chain_lawsD(2) [OF assms(1) l(1,2)] by auto
  show ?thesis
  proof (cases "window = 0")
    case False
    then show ?thesis
      using out h window_txs_span [OF assms(1) h(1) stats_window_less [OF l(3) False] False] stats_window_less [OF l(3) False]
      by (intro exI [of _ height] exI [of _ window]) (auto simp del: upt_Suc)
  qed (use out h in auto)
qed

subsection \<open>Activity is complete\<close>

abbreviation watched :: "'s chain_lib \<Rightarrow> string set \<Rightarrow> 's put \<Rightarrow> bool" where
  "watched L watch p \<equiv> base16_of L (script_bytes L (put_script p)) \<in> watch"

definition receive_entry :: "'s chain_lib \<Rightarrow> object_t \<Rightarrow> hash_digest \<Rightarrow> nat \<times> 's put \<Rightarrow> value_t" where
  "receive_entry L location hash e = located location
     [''type'' \<mapsto> String ''receive'', ''amount'' \<mapsto> Number (coins_of L (put_value (snd e))), ''txid'' \<mapsto> hash_value L hash,
      ''vout'' \<mapsto> U32 (of_nat (fst e)), ''output_spk'' \<mapsto> to_script_public_key L (put_script (snd e))]"

definition spend_entry :: "'s chain_lib \<Rightarrow> object_t \<Rightarrow> hash_digest \<Rightarrow> nat \<times> 's spend \<Rightarrow> value_t" where
  "spend_entry L location hash e = located location
     [''type'' \<mapsto> String ''spend'', ''amount'' \<mapsto> Number (coins_of L (put_value (spend_prevout (snd e)))),
      ''spend_txid'' \<mapsto> hash_value L hash, ''spend_vin'' \<mapsto> U32 (of_nat (fst e)),
      ''prevout_txid'' \<mapsto> hash_value L (spend_hash (snd e)), ''prevout_vout'' \<mapsto> U32 (spend_index (snd e)),
      ''prevout_spk'' \<mapsto> to_script_public_key L (put_script (spend_prevout (snd e)))]"

text \<open>The activity of a transaction: its watched outputs and, unless it is a coinbase, the inputs that spend watched outputs.\<close>

definition tx_activity :: "'s chain_lib \<Rightarrow> string set \<Rightarrow> object_t \<Rightarrow> 's tx_info \<Rightarrow> value_t list" where
  "tx_activity L watch location tx =
     map (receive_entry L location (txid tx)) (filter (\<lambda>e. watched L watch (snd e)) (enumerate 0 (tx_puts tx))) @
     (if is_coinbase tx then []
      else map (spend_entry L location (txid tx)) (filter (\<lambda>e. watched L watch (spend_prevout (snd e))) (enumerate 0 (tx_spends tx))))"

lemma receive_loop_entries:
  "receive_loop L watch location hash (of_nat n) ps =
     map (receive_entry L location hash) (filter (\<lambda>e. watched L watch (snd e)) (enumerate n ps))"
proof (induction ps arbitrary: n)
  case (Cons p ps)
  then show ?case using Cons.IH [of "Suc n"] by (simp add: receive_entry_def add.commute)
qed simp

lemma spend_loop_entries:
  "spend_loop L watch location hash (of_nat n) ss =
     map (spend_entry L location hash) (filter (\<lambda>e. watched L watch (spend_prevout (snd e))) (enumerate n ss))"
proof (induction ss arbitrary: n)
  case (Cons s ss)
  then show ?case using Cons.IH [of "Suc n"] by (simp add: spend_entry_def add.commute)
qed simp

lemma inject_activity_entries: "inject_activity L watch location tx = tx_activity L watch location tx"
  using receive_loop_entries [of L watch location "txid tx" 0] spend_loop_entries [of L watch location "txid tx" 0]
  by (simp add: inject_activity_def tx_activity_def)

text \<open>The activity of a requested block.\<close>

definition block_activity :: "'s chain_lib \<Rightarrow> ('l, 's) chain_view \<Rightarrow> string set \<Rightarrow> hash_digest \<Rightarrow> value_t list" where
  "block_activity L Q watch hash =
     concat (map (tx_activity L watch [''blockhash'' \<mapsto> hash_value L hash, ''height'' \<mapsto> U64 (the (get_height Q (to_header' Q hash)))])
       (block_tx_list (the (get_block Q (to_header' Q hash)))))"

lemma activity_loop_blocks:
  assumes "activity_loop L Q watch items acc = Inr activity"
  shows "\<exists>hashes. map (\<lambda>item. case item of String t \<Rightarrow> hash_of L t | _ \<Rightarrow> None) items = map Some hashes \<and>
    activity = acc @ concat (map (block_activity L Q watch) hashes)"
  using assms
proof (induction items arbitrary: acc)
  case (Cons item items)
  obtain t hash block height where item: "item = String t" "hash_of L t = Some hash"
    "get_block Q (to_header' Q hash) = Some block" "get_height Q (to_header' Q hash) = Some height"
    and rest: "activity_loop L Q watch items (acc @ inject_block_activity L watch height (text_of L hash) block) = Inr activity"
    using Cons.prems by (auto simp: Let_def split: value_t.splits option.splits if_splits)
  have "inject_block_activity L watch height (text_of L hash) block = block_activity L Q watch hash"
    using item by (simp add: inject_block_activity_def block_activity_def inject_activity_entries [abs_def])
  then obtain hashes where "map (\<lambda>item. case item of String t \<Rightarrow> hash_of L t | _ \<Rightarrow> None) items = map Some hashes"
    "activity = (acc @ block_activity L Q watch hash) @ concat (map (block_activity L Q watch) hashes)"
    using Cons.IH [OF rest] by auto
  then show ?case using item by (intro exI [of _ "hash # hashes"]) simp
qed simp

lemma activity_loop_error: "activity_loop L Q watch items acc = Inl r \<Longrightarrow> \<exists>ec. r = Send_Error ec"
proof (induction items arbitrary: acc)
  case (Cons item items)
  then show ?case by (auto simp: Let_def split: value_t.splits option.splits if_splits)
qed simp

text \<open>
  C29: The activity of descriptors in blocks is complete and exact: the reply lists, block by block in the order of the
  request and transaction by transaction, every output that pays a derived script with its index, and every
  input of a transaction other than the coinbase that spends such an output, and nothing else.
\<close>

theorem descriptor_activity_exact:
  assumes "do_get_descriptor_activity D script_of L Q blockhashes objects False = Some (Reply (Object out))"
  shows "\<exists>scripts hashes. expand_scan_objects D script_of objects [] = Some (Some scripts) \<and>
    map (\<lambda>item. case item of String t \<Rightarrow> hash_of L t | _ \<Rightarrow> None) blockhashes = map Some hashes \<and>
    out = [''activity'' \<mapsto> Array (concat (map
      (block_activity L Q ((\<lambda>script. base16_of L (script_bytes L script)) ` set scripts)) hashes))]"
proof -
  obtain scripts where e: "expand_scan_objects D script_of objects [] = Some (Some scripts)"
    using assms by (auto simp: do_get_descriptor_activity_def split: option.splits)
  let ?watch = "(\<lambda>script. base16_of L (script_bytes L script)) ` set scripts"
  have reply: "reply_of (sum_bind (activity_loop L Q ?watch blockhashes []) (\<lambda>activity. Inr [''activity'' \<mapsto> Array activity])) =
      Reply (Object out)"
    using assms e by (simp add: do_get_descriptor_activity_def)
  show ?thesis
  proof (cases "activity_loop L Q ?watch blockhashes []")
    case (Inl r)
    then show ?thesis using reply activity_loop_error [OF Inl] by (auto simp: reply_of_def)
  next
    case (Inr activity)
    then show ?thesis using reply e activity_loop_blocks [OF Inr] by (auto simp: reply_of_def)
  qed
qed

subsection \<open>A sample chain\<close>

text \<open>Blocks 0 to 3 with two transactions each, the filter of block 2 matches.\<close>

definition sample_chain_lib :: "u8 list chain_lib" where
  "sample_chain_lib = \<lparr>hash_of = (\<lambda>t. Some 2), text_of = (\<lambda>h. if h = 2 then ''two'' else ''other''), as_i64 = (\<lambda>d. Some 1),
     as_u64 = (\<lambda>d. Some d), negative = (\<lambda>d. False), coins_of = (\<lambda>v. v), rate_of = (\<lambda>n i. n), progress_of = (\<lambda>a b. a), one_of = 1,
     base16_of = (\<lambda>d. if d = [5] then ''05'' else []), key_of = (\<lambda>d. 0), script_bytes = (\<lambda>s. s), script_object = (\<lambda>s. Map.empty),
     script_descriptor = (\<lambda>s. ''d''), script_address = (\<lambda>s. []), filter_matches = (\<lambda>body h scripts. body = [1]),
     month_blocks = 4320, subsidy_of = (\<lambda>h. 50), stats_lib = sample_stat_lib\<rparr>"

definition sample_tx_info :: "u8 list tx_info" where
  "sample_tx_info = \<lparr>txid = 9, tx_puts = [\<lparr>put_value = 10, put_script = [5]\<rparr>], tx_spends = [], is_coinbase = True,
     paid_fee = 0, tx_object = Map.empty\<rparr>"

definition sample_header_info :: header_info where
  "sample_header_info = \<lparr>timestamp = 7, previous_hash = 0, bits_text = [], target_text = [], difficulty = 1\<rparr>"

definition sample_chain_view :: "(u64, u8 list) chain_view" where
  "sample_chain_view = \<lparr>top_confirmed = 3, top_candidate = 3, to_top_confirmed = 3, to_top_candidate = 3, top_confirmed_key = 3,
     fork_height = 3, is_coalesced = True, validated_fork = (3, 0), to_confirmed = (\<lambda>h. h), to_header' = (\<lambda>h. 2),
     is_terminal = (\<lambda>l. 3 < l), confirmed_block = (\<lambda>l. l \<le> 3), associated_block = (\<lambda>l. True), get_height = Some,
     header_key = ucast, header_of = (\<lambda>l. Some sample_header_info),
     get_tx_count = (\<lambda>l. 2), branch_tx_count = (\<lambda>l. 2 * (l + 1)),
     get_ancestry = (\<lambda>l n. Some (map (\<lambda>i. of_nat (unat l - i)) [0..<unat n])), branch_work = (\<lambda>l. None), filter_enabled = True,
     filter_body = (\<lambda>l. Some (if l = 2 then [1] else [0])), filter_head = (\<lambda>l. None),
     context_of = \<lparr>to_confirmed_child = (\<lambda>l. l), get_context_mtp = (\<lambda>l. Some 7), get_header_key = (\<lambda>l. 0), confirmed_chain_state_mtp = (\<lambda>k. None)\<rparr>,
     get_block = (\<lambda>l. Some \<lparr>block_tx_list = [sample_tx_info], block_head = sample_header_info, hashed_object = Map.empty,
        verbose_object = Map.empty, stat_view = sample_stat_block\<rparr>),
     populated = (\<lambda>l. True), block_hex = (\<lambda>l. None), header_hex = (\<lambda>l. None), unconfirmed_history = (\<lambda>k. None),
     pooled_tx = (\<lambda>k. None), indexed_addresses = False, store_size = 0, taproot_active = (\<lambda>l. None), tx_confirmed_at = (\<lambda>h. None)\<rparr>"

lemma sample_chain_laws: "chain_laws sample_chain_view"
  by (auto simp: chain_laws_def sample_chain_view_def)



theorem chain_tx_window_witness:
  "\<exists>out height. handle_get_chain_tx_stats sample_chain_lib sample_chain_view False 2 [] = Reply (Object out) \<and>
     out ''window_final_block_height'' = Some (U64 height) \<and> height \<le> top_confirmed sample_chain_view"
proof -
  obtain out where "handle_get_chain_tx_stats sample_chain_lib sample_chain_view False 2 [] = Reply (Object out)"
    by (simp add: handle_get_chain_tx_stats_def reply_of_def stats_window_def sample_chain_lib_def sample_chain_view_def
        sample_header_info_def Let_def)
  then show ?thesis using chain_tx_window [OF sample_chain_laws] by blast
qed

theorem descriptor_activity_exact_witness:
  "\<exists>out. do_get_descriptor_activity sample_derive (\<lambda>g. g) sample_chain_lib sample_chain_view [String ''b''] [String ''pk''] False =
     Some (Reply (Object out)) \<and>
     (\<exists>scripts hashes. out = [''activity'' \<mapsto> Array (concat (map
        (block_activity sample_chain_lib sample_chain_view ((\<lambda>script. base16_of sample_chain_lib script) ` set scripts)) hashes))])"
proof -
  have "\<exists>out. do_get_descriptor_activity sample_derive (\<lambda>g. g) sample_chain_lib sample_chain_view [String ''b''] [String ''pk''] False =
      Some (Reply (Object out))"
    using sample_expand by (simp add: do_get_descriptor_activity_def reply_of_def sample_chain_lib_def sample_chain_view_def Let_def)
  moreover have "script_bytes sample_chain_lib = (\<lambda>s. s)" by (simp add: sample_chain_lib_def)
  ultimately show ?thesis by (force dest: descriptor_activity_exact)
qed

end
