(* ===== verification/Bitcoind_Mempool.thy ===== *)
theory Bitcoind_Mempool
  imports Bitcoind_Chain
begin

text \<open>
  The mempool and output queries of the bitcoind service, the rest of the handlers of
  \<open>protocol_bitcoind_blockchain.cpp\<close> with the mempool objects of \<open>serializers/bitcoind_json.cpp\<close>: \<open>gettxout\<close>,
  \<open>gettxspendingprevout\<close>, the mempool entries, and the import and save of the mempool file. The file format is that
  of theory \<open>Chain_Util\<close>.
\<close>

subsection \<open>Data\<close>

record pool_entry =
  entry_bytes :: u64
  entry_fee :: u64
  entry_height :: u64
  entry_weight :: u64
  entry_time :: u32
  ancestor_fee :: u64
  ancestor_bytes :: u64
  ancestor_count :: u64
  descendant_fee :: u64
  descendant_bytes :: u64
  descendant_count :: u64

text \<open>
  Transactions are known by links \<open>'t\<close>, outputs by \<open>'o\<close>; a query without result is None, as a terminal link. The
  fees, sizes, time and totals of a pooled transaction are one query here: it fails when one of them does.
\<close>

record ('t, 'o, 's) pool_archive =
  best_height' :: "u64 option"
  best_key :: hash_digest
  output_of :: "hash_digest \<Rightarrow> u32 \<Rightarrow> 'o option"
  confirmed_spent :: "'o \<Rightarrow> bool"
  confirmable_spent :: "'o \<Rightarrow> bool"
  output_at :: "'o \<Rightarrow> 's put option"
  output_tx :: "'o \<Rightarrow> 't option"
  tx_height :: "'t \<Rightarrow> u64 option"
  pooled :: "'t \<Rightarrow> bool"
  confirmable :: "'t \<Rightarrow> bool"
  coinbase_tx :: "'t \<Rightarrow> bool"
  duplicates :: "hash_digest \<Rightarrow> 't list"
  tx_key :: "'t \<Rightarrow> hash_digest"
  tx_wtxid :: "'t \<Rightarrow> hash_digest"
  tx_hex :: "'t \<Rightarrow> string option"
  confirmable_spender :: "hash_digest \<times> u32 \<Rightarrow> 't option"
  confirmed_spender :: "hash_digest \<times> u32 \<Rightarrow> 't option"
  block_key :: "'t \<Rightarrow> hash_digest"
  ancestors_of :: "'t \<Rightarrow> 't list"
  descendants_of :: "'t \<Rightarrow> 't list"
  parents_of :: "'t \<Rightarrow> 't list"
  children_of :: "'t \<Rightarrow> 't list"
  entry_of :: "'t \<Rightarrow> pool_entry option"
  confirmable_txs :: "'t list option"
  confirmable_fees :: "fee_rate list option"
  store_space :: "u64 option"
  spends_size :: u64
  wtxid_size :: u64
  pool_size :: u64

subsection \<open>Objects\<close>

definition mempool_entry :: "'s chain_lib \<Rightarrow> ('t, 'o, 's) pool_archive \<Rightarrow> 't \<Rightarrow> object_t option" where
  "mempool_entry L Q link =
     map_option (\<lambda>e.
       [''vsize'' \<mapsto> U64 (entry_bytes e),
        ''weight'' \<mapsto> U64 (entry_weight e),
        ''time'' \<mapsto> U32 (entry_time e),
        ''height'' \<mapsto> U64 (entry_height e - 1),
        ''descendantcount'' \<mapsto> U64 (descendant_count e),
        ''descendantsize'' \<mapsto> U64 (descendant_bytes e),
        ''ancestorcount'' \<mapsto> U64 (ancestor_count e),
        ''ancestorsize'' \<mapsto> U64 (ancestor_bytes e),
        ''wtxid'' \<mapsto> hash_value L (tx_wtxid Q link),
        ''fees'' \<mapsto> Object
          [''base'' \<mapsto> Number (coins_of L (entry_fee e)),
           ''modified'' \<mapsto> Number (coins_of L (entry_fee e)),
           ''ancestor'' \<mapsto> Number (coins_of L (ancestor_fee e)),
           ''descendant'' \<mapsto> Number (coins_of L (descendant_fee e))],
        ''depends'' \<mapsto> Array (map (\<lambda>fk. hash_value L (tx_key Q fk)) (parents_of Q link)),
        ''spentby'' \<mapsto> Array (map (\<lambda>fk. hash_value L (tx_key Q fk)) (children_of Q link)),
        ''bip125-replaceable'' \<mapsto> Boolean False,
        ''unbroadcast'' \<mapsto> Boolean False]) (entry_of Q link)"

text \<open>The entries by transaction text; a later entry of the same text replaces an earlier one.\<close>

fun mempool_entries_of :: "'s chain_lib \<Rightarrow> ('t, 'o, 's) pool_archive \<Rightarrow> 't list \<Rightarrow> object_t \<Rightarrow> object_t option" where
  "mempool_entries_of L Q [] entries = Some entries"
| "mempool_entries_of L Q (link # links) entries =
     (case mempool_entry L Q link of
        None \<Rightarrow> None
      | Some entry \<Rightarrow> mempool_entries_of L Q links (entries(text_of L (tx_key Q link) \<mapsto> Object entry)))"

definition mempool_txs :: "'s chain_lib \<Rightarrow> ('t, 'o, 's) pool_archive \<Rightarrow> 't list \<Rightarrow> bool \<Rightarrow> value_t option" where
  "mempool_txs L Q links verbose =
     (if verbose then map_option Object (mempool_entries_of L Q links Map.empty)
      else Some (Array (map (\<lambda>link. hash_value L (tx_key Q link)) links)))"

definition raw_mempool :: "'s chain_lib \<Rightarrow> ('t, 'o, 's) pool_archive \<Rightarrow> bool \<Rightarrow> bool \<Rightarrow> value_t option" where
  "raw_mempool L Q verbose sequence =
     Option.bind (confirmable_txs Q) (\<lambda>links.
       map_option (\<lambda>txs. if verbose \<or> \<not> sequence then txs
           else Object [''txids'' \<mapsto> txs, ''mempool_sequence'' \<mapsto> I64 1])
         (mempool_txs L Q links verbose))"

definition mempool_info ::
  "'d float_lib \<Rightarrow> 's chain_lib \<Rightarrow> ('t, 'o, 's) pool_archive \<Rightarrow> double \<Rightarrow> double \<Rightarrow> double \<Rightarrow> object_t option" where
  "mempool_info F L Q minimum relay increment =
     (case (confirmable_fees Q, store_space Q) of
        (Some rates', Some space) \<Rightarrow>
          let size' = foldl (\<lambda>n rate. ceilinged_add F n (bytes rate)) 0 rates';
              fee' = foldl (\<lambda>n rate. ceilinged_add F n (fee rate)) 0 rates' in
          Some [''loaded'' \<mapsto> Boolean True,
            ''size'' \<mapsto> U64 (of_nat (length rates')),
            ''bytes'' \<mapsto> U64 size',
            ''usage'' \<mapsto> U64 (ceilinged_add F (pool_size Q) (ceilinged_add F (spends_size Q) (wtxid_size Q))),
            ''total_fee'' \<mapsto> Number (coins_of L fee'),
            ''maxmempool'' \<mapsto> U64 space,
            ''mempoolminfee'' \<mapsto> Number minimum,
            ''minrelaytxfee'' \<mapsto> Number relay,
            ''incrementalrelayfee'' \<mapsto> Number increment,
            ''unbroadcastcount'' \<mapsto> I64 0,
            ''fullrbf'' \<mapsto> Boolean False]
      | _ \<Rightarrow> None)"

text \<open>A query off the strand either fails or completes with a value.\<close>

definition complete_value :: "bool \<Rightarrow> string \<Rightarrow> value_t option \<Rightarrow> bitcoind_reply" where
  "complete_value stopped name result =
     unless stopped (case result of None \<Rightarrow> fails name | Some item \<Rightarrow> Reply item)"

subsection \<open>Mempool queries\<close>

definition to_mempool_tx :: "('t, 'o, 's) pool_archive \<Rightarrow> hash_digest \<Rightarrow> 't option" where
  "to_mempool_tx Q hash = find (\<lambda>link. pooled Q link \<and> confirmable Q link) (duplicates Q hash)"

definition get_mempool_relatives :: "'s chain_lib \<Rightarrow> bool \<Rightarrow> string \<Rightarrow> bitcoind_reply + hash_digest" where
  "get_mempool_relatives L stopped text' =
     (if stopped then Inl No_Reply
      else case hash_of L text' of None \<Rightarrow> Inl (fails ''invalid_parameter'') | Some hash \<Rightarrow> Inr hash)"

definition do_get_mempool_relatives ::
  "'s chain_lib \<Rightarrow> ('t, 'o, 's) pool_archive \<Rightarrow> bool \<Rightarrow> hash_digest \<Rightarrow> bool \<Rightarrow> bool \<Rightarrow> bitcoind_reply" where
  "do_get_mempool_relatives L Q stopped hash verbose ancestors =
     (case to_mempool_tx Q hash of
        None \<Rightarrow> complete_value stopped ''invalid_address_or_key'' None
      | Some link \<Rightarrow>
          complete_value stopped ''internal_error''
            (mempool_txs L Q (if ancestors then ancestors_of Q link else descendants_of Q link) verbose))"

definition do_get_mempool_entry ::
  "'s chain_lib \<Rightarrow> ('t, 'o, 's) pool_archive \<Rightarrow> bool \<Rightarrow> hash_digest \<Rightarrow> bitcoind_reply" where
  "do_get_mempool_entry L Q stopped hash =
     (case to_mempool_tx Q hash of
        None \<Rightarrow> complete_value stopped ''invalid_address_or_key'' None
      | Some link \<Rightarrow> complete_value stopped ''internal_error'' (map_option Object (mempool_entry L Q link)))"

definition do_get_mempool_info ::
  "'d float_lib \<Rightarrow> 's chain_lib \<Rightarrow> ('t, 'o, 's) pool_archive \<Rightarrow> bool \<Rightarrow> double \<Rightarrow> double \<Rightarrow> double \<Rightarrow> bitcoind_reply" where
  "do_get_mempool_info F L Q stopped minimum relay increment =
     complete_value stopped ''internal_error'' (map_option Object (mempool_info F L Q minimum relay increment))"

definition handle_get_raw_mempool :: "bool \<Rightarrow> bool \<Rightarrow> bool \<Rightarrow> bitcoind_reply option" where
  "handle_get_raw_mempool stopped verbose sequence =
     (if stopped then Some No_Reply else if verbose \<and> sequence then Some (fails ''invalid_params'') else None)"

definition do_get_raw_mempool ::
  "'s chain_lib \<Rightarrow> ('t, 'o, 's) pool_archive \<Rightarrow> bool \<Rightarrow> bool \<Rightarrow> bool \<Rightarrow> bitcoind_reply" where
  "do_get_raw_mempool L Q stopped verbose sequence =
     complete_value stopped ''internal_error'' (raw_mempool L Q verbose sequence)"

subsection \<open>gettxout\<close>

definition handle_get_tx_out ::
  "'s chain_lib \<Rightarrow> (double \<Rightarrow> u32 option) \<Rightarrow> ('t, 'o, 's) pool_archive \<Rightarrow> bool \<Rightarrow> string \<Rightarrow> double \<Rightarrow> bool \<Rightarrow> bitcoind_reply" where
  "handle_get_tx_out L as_u32 Q stopped text' n include_mempool =
     unless stopped (case (hash_of L text', as_u32 n) of
         (Some hash, Some index) \<Rightarrow>
           (case output_of Q hash index of
              None \<Rightarrow> Reply Null
            | Some out \<Rightarrow>
                if confirmed_spent Q out \<or> (include_mempool \<and> confirmable_spent Q out) then Reply Null
                else (case (output_at Q out, output_tx Q out, best_height' Q) of
                    (Some p, Some tx, Some top') \<Rightarrow>
                      let answer = (\<lambda>depth. Reply (Object
                            [''bestblock'' \<mapsto> hash_value L (best_key Q),
                             ''confirmations'' \<mapsto> U64 depth,
                             ''value'' \<mapsto> Number (coins_of L (put_value p)),
                             ''scriptPubKey'' \<mapsto> to_script_public_key L (put_script p),
                             ''coinbase'' \<mapsto> Boolean (coinbase_tx Q tx)])) in
                      (case tx_height Q tx of
                         Some height \<Rightarrow> answer (floored top' height + 1)
                       | None \<Rightarrow>
                           if \<not> include_mempool \<or> \<not> pooled Q tx \<or> \<not> confirmable Q tx then Reply Null else answer 0)
                  | _ \<Rightarrow> fails ''internal_error''))
       | _ \<Rightarrow> fails ''invalid_parameter'')"

subsection \<open>gettxspendingprevout\<close>

text \<open>The options by name in the order of the object: the flags, or None for an option that is refused.\<close>

fun spending_options :: "(string \<times> value_t) list \<Rightarrow> bool \<times> bool \<Rightarrow> (bool \<times> bool) option" where
  "spending_options [] flags' = Some flags'"
| "spending_options ((name, item) # rest) flags' =
     (case item of
        Boolean flag \<Rightarrow>
          if name = ''mempool_only'' then spending_options rest (flag, snd flags')
          else if name = ''return_spending_tx'' then spending_options rest (fst flags', flag)
          else None
      | _ \<Rightarrow> None)"

definition spending_point ::
  "'s chain_lib \<Rightarrow> (double \<Rightarrow> u32 option) \<Rightarrow> value_t \<Rightarrow> bitcoind_reply + hash_digest \<times> u32" where
  "spending_point L as_u32 output =
     (case output of
        Object members \<Rightarrow>
          if card (dom members) \<noteq> 2 then Inl (fails ''type_error'')
          else (case (members ''txid'', members ''vout'') of
              (Some (String text'), Some (Number number)) \<Rightarrow>
                (case (hash_of L text', as_u32 number) of
                   (Some hash, Some index) \<Rightarrow> Inr (hash, index)
                 | _ \<Rightarrow> Inl (fails ''invalid_parameter''))
            | _ \<Rightarrow> Inl (fails ''type_error''))
      | _ \<Rightarrow> Inl (fails ''type_error''))"

fun spending_points ::
  "'s chain_lib \<Rightarrow> (double \<Rightarrow> u32 option) \<Rightarrow> value_t list \<Rightarrow> bitcoind_reply + (hash_digest \<times> u32) list" where
  "spending_points L as_u32 [] = Inr []"
| "spending_points L as_u32 (output # outputs') =
     sum_bind (spending_point L as_u32 output) (\<lambda>prevout.
       map_sum id ((#) prevout) (spending_points L as_u32 outputs'))"

definition handle_get_tx_spending_prevout ::
  "'s chain_lib \<Rightarrow> (double \<Rightarrow> u32 option) \<Rightarrow> bool \<Rightarrow> value_t list \<Rightarrow> (string \<times> value_t) list \<Rightarrow>
   bitcoind_reply + (hash_digest \<times> u32) list \<times> bool \<times> bool" where
  "handle_get_tx_spending_prevout L as_u32 stopped outputs' options =
     (if stopped then Inl No_Reply
      else if outputs' = [] then Inl (fails ''invalid_parameter'')
      else case spending_options options (False, False) of
          None \<Rightarrow> Inl (fails ''type_error'')
        | Some flags' \<Rightarrow> map_sum id (\<lambda>prevouts. (prevouts, flags')) (spending_points L as_u32 outputs'))"

definition spending_result ::
  "'s chain_lib \<Rightarrow> ('t, 'o, 's) pool_archive \<Rightarrow> bool \<Rightarrow> bool \<Rightarrow> hash_digest \<times> u32 \<Rightarrow> object_t option" where
  "spending_result L Q mempool_only return_tx prevout =
     (let result = [''txid'' \<mapsto> hash_value L (fst prevout), ''vout'' \<mapsto> U32 (snd prevout)];
          unconfirmed = confirmable_spender Q prevout;
          spender = (if unconfirmed = None \<and> \<not> mempool_only then confirmed_spender Q prevout else unconfirmed);
          confirmed = (unconfirmed = None \<and> \<not> mempool_only \<and> spender \<noteq> None) in
      case spender of
        None \<Rightarrow> Some result
      | Some tx \<Rightarrow>
          let result = result(''spendingtxid'' \<mapsto> hash_value L (tx_key Q tx)) in
          (if return_tx \<and> tx_hex Q tx = None then None
           else
             let result = put_if return_tx ''spendingtx'' (String (the (tx_hex Q tx))) result in
             Some (put_if confirmed ''blockhash'' (hash_value L (block_key Q tx)) result)))"

fun spending_results ::
  "'s chain_lib \<Rightarrow> ('t, 'o, 's) pool_archive \<Rightarrow> bool \<Rightarrow> bool \<Rightarrow> (hash_digest \<times> u32) list \<Rightarrow> value_t list option" where
  "spending_results L Q mempool_only return_tx [] = Some []"
| "spending_results L Q mempool_only return_tx (prevout # prevouts) =
     (case spending_result L Q mempool_only return_tx prevout of
        None \<Rightarrow> None
      | Some result \<Rightarrow> map_option ((#) (Object result)) (spending_results L Q mempool_only return_tx prevouts))"

definition do_get_tx_spending_prevout ::
  "'s chain_lib \<Rightarrow> ('t, 'o, 's) pool_archive \<Rightarrow> bool \<Rightarrow> (hash_digest \<times> u32) list \<Rightarrow> bool \<Rightarrow> bool \<Rightarrow> bitcoind_reply" where
  "do_get_tx_spending_prevout L Q stopped prevouts mempool_only return_tx =
     complete_value stopped ''internal_error'' (map_option Array (spending_results L Q mempool_only return_tx prevouts))"

subsection \<open>Saving and importing the mempool file\<close>

text \<open>
  Files by path. The outcome of the file operations is an argument: the absolute path, whether the temporary file
  is written (with what is left of it otherwise) and whether it is renamed.
\<close>

type_synonym files = "string \<rightharpoonup> u8 list"

definition do_save_mempool ::
  "'x file_lib \<Rightarrow> ('x, 'l) pool_view \<Rightarrow> bool \<Rightarrow> string \<Rightarrow> string option \<Rightarrow> u8 list option + unit \<Rightarrow> bool \<Rightarrow> files \<Rightarrow>
   files \<times> bitcoind_reply" where
  "do_save_mempool F P stopped path absolute written renamed files' =
     (case serialize_mempool F P of
        None \<Rightarrow> (files', unless stopped (fails ''misc_error''))
      | Some data \<Rightarrow>
          let temporary = path @ ''.new'' in
          (case absolute of
             None \<Rightarrow> (files', unless stopped (fails ''misc_error''))
           | Some text' \<Rightarrow>
               (case written of
                  Inl part \<Rightarrow> (files'(temporary := part), unless stopped (fails ''misc_error''))
                | Inr _ \<Rightarrow>
                    if \<not> renamed then (files'(temporary \<mapsto> data), unless stopped (fails ''misc_error''))
                    else (files'(path \<mapsto> data, temporary := None),
                          unless stopped (Reply (Object [''filename'' \<mapsto> String text']))))))"

definition handle_import_mempool :: "bool \<Rightarrow> (string \<times> value_t) list \<Rightarrow> bitcoind_reply option" where
  "handle_import_mempool stopped options =
     (if stopped then Some No_Reply
      else if list_all (\<lambda>option'. case snd option' of Boolean _ \<Rightarrow> True | _ \<Rightarrow> False) options then None
      else Some (fails ''type_error''))"

text \<open>The transactions of the file, None when it does not open or does not parse.\<close>

definition do_import_mempool :: "'x file_lib \<Rightarrow> files \<Rightarrow> string \<Rightarrow> 'x list option" where
  "do_import_mempool F files' filepath = Option.bind (files' filepath) (parse_mempool F)"

text \<open>
  The import of a list of transactions: a posted job, a submission that has not completed, or the end. The
  submissions and replies are recorded.
\<close>

datatype import_phase = Next_Posted | Submitting | Import_Ended

record 'x import_state =
  import_index :: nat
  import_phase :: import_phase
  submitted :: "'x list"
  import_replies :: "bitcoind_reply list"

definition import_start :: "'x import_state" where
  "import_start = \<lparr>import_index = 0, import_phase = Next_Posted, submitted = [], import_replies = []\<rparr>"

definition next_import :: "bool \<Rightarrow> 'x list \<Rightarrow> 'x import_state \<Rightarrow> 'x import_state" where
  "next_import stopped txs s =
     (if stopped then s\<lparr>import_phase := Import_Ended\<rparr>
      else if import_index s = length txs
      then s\<lparr>import_phase := Import_Ended, import_replies := import_replies s @ [Reply (Object Map.empty)]\<rparr>
      else s\<lparr>import_phase := Submitting, submitted := submitted s @ [txs ! import_index s]\<rparr>)"

text \<open>The result of a submission is ignored.\<close>

definition handle_import :: "code \<Rightarrow> 'x import_state \<Rightarrow> 'x import_state" where
  "handle_import ec s = s\<lparr>import_phase := Next_Posted, import_index := import_index s + 1\<rparr>"

text \<open>The states of an import; the channel may stop at any time.\<close>

inductive importing :: "'x list \<Rightarrow> bool \<times> 'x import_state \<Rightarrow> bool" for txs where
  start: "importing txs (False, import_start)"
| job: "importing txs (stopped, s) \<Longrightarrow> import_phase s = Next_Posted \<Longrightarrow> importing txs (stopped, next_import stopped txs s)"
| completed: "importing txs (stopped, s) \<Longrightarrow> import_phase s = Submitting \<Longrightarrow> importing txs (stopped, handle_import ec s)"
| stop: "importing txs (stopped, s) \<Longrightarrow> importing txs (True, s)"

definition import_inv :: "'x list \<Rightarrow> bool \<Rightarrow> 'x import_state \<Rightarrow> bool" where
  "import_inv txs stopped s \<longleftrightarrow>
     import_index s \<le> length txs \<and>
     (case import_phase s of
        Next_Posted \<Rightarrow> submitted s = take (import_index s) txs \<and> import_replies s = []
      | Submitting \<Rightarrow> import_index s < length txs \<and> submitted s = take (Suc (import_index s)) txs \<and> import_replies s = []
      | Import_Ended \<Rightarrow>
          (submitted s = txs \<and> import_replies s = [Reply (Object Map.empty)]) \<or>
          (stopped \<and> submitted s = take (import_index s) txs \<and> import_replies s = []))"

lemma importing_inv: "importing txs x \<Longrightarrow> import_inv txs (fst x) (snd x)"
proof (induction rule: importing.induct)
  case (job stopped s)
  then show ?case by (auto simp: import_inv_def next_import_def take_Suc_conv_app_nth)
next
  case (completed stopped s ec)
  then show ?case by (simp add: import_inv_def handle_import_def)
next
  case (stop stopped s)
  then show ?case by (auto simp: import_inv_def split: import_phase.splits)
qed (simp add: import_inv_def import_start_def)

text \<open>
  C27: Importing the mempool file of the server resubmits its mempool: after a save that succeeds the import reads
  the transactions of the pool, and submits them in order, each after the completion of the one
  before and whatever its result; when nothing is outstanding on a running channel all are submitted and one reply is
  sent. A save that fails leaves the file as it was.
\<close>

theorem mempool_save_import:
  assumes "file_laws F" "get_confirmable_txs P = Some links" "length links < 2 ^ 64"
    and save: "do_save_mempool F P False path absolute written renamed before = (after, reply)"
  shows "(reply = fails ''misc_error'' \<and> after path = before path) \<or>
    (\<exists>name. reply = Reply (Object [''filename'' \<mapsto> String name]) \<and>
       do_import_mempool F after path = Some (pool_txs P links) \<and>
       (\<forall>stopped s. importing (pool_txs P links) (stopped, s) \<longrightarrow>
          submitted s = take (length (submitted s)) (pool_txs P links) \<and> length (import_replies s) \<le> 1 \<and>
          (import_phase s = Import_Ended \<and> \<not> stopped \<longrightarrow>
             submitted s = pool_txs P links \<and> import_replies s = [Reply (Object Map.empty)])))"
proof (cases "\<exists>name. reply = Reply (Object [''filename'' \<mapsto> String name])")
  case False
  then show ?thesis using save by (auto simp: do_save_mempool_def Let_def split: option.splits sum.splits if_splits)
next
  case True
  then obtain data where data: "serialize_mempool F P = Some data" "after path = Some data"
    using save by (auto simp: do_save_mempool_def Let_def split: option.splits sum.splits if_splits)
  have "parse_mempool F data = Some (pool_txs P links)"
    using serialized_form [OF assms(1,2) data(1)] parse_plain [OF assms(1) _ assms(3)] by blast
  then have "do_import_mempool F after path = Some (pool_txs P links)" using data(2) by (simp add: do_import_mempool_def)
  moreover have "submitted s = take (length (submitted s)) (pool_txs P links) \<and> length (import_replies s) \<le> 1 \<and>
      (import_phase s = Import_Ended \<and> \<not> stopped \<longrightarrow>
         submitted s = pool_txs P links \<and> import_replies s = [Reply (Object Map.empty)])"
    if "importing (pool_txs P links) (stopped, s)" for stopped s
    using importing_inv [OF that] by (auto simp: import_inv_def min_def split: import_phase.splits)
  ultimately show ?thesis using True by blast
qed

lemma sample_file_laws: "file_laws sample_file"
  by (simp add: file_laws_def sample_file_def)

theorem mempool_save_import_witness:
  "\<exists>after. do_save_mempool sample_file sample_pool False ''m'' (Some ''/m'') (Inr ()) True Map.empty =
      (after, Reply (Object [''filename'' \<mapsto> String ''/m''])) \<and> do_import_mempool sample_file after ''m'' = Some [7, 8]"
proof -
  have links: "get_confirmable_txs sample_pool = Some [0, 1]" by (simp add: sample_pool_def)
  obtain after where save: "do_save_mempool sample_file sample_pool False ''m'' (Some ''/m'') (Inr ()) True Map.empty =
      (after, Reply (Object [''filename'' \<mapsto> String ''/m'']))"
    by (simp add: do_save_mempool_def serialize_mempool_def sample_pool_def)
  have "pool_txs sample_pool [0, 1] = [7, 8]" by (simp add: pool_txs_def sample_pool_def)
  then show ?thesis using mempool_save_import [OF sample_file_laws links _ save] save by simp
qed

text \<open>An import ends: every job or completion lowers the rank of the state.\<close>

definition import_rank :: "'x list \<Rightarrow> 'x import_state \<Rightarrow> nat" where
  "import_rank txs s = (case import_phase s of
     Next_Posted \<Rightarrow> 2 * (length txs - import_index s) + 1 | Submitting \<Rightarrow> 2 * (length txs - import_index s) | Import_Ended \<Rightarrow> 0)"

lemma import_rank_decreases:
  "importing txs (stopped, s) \<Longrightarrow> import_phase s = Next_Posted \<Longrightarrow> import_rank txs (next_import stopped txs s) < import_rank txs s"
  "importing txs (stopped, s) \<Longrightarrow> import_phase s = Submitting \<Longrightarrow> import_rank txs (handle_import ec s) < import_rank txs s"
  by (auto dest!: importing_inv simp: import_rank_def import_inv_def next_import_def handle_import_def)

end
