(* ===== verification/Bitcoind_Assembly.thy ===== *)
theory Bitcoind_Assembly
  imports Bitcoind_Chain
begin

text \<open>
  The assembly of transactions by the bitcoind service: \<open>createrawtransaction\<close> with \<open>parsers/bitcoind_transaction.cpp\<close>
  and \<open>combinerawtransaction\<close> with \<open>utilities/bitcoind_combine.cpp\<close>. Scripts \<open>'s\<close>, operations \<open>'o\<close>, public keys \<open>'k\<close>
  and signatures \<open>'g\<close> are types of the system library, which decodes and checks the signatures.
\<close>

subsection \<open>Transactions\<close>

record 's tx_input =
  point_hash :: hash_digest
  point_index :: u32
  input_script :: 's
  input_witness :: "u8 list list"
  input_sequence :: u32

record 's tx_form =
  form_version :: u32
  form_inputs :: "'s tx_input list"
  form_outputs :: "'s put list"
  form_locktime :: u32

definition max_input_sequence :: u32 where
  "max_input_sequence = 0xffffffff"

subsection \<open>Creation\<close>

text \<open>
  The conversions of json numbers, the order in which the members of an object are iterated, and the constants and
  scripts of the system and network libraries.
\<close>

record 's create_lib =
  number_u32 :: "double \<Rightarrow> u32 option"
  number_u64 :: "double \<Rightarrow> bool \<Rightarrow> u64 option"
  satoshi_per_bitcoin :: u64
  text_hash :: "string \<Rightarrow> hash_digest option"
  text_chunk :: "string \<Rightarrow> u8 list option"
  null_data_script :: "u8 list \<Rightarrow> 's"
  max_null_data_size :: nat
  empty_script :: 's
  bip125_sequence :: u32
  members_of :: "object_t \<Rightarrow> (string \<times> value_t) list"
  form_text :: "'s tx_form \<Rightarrow> bool \<Rightarrow> string"

definition default_sequence :: "'s create_lib \<Rightarrow> bool \<Rightarrow> u32 \<Rightarrow> u32" where
  "default_sequence C replaceable lock_time =
     (if replaceable then bip125_sequence C
      else if lock_time = 0 then max_input_sequence else max_input_sequence - 1)"

text \<open>One input of the request; an explicit sequence overrides the default.\<close>

definition parse_input :: "'s create_lib \<Rightarrow> u32 \<Rightarrow> value_t \<Rightarrow> code + 's tx_input" where
  "parse_input C sequence item =
     (case item of
        Object members \<Rightarrow>
          (case (members ''txid'', members ''vout'') of
             (Some (String txid_text), Some (Number vout_number)) \<Rightarrow>
               (case (text_hash C txid_text, number_u32 C vout_number) of
                  (Some hash, Some vout) \<Rightarrow>
                    (case (case members ''sequence'' of
                        None \<Rightarrow> Some sequence
                      | Some (Number explicit) \<Rightarrow> number_u32 C explicit
                      | Some _ \<Rightarrow> None) of
                       None \<Rightarrow> Inl (bitcoind_error ''invalid_parameter'')
                     | Some sequenced \<Rightarrow> Inr \<lparr>point_hash = hash, point_index = vout,
                         input_script = empty_script C, input_witness = [], input_sequence = sequenced\<rparr>)
                | _ \<Rightarrow> Inl (bitcoind_error ''invalid_parameter''))
           | _ \<Rightarrow> Inl (bitcoind_error ''invalid_parameter''))
      | _ \<Rightarrow> Inl (bitcoind_error ''type_error''))"

fun parse_inputs :: "'s create_lib \<Rightarrow> u32 \<Rightarrow> value_t list \<Rightarrow> 's tx_input list \<Rightarrow> code + 's tx_input list" where
  "parse_inputs C sequence [] ins = Inr ins"
| "parse_inputs C sequence (item # items) ins =
     sum_bind (parse_input C sequence item) (\<lambda>in'. parse_inputs C sequence items (ins @ [in']))"

text \<open>The amount of a json number of bitcoins, in satoshis; the conversion rounds to an integer.\<close>

definition number_satoshis :: "'s create_lib \<Rightarrow> double \<Rightarrow> u64 option" where
  "number_satoshis C bitcoins = number_u64 C (double_times bitcoins (double_of (satoshi_per_bitcoin C))) True"

text \<open>The output of a pair of name and value: the lambda \<open>append\<close>.\<close>

definition append_output ::
  "'s create_lib \<Rightarrow> ('p, 'w, 's) address_lib \<Rightarrow> address_prefixes \<Rightarrow> u64 \<Rightarrow> string \<Rightarrow> value_t \<Rightarrow> code + 's put" where
  "append_output C D pre maximum name item =
     (if name = ''data''
      then (case item of
          String chunk_text \<Rightarrow>
            (case text_chunk C chunk_text of
               Some data \<Rightarrow> if length data > max_null_data_size C then Inl (bitcoind_error ''invalid_parameter'')
                 else Inr \<lparr>put_value = 0, put_script = null_data_script C data\<rparr>
             | None \<Rightarrow> Inl (bitcoind_error ''invalid_parameter''))
        | _ \<Rightarrow> Inl (bitcoind_error ''invalid_parameter''))
      else case output_script D pre name of
          Inl _ \<Rightarrow> Inl (bitcoind_error ''invalid_address_or_key'')
        | Inr script \<Rightarrow>
            (case item of
               Number bitcoins \<Rightarrow>
                 (case number_satoshis C bitcoins of
                    Some satoshis \<Rightarrow> if satoshis > maximum then Inl (bitcoind_error ''type_error'')
                      else Inr \<lparr>put_value = satoshis, put_script = script\<rparr>
                  | None \<Rightarrow> Inl (bitcoind_error ''type_error''))
             | _ \<Rightarrow> Inl (bitcoind_error ''type_error'')))"

fun append_pairs ::
  "'s create_lib \<Rightarrow> ('p, 'w, 's) address_lib \<Rightarrow> address_prefixes \<Rightarrow> u64 \<Rightarrow> (string \<times> value_t) list \<Rightarrow> 's put list \<Rightarrow>
    code + 's put list" where
  "append_pairs C D pre maximum [] outs = Inr outs"
| "append_pairs C D pre maximum ((name, item) # pairs) outs =
     sum_bind (append_output C D pre maximum name item) (\<lambda>out. append_pairs C D pre maximum pairs (outs @ [out]))"

fun append_objects ::
  "'s create_lib \<Rightarrow> ('p, 'w, 's) address_lib \<Rightarrow> address_prefixes \<Rightarrow> u64 \<Rightarrow> value_t list \<Rightarrow> 's put list \<Rightarrow>
    code + 's put list" where
  "append_objects C D pre maximum [] outs = Inr outs"
| "append_objects C D pre maximum (element # elements) outs =
     (case element of
        Object members \<Rightarrow> sum_bind (append_pairs C D pre maximum (members_of C members) outs)
          (\<lambda>outs. append_objects C D pre maximum elements outs)
      | _ \<Rightarrow> Inl (bitcoind_error ''type_error''))"

definition parse_outputs ::
  "'s create_lib \<Rightarrow> ('p, 'w, 's) address_lib \<Rightarrow> address_prefixes \<Rightarrow> u64 \<Rightarrow> value_t \<Rightarrow> code + 's put list" where
  "parse_outputs C D pre maximum outputs' =
     (case outputs' of
        Object members \<Rightarrow> append_pairs C D pre maximum (members_of C members) []
      | Array elements \<Rightarrow> append_objects C D pre maximum elements []
      | _ \<Rightarrow> Inl (bitcoind_error ''type_error''))"

definition parse_transaction ::
  "'s create_lib \<Rightarrow> ('p, 'w, 's) address_lib \<Rightarrow> address_prefixes \<Rightarrow> value_t list \<Rightarrow> value_t \<Rightarrow> double \<Rightarrow> bool \<Rightarrow>
    double \<Rightarrow> u64 \<Rightarrow> code + 's tx_form" where
  "parse_transaction C D pre inputs' outputs' locktime replaceable version maximum =
     (case number_u32 C locktime of
        None \<Rightarrow> Inl (bitcoind_error ''invalid_parameter'')
      | Some lock_time \<Rightarrow>
          (case number_u32 C version of
             None \<Rightarrow> Inl (bitcoind_error ''invalid_parameter'')
           | Some tx_version \<Rightarrow>
               if tx_version = 0 \<or> tx_version > 3 then Inl (bitcoind_error ''invalid_parameter'')
               else sum_bind (parse_inputs C (default_sequence C replaceable lock_time) inputs' []) (\<lambda>ins.
                 sum_bind (parse_outputs C D pre maximum outputs') (\<lambda>outs.
                   Inr \<lparr>form_version = tx_version, form_inputs = ins, form_outputs = outs, form_locktime = lock_time\<rparr>))))"

definition handle_create_raw_transaction ::
  "'s create_lib \<Rightarrow> ('p, 'w, 's) address_lib \<Rightarrow> address_prefixes \<Rightarrow> u64 \<Rightarrow> bool \<Rightarrow> value_t list \<Rightarrow> value_t \<Rightarrow> double \<Rightarrow>
    bool \<Rightarrow> double \<Rightarrow> bitcoind_reply" where
  "handle_create_raw_transaction C D pre max_money stopped inputs' outputs' locktime replaceable version =
     unless stopped
       (case parse_transaction C D pre inputs' outputs' locktime replaceable version max_money of
          Inl fault \<Rightarrow> Send_Error fault
        | Inr tx \<Rightarrow> Reply_Hex (form_text C tx False))"

subsection \<open>Combination\<close>

record ('s, 'o, 'k, 'g) combine_lib =
  multisig_required :: "'s \<Rightarrow> nat"
  multisig_keys :: "'s \<Rightarrow> 'k list"
  endorsements_of :: "'s \<Rightarrow> u8 list list"
  script_ops :: "'s \<Rightarrow> 'o list"
  script_from :: "'o list \<Rightarrow> 's"
  script_of_chunk :: "u8 list \<Rightarrow> 's"
  script_data :: "'s \<Rightarrow> u8 list"
  extract_sigop_script :: "'s \<Rightarrow> 's \<Rightarrow> 's option"
  pays_script_hash :: "'s \<Rightarrow> bool"
  pays_witness_script_hash :: "'s \<Rightarrow> bool"
  is_endorsement :: "u8 list \<Rightarrow> bool"
  push_size_0 :: 'o
  push_data :: "u8 list \<Rightarrow> 'o"
  op_data :: "'o \<Rightarrow> u8 list"
  decode_signature :: "u8 list \<Rightarrow> 'g option"
  check_signature :: "'s tx_form \<Rightarrow> 'g \<Rightarrow> 'k \<Rightarrow> 's \<Rightarrow> u32 \<Rightarrow> u64 \<Rightarrow> u8 \<Rightarrow> bool \<Rightarrow> bool"
  combine_chunk :: "string \<Rightarrow> u8 list option"
  combine_tx :: "u8 list \<Rightarrow> 's tx_form option"
  combined_text :: "'s tx_form \<Rightarrow> bool \<Rightarrow> string"

text \<open>The output of a point, unless it is unknown, and whether it is spent by a confirmed transaction.\<close>

record 's prevout_view =
  prevout_at :: "hash_digest \<Rightarrow> u32 \<Rightarrow> 's put option"
  prevout_spent :: "hash_digest \<Rightarrow> u32 \<Rightarrow> bool"

text \<open>The endorsement is not empty, its signature decodes, and verifies under the key; \<open>segwit\<close> is the script version.\<close>

definition endorses ::
  "('s, 'o, 'k, 'g) combine_lib \<Rightarrow> 's tx_form \<Rightarrow> u32 \<Rightarrow> u64 \<Rightarrow> 's \<Rightarrow> bool \<Rightarrow> 'k \<Rightarrow> u8 list \<Rightarrow> bool" where
  "endorses B tx index value' subscript segwit key endorse =
     (endorse \<noteq> [] \<and>
      (case decode_signature B (butlast endorse) of
         None \<Rightarrow> False
       | Some signature \<Rightarrow> check_signature B tx signature key subscript index value' (last endorse) segwit))"

text \<open>The loop over the keys; the inner loop finds the first unused endorsement of the key.\<close>

fun merge_loop :: "('k \<Rightarrow> u8 list \<Rightarrow> bool) \<Rightarrow> (u8 list \<Rightarrow> 'o) \<Rightarrow> nat \<Rightarrow> u8 list list \<Rightarrow> 'k list \<Rightarrow> nat list \<Rightarrow> 'o list \<Rightarrow> 'o list" where
  "merge_loop verifies push required sigs [] taken ops = ops"
| "merge_loop verifies push required sigs (key # keys) taken ops =
     (if length ops = required then ops
      else case find (\<lambda>sig. sig \<notin> set taken \<and> verifies key (sigs ! sig)) [0..<length sigs] of
          None \<Rightarrow> merge_loop verifies push required sigs keys taken ops
        | Some sig \<Rightarrow> merge_loop verifies push required sigs keys (sig # taken) (ops @ [push (sigs ! sig)]))"

definition merge_endorsements ::
  "('s, 'o, 'k, 'g) combine_lib \<Rightarrow> 's tx_form \<Rightarrow> u32 \<Rightarrow> u64 \<Rightarrow> 's \<Rightarrow> bool \<Rightarrow> u8 list list \<Rightarrow> 'o list" where
  "merge_endorsements B tx index value' subscript segwit sigs =
     merge_loop (endorses B tx index value' subscript segwit) (push_data B)
       (multisig_required B subscript + 1) sigs (multisig_keys B subscript) [] [push_size_0 B]"

text \<open>The candidates of an input: a variant with fewer inputs contributes none.\<close>

definition candidates :: "'s tx_form list \<Rightarrow> nat \<Rightarrow> 's tx_input list" where
  "candidates variants index =
     map (\<lambda>variant. form_inputs variant ! index) (filter (\<lambda>variant. index < length (form_inputs variant)) variants)"

text \<open>The first candidate whose embedded script is a multisig script, of a script hash and of a witness script hash.\<close>

definition embedded_multisig :: "('s, 'o, 'k, 'g) combine_lib \<Rightarrow> 's \<Rightarrow> 's \<Rightarrow> 's option" where
  "embedded_multisig B pay candidate =
     (case extract_sigop_script B candidate pay of
        None \<Rightarrow> None
      | Some embedded \<Rightarrow> if multisig_required B embedded = 0 then None else Some embedded)"

definition partial_endorsements :: "('s, 'o, 'k, 'g) combine_lib \<Rightarrow> 's \<Rightarrow> u8 list list" where
  "partial_endorsements B other =
     (if script_ops B other = [] then [] else endorsements_of B (script_from B (butlast (script_ops B other))))"

definition witness_multisig :: "('s, 'o, 'k, 'g) combine_lib \<Rightarrow> u8 list list \<Rightarrow> (u8 list \<times> 's) option" where
  "witness_multisig B stack =
     (if stack = [] then None
      else let embedded = script_of_chunk B (last stack) in
        if multisig_required B embedded = 0 then None else Some (last stack, embedded))"

definition witness_endorsements :: "('s, 'o, 'k, 'g) combine_lib \<Rightarrow> u8 list list \<Rightarrow> u8 list list" where
  "witness_endorsements B elements =
     (if length elements < 2 then [] else filter (is_endorsement B) (butlast (tl elements)))"

fun first_some :: "('x \<Rightarrow> 'y option) \<Rightarrow> 'x list \<Rightarrow> 'y option" where
  "first_some f [] = None"
| "first_some f (x # xs) = (case f x of None \<Rightarrow> first_some f xs | Some y \<Rightarrow> Some y)"

definition combine_bare where
  "combine_bare B base index value' pay scripts =
     (if multisig_required B pay = 0 then None
      else let sigs = concat (map (endorsements_of B) scripts) in
        if sigs = [] then None
        else Some (script_from B (merge_endorsements B base index value' pay False sigs)))"

definition combine_script_hash where
  "combine_script_hash B base index value' pay scripts =
     (if \<not> pays_script_hash B pay then None
      else map_option (\<lambda>embedded.
          script_from B (merge_endorsements B base index value' embedded False
              (concat (map (partial_endorsements B) scripts)) @ [push_data B (script_data B embedded)]))
        (first_some (embedded_multisig B pay) scripts))"

definition combine_witness_hash where
  "combine_witness_hash B base index value' pay witnesses =
     (if \<not> pays_witness_script_hash B pay then None
      else map_option (\<lambda>(data, embedded).
          [] # filter (\<lambda>data. data \<noteq> []) (map (op_data B)
              (merge_endorsements B base index value' embedded True
                (concat (map (witness_endorsements B) witnesses)))) @ [data])
        (first_some (witness_multisig B) witnesses))"

definition combine_input ::
  "('s, 'o, 'k, 'g) combine_lib \<Rightarrow> 's prevout_view \<Rightarrow> 's tx_form list \<Rightarrow> u32 \<Rightarrow> code + 's tx_input" where
  "combine_input B Q variants index =
     (let base = hd variants;
          in' = form_inputs base ! unat index;
          scripts = map input_script (candidates variants (unat index));
          witnesses = map input_witness (candidates variants (unat index)) in
      case prevout_at Q (point_hash in') (point_index in') of
        None \<Rightarrow> Inl (bitcoind_error ''verify_error'')
      | Some prevout \<Rightarrow>
          if prevout_spent Q (point_hash in') (point_index in') then Inl (bitcoind_error ''verify_error'')
          else case combine_bare B base index (put_value prevout) (put_script prevout) scripts of
              Some script \<Rightarrow> Inr (in'\<lparr>input_script := script, input_witness := []\<rparr>)
            | None \<Rightarrow>
                (case combine_script_hash B base index (put_value prevout) (put_script prevout) scripts of
                   Some script \<Rightarrow> Inr (in'\<lparr>input_script := script, input_witness := []\<rparr>)
                 | None \<Rightarrow>
                     (case combine_witness_hash B base index (put_value prevout) (put_script prevout) witnesses of
                        Some stack \<Rightarrow> Inr (in'\<lparr>input_script := script_from B [], input_witness := stack\<rparr>)
                      | None \<Rightarrow> Inr (in'\<lparr>
                          input_script := (case find (\<lambda>candidate. script_ops B candidate \<noteq> []) scripts of
                            Some candidate \<Rightarrow> candidate | None \<Rightarrow> input_script in'),
                          input_witness := (case find (\<lambda>stack. stack \<noteq> []) witnesses of
                            Some stack \<Rightarrow> stack | None \<Rightarrow> input_witness in')\<rparr>))))"

fun decode_variants :: "('s, 'o, 'k, 'g) combine_lib \<Rightarrow> value_t list \<Rightarrow> 's tx_form list \<Rightarrow> 's tx_form list option" where
  "decode_variants B [] variants = Some variants"
| "decode_variants B (item # items) variants =
     (case item of
        String hex \<Rightarrow>
          (case Option.bind (combine_chunk B hex) (combine_tx B) of
             None \<Rightarrow> None
           | Some tx \<Rightarrow> decode_variants B items (variants @ [tx]))
      | _ \<Rightarrow> None)"

fun combine_inputs ::
  "('s, 'o, 'k, 'g) combine_lib \<Rightarrow> 's prevout_view \<Rightarrow> 's tx_form list \<Rightarrow> u32 list \<Rightarrow> 's tx_input list \<Rightarrow>
    code + 's tx_input list" where
  "combine_inputs B Q variants [] ins = Inr ins"
| "combine_inputs B Q variants (index # indexes) ins =
     sum_bind (combine_input B Q variants index) (\<lambda>combined. combine_inputs B Q variants indexes (ins @ [combined]))"

definition handle_combine_raw_transaction ::
  "('s, 'o, 'k, 'g) combine_lib \<Rightarrow> 's prevout_view \<Rightarrow> bool \<Rightarrow> value_t list \<Rightarrow> bitcoind_reply" where
  "handle_combine_raw_transaction B Q stopped txs =
     unless stopped
       (case decode_variants B txs [] of
          None \<Rightarrow> fails ''deserialization_error''
        | Some variants \<Rightarrow>
            if variants = [] then fails ''invalid_parameter''
            else let base = hd variants in
              (case combine_inputs B Q variants (map of_nat [0..<length (form_inputs base)]) [] of
                 Inl fault \<Rightarrow> Send_Error fault
               | Inr ins \<Rightarrow> Reply_Hex (combined_text B (base\<lparr>form_inputs := ins\<rparr>) True)))"

subsection \<open>What creation promises\<close>

lemma parse_inputs_all:
  "parse_inputs C sequence items ins = Inr out \<Longrightarrow>
    \<exists>ins'. out = ins @ ins' \<and> list_all2 (\<lambda>item in'. parse_input C sequence item = Inr in') items ins'"
  by (induction items arbitrary: ins) (fastforce simp: sum_bind_eq_Inr list_all2_Cons1)+

lemma small_version:
  assumes "v \<noteq> 0" "\<not> v > (3 :: u32)"
  shows "v \<in> {1, 2, 3}"
proof -
  have "unat v \<noteq> 0" "unat v \<le> 3" using assms by (simp_all add: unat_eq_0 not_less word_le_nat_alt)
  then consider "unat v = 1" | "unat v = 2" | "unat v = 3" by linarith
  moreover have "v = of_nat (unat v)" by simp
  ultimately show ?thesis by cases (metis insertCI of_nat_numeral of_nat_1)+
qed

lemma append_pairs_all:
  "append_pairs C D pre maximum pairs outs = Inr out \<Longrightarrow>
    \<exists>outs'. out = outs @ outs' \<and> list_all2 (\<lambda>(name, item) out. append_output C D pre maximum name item = Inr out) pairs outs'"
proof (induction pairs arbitrary: outs)
  case (Cons pair pairs)
  then show ?case by (cases pair) (fastforce simp: sum_bind_eq_Inr list_all2_Cons1)
qed simp

text \<open>The pairs of an outputs argument, in the order of iteration.\<close>

definition output_pairs :: "'s create_lib \<Rightarrow> value_t \<Rightarrow> (string \<times> value_t) list" where
  "output_pairs C outputs' =
     (case outputs' of
        Object members \<Rightarrow> members_of C members
      | Array elements \<Rightarrow> concat (map (\<lambda>element. case element of Object members \<Rightarrow> members_of C members | _ \<Rightarrow> []) elements)
      | _ \<Rightarrow> [])"

lemma append_objects_all:
  "append_objects C D pre maximum elements outs = Inr out \<Longrightarrow>
    \<exists>outs'. out = outs @ outs' \<and> list_all2 (\<lambda>(name, item) out. append_output C D pre maximum name item = Inr out)
      (output_pairs C (Array elements)) outs'"
proof (induction elements arbitrary: outs)
  case (Cons element elements)
  then obtain members middle where element: "element = Object members"
    and pairs: "append_pairs C D pre maximum (members_of C members) outs = Inr middle"
    and rest: "append_objects C D pre maximum elements middle = Inr out"
    by (auto simp: sum_bind_eq_Inr split: value_t.splits)
  show ?case
    using append_pairs_all [OF pairs] Cons.IH [OF rest] element
    by (fastforce simp: output_pairs_def intro: list_all2_appendI)
qed (simp add: output_pairs_def)

lemma parse_outputs_all:
  "parse_outputs C D pre maximum outputs' = Inr outs \<Longrightarrow>
    list_all2 (\<lambda>(name, item) out. append_output C D pre maximum name item = Inr out) (output_pairs C outputs') outs"
  using append_pairs_all [of C D pre maximum _ "[]" outs] append_objects_all [of C D pre maximum _ "[]" outs]
  by (auto simp: parse_outputs_def output_pairs_def split: value_t.splits)

text \<open>
  The specification of an input and of an output: the input is unsigned, at the point that its item names, with the
  default sequence unless the item has one; a data output carries no value, any other pays the address its value in
  satoshis.
\<close>

definition item_members :: "value_t \<Rightarrow> object_t" where
  "item_members item = (case item of Object members \<Rightarrow> members | _ \<Rightarrow> Map.empty)"

definition input_of_item :: "'s create_lib \<Rightarrow> u32 \<Rightarrow> value_t \<Rightarrow> 's tx_input \<Rightarrow> bool" where
  "input_of_item C sequence item in' \<longleftrightarrow>
     (\<exists>txid_text vout_number. item_members item ''txid'' = Some (String txid_text) \<and>
        item_members item ''vout'' = Some (Number vout_number) \<and>
        text_hash C txid_text = Some (point_hash in') \<and> number_u32 C vout_number = Some (point_index in')) \<and>
     input_script in' = empty_script C \<and> input_witness in' = [] \<and>
     (item_members item ''sequence'' = None \<longrightarrow> input_sequence in' = sequence)"

definition output_of_pair ::
  "'s create_lib \<Rightarrow> ('p, 'w, 's) address_lib \<Rightarrow> address_prefixes \<Rightarrow> u64 \<Rightarrow> string \<times> value_t \<Rightarrow> 's put \<Rightarrow> bool" where
  "output_of_pair C D pre maximum pair out \<longleftrightarrow>
     put_value out \<le> maximum \<and>
     (if fst pair = ''data'' then put_value out = 0
      else output_script D pre (fst pair) = Inr (put_script out) \<and>
        (\<exists>bitcoins. snd pair = Number bitcoins \<and> number_satoshis C bitcoins = Some (put_value out)))"

lemma parse_input_fields: "parse_input C sequence item = Inr in' \<Longrightarrow> input_of_item C sequence item in'"
  by (auto simp: parse_input_def item_members_def input_of_item_def split: value_t.splits option.splits prod.splits)

lemma append_output_fields:
  "append_output C D pre maximum name item = Inr out \<Longrightarrow> output_of_pair C D pre maximum (name, item) out"
  by (auto simp: append_output_def output_of_pair_def split: if_splits value_t.splits option.splits sum.splits)

lemma default_sequence_locked:
  "bip125_sequence C \<noteq> max_input_sequence \<Longrightarrow> lock_time \<noteq> 0 \<Longrightarrow>
    default_sequence C replaceable lock_time \<noteq> max_input_sequence"
  by (simp add: default_sequence_def max_input_sequence_def)

text \<open>
  C24: A transaction created from a request has a version from 1 to 3, one input without signatures for each
  input item in order, at the point the item names, and one output for each pair of the outputs in order, with no
  more than the maximum money, a data output without value. An input without an explicit sequence has the default,
  which does not disable a locktime that is not zero.
\<close>

theorem created_transaction:
  assumes "bip125_sequence C \<noteq> max_input_sequence"
    and "parse_transaction C D pre inputs' outputs' locktime replaceable version maximum = Inr tx"
  shows "form_version tx \<in> {1, 2, 3} \<and> number_u32 C locktime = Some (form_locktime tx) \<and>
    list_all2 (input_of_item C (default_sequence C replaceable (form_locktime tx))) inputs' (form_inputs tx) \<and>
    list_all2 (output_of_pair C D pre maximum) (output_pairs C outputs') (form_outputs tx) \<and>
    (form_locktime tx \<noteq> 0 \<longrightarrow> default_sequence C replaceable (form_locktime tx) \<noteq> max_input_sequence)"
proof -
  define sequence where "sequence = default_sequence C replaceable (form_locktime tx)"
  from assms(2) have version: "form_version tx \<noteq> 0" "\<not> form_version tx > 3"
    and lock: "number_u32 C locktime = Some (form_locktime tx)"
    and ins: "parse_inputs C sequence inputs' [] = Inr (form_inputs tx)"
    and outs: "parse_outputs C D pre maximum outputs' = Inr (form_outputs tx)"
    by (auto simp: parse_transaction_def sequence_def sum_bind_eq_Inr split: option.splits if_splits)
  have "list_all2 (input_of_item C sequence) inputs' (form_inputs tx)"
    using parse_inputs_all [OF ins] by (auto elim!: list_all2_mono dest: parse_input_fields)
  moreover have "list_all2 (output_of_pair C D pre maximum) (output_pairs C outputs') (form_outputs tx)"
    using parse_outputs_all [OF outs] by (rule list_all2_mono) (auto dest: append_output_fields)
  ultimately show ?thesis
    using lock small_version [OF version] default_sequence_locked [OF assms(1)] by (simp add: sequence_def)
qed

definition sample_create :: "u8 list create_lib" where
  "sample_create = \<lparr>number_u32 = (\<lambda>d. Some (ucast d)), number_u64 = (\<lambda>d b. Some d), satoshi_per_bitcoin = 100000000,
     text_hash = (\<lambda>t. Some (of_nat (length t))), text_chunk = (\<lambda>t. Some (map of_char t)),
     null_data_script = (\<lambda>d. 106 # d), max_null_data_size = 80, empty_script = [], bip125_sequence = 0xfffffffd,
     members_of = (\<lambda>m. case m ''data'' of Some v \<Rightarrow> [(''data'', v)] | None \<Rightarrow> []), form_text = (\<lambda>tx w. [])\<rparr>"

definition sample_item :: value_t where
  "sample_item = Object [''txid'' \<mapsto> String ''ab'', ''vout'' \<mapsto> Number 1]"

theorem created_transaction_witness:
  "\<exists>tx. parse_transaction sample_create sample_addresses sample_prefixes [sample_item]
      (Object [''data'' \<mapsto> String ''c'']) 7 False 2 21 = Inr tx \<and>
    form_version tx \<in> {1, 2, 3} \<and> form_locktime tx = 7 \<and> length (form_inputs tx) = 1 \<and> length (form_outputs tx) = 1"
proof -
  obtain tx where tx: "parse_transaction sample_create sample_addresses sample_prefixes [sample_item]
      (Object [''data'' \<mapsto> String ''c'']) 7 False 2 21 = Inr tx"
    by (simp add: parse_transaction_def sample_create_def sample_item_def parse_input_def parse_outputs_def
        append_output_def)
  have "bip125_sequence sample_create \<noteq> max_input_sequence"
    by (simp add: sample_create_def max_input_sequence_def)
  from created_transaction [OF this tx] show ?thesis using tx
    by (auto simp: sample_create_def output_pairs_def dest: list_all2_lengthD)
qed

subsection \<open>What combination promises\<close>

lemma find_positions: "map_option ((!) xs) (find (\<lambda>i. P (xs ! i)) [0..<length xs]) = find P xs"
proof -
  have "find P (map f is) = map_option f (find (\<lambda>i. P (f i)) is)" for f :: "nat \<Rightarrow> 'a" and "is"
    by (induction "is") simp_all
  from this [of "(!) xs" "[0..<length xs]"] show ?thesis by (simp add: map_nth)
qed

lemma find_cong_set: "(\<And>x. x \<in> set xs \<Longrightarrow> P x \<longleftrightarrow> Q x) \<Longrightarrow> find P xs = find Q xs"
  by (induction xs) simp_all

text \<open>
  Every merged endorsement verifies under a key: \<open>ms\<close> pairs positions of keys, which increase, with positions of
  endorsements, of which none is used twice.
\<close>

definition verified_merge :: "('k \<Rightarrow> u8 list \<Rightarrow> bool) \<Rightarrow> u8 list list \<Rightarrow> 'k list \<Rightarrow> (nat \<times> nat) list \<Rightarrow> bool" where
  "verified_merge verifies sigs keys ms \<longleftrightarrow>
     sorted_wrt (<) (map fst ms) \<and> distinct (map snd ms) \<and>
     (\<forall>(k, sig) \<in> set ms. k < length keys \<and> sig < length sigs \<and> verifies (keys ! k) (sigs ! sig))"

lemma verified_merge_shift:
  assumes "verified_merge verifies sigs keys ms"
  shows "verified_merge verifies sigs (key # keys) (map (map_prod Suc id) ms)"
  using assms by (fastforce simp: verified_merge_def sorted_wrt_map comp_def)

lemma verified_merge_Cons:
  assumes "verified_merge verifies sigs keys ms" "sig \<notin> snd ` set ms" "sig < length sigs" "verifies key (sigs ! sig)"
  shows "verified_merge verifies sigs (key # keys) ((0, sig) # map (map_prod Suc id) ms)"
  using assms verified_merge_shift [OF assms(1), of key]
  by (auto simp: verified_merge_def sorted_wrt_map comp_def)

lemma merge_loop_verified:
  "length ops \<le> required \<Longrightarrow>
    \<exists>ms. merge_loop verifies push required sigs keys taken ops = ops @ map (\<lambda>(k, sig). push (sigs ! sig)) ms \<and>
      length ops + length ms \<le> required \<and> verified_merge verifies sigs keys ms \<and> snd ` set ms \<inter> set taken = {}"
proof (induction keys arbitrary: taken ops)
  case Nil
  then show ?case by (simp add: verified_merge_def)
next
  case (Cons key keys)
  let ?found = "find (\<lambda>sig. sig \<notin> set taken \<and> verifies key (sigs ! sig)) [0..<length sigs]"
  show ?case
  proof (cases "length ops = required")
    case True
    then show ?thesis by (intro exI [of _ "[]"]) (simp add: verified_merge_def)
  next
    case False
    show ?thesis
    proof (cases ?found)
      case None
      obtain ms where "merge_loop verifies push required sigs keys taken ops = ops @ map (\<lambda>(k, sig). push (sigs ! sig)) ms"
        "length ops + length ms \<le> required" "verified_merge verifies sigs keys ms" "snd ` set ms \<inter> set taken = {}"
        using Cons.IH [OF Cons.prems] by blast
      then show ?thesis using None False
        by (intro exI [of _ "map (map_prod Suc id) ms"])
          (auto simp: verified_merge_shift comp_def case_prod_beta image_image image_comp)
    next
      case (Some sig)
      then have sig: "sig \<notin> set taken" "verifies key (sigs ! sig)" "sig < length sigs"
        by (auto simp: find_Some_iff)
      obtain ms where "merge_loop verifies push required sigs keys (sig # taken) (ops @ [push (sigs ! sig)]) =
          (ops @ [push (sigs ! sig)]) @ map (\<lambda>(k, sig). push (sigs ! sig)) ms"
        "length (ops @ [push (sigs ! sig)]) + length ms \<le> required" "verified_merge verifies sigs keys ms"
        "snd ` set ms \<inter> set (sig # taken) = {}"
        using Cons.IH [of "ops @ [push (sigs ! sig)]" "sig # taken"] Cons.prems False by fastforce
      then show ?thesis using Some False sig
        by (intro exI [of _ "(0, sig) # map (map_prod Suc id) ms"])
          (auto simp: comp_def case_prod_beta image_image image_comp intro!: verified_merge_Cons)
    qed
  qed
qed

text \<open>
  Where no endorsement verifies under two of the keys, the merge takes for each key its first endorsement, up to the
  required number.
\<close>

definition one_key_each :: "('k \<Rightarrow> u8 list \<Rightarrow> bool) \<Rightarrow> u8 list list \<Rightarrow> 'k list \<Rightarrow> bool" where
  "one_key_each verifies sigs keys \<longleftrightarrow>
     sorted_wrt (\<lambda>key other. \<forall>sig \<in> set sigs. \<not> (verifies key sig \<and> verifies other sig)) keys"

lemma merge_loop_complete:
  assumes "one_key_each verifies sigs keys" "length ops \<le> required"
    and "\<forall>sig \<in> set taken. sig < length sigs \<and> (\<forall>key \<in> set keys. \<not> verifies key (sigs ! sig))"
  shows "merge_loop verifies push required sigs keys taken ops =
    ops @ map push (take (required - length ops) (List.map_filter (\<lambda>key. find (verifies key) sigs) keys))"
  using assms
proof (induction keys arbitrary: taken ops)
  case Nil
  then show ?case by (simp add: List.map_filter_simps)
next
  case (Cons key keys)
  let ?found = "find (\<lambda>sig. sig \<notin> set taken \<and> verifies key (sigs ! sig)) [0..<length sigs]"
  have "?found = find (\<lambda>sig. verifies key (sigs ! sig)) [0..<length sigs]"
    using Cons.prems(3) by (intro find_cong_set) auto
  then have found: "map_option ((!) sigs) ?found = find (verifies key) sigs"
    using find_positions [of sigs "verifies key"] by simp
  have keys: "one_key_each verifies sigs keys" using Cons.prems(1) by (simp add: one_key_each_def)
  show ?case
  proof (cases "length ops = required")
    case False
    show ?thesis
    proof (cases ?found)
      case None
      then show ?thesis
        using found False keys Cons.prems Cons.IH [of ops taken] by (simp add: List.map_filter_simps)
    next
      case (Some sig)
      then have sig: "verifies key (sigs ! sig)" "sig < length sigs" by (auto simp: find_Some_iff)
      then have "\<forall>other \<in> set keys. \<not> verifies other (sigs ! sig)"
        using Cons.prems(1) nth_mem [of sig sigs] by (auto simp: one_key_each_def)
      then have "merge_loop verifies push required sigs keys (sig # taken) (ops @ [push (sigs ! sig)]) =
          (ops @ [push (sigs ! sig)]) @ map push (take (required - length (ops @ [push (sigs ! sig)]))
            (List.map_filter (\<lambda>key. find (verifies key) sigs) keys))"
        using Cons.prems False keys sig(2) by (intro Cons.IH) auto
      moreover have "required - length ops = Suc (required - Suc (length ops))" using Cons.prems(2) False by simp
      moreover have "find (verifies key) sigs = Some (sigs ! sig)" using found Some by simp
      ultimately show ?thesis using Some False by (simp add: List.map_filter_simps)
    qed
  qed simp
qed

text \<open>
  C23: Combining the variants of a transaction at an input that spends bare multisig keeps the point and the
  sequence, requires the spent output to be known and unspent, and pushes a zero and then endorsements of the
  variants only: each verifies under a key, in increasing order of the keys, none is used twice and there are at most the
  required number. Where no endorsement verifies under two keys these are the first endorsements of the first keys
  that have one, so the combination has the required number whenever the variants together do.
\<close>

theorem combined_endorsements:
  assumes "unat index < length (form_inputs (hd variants))"
    and "prevout_at Q (point_hash (form_inputs (hd variants) ! unat index)) (point_index (form_inputs (hd variants) ! unat index)) = Some prevout"
    and "multisig_required B (put_script prevout) \<noteq> 0"
    and "sigs = concat (map (endorsements_of B \<circ> input_script) (candidates variants (unat index)))" "sigs \<noteq> []"
    and "verifies = endorses B (hd variants) index (put_value prevout) (put_script prevout) False"
    and "combine_input B Q variants index = Inr out"
  shows "\<not> prevout_spent Q (point_hash out) (point_index out) \<and>
    point_hash out = point_hash (form_inputs (hd variants) ! unat index) \<and>
    point_index out = point_index (form_inputs (hd variants) ! unat index) \<and>
    input_sequence out = input_sequence (form_inputs (hd variants) ! unat index) \<and>
    (\<exists>ms. input_script out = script_from B (push_size_0 B # map (\<lambda>(k, sig). push_data B (sigs ! sig)) ms) \<and>
       length ms \<le> multisig_required B (put_script prevout) \<and>
       verified_merge verifies sigs (multisig_keys B (put_script prevout)) ms) \<and>
    (one_key_each verifies sigs (multisig_keys B (put_script prevout)) \<longrightarrow>
       input_script out = script_from B (push_size_0 B # map (push_data B) (take (multisig_required B (put_script prevout))
         (List.map_filter (\<lambda>key. find (verifies key) sigs) (multisig_keys B (put_script prevout))))))"
proof -
  let ?merged = "merge_loop verifies (push_data B) (multisig_required B (put_script prevout) + 1) sigs
    (multisig_keys B (put_script prevout)) [] [push_size_0 B]"
  have out: "\<not> prevout_spent Q (point_hash (form_inputs (hd variants) ! unat index)) (point_index (form_inputs (hd variants) ! unat index))"
    "out = (form_inputs (hd variants) ! unat index)\<lparr>input_script := script_from B ?merged, input_witness := []\<rparr>"
    using assms(2-7) by (auto simp: combine_input_def combine_bare_def merge_endorsements_def Let_def split: if_splits)
  moreover have "\<exists>ms. ?merged = push_size_0 B # map (\<lambda>(k, sig). push_data B (sigs ! sig)) ms \<and>
      length ms \<le> multisig_required B (put_script prevout) \<and>
      verified_merge verifies sigs (multisig_keys B (put_script prevout)) ms"
    using merge_loop_verified [of "[push_size_0 B]" "multisig_required B (put_script prevout) + 1" verifies "push_data B" sigs
        "multisig_keys B (put_script prevout)" "[]"] by auto
  moreover have "?merged = push_size_0 B # map (push_data B) (take (multisig_required B (put_script prevout))
      (List.map_filter (\<lambda>key. find (verifies key) sigs) (multisig_keys B (put_script prevout))))"
    if "one_key_each verifies sigs (multisig_keys B (put_script prevout))"
    using merge_loop_complete [OF that, of "[push_size_0 B]"] by simp
  ultimately show ?thesis by auto
qed

text \<open>
  Sample scripts are lists of bytes: a required number followed by the keys, and endorsements of a key are the key and
  a byte of flags.
\<close>

definition sample_combine :: "(u8 list, u8 list, u8, u8) combine_lib" where
  "sample_combine = \<lparr>multisig_required = (\<lambda>s. case s of [] \<Rightarrow> 0 | n # _ \<Rightarrow> unat n), multisig_keys = tl,
     endorsements_of = (\<lambda>s. map (\<lambda>b. [b, 1]) s), script_ops = (\<lambda>s. map (\<lambda>b. [b]) s), script_from = concat,
     script_of_chunk = (\<lambda>d. d), script_data = (\<lambda>s. s), extract_sigop_script = (\<lambda>c p. None),
     pays_script_hash = (\<lambda>s. False), pays_witness_script_hash = (\<lambda>s. False), is_endorsement = (\<lambda>d. True),
     push_size_0 = [], push_data = (\<lambda>d. d), op_data = (\<lambda>d. d),
     decode_signature = (\<lambda>d. case d of [b] \<Rightarrow> Some b | _ \<Rightarrow> None),
     check_signature = (\<lambda>tx g key s i v f w. g = key), combine_chunk = (\<lambda>t. None), combine_tx = (\<lambda>d. None),
     combined_text = (\<lambda>tx w. [])\<rparr>"

definition sample_signed :: "u8 list \<Rightarrow> u8 list tx_form" where
  "sample_signed signers = \<lparr>form_version = 1, form_inputs = [\<lparr>point_hash = 9, point_index = 0, input_script = signers,
     input_witness = [], input_sequence = 5\<rparr>], form_outputs = [], form_locktime = 0\<rparr>"

definition sample_prevouts :: "u8 list prevout_view" where
  "sample_prevouts = \<lparr>prevout_at = (\<lambda>h i. Some \<lparr>put_value = 3, put_script = [2, 10, 20, 30]\<rparr>),
     prevout_spent = (\<lambda>h i. False)\<rparr>"

lemma sample_endorses:
  "endorses sample_combine tx index value' subscript segwit key sig \<longleftrightarrow> length sig = 2 \<and> hd sig = key"
  by (cases sig rule: rev_cases)
    (auto simp: endorses_def sample_combine_def length_Suc_conv neq_Nil_conv split: list.splits)

lemma sample_combine_fields:
  "multisig_required sample_combine s = (case s of [] \<Rightarrow> 0 | n # _ \<Rightarrow> unat n)" "multisig_keys sample_combine s = tl s"
  "script_from sample_combine = concat" "push_data sample_combine d = d" "push_size_0 sample_combine = []"
  by (simp_all add: sample_combine_def)

theorem combined_endorsements_witness:
  "\<exists>out. combine_input sample_combine sample_prevouts [sample_signed [30], sample_signed [10]] 0 = Inr out \<and>
    input_script out = [10, 1, 30, 1] \<and> input_sequence out = 5"
proof -
  let ?vs = "[sample_signed [30], sample_signed [10]]"
  let ?p = "\<lparr>put_value = 3, put_script = [2, 10, 20, 30]\<rparr> :: u8 list put"
  let ?verifies = "endorses sample_combine (hd ?vs) 0 3 [2, 10, 20, 30] False"
  have sigs: "concat (map (endorsements_of sample_combine \<circ> input_script) (candidates ?vs (unat (0 :: u32)))) = [[30, 1], [10, 1]]"
    by (simp add: candidates_def sample_signed_def sample_combine_def)
  obtain out where out: "combine_input sample_combine sample_prevouts ?vs 0 = Inr out"
    by (simp add: combine_input_def combine_bare_def sample_prevouts_def sample_combine_def candidates_def sample_signed_def)
  have "one_key_each ?verifies [[30, 1], [10, 1]] [10, 20, 30]" by (simp add: one_key_each_def sample_endorses)
  then have "input_script out = [10, 1, 30, 1] \<and> input_sequence out = 5"
    using combined_endorsements [OF _ _ _ sigs [symmetric] _ refl out, of ?p]
    by (simp add: sample_prevouts_def sample_combine_fields sample_signed_def sample_endorses List.map_filter_simps)
  then show ?thesis using out by blast
qed

end
