(* ===== verification/Bitcoind_Transaction.thy ===== *)
theory Bitcoind_Transaction
  imports Bitcoind_Assembly
begin

text \<open>
  The handlers of \<open>protocol_bitcoind_transaction.cpp\<close>: raw transactions and their submission, packages
  (\<open>package_result\<close> of \<open>serializers/bitcoind_json.cpp\<close>), and partially signed transactions with
  \<open>utilities/bitcoind_update.cpp\<close>. Documents are decoded, combined, joined and finalized by the system library. A
  submission ends with a code and an index that the node hands to its completion.
\<close>

subsection \<open>Raw transactions\<close>

record 's raw_lib =
  hex_chunk :: "string \<Rightarrow> u8 list option"
  tx_of_chunk :: "u8 list \<Rightarrow> bool \<Rightarrow> 's tx_form option"
  tx_of_hex :: "string \<Rightarrow> 's tx_form option"
  hash_of_tx :: "'s tx_form \<Rightarrow> bool \<Rightarrow> hash_digest"
  tx_value :: "'s tx_form \<Rightarrow> object_t"
  virtual_size :: "'s tx_form \<Rightarrow> u64"
  foreign :: foreign_codes
  package_rate :: "u64 \<Rightarrow> u64 \<Rightarrow> double"

text \<open>What the archive knows of a transaction: its link \<open>'t\<close> by its hash, None for a terminal link.\<close>

record ('t, 's) raw_view =
  raw_link :: "hash_digest \<Rightarrow> 't option"
  raw_size :: "'t \<Rightarrow> u64 option"
  raw_hex :: "'t \<Rightarrow> string option"
  raw_tx :: "'t \<Rightarrow> 's tx_info option"
  raw_confirmed :: "'t \<Rightarrow> bool"
  raw_outputs_spent :: "'t \<Rightarrow> bool list"
  raw_prevouts :: "'t \<Rightarrow> (object_t \<Rightarrow> object_t) option"
  raw_fees :: "'t \<Rightarrow> fee_rate option"

text \<open>What a handler does: it replies, or submits a package, for a test or not, and its completion replies.\<close>

datatype 's tx_action =
    Replied bitcoind_reply
  | Submit "'s tx_form list" bool

text \<open>Absent the hint, witness deserialization is tried first.\<close>

definition decode_hinted :: "'s raw_lib \<Rightarrow> u8 list \<Rightarrow> bool option \<Rightarrow> 's tx_form option" where
  "decode_hinted R data iswitness =
     (case tx_of_chunk R data (case iswitness of None \<Rightarrow> True | Some hint \<Rightarrow> hint) of
        Some tx \<Rightarrow> Some tx
      | None \<Rightarrow> if iswitness = None then tx_of_chunk R data False else None)"

definition handle_decode_raw_transaction :: "'s raw_lib \<Rightarrow> bool \<Rightarrow> string \<Rightarrow> bool option \<Rightarrow> bitcoind_reply" where
  "handle_decode_raw_transaction R stopped hexstring iswitness =
     unless stopped (case hex_chunk R hexstring of
         None \<Rightarrow> fails ''deserialization_error''
       | Some data \<Rightarrow>
           (case decode_hinted R data iswitness of
              None \<Rightarrow> fails ''deserialization_error''
            | Some tx \<Rightarrow> Reply (Object (tx_value R tx))))"

definition handle_get_raw_transaction ::
  "'s chain_lib \<Rightarrow> ('l, 's) chain_view \<Rightarrow> ('t, 's) raw_view \<Rightarrow> bool \<Rightarrow> string \<Rightarrow> double \<Rightarrow> bitcoind_reply" where
  "handle_get_raw_transaction L Q V stopped txid_text verbose =
     unless stopped (case hash_of L txid_text of
         None \<Rightarrow> fails ''invalid_parameter''
       | Some hash \<Rightarrow>
           (case raw_link V hash of
              None \<Rightarrow> fails ''invalid_address_or_key''
            | Some link \<Rightarrow>
                (case raw_size V link of
                   None \<Rightarrow> fails ''invalid_address_or_key''
                 | Some _ \<Rightarrow>
                     (case as_i64 L verbose of
                        None \<Rightarrow> fails ''misc_error''
                      | Some requested \<Rightarrow>
                          let level = max 0 (min 2 requested) in
                          if level = 0
                          then (case raw_hex V link of None \<Rightarrow> fails ''internal_error'' | Some hex \<Rightarrow> Reply_Hex hex)
                          else (case raw_tx V link of
                              None \<Rightarrow> fails ''invalid_address_or_key''
                            | Some tx \<Rightarrow>
                                let object = inject_tx_context L Q hash (tx_object tx) in
                                Reply (Object
                                  (if level = 2 \<and> \<not> is_coinbase tx
                                   then (case raw_prevouts V link of
                                       None \<Rightarrow> object
                                     | Some inject \<Rightarrow> (inject object)(''fee'' \<mapsto> Number (coins_of L (paid_fee tx))))
                                   else object)))))))"

text \<open>A confirmed transaction with any unspent output is reported without validating it.\<close>

definition handle_send_raw_transaction ::
  "'s raw_lib \<Rightarrow> ('t, 's) raw_view \<Rightarrow> bool \<Rightarrow> string \<Rightarrow> 's tx_action" where
  "handle_send_raw_transaction R V stopped hexstring =
     (if stopped then Replied No_Reply
      else case Option.bind (hex_chunk R hexstring) (\<lambda>data. tx_of_chunk R data True) of
          None \<Rightarrow> Replied (fails ''deserialization_error'')
        | Some tx \<Rightarrow>
            (case raw_link V (hash_of_tx R tx False) of
               None \<Rightarrow> Submit [tx] False
             | Some link \<Rightarrow>
                 if raw_confirmed V link \<and> (\<exists>spent \<in> set (raw_outputs_spent V link). \<not> spent)
                 then Replied (fails ''verify_already_in_utxo_set'') else Submit [tx] False))"

definition complete_submit_tx ::
  "'s chain_lib \<Rightarrow> 's raw_lib \<Rightarrow> ('t, 's) raw_view \<Rightarrow> bool \<Rightarrow> code \<Rightarrow> 's tx_form \<Rightarrow> bitcoind_reply" where
  "complete_submit_tx L R V stopped ec tx =
     (let hash = hash_of_tx R tx False;
          transaction_code = (\<lambda>name. code_of transaction_category (transaction_error (foreign R) name)) in
      unless stopped
        (if is_node (foreign R) ec ''duplicate_transaction''
         then (case raw_link V hash of
             Some link \<Rightarrow> if raw_confirmed V link then fails ''verify_error'' else Reply (hash_value L hash)
           | None \<Rightarrow> Reply (hash_value L hash))
         else if is_error ec
         then Send_Error (translate_bitcoind ec (enumerator bitcoind_errors
             (if ec = transaction_code ''missing_previous_output'' \<or> ec = transaction_code ''confirmed_double_spend''
              then ''verify_error'' else ''verify_rejected'')))
         else Reply (hash_value L hash)))"

text \<open>The transactions of an array of texts, or the error of the first element that is not one.\<close>

fun package_txs :: "'s raw_lib \<Rightarrow> value_t list \<Rightarrow> 's tx_form list \<Rightarrow> code + 's tx_form list" where
  "package_txs R [] txs = Inr txs"
| "package_txs R (item # items) txs =
     (case item of
        String hex \<Rightarrow>
          (case tx_of_hex R hex of
             None \<Rightarrow> Inl (bitcoind_error ''deserialization_error'')
           | Some tx \<Rightarrow> package_txs R items (txs @ [tx]))
      | _ \<Rightarrow> Inl (bitcoind_error ''type_error''))"

definition handle_test_mempool_accept :: "'s raw_lib \<Rightarrow> bool \<Rightarrow> value_t list \<Rightarrow> 's tx_action" where
  "handle_test_mempool_accept R stopped rawtxs =
     (if stopped then Replied No_Reply
      else if rawtxs = [] then Replied (fails ''invalid_parameter'')
      else case package_txs R rawtxs [] of Inl fault \<Rightarrow> Replied (Send_Error fault) | Inr txs \<Rightarrow> Submit txs True)"

definition complete_test_package ::
  "'s chain_lib \<Rightarrow> 's raw_lib \<Rightarrow> bool \<Rightarrow> code \<Rightarrow> 's tx_form list \<Rightarrow> bitcoind_reply" where
  "complete_test_package L R stopped ec txs =
     unless stopped (Reply (Array (map (\<lambda>tx.
       let result = [''txid'' \<mapsto> hash_value L (hash_of_tx R tx False), ''wtxid'' \<mapsto> hash_value L (hash_of_tx R tx True),
         ''allowed'' \<mapsto> Boolean (\<not> is_error ec)] in
       Object (put_if (is_error ec) ''reject-reason'' (String (reject (foreign R) ec)) result)) txs)))"

definition maximum_package :: nat where
  "maximum_package = 25"

definition handle_submit_package :: "'s raw_lib \<Rightarrow> bool \<Rightarrow> value_t list \<Rightarrow> 's tx_action" where
  "handle_submit_package R stopped package =
     (if stopped then Replied No_Reply
      else if package = [] \<or> length package > maximum_package then Replied (fails ''invalid_parameter'')
      else case package_txs R package [] of Inl fault \<Rightarrow> Replied (Send_Error fault) | Inr txs \<Rightarrow> Submit txs False)"

text \<open>The results of a package by witness hash; a later result of the same text replaces an earlier one.\<close>

fun package_results ::
  "'s chain_lib \<Rightarrow> 's raw_lib \<Rightarrow> ('t, 's) raw_view \<Rightarrow> code option \<Rightarrow> nat \<Rightarrow> nat \<Rightarrow> 's tx_form list \<Rightarrow> object_t \<Rightarrow> object_t option" where
  "package_results L R V failed index place [] results = Some results"
| "package_results L R V failed index place (tx # txs) results =
     (let wtxid = text_of L (hash_of_tx R tx True);
          result = [''txid'' \<mapsto> hash_value L (hash_of_tx R tx False)] in
      case failed of
        Some ec \<Rightarrow> package_results L R V failed index (place + 1) txs
          (results(wtxid \<mapsto> Object (result(''error'' \<mapsto> String
            (if place = index then reject (foreign R) ec else ''package-not-validated'')))))
      | None \<Rightarrow>
          (case Option.bind (raw_link V (hash_of_tx R tx False)) (raw_fees V) of
             None \<Rightarrow> None
           | Some rate \<Rightarrow> package_results L R V failed index (place + 1) txs
               (results(wtxid \<mapsto> Object (result(''vsize_adjusted'' \<mapsto> U64 (bytes rate), ''vsize'' \<mapsto> U64 (bytes rate),
                 ''vsize_bip141'' \<mapsto> U64 (virtual_size R tx), ''fees'' \<mapsto> Object
                   [''base'' \<mapsto> Number (coins_of L (fee rate)),
                    ''effective-feerate'' \<mapsto> Number (package_rate R (fee rate) (bytes rate)),
                    ''effective-includes'' \<mapsto> Array [String wtxid]]))))))"

definition package_failed :: "'s raw_lib \<Rightarrow> code \<Rightarrow> code option" where
  "package_failed R ec = (if is_error ec \<and> \<not> is_node (foreign R) ec ''duplicate_transaction'' then Some ec else None)"

definition package_result ::
  "'s chain_lib \<Rightarrow> 's raw_lib \<Rightarrow> ('t, 's) raw_view \<Rightarrow> code \<Rightarrow> nat \<Rightarrow> 's tx_form list \<Rightarrow> object_t option" where
  "package_result L R V ec index txs =
     map_option (\<lambda>results.
       [''package_msg'' \<mapsto> String (if package_failed R ec \<noteq> None then ''transaction failed'' else ''success''),
        ''tx-results'' \<mapsto> Object results,
        ''replaced-transactions'' \<mapsto> Array []]) (package_results L R V (package_failed R ec) index 0 txs Map.empty)"

definition complete_package ::
  "'s chain_lib \<Rightarrow> 's raw_lib \<Rightarrow> ('t, 's) raw_view \<Rightarrow> bool \<Rightarrow> code \<Rightarrow> nat \<Rightarrow> 's tx_form list \<Rightarrow> bitcoind_reply" where
  "complete_package L R V stopped ec index txs =
     unless stopped (case package_result L R V ec index txs of
         None \<Rightarrow> fails ''internal_error''
       | Some result \<Rightarrow> Reply (Object result))"

subsection \<open>Partially signed transactions\<close>

text \<open>
  The fields of documents that the server reads or writes; what else they hold is \<open>'x\<close>. Derived keys are \<open>'v\<close>. The
  entries of inputs and outputs share the fields that a descriptor attaches.
\<close>

record ('s, 'v) psbt_entry =
  embedded_script :: "'s option"
  entry_witness_script :: "'s option"
  derivations :: "'v list"

record ('s, 'v, 'x) psbt_input = "('s, 'v) psbt_entry" +
  witness_utxo :: "'s put option"
  previous_txid :: "hash_digest option"
  output_index :: "u32 option"
  partial_keys :: "u8 list list"
  entry_final :: bool
  input_other :: 'x

record ('s, 'v, 'x) psbt_output = "('s, 'v) psbt_entry" +
  entry_script :: "'s option"
  output_other :: 'x

record ('s, 'v, 'x) psbt_doc =
  psbt_version :: u32
  unsigned_tx :: "'s tx_form"
  psbt_inputs :: "('s, 'v, 'x) psbt_input list"
  psbt_outputs :: "('s, 'v, 'x) psbt_output list"
  psbt_other :: 'x

record ('s, 'v) signing =
  signing_script :: 's
  signing_embedded :: "'s option"
  signing_witness :: "'s option"
  signing_derivations :: "'v list"

record ('s, 'v, 'x) psbt_lib =
  psbt_decode :: "string \<Rightarrow> ('s, 'v, 'x) psbt_doc option"
  psbt_encode :: "('s, 'v, 'x) psbt_doc \<Rightarrow> string"
  psbt_prevout :: "('s, 'v, 'x) psbt_doc \<Rightarrow> nat \<Rightarrow> 's put option"
  psbt_combine :: "('s, 'v, 'x) psbt_doc \<Rightarrow> ('s, 'v, 'x) psbt_doc \<Rightarrow> ('s, 'v, 'x) psbt_doc option"
  psbt_join :: "('s, 'v, 'x) psbt_doc \<Rightarrow> ('s, 'v, 'x) psbt_doc \<Rightarrow> ('s, 'v, 'x) psbt_doc option"
  psbt_finalize :: "('s, 'v, 'x) psbt_doc \<Rightarrow> bool \<times> ('s, 'v, 'x) psbt_doc"
  psbt_extract :: "('s, 'v, 'x) psbt_doc \<Rightarrow> 's tx_form"
  psbt_final :: "('s, 'v, 'x) psbt_doc \<Rightarrow> bool"
  psbt_fee :: "('s, 'v, 'x) psbt_doc \<Rightarrow> u64 option"
  psbt_of_tx :: "'s tx_form \<Rightarrow> u32 \<Rightarrow> ('s, 'v, 'x) psbt_doc option"
  derived_point :: "'v \<Rightarrow> u8 list"
  extracted_hex :: "'s tx_form \<Rightarrow> string"
  form_weight :: "'s tx_form \<Rightarrow> u64"
  vsize_of :: "u64 \<Rightarrow> u64"
  fee_per_vsize :: "u64 \<Rightarrow> u64 \<Rightarrow> double"
  pays_witness :: "'s \<Rightarrow> bool"
  has_ops :: "'s \<Rightarrow> bool"

definition version_0 :: u32 where
  "version_0 = 0"

definition version_2 :: u32 where
  "version_2 = 2"

definition document_version :: "(double \<Rightarrow> u32 option) \<Rightarrow> double \<Rightarrow> u32 option" where
  "document_version to_u32 number =
     (case to_u32 number of
        None \<Rightarrow> None
      | Some document \<Rightarrow> if document \<noteq> version_0 \<and> document \<noteq> version_2 then None else Some document)"

definition analyze_input :: "'s chain_lib \<Rightarrow> ('s, 'v, 'x) psbt_lib \<Rightarrow> bool \<Rightarrow> ('s, 'v, 'x) psbt_input \<Rightarrow> value_t" where
  "analyze_input L P utxo in' =
     (let entry = [''has_utxo'' \<mapsto> Boolean utxo, ''is_final'' \<mapsto> Boolean (entry_final in')];
          unsigned_keys = map (\<lambda>derived. String (base16_of L (derived_point P derived)))
            (filter (\<lambda>derived. derived_point P derived \<notin> set (partial_keys in')) (derivations in')) in
      Object (if entry_final in' then entry
        else (put_if (unsigned_keys \<noteq> []) ''missing'' (Object [''signatures'' \<mapsto> Array unsigned_keys]) entry)
          (''next'' \<mapsto> String (if utxo then ''signer'' else ''updater''))))"

definition handle_analyze_psbt :: "'s chain_lib \<Rightarrow> ('s, 'v, 'x) psbt_lib \<Rightarrow> bool \<Rightarrow> string \<Rightarrow> bitcoind_reply" where
  "handle_analyze_psbt L P stopped psbt =
     unless stopped (case psbt_decode P psbt of
         None \<Rightarrow> fails ''deserialization_error''
       | Some doc \<Rightarrow>
           let has_utxo = (\<lambda>index. psbt_prevout P doc index \<noteq> None);
               indexes = [0..<length (psbt_inputs doc)];
               missing_utxo = (\<exists>index \<in> set indexes. \<not> has_utxo index);
               result = [''inputs'' \<mapsto> Array (map (\<lambda>index. analyze_input L P (has_utxo index) (psbt_inputs doc ! index)) indexes)];
               result = (case psbt_fee P doc of None \<Rightarrow> result | Some paid \<Rightarrow> result(''fee'' \<mapsto> Number (coins_of L paid))) in
           Reply (Object
             (if psbt_final P doc
              then let vsize = vsize_of P (form_weight P (psbt_extract P doc));
                       result = result(''estimated_vsize'' \<mapsto> U64 vsize);
                       result = (case psbt_fee P doc of
                         None \<Rightarrow> result
                       | Some paid \<Rightarrow> put_if (vsize \<noteq> 0) ''estimated_feerate'' (Number (fee_per_vsize P paid vsize)) result) in
                   result(''next'' \<mapsto> String ''extractor'')
              else result(''next'' \<mapsto> String (if missing_utxo then ''updater'' else ''signer'')))))"

text \<open>The loop of combinepsbt and joinpsbts: the first document, merged with each of the others in order.\<close>

fun merge_docs ::
  "('s, 'v, 'x) psbt_lib \<Rightarrow> (('s, 'v, 'x) psbt_doc \<Rightarrow> ('s, 'v, 'x) psbt_doc \<Rightarrow> ('s, 'v, 'x) psbt_doc option) \<Rightarrow> value_t list \<Rightarrow>
    ('s, 'v, 'x) psbt_doc option \<Rightarrow> code + ('s, 'v, 'x) psbt_doc option" where
  "merge_docs P merge [] combined = Inr combined"
| "merge_docs P merge (item # items) combined =
     (case item of
        String psbt \<Rightarrow>
          (case psbt_decode P psbt of
             None \<Rightarrow> Inl (bitcoind_error ''deserialization_error'')
           | Some doc \<Rightarrow>
               (case combined of
                  None \<Rightarrow> merge_docs P merge items (Some doc)
                | Some first \<Rightarrow>
                    (case merge first doc of
                       None \<Rightarrow> Inl (bitcoind_error ''invalid_parameter'')
                     | Some merged \<Rightarrow> merge_docs P merge items (Some merged))))
      | _ \<Rightarrow> Inl (bitcoind_error ''type_error''))"

definition handle_combine_psbt :: "('s, 'v, 'x) psbt_lib \<Rightarrow> bool \<Rightarrow> value_t list \<Rightarrow> bitcoind_reply" where
  "handle_combine_psbt P stopped txs =
     unless stopped (case merge_docs P (psbt_combine P) txs None of
         Inl fault \<Rightarrow> Send_Error fault
       | Inr None \<Rightarrow> fails ''invalid_parameter''
       | Inr (Some combined) \<Rightarrow> Reply (String (psbt_encode P combined)))"

text \<open>At least two documents are joined, so a document without value is never encoded.\<close>

definition handle_join_psbts :: "('s, 'v, 'x) psbt_lib \<Rightarrow> bool \<Rightarrow> value_t list \<Rightarrow> bitcoind_reply option" where
  "handle_join_psbts P stopped txs =
     (if stopped then Some No_Reply
      else if length txs < 2 then Some (fails ''invalid_parameter'')
      else case merge_docs P (psbt_join P) txs None of
          Inl fault \<Rightarrow> Some (Send_Error fault)
        | Inr joined \<Rightarrow> map_option (\<lambda>doc. Reply (String (psbt_encode P doc))) joined)"

definition strip_input :: "'s create_lib \<Rightarrow> 's tx_input \<Rightarrow> 's tx_input" where
  "strip_input C in' = in'\<lparr>input_script := empty_script C, input_witness := []\<rparr>"

definition handle_convert_to_psbt ::
  "'s create_lib \<Rightarrow> 's raw_lib \<Rightarrow> ('s, 'v, 'x) psbt_lib \<Rightarrow> bool \<Rightarrow> string \<Rightarrow> bool \<Rightarrow> bool option \<Rightarrow> double \<Rightarrow> bitcoind_reply" where
  "handle_convert_to_psbt C R P stopped hexstring permitsigdata iswitness version =
     unless stopped (case document_version (number_u32 C) version of
         None \<Rightarrow> fails ''invalid_parameter''
       | Some document \<Rightarrow>
           (case Option.bind (hex_chunk R hexstring) (\<lambda>data. decode_hinted R data iswitness) of
              None \<Rightarrow> fails ''deserialization_error''
            | Some tx \<Rightarrow>
                let is_signed = (\<exists>in' \<in> set (form_inputs tx). has_ops P (input_script in') \<or> input_witness in' \<noteq> []) in
                if is_signed \<and> \<not> permitsigdata then fails ''deserialization_error''
                else
                  let tx = (if is_signed then tx\<lparr>form_inputs := map (strip_input C) (form_inputs tx)\<rparr> else tx) in
                  (case psbt_of_tx P tx document of
                     None \<Rightarrow> fails ''deserialization_error''
                   | Some doc \<Rightarrow> Reply (String (psbt_encode P doc)))))"

definition handle_create_psbt ::
  "'s create_lib \<Rightarrow> ('p, 'w, 's) address_lib \<Rightarrow> address_prefixes \<Rightarrow> u64 \<Rightarrow> ('s, 'v, 'x) psbt_lib \<Rightarrow> bool \<Rightarrow> value_t list \<Rightarrow>
    value_t \<Rightarrow> double \<Rightarrow> bool \<Rightarrow> double \<Rightarrow> double \<Rightarrow> bitcoind_reply" where
  "handle_create_psbt C D pre max_money P stopped inputs' outputs' locktime replaceable version psbt_version' =
     unless stopped (case document_version (number_u32 C) psbt_version' of
         None \<Rightarrow> fails ''invalid_parameter''
       | Some document \<Rightarrow>
           (case parse_transaction C D pre inputs' outputs' locktime replaceable version max_money of
              Inl fault \<Rightarrow> Send_Error fault
            | Inr tx \<Rightarrow>
                (case psbt_of_tx P tx document of
                   None \<Rightarrow> fails ''deserialization_error''
                 | Some doc \<Rightarrow> Reply (String (psbt_encode P doc)))))"

definition handle_finalize_psbt :: "('s, 'v, 'x) psbt_lib \<Rightarrow> bool \<Rightarrow> string \<Rightarrow> bool \<Rightarrow> bitcoind_reply" where
  "handle_finalize_psbt P stopped psbt extract' =
     unless stopped (case psbt_decode P psbt of
         None \<Rightarrow> fails ''deserialization_error''
       | Some doc \<Rightarrow>
           let (complete, doc) = psbt_finalize P doc;
               result = (if complete \<and> extract' then [''hex'' \<mapsto> String (extracted_hex P (psbt_extract P doc))]
                 else [''psbt'' \<mapsto> String (psbt_encode P doc)]) in
           Reply (Object (result(''complete'' \<mapsto> Boolean complete))))"

subsection \<open>Updates from descriptors\<close>

definition find_signing :: "('s, 'v) signing list \<Rightarrow> 's \<Rightarrow> ('s, 'v) signing option" where
  "find_signing list script = find (\<lambda>item. signing_script item = script) list"

fun add_derivations :: "'v list \<Rightarrow> 'v list \<Rightarrow> 'v list" where
  "add_derivations [] known = known"
| "add_derivations (derived # found) known =
     add_derivations found (if derived \<in> set known then known else known @ [derived])"

definition update_entry :: "('s, 'v) signing \<Rightarrow> ('s, 'v, 'm) psbt_entry_scheme \<Rightarrow> ('s, 'v, 'm) psbt_entry_scheme" where
  "update_entry found entry = entry\<lparr>
     embedded_script := (case signing_embedded found of None \<Rightarrow> embedded_script entry | Some script \<Rightarrow> Some script),
     entry_witness_script := (case signing_witness found of None \<Rightarrow> entry_witness_script entry | Some script \<Rightarrow> Some script),
     derivations := add_derivations (signing_derivations found) (derivations entry)\<rparr>"

definition update_matching where
  "update_matching list script entry =
     (case find_signing list script of None \<Rightarrow> entry | Some found \<Rightarrow> update_entry found entry)"

text \<open>The point of an input: of the unsigned transaction, or of the entry itself.\<close>

definition entry_point :: "('s, 'v, 'x) psbt_doc \<Rightarrow> nat \<Rightarrow> hash_digest \<times> u32" where
  "entry_point doc index =
     (if psbt_version doc = version_0
      then (point_hash (form_inputs (unsigned_tx doc) ! index), point_index (form_inputs (unsigned_tx doc) ! index))
      else (case previous_txid (psbt_inputs doc ! index) of None \<Rightarrow> null_hash | Some hash \<Rightarrow> hash,
        case output_index (psbt_inputs doc ! index) of None \<Rightarrow> 0 | Some vout \<Rightarrow> vout))"

definition updated_input where
  "updated_input P Q list doc index =
     (let in' = psbt_inputs doc ! index in
      case psbt_prevout P doc index of
        Some utxo \<Rightarrow> update_matching list (put_script utxo) in'
      | None \<Rightarrow>
          (case prevout_at Q (fst (entry_point doc index)) (snd (entry_point doc index)) of
             None \<Rightarrow> in'
           | Some out \<Rightarrow> update_matching list (put_script out)
               (if pays_witness P (put_script out) then in'\<lparr>witness_utxo := Some out\<rparr> else in')))"

fun update_inputs where
  "update_inputs P Q list [] doc = doc"
| "update_inputs P Q list (index # indexes) doc =
     update_inputs P Q list indexes (doc\<lparr>psbt_inputs := (psbt_inputs doc)[index := updated_input P Q list doc index]\<rparr>)"

definition updated_output where
  "updated_output list doc index =
     (let out = psbt_outputs doc ! index in
      case (if psbt_version doc \<noteq> version_0 then entry_script out
          else Some (put_script (form_outputs (unsigned_tx doc) ! index))) of
        None \<Rightarrow> out
      | Some script \<Rightarrow> update_matching list script out)"

fun update_outputs where
  "update_outputs list [] doc = doc"
| "update_outputs list (index # indexes) doc =
     update_outputs list indexes (doc\<lparr>psbt_outputs := (psbt_outputs doc)[index := updated_output list doc index]\<rparr>)"

definition update_psbt ::
  "('s, 'v, 'x) psbt_lib \<Rightarrow> 's prevout_view \<Rightarrow> ('s, 'v) signing list \<Rightarrow> ('s, 'v, 'x) psbt_doc \<Rightarrow> ('s, 'v, 'x) psbt_doc" where
  "update_psbt P Q list doc =
     (let doc = update_inputs P Q list [0..<length (psbt_inputs doc)] doc in
      update_outputs list [0..<length (psbt_outputs doc)] doc)"

text \<open>The signings of the descriptors in order; the outer option is the end of the loop over a range.\<close>

fun expand_signings :: "('p, 'g) derive_lib \<Rightarrow> value_t list \<Rightarrow> 'g list \<Rightarrow> 'g list option option" where
  "expand_signings L [] out = Some (Some out)"
| "expand_signings L (item # items) out =
     (case expand_scan_signings L item out of
        Some (Some out) \<Rightarrow> expand_signings L items out
      | failed \<Rightarrow> failed)"

definition handle_utxo_update_psbt ::
  "('p, ('s, 'v) signing) derive_lib \<Rightarrow> ('s, 'v, 'x) psbt_lib \<Rightarrow> 's prevout_view \<Rightarrow> bool \<Rightarrow> string \<Rightarrow> value_t list \<Rightarrow>
    bitcoind_reply option" where
  "handle_utxo_update_psbt L P Q stopped psbt descriptors =
     (if stopped then Some No_Reply
      else map_option (\<lambda>expanded. case expanded of
          None \<Rightarrow> fails ''invalid_address_or_key''
        | Some list \<Rightarrow>
            (case psbt_decode P psbt of
               None \<Rightarrow> fails ''deserialization_error''
             | Some doc \<Rightarrow> Reply (String (psbt_encode P (update_psbt P Q list doc)))))
        (expand_signings L descriptors []))"

text \<open>The methods that are wallet functions are not found.\<close>

definition handle_unsupported_transaction :: "bool \<Rightarrow> bitcoind_reply" where
  "handle_unsupported_transaction stopped = unless stopped (fails ''method_not_found'')"

subsection \<open>What an update promises\<close>

text \<open>
  The previous output of an input is that of its own entry: it depends on the transaction and on the utxo fields of the
  entry, and is the witness utxo where there was none before.
\<close>

definition utxo_fields where
  "utxo_fields in' = (witness_utxo in', previous_txid in', output_index in', input_other in')"

definition same_source :: "('s, 'v, 'x) psbt_doc \<Rightarrow> ('s, 'v, 'x) psbt_doc \<Rightarrow> nat \<Rightarrow> bool" where
  "same_source doc other index \<longleftrightarrow>
     psbt_version doc = psbt_version other \<and> unsigned_tx doc = unsigned_tx other \<and>
     index < length (psbt_inputs doc) \<and> index < length (psbt_inputs other) \<and>
     utxo_fields (psbt_inputs doc ! index) = utxo_fields (psbt_inputs other ! index)"

definition psbt_laws :: "('s, 'v, 'x) psbt_lib \<Rightarrow> bool" where
  "psbt_laws P \<longleftrightarrow>
     (\<forall>doc other index. same_source doc other index \<longrightarrow> psbt_prevout P doc index = psbt_prevout P other index) \<and>
     (\<forall>doc index out. index < length (psbt_inputs doc) \<and> psbt_prevout P doc index = None \<longrightarrow>
        psbt_prevout P (doc\<lparr>psbt_inputs := (psbt_inputs doc)[index := (psbt_inputs doc ! index)\<lparr>witness_utxo := Some out\<rparr>]\<rparr>) index =
          Some out)"

lemma psbt_lawsD:
  assumes "psbt_laws P"
  shows "same_source doc other index \<Longrightarrow> psbt_prevout P doc index = psbt_prevout P other index"
    and "index < length (psbt_inputs doc) \<Longrightarrow> psbt_prevout P doc index = None \<Longrightarrow>
      psbt_prevout P (doc\<lparr>psbt_inputs := (psbt_inputs doc)[index := (psbt_inputs doc ! index)\<lparr>witness_utxo := Some out\<rparr>]\<rparr>) index = Some out"
  using assms by (auto simp: psbt_laws_def)

lemma add_derivations_known: "set found \<subseteq> set known \<Longrightarrow> add_derivations found known = known"
  by (induction found known rule: add_derivations.induct) auto

lemma add_derivations_set: "set (add_derivations found known) = set found \<union> set known"
  by (induction found known rule: add_derivations.induct) auto

lemma add_derivations_extends:
  "\<exists>added. add_derivations found known = known @ added \<and> distinct added \<and> set added \<inter> set known = {}"
proof (induction found known rule: add_derivations.induct)
  case (2 derived found known)
  then show ?case by (cases "derived \<in> set known") fastforce+
qed simp

lemma update_entry_again [simp]: "update_entry found (update_entry found entry) = update_entry found entry"
  by (simp add: update_entry_def add_derivations_known add_derivations_set split: option.splits)

lemma update_matching_again [simp]: "update_matching list script (update_matching list script entry) = update_matching list script entry"
  by (simp add: update_matching_def split: option.splits)

lemma update_matching_fields [simp]:
  "utxo_fields (update_matching list script in') = utxo_fields in'"
  "entry_script (update_matching list script out) = entry_script out"
  by (simp_all add: update_matching_def update_entry_def utxo_fields_def split: option.splits)

lemma update_matching_utxo [simp]:
  "witness_utxo (update_matching list script in') = witness_utxo in'"
  "previous_txid (update_matching list script in') = previous_txid in'"
  "output_index (update_matching list script in') = output_index in'"
  by (simp_all add: update_matching_def update_entry_def split: option.splits)

lemma updated_input_cong:
  assumes "psbt_laws P" "same_source doc other index" "psbt_inputs doc ! index = psbt_inputs other ! index"
  shows "updated_input P Q list doc index = updated_input P Q list other index"
proof -
  have "entry_point doc index = entry_point other index" using assms(2,3) by (simp add: entry_point_def same_source_def)
  then show ?thesis using assms(3) psbt_lawsD(1) [OF assms(1,2)] by (simp add: updated_input_def Let_def split: option.splits)
qed

lemma updated_output_cong:
  "psbt_version doc = psbt_version other \<Longrightarrow> unsigned_tx doc = unsigned_tx other \<Longrightarrow>
    psbt_outputs doc ! index = psbt_outputs other ! index \<Longrightarrow> updated_output list doc index = updated_output list other index"
  by (simp add: updated_output_def Let_def)

text \<open>A pass leaves every input as one update of the original document does, whatever the order.\<close>

lemma update_inputs_parallel:
  assumes "psbt_laws P" "distinct indexes" "\<forall>index \<in> set indexes. index < length (psbt_inputs doc)"
  shows "\<exists>xs. update_inputs P Q list indexes doc = doc\<lparr>psbt_inputs := xs\<rparr> \<and> length xs = length (psbt_inputs doc) \<and>
    (\<forall>i < length xs. xs ! i = (if i \<in> set indexes then updated_input P Q list doc i else psbt_inputs doc ! i))"
  using assms(2,3)
proof (induction indexes arbitrary: doc)
  case Nil
  then show ?case by (intro exI [of _ "psbt_inputs doc"]) simp
next
  case (Cons index indexes)
  let ?doc = "doc\<lparr>psbt_inputs := (psbt_inputs doc)[index := updated_input P Q list doc index]\<rparr>"
  obtain xs where xs: "update_inputs P Q list indexes ?doc = ?doc\<lparr>psbt_inputs := xs\<rparr>" "length xs = length (psbt_inputs doc)"
    "\<forall>i < length xs. xs ! i = (if i \<in> set indexes then updated_input P Q list ?doc i else psbt_inputs ?doc ! i)"
    using Cons.IH [of ?doc] Cons.prems by auto
  have "updated_input P Q list ?doc i = updated_input P Q list doc i" if "i \<in> set indexes" for i
    using Cons.prems that by (intro updated_input_cong [OF assms(1)]) (auto simp: same_source_def nth_list_update)
  then show ?case using xs Cons.prems by (intro exI [of _ xs]) (auto simp: nth_list_update)
qed

lemma update_outputs_parallel:
  assumes "distinct indexes" "\<forall>index \<in> set indexes. index < length (psbt_outputs doc)"
  shows "\<exists>ys. update_outputs list indexes doc = doc\<lparr>psbt_outputs := ys\<rparr> \<and> length ys = length (psbt_outputs doc) \<and>
    (\<forall>i < length ys. ys ! i = (if i \<in> set indexes then updated_output list doc i else psbt_outputs doc ! i))"
  using assms
proof (induction indexes arbitrary: doc)
  case Nil
  then show ?case by (intro exI [of _ "psbt_outputs doc"]) simp
next
  case (Cons index indexes)
  let ?doc = "doc\<lparr>psbt_outputs := (psbt_outputs doc)[index := updated_output list doc index]\<rparr>"
  obtain ys where ys: "update_outputs list indexes ?doc = ?doc\<lparr>psbt_outputs := ys\<rparr>" "length ys = length (psbt_outputs doc)"
    "\<forall>i < length ys. ys ! i = (if i \<in> set indexes then updated_output list ?doc i else psbt_outputs ?doc ! i)"
    using Cons.IH [of ?doc] Cons.prems by auto
  have "updated_output list ?doc i = updated_output list doc i" if "i \<in> set indexes" for i
    using Cons.prems that by (intro updated_output_cong) (auto simp: nth_list_update)
  then show ?case using ys Cons.prems by (intro exI [of _ ys]) (auto simp: nth_list_update)
qed

lemma update_psbt_parallel:
  assumes "psbt_laws P"
  shows "update_psbt P Q list doc = doc\<lparr>
    psbt_inputs := map (updated_input P Q list doc) [0..<length (psbt_inputs doc)],
    psbt_outputs := map (updated_output list doc) [0..<length (psbt_outputs doc)]\<rparr>"
proof -
  obtain xs where xs: "update_inputs P Q list [0..<length (psbt_inputs doc)] doc = doc\<lparr>psbt_inputs := xs\<rparr>"
    "length xs = length (psbt_inputs doc)" "\<forall>i < length xs. xs ! i = updated_input P Q list doc i"
    using update_inputs_parallel [OF assms, of "[0..<length (psbt_inputs doc)]" doc Q list] by auto
  moreover obtain ys where ys: "update_outputs list [0..<length (psbt_outputs doc)] (doc\<lparr>psbt_inputs := xs\<rparr>) =
      doc\<lparr>psbt_inputs := xs, psbt_outputs := ys\<rparr>"
    "length ys = length (psbt_outputs doc)" "\<forall>i < length ys. ys ! i = updated_output list (doc\<lparr>psbt_inputs := xs\<rparr>) i"
    using update_outputs_parallel [of "[0..<length (psbt_outputs doc)]" "doc\<lparr>psbt_inputs := xs\<rparr>" list] by auto
  moreover have "updated_output list (doc\<lparr>psbt_inputs := xs\<rparr>) i = updated_output list doc i" for i
    by (rule updated_output_cong) simp_all
  moreover have "xs = map (updated_input P Q list doc) [0..<length (psbt_inputs doc)]"
    using xs by (intro nth_equalityI) simp_all
  moreover have "ys = map (updated_output list doc) [0..<length (psbt_outputs doc)]"
    using ys(2,3) calculation(7) by (intro nth_equalityI) simp_all
  ultimately show ?thesis by (simp add: update_psbt_def)
qed

lemma updated_input_again:
  assumes "psbt_laws P" "index < length (psbt_inputs doc)" "length xs = length (psbt_inputs doc)"
    and "xs ! index = updated_input P Q list doc index"
  shows "updated_input P Q list (doc\<lparr>psbt_inputs := xs, psbt_outputs := ys\<rparr>) index = xs ! index"
proof (cases "psbt_prevout P doc index")
  case (Some utxo)
  then have new: "xs ! index = update_matching list (put_script utxo) (psbt_inputs doc ! index)"
    using assms(4) by (simp add: updated_input_def)
  have "psbt_prevout P (doc\<lparr>psbt_inputs := xs, psbt_outputs := ys\<rparr>) index = Some utxo"
    using psbt_lawsD(1) [OF assms(1), of "doc\<lparr>psbt_inputs := xs, psbt_outputs := ys\<rparr>" doc index] Some new assms(2,3)
    by (simp add: same_source_def)
  then show ?thesis using new by (simp add: updated_input_def)
next
  case None
  show ?thesis
  proof (cases "prevout_at Q (fst (entry_point doc index)) (snd (entry_point doc index))")
    case no_out: None
    then have new: "xs ! index = psbt_inputs doc ! index" using assms(4) None by (simp add: updated_input_def)
    then have "psbt_prevout P (doc\<lparr>psbt_inputs := xs, psbt_outputs := ys\<rparr>) index = None"
      using psbt_lawsD(1) [OF assms(1), of "doc\<lparr>psbt_inputs := xs, psbt_outputs := ys\<rparr>" doc index] None assms(2,3)
      by (simp add: same_source_def)
    moreover have "entry_point (doc\<lparr>psbt_inputs := xs, psbt_outputs := ys\<rparr>) index = entry_point doc index"
      using new by (simp add: entry_point_def)
    ultimately show ?thesis using new no_out by (simp add: updated_input_def Let_def)
  next
    case (Some out)
    let ?in = "if pays_witness P (put_script out) then (psbt_inputs doc ! index)\<lparr>witness_utxo := Some out\<rparr> else psbt_inputs doc ! index"
    have new: "xs ! index = update_matching list (put_script out) ?in" using assms(4) None Some by (simp add: updated_input_def)
    then have fields: "utxo_fields (xs ! index) = utxo_fields ?in" by simp
    have "psbt_prevout P (doc\<lparr>psbt_inputs := xs, psbt_outputs := ys\<rparr>) index =
        psbt_prevout P (doc\<lparr>psbt_inputs := (psbt_inputs doc)[index := ?in]\<rparr>) index"
      using fields assms(2,3) by (intro psbt_lawsD(1) [OF assms(1)]) (simp add: same_source_def)
    also have "\<dots> = (if pays_witness P (put_script out) then Some out else None)"
      using psbt_lawsD(2) [OF assms(1,2) None, of out] None by simp
    finally have after: "psbt_prevout P (doc\<lparr>psbt_inputs := xs, psbt_outputs := ys\<rparr>) index =
        (if pays_witness P (put_script out) then Some out else None)" .
    have "entry_point (doc\<lparr>psbt_inputs := xs, psbt_outputs := ys\<rparr>) index = entry_point doc index"
      using fields by (simp add: entry_point_def utxo_fields_def split: if_splits)
    then show ?thesis using after new Some by (cases "pays_witness P (put_script out)") (simp_all add: updated_input_def Let_def)
  qed
qed

lemma updated_output_again:
  assumes "index < length (psbt_outputs doc)" "ys ! index = updated_output list doc index"
  shows "updated_output list (doc\<lparr>psbt_inputs := xs, psbt_outputs := ys\<rparr>) index = ys ! index"
  using assms by (auto simp: updated_output_def Let_def split: if_splits option.splits)

text \<open>
  C25: Updating a document twice from the same descriptors is updating it once. An update keeps the transaction and the number
  of entries, finds the same result for every input and output as alone, and only adds derived keys to an entry, none twice.
\<close>

theorem update_psbt_idempotent:
  assumes "psbt_laws P"
  shows "update_psbt P Q list (update_psbt P Q list doc) = update_psbt P Q list doc \<and>
    unsigned_tx (update_psbt P Q list doc) = unsigned_tx doc \<and>
    length (psbt_inputs (update_psbt P Q list doc)) = length (psbt_inputs doc) \<and>
    length (psbt_outputs (update_psbt P Q list doc)) = length (psbt_outputs doc) \<and>
    (\<forall>i < length (psbt_inputs doc). psbt_inputs (update_psbt P Q list doc) ! i = updated_input P Q list doc i \<and>
       (\<exists>added. derivations (psbt_inputs (update_psbt P Q list doc) ! i) = derivations (psbt_inputs doc ! i) @ added \<and>
          distinct added \<and> set added \<inter> set (derivations (psbt_inputs doc ! i)) = {})) \<and>
    (\<forall>i < length (psbt_outputs doc). psbt_outputs (update_psbt P Q list doc) ! i = updated_output list doc i)"
proof -
  let ?xs = "map (updated_input P Q list doc) [0..<length (psbt_inputs doc)]"
  let ?ys = "map (updated_output list doc) [0..<length (psbt_outputs doc)]"
  note once = update_psbt_parallel [OF assms, of Q list doc]
  have "update_psbt P Q list (update_psbt P Q list doc) = update_psbt P Q list doc"
    unfolding once update_psbt_parallel [OF assms, of Q list "doc\<lparr>psbt_inputs := ?xs, psbt_outputs := ?ys\<rparr>"]
    using updated_input_again [OF assms, of _ doc ?xs Q list ?ys] updated_output_again [of _ doc ?ys list ?xs]
    by (simp cong: map_cong)
  moreover have "\<exists>added. derivations (updated_input P Q list doc i) = derivations (psbt_inputs doc ! i) @ added \<and>
      distinct added \<and> set added \<inter> set (derivations (psbt_inputs doc ! i)) = {}" for i
    using add_derivations_extends
    by (auto simp: updated_input_def Let_def update_matching_def update_entry_def split: option.splits)
  ultimately show ?thesis unfolding once by simp
qed

definition sample_psbt :: "(nat, nat, unit) psbt_lib" where
  "sample_psbt = \<lparr>psbt_decode = (\<lambda>t. None), psbt_encode = (\<lambda>d. []), psbt_prevout = (\<lambda>d i. witness_utxo (psbt_inputs d ! i)),
     psbt_combine = (\<lambda>d e. None), psbt_join = (\<lambda>d e. None), psbt_finalize = (\<lambda>d. (False, d)), psbt_extract = unsigned_tx,
     psbt_final = (\<lambda>d. False), psbt_fee = (\<lambda>d. None), psbt_of_tx = (\<lambda>t v. None), derived_point = (\<lambda>v. []),
     extracted_hex = (\<lambda>t. []), form_weight = (\<lambda>t. 0), vsize_of = (\<lambda>w. w), fee_per_vsize = (\<lambda>f v. 0),
     pays_witness = (\<lambda>s. s = 7), has_ops = (\<lambda>s. False)\<rparr>"

definition sample_doc :: "(nat, nat, unit) psbt_doc" where
  "sample_doc = \<lparr>psbt_version = version_0, unsigned_tx = \<lparr>form_version = 2, form_inputs = [\<lparr>point_hash = 1, point_index = 0,
       input_script = 0, input_witness = [], input_sequence = 0\<rparr>], form_outputs = [], form_locktime = 0\<rparr>,
     psbt_inputs = [\<lparr>embedded_script = None, entry_witness_script = None, derivations = [3], witness_utxo = None,
       previous_txid = None, output_index = None, partial_keys = [], entry_final = False, input_other = ()\<rparr>],
     psbt_outputs = [], psbt_other = ()\<rparr>"

definition sample_signing :: "(nat, nat) signing" where
  "sample_signing = \<lparr>signing_script = 7, signing_embedded = None, signing_witness = Some 8, signing_derivations = [3, 4]\<rparr>"

definition sample_coins_at :: "nat prevout_view" where
  "sample_coins_at = \<lparr>prevout_at = (\<lambda>h i. Some \<lparr>put_value = 5, put_script = 7\<rparr>), prevout_spent = (\<lambda>h i. False)\<rparr>"

lemma sample_psbt_laws: "psbt_laws sample_psbt"
  by (simp add: psbt_laws_def sample_psbt_def same_source_def utxo_fields_def)

theorem update_psbt_idempotent_witness:
  "map derivations (psbt_inputs (update_psbt sample_psbt sample_coins_at [sample_signing]
      (update_psbt sample_psbt sample_coins_at [sample_signing] sample_doc))) = [[3, 4]]"
proof -
  have "map derivations (psbt_inputs (update_psbt sample_psbt sample_coins_at [sample_signing] sample_doc)) = [[3, 4]]"
    by (simp add: update_psbt_def updated_input_def update_matching_def find_signing_def update_entry_def sample_psbt_def
        sample_doc_def sample_coins_at_def sample_signing_def entry_point_def)
  then show ?thesis using update_psbt_idempotent [OF sample_psbt_laws, of sample_coins_at "[sample_signing]" sample_doc] by simp
qed

subsection \<open>Documents and packages\<close>

text \<open>A join of two or more texts always replies, and a submitted package has from one to 25 transactions.\<close>

lemma merge_docs_some: "merge_docs P merge items (Some doc) \<noteq> Inr None"
  by (induction items arbitrary: doc) (auto split: value_t.splits option.splits)

lemma join_replies: "\<exists>reply. handle_join_psbts P stopped txs = Some reply"
proof (cases txs)
  case (Cons item items)
  then have "merge_docs P (psbt_join P) txs None \<noteq> Inr None"
    using merge_docs_some [of P "psbt_join P" items] by (auto split: value_t.splits option.splits)
  then show ?thesis by (auto simp: handle_join_psbts_def split: sum.splits)
qed (simp add: handle_join_psbts_def)

lemma package_txs_length: "package_txs R items txs = Inr out \<Longrightarrow> length out = length txs + length items"
  by (induction items arbitrary: txs) (fastforce split: value_t.splits option.splits)+

lemma submitted_package_bounded:
  "handle_submit_package R stopped package = Submit txs test \<Longrightarrow> \<not> test \<and> 1 \<le> length txs \<and> length txs \<le> 25"
  using package_txs_length [of R package "[]" txs]
  by (cases package) (auto simp: handle_submit_package_def maximum_package_def split: if_splits sum.splits)

text \<open>A transaction is acknowledged when it is accepted, or when it is stored and not confirmed.\<close>

lemma submission_acknowledged:
  "complete_submit_tx L R V False ec tx = Reply (hash_value L (hash_of_tx R tx False)) \<longleftrightarrow>
    (if is_node (foreign R) ec ''duplicate_transaction''
     then \<forall>link. raw_link V (hash_of_tx R tx False) = Some link \<longrightarrow> \<not> raw_confirmed V link else \<not> is_error ec)"
  by (auto simp: complete_submit_tx_def Let_def split: option.splits)

text \<open>
  The transactions of a failed package are reported by their distinct witness texts: the one at the failed index with its reject
  reason, every other as not validated.
\<close>

definition failed_entry :: "'s chain_lib \<Rightarrow> 's raw_lib \<Rightarrow> code \<Rightarrow> bool \<Rightarrow> 's tx_form \<Rightarrow> value_t" where
  "failed_entry L R ec at_index tx = Object [''txid'' \<mapsto> hash_value L (hash_of_tx R tx False),
     ''error'' \<mapsto> String (if at_index then reject (foreign R) ec else ''package-not-validated'')]"

lemma package_results_step:
  "package_results L R V (Some ec) index place (tx # txs) old =
    package_results L R V (Some ec) index (place + 1) txs
      (old(text_of L (hash_of_tx R tx True) \<mapsto> failed_entry L R ec (place = index) tx))"
  by (simp add: failed_entry_def Let_def)

lemma package_results_failed:
  assumes "distinct (map (\<lambda>tx. text_of L (hash_of_tx R tx True)) txs)"
  shows "\<exists>results. package_results L R V (Some ec) index place txs old = Some results \<and>
    (\<forall>i < length txs. results (text_of L (hash_of_tx R (txs ! i) True)) = Some (failed_entry L R ec (place + i = index) (txs ! i))) \<and>
    (\<forall>name. name \<notin> (\<lambda>tx. text_of L (hash_of_tx R tx True)) ` set txs \<longrightarrow> results name = old name)"
  using assms
proof (induction txs arbitrary: place old)
  case Nil
  then show ?case by simp
next
  case (Cons tx txs)
  let ?old = "old(text_of L (hash_of_tx R tx True) \<mapsto> failed_entry L R ec (place = index) tx)"
  have "distinct (map (\<lambda>tx. text_of L (hash_of_tx R tx True)) txs)" using Cons.prems by simp
  from Cons.IH [OF this, of "place + 1" ?old] obtain results
    where run: "package_results L R V (Some ec) index (place + 1) txs ?old = Some results"
    and at: "\<And>i. i < length txs \<Longrightarrow> results (text_of L (hash_of_tx R (txs ! i) True)) =
       Some (failed_entry L R ec (place + 1 + i = index) (txs ! i))"
    and rest: "\<And>name. name \<notin> (\<lambda>tx. text_of L (hash_of_tx R tx True)) ` set txs \<Longrightarrow> results name = ?old name" by blast
  have "results (text_of L (hash_of_tx R tx True)) = Some (failed_entry L R ec (place = index) tx)"
    using rest [of "text_of L (hash_of_tx R tx True)"] Cons.prems by auto
  then show ?case
    using run at rest unfolding package_results_step by (intro exI [of _ results]) (auto simp: nth_Cons')
qed

end
