(* ===== verification/Bitcoind_Utility.thy ===== *)
theory Bitcoind_Utility
  imports Bitcoind_Chain Interfaces
begin

text \<open>
  The utility, mining and control handlers of the bitcoind service: \<open>protocol_bitcoind_utility.cpp\<close>,
  \<open>protocol_bitcoind_mining.cpp\<close> and \<open>protocol_bitcoind_control.cpp\<close>. Addresses are those of theory \<open>Address\<close>, multisig
  addresses and checksums those of \<open>Descriptor\<close>, and the methods that help and discovery list are the tables of
  \<open>Interfaces\<close>.
\<close>

subsection \<open>Scripts and addresses\<close>

record ('p, 'w, 's, 'd) utility_lib =
  chunk_of_hex :: "string \<Rightarrow> u8 list option"
  script_of :: "u8 list \<Rightarrow> 's"
  decodable :: "'s \<Rightarrow> bool"
  pays_witness_or_data :: "'s \<Rightarrow> bool"
  script_hash_address :: "'s \<Rightarrow> u8 \<Rightarrow> string"
  witness_wrapped :: "'s \<Rightarrow> 's"
  witness_encoded :: "'w \<Rightarrow> string"
  witness_version0_p2sh :: "'w \<Rightarrow> bool"
  witness_version :: "'w \<Rightarrow> u8"
  witness_bytes :: "'w \<Rightarrow> u8 list"
  count_u8 :: "double \<Rightarrow> u8 option"
  sha256 :: "u8 list \<Rightarrow> u8 list"
  scripts_at :: "'d \<Rightarrow> u32 \<Rightarrow> 's list"
  descriptor_text :: "'d \<Rightarrow> string"
  descriptor_sum :: "'d \<Rightarrow> string"
  solvable :: "'d \<Rightarrow> bool"
  has_private_keys :: "'d \<Rightarrow> bool"
  base64_chunk :: "string \<Rightarrow> u8 list option"
  message_signature_size :: nat
  message_verified :: "string \<Rightarrow> 'p \<Rightarrow> u8 list \<Rightarrow> bool"
  maximum_horizon :: u64
  to_lower :: "string \<Rightarrow> string"
  fee_rate_of :: "u64 \<Rightarrow> double"

definition script_public_key :: "'s chain_lib \<Rightarrow> 's \<Rightarrow> object_t" where
  "script_public_key L script = inject_script_context L script (script_object L script)"

text \<open>An undecodable script is rendered, not rejected; scripts that a witness can embed carry the program forms.\<close>

definition handle_decode_script ::
  "word_lib \<Rightarrow> 's chain_lib \<Rightarrow> ('p, 'w, 's, 'd) utility_lib \<Rightarrow> address_prefixes \<Rightarrow> bool \<Rightarrow> string \<Rightarrow> bitcoind_reply" where
  "handle_decode_script W L U pre stopped hexstring =
     unless stopped (case chunk_of_hex U hexstring of
         None \<Rightarrow> fails ''invalid_parameter''
       | Some data \<Rightarrow>
           let script = script_of U data;
               result = (script_public_key L script)(''hex'' := None) in
           if \<not> decodable U script
           then Reply (Object ((result(''desc'' \<mapsto> String (with_checksum W (''raw('' @ base16_of L data @ '')''))))(''address'' := None)))
           else
             let result = put_if (script_hash_address U script (p2sh pre) \<noteq> [] \<and> result ''p2sh'' = None) ''p2sh''
                   (String (script_hash_address U script (p2sh pre))) result in
             Reply (Object
               (if \<not> pays_witness_or_data U script
                then let wsh = witness_wrapped U script in
                  result(''segwit'' \<mapsto> Object ((script_public_key L wsh)
                    (''p2sh-segwit'' \<mapsto> String (script_hash_address U wsh (p2sh pre)))))
                else result)))"

definition handle_validate_address ::
  "('p, 'w, 's) address_lib \<Rightarrow> 's chain_lib \<Rightarrow> ('p, 'w, 's, 'd) utility_lib \<Rightarrow> address_prefixes \<Rightarrow> bool \<Rightarrow> string \<Rightarrow>
    bitcoind_reply" where
  "handle_validate_address D L U pre stopped address =
     unless stopped
       (let witness_reply = (case witness_address D address of
              Some witness \<Rightarrow>
                if witness_prefix D witness = witness_hrp pre
                then Reply (Object
                  [''isvalid'' \<mapsto> Boolean True,
                   ''address'' \<mapsto> String (witness_encoded U witness),
                   ''scriptPubKey'' \<mapsto> String (base16_of L (script_bytes L (witness_script D witness))),
                   ''isscript'' \<mapsto> Boolean (witness_version0_p2sh U witness),
                   ''iswitness'' \<mapsto> Boolean True,
                   ''witness_version'' \<mapsto> U8 (witness_version U witness),
                   ''witness_program'' \<mapsto> String (base16_of L (witness_bytes U witness))])
                else Reply (Object [''isvalid'' \<mapsto> Boolean False])
            | None \<Rightarrow> Reply (Object [''isvalid'' \<mapsto> Boolean False])) in
        case payment_address D address of
          Some base58 \<Rightarrow>
            if payment_prefix D base58 = p2kh pre \<or> payment_prefix D base58 = p2sh pre
            then Reply (Object
              [''isvalid'' \<mapsto> Boolean True,
               ''address'' \<mapsto> String (payment_encoded D base58),
               ''scriptPubKey'' \<mapsto> String (base16_of L (script_bytes L (payment_script D base58 (p2kh pre) (p2sh pre)))),
               ''isscript'' \<mapsto> Boolean (payment_prefix D base58 = p2sh pre),
               ''iswitness'' \<mapsto> Boolean False])
            else witness_reply
        | None \<Rightarrow> witness_reply)"

definition maximum_keys :: nat where
  "maximum_keys = 16"

definition handle_create_multisig ::
  "word_lib \<Rightarrow> ('p, 'w, 's) address_lib \<Rightarrow> 's script_lib \<Rightarrow> ('p, 'w, 's, 'd) utility_lib \<Rightarrow> address_prefixes \<Rightarrow> bool \<Rightarrow>
    double \<Rightarrow> value_t list \<Rightarrow> string \<Rightarrow> bitcoind_reply" where
  "handle_create_multisig W D S U pre stopped nrequired keys address_type =
     unless stopped (case count_u8 U nrequired of
         None \<Rightarrow> fails ''invalid_parameter''
       | Some required \<Rightarrow>
           if required = 0 \<or> unat required > length keys then fails ''invalid_parameter''
           else if length keys > maximum_keys then fails ''invalid_parameter''
           else if address_type \<noteq> ''legacy'' \<and> address_type \<noteq> ''p2sh-segwit'' \<and> address_type \<noteq> ''bech32''
           then fails ''invalid_address_or_key''
           else case create_multisig W D S (sha256 U) required keys address_type (p2sh pre) (witness_hrp pre) of
               None \<Rightarrow> fails ''invalid_address_or_key''
             | Some result \<Rightarrow> Reply (Object result))"

definition maximum_addresses :: u32 where
  "maximum_addresses = 10000"

text \<open>The address of an index, empty unless the descriptor has one script there.\<close>

definition address_at where
  "address_at D U pre parsed index =
     (case scripts_at U parsed index of [script] \<Rightarrow> to_address D pre script | _ \<Rightarrow> [])"

text \<open>
  The loop over the indexes is that of the scan objects, with the address of an index, if any, as what it derives. The
  outer None is a loop that does not end.
\<close>

definition handle_derive_addresses ::
  "('p, 'w, 's) address_lib \<Rightarrow> ('d, 'g) derive_lib \<Rightarrow> ('p, 'w, 's, 'd) utility_lib \<Rightarrow> address_prefixes \<Rightarrow> bool \<Rightarrow> string \<Rightarrow>
    value_t option \<Rightarrow> bitcoind_reply option" where
  "handle_derive_addresses D X U pre stopped expression span' =
     (if stopped then Some No_Reply
      else case parse_descriptor X expression of
          None \<Rightarrow> Some (fails ''invalid_address_or_key'')
        | Some parsed \<Rightarrow>
            if ranged X parsed \<noteq> (span' \<noteq> None) then Some (fails ''invalid_parameter'')
            else (case (case span' of None \<Rightarrow> Some (0, 0) | Some given \<Rightarrow> parse_scan_range X 0 given) of
                None \<Rightarrow> Some (fails ''invalid_parameter'')
              | Some (begin', end') \<Rightarrow>
                  if (if end' < begin' then 0 else end' - begin') \<ge> maximum_addresses then Some (fails ''invalid_parameter'')
                  else map_option (\<lambda>derived. case derived of
                      None \<Rightarrow> fails ''invalid_address_or_key''
                    | Some out \<Rightarrow> Reply (Array (map String out)))
                    (signing_loop (\<lambda>index. if address_at D U pre parsed index = [] then []
                        else [address_at D U pre parsed index]) begin' end' [])))"

definition handle_get_descriptor_info ::
  "('d, 'g) derive_lib \<Rightarrow> ('p, 'w, 's, 'd) utility_lib \<Rightarrow> bool \<Rightarrow> string \<Rightarrow> bitcoind_reply" where
  "handle_get_descriptor_info X U stopped expression =
     unless stopped (case parse_descriptor X expression of
         None \<Rightarrow> fails ''invalid_address_or_key''
       | Some parsed \<Rightarrow> Reply (Object
           [''descriptor'' \<mapsto> String (descriptor_text U parsed),
            ''checksum'' \<mapsto> String (descriptor_sum U parsed),
            ''isrange'' \<mapsto> Boolean (ranged X parsed),
            ''issolvable'' \<mapsto> Boolean (solvable U parsed),
            ''hasprivatekeys'' \<mapsto> Boolean (has_private_keys U parsed)]))"

definition handle_verify_message ::
  "('p, 'w, 's) address_lib \<Rightarrow> ('p, 'w, 's, 'd) utility_lib \<Rightarrow> bool \<Rightarrow> string \<Rightarrow> string \<Rightarrow> string \<Rightarrow> bitcoind_reply" where
  "handle_verify_message D U stopped address signature message' =
     unless stopped (case payment_address D address of
         None \<Rightarrow> fails ''invalid_address_or_key''
       | Some payment \<Rightarrow>
           (case base64_chunk U signature of
              None \<Rightarrow> fails ''type_error''
            | Some decoded \<Rightarrow>
                if length decoded \<noteq> message_signature_size U then fails ''type_error''
                else Reply (Boolean (message_verified U message' payment decoded))))"

definition handle_get_index_info :: "('l, 's) chain_view \<Rightarrow> bool \<Rightarrow> bool \<Rightarrow> string \<Rightarrow> bitcoind_reply" where
  "handle_get_index_info Q current stopped index_name =
     unless stopped
       (let status = Object [''synced'' \<mapsto> Boolean (current \<and> is_coalesced Q), ''best_block_height'' \<mapsto> U64 (top_confirmed Q)];
            result = put_if (index_name = [] \<or> index_name = ''txindex'') ''txindex'' status Map.empty in
        Reply (Object (put_if (filter_enabled Q \<and> (index_name = [] \<or> index_name = ''basic block filter index''))
          ''basic block filter index'' status result)))"

datatype estimate_mode = Economical | Conservative

text \<open>The estimator targets the next block as zero. The reply, or the horizon and mode of the estimate and its target.\<close>

definition handle_estimate_smart_fee ::
  "'s chain_lib \<Rightarrow> ('p, 'w, 's, 'd) utility_lib \<Rightarrow> bool \<Rightarrow> double \<Rightarrow> string \<Rightarrow> bitcoind_reply + (u64 \<times> estimate_mode \<times> u64)" where
  "handle_estimate_smart_fee L U stopped conf_target mode =
     (if stopped then Inl No_Reply
      else case as_u64 L conf_target of
          None \<Rightarrow> Inl (fails ''invalid_parameter'')
        | Some target \<Rightarrow>
            if target = 0 \<or> target > maximum_horizon U then Inl (fails ''invalid_parameter'')
            else let lower = to_lower U mode in
              if lower = ''unset'' \<or> lower = ''economical'' then Inr (target - 1, Economical, target)
              else if lower = ''conservative'' then Inr (target - 1, Conservative, target)
              else Inl (fails ''invalid_parameter''))"

definition complete_estimate ::
  "foreign_codes \<Rightarrow> ('p, 'w, 's, 'd) utility_lib \<Rightarrow> bool \<Rightarrow> code \<Rightarrow> u64 \<Rightarrow> u64 \<Rightarrow> bitcoind_reply" where
  "complete_estimate F U stopped ec fee' target =
     (let unavailable = (is_node F ec ''estimate_false'' \<or> is_node F ec ''estimate_disabled'' \<or> is_node F ec ''estimate_premature'') in
      unless stopped
        (if \<not> unavailable \<and> is_error ec then fails ''internal_error''
         else if unavailable
         then Reply (Object [''errors'' \<mapsto> Array [String ''Insufficient data or no feerate found''], ''blocks'' \<mapsto> U64 target])
         else Reply (Object [''feerate'' \<mapsto> Number (fee_rate_of U fee'), ''blocks'' \<mapsto> U64 target])))"

definition handle_sign_message_with_priv_key :: "bool \<Rightarrow> bitcoind_reply" where
  "handle_sign_message_with_priv_key stopped = unless stopped (fails ''method_not_found'')"

subsection \<open>Mining\<close>

record 'l mining_lib =
  non_positive :: "double \<Rightarrow> bool"
  retargeting_interval :: u64
  work_of :: "'l \<Rightarrow> 256 word option"
  hash_rate :: "256 word \<Rightarrow> u32 \<Rightarrow> double"
  header_chunk :: "string \<Rightarrow> u8 list option"
  header_key_of :: "u8 list \<Rightarrow> hash_digest option"
  next_header :: "hash_digest \<Rightarrow> header_info option"
  rate_of_difficulty :: "double \<Rightarrow> double"
  max_money :: u64

text \<open>The target height and the number of blocks before it, or an error.\<close>

definition hash_window ::
  "'s chain_lib \<Rightarrow> 'l mining_lib \<Rightarrow> u64 \<Rightarrow> double \<Rightarrow> double \<Rightarrow> (u64 \<times> u64) option" where
  "hash_window L M top' nblocks height =
     (case (if negative L height then Some top' else map_option (\<lambda>target. min target top') (as_u64 L height)) of
        None \<Rightarrow> None
      | Some target \<Rightarrow>
          (case (if non_positive M nblocks then Some (target mod retargeting_interval M + 1) else as_u64 L nblocks) of
             None \<Rightarrow> None
           | Some window \<Rightarrow> Some (target, min window target)))"

text \<open>The least and the greatest timestamp of the headers, None when one is missing.\<close>

fun timespan :: "('l, 's) chain_view \<Rightarrow> 'l list \<Rightarrow> u32 \<Rightarrow> u32 \<Rightarrow> (u32 \<times> u32) option" where
  "timespan Q [] minimum maximum = Some (minimum, maximum)"
| "timespan Q (ancestor # ancestors) minimum maximum =
     (case header_of Q ancestor of
        None \<Rightarrow> None
      | Some header \<Rightarrow> timespan Q ancestors (min minimum (timestamp header)) (max maximum (timestamp header)))"

definition handle_get_network_hash_ps ::
  "'s chain_lib \<Rightarrow> 'l mining_lib \<Rightarrow> ('l, 's) chain_view \<Rightarrow> bool \<Rightarrow> double \<Rightarrow> double \<Rightarrow> bitcoind_reply" where
  "handle_get_network_hash_ps L M Q stopped nblocks height =
     unless stopped (case hash_window L M (top_confirmed Q) nblocks height of
         None \<Rightarrow> fails ''invalid_parameter''
       | Some (target, window) \<Rightarrow>
           if window = 0 then Reply (U64 0)
           else case get_ancestry Q (to_confirmed Q target) (window + 1) of
               None \<Rightarrow> fails ''internal_error''
             | Some branch \<Rightarrow>
                 (case timespan Q branch (- 1) 0 of
                    None \<Rightarrow> fails ''internal_error''
                  | Some (minimum, maximum) \<Rightarrow>
                      if minimum = maximum then Reply (U64 0)
                      else (case (work_of M (last branch), work_of M (hd branch)) of
                          (Some start_work, Some end_work) \<Rightarrow>
                            Reply (Number (hash_rate M (end_work - start_work) (maximum - minimum)))
                        | _ \<Rightarrow> fails ''internal_error'')))"

text \<open>The pool state over the top block carries the next work required.\<close>

definition handle_get_mining_info ::
  "'s chain_lib \<Rightarrow> 'l mining_lib \<Rightarrow> (hash_digest \<times> string) list \<Rightarrow> ('l, 's) chain_view \<Rightarrow> bool \<Rightarrow> bitcoind_reply" where
  "handle_get_mining_info L M networks Q stopped =
     unless stopped
       (let link = to_top_confirmed Q in
        case (header_of Q link, get_height Q link) of
          (Some top', Some height) \<Rightarrow>
            (case next_header M (header_key Q link) of
               None \<Rightarrow> fails ''internal_error''
             | Some header \<Rightarrow> Reply (Object
                 [''blocks'' \<mapsto> U64 height,
                  ''bits'' \<mapsto> String (bits_text top'),
                  ''difficulty'' \<mapsto> Number (difficulty top'),
                  ''target'' \<mapsto> String (target_text top'),
                  ''networkhashps'' \<mapsto> Number (rate_of_difficulty M (difficulty top')),
                  ''pooledtx'' \<mapsto> U64 0,
                  ''blockmintxfee'' \<mapsto> Number (coins_of L (max_money M)),
                  ''chain'' \<mapsto> String (chain_name networks Q),
                  ''next'' \<mapsto> Object
                    [''height'' \<mapsto> U64 (height + 1),
                     ''bits'' \<mapsto> String (bits_text header),
                     ''difficulty'' \<mapsto> Number (difficulty header),
                     ''target'' \<mapsto> String (target_text header)],
                  ''warnings'' \<mapsto> Array []]))
        | _ \<Rightarrow> fails ''internal_error'')"

text \<open>A header that is known is accepted; any other is organized, and the completion replies.\<close>

definition handle_submit_header ::
  "'l mining_lib \<Rightarrow> ('l, 's) chain_view \<Rightarrow> bool \<Rightarrow> string \<Rightarrow> bitcoind_reply + u8 list" where
  "handle_submit_header M Q stopped hexdata =
     (if stopped then Inl No_Reply
      else case header_chunk M hexdata of
          None \<Rightarrow> Inl (fails ''deserialization_error'')
        | Some data \<Rightarrow>
            (case header_key_of M data of
               None \<Rightarrow> Inl (fails ''deserialization_error'')
             | Some key \<Rightarrow> if \<not> is_terminal Q (to_header' Q key) then Inl (Reply Null) else Inr data))"

definition do_submit_header :: "code \<Rightarrow> bitcoind_reply" where
  "do_submit_header ec =
     (if is_error ec then Send_Error (translate_bitcoind ec (enumerator bitcoind_errors ''verify_error'')) else Reply Null)"

definition handle_organize_header :: "bool \<Rightarrow> code \<Rightarrow> bitcoind_reply" where
  "handle_organize_header stopped ec = unless stopped (do_submit_header ec)"

definition handle_unsupported_mining :: "bool \<Rightarrow> bitcoind_reply" where
  "handle_unsupported_mining stopped = unless stopped (fails ''client_mempool_disabled'')"

subsection \<open>Control\<close>

text \<open>Whether an argument type is defaulted is a trait of the network library.\<close>

definition usage_of :: "(method_arg \<Rightarrow> bool) \<Rightarrow> method_t \<Rightarrow> string" where
  "usage_of defaulted entry =
     method_name entry @ concat (map (\<lambda>(arg, name).
       if defaulted arg then '' ( '' @ name @ '' )'' else '' '' @ name) (zip (method_args entry) (arg_names entry)))"

definition append_usage :: "(method_arg \<Rightarrow> bool) \<Rightarrow> string \<Rightarrow> string \<Rightarrow> method_t \<Rightarrow> string" where
  "append_usage defaulted command out entry =
     (if \<not> implemented entry \<or> method_name entry \<noteq> command then out else usage_of defaulted entry)"

definition find_usage :: "(method_arg \<Rightarrow> bool) \<Rightarrow> string \<Rightarrow> rpc_interface \<Rightarrow> string \<Rightarrow> string" where
  "find_usage defaulted command methods out = foldl (append_usage defaulted command) out methods"

definition help_tables :: "rpc_interface list" where
  "help_tables = [bitcoind_blockchain_methods, bitcoind_control_methods, bitcoind_mining_methods, bitcoind_network_methods,
     bitcoind_notifications_methods, bitcoind_test_methods, bitcoind_transaction_methods, bitcoind_utility_methods,
     bitcoind_wallet_methods]"

definition handle_help :: "(method_arg \<Rightarrow> bool) \<Rightarrow> string \<Rightarrow> bool \<Rightarrow> string \<Rightarrow> bitcoind_reply" where
  "handle_help defaulted help_names stopped command =
     unless stopped
       (if command = [] then Reply (String help_names)
        else let usage = foldl (\<lambda>out methods. find_usage defaulted command methods out) [] help_tables in
          Reply (String (if usage = [] then ''help: unknown command: '' @ command else usage)))"

definition append_method :: "(method_arg \<Rightarrow> bool) \<Rightarrow> value_t list \<Rightarrow> method_t \<Rightarrow> value_t list" where
  "append_method defaulted out entry =
     (if \<not> implemented entry then out
      else out @ [Object [''name'' \<mapsto> String (method_name entry), ''params'' \<mapsto> Array (map (\<lambda>(arg, name).
        Object [''name'' \<mapsto> String name, ''required'' \<mapsto> Boolean (\<not> defaulted arg)])
          (zip (method_args entry) (arg_names entry)))]])"

definition send_openrpc :: "(method_arg \<Rightarrow> bool) \<Rightarrow> string \<Rightarrow> string \<Rightarrow> bitcoind_reply" where
  "send_openrpc defaulted subversion version =
     Reply (Object
       [''openrpc'' \<mapsto> String ''1.2.6'',
        ''info'' \<mapsto> Object [''title'' \<mapsto> String subversion, ''version'' \<mapsto> String version],
        ''methods'' \<mapsto> Array (foldl (foldl (append_method defaulted)) [] help_tables)])"

definition handle_rpc_discover :: "(method_arg \<Rightarrow> bool) \<Rightarrow> string \<Rightarrow> string \<Rightarrow> bool \<Rightarrow> bitcoind_reply" where
  "handle_rpc_discover defaulted subversion version stopped = unless stopped (send_openrpc defaulted subversion version)"

definition handle_get_memory_info :: "bool \<Rightarrow> string \<Rightarrow> bitcoind_reply" where
  "handle_get_memory_info stopped mode =
     unless stopped
       (if mode \<noteq> ''stats'' then fails ''invalid_parameter''
        else Reply (Object [''locked'' \<mapsto> Object
          [''used'' \<mapsto> U64 0, ''free'' \<mapsto> U64 0, ''total'' \<mapsto> U64 0, ''locked'' \<mapsto> U64 0, ''chunks_used'' \<mapsto> U64 0,
           ''chunks_free'' \<mapsto> U64 0]]))"

definition handle_get_rpc_info :: "string \<Rightarrow> bool \<Rightarrow> bitcoind_reply" where
  "handle_get_rpc_info log_file stopped =
     unless stopped (Reply (Object [''active_commands'' \<mapsto> Array [], ''logpath'' \<mapsto> String log_file]))"

definition log_levels :: "string list" where
  "log_levels = [''application'', ''news'', ''session'', ''protocol'', ''proxy'', ''remote'', ''fault'', ''quitting'',
     ''objects'', ''verbose'']"

definition handle_logging ::
  "(string \<Rightarrow> bool) \<Rightarrow> (string \<Rightarrow> bool) \<Rightarrow> bool \<Rightarrow> value_t list \<Rightarrow> value_t list \<Rightarrow> bitcoind_reply" where
  "handle_logging defined' configured stopped include' exclude =
     unless stopped
       (if include' \<noteq> [] \<or> exclude \<noteq> [] then fails ''invalid_parameter''
        else Reply (Object (map_of (map (\<lambda>level. (level, Boolean (defined' level \<and> configured level))) log_levels))))"

definition handle_uptime :: "u64 \<Rightarrow> u64 \<Rightarrow> bool \<Rightarrow> bitcoind_reply" where
  "handle_uptime zulu start stopped = unless stopped (Reply (U64 (if zulu < start then 0 else zulu - start)))"

definition handle_stop :: "bool \<Rightarrow> bitcoind_reply" where
  "handle_stop stopped = unless stopped (fails ''method_not_found'')"

subsection \<open>Wallet, test and notification methods\<close>

text \<open>Every handler of \<open>protocol_bitcoind_wallet.cpp\<close> and of \<open>protocol_bitcoind_test.cpp\<close> refuses its method.\<close>

definition handle_wallet_method :: "bool \<Rightarrow> bitcoind_reply" where
  "handle_wallet_method stopped = unless stopped (fails ''method_not_found'')"

definition handle_test_method :: "bool \<Rightarrow> bitcoind_reply" where
  "handle_test_method stopped = unless stopped (fails ''method_not_found'')"

definition zmq_notification :: "string \<Rightarrow> string \<Rightarrow> value_t" where
  "zmq_notification bind topic =
     Object [''type'' \<mapsto> String (''pub'' @ topic), ''address'' \<mapsto> String (''tcp://'' @ bind), ''hwm'' \<mapsto> I64 0]"

definition add_zmq_notifications :: "string list \<Rightarrow> value_t list \<Rightarrow> value_t list" where
  "add_zmq_notifications bindings notifications =
     notifications @ concat (map (\<lambda>bind. map (zmq_notification bind)
       [''hashblock'', ''rawblock'', ''hashtx'', ''rawtx'', ''sequence'']) bindings)"

definition handle_get_zmq_notifications :: "string list \<Rightarrow> string list \<Rightarrow> bool \<Rightarrow> bitcoind_reply" where
  "handle_get_zmq_notifications binds safes stopped =
     unless stopped (Reply (Array (add_zmq_notifications safes (add_zmq_notifications binds []))))"

subsection \<open>What the handlers promise\<close>

text \<open>
  An address is valid for validateaddress exactly when an output can be paid to it, as createrawtransaction and the btcd filters do,
  and the reported script is the one that is paid.
\<close>

theorem valid_address_is_payable:
  "(case output_script D pre address of
      Inr script \<Rightarrow> \<exists>object. handle_validate_address D L U pre False address = Reply (Object object) \<and>
        object ''isvalid'' = Some (Boolean True) \<and>
        object ''scriptPubKey'' = Some (String (base16_of L (script_bytes L script)))
    | Inl _ \<Rightarrow> handle_validate_address D L U pre False address = Reply (Object [''isvalid'' \<mapsto> Boolean False]))"
  by (auto simp: output_script_def handle_validate_address_def Let_def split: option.splits if_splits)

text \<open>A loop over indexes ends when one of them derives nothing.\<close>

lemma signing_loop_stops:
  assumes "unat index + n \<le> unat end'" "derive (index + of_nat n) = []"
  shows "signing_loop derive index end' out = Some None"
  using assms
proof (induction n arbitrary: index out)
  case 0
  then show ?case by (subst signing_loop.simps) (simp add: word_le_nat_alt)
next
  case (Suc n)
  have index: "unat (index + 1) = Suc (unat index)"
    using Suc.prems(1) unsigned_less [of end', where ?'a = nat] by (simp add: unat_word_ariths)
  have "signing_loop derive (index + 1) end' out' = Some None" for out'
    using Suc.prems index by (intro Suc.IH) (simp_all add: ac_simps)
  then show ?case using Suc.prems(1) by (subst signing_loop.simps) (simp add: word_le_nat_alt)
qed

text \<open>Where every index derives something and the end is the last index, the counter wraps and the loop does not end.\<close>

lemma signing_loop_wraps:
  assumes "\<And>index. derive index \<noteq> []"
  shows "signing_loop derive index (- 1) out = None"
proof (rule ccontr)
  assume "signing_loop derive index (- 1) out \<noteq> None"
  then obtain result where "signing_loop derive index (- 1) out = Some result" by blast
  then have "(- 1 :: u32) = - 1 \<longrightarrow> (\<exists>i. derive i = [])"
    by (rule signing_loop.raw_induct [of "\<lambda>derive index end' out result. end' = - 1 \<longrightarrow> (\<exists>i. derive i = [])", rotated])
      (fastforce split: if_splits)
  then show False using assms by simp
qed

lemma concat_singletons:
  "(\<forall>x \<in> set xs. f x \<noteq> []) \<Longrightarrow> concat (map (\<lambda>x. if f x = [] then [] else [f x]) xs) = map f xs"
  by (induction xs) simp_all

definition derive_laws :: "('p, 'w, 's, 'd) utility_lib \<Rightarrow> bool" where
  "derive_laws U \<longleftrightarrow> (\<forall>parsed index. bit index 31 \<longrightarrow> scripts_at U parsed index = [])"

text \<open>The indexes the client asks for: those of its span for a ranged descriptor, and the first one for another.\<close>

definition requested_range :: "('d, 'g) derive_lib \<Rightarrow> bool \<Rightarrow> value_t option \<Rightarrow> (nat \<times> nat) option" where
  "requested_range X is_range span' =
     (if \<not> is_range then (if span' = None then Some (0, 0) else None)
      else case span' of
          Some (Number limit) \<Rightarrow> map_option (\<lambda>e. (0, unat e)) (scan_u32 X limit)
        | Some (Array [Number low, Number high]) \<Rightarrow>
            (case (scan_u32 X low, scan_u32 X high) of
               (Some b, Some e) \<Rightarrow> if unat b \<le> unat e then Some (unat b, unat e) else None
             | _ \<Rightarrow> None)
        | _ \<Rightarrow> None)"

lemma requested_range_parsed:
  "requested_range X is_range span' =
     (if is_range \<noteq> (span' \<noteq> None) then None
      else map_option (map_prod unat unat)
        (case span' of None \<Rightarrow> Some (0, 0) | Some given \<Rightarrow> parse_scan_range X 0 given))"
  by (auto simp: requested_range_def parse_scan_range_def word_le_nat_alt option.map_comp comp_def
      split: option.splits value_t.splits list.splits)

lemma parse_scan_range_ordered: "parse_scan_range X 0 given = Some (begin', end') \<Longrightarrow> begin' \<le> end'"
  by (auto simp: parse_scan_range_def split: value_t.splits option.splits list.splits if_splits)

lemma range_limit:
  "begin' \<le> (end' :: u32) \<Longrightarrow>
   (if end' < begin' then 0 else end' - begin') \<ge> maximum_addresses \<longleftrightarrow> 10000 \<le> unat end' - unat begin'"
  by (simp add: maximum_addresses_def word_le_nat_alt word_less_nat_alt unat_sub)

text \<open>The loop ends with the addresses of its indexes, or none where an index has no address.\<close>

lemma address_loop:
  assumes "derive_laws U" "begin' \<le> (end' :: u32)"
  shows "signing_loop (\<lambda>index. if address_at D U pre parsed index = [] then [] else [address_at D U pre parsed index])
      begin' end' [] =
    (let addresses = map (\<lambda>i. address_at D U pre parsed (of_nat i)) [unat begin'..<Suc (unat end')] in
     Some (if [] \<in> set addresses then None else Some addresses))" (is "signing_loop ?derive _ _ _ = _")
proof (cases "bit end' 31")
  case True
  then have "address_at D U pre parsed end' = []" using assms(1) by (simp add: derive_laws_def address_at_def)
  then have "?derive (begin' + of_nat (unat end' - unat begin')) = []"
    and none: "[] \<in> set (map (\<lambda>i. address_at D U pre parsed (of_nat i)) [unat begin'..<Suc (unat end')])"
    using assms(2) by (auto simp: word_le_nat_alt of_nat_diff image_iff intro!: bexI [of _ "unat end'"])
  then have "signing_loop ?derive begin' end' [] = Some None"
    using assms(2) signing_loop_stops [of begin' "unat end' - unat begin'" end' ?derive] by (simp add: word_le_nat_alt)
  then show ?thesis using none by (simp only: Let_def if_True)
next
  case False
  then have "unat end' < 2 ^ 32 - 1" using top_bit_clear [of end'] by simp
  note runs = signing_loop_runs [OF this refl, of ?derive begin' "[]"]
  have "(\<forall>i \<in> set [unat begin'..<Suc (unat end')]. ?derive (of_nat i) \<noteq> []) \<longleftrightarrow>
      [] \<notin> set (map (\<lambda>i. address_at D U pre parsed (of_nat i)) [unat begin'..<Suc (unat end')])"
    by (auto simp: image_iff simp del: upt_Suc set_upt)
  moreover have "concat (map (\<lambda>i. ?derive (of_nat i)) [unat begin'..<Suc (unat end')]) =
      map (\<lambda>i. address_at D U pre parsed (of_nat i)) [unat begin'..<Suc (unat end')]"
    if "[] \<notin> set (map (\<lambda>i. address_at D U pre parsed (of_nat i)) [unat begin'..<Suc (unat end')])"
    using that by (intro concat_singletons) (auto simp: image_iff simp del: upt_Suc set_upt)
  ultimately show ?thesis unfolding runs Let_def by simp
qed

text \<open>
  C32: Where the library derives no script at an index whose top bit is set, deriveaddresses always replies, whatever
  range the client sends. The reply is the addresses of all indexes of the range the client sent, in order, both ends
  included (the first index alone for a descriptor without range); it is an invalid parameter error where the range is
  missing, unexpected, malformed, reversed or spans more than ten thousand indexes, and an invalid address
  error where the descriptor is invalid or some index of the range has no address.
\<close>

theorem derive_addresses_ends:
  assumes "derive_laws U"
  shows "handle_derive_addresses D X U pre stopped expression span' = Some
    (if stopped then No_Reply
     else case parse_descriptor X expression of
         None \<Rightarrow> fails ''invalid_address_or_key''
       | Some parsed \<Rightarrow>
           (case requested_range X (ranged X parsed) span' of
              None \<Rightarrow> fails ''invalid_parameter''
            | Some (low, high) \<Rightarrow>
                let addresses = map (\<lambda>i. address_at D U pre parsed (of_nat i)) [low..<Suc high] in
                if 10000 \<le> high - low then fails ''invalid_parameter''
                else if [] \<in> set addresses then fails ''invalid_address_or_key''
                else Reply (Array (map String addresses))))"
proof (cases "parse_descriptor X expression")
  case parsed: (Some parsed)
  let ?span = "case span' of None \<Rightarrow> Some (0, 0) | Some given \<Rightarrow> parse_scan_range X 0 given"
  show ?thesis
  proof (cases ?span)
    case None
    then show ?thesis using parsed by (simp add: handle_derive_addresses_def requested_range_parsed)
  next
    case (Some range')
    then obtain begin' end' where given: "?span = Some (begin', end')" by (cases range') auto
    then have le: "begin' \<le> end'" using parse_scan_range_ordered by (auto split: option.splits)
    have "requested_range X (ranged X parsed) span' =
        (if ranged X parsed \<noteq> (span' \<noteq> None) then None else Some (unat begin', unat end'))"
      using given by (cases span') (simp_all add: requested_range_parsed)
    then show ?thesis using parsed given
      by (auto simp: handle_derive_addresses_def range_limit [OF le] address_loop [OF assms le] Let_def
          simp del: upt_Suc)
  qed
qed (simp add: handle_derive_addresses_def)

text \<open>
  Sample: a descriptor derives a script at every index below the top bit, and every script has a text address.
\<close>

definition sample_utility :: "(nat, nat, u8 list, nat) utility_lib" where
  "sample_utility = \<lparr>chunk_of_hex = (\<lambda>t. None), script_of = (\<lambda>d. d), decodable = (\<lambda>s. True), pays_witness_or_data = (\<lambda>s. False),
     script_hash_address = (\<lambda>s p. []), witness_wrapped = (\<lambda>s. s), witness_encoded = (\<lambda>w. []), witness_version0_p2sh = (\<lambda>w. False),
     witness_version = (\<lambda>w. 0), witness_bytes = (\<lambda>w. []), count_u8 = (\<lambda>d. None), sha256 = (\<lambda>d. d),
     scripts_at = (\<lambda>p i. if bit i 31 then [] else [[ucast i]]), descriptor_text = (\<lambda>p. []), descriptor_sum = (\<lambda>p. []),
     solvable = (\<lambda>p. True), has_private_keys = (\<lambda>p. False), base64_chunk = (\<lambda>t. None), message_signature_size = 65,
     message_verified = (\<lambda>m p s. False), maximum_horizon = 1008, to_lower = (\<lambda>t. t), fee_rate_of = (\<lambda>f. 0)\<rparr>"

definition sample_derive :: "(nat, nat) derive_lib" where
  "sample_derive = \<lparr>parse_descriptor = (\<lambda>t. Some 0), ranged = (\<lambda>p. True), signings = (\<lambda>p i. [0]), scan_u32 = (\<lambda>d. Some (ucast d))\<rparr>"

definition paying_addresses :: "(nat, nat, u8 list) address_lib" where
  "paying_addresses = sample_addresses\<lparr>extract_output := (\<lambda>s a b. Some (unat (hd s))),
     payment_encoded := (\<lambda>p. ''1'' @ (if p = 2 then ''a'' else if p = 3 then ''b'' else ''c''))\<rparr>"

theorem derive_addresses_ends_witness:
  "handle_derive_addresses paying_addresses sample_derive sample_utility sample_prefixes False ''d''
      (Some (Array [Number 2, Number 4])) = Some (Reply (Array [String ''1a'', String ''1b'', String ''1c''])) \<and>
   handle_derive_addresses paying_addresses sample_derive sample_utility sample_prefixes False ''d''
      (Some (Array [Number 4294967295, Number 4294967295])) = Some (fails ''invalid_address_or_key'')"
proof -
  have laws: "derive_laws sample_utility" by (simp add: derive_laws_def sample_utility_def)
  have spans: "requested_range sample_derive True (Some (Array [Number 2, Number 4])) = Some (2, 4)"
    "requested_range sample_derive True (Some (Array [Number 4294967295, Number 4294967295])) =
      Some (4294967295, 4294967295)"
    by (simp_all add: requested_range_def sample_derive_def)
  have at: "address_at paying_addresses sample_utility sample_prefixes 0 2 = ''1a''"
    "address_at paying_addresses sample_utility sample_prefixes 0 3 = ''1b''"
    "address_at paying_addresses sample_utility sample_prefixes 0 4 = ''1c''"
    "address_at paying_addresses sample_utility sample_prefixes 0 4294967295 = []"
    by (simp_all add: address_at_def sample_utility_def paying_addresses_def sample_addresses_def to_address_def
        bit_simps)
  have "parse_descriptor sample_derive ''d'' = Some 0" "ranged sample_derive 0" by (simp_all add: sample_derive_def)
  then show ?thesis
    using derive_addresses_ends [OF laws, of paying_addresses sample_derive sample_prefixes False "''d''"
        "Some (Array [Number 2, Number 4])"]
      derive_addresses_ends [OF laws, of paying_addresses sample_derive sample_prefixes False "''d''"
        "Some (Array [Number 4294967295, Number 4294967295])"]
    by (simp add: spans at upt_rec)
qed

subsection \<open>Hash rate\<close>

text \<open>The window never reaches past the genesis block, and the rate is over the extent of its timestamps.\<close>

lemma hash_window_bounds: "hash_window L M top' nblocks height = Some (target, window) \<Longrightarrow> window \<le> target \<and> target \<le> top'"
  by (auto simp: hash_window_def min_le_iff_disj split: option.splits if_splits)

lemma timespan_extent:
  "timespan Q branch minimum maximum = Some (least, greatest) \<Longrightarrow>
    least \<le> minimum \<and> maximum \<le> greatest \<and>
    (\<forall>ancestor \<in> set branch. \<exists>header. header_of Q ancestor = Some header \<and> least \<le> timestamp header \<and> timestamp header \<le> greatest)"
  by (induction branch arbitrary: minimum maximum) (fastforce split: option.splits)+

subsection \<open>Help\<close>

lemma find_usage_append:
  "foldl (\<lambda>out methods. find_usage defaulted command methods out) out tables =
    foldl (append_usage defaulted command) out (concat tables)"
  by (induction tables arbitrary: out) (simp_all add: find_usage_def)

lemma append_usage_last:
  "foldl (append_usage defaulted command) out methods =
    (case find (\<lambda>m. implemented m \<and> method_name m = command) (rev methods) of Some m \<Rightarrow> usage_of defaulted m | None \<Rightarrow> out)"
proof (induction methods rule: rev_induct)
  case (snoc m methods)
  then show ?case by (simp add: append_usage_def)
qed simp

text \<open>
  Help for a command describes the implemented method of that name, the last one in the tables, with its arguments in order and the defaulted
  ones in parentheses, and reports every other command, unimplemented methods included, as unknown.
\<close>

theorem help_describes_implemented:
  "handle_help defaulted help_names False (c # command) = Reply (String
     (case find (\<lambda>m. implemented m \<and> method_name m = c # command) (rev (concat help_tables)) of
        Some m \<Rightarrow> method_name m @ concat (map (\<lambda>(arg, name).
          if defaulted arg then '' ( '' @ name @ '' )'' else '' '' @ name) (zip (method_args m) (arg_names m)))
      | None \<Rightarrow> ''help: unknown command: '' @ c # command))"
proof (cases "find (\<lambda>m. implemented m \<and> method_name m = c # command) (rev (concat help_tables))")
  case None
  then show ?thesis by (simp add: handle_help_def find_usage_append append_usage_last)
next
  case (Some m)
  then have "method_name m = c # command" by (auto simp: find_Some_iff)
  then have "usage_of defaulted m \<noteq> []" by (simp add: usage_of_def)
  then show ?thesis using Some by (simp add: handle_help_def find_usage_append append_usage_last usage_of_def [symmetric])
qed

end
