(* ===== verification/Node_Start.thy ===== *)
theory Node_Start
  imports Errors
begin

text \<open>
  The start sequence of the services, \<open>server_node.cpp\<close>. Once the node runs, each start function either
  hands its code to the handler or attaches and starts its session, whose completion is the next function.
\<close>

datatype node_service =
    Admin | Native | Bitcoind | Btcd | Electrum | Sparrow | Esplora | Stratum_V1 | Stratum_V2 | Bitcoind_Zmq

text \<open>What awaits a code: the node, a session that has been started, or nothing.\<close>

datatype awaiting = Node | Session node_service | Nothing

record start_state =
  awaiting :: awaiting
  sessions :: "node_service list"
  handled :: "code list"

definition call_handler :: "code \<Rightarrow> start_state \<Rightarrow> start_state" where
  "call_handler ec s = s\<lparr>awaiting := Nothing, handled := handled s @ [ec]\<rparr>"

definition attach_session :: "node_service \<Rightarrow> start_state \<Rightarrow> start_state" where
  "attach_session attached s = s\<lparr>awaiting := Session attached, sessions := sessions s @ [attached]\<rparr>"

definition do_run :: start_state where
  "do_run = \<lparr>awaiting = Node, sessions = [], handled = []\<rparr>"

definition start_admin :: "code \<Rightarrow> start_state \<Rightarrow> start_state" where
  "start_admin ec s = (if is_error ec then call_handler ec s else attach_session Admin s)"

definition start_native :: "code \<Rightarrow> start_state \<Rightarrow> start_state" where
  "start_native ec s = (if is_error ec then call_handler ec s else attach_session Native s)"

definition start_bitcoind :: "code \<Rightarrow> start_state \<Rightarrow> start_state" where
  "start_bitcoind ec s = (if is_error ec then call_handler ec s else attach_session Bitcoind s)"

definition start_btcd :: "code \<Rightarrow> start_state \<Rightarrow> start_state" where
  "start_btcd ec s = (if is_error ec then call_handler ec s else attach_session Btcd s)"

definition start_electrum :: "code \<Rightarrow> start_state \<Rightarrow> start_state" where
  "start_electrum ec s = (if is_error ec then call_handler ec s else attach_session Electrum s)"

definition start_sparrow :: "code \<Rightarrow> start_state \<Rightarrow> start_state" where
  "start_sparrow ec s = (if is_error ec then call_handler ec s else attach_session Sparrow s)"

definition start_esplora :: "code \<Rightarrow> start_state \<Rightarrow> start_state" where
  "start_esplora ec s = (if is_error ec then call_handler ec s else attach_session Esplora s)"

definition start_stratum_v1 :: "code \<Rightarrow> start_state \<Rightarrow> start_state" where
  "start_stratum_v1 ec s = (if is_error ec then call_handler ec s else attach_session Stratum_V1 s)"

definition start_stratum_v2 :: "code \<Rightarrow> start_state \<Rightarrow> start_state" where
  "start_stratum_v2 ec s = (if is_error ec then call_handler ec s else attach_session Stratum_V2 s)"

definition start_bitcoind_zmq :: "code \<Rightarrow> start_state \<Rightarrow> start_state" where
  "start_bitcoind_zmq ec s = (if is_error ec then call_handler ec s else attach_session Bitcoind_Zmq s)"

text \<open>The completion bound to the start of each session.\<close>

fun completion :: "node_service \<Rightarrow> code \<Rightarrow> start_state \<Rightarrow> start_state" where
  "completion Admin = start_native"
| "completion Native = start_bitcoind"
| "completion Bitcoind = start_btcd"
| "completion Btcd = start_electrum"
| "completion Electrum = start_sparrow"
| "completion Sparrow = start_esplora"
| "completion Esplora = start_stratum_v1"
| "completion Stratum_V1 = start_stratum_v2"
| "completion Stratum_V2 = start_bitcoind_zmq"
| "completion Bitcoind_Zmq = call_handler"

definition deliver_code :: "start_state \<Rightarrow> code \<Rightarrow> start_state" where
  "deliver_code s ec =
     (case awaiting s of
        Node \<Rightarrow> start_admin ec s
      | Session started \<Rightarrow> completion started ec s
      | Nothing \<Rightarrow> s)"

definition start_run :: "code list \<Rightarrow> start_state" where
  "start_run = foldl deliver_code do_run"

text \<open>The order of the services, and what the codes of the completions in order amount to.\<close>

definition services :: "node_service list" where
  "services = [Admin, Native, Bitcoind, Btcd, Electrum, Sparrow, Esplora, Stratum_V1, Stratum_V2, Bitcoind_Zmq]"

definition start_result :: "nat \<Rightarrow> code list \<Rightarrow> code list" where
  "start_result n codes =
     (case find is_error (take n codes) of
        Some ec \<Rightarrow> [ec]
      | None \<Rightarrow> if length codes \<ge> n then [codes ! (n - 1)] else [])"

lemmas start_defs = start_admin_def start_native_def start_bitcoind_def start_btcd_def start_electrum_def start_sparrow_def
  start_esplora_def start_stratum_v1_def start_stratum_v2_def start_bitcoind_zmq_def

text \<open>The function that takes a code after n successful ones.\<close>

definition starter :: "nat \<Rightarrow> awaiting" where
  "starter n = (if n = 0 then Node else if n \<le> 10 then Session (services ! (n - 1)) else Nothing)"

lemma length_services: "length services = 10"
  by (simp add: services_def)

lemma deliver_starter:
  assumes "awaiting s = starter n" "n \<le> 10"
  shows "deliver_code s ec = (if is_error ec \<or> n = 10 then call_handler ec s else attach_session (services ! n) s)"
proof -
  have "\<forall>n \<in> set [0..<11]. awaiting s = starter n \<longrightarrow>
      deliver_code s ec = (if is_error ec \<or> n = 10 then call_handler ec s else attach_session (services ! n) s)"
    by (simp add: upt_rec deliver_code_def starter_def services_def start_defs)
  then show ?thesis using assms by simp
qed

lemma deliver_settled: "awaiting s = Nothing \<Longrightarrow> foldl deliver_code s codes = s"
  by (induction codes) (simp_all add: deliver_code_def)

lemma start_result_Cons:
  "start_result (Suc n) (ec # codes) = (if is_error ec \<or> n = 0 then [ec] else start_result n codes)"
  by (cases n) (auto simp: start_result_def split: option.splits)

lemma deliver_codes:
  assumes "awaiting s = starter n" "n \<le> 10" "sessions s = take n services" "handled s = []"
  shows "sessions (foldl deliver_code s codes) = take (n + length (takeWhile (\<lambda>ec. \<not> is_error ec) codes)) services \<and>
    handled (foldl deliver_code s codes) = start_result (11 - n) codes"
  using assms
proof (induction codes arbitrary: s n)
  case Nil
  then show ?case by (simp add: start_result_def)
next
  case (Cons ec codes)
  have left: "11 - n = Suc (10 - n)" using Cons.prems(2) by simp
  note step = deliver_starter [OF Cons.prems(1,2), of ec]
  show ?case
  proof (cases "is_error ec \<or> n = 10")
    case True
    then have "foldl deliver_code s (ec # codes) = call_handler ec s"
      using step deliver_settled [of "call_handler ec s" codes] by (auto simp: call_handler_def)
    then show ?thesis using True Cons.prems length_services unfolding left start_result_Cons by (auto simp: call_handler_def)
  next
    case False
    let ?s = "attach_session (services ! n) s"
    from False have less: "n < 10" using Cons.prems(2) by simp
    then have "awaiting ?s = starter (Suc n)" "sessions ?s = take (Suc n) services" "handled ?s = []"
      using Cons.prems(3,4) by (simp_all add: attach_session_def starter_def take_Suc_conv_app_nth length_services)
    from Cons.IH [OF this(1) _ this(2,3)] less step False show ?thesis
      unfolding left start_result_Cons by simp
  qed
qed

lemma start_result_length: "length (start_result n codes) \<le> 1"
  by (simp add: start_result_def split: option.splits)

lemma start_result_none: "start_result n codes = [] \<longleftrightarrow> length codes < n \<and> find is_error codes = None"
  by (auto simp: start_result_def not_le split: option.splits)

text \<open>
  C33: Whatever codes the node and the sessions complete with, the sessions are started in their fixed order, each
  after the success of the one before, and none after an error. The handler is called at most once: with the first error as
  soon as there is one, or with the code of the last session; it is not called only as long as fewer than the eleven completions
  have succeeded.
\<close>

theorem node_start:
  "sessions (start_run codes) = take (length (takeWhile (\<lambda>ec. \<not> is_error ec) codes)) services \<and>
   handled (start_run codes) = start_result 11 codes \<and> length (handled (start_run codes)) \<le> 1 \<and>
   (handled (start_run codes) = [] \<longleftrightarrow> length codes < 11 \<and> find is_error codes = None)"
  using deliver_codes [of do_run 0 codes] start_result_length start_result_none
  by (simp add: start_run_def do_run_def starter_def)

end
