(* ===== verification/Spec2Isabelle.thy ===== *)
theory Spec2Isabelle
  imports Native_Target Esplora_Target Bitcoind_Target Merkle Electrum_Handshake Electrum_Headers Zmq
    Btcd_Matching Rpc_Dispatch Rpc_Sender Admin_Filter Descriptor Sparrow Electrum_Methods
    Bitcoind_Wait Bitcoind_Mempool Bitcoind_Transaction Bitcoind_Utility Node_Start
begin

text \<open>
  A verification library for the bitcoin server: the json-rpc, REST and websocket services of
  libbitcoin-server over the archive of a node.

  \<^bold>\<open>The program.\<close> A connection is accepted by a session (\<open>include/bitcoin/server/sessions\<close>), which attaches
  one or more protocols to its channel. A request reaches a protocol as a json-rpc body (bitcoind, btcd,
  electrum, sparrow), as a url (native, admin, esplora and the bitcoind REST paths, parsed under
  \<open>src/parsers\<close>), or as a websocket frame of either. It is dispatched to the handler of its method
  (\<open>include/bitcoin/server/interfaces\<close>), which runs on the strand of the channel, reads the archive and
  replies. Subscriptions are kept by jobs of a second strand, the notification strand, to which
  handlers and chase events of the node post.

  \<^bold>\<open>Conventions.\<close> A handler or job is a function from the state it may change and the archive view it reads to
  the new state and what it sends or posts; every early return of the code is a branch. The archive changes
  between jobs, so each takes its own view. A \<open>stopped\<close> flag that a loop reads is a predicate on the number of
  reads. Numbers have the width of the code (\<open>u8\<close>, \<open>u32\<close>, \<open>u64\<close>); sizes of containers are \<open>nat\<close>, since a
  container of the program has less than \<open>2\<^sup>6\<^sup>3\<close> elements. Json numbers (\<open>double\<close>) are passed to conversions of
  the system library and never computed with. \<open>std::map\<close> is the ordered association list of \<open>Std_Map\<close>.
  Functions of the system, network, database and node libraries, which are not part of the repository, are
  the fields of records (\<open>text_lib\<close>, \<open>subscribe_lib\<close>, \<open>word_lib\<close>, and so on); what a theorem relies on is a named
  predicate on the record (\<open>lib_ok\<close>, \<open>word_laws\<close>, \<open>btcd_laws\<close>, and so on), and a sample record shows that it can hold.

  \<^bold>\<open>Theories.\<close>
  \<^item> \<open>Prelude\<close>, \<open>Rpc_Model\<close>, \<open>Std_Map\<close>, \<open>Routes\<close>, \<open>Sample_Lib\<close>: machine types, result values, json-rpc values and
    requests, the server codes of \<open>error_t.hpp\<close>, ordered maps with the interface \<open>keyed_store\<close>, route tables
    as the specification of url parsers, and a concrete text library.
  \<^item> \<open>Native_Target\<close>, \<open>Esplora_Target\<close>, \<open>Bitcoind_Target\<close>: the url parsers of \<open>src/parsers\<close>, every branch with its
    error code. A path is accepted exactly when a route of the table matches it, with the params of that
    route, and an accepted request fits the method it names in the interface.
  \<^item> \<open>Url_Dispatch\<close>: the query string parsers and the chain of checks of the url protocols from a request to
    the dispatcher or an embedded page: unauthorized requests are never dispatched, and a dispatched call has
    the arguments its handler reads.
  \<^item> \<open>Interfaces\<close>: the method tuples of the json-rpc services. Names are unique within a service and its
    attached protocols, and defaults have the declared types.
  \<^item> \<open>Rpc_Dispatch\<close>, \<open>Rpc_Sender\<close>: dispatch of a request through the protocols attached to one channel with the
    claim latch (interface \<open>latched\<close>), and the framing of responses. A request is served by the first
    protocol that owns its method, at most once, and by none before the checks pass; a response is framed
    by the call it answers.
  \<^item> \<open>Errors\<close>: the electrum, btcd and bitcoind codes, their texts and tokens, and the translation of
    codes of other components into the space of a service (interface \<open>code_translator\<close>).
  \<^item> \<open>Electrum_Version\<close>, \<open>Electrum_Handshake\<close>: protocol versions, normalization of requests and the handshake
    as a state machine: the negotiated version is the greatest of the overlap and never changes again.
  \<^item> \<open>Electrum_Subscribe\<close>, \<open>Electrum_Headers\<close>: address, outpoint and header subscriptions as jobs of the
    notification strand. The incremental status of an address refines the status of its whole
    history, a notification is sent exactly for a change, and the subscriptions are limited.
  \<^item> \<open>Sparrow\<close>: silent payment subscriptions. No event is lost by the coalescing flag, and every row from the
    floor of a subscription to its cursor is notified exactly once.
  \<^item> \<open>Address\<close>, \<open>Btcd_Watch\<close>, \<open>Btcd_Limits\<close>, \<open>Btcd_Matching\<close>: the watch-lists, rescans and searches of the btcd
    service; the limit on watches is an invariant of all jobs, a rescan reports exactly the matching
    blocks, and a watched payment and its spend are reported.
  \<^item> \<open>Zmq\<close>: the zmq publisher of bitcoind: demand for wire data is balanced over all subscriptions, and
    sequence numbers of a topic have no gaps.
  \<^item> \<open>Admin_Filter\<close>: the atomic filter word of log and event streams: at most one handler is subscribed.
  \<^item> \<open>Merkle\<close>: partial merkle trees (bip37): a proof round trips, and whatever an accepted proof reports is in
    the block. The recursion is on the height, at most 63 since a block has less than \<open>2\<^sup>6\<^sup>3\<close> transactions.
  \<^item> \<open>Descriptor\<close>: output descriptors and the bip380 checksum over 64 bit words; errors within two
    adjacent groups of three characters are always detected.

  \<^item> \<open>Chain_Util\<close>: the mempool file with its obfuscation, median times and fee histograms. A saved file is read back, and a
    histogram has descending rates and counts every size once.
  \<^item> \<open>Electrum_Methods\<close>: the other electrum requests, each with the window of protocol versions it is served in; a
    request outside its window has no effect, and a merkle reply verifies against the root.
  \<^item> \<open>Bitcoind_Proof\<close>, \<open>Bitcoind_Wait\<close>: transaction proofs over \<open>Merkle\<close>, and the waits for blocks as a state machine over
    events and timers in which each wait is answered once and not before its condition.
  \<^item> \<open>Block_Stats\<close>, \<open>Bitcoind_Unspent\<close>, \<open>Bitcoind_Chain\<close>, \<open>Bitcoind_Mempool\<close>: the blockchain handlers of bitcoind. Percentiles
    are those of the definition over weights, the scan of the unspent set is the same with and without the address index, block scans and
    descriptor activity are exact, the expansion of a scan object always ends, and a saved mempool is imported in order.
  \<^item> \<open>Bitcoind_Assembly\<close>, \<open>Bitcoind_Transaction\<close>: creating, combining and submitting transactions, and partially signed
    transactions. A combination has only verified endorsements in key order, and all that are needed where the
    variants have them; an update from descriptors is idempotent.
  \<^item> \<open>Bitcoind_Utility\<close>: utility, mining and control methods, and the methods that are refused. Deriving addresses ends for
    every range where the library derives nothing at an index with the top bit, and help describes the implemented methods.
  \<^item> \<open>Node_Start\<close>: the chain of start functions of the services; the handler is called exactly once.

  A loop that the source does not bound is a \<open>partial_function\<close> with the value None where it does not end
  (\<open>signing_loop\<close>), and the theorems about it show a result. Other recursions are structural or on the height of a tree.

  \<^bold>\<open>Not modelled.\<close> The option tables of \<open>src/parser.cpp\<close> and \<open>settings\<close>, the console application, embedded pages
  and the icon are data or input and output. The handlers behind the REST, esplora and native urls and the btcd utility
  handlers fetch a value of the archive and serialize it; their requests are followed up to the call (\<open>Url_Dispatch\<close>,
  \<open>Rpc_Dispatch\<close>), and the serialization of library objects to json, \<open>decodepsbt\<close> included, would restate library
  parameters. The network methods of bitcoind report the state of the network library. Stratum has no behaviour yet. Strands
  are executed job by job, so data races inside a job and the timing of the network library are outside of the model.
\<close>

end
